(* ===== verification/Prelude.thy ===== *)
theory Prelude
  imports Complex_Main "HOL-Library.AList"
begin

text \<open>
  Generic material shared by every component: Python exceptions as values of a sum type, the
  sequencing of fallible computations, and Python dictionaries.

  A Python \<^verbatim>\<open>dict\<close> keeps its insertion order, and the program iterates over dictionaries
  (\<^verbatim>\<open>configured_symbols\<close>, \<^verbatim>\<open>get_open_orders\<close>, the sums of \<^verbatim>\<open>get_account_state\<close>), so a dictionary
  is an association list: \<open>AList.update\<close> overwrites in place or appends at the end and
  \<open>AList.delete\<close> removes, exactly as \<^verbatim>\<open>d[k] = v\<close> and \<^verbatim>\<open>d.pop(k, None)\<close> do.
\<close>

named_theorems py_simps \<open>rules for results, dictionaries and rounding\<close>

subsection \<open>Exceptions as values\<close>

datatype py_error =
    ValueError
  | ValidationError
  | ConfigError
  | KeyError
  | LookupError
  | RuntimeError
  | NotImplementedError
  | InvalidOperation
  | DivisionByZero
  | ZeroDivisionError
  | FeeRatesUnavailableError
  | ExecutionTimeoutError
  | AdapterError
  | SnapshotRejectedError
  | IntegrityError
  | SQLAlchemyError
  | BotRunAlreadyActiveError
  | GPTRequestError

type_synonym 'a result = "py_error + 'a"

definition bindE :: "'e + 'a \<Rightarrow> ('a \<Rightarrow> 'e + 'b) \<Rightarrow> 'e + 'b" where
  "bindE m f = (case m of Inl e \<Rightarrow> Inl e | Inr x \<Rightarrow> f x)"

lemma bindE_simps [simp, py_simps]:
  "bindE (Inl e) f = Inl e" "bindE (Inr x) f = f x"
  by (simp_all add: bindE_def)

lemma map_sum_Inr_iff: "map_sum f g m = Inr y \<longleftrightarrow> (\<exists>x. m = Inr x \<and> y = g x)"
  by (cases m) auto

lemma bindE_Inr_iff [py_simps]: "bindE m f = Inr y \<longleftrightarrow> (\<exists>x. m = Inr x \<and> f x = Inr y)"
  by (cases m) simp_all

lemma bindE_Inl_iff: "bindE m f = Inl e \<longleftrightarrow> m = Inl e \<or> (\<exists>x. m = Inr x \<and> f x = Inl e)"
  by (cases m) auto

lemma if_Inl_Inr_iff [py_simps]:
  "(if c then Inl e else m) = Inr x \<longleftrightarrow> \<not> c \<and> m = Inr x"
  by simp

lemma if_Inr_Inl_iff [py_simps]:
  "(if c then Inl e else Inr x) = Inl e' \<longleftrightarrow> c \<and> e' = e"
  by auto

subsection \<open>Python dictionaries\<close>

type_synonym ('k, 'v) dict = "('k \<times> 'v) list"

abbreviation dict_get :: "('k, 'v) dict \<Rightarrow> 'k \<Rightarrow> 'v option" where
  "dict_get \<equiv> map_of"

abbreviation dict_set :: "'k \<Rightarrow> 'v \<Rightarrow> ('k, 'v) dict \<Rightarrow> ('k, 'v) dict" where
  "dict_set \<equiv> AList.update"

abbreviation dict_pop :: "'k \<Rightarrow> ('k, 'v) dict \<Rightarrow> ('k, 'v) dict" where
  "dict_pop \<equiv> AList.delete"

abbreviation dict_keys :: "('k, 'v) dict \<Rightarrow> 'k list" where
  "dict_keys \<equiv> map fst"

abbreviation dict_values :: "('k, 'v) dict \<Rightarrow> 'v list" where
  "dict_values \<equiv> map snd"

lemma dict_get_set [simp, py_simps]:
  "dict_get (dict_set k v d) k' = (if k' = k then Some v else dict_get d k')"
  by (simp add: update_conv')

lemma dict_get_pop [simp, py_simps]:
  "dict_get (dict_pop k d) k' = (if k' = k then None else dict_get d k')"
  by (simp add: delete_conv')

lemma dict_keys_set [simp]:
  "set (dict_keys (dict_set k v d)) = insert k (set (dict_keys d))"
  using dom_update [of k v d] by auto

lemma dict_keys_pop [simp]:
  "set (dict_keys (dict_pop k d)) = set (dict_keys d) - {k}"
  by (auto simp: delete_keys)

lemma distinct_dict_pop: "distinct (dict_keys d) \<Longrightarrow> distinct (dict_keys (dict_pop k d))"
  by (rule distinct_delete)

lemma distinct_dict_set: "distinct (dict_keys d) \<Longrightarrow> distinct (dict_keys (dict_set k v d))"
  by (rule distinct_update)

lemma set_dict_setD: "x \<in> set (dict_set k v d) \<Longrightarrow> x = (k, v) \<or> x \<in> set d"
  by (induction d) (auto split: if_splits)

lemma set_dict_popD: "x \<in> set (dict_pop k d) \<Longrightarrow> x \<in> set d"
  by (auto simp: AList.delete_eq)

lemma dict_values_set_subset:
  "set (dict_values (dict_set k v d)) \<subseteq> insert v (set (dict_values d))"
  by (induction d) auto

lemma dict_values_pop_subset: "set (dict_values (dict_pop k d)) \<subseteq> set (dict_values d)"
  by (auto simp: AList.delete_eq)

lemma dict_values_setD:
  "x \<in> set (dict_values (dict_set k v d)) \<Longrightarrow> x = v \<or> x \<in> set (dict_values d)"
  using dict_values_set_subset [of k v d] by auto

lemma dict_values_popD: "x \<in> set (dict_values (dict_pop k d)) \<Longrightarrow> x \<in> set (dict_values d)"
  using dict_values_pop_subset [of k d] by auto

lemma dict_get_valuesI: "dict_get d k = Some v \<Longrightarrow> v \<in> set (dict_values d)"
  by (force dest: map_of_SomeD)

lemma dict_get_None_iff: "dict_get d k = None \<longleftrightarrow> k \<notin> set (dict_keys d)"
  by (simp add: map_of_eq_None_iff)

subsection \<open>Optional values\<close>

definition opt_or :: "'a option \<Rightarrow> 'a option \<Rightarrow> 'a option" where
  "opt_or a b = (case a of None \<Rightarrow> b | Some x \<Rightarrow> Some x)"

lemma opt_or_simps [simp, py_simps]: "opt_or None b = b" "opt_or (Some x) b = Some x"
  by (simp_all add: opt_or_def)

end
