(* ===== verification/PyNumbers.thy ===== *)
theory PyNumbers
  imports Prelude "HOL-Library.Log_Nat"
begin

text \<open>
  The two number systems of the program, with their rounding written out.

  \<^item> A Python \<^verbatim>\<open>float\<close> is an IEEE-754 binary64 value: a rational that \<open>fl\<close> leaves unchanged. Every
    operation rounds its exact result to 53 significant bits, ties to even, with the subnormal
    exponent bound \<open>-1074\<close>. Infinities, NaN and the overflow threshold (about \<open>1.8e308\<close>) are outside
    the model.
  \<^item> A \<^verbatim>\<open>decimal.Decimal\<close> under the default context rounds to 28 significant decimal digits, ties to
    even, with least exponent \<open>-1000026\<close>. Signalling overflow above \<open>10^999999\<close> is outside the model.

  Both are instances of one rounding function \<open>rnd\<close> on rationals. What the proofs about money use
  is stated once, in the locale \<open>rounding\<close> (monotone, odd, idempotent), and interpreted on both.
\<close>

subsection \<open>Rounding to an integer\<close>

text \<open>ROUND_HALF_EVEN, ROUND_DOWN (towards zero), ROUND_UP (away from zero), ROUND_FLOOR.\<close>

datatype rounding_mode = ROUND_HALF_EVEN | ROUND_DOWN | ROUND_UP | ROUND_FLOOR

definition rhe :: "rat \<Rightarrow> int" where
  "rhe x = (let f = \<lfloor>x\<rfloor>; r = x - of_int f in
     if r < 1/2 then f else if 1/2 < r then f + 1 else if even f then f else f + 1)"

definition round_int :: "rounding_mode \<Rightarrow> rat \<Rightarrow> int" where
  "round_int m x = (case m of
     ROUND_HALF_EVEN \<Rightarrow> rhe x
   | ROUND_DOWN \<Rightarrow> (if 0 \<le> x then \<lfloor>x\<rfloor> else \<lceil>x\<rceil>)
   | ROUND_UP \<Rightarrow> (if 0 \<le> x then \<lceil>x\<rceil> else \<lfloor>x\<rfloor>)
   | ROUND_FLOOR \<Rightarrow> \<lfloor>x\<rfloor>)"

lemma rhe_floor_cases: "rhe x = \<lfloor>x\<rfloor> \<or> rhe x = \<lfloor>x\<rfloor> + 1"
  by (auto simp: rhe_def Let_def)

lemma rhe_of_int [simp]: "rhe (of_int k) = k"
  by (simp add: rhe_def)

lemma rhe_0 [simp]: "rhe 0 = 0"
  using rhe_of_int [of 0] by simp

lemma rhe_bounds: "\<bar>of_int (rhe x) - x\<bar> \<le> 1/2"
proof -
  have "of_int \<lfloor>x\<rfloor> \<le> x" "x < of_int \<lfloor>x\<rfloor> + 1" by linarith+
  then show ?thesis unfolding rhe_def Let_def
    by (simp only: split: if_splits) (simp add: abs_le_iff)
qed

lemma rhe_mono:
  assumes "x \<le> y"
  shows "rhe x \<le> rhe y"
proof (cases "\<lfloor>x\<rfloor> = \<lfloor>y\<rfloor>")
  case True
  then show ?thesis using assms by (auto simp: rhe_def Let_def)
next
  case False
  then have "\<lfloor>x\<rfloor> + 1 \<le> \<lfloor>y\<rfloor>" using floor_mono [OF assms] by linarith
  then show ?thesis using rhe_floor_cases [of x] rhe_floor_cases [of y] by linarith
qed

lemma rhe_minus: "rhe (- x) = - rhe x"
proof (cases "of_int \<lfloor>x\<rfloor> = x")
  case True
  then obtain k where "x = of_int k" by metis
  then show ?thesis using rhe_of_int [of "- k"] by simp
next
  case False
  then have f: "\<lfloor>- x\<rfloor> = - \<lfloor>x\<rfloor> - 1"
    by (intro floor_unique) (use False in \<open>auto simp: less_le le_diff_eq\<close>, linarith+)
  define r where "r = x - of_int \<lfloor>x\<rfloor>"
  have r': "- x - of_int (- \<lfloor>x\<rfloor> - 1) = 1 - r" by (simp add: r_def)
  have eo: "even (- \<lfloor>x\<rfloor> - 1) \<longleftrightarrow> \<not> even \<lfloor>x\<rfloor>" by presburger
  have A: "rhe x = (if r < 1/2 then \<lfloor>x\<rfloor> else if 1/2 < r then \<lfloor>x\<rfloor> + 1
      else if even \<lfloor>x\<rfloor> then \<lfloor>x\<rfloor> else \<lfloor>x\<rfloor> + 1)"
    unfolding rhe_def Let_def r_def ..
  have B: "rhe (- x) = (if 1 - r < 1/2 then - \<lfloor>x\<rfloor> - 1 else if 1/2 < 1 - r then - \<lfloor>x\<rfloor>
      else if even (- \<lfloor>x\<rfloor> - 1) then - \<lfloor>x\<rfloor> - 1 else - \<lfloor>x\<rfloor>)"
    unfolding rhe_def Let_def f r' by simp
  consider "r < 1/2" | "1/2 < r" | "r = 1/2" by linarith
  then show ?thesis unfolding A B eo by cases simp_all
qed

lemma round_int_of_int [simp]: "round_int m (of_int k) = k"
  by (cases m) (simp_all add: round_int_def)

lemma round_int_mono:
  assumes "x \<le> y"
  shows "round_int m x \<le> round_int m y"
proof -
  have fc: "\<lfloor>x\<rfloor> \<le> \<lfloor>y\<rfloor>" "\<lceil>x\<rceil> \<le> \<lceil>y\<rceil>" by (auto intro: floor_mono ceiling_mono assms)
  have mid: "\<not> 0 \<le> x \<Longrightarrow> 0 \<le> y \<Longrightarrow> \<lceil>x\<rceil> \<le> \<lfloor>y\<rfloor>" "\<not> 0 \<le> x \<Longrightarrow> 0 \<le> y \<Longrightarrow> \<lfloor>x\<rfloor> \<le> \<lceil>y\<rceil>"
    by (rule order_trans [of _ 0]; simp)+
  show ?thesis using assms rhe_mono [OF assms] fc mid
    by (cases m; cases "0 \<le> x"; cases "0 \<le> y") (simp_all add: round_int_def)
qed

lemma round_int_minus_half_even: "round_int ROUND_HALF_EVEN (- x) = - round_int ROUND_HALF_EVEN x"
  by (simp add: round_int_def rhe_minus)

lemma round_int_up_ge: "0 \<le> x \<Longrightarrow> x \<le> of_int (round_int ROUND_UP x)"
  by (simp add: round_int_def)

lemma round_int_down_le: "0 \<le> x \<Longrightarrow> of_int (round_int ROUND_DOWN x) \<le> x"
  by (simp add: round_int_def)

lemma round_int_floor_le: "of_int (round_int ROUND_FLOOR x) \<le> x"
  by (simp add: round_int_def)

subsection \<open>Rounding to a number of significant digits\<close>

text \<open>\<open>ilog b x\<close> is the exponent of the leading digit of \<open>x > 0\<close> in base \<open>b\<close>.\<close>

definition ilog :: "nat \<Rightarrow> rat \<Rightarrow> int" where
  "ilog b x = (let (n, d) = quotient_of x;
                   k = int (floorlog b (nat n)) - int (floorlog b (nat d))
               in if of_nat b powi k \<le> x then k else k - 1)"

text \<open>The same exponent counted on integers, for evaluation.\<close>

function ilen :: "int \<Rightarrow> int \<Rightarrow> int" where
  "ilen b n = (if n \<le> 0 \<or> b \<le> 1 then 0 else 1 + ilen b (n div b))"
  by auto
termination by (relation "measure (\<lambda>(b, n). nat n)") (auto simp: nat_less_iff int_div_less_self)

declare ilen.simps [simp del]

lemma int_floorlog: "int (floorlog b (nat n)) = ilen (int b) n"
proof (induction "int b" n rule: ilen.induct)
  case (1 n)
  then show ?case
    by (subst compute_floorlog, subst ilen.simps) (auto simp: nat_div_distrib' nat_div_distrib)
qed

lemma ilog_code [code]:
  "ilog b x = (let (n, d) = quotient_of x; k = ilen (int b) n - ilen (int b) d
     in if of_nat b powi k \<le> x then k else k - 1)"
  by (simp add: ilog_def int_floorlog)

definition qexp :: "nat \<Rightarrow> nat \<Rightarrow> int \<Rightarrow> rat \<Rightarrow> int" where
  "qexp b p emin x = max (ilog b x - (int p - 1)) emin"

definition rnd_pos :: "nat \<Rightarrow> nat \<Rightarrow> int \<Rightarrow> rat \<Rightarrow> rat" where
  "rnd_pos b p emin x = (let u = of_nat b powi (qexp b p emin x) in of_int (rhe (x / u)) * u)"

definition rnd :: "nat \<Rightarrow> nat \<Rightarrow> int \<Rightarrow> rat \<Rightarrow> rat" where
  "rnd b p emin x =
     (if x = 0 then 0 else if x < 0 then - rnd_pos b p emin (- x) else rnd_pos b p emin x)"

lemma powi_of_nat_pos [simp]: "1 < b \<Longrightarrow> 0 < (of_nat b :: rat) powi k"
  by (simp add: zero_less_power_int)

lemma floorlog_rat_bounds:
  assumes "1 < b" "0 < (n::int)"
  shows "(of_nat b :: rat) powi (int (floorlog b (nat n)) - 1) \<le> of_int n"
    and "of_int n < (of_nat b :: rat) powi int (floorlog b (nat n))"
proof -
  let ?k = "floorlog b (nat n)"
  have fb: "b ^ (?k - 1) \<le> nat n" "nat n < b ^ ?k"
    using floorlog_bounds [of "nat n" b] assms by auto
  have k: "0 < ?k" using fb assms by (cases "?k") auto
  have "(of_nat (b ^ (?k - 1)) :: rat) \<le> of_nat (nat n)" using fb(1) by (simp only: of_nat_le_iff)
  moreover have "(of_nat b :: rat) powi (int ?k - 1) = of_nat (b ^ (?k - 1))"
    using k by (simp add: power_int_def nat_diff_distrib)
  ultimately show "(of_nat b :: rat) powi (int ?k - 1) \<le> of_int n"
    using assms by simp
  have "(of_nat (nat n) :: rat) < of_nat (b ^ ?k)" using fb(2) by (simp only: of_nat_less_iff)
  then show "of_int n < (of_nat b :: rat) powi int ?k" using assms by simp
qed

lemma ilog_bounds:
  assumes "1 < b" "0 < x"
  shows "of_nat b powi ilog b x \<le> x" and "x < of_nat b powi (ilog b x + 1)"
proof -
  obtain n d where nd: "quotient_of x = (n, d)" by (cases "quotient_of x")
  have d: "0 < d" using quotient_of_denom_pos [OF nd] .
  have x: "x = of_int n / of_int d" using quotient_of_div [OF nd] .
  have n: "0 < n" using assms(2) d unfolding x by (simp add: zero_less_divide_iff)
  define kn kd where "kn = int (floorlog b (nat n))" and "kd = int (floorlog b (nat d))"
  let ?B = "of_nat b :: rat"
  have il: "ilog b x = (if ?B powi (kn - kd) \<le> x then kn - kd else kn - kd - 1)"
    by (simp add: ilog_def nd kn_def kd_def Let_def)
  have bn: "?B powi (kn - 1) \<le> of_int n" "of_int n < ?B powi kn"
    using floorlog_rat_bounds [OF assms(1) n] by (simp_all add: kn_def)
  have bd: "?B powi (kd - 1) \<le> of_int d" "of_int d < ?B powi kd"
    using floorlog_rat_bounds [OF assms(1) d] by (simp_all add: kd_def)
  have B0: "?B \<noteq> 0" using assms(1) by simp
  have lo: "?B powi (kn - kd - 1) < x"
  proof -
    have "?B powi (kn - kd - 1) = ?B powi (kn - 1) / ?B powi kd"
      using B0 by (simp flip: power_int_diff add: algebra_simps)
    also have "\<dots> < of_int n / of_int d"
      using bn(1) bd(2) d assms(1) n by (intro frac_less2) auto
    finally show ?thesis by (simp add: x)
  qed
  have hi: "x < ?B powi (kn - kd + 1)"
  proof -
    have "of_int n / of_int d < ?B powi kn / ?B powi (kd - 1)"
      using bn(2) bd(1) d assms(1) n by (intro frac_less) auto
    also have "\<dots> = ?B powi (kn - kd + 1)"
      using B0 by (simp flip: power_int_diff add: algebra_simps)
    finally show ?thesis by (simp add: x)
  qed
  show "?B powi ilog b x \<le> x" using lo by (simp add: il)
  show "x < ?B powi (ilog b x + 1)" using hi by (simp add: il)
qed

lemma powi_le_powi_iff:
  assumes "1 < b"
  shows "(of_nat b :: rat) powi i \<le> of_nat b powi j \<longleftrightarrow> i \<le> j"
proof
  assume "(of_nat b :: rat) powi i \<le> of_nat b powi j"
  then show "i \<le> j"
    using power_int_strict_increasing [of j i "of_nat b :: rat"] assms by (cases "i \<le> j") auto
qed (use assms in \<open>auto intro: power_int_increasing\<close>)

lemma powi_less_powi_iff:
  "1 < b \<Longrightarrow> (of_nat b :: rat) powi i < of_nat b powi j \<longleftrightarrow> i < j"
  using powi_le_powi_iff [of b j i] by (simp add: not_le [symmetric])

lemma ilog_mono:
  assumes "1 < b" "0 < x" "x \<le> y"
  shows "ilog b x \<le> ilog b y"
proof -
  have "of_nat b powi ilog b x < (of_nat b :: rat) powi (ilog b y + 1)"
    using ilog_bounds(1) [of b x] ilog_bounds(2) [of b y] assms by linarith
  then show ?thesis using assms(1) by (simp add: powi_less_powi_iff)
qed

lemma ilog_lessI:
  assumes "1 < b" "0 < x" "x < of_nat b powi k"
  shows "ilog b x < k"
proof -
  have "of_nat b powi ilog b x < (of_nat b :: rat) powi k"
    using ilog_bounds(1) [of b x] assms by linarith
  then show ?thesis using assms(1) by (simp add: powi_less_powi_iff)
qed

subsection \<open>Properties of the rounding function\<close>

lemma qexp_mono: "1 < b \<Longrightarrow> 0 < x \<Longrightarrow> x \<le> y \<Longrightarrow> qexp b p emin x \<le> qexp b p emin y"
  using ilog_mono [of b x y] by (auto simp: qexp_def)

lemma rnd_pos_nonneg: "1 < b \<Longrightarrow> 0 < x \<Longrightarrow> 0 \<le> rnd_pos b p emin x"
  using rhe_mono [of 0 "x / of_nat b powi qexp b p emin x"]
  by (simp add: rnd_pos_def Let_def zero_le_divide_iff less_imp_le)

text \<open>A multiple of the quantum of \<open>x\<close> bounds \<open>rnd_pos x\<close> on the side it bounds \<open>x\<close>.\<close>

lemma rnd_pos_le_multiple:
  assumes "1 < b" "x \<le> of_int m * of_nat b powi qexp b p emin x"
  shows "rnd_pos b p emin x \<le> of_int m * of_nat b powi qexp b p emin x"
proof -
  let ?u = "(of_nat b :: rat) powi qexp b p emin x"
  have "x / ?u \<le> of_int m" using assms by (simp add: pos_divide_le_eq)
  then have "rhe (x / ?u) \<le> m" using rhe_mono rhe_of_int by metis
  then show ?thesis using assms(1) by (simp add: rnd_pos_def Let_def mult_right_mono)
qed

lemma rnd_pos_ge_multiple:
  assumes "1 < b" "of_int m * of_nat b powi qexp b p emin x \<le> x"
  shows "of_int m * of_nat b powi qexp b p emin x \<le> rnd_pos b p emin x"
proof -
  let ?u = "(of_nat b :: rat) powi qexp b p emin x"
  have "of_int m \<le> x / ?u" using assms by (simp add: pos_le_divide_eq)
  then have "m \<le> rhe (x / ?u)" using rhe_mono rhe_of_int by metis
  then show ?thesis using assms(1) by (simp add: rnd_pos_def Let_def mult_right_mono)
qed

lemma powi_multiple:
  assumes "1 < b" "j \<le> k"
  shows "(of_nat b :: rat) powi k = of_int (int b ^ nat (k - j)) * of_nat b powi j"
proof -
  have "(of_nat b :: rat) powi k = of_nat b powi (k - j) * of_nat b powi j"
    using assms by (simp flip: power_int_add)
  then show ?thesis using assms by (simp add: power_int_def)
qed

lemma rnd_pos_mono:
  assumes b: "1 < b" and p: "0 < p" and x: "0 < x" and xy: "x \<le> y"
  shows "rnd_pos b p emin x \<le> rnd_pos b p emin y"
proof (cases "qexp b p emin x = qexp b p emin y")
  case True
  have "rhe (x / of_nat b powi qexp b p emin y) \<le> rhe (y / of_nat b powi qexp b p emin y)"
    using b xy by (intro rhe_mono divide_right_mono) (auto simp: less_imp_le)
  then show ?thesis using b True by (simp add: rnd_pos_def Let_def mult_right_mono less_imp_le)
next
  case False
  let ?B = "of_nat b :: rat" and ?ex = "qexp b p emin x" and ?ey = "qexp b p emin y"
  have lt: "?ex < ?ey" using False qexp_mono [OF b x xy, of p emin] by simp
  have ey: "?ey = ilog b y - (int p - 1)" and ile: "ilog b x \<le> ?ex + int p - 1"
    using lt by (auto simp: qexp_def max_def split: if_splits)
  let ?g = "?B powi ilog b y"
  have gx: "?g = of_int (int b ^ nat (ilog b y - ?ex)) * ?B powi ?ex"
    using b lt ey p by (intro powi_multiple) auto
  have gy: "?g = of_int (int b ^ nat (ilog b y - ?ey)) * ?B powi ?ey"
    using b ey p by (intro powi_multiple) auto
  have "x \<le> ?B powi (ilog b x + 1)" using ilog_bounds(2) [OF b x] by simp
  also have "\<dots> \<le> ?g" using b ile lt ey by (simp add: powi_le_powi_iff)
  finally have "rnd_pos b p emin x \<le> ?g" using rnd_pos_le_multiple [OF b] gx by metis
  moreover have "?g \<le> y" using ilog_bounds(1) [OF b, of y] x xy by simp
  then have "?g \<le> rnd_pos b p emin y" using rnd_pos_ge_multiple [OF b] gy by metis
  ultimately show ?thesis by simp
qed

lemma rnd_pos_exact:
  assumes b: "1 < b" and x: "0 < x" and xm: "x = of_int m * of_nat b powi k"
    and m: "m < int b ^ p" and k: "emin \<le> k"
  shows "rnd_pos b p emin x = x"
proof -
  let ?B = "of_nat b :: rat"
  have "(of_int m :: rat) < of_int (int b ^ p)" using m by (simp only: of_int_less_iff)
  then have "x < of_int (int b ^ p) * ?B powi k"
    unfolding xm using b by (intro mult_strict_right_mono) auto
  also have "\<dots> = ?B powi (int p + k)" using b by (simp add: power_int_add)
  finally have "ilog b x < int p + k" by (rule ilog_lessI [OF b x])
  then have q: "qexp b p emin x \<le> k" using k by (auto simp: qexp_def)
  define q where "q = qexp b p emin x"
  have "x = of_int m * (of_int (int b ^ nat (k - q)) * ?B powi q)"
    using xm powi_multiple [OF b q] by (simp add: q_def)
  then have "x = of_int (m * int b ^ nat (k - qexp b p emin x)) * ?B powi qexp b p emin x"
    by (simp add: q_def mult.assoc)
  then have "x / ?B powi qexp b p emin x = of_int (m * int b ^ nat (k - qexp b p emin x))"
    using b by (metis nonzero_eq_divide_eq less_irrefl powi_of_nat_pos)
  then show ?thesis
    using b by (metis (no_types, lifting) rnd_pos_def rhe_of_int nonzero_eq_divide_eq less_irrefl powi_of_nat_pos)
qed

lemma rnd_pos_idem:
  assumes b: "1 < b" and p: "0 < p" and x: "0 < x" and pos: "0 < rnd_pos b p emin x"
  shows "rnd_pos b p emin (rnd_pos b p emin x) = rnd_pos b p emin x"
proof -
  let ?B = "of_nat b :: rat" and ?q = "qexp b p emin x"
  define m where "m = rhe (x / ?B powi ?q)"
  have y: "rnd_pos b p emin x = of_int m * ?B powi ?q" by (simp add: rnd_pos_def Let_def m_def)
  have "x < ?B powi (?q + int p)"
  proof (rule less_le_trans [OF ilog_bounds(2) [OF b x]])
    show "?B powi (ilog b x + 1) \<le> ?B powi (?q + int p)"
      using b by (simp add: powi_le_powi_iff qexp_def)
  qed
  then have "x / ?B powi ?q \<le> of_int (int b ^ p)"
    using b by (simp add: pos_divide_le_eq power_int_add mult.commute)
  then have mle: "m \<le> int b ^ p" unfolding m_def using rhe_mono rhe_of_int by metis
  show ?thesis
  proof (cases "m = int b ^ p")
    case True
    have "?B powi (?q + 1) = ?B powi ?q * ?B" using b by (intro power_int_add_1) simp
    moreover have "int b ^ p = int b ^ (p - 1) * int b" using p by (cases p) simp_all
    ultimately have "rnd_pos b p emin x = of_int (int b ^ (p - 1)) * ?B powi (?q + 1)"
      unfolding y True by simp
    moreover have "int b ^ (p - 1) < int b ^ p" using b p by (intro power_strict_increasing) auto
    ultimately show ?thesis
      using pos b by (intro rnd_pos_exact [where m = "int b ^ (p - 1)" and k = "?q + 1"]) (auto simp: qexp_def)
  next
    case False
    then show ?thesis
      using mle pos y b by (intro rnd_pos_exact [where m = m and k = ?q]) (auto simp: qexp_def)
  qed
qed

subsection \<open>The interface: a rounding of the rationals\<close>

text \<open>
  What the proofs about prices, fees and margins use of a number system: rounding keeps the
  order, commutes with negation, and leaves its own results alone. A bound that is itself
  representable therefore survives rounding.
\<close>

locale rounding =
  fixes rd :: "rat \<Rightarrow> rat"
  assumes rd_mono: "x \<le> y \<Longrightarrow> rd x \<le> rd y"
    and rd_minus: "rd (- x) = - rd x"
    and rd_idem: "rd (rd x) = rd x"
begin

lemma rd_0: "rd 0 = 0"
  using rd_minus [of 0] by simp

lemma rd_nonneg: "0 \<le> x \<Longrightarrow> 0 \<le> rd x"
  using rd_mono [of 0 x] by (simp add: rd_0)

lemma rd_nonpos: "x \<le> 0 \<Longrightarrow> rd x \<le> 0"
  using rd_mono [of x 0] by (simp add: rd_0)

lemma rd_pos_imp: "0 < rd x \<Longrightarrow> 0 < x"
  using rd_nonpos [of x] by (meson not_le)

lemma rd_neg_imp: "rd x < 0 \<Longrightarrow> x < 0"
  using rd_nonneg [of x] by (meson not_le)

lemma rd_ge: "rd a = a \<Longrightarrow> a \<le> x \<Longrightarrow> a \<le> rd x"
  using rd_mono [of a x] by simp

lemma rd_le: "rd a = a \<Longrightarrow> x \<le> a \<Longrightarrow> rd x \<le> a"
  using rd_mono [of x a] by simp

lemma rd_abs: "rd \<bar>x\<bar> = \<bar>rd x\<bar>"
  using rd_nonneg [of x] rd_nonpos [of x] by (cases "0 \<le> x") (auto simp: rd_minus)

text \<open>Adding a non-negative amount to a representable value never moves it down.\<close>

lemma rd_add_ge: "rd a = a \<Longrightarrow> 0 \<le> y \<Longrightarrow> a \<le> rd (a + y)"
  by (rule rd_ge) simp_all

lemma rd_sub_le: "rd a = a \<Longrightarrow> 0 \<le> y \<Longrightarrow> rd (a - y) \<le> a"
  by (rule rd_le) simp_all

lemma rd_diff_sign: "a \<le> b \<Longrightarrow> rd (a - b) \<le> 0"
  by (rule rd_nonpos) simp

end

lemma rounding_rnd:
  assumes b: "1 < b" and p: "0 < p"
  shows "rounding (rnd b p emin)"
proof
  fix x y :: rat
  show "rnd b p emin (- x) = - rnd b p emin x" by (simp add: rnd_def)
  show "rnd b p emin x \<le> rnd b p emin y" if "x \<le> y"
    using that b p rnd_pos_mono [of b p x y emin] rnd_pos_mono [of b p "- y" "- x" emin]
      rnd_pos_nonneg [of b x p emin] rnd_pos_nonneg [of b y p emin]
      rnd_pos_nonneg [of b "- x" p emin] rnd_pos_nonneg [of b "- y" p emin]
    by (auto simp: rnd_def)
  show "rnd b p emin (rnd b p emin x) = rnd b p emin x"
    using b p rnd_pos_idem [of b p x emin] rnd_pos_idem [of b p "- x" emin]
      rnd_pos_nonneg [of b x p emin] rnd_pos_nonneg [of b "- x" p emin]
    by (auto simp: rnd_def)
qed

subsection \<open>Python's float and Decimal\<close>

definition fl :: "rat \<Rightarrow> rat" where
  "fl = rnd 2 53 (- 1074)"

definition dec :: "rat \<Rightarrow> rat" where
  "dec = rnd 10 28 (- 1000026)"

interpretation flt: rounding fl
  unfolding fl_def by (rule rounding_rnd) simp_all

interpretation dcm: rounding dec
  unfolding dec_def by (rule rounding_rnd) simp_all

abbreviation is_float :: "rat \<Rightarrow> bool" where "is_float x \<equiv> fl x = x"
abbreviation is_decimal :: "rat \<Rightarrow> bool" where "is_decimal x \<equiv> dec x = x"

text \<open>The arithmetic operators on the two types; division is guarded by its callers.\<close>

definition fadd :: "rat \<Rightarrow> rat \<Rightarrow> rat" where "fadd x y = fl (x + y)"
definition fsub :: "rat \<Rightarrow> rat \<Rightarrow> rat" where "fsub x y = fl (x - y)"
definition fmul :: "rat \<Rightarrow> rat \<Rightarrow> rat" where "fmul x y = fl (x * y)"
definition fdiv :: "rat \<Rightarrow> rat \<Rightarrow> rat" where "fdiv x y = fl (x / y)"

definition dadd :: "rat \<Rightarrow> rat \<Rightarrow> rat" where "dadd x y = dec (x + y)"
definition dsub :: "rat \<Rightarrow> rat \<Rightarrow> rat" where "dsub x y = dec (x - y)"
definition dmul :: "rat \<Rightarrow> rat \<Rightarrow> rat" where "dmul x y = dec (x * y)"
definition ddiv :: "rat \<Rightarrow> rat \<Rightarrow> rat" where "ddiv x y = dec (x / y)"

lemmas float_ops = fadd_def fsub_def fmul_def fdiv_def
lemmas decimal_ops = dadd_def dsub_def dmul_def ddiv_def

text \<open>\<^verbatim>\<open>sum(xs, Decimal("0"))\<close> adds from the left.\<close>

definition dsum :: "rat list \<Rightarrow> rat" where
  "dsum xs = foldl dadd 0 xs"

lemma foldl_dadd_nonneg: "0 \<le> a \<Longrightarrow> \<forall>x\<in>set xs. 0 \<le> x \<Longrightarrow> 0 \<le> foldl dadd a xs"
proof (induction xs arbitrary: a)
  case (Cons x xs)
  then have "0 \<le> dadd a x" by (simp add: dadd_def dcm.rd_nonneg)
  with Cons show ?case by simp
qed simp

lemma dsum_nonneg: "\<forall>x\<in>set xs. 0 \<le> x \<Longrightarrow> 0 \<le> dsum xs"
  by (simp add: dsum_def foldl_dadd_nonneg)

lemma dsum_zero: "\<forall>x\<in>set xs. x = 0 \<Longrightarrow> dsum xs = 0"
proof (induction xs)
  case (Cons x xs)
  then show ?case by (simp add: dsum_def dadd_def dcm.rd_0)
qed (simp add: dsum_def)

text \<open>Numbers with few digits are exact in both systems.\<close>

lemma rnd_exact:
  assumes "1 < b" "x = of_int m * of_nat b powi k" "\<bar>m\<bar> < int b ^ p" "emin \<le> k"
  shows "rnd b p emin x = x"
proof -
  consider "x = 0" | "0 < x" | "x < 0" by linarith
  then show ?thesis
  proof cases
    case 2
    then show ?thesis using assms rnd_pos_exact [of b x m k p emin] by (simp add: rnd_def)
  next
    case 3
    then show ?thesis using assms rnd_pos_exact [of b "- x" "- m" k p emin] by (simp add: rnd_def)
  qed (simp add: rnd_def)
qed

lemma dec_int: "\<bar>n\<bar> < 10 ^ 28 \<Longrightarrow> dec (of_int n) = of_int n"
  unfolding dec_def by (rule rnd_exact [where m = n and k = 0]) simp_all

lemma fl_int: "\<bar>n\<bar> < 2 ^ 53 \<Longrightarrow> fl (of_int n) = of_int n"
  unfolding fl_def by (rule rnd_exact [where m = n and k = 0]) simp_all

text \<open>Evaluation skips the search for the exponent where a few digits show that the value is exact.\<close>

lemma quotient_of_whole: "quotient_of y = (n, 1) \<Longrightarrow> y = of_int n"
  by (drule quotient_of_div) simp

lemma dec_code [code]:
  "dec x = (case quotient_of (x * 10000000000) of (n, d) \<Rightarrow>
     if d = 1 \<and> \<bar>n\<bar> < 10 ^ 28 then x else rnd 10 28 (- 1000026) x)"
proof -
  have "dec x = x" if "quotient_of (x * 10000000000) = (n, 1)" "\<bar>n\<bar> < 10 ^ 28" for n
  proof -
    have "x = of_int n * of_nat 10 powi (- 10)"
      using quotient_of_whole [OF that(1)] by (simp add: power_int_minus field_simps)
    then show ?thesis unfolding dec_def by (rule rnd_exact [rotated]) (use that(2) in simp_all)
  qed
  then show ?thesis by (cases "quotient_of (x * 10000000000)") (auto simp: dec_def)
qed

lemma fl_code [code]:
  "fl x = (case quotient_of (x * 1048576) of (n, d) \<Rightarrow>
     if d = 1 \<and> \<bar>n\<bar> < 2 ^ 53 then x else rnd 2 53 (- 1074) x)"
proof -
  have "fl x = x" if "quotient_of (x * 1048576) = (n, 1)" "\<bar>n\<bar> < 2 ^ 53" for n
  proof -
    have "x = of_int n * of_nat 2 powi (- 20)"
      using quotient_of_whole [OF that(1)] by (simp add: power_int_minus field_simps)
    then show ?thesis unfolding fl_def by (rule rnd_exact [rotated]) (use that(2) in simp_all)
  qed
  then show ?thesis by (cases "quotient_of (x * 1048576)") (auto simp: fl_def)
qed

lemma dec_0 [simp, py_simps]: "dec 0 = 0" by (rule dcm.rd_0)
lemma fl_0 [simp, py_simps]: "fl 0 = 0" by (rule flt.rd_0)

lemma dec_1 [simp, py_simps]: "dec 1 = 1" using dec_int [of 1] by simp
lemma fl_1 [simp, py_simps]: "fl 1 = 1" using fl_int [of 1] by simp

lemma dec_numeral_10 [simp]: "dec 10 = 10" using dec_int [of 10] by simp
lemma fl_numeral_10 [simp]: "fl 10 = 10" using fl_int [of 10] by simp

lemma dec_dadd [simp]: "dec (dadd x y) = dadd x y" by (simp add: dadd_def dcm.rd_idem)
lemma dec_dsub [simp]: "dec (dsub x y) = dsub x y" by (simp add: dsub_def dcm.rd_idem)
lemma dec_dmul [simp]: "dec (dmul x y) = dmul x y" by (simp add: dmul_def dcm.rd_idem)
lemma dec_ddiv [simp]: "dec (ddiv x y) = ddiv x y" by (simp add: ddiv_def dcm.rd_idem)

lemma dmul_nonneg: "0 \<le> x \<Longrightarrow> 0 \<le> y \<Longrightarrow> 0 \<le> dmul x y"
  by (simp add: dmul_def dcm.rd_nonneg)

lemma ddiv_nonneg: "0 \<le> x \<Longrightarrow> 0 \<le> y \<Longrightarrow> 0 \<le> ddiv x y"
  by (simp add: ddiv_def dcm.rd_nonneg)

lemma dadd_nonneg: "0 \<le> x \<Longrightarrow> 0 \<le> y \<Longrightarrow> 0 \<le> dadd x y"
  by (simp add: dadd_def dcm.rd_nonneg)

subsection \<open>Decimal.quantize\<close>

text \<open>
  \<^verbatim>\<open>x.quantize(step, rounding)\<close>: the multiple of \<open>step\<close> nearest to \<open>x\<close> in the direction of the mode;
  \<^verbatim>\<open>InvalidOperation\<close> when its coefficient does not fit the 28 digits of the context.
\<close>

definition quantize :: "rounding_mode \<Rightarrow> rat \<Rightarrow> rat \<Rightarrow> rat result" where
  "quantize mode step x = (let c = round_int mode (x / step) in
     if 10 ^ 28 \<le> \<bar>c\<bar> then Inl InvalidOperation else Inr (of_int c * step))"

definition QUANT :: rat where
  "QUANT = 1 / 10 ^ 8"

definition BASIS_POINTS :: rat where
  "BASIS_POINTS = 10000"

lemma QUANT_pos [simp]: "0 < QUANT" by (simp add: QUANT_def)

text \<open>Division of decimals, with the signals of the context.\<close>

definition decimal_div :: "rat \<Rightarrow> rat \<Rightarrow> rat result" where
  "decimal_div x y =
     (if y = 0 then (if x = 0 then Inl InvalidOperation else Inl DivisionByZero) else Inr (ddiv x y))"

lemma quantize_Inr_iff:
  "quantize mode step x = Inr q \<longleftrightarrow>
     \<bar>round_int mode (x / step)\<bar> < 10 ^ 28 \<and> q = of_int (round_int mode (x / step)) * step"
  by (auto simp: quantize_def Let_def)

lemma quantize_mono:
  assumes "0 < step" "x \<le> y" "quantize mode step x = Inr p" "quantize mode step y = Inr q"
  shows "p \<le> q"
  using assms round_int_mono [of "x / step" "y / step" mode]
  by (auto simp: quantize_Inr_iff divide_right_mono less_imp_le intro!: mult_right_mono)

lemma quantize_nonneg:
  assumes "0 < step" "0 \<le> x" "quantize mode step x = Inr q"
  shows "0 \<le> q"
proof -
  have "0 \<le> round_int mode (x / step)"
    using assms round_int_mono [of 0 "x / step" mode] round_int_of_int [of mode 0] by simp
  then show ?thesis using assms by (auto simp: quantize_Inr_iff)
qed

lemma quantize_down_le:
  assumes "0 < step" "0 \<le> x" "quantize ROUND_DOWN step x = Inr q"
  shows "q \<le> x"
  using assms round_int_down_le [of "x / step"] by (auto simp: quantize_Inr_iff pos_le_divide_eq)

lemma quantize_up_ge:
  assumes "0 < step" "0 \<le> x" "quantize ROUND_UP step x = Inr q"
  shows "x \<le> q"
  using assms round_int_up_ge [of "x / step"] by (auto simp: quantize_Inr_iff pos_divide_le_eq)

lemma quantize_floor_le:
  assumes "0 < step" "quantize ROUND_FLOOR step x = Inr q"
  shows "q \<le> x"
  using assms round_int_floor_le [of "x / step"] by (auto simp: quantize_Inr_iff pos_le_divide_eq)

lemma quantize_half_even_error:
  assumes "0 < step" "quantize ROUND_HALF_EVEN step x = Inr q"
  shows "\<bar>q - x\<bar> \<le> step / 2"
proof -
  have "\<bar>of_int (rhe (x / step)) - x / step\<bar> * step \<le> 1 / 2 * step"
    using assms rhe_bounds [of "x / step"] by (intro mult_right_mono) auto
  then show ?thesis using assms
    by (auto simp: quantize_Inr_iff round_int_def abs_mult_pos' left_diff_distrib abs_mult_pos less_imp_le)
qed

text \<open>A multiple of the step (a representable bound) survives quantization.\<close>

lemma quantize_ge_multiple:
  assumes "0 < step" "of_int n * step \<le> x" "quantize mode step x = Inr q"
  shows "of_int n * step \<le> q"
proof -
  have "n \<le> round_int mode (x / step)"
    using assms round_int_mono [of "of_int n" "x / step" mode] by (simp add: pos_le_divide_eq)
  then show ?thesis using assms by (auto simp: quantize_Inr_iff intro!: mult_right_mono)
qed

lemma quantize_le_multiple:
  assumes "0 < step" "x \<le> of_int n * step" "quantize mode step x = Inr q"
  shows "q \<le> of_int n * step"
proof -
  have "round_int mode (x / step) \<le> n"
    using assms round_int_mono [of "x / step" "of_int n" mode] by (simp add: pos_divide_le_eq)
  then show ?thesis using assms by (auto simp: quantize_Inr_iff intro!: mult_right_mono)
qed

subsection \<open>Decimal(str(x)) for a float\<close>

text \<open>
  \<^verbatim>\<open>str\<close> of a float is the shortest decimal string that reads back as the same float, and among the
  shortest the closest: for 1 to 17 digits, the two neighbours of \<open>x\<close> with that many digits are
  tried. Seventeen digits always suffice for binary64; the last branch keeps the function total.
\<close>

definition near_digits :: "nat \<Rightarrow> rat \<Rightarrow> rat list" where
  "near_digits n x = (let u = 10 powi (ilog 10 x - (int n - 1)); f = \<lfloor>x / u\<rfloor>
     in [of_int f * u, of_int (f + 1) * u])"

fun shortest_from :: "nat \<Rightarrow> nat \<Rightarrow> rat \<Rightarrow> rat" where
  "shortest_from 0 n x = x"
| "shortest_from (Suc k) n x =
     (case filter (\<lambda>c. fl c = x) (near_digits n x) of
        [] \<Rightarrow> shortest_from k (Suc n) x
      | [c] \<Rightarrow> c
      | c # c' # _ \<Rightarrow> (if \<bar>c' - x\<bar> < \<bar>c - x\<bar> then c' else c))"

definition dec_of_float :: "rat \<Rightarrow> rat" where
  "dec_of_float x = (if x = 0 then 0 else if x < 0 then - shortest_from 17 1 (- x) else shortest_from 17 1 x)"

lemma fl_shortest_from: "is_float x \<Longrightarrow> fl (shortest_from k n x) = x"
proof (induction k arbitrary: n)
  case (Suc k)
  define cs where "cs = filter (\<lambda>c. fl c = x) (near_digits n x)"
  have "\<forall>c \<in> set cs. fl c = x" by (simp add: cs_def)
  then have "fl (case cs of [] \<Rightarrow> shortest_from k (Suc n) x | [c] \<Rightarrow> c
      | c # c' # _ \<Rightarrow> (if \<bar>c' - x\<bar> < \<bar>c - x\<bar> then c' else c)) = x"
    using Suc by (simp split: list.splits)
  then show ?case by (simp only: shortest_from.simps cs_def)
qed simp

text \<open>Reading the string back gives the float: the conversion loses nothing.\<close>

lemma fl_dec_of_float: "is_float x \<Longrightarrow> fl (dec_of_float x) = x"
  using fl_shortest_from [of x] fl_shortest_from [of "- x"] by (auto simp: dec_of_float_def flt.rd_minus)

lemma dec_of_float_mono:
  assumes "is_float x" "is_float y" "x < y"
  shows "dec_of_float x < dec_of_float y"
  using assms flt.rd_mono [of "dec_of_float y" "dec_of_float x"]
  by (metis fl_dec_of_float not_le)

lemma dec_of_float_le_iff:
  assumes "is_float x" "is_float y"
  shows "dec_of_float x \<le> dec_of_float y \<longleftrightarrow> x \<le> y"
  using dec_of_float_mono [OF assms] dec_of_float_mono [OF assms(2,1)]
  by (cases x y rule: linorder_cases) (auto simp: not_le [symmetric])

lemma dec_of_float_0 [simp]: "dec_of_float 0 = 0" by (simp add: dec_of_float_def)

lemma dec_of_float_pos_iff: "is_float x \<Longrightarrow> 0 < dec_of_float x \<longleftrightarrow> 0 < x"
  using dec_of_float_le_iff [of x 0] by (simp add: not_le [symmetric])

lemma dec_of_float_nonneg_iff: "is_float x \<Longrightarrow> 0 \<le> dec_of_float x \<longleftrightarrow> 0 \<le> x"
  using dec_of_float_le_iff [of 0 x] by simp

subsection \<open>Sums and roundings of floats\<close>

text \<open>
  From Python 3.12 on, the built-in \<^verbatim>\<open>sum\<close> of floats keeps a compensation term (Neumaier), added to the
  total at the end.
\<close>

fun neumaier :: "rat \<Rightarrow> rat \<Rightarrow> rat list \<Rightarrow> rat" where
  "neumaier s c [] = (if c = 0 then s else fadd s c)"
| "neumaier s c (x # xs) =
     (let t = fadd s x in
      if \<bar>x\<bar> \<le> \<bar>s\<bar> then neumaier t (fadd c (fadd (fsub s t) x)) xs
      else neumaier t (fadd c (fadd (fsub x t) s)) xs)"

definition fsum :: "rat list \<Rightarrow> rat" where
  "fsum xs = (case xs of [] \<Rightarrow> 0 | x # ys \<Rightarrow> neumaier x 0 ys)"

text \<open>\<^verbatim>\<open>round(x, n)\<close> on a float: the float nearest to the decimal rounding of the exact value.\<close>

definition fround :: "nat \<Rightarrow> rat \<Rightarrow> rat" where
  "fround n x = fl (of_int (rhe (x * 10 ^ n)) / 10 ^ n)"

lemma fround_mono: "x \<le> y \<Longrightarrow> fround n x \<le> fround n y"
  unfolding fround_def
  by (rule flt.rd_mono) (simp add: divide_right_mono rhe_mono mult_right_mono)

lemma fround_0 [simp]: "fround n 0 = 0"
  by (simp add: fround_def)

lemma fround_1 [simp]: "fround n 1 = 1"
  using rhe_of_int [of "10 ^ n"] by (simp add: fround_def)

lemma fround_unit: "0 \<le> x \<Longrightarrow> x \<le> 1 \<Longrightarrow> 0 \<le> fround n x \<and> fround n x \<le> 1"
  using fround_mono [of 0 x n] fround_mono [of x 1 n] by simp

end
