(* ===== verification/AppConfig.thy ===== *)
theory AppConfig
  imports PyNumbers
begin

text \<open>
  The configuration of \<^verbatim>\<open>backend/core/config.py\<close>: one record per section that the modelled code reads,
  and the pydantic validators that run at boot, each a function from the parsed section to the
  section or \<^verbatim>\<open>ConfigError\<close>. Field names carry a prefix of their section; floats are rationals
  (binary64 values). Sections with flags nobody validates or reads are left out.
\<close>

subsection \<open>Enumerations and symbols\<close>

type_synonym symbol = string

definition allowed_symbols :: "symbol list" where
  "allowed_symbols = [''BTCUSDT'', ''ETHUSDT'', ''BNBUSDT'', ''SOLUSDT'', ''XRPUSDT'']"

datatype environment = PAPER | TESTNET | LIVE
datatype margin_type = ISOLATED | CROSS
datatype position_mode = ONE_WAY | HEDGE
datatype leverage_mode = DYNAMIC_BY_VOLATILITY | FIXED_LEVERAGE
datatype live_phase = INITIAL | ABSOLUTE

definition MIN_NET_RISK_REWARD_FLOOR :: rat where
  "MIN_NET_RISK_REWARD_FLOOR = 3 / 2"

subsection \<open>Sections\<close>

record challenge_config =
  ch_initial_balance_usdt :: rat
  ch_max_margin_per_trade_usdt :: rat
  ch_daily_loss_limit_percent :: rat
  ch_total_loss_limit_percent :: rat

definition validate_challenge :: "challenge_config \<Rightarrow> challenge_config result" where
  "validate_challenge c = (if 10 < ch_max_margin_per_trade_usdt c then Inl ConfigError else Inr c)"

record trading_config =
  tr_margin_type :: margin_type
  tr_position_mode :: position_mode
  tr_allowed_symbols :: "symbol list"
  tr_max_open_positions :: int
  tr_max_open_positions_allowed :: int

definition validate_trading :: "trading_config \<Rightarrow> trading_config result" where
  "validate_trading c =
     (if tr_margin_type c = CROSS then Inl ConfigError
      else if \<not> list_all (\<lambda>s. List.member allowed_symbols s) (tr_allowed_symbols c) then Inl ConfigError
      else if 3 < tr_max_open_positions_allowed c then Inl ConfigError
      else if \<not> (1 \<le> tr_max_open_positions c
                 \<and> tr_max_open_positions c \<le> tr_max_open_positions_allowed c) then Inl ConfigError
      else Inr c)"

record risk_config =
  rk_max_margin_per_trade_usdt :: rat
  rk_max_daily_loss_percent :: rat
  rk_max_total_loss_percent :: rat
  rk_min_net_risk_reward :: rat
  rk_martingale_allowed :: bool
  rk_cross_margin_allowed :: bool

definition validate_risk :: "risk_config \<Rightarrow> risk_config result" where
  "validate_risk c =
     (if 10 < rk_max_margin_per_trade_usdt c then Inl ConfigError
      else if rk_min_net_risk_reward c < MIN_NET_RISK_REWARD_FLOOR then Inl ConfigError
      else if rk_martingale_allowed c then Inl ConfigError
      else if rk_cross_margin_allowed c then Inl ConfigError
      else Inr c)"

record leverage_config =
  lv_mode :: leverage_mode
  lv_max_leverage_paper :: int
  lv_max_leverage_testnet :: int
  lv_max_leverage_live_initial :: int
  lv_max_leverage_live_absolute :: int
  lv_live_phase :: live_phase

definition leverage_limits :: "leverage_config \<Rightarrow> leverage_config result" where
  "leverage_limits c =
     (if 10 < lv_max_leverage_paper c then Inl ConfigError
      else if 5 < lv_max_leverage_testnet c then Inl ConfigError
      else if 5 < lv_max_leverage_live_absolute c then Inl ConfigError
      else if 3 < lv_max_leverage_live_initial c then Inl ConfigError
      else Inr c)"

definition cap_for_env :: "leverage_config \<Rightarrow> environment \<Rightarrow> int" where
  "cap_for_env c env =
     (if env = PAPER then lv_max_leverage_paper c
      else if env = TESTNET then lv_max_leverage_testnet c
      else if lv_live_phase c = ABSOLUTE then lv_max_leverage_live_absolute c
      else lv_max_leverage_live_initial c)"

record execution_config =
  ex_environment :: environment
  ex_live_requires_env_confirmation :: bool
  ex_live_confirmation_env_var :: string
  ex_live_confirmation_required_value :: string

record storage_config =
  st_log_all_decisions :: bool
  st_log_risk_validations :: bool

record reconciliation_config =
  rc_enabled :: bool
  rc_run_before_new_entries :: bool
  rc_block_on_orphan_orders :: bool
  rc_block_on_untracked_positions :: bool
  rc_block_on_unconfirmed_protection :: bool

record connection_health_config =
  hc_max_clock_skew_ms :: int
  hc_max_latency_ms :: int

definition validate_connection_health :: "connection_health_config \<Rightarrow> connection_health_config result" where
  "validate_connection_health c =
     (if hc_max_clock_skew_ms c \<le> 0 then Inl ConfigError
      else if 5000 \<le> hc_max_clock_skew_ms c then Inl ConfigError
      else if hc_max_latency_ms c \<le> 0 then Inl ConfigError
      else if 10000 \<le> hc_max_latency_ms c then Inl ConfigError
      else Inr c)"

record liquidation_safety_config =
  lq_enabled :: bool
  lq_min_distance_entry_to_liquidation_percent :: rat
  lq_min_buffer_stop_to_liquidation_percent :: rat
  lq_block_if_liquidation_unknown :: bool
  lq_block_if_stop_after_liquidation :: bool

record slippage_config =
  sl_market_impact_bps :: rat

definition validate_slippage :: "slippage_config \<Rightarrow> slippage_config result" where
  "validate_slippage c =
     (if \<not> (0 \<le> sl_market_impact_bps c \<and> sl_market_impact_bps c \<le> 100) then Inl ConfigError
      else Inr c)"

definition impact_bps :: "slippage_config \<Rightarrow> rat" where
  "impact_bps c = dec_of_float (sl_market_impact_bps c)"

record funding_gate_config =
  fg_enabled :: bool
  fg_max_adverse_funding_rate :: rat
  fg_block_if_funding_unknown :: bool

definition validate_funding_gate :: "funding_gate_config \<Rightarrow> funding_gate_config result" where
  "validate_funding_gate c =
     (if \<not> (0 < fg_max_adverse_funding_rate c \<and> fg_max_adverse_funding_rate c < 1) then Inl ConfigError
      else Inr c)"

datatype trailing_mode = FIXED | PERCENT | ATR

text \<open>\<^verbatim>\<open>TrailingMode(v)\<close> raises ValueError on a string that names no mode.\<close>

definition parse_trailing_mode :: "string \<Rightarrow> trailing_mode result" where
  "parse_trailing_mode v =
     (if v = ''FIXED'' then Inr FIXED else if v = ''PERCENT'' then Inr PERCENT
      else if v = ''ATR'' then Inr ATR else Inl ValueError)"

record position_management_config =
  pm_break_even_enabled :: bool
  pm_trailing_stop_enabled :: bool
  pm_trailing_default_mode :: string
  pm_trailing_default_percent :: rat
  pm_trailing_default_atr_multiplier :: rat
  pm_be_trigger_atr_multiplier :: rat
  pm_be_sl_offset_percent :: rat

definition validate_position_management ::
    "position_management_config \<Rightarrow> position_management_config result" where
  "validate_position_management c =
     (case parse_trailing_mode (pm_trailing_default_mode c) of
        Inl _ \<Rightarrow> Inl ConfigError
      | Inr mode \<Rightarrow>
          (if mode = FIXED then Inl ConfigError
           else if \<not> (0 < pm_trailing_default_percent c \<and> pm_trailing_default_percent c < 1)
             then Inl ConfigError
           else if pm_trailing_default_atr_multiplier c \<le> 0 then Inl ConfigError
           else if pm_be_trigger_atr_multiplier c \<le> 0 then Inl ConfigError
           else if \<not> (0 < pm_be_sl_offset_percent c \<and> pm_be_sl_offset_percent c < 1)
             then Inl ConfigError
           else Inr c))"

record failure_policy_config =
  fp_gpt_failure_blocks_new_entries :: bool
  fp_token_budget_failure_blocks_new_entries :: bool
  fp_deterministic_position_management_without_gpt :: bool
  fp_exits_do_not_require_gpt_response :: bool
  fp_every_position_requires_confirmed_sl_tp :: bool

record login_throttle_config =
  lt_enabled :: bool
  lt_max_failures_per_username :: int
  lt_max_failures_per_ip :: int
  lt_window_seconds :: int
  lt_lockout_seconds :: int
  lt_lockout_backoff_factor :: rat
  lt_max_lockout_seconds :: int

definition validate_login_throttle :: "login_throttle_config \<Rightarrow> login_throttle_config result" where
  "validate_login_throttle c =
     (if lt_max_failures_per_username c \<le> 0 \<or> lt_max_failures_per_ip c \<le> 0 \<or> lt_window_seconds c \<le> 0
         \<or> lt_lockout_seconds c \<le> 0 \<or> lt_max_lockout_seconds c \<le> 0 then Inl ConfigError
      else if lt_lockout_backoff_factor c < 1 then Inl ConfigError
      else if lt_max_lockout_seconds c < lt_lockout_seconds c then Inl ConfigError
      else Inr c)"

record token_budget_config =
  tb_max_tokens_per_request :: int
  tb_max_tokens_per_hour :: int
  tb_max_tokens_per_24h :: int
  tb_alert_at_percent :: rat

definition validate_token_budget :: "token_budget_config \<Rightarrow> token_budget_config result" where
  "validate_token_budget c =
     (if \<not> (0 < tb_alert_at_percent c \<and> tb_alert_at_percent c < 1) then Inl ValidationError else Inr c)"

subsection \<open>The root model\<close>

record app_config =
  cfg_challenge :: challenge_config
  cfg_trading :: trading_config
  cfg_risk :: risk_config
  cfg_leverage :: leverage_config
  cfg_execution :: execution_config
  cfg_storage :: storage_config
  cfg_reconciliation :: reconciliation_config
  cfg_connection_health :: connection_health_config
  cfg_liquidation_safety :: liquidation_safety_config
  cfg_slippage :: slippage_config
  cfg_funding_gate :: funding_gate_config
  cfg_position_management :: position_management_config
  cfg_failure_policy :: failure_policy_config
  cfg_token_budget :: token_budget_config
  cfg_login_throttle :: login_throttle_config

text \<open>
  \<^verbatim>\<open>AppConfig.model_validate\<close> validates the sections in the order of the fields. A \<^verbatim>\<open>ConfigError\<close> leaves
  pydantic at once; the \<^verbatim>\<open>ValueError\<close> of the token budget is collected and raised as a
  \<^verbatim>\<open>ValidationError\<close> when every field has been validated, so that section comes last.
\<close>

definition model_validate :: "app_config \<Rightarrow> app_config result" where
  "model_validate c =
     bindE (validate_challenge (cfg_challenge c)) (\<lambda>_.
     bindE (validate_trading (cfg_trading c)) (\<lambda>_.
     bindE (validate_risk (cfg_risk c)) (\<lambda>_.
     bindE (leverage_limits (cfg_leverage c)) (\<lambda>_.
     bindE (validate_connection_health (cfg_connection_health c)) (\<lambda>_.
     bindE (validate_slippage (cfg_slippage c)) (\<lambda>_.
     bindE (validate_funding_gate (cfg_funding_gate c)) (\<lambda>_.
     bindE (validate_position_management (cfg_position_management c)) (\<lambda>_.
     bindE (validate_login_throttle (cfg_login_throttle c)) (\<lambda>_.
     bindE (validate_token_budget (cfg_token_budget c)) (\<lambda>_.
     Inr c))))))))))"

text \<open>\<^verbatim>\<open>environ\<close> is the process environment; an absent variable reads as the empty string.\<close>

definition validate_live_confirmation :: "(string \<Rightarrow> string option) \<Rightarrow> app_config \<Rightarrow> unit result" where
  "validate_live_confirmation environ c =
     (let ec = cfg_execution c in
      if ex_environment ec \<noteq> LIVE then Inr ()
      else if \<not> ex_live_requires_env_confirmation ec then Inr ()
      else let actual = (case environ (ex_live_confirmation_env_var ec) of None \<Rightarrow> [] | Some v \<Rightarrow> v) in
        if actual \<noteq> ex_live_confirmation_required_value ec then Inl ConfigError else Inr ())"

text \<open>
  \<^verbatim>\<open>load_config\<close> from the point where the YAML has been parsed and the environment overrides have been
  applied: validation, then the confirmation of LIVE.
\<close>

definition load_config :: "(string \<Rightarrow> string option) \<Rightarrow> app_config \<Rightarrow> app_config result" where
  "load_config environ raw =
     bindE (model_validate raw) (\<lambda>c. bindE (validate_live_confirmation environ c) (\<lambda>_. Inr c))"

subsection \<open>What a loaded configuration guarantees\<close>

definition config_ok :: "app_config \<Rightarrow> bool" where
  "config_ok c \<longleftrightarrow>
     validate_challenge (cfg_challenge c) = Inr (cfg_challenge c) \<and>
     validate_trading (cfg_trading c) = Inr (cfg_trading c) \<and>
     validate_risk (cfg_risk c) = Inr (cfg_risk c) \<and>
     leverage_limits (cfg_leverage c) = Inr (cfg_leverage c) \<and>
     validate_connection_health (cfg_connection_health c) = Inr (cfg_connection_health c) \<and>
     validate_slippage (cfg_slippage c) = Inr (cfg_slippage c) \<and>
     validate_funding_gate (cfg_funding_gate c) = Inr (cfg_funding_gate c) \<and>
     validate_position_management (cfg_position_management c) = Inr (cfg_position_management c) \<and>
     validate_token_budget (cfg_token_budget c) = Inr (cfg_token_budget c) \<and>
     validate_login_throttle (cfg_login_throttle c) = Inr (cfg_login_throttle c)"

lemmas validator_defs =
  validate_challenge_def validate_trading_def validate_risk_def leverage_limits_def
  validate_connection_health_def validate_slippage_def validate_funding_gate_def
  validate_position_management_def validate_token_budget_def validate_login_throttle_def

lemma validator_Inr_id:
  "validate_challenge a = Inr a' \<Longrightarrow> a' = a" "validate_trading b = Inr b' \<Longrightarrow> b' = b"
  "validate_risk d = Inr d' \<Longrightarrow> d' = d" "leverage_limits l = Inr l' \<Longrightarrow> l' = l"
  "validate_connection_health h = Inr h' \<Longrightarrow> h' = h" "validate_slippage s = Inr s' \<Longrightarrow> s' = s"
  "validate_funding_gate f = Inr f' \<Longrightarrow> f' = f" "validate_position_management p = Inr p' \<Longrightarrow> p' = p"
  "validate_token_budget t = Inr t' \<Longrightarrow> t' = t" "validate_login_throttle u = Inr u' \<Longrightarrow> u' = u"
  by (auto simp: validator_defs split: if_splits sum.splits)

lemma model_validate_Inr: "model_validate c = Inr c' \<Longrightarrow> c' = c \<and> config_ok c"
  unfolding model_validate_def config_ok_def bindE_Inr_iff by (blast dest: validator_Inr_id)

lemma load_config_Inr: "load_config environ raw = Inr c \<Longrightarrow> c = raw \<and> config_ok c"
  unfolding load_config_def bindE_Inr_iff using model_validate_Inr by blast

lemma cap_for_env_bounds:
  assumes "leverage_limits c = Inr c'"
  shows "cap_for_env c env \<le> (case env of PAPER \<Rightarrow> 10 | TESTNET \<Rightarrow> 5 | LIVE \<Rightarrow> if lv_live_phase c = ABSOLUTE then 5 else 3)"
  using assms by (auto simp: leverage_limits_def cap_for_env_def split: if_splits environment.splits)

lemma validate_trading_bounds:
  "validate_trading c = Inr c' \<Longrightarrow> 1 \<le> tr_max_open_positions c \<and> tr_max_open_positions c \<le> 3
     \<and> tr_margin_type c = ISOLATED \<and> set (tr_allowed_symbols c) \<subseteq> set allowed_symbols"
  by (cases "tr_margin_type c") (auto simp: validate_trading_def list_all_iff split: if_splits)

lemma validate_risk_bounds:
  "validate_risk c = Inr c' \<Longrightarrow> rk_max_margin_per_trade_usdt c \<le> 10 \<and> 3/2 \<le> rk_min_net_risk_reward c"
  by (auto simp: validate_risk_def MIN_NET_RISK_REWARD_FLOOR_def split: if_splits)

end
