(* ===== verification/ModelDecision.thy ===== *)
theory ModelDecision
  imports AppConfig
begin

text \<open>
  \<^verbatim>\<open>backend/decision_engine/schemas.py\<close>: the structured decision that the language model returns, with
  the pydantic validators as functions to \<open>result\<close> (a \<^verbatim>\<open>ValueError\<close> raised in a validator surfaces as a
  \<^verbatim>\<open>ValidationError\<close>). The enumerations the program only stores keep their source's members under a
  prefix. The narrative fields, which no code reads, are left out. Floats are finite.
\<close>

subsection \<open>Identifiers\<close>

text \<open>
  \<^verbatim>\<open>uuid.UUID(v)\<close>: the prefixes are deleted, braces stripped and dashes deleted, and what is left must have
  32 characters and parse with \<^verbatim>\<open>int(_, 16)\<close>, which tolerates surrounding blanks, a sign, a
  \<^verbatim>\<open>0x\<close> prefix and single underscores between digits.
\<close>

definition hex_digit :: "char \<Rightarrow> bool" where
  "hex_digit c = List.member ''0123456789abcdefABCDEF'' c"

fun delete_all :: "string \<Rightarrow> nat \<Rightarrow> string \<Rightarrow> string" where
  "delete_all pat 0 [] = []"
| "delete_all pat (Suc k) [] = []"
| "delete_all pat (Suc k) (c # s) = delete_all pat k s"
| "delete_all pat 0 (c # s) =
     (if pat \<noteq> [] \<and> take (length pat) (c # s) = pat then delete_all pat (length pat - 1) s
      else c # delete_all pat 0 s)"

definition strip_chars :: "(char \<Rightarrow> bool) \<Rightarrow> string \<Rightarrow> string" where
  "strip_chars P s = rev (dropWhile P (rev (dropWhile P s)))"

definition py_blank :: "char \<Rightarrow> bool" where
  "py_blank c =
     (let n = of_char c :: nat
      in n = 32 \<or> (9 \<le> n \<and> n \<le> 13) \<or> (28 \<le> n \<and> n \<le> 31) \<or> n = 133 \<or> n = 160)"

fun hex_digits :: "string \<Rightarrow> bool" where
  "hex_digits [] = False"
| "hex_digits [c] = hex_digit c"
| "hex_digits (c # d # s) = (hex_digit c \<and> (if d = CHR ''_'' then hex_digits s else hex_digits (d # s)))"

definition drop_sign :: "string \<Rightarrow> string" where
  "drop_sign s = (case s of c # t \<Rightarrow> if c = CHR ''+'' \<or> c = CHR ''-'' then t else s | [] \<Rightarrow> s)"

definition drop_0x :: "string \<Rightarrow> string" where
  "drop_0x s = (if take 2 s = ''0x'' \<or> take 2 s = ''0X''
                then (case drop 2 s of c # t \<Rightarrow> if c = CHR ''_'' then t else c # t | [] \<Rightarrow> []) else s)"

definition uuid_valid :: "string \<Rightarrow> bool" where
  "uuid_valid v =
     (let h = delete_all ''uuid:'' 0 (delete_all ''urn:'' 0 v);
          h = filter (\<lambda>c. c \<noteq> CHR ''-'') (strip_chars (\<lambda>c. c = CHR ''{'' \<or> c = CHR ''}'') h)
      in length h = 32 \<and> hex_digits (drop_0x (drop_sign (strip_chars py_blank h))))"

subsection \<open>Enumerations\<close>

datatype decision_type = LONG | SHORT | NO_OPERAR
datatype entry_type = ENTRY_MARKET | ENTRY_LIMIT | NO_ENTRY
datatype primary_regime = TRENDING | RANGING | HIGH_VOLATILITY | LOW_VOLATILITY | BREAKOUT | UNCLEAR

record position_management_plan =
  pp_use_trailing_stop :: bool
  pp_move_to_break_even :: bool
  pp_partial_close_plan :: string
  pp_max_time_in_trade_minutes :: int

record model_decision =
  md_decision_id :: string
  md_challenge_mode :: string
  md_environment :: environment
  md_decision :: decision_type
  md_symbol :: symbol
  md_margin_type :: margin_type
  md_position_mode :: position_mode
  md_entry_type :: entry_type
  md_entry_price :: rat
  md_stop_loss :: rat
  md_take_profit :: rat
  md_invalidation_price :: rat
  md_leverage :: int
  md_margin_usdt :: rat
  md_net_risk_reward :: rat
  md_liquidation_distance_percent_estimated :: rat
  md_confidence :: rat
  md_position_management_plan :: position_management_plan
  md_execute :: bool

subsection \<open>Validators\<close>

definition CHALLENGE_MODE :: string where
  "CHALLENGE_MODE = ''AUTONOMOUS_FUTURES_GPT55_QUANT_CONTROLLED_RISK''"

fun decision_leverage_cap :: "environment \<Rightarrow> int" where
  "decision_leverage_cap PAPER = 10"
| "decision_leverage_cap TESTNET = 5"
| "decision_leverage_cap LIVE = 5"

definition decision_fields :: "model_decision \<Rightarrow> model_decision result" where
  "decision_fields d =
     (if 0 \<le> md_entry_price d \<and> 0 \<le> md_stop_loss d \<and> 0 \<le> md_take_profit d \<and> 0 \<le> md_invalidation_price d
         \<and> 1 \<le> md_leverage d \<and> md_leverage d \<le> 10
         \<and> 0 \<le> md_margin_usdt d \<and> md_margin_usdt d \<le> 10
         \<and> 0 \<le> md_net_risk_reward d
         \<and> 0 \<le> md_liquidation_distance_percent_estimated d
         \<and> 0 \<le> md_confidence d \<and> md_confidence d \<le> 1
         \<and> 0 \<le> pp_max_time_in_trade_minutes (md_position_management_plan d)
         \<and> uuid_valid (md_decision_id d)
         \<and> List.member allowed_symbols (md_symbol d)
         \<and> md_challenge_mode d = CHALLENGE_MODE
      then Inr d else Inl ValidationError)"

definition no_operar_cannot_execute :: "model_decision \<Rightarrow> model_decision result" where
  "no_operar_cannot_execute d =
     (if md_decision d = NO_OPERAR \<and> md_execute d then Inl ValidationError else Inr d)"

definition directional :: "decision_type \<Rightarrow> bool" where
  "directional t \<longleftrightarrow> t = LONG \<or> t = SHORT"

definition execute_requires_sl_tp :: "model_decision \<Rightarrow> model_decision result" where
  "execute_requires_sl_tp d =
     (if md_execute d \<and> directional (md_decision d) then
        if md_stop_loss d \<le> 0 then Inl ValidationError
        else if md_take_profit d \<le> 0 then Inl ValidationError
        else Inr d
      else Inr d)"

definition execute_requires_positive_margin :: "model_decision \<Rightarrow> model_decision result" where
  "execute_requires_positive_margin d =
     (if md_execute d \<and> directional (md_decision d) then
        if md_margin_usdt d \<le> 0 then Inl ValidationError else Inr d
      else Inr d)"

definition execute_requires_minimum_rr :: "model_decision \<Rightarrow> model_decision result" where
  "execute_requires_minimum_rr d =
     (if md_execute d \<and> directional (md_decision d) then
        if md_net_risk_reward d < MIN_NET_RISK_REWARD_FLOOR then Inl ValidationError else Inr d
      else Inr d)"

definition leverage_within_env_cap :: "model_decision \<Rightarrow> model_decision result" where
  "leverage_within_env_cap d =
     (if decision_leverage_cap (md_environment d) < md_leverage d then Inl ValidationError else Inr d)"

definition sl_tp_coherence :: "model_decision \<Rightarrow> model_decision result" where
  "sl_tp_coherence d =
     (if \<not> md_execute d then Inr d
      else case md_decision d of
        LONG \<Rightarrow> if md_entry_price d \<le> md_stop_loss d then Inl ValidationError
                else if md_take_profit d \<le> md_entry_price d then Inl ValidationError
                else Inr d
      | SHORT \<Rightarrow> if md_stop_loss d \<le> md_entry_price d then Inl ValidationError
                 else if md_entry_price d \<le> md_take_profit d then Inl ValidationError
                 else Inr d
      | NO_OPERAR \<Rightarrow> Inr d)"

definition model_decision_validate :: "model_decision \<Rightarrow> model_decision result" where
  "model_decision_validate d =
     bindE (decision_fields d) (\<lambda>d.
     bindE (no_operar_cannot_execute d) (\<lambda>d.
     bindE (execute_requires_sl_tp d) (\<lambda>d.
     bindE (execute_requires_positive_margin d) (\<lambda>d.
     bindE (execute_requires_minimum_rr d) (\<lambda>d.
     bindE (leverage_within_env_cap d) (\<lambda>d. sl_tp_coherence d))))))"

subsection \<open>What a validated decision guarantees\<close>

lemmas decision_validator_defs =
  decision_fields_def no_operar_cannot_execute_def execute_requires_sl_tp_def
  execute_requires_positive_margin_def execute_requires_minimum_rr_def leverage_within_env_cap_def
  sl_tp_coherence_def

definition executable_coherent :: "model_decision \<Rightarrow> bool" where
  "executable_coherent d \<longleftrightarrow>
     directional (md_decision d) \<and> 0 < md_margin_usdt d \<and> md_margin_usdt d \<le> 10
     \<and> 0 < md_stop_loss d \<and> 0 < md_entry_price d \<and> 0 < md_take_profit d
     \<and> 1 \<le> md_leverage d \<and> md_leverage d \<le> decision_leverage_cap (md_environment d)
     \<and> (if md_decision d = LONG
        then md_stop_loss d < md_entry_price d \<and> md_entry_price d < md_take_profit d
        else md_take_profit d < md_entry_price d \<and> md_entry_price d < md_stop_loss d)"

lemma bindE_id_chain:
  "bindE m f = Inr y \<Longrightarrow> (\<And>x. m = Inr x \<Longrightarrow> x = d) \<Longrightarrow> f d = Inr y \<and> m = Inr d"
  by (cases m) auto

lemma decision_validator_Inr:
  "decision_fields d = Inr d' \<Longrightarrow> d' = d" "no_operar_cannot_execute d = Inr d' \<Longrightarrow> d' = d"
  "execute_requires_sl_tp d = Inr d' \<Longrightarrow> d' = d" "execute_requires_positive_margin d = Inr d' \<Longrightarrow> d' = d"
  "execute_requires_minimum_rr d = Inr d' \<Longrightarrow> d' = d" "leverage_within_env_cap d = Inr d' \<Longrightarrow> d' = d"
  "sl_tp_coherence d = Inr d' \<Longrightarrow> d' = d"
  by (auto simp: decision_validator_defs split: if_splits decision_type.splits)

lemma model_decision_validate_Inr:
  assumes "model_decision_validate d = Inr d'"
  shows "d' = d \<and> decision_fields d = Inr d \<and> no_operar_cannot_execute d = Inr d
    \<and> execute_requires_sl_tp d = Inr d \<and> execute_requires_positive_margin d = Inr d
    \<and> execute_requires_minimum_rr d = Inr d \<and> leverage_within_env_cap d = Inr d \<and> sl_tp_coherence d = Inr d"
  using assms unfolding model_decision_validate_def bindE_Inr_iff
  by (blast dest: decision_validator_Inr)

lemma validated_executable:
  assumes "model_decision_validate d = Inr d'" "md_execute d"
  shows "executable_coherent d"
proof -
  note v = model_decision_validate_Inr [OF assms(1)]
  have fields: "0 \<le> md_entry_price d" "1 \<le> md_leverage d" "md_margin_usdt d \<le> 10"
    using v by (auto simp: decision_fields_def split: if_splits)
  have cap: "md_leverage d \<le> decision_leverage_cap (md_environment d)"
    using v by (auto simp: leverage_within_env_cap_def split: if_splits)
  show ?thesis
  proof (cases "md_decision d")
    case LONG
    with v assms(2) fields cap show ?thesis
      by (auto simp: executable_coherent_def directional_def execute_requires_sl_tp_def
          execute_requires_positive_margin_def sl_tp_coherence_def split: if_splits)
  next
    case SHORT
    with v assms(2) fields cap show ?thesis
      by (auto simp: executable_coherent_def directional_def execute_requires_sl_tp_def
          execute_requires_positive_margin_def sl_tp_coherence_def split: if_splits)
  next
    case NO_OPERAR
    with v assms(2) show ?thesis by (auto simp: no_operar_cannot_execute_def)
  qed
qed

end
