(* ===== verification/Exchange.thy ===== *)
theory Exchange
  imports ModelDecision
begin

text \<open>
  \<^verbatim>\<open>backend/exchange_adapters/schemas.py\<close>: the messages between the engine and an exchange adapter. Each
  \<^verbatim>\<open>make_\<close> function is the constructor of the pydantic model: the value, or a \<^verbatim>\<open>ValidationError\<close>. The identifier
  of a position, which nothing reads, is left out; the identifier and the time stamp of an order
  result are arguments.
\<close>

subsection \<open>Orders\<close>

datatype order_side = BUY | SELL
datatype order_type = MARKET | LIMIT | STOP_MARKET | TAKE_PROFIT_MARKET
datatype order_status = PENDING | FILLED | PARTIALLY_FILLED | CANCELLED | FAILED

fun side_value :: "order_side \<Rightarrow> string" where
  "side_value BUY = ''BUY''"
| "side_value SELL = ''SELL''"

fun order_type_value :: "order_type \<Rightarrow> string" where
  "order_type_value MARKET = ''MARKET''"
| "order_type_value LIMIT = ''LIMIT''"
| "order_type_value STOP_MARKET = ''STOP_MARKET''"
| "order_type_value TAKE_PROFIT_MARKET = ''TAKE_PROFIT_MARKET''"

fun status_value :: "order_status \<Rightarrow> string" where
  "status_value PENDING = ''PENDING''"
| "status_value FILLED = ''FILLED''"
| "status_value PARTIALLY_FILLED = ''PARTIALLY_FILLED''"
| "status_value CANCELLED = ''CANCELLED''"
| "status_value FAILED = ''FAILED''"

text \<open>The calls \<^verbatim>\<open>OrderSide(v)\<close>, \<^verbatim>\<open>OrderType(v)\<close> and \<^verbatim>\<open>OrderStatus(v)\<close>.\<close>

definition parse_side :: "string \<Rightarrow> order_side result" where
  "parse_side v = (case find (\<lambda>s. side_value s = v) [BUY, SELL] of Some s \<Rightarrow> Inr s | None \<Rightarrow> Inl ValueError)"

definition parse_order_type :: "string \<Rightarrow> order_type result" where
  "parse_order_type v =
     (case find (\<lambda>t. order_type_value t = v) [MARKET, LIMIT, STOP_MARKET, TAKE_PROFIT_MARKET] of
        Some t \<Rightarrow> Inr t | None \<Rightarrow> Inl ValueError)"

definition parse_status :: "string \<Rightarrow> order_status result" where
  "parse_status v =
     (case find (\<lambda>t. status_value t = v) [PENDING, FILLED, PARTIALLY_FILLED, CANCELLED, FAILED] of
        Some t \<Rightarrow> Inr t | None \<Rightarrow> Inl ValueError)"

lemma parse_side_value [simp]: "parse_side (side_value s) = Inr s"
  by (cases s) (simp_all add: parse_side_def)

lemma parse_order_type_value [simp]: "parse_order_type (order_type_value t) = Inr t"
  by (cases t) (simp_all add: parse_order_type_def)

lemma parse_status_value [simp]: "parse_status (status_value u) = Inr u"
  by (cases u) (simp_all add: parse_status_def)

record order_request =
  rq_client_order_id :: string
  rq_symbol :: symbol
  rq_side :: order_side
  rq_order_type :: order_type
  rq_quantity :: rat
  rq_price :: "rat option"
  rq_stop_price :: "rat option"
  rq_is_reduce_only :: bool
  rq_bid :: "rat option"
  rq_ask :: "rat option"

definition opt_gt_0 :: "rat option \<Rightarrow> bool" where
  "opt_gt_0 v = (case v of None \<Rightarrow> True | Some x \<Rightarrow> 0 < x)"

definition opt_ge_0 :: "rat option \<Rightarrow> bool" where
  "opt_ge_0 v = (case v of None \<Rightarrow> True | Some x \<Rightarrow> 0 \<le> x)"

lemma opt_bound_simps [simp]:
  "opt_gt_0 None" "opt_gt_0 (Some x) \<longleftrightarrow> 0 < x" "opt_ge_0 None" "opt_ge_0 (Some x) \<longleftrightarrow> 0 \<le> x"
  by (simp_all add: opt_gt_0_def opt_ge_0_def)

definition book_coherent :: "order_request \<Rightarrow> bool" where
  "book_coherent r =
     (case (rq_bid r, rq_ask r) of
        (Some b, Some a) \<Rightarrow> b < a
      | (None, None) \<Rightarrow> True
      | _ \<Rightarrow> False)"

definition make_order_request :: "order_request \<Rightarrow> order_request result" where
  "make_order_request r =
     (if 0 < rq_quantity r \<and> opt_gt_0 (rq_price r) \<and> opt_gt_0 (rq_stop_price r)
         \<and> opt_gt_0 (rq_bid r) \<and> opt_gt_0 (rq_ask r)
         \<and> uuid_valid (rq_client_order_id r) \<and> List.member allowed_symbols (rq_symbol r)
         \<and> book_coherent r
      then Inr r else Inl ValidationError)"

record order_result =
  or_order_id :: string
  or_client_order_id :: string
  or_symbol :: symbol
  or_side :: order_side
  or_order_type :: order_type
  or_status :: order_status
  or_quantity_requested :: rat
  or_quantity_filled :: rat
  or_fill_price :: "rat option"
  or_fee_usdt :: rat
  or_slippage_usdt :: "rat option"
  or_is_simulated :: bool
  or_timestamp_utc :: int

definition make_order_result :: "order_result \<Rightarrow> order_result result" where
  "make_order_result r =
     (if 0 \<le> or_quantity_filled r \<and> opt_ge_0 (or_fill_price r) \<and> 0 \<le> or_fee_usdt r
         \<and> opt_ge_0 (or_slippage_usdt r)
      then Inr r else Inl ValidationError)"

subsection \<open>Positions and accounts\<close>

record position_state =
  ps_symbol :: symbol
  ps_side :: order_side
  ps_quantity :: rat
  ps_entry_price :: rat
  ps_mark_price :: "rat option"
  ps_unrealized_pnl :: rat
  ps_margin_usdt :: rat
  ps_leverage :: int
  ps_stop_loss :: "rat option"
  ps_take_profit :: "rat option"
  ps_is_simulated :: bool

definition make_position_state :: "position_state \<Rightarrow> position_state result" where
  "make_position_state p =
     (if 0 < ps_quantity p \<and> 0 < ps_entry_price p \<and> opt_gt_0 (ps_mark_price p) \<and> 0 < ps_margin_usdt p
         \<and> 1 \<le> ps_leverage p \<and> opt_ge_0 (ps_stop_loss p) \<and> opt_ge_0 (ps_take_profit p)
      then Inr p else Inl ValidationError)"

record account_state =
  ac_balance_usdt :: rat
  ac_equity_usdt :: rat
  ac_available_margin_usdt :: rat
  ac_used_margin_usdt :: rat
  ac_is_simulated :: bool

definition make_account_state :: "account_state \<Rightarrow> account_state result" where
  "make_account_state a =
     (if 0 \<le> ac_available_margin_usdt a \<and> 0 \<le> ac_used_margin_usdt a then Inr a else Inl ValidationError)"

lemma make_order_request_Inr:
  "make_order_request r = Inr r' \<longleftrightarrow> r' = r \<and> 0 < rq_quantity r \<and> opt_gt_0 (rq_price r)
     \<and> opt_gt_0 (rq_stop_price r) \<and> opt_gt_0 (rq_bid r) \<and> opt_gt_0 (rq_ask r)
     \<and> uuid_valid (rq_client_order_id r) \<and> rq_symbol r \<in> set allowed_symbols \<and> book_coherent r"
  by (auto simp: make_order_request_def)

lemma make_order_result_Inr:
  "make_order_result r = Inr r' \<longleftrightarrow> r' = r \<and> 0 \<le> or_quantity_filled r \<and> opt_ge_0 (or_fill_price r)
     \<and> 0 \<le> or_fee_usdt r \<and> opt_ge_0 (or_slippage_usdt r)"
  by (auto simp: make_order_result_def)

lemma make_position_state_Inr:
  "make_position_state p = Inr p' \<longleftrightarrow> p' = p \<and> 0 < ps_quantity p \<and> 0 < ps_entry_price p
     \<and> opt_gt_0 (ps_mark_price p) \<and> 0 < ps_margin_usdt p \<and> 1 \<le> ps_leverage p
     \<and> opt_ge_0 (ps_stop_loss p) \<and> opt_ge_0 (ps_take_profit p)"
  by (auto simp: make_position_state_def)

subsection \<open>The adapter interface\<close>

text \<open>
  What the clients of \<^verbatim>\<open>backend/exchange_adapters/base.py\<close> rely on: an order is identified by its client
  order id, so that a repeated order returns the earlier result and changes nothing; an accepted order can
  be looked up; an order only touches the position of its own symbol; and an accepted market order that
  may only reduce and covers the whole position leaves none.
\<close>

locale exchange_adapter =
  fixes adapter_ok :: "'a \<Rightarrow> bool"
    and get_pos :: "symbol \<Rightarrow> 'a \<Rightarrow> position_state option result"
    and place :: "string \<times> int \<Rightarrow> order_request \<Rightarrow> 'a \<Rightarrow> order_result result \<times> 'a"
    and status :: "string \<Rightarrow> 'a \<Rightarrow> order_result option"
  assumes place_ok: "adapter_ok a \<Longrightarrow> place ctx r a = (res, a') \<Longrightarrow> adapter_ok a'"
    and place_idempotent: "status (rq_client_order_id r) a = Some out \<Longrightarrow> place ctx r a = (Inr out, a)"
    and place_registers: "place ctx r a = (Inr out, a') \<Longrightarrow> status (rq_client_order_id r) a' = Some out"
    and place_frame: "place ctx r a = (res, a') \<Longrightarrow> t \<noteq> rq_symbol r \<Longrightarrow> get_pos t a' = get_pos t a"
    and get_pos_ok: "adapter_ok a \<Longrightarrow> get_pos s a = Inr (Some p) \<Longrightarrow> ps_symbol p = s \<and> 0 < ps_quantity p"
    and place_closes:
      "place ctx r a = (Inr out, a') \<Longrightarrow> rq_order_type r = MARKET \<Longrightarrow> rq_is_reduce_only r \<Longrightarrow>
       status (rq_client_order_id r) a = None \<Longrightarrow>
       get_pos (rq_symbol r) a = Inr (Some p) \<Longrightarrow> ps_quantity p \<le> rq_quantity r \<Longrightarrow>
       get_pos (rq_symbol r) a' = Inr None"
begin

lemma place_twice: "place ctx r a = (Inr out, a') \<Longrightarrow> place ctx' r a' = (Inr out, a')"
  by (rule place_idempotent) (rule place_registers)

end

end
