(* ===== verification/MarketData.thy ===== *)
theory MarketData
  imports AppConfig
begin

text \<open>
  \<^verbatim>\<open>backend/market_data/schemas.py\<close> and \<^verbatim>\<open>backend/market_data/validators.py\<close>: candles and market
  snapshots with the pydantic validators that every snapshot has passed, and the guard that rejects
  expired or incoherent snapshots. Prices are decimals, instants are microseconds.
\<close>

subsection \<open>Schemas\<close>

datatype freshness_status = FRESH | STALE | EXPIRED
datatype coherence_status = OK | WARNING | INVALID
datatype exchange = BINGX | BINANCE | EXCHANGE_PAPER

text \<open>The values of the three enumerations, and their members by value: anything else is a ValueError.\<close>

fun freshness_value :: "freshness_status \<Rightarrow> string" where
  "freshness_value FRESH = ''FRESH''"
| "freshness_value STALE = ''STALE''"
| "freshness_value EXPIRED = ''EXPIRED''"

fun coherence_value :: "coherence_status \<Rightarrow> string" where
  "coherence_value OK = ''OK''"
| "coherence_value WARNING = ''WARNING''"
| "coherence_value INVALID = ''INVALID''"

fun exchange_value :: "exchange \<Rightarrow> string" where
  "exchange_value BINGX = ''BINGX''"
| "exchange_value BINANCE = ''BINANCE''"
| "exchange_value EXCHANGE_PAPER = ''PAPER''"

definition member_of :: "('a \<Rightarrow> string) \<Rightarrow> 'a list \<Rightarrow> string \<Rightarrow> 'a result" where
  "member_of val members v =
     (case List.find (\<lambda>x. val x = v) members of None \<Rightarrow> Inl ValueError | Some x \<Rightarrow> Inr x)"

definition parse_freshness :: "string \<Rightarrow> freshness_status result" where
  "parse_freshness = member_of freshness_value [FRESH, STALE, EXPIRED]"

definition parse_coherence :: "string \<Rightarrow> coherence_status result" where
  "parse_coherence = member_of coherence_value [OK, WARNING, INVALID]"

definition parse_exchange :: "string \<Rightarrow> exchange result" where
  "parse_exchange = member_of exchange_value [BINGX, BINANCE, EXCHANGE_PAPER]"

lemma parse_value [simp]:
  "parse_freshness (freshness_value f) = Inr f" "parse_coherence (coherence_value c) = Inr c"
  "parse_exchange (exchange_value x) = Inr x"
  by (cases f; cases c; cases x; simp add: parse_freshness_def parse_coherence_def parse_exchange_def member_of_def)+

record candle_data =
  cd_open :: rat
  cd_high :: rat
  cd_low :: rat
  cd_close :: rat
  cd_volume :: rat
  cd_n_candles :: int

definition make_candle :: "candle_data \<Rightarrow> candle_data result" where
  "make_candle c =
     (if cd_n_candles c < 1 then Inl ValidationError
      else if \<not> (cd_low c \<le> cd_open c \<and> cd_open c \<le> cd_high c) then Inl ValidationError
      else if \<not> (cd_low c \<le> cd_close c \<and> cd_close c \<le> cd_high c) then Inl ValidationError
      else if cd_volume c < 0 then Inl ValidationError
      else Inr c)"

record candles =
  tf_5m :: candle_data
  tf_15m :: candle_data
  tf_1h :: candle_data
  tf_4h :: candle_data
  history_5m :: "candle_data list"
  history_15m :: "candle_data list"
  history_1h :: "candle_data list"
  history_4h :: "candle_data list"

record market_snapshot =
  ms_snapshot_id :: string
  ms_timestamp_utc :: int
  ms_exchange :: exchange
  ms_environment :: environment
  ms_symbol :: symbol
  ms_last_price :: rat
  ms_bid :: rat
  ms_ask :: rat
  ms_spread_absolute :: rat
  ms_spread_percent :: rat
  ms_candles :: candles
  ms_volume :: rat
  ms_volatility :: "rat option"
  ms_funding_rate :: "rat option"
  ms_open_interest :: "rat option"
  ms_account_balance_usdt :: rat
  ms_open_positions_count :: int
  ms_active_orders_count :: int
  ms_latency_ms :: int
  ms_exchange_server_time :: int
  ms_local_time :: int
  ms_clock_skew_ms :: int
  ms_data_freshness_status :: freshness_status
  ms_coherence_status :: coherence_status

definition snapshot_fields :: "market_snapshot \<Rightarrow> bool" where
  "snapshot_fields s \<longleftrightarrow>
     0 < ms_last_price s \<and> 0 < ms_bid s \<and> 0 < ms_ask s
     \<and> 0 \<le> ms_spread_absolute s \<and> 0 \<le> ms_spread_percent s \<and> 0 \<le> ms_volume s
     \<and> 0 \<le> ms_account_balance_usdt s \<and> 0 \<le> ms_open_positions_count s \<and> 0 \<le> ms_active_orders_count s
     \<and> 0 \<le> ms_latency_ms s \<and> ms_latency_ms s \<le> 10000
     \<and> \<bar>ms_clock_skew_ms s\<bar> \<le> 5000
     \<and> List.member allowed_symbols (ms_symbol s)"

definition prices_coherent :: "market_snapshot \<Rightarrow> market_snapshot result" where
  "prices_coherent s =
     (if ms_ask s \<le> ms_bid s then Inl ValidationError
      else let expected_spread = dsub (ms_ask s) (ms_bid s) in
      if 1 / 10000 < \<bar>dsub (ms_spread_absolute s) expected_spread\<bar> then Inl ValidationError
      else let expected_spread_pct = dmul (ddiv (ms_spread_absolute s) (ms_bid s)) 100 in
      if 1 / 100 < \<bar>dsub (ms_spread_percent s) expected_spread_pct\<bar> then Inl ValidationError
      else if 5 < ms_spread_percent s then Inl ValidationError
      else if \<not> (ms_bid s \<le> ms_last_price s \<and> ms_last_price s \<le> ms_ask s) then Inl ValidationError
      else Inr s)"

definition make_snapshot :: "market_snapshot \<Rightarrow> market_snapshot result" where
  "make_snapshot s = (if \<not> snapshot_fields s then Inl ValidationError else prices_coherent s)"

subsection \<open>The market data guard\<close>

definition STALE_AGE_S :: rat where "STALE_AGE_S = 10"
definition EXPIRED_AGE_S :: rat where "EXPIRED_AGE_S = 30"
definition MIN_CANDLES_PER_TF :: int where "MIN_CANDLES_PER_TF = 3"
definition MAX_LAST_PRICE_VS_5M_CLOSE_PCT :: rat where "MAX_LAST_PRICE_VS_5M_CLOSE_PCT = 2"

definition evaluate_freshness :: "int \<Rightarrow> market_snapshot \<Rightarrow> freshness_status" where
  "evaluate_freshness now s =
     (let age_s = fl (of_int (now - ms_timestamp_utc s) / 1000000) in
      if EXPIRED_AGE_S < age_s then EXPIRED
      else if STALE_AGE_S < age_s then STALE
      else FRESH)"

datatype coherence_issue = GAP string | CLOSE_NOT_POSITIVE | PRICE_DEVIATION

definition check_gaps :: "candles \<Rightarrow> coherence_issue list" where
  "check_gaps c =
     map (\<lambda>(tf_name, candle). GAP tf_name)
       (filter (\<lambda>(tf_name, candle). cd_n_candles candle < MIN_CANDLES_PER_TF)
          [(''15m'', tf_15m c), (''1h'', tf_1h c), (''4h'', tf_4h c)])"

definition check_price_coherence :: "market_snapshot \<Rightarrow> coherence_issue list \<times> coherence_issue list" where
  "check_price_coherence s =
     (let close_5m = cd_close (tf_5m (ms_candles s)) in
      if close_5m \<le> 0 then ([CLOSE_NOT_POSITIVE], [])
      else let deviation_pct = dmul (ddiv \<bar>dsub (ms_last_price s) close_5m\<bar> close_5m) 100 in
      if MAX_LAST_PRICE_VS_5M_CLOSE_PCT < deviation_pct then ([], [PRICE_DEVIATION])
      else ([], []))"

definition evaluate_coherence :: "market_snapshot \<Rightarrow> coherence_status \<times> coherence_issue list" where
  "evaluate_coherence s =
     (let gap_issues = check_gaps (ms_candles s);
          (price_invalid, price_warnings) = check_price_coherence s;
          invalid_issues = gap_issues @ price_invalid;
          all_issues = invalid_issues @ price_warnings
      in if all_issues = [] then (OK, [])
         else if invalid_issues \<noteq> [] then (INVALID, all_issues)
         else (WARNING, all_issues))"

definition validate_snapshot :: "int \<Rightarrow> market_snapshot \<Rightarrow> market_snapshot result" where
  "validate_snapshot now s =
     (let freshness = evaluate_freshness now s;
          (coherence, issues) = evaluate_coherence s
      in if freshness = EXPIRED \<or> coherence = INVALID then Inl SnapshotRejectedError else Inr s)"

subsection \<open>Lemmas\<close>

lemma make_snapshot_Inr:
  assumes "make_snapshot s = Inr s'"
  shows "s' = s" "0 < ms_bid s" "ms_bid s < ms_ask s" "ms_bid s \<le> ms_last_price s" "ms_last_price s \<le> ms_ask s"
    "ms_symbol s \<in> set allowed_symbols"
  using assms by (auto simp: make_snapshot_def snapshot_fields_def prices_coherent_def Let_def split: if_splits)

lemma evaluate_coherence_INVALID_iff:
  "fst (evaluate_coherence s) = INVALID \<longleftrightarrow>
     cd_n_candles (tf_15m (ms_candles s)) < 3 \<or> cd_n_candles (tf_1h (ms_candles s)) < 3
     \<or> cd_n_candles (tf_4h (ms_candles s)) < 3 \<or> cd_close (tf_5m (ms_candles s)) \<le> 0"
  by (auto simp: evaluate_coherence_def check_gaps_def check_price_coherence_def Let_def
      MIN_CANDLES_PER_TF_def)

lemma evaluate_freshness_EXPIRED_iff:
  "evaluate_freshness now s = EXPIRED \<longleftrightarrow> 30 < fl (of_int (now - ms_timestamp_utc s) / 1000000)"
  by (auto simp: evaluate_freshness_def Let_def EXPIRED_AGE_S_def)

lemma fl_30: "fl 30 = 30"
  using fl_int [of 30] by simp

lemma evaluate_freshness_young:
  assumes "now - ms_timestamp_utc s \<le> 30000000"
  shows "evaluate_freshness now s \<noteq> EXPIRED"
proof -
  have "of_int (now - ms_timestamp_utc s) / 1000000 \<le> (30::rat)"
    using assms by (simp add: divide_le_eq del: of_int_diff)
  then show ?thesis
    using flt.rd_le [OF fl_30] by (simp add: evaluate_freshness_EXPIRED_iff not_less)
qed

end
