(* ===== verification/Costs.thy ===== *)
theory Costs
  imports Exchange MarketData
begin

text \<open>
  The cost models: \<^verbatim>\<open>backend/core/slippage.py\<close> and \<^verbatim>\<open>backend/core/fees.py\<close> estimate slippage and fees
  before an order, \<^verbatim>\<open>backend/backtesting/slippage_model.py\<close> and \<^verbatim>\<open>fee_model.py\<close> charge them on a
  simulated fill, and \<^verbatim>\<open>backend/core/funding.py\<close> computes the funding payment. All amounts are
  decimals: every operator rounds to 28 digits and \<^verbatim>\<open>quantize\<close> to 8 decimals or raises.
\<close>

subsection \<open>Slippage before the trade\<close>

record slippage_estimate =
  se_estimated_slippage_usdt :: rat
  se_half_spread_usdt :: rat
  se_impact_usdt :: rat
  se_expected_fill_price :: rat
  se_bid :: rat
  se_ask :: rat

definition half_spread :: "rat \<Rightarrow> rat \<Rightarrow> rat result" where
  "half_spread bid ask =
     (if bid \<le> 0 \<or> ask \<le> 0 then Inl ValueError
      else if ask \<le> bid then Inl ValueError
      else Inr (ddiv (dsub ask bid) 2))"

definition is_estimable :: "model_decision \<Rightarrow> bool" where
  "is_estimable d \<longleftrightarrow> md_execute d \<and> md_entry_type d \<noteq> NO_ENTRY"

abbreviation quantize8 :: "rat \<Rightarrow> rat result" where
  "quantize8 \<equiv> quantize ROUND_HALF_EVEN QUANT"

definition estimate_slippage ::
    "order_side \<Rightarrow> order_type \<Rightarrow> rat \<Rightarrow> rat \<Rightarrow> rat \<Rightarrow> rat \<Rightarrow> rat \<Rightarrow> slippage_estimate result" where
  "estimate_slippage side otype notional bid ask reference_price impact =
     (if notional \<le> 0 then Inl ValueError
      else if bid \<le> 0 \<or> ask \<le> 0 then Inl ValueError
      else if ask \<le> bid then Inl ValueError
      else if reference_price \<le> 0 then Inl ValueError
      else if impact < 0 then Inl ValueError
      else if otype \<noteq> MARKET then
        bindE (quantize8 reference_price) (\<lambda>p.
        Inr \<lparr>se_estimated_slippage_usdt = 0, se_half_spread_usdt = 0, se_impact_usdt = 0,
             se_expected_fill_price = p, se_bid = bid, se_ask = ask\<rparr>)
      else let quantity = ddiv notional reference_price in
        bindE (half_spread bid ask) (\<lambda>half_spread_per_unit.
        let impact_per_unit = ddiv (dmul reference_price impact) BASIS_POINTS;
            adverse_move_per_unit = dadd half_spread_per_unit impact_per_unit in
        bindE (quantize8 (dmul half_spread_per_unit quantity)) (\<lambda>half_spread_usdt.
        bindE (quantize8 (dmul impact_per_unit quantity)) (\<lambda>impact_usdt.
        bindE (quantize8 (dmul adverse_move_per_unit quantity)) (\<lambda>total_usdt.
        let expected_fill_price =
          (if side = BUY then dadd reference_price adverse_move_per_unit
           else dsub reference_price adverse_move_per_unit) in
        bindE (quantize8 expected_fill_price) (\<lambda>p.
        Inr \<lparr>se_estimated_slippage_usdt = total_usdt, se_half_spread_usdt = half_spread_usdt,
             se_impact_usdt = impact_usdt, se_expected_fill_price = p, se_bid = bid, se_ask = ask\<rparr>))))))"

definition entry_side :: "model_decision \<Rightarrow> order_side" where
  "entry_side d = (if md_decision d = LONG then BUY else SELL)"

definition entry_order_type :: "model_decision \<Rightarrow> order_type" where
  "entry_order_type d = (if md_entry_type d = ENTRY_MARKET then MARKET else LIMIT)"

definition estimate_for_decision ::
    "market_snapshot \<Rightarrow> model_decision \<Rightarrow> rat \<Rightarrow> int \<Rightarrow> rat \<Rightarrow> slippage_estimate result" where
  "estimate_for_decision s d margin lev impact =
     (if \<not> is_estimable d then Inl ValueError
      else if ms_symbol s \<noteq> md_symbol d then Inl ValueError
      else estimate_slippage (entry_side d) (entry_order_type d) (dmul margin (of_int lev))
             (ms_bid s) (ms_ask s) (dec_of_float (md_entry_price d)) impact)"

subsection \<open>Fees before the trade\<close>

record fee_rates =
  fr_maker :: rat
  fr_taker :: rat

definition make_fee_rates :: "rat \<Rightarrow> rat \<Rightarrow> fee_rates result" where
  "make_fee_rates maker taker =
     (if \<not> (0 \<le> maker \<and> maker < 1) then Inl ValueError
      else if \<not> (0 \<le> taker \<and> taker < 1) then Inl ValueError
      else Inr \<lparr>fr_maker = maker, fr_taker = taker\<rparr>)"

record fee_estimate =
  fe_entry_fee_usdt :: rat
  fe_exit_fee_at_tp_usdt :: rat
  fe_exit_fee_at_sl_usdt :: rat
  fe_gross_risk_reward :: rat
  fe_net_risk_reward :: rat
  fe_entry_rate :: rat
  fe_exit_rate :: rat

definition RR_QUANT :: rat where
  "RR_QUANT = 1 / 10000"

definition round_trip_fee_at_sl_usdt :: "fee_estimate \<Rightarrow> rat" where
  "round_trip_fee_at_sl_usdt e = dadd (fe_entry_fee_usdt e) (fe_exit_fee_at_sl_usdt e)"

definition reward_per_unit :: "decision_type \<Rightarrow> rat \<Rightarrow> rat \<Rightarrow> rat" where
  "reward_per_unit side entry tp = (if side = LONG then dsub tp entry else dsub entry tp)"

definition risk_per_unit :: "decision_type \<Rightarrow> rat \<Rightarrow> rat \<Rightarrow> rat" where
  "risk_per_unit side entry sl = (if side = LONG then dsub entry sl else dsub sl entry)"

definition net_reward_per_unit :: "rat \<Rightarrow> rat \<Rightarrow> rat \<Rightarrow> rat \<Rightarrow> rat \<Rightarrow> rat" where
  "net_reward_per_unit reward entry tp entry_rate exit_rate =
     dsub (dsub reward (dmul entry entry_rate)) (dmul tp exit_rate)"

definition net_risk_per_unit :: "rat \<Rightarrow> rat \<Rightarrow> rat \<Rightarrow> rat \<Rightarrow> rat \<Rightarrow> rat" where
  "net_risk_per_unit risk entry sl entry_rate exit_rate =
     dadd (dadd risk (dmul entry entry_rate)) (dmul sl exit_rate)"

definition estimate_fees ::
    "decision_type \<Rightarrow> entry_type \<Rightarrow> rat \<Rightarrow> rat \<Rightarrow> rat \<Rightarrow> rat \<Rightarrow> fee_rates \<Rightarrow> fee_estimate result" where
  "estimate_fees side etype notional entry sl tp rates =
     (if \<not> (side = LONG \<or> side = SHORT) then Inl ValueError
      else if \<not> (etype = ENTRY_MARKET \<or> etype = ENTRY_LIMIT) then Inl ValueError
      else if notional \<le> 0 then Inl ValueError
      else if entry \<le> 0 \<or> sl \<le> 0 \<or> tp \<le> 0 then Inl ValueError
      else let reward = reward_per_unit side entry tp; risk = risk_per_unit side entry sl in
      if reward \<le> 0 \<or> risk \<le> 0 then Inl ValueError
      else let entry_rate = (if etype = ENTRY_MARKET then fr_taker rates else fr_maker rates);
               exit_rate = fr_taker rates;
               quantity = ddiv notional entry;
               entry_fee = dmul notional entry_rate;
               exit_fee_tp = dmul (dmul quantity tp) exit_rate;
               exit_fee_sl = dmul (dmul quantity sl) exit_rate;
               net_reward = net_reward_per_unit reward entry tp entry_rate exit_rate;
               net_risk = net_risk_per_unit risk entry sl entry_rate exit_rate in
      bindE (quantize ROUND_UP QUANT entry_fee) (\<lambda>q_entry.
      bindE (quantize ROUND_UP QUANT exit_fee_tp) (\<lambda>q_tp.
      bindE (quantize ROUND_UP QUANT exit_fee_sl) (\<lambda>q_sl.
      bindE (quantize ROUND_FLOOR RR_QUANT (ddiv reward risk)) (\<lambda>gross.
      bindE (quantize ROUND_FLOOR RR_QUANT (ddiv net_reward net_risk)) (\<lambda>net.
      Inr \<lparr>fe_entry_fee_usdt = q_entry, fe_exit_fee_at_tp_usdt = q_tp, fe_exit_fee_at_sl_usdt = q_sl,
           fe_gross_risk_reward = gross, fe_net_risk_reward = net,
           fe_entry_rate = entry_rate, fe_exit_rate = exit_rate\<rparr>))))))"

definition estimate_fees_for_decision ::
    "model_decision \<Rightarrow> rat \<Rightarrow> int \<Rightarrow> fee_rates \<Rightarrow> fee_estimate result" where
  "estimate_fees_for_decision d margin lev rates =
     estimate_fees (md_decision d) (md_entry_type d) (dmul margin (of_int lev))
       (dec_of_float (md_entry_price d)) (dec_of_float (md_stop_loss d)) (dec_of_float (md_take_profit d)) rates"

subsection \<open>Costs of a simulated fill\<close>

record fee_model =
  fm_taker_rate :: rat
  fm_maker_rate :: rat

definition fee_model_default :: fee_model where
  "fee_model_default = \<lparr>fm_taker_rate = 5 / 10000, fm_maker_rate = 2 / 10000\<rparr>"

definition fee_model_rates :: "fee_model \<Rightarrow> fee_rates result" where
  "fee_model_rates m = make_fee_rates (fm_maker_rate m) (fm_taker_rate m)"

definition valid_order_types :: "string list" where
  "valid_order_types = [''MARKET'', ''LIMIT'', ''STOP'']"

definition fee_calculate :: "fee_model \<Rightarrow> rat \<Rightarrow> string \<Rightarrow> rat result" where
  "fee_calculate m notional otype =
     (if \<not> List.member valid_order_types otype then Inl ValueError
      else let rate = (if List.member [''MARKET'', ''STOP''] otype then fm_taker_rate m else fm_maker_rate m) in
        quantize8 (dmul notional rate))"

record slippage_model =
  sm_market_bps :: rat

definition slippage_model_default :: slippage_model where
  "slippage_model_default = \<lparr>sm_market_bps = 2\<rparr>"

definition slippage_apply :: "slippage_model \<Rightarrow> rat \<Rightarrow> string \<Rightarrow> string \<Rightarrow> rat result" where
  "slippage_apply m price side otype =
     (if \<not> List.member [''BUY'', ''SELL''] side then Inl ValueError
      else if \<not> List.member valid_order_types otype then Inl ValueError
      else if otype = ''LIMIT'' then quantize8 price
      else let factor = ddiv (sm_market_bps m) BASIS_POINTS in
        if side = ''BUY'' then quantize8 (dmul price (dadd 1 factor))
        else quantize8 (dmul price (dsub 1 factor)))"

definition compute_funding_payment :: "order_side \<Rightarrow> rat \<Rightarrow> rat \<Rightarrow> rat \<Rightarrow> rat" where
  "compute_funding_payment side quantity mark_price funding_rate =
     (let notional = dmul quantity mark_price in
      if side = BUY then dmul notional funding_rate else - dmul notional funding_rate)"

subsection \<open>Lemmas\<close>

lemma reward_risk_decimal [simp]:
  "dec (reward_per_unit side e t) = reward_per_unit side e t"
  "dec (risk_per_unit side e t) = risk_per_unit side e t"
  by (simp_all add: reward_per_unit_def risk_per_unit_def)

lemma dsub_le: "is_decimal a \<Longrightarrow> 0 \<le> y \<Longrightarrow> dsub a y \<le> a"
  by (simp add: dsub_def dcm.rd_sub_le)

lemma dadd_ge: "is_decimal a \<Longrightarrow> 0 \<le> y \<Longrightarrow> a \<le> dadd a y"
  by (simp add: dadd_def dcm.rd_add_ge)

lemma net_reward_per_unit_le:
  assumes "is_decimal r" "0 \<le> e" "0 \<le> t" "0 \<le> a" "0 \<le> b"
  shows "net_reward_per_unit r e t a b \<le> r"
proof -
  have "net_reward_per_unit r e t a b \<le> dsub r (dmul e a)"
    unfolding net_reward_per_unit_def by (rule dsub_le) (simp_all add: dmul_nonneg assms)
  also have "\<dots> \<le> r" by (rule dsub_le) (simp_all add: dmul_nonneg assms)
  finally show ?thesis .
qed

lemma net_risk_per_unit_ge:
  assumes "is_decimal r" "0 \<le> e" "0 \<le> t" "0 \<le> a" "0 \<le> b"
  shows "r \<le> net_risk_per_unit r e t a b"
proof -
  have "r \<le> dadd r (dmul e a)" by (rule dadd_ge) (simp_all add: dmul_nonneg assms)
  also have "\<dots> \<le> net_risk_per_unit r e t a b"
    unfolding net_risk_per_unit_def by (rule dadd_ge) (simp_all add: dmul_nonneg assms)
  finally show ?thesis .
qed

lemma ratio_le:
  fixes n m r s :: rat
  assumes "0 < r" "0 < s" "n \<le> r" "s \<le> m"
  shows "n / m \<le> r / s"
proof -
  have m: "0 < m" using assms by linarith
  have "n * s \<le> r * s" using assms by (simp add: mult_right_mono)
  also have "\<dots> \<le> r * m" using assms by (simp add: mult_left_mono)
  finally show ?thesis using m assms(2) by (simp add: divide_simps mult.commute)
qed

lemma RR_QUANT_pos [simp]: "0 < RR_QUANT" by (simp add: RR_QUANT_def)

text \<open>What a successful fee estimate says, with the case analysis of the guards done once.\<close>

lemma estimate_fees_InrD:
  assumes "estimate_fees side etype notional entry sl tp rates = Inr e"
  shows "0 < notional" "0 < entry" "0 < sl" "0 < tp"
    "0 < reward_per_unit side entry tp" "0 < risk_per_unit side entry sl"
    "etype = ENTRY_MARKET \<or> etype = ENTRY_LIMIT" "side = LONG \<or> side = SHORT"
    "fe_entry_rate e = (if etype = ENTRY_MARKET then fr_taker rates else fr_maker rates)"
    "fe_exit_rate e = fr_taker rates"
    "quantize ROUND_UP QUANT (dmul notional (fe_entry_rate e)) = Inr (fe_entry_fee_usdt e)"
    "quantize ROUND_UP QUANT (dmul (dmul (ddiv notional entry) tp) (fe_exit_rate e)) = Inr (fe_exit_fee_at_tp_usdt e)"
    "quantize ROUND_UP QUANT (dmul (dmul (ddiv notional entry) sl) (fe_exit_rate e)) = Inr (fe_exit_fee_at_sl_usdt e)"
    "quantize ROUND_FLOOR RR_QUANT (ddiv (reward_per_unit side entry tp) (risk_per_unit side entry sl))
       = Inr (fe_gross_risk_reward e)"
    "quantize ROUND_FLOOR RR_QUANT
       (ddiv (net_reward_per_unit (reward_per_unit side entry tp) entry tp (fe_entry_rate e) (fe_exit_rate e))
             (net_risk_per_unit (risk_per_unit side entry sl) entry sl (fe_entry_rate e) (fe_exit_rate e)))
       = Inr (fe_net_risk_reward e)"
  using assms unfolding estimate_fees_def Let_def
  by (auto simp: bindE_Inr_iff not_le split: if_splits)

lemma estimate_fees_net_le_gross:
  assumes e: "estimate_fees side etype notional entry sl tp rates = Inr e"
    and rates: "0 \<le> fr_maker rates" "0 \<le> fr_taker rates"
  shows "fe_net_risk_reward e \<le> fe_gross_risk_reward e"
proof -
  note d = estimate_fees_InrD [OF e]
  let ?r = "reward_per_unit side entry tp" and ?s = "risk_per_unit side entry sl"
  have r: "0 \<le> fe_entry_rate e" "0 \<le> fe_exit_rate e" using d(9,10) rates by auto
  have n: "net_reward_per_unit ?r entry tp (fe_entry_rate e) (fe_exit_rate e) \<le> ?r"
    by (rule net_reward_per_unit_le) (use d r in auto)
  have m: "?s \<le> net_risk_per_unit ?s entry sl (fe_entry_rate e) (fe_exit_rate e)"
    by (rule net_risk_per_unit_ge) (use d r in auto)
  have "ddiv (net_reward_per_unit ?r entry tp (fe_entry_rate e) (fe_exit_rate e))
             (net_risk_per_unit ?s entry sl (fe_entry_rate e) (fe_exit_rate e)) \<le> ddiv ?r ?s"
    unfolding ddiv_def by (rule dcm.rd_mono, rule ratio_le) (use d n m in auto)
  then show ?thesis by (rule quantize_mono [OF RR_QUANT_pos _ d(15) d(14)])
qed

lemma estimate_fees_fee_bounds:
  assumes e: "estimate_fees side etype notional entry sl tp rates = Inr e"
    and rates: "0 \<le> fr_maker rates" "0 \<le> fr_taker rates"
  shows "dmul notional (fe_entry_rate e) \<le> fe_entry_fee_usdt e" "0 \<le> fe_entry_fee_usdt e"
    "0 \<le> fe_exit_fee_at_tp_usdt e" "0 \<le> fe_exit_fee_at_sl_usdt e"
proof -
  note d = estimate_fees_InrD [OF e]
  have r: "0 \<le> fe_entry_rate e" "0 \<le> fe_exit_rate e" using d(9,10) rates by auto
  have p: "0 \<le> dmul notional (fe_entry_rate e)"
    "0 \<le> dmul (dmul (ddiv notional entry) tp) (fe_exit_rate e)"
    "0 \<le> dmul (dmul (ddiv notional entry) sl) (fe_exit_rate e)"
    using d(1-4) r by (auto intro!: dmul_nonneg ddiv_nonneg)
  show "dmul notional (fe_entry_rate e) \<le> fe_entry_fee_usdt e"
    by (rule quantize_up_ge [OF QUANT_pos p(1) d(11)])
  show "0 \<le> fe_entry_fee_usdt e" by (rule quantize_nonneg [OF QUANT_pos p(1) d(11)])
  show "0 \<le> fe_exit_fee_at_tp_usdt e" by (rule quantize_nonneg [OF QUANT_pos p(2) d(12)])
  show "0 \<le> fe_exit_fee_at_sl_usdt e" by (rule quantize_nonneg [OF QUANT_pos p(3) d(13)])
qed

lemma make_fee_rates_Inr:
  "make_fee_rates mk tk = Inr r \<longleftrightarrow> 0 \<le> mk \<and> mk < 1 \<and> 0 \<le> tk \<and> tk < 1 \<and> r = \<lparr>fr_maker = mk, fr_taker = tk\<rparr>"
  by (auto simp: make_fee_rates_def)

subsection \<open>Slippage moves the price against the order\<close>

lemma half_spread_nonneg: "half_spread bid ask = Inr h \<Longrightarrow> 0 \<le> h \<and> is_decimal h"
  by (auto simp: half_spread_def dsub_def intro!: ddiv_nonneg dcm.rd_nonneg split: if_splits)

lemma slippage_apply_buy_ge:
  assumes "slippage_apply m (of_int k * QUANT) ''BUY'' ''MARKET'' = Inr p"
    and "0 \<le> k" "is_decimal (of_int k * QUANT)" "0 \<le> sm_market_bps m"
  shows "of_int k * QUANT \<le> p"
proof (rule quantize_ge_multiple [OF QUANT_pos])
  let ?f = "dadd 1 (ddiv (sm_market_bps m) BASIS_POINTS)"
  show "quantize8 (dmul (of_int k * QUANT) ?f) = Inr p"
    using assms(1) by (simp add: slippage_apply_def valid_order_types_def Let_def)
  have "1 \<le> ?f" by (rule dadd_ge) (simp_all add: ddiv_nonneg assms(4) BASIS_POINTS_def)
  then have "of_int k * QUANT * 1 \<le> of_int k * QUANT * ?f"
    by (rule mult_left_mono) (simp add: assms(2) less_imp_le)
  then show "of_int k * QUANT \<le> dmul (of_int k * QUANT) ?f"
    unfolding dmul_def using dcm.rd_ge [OF assms(3)] by simp
qed

lemma slippage_apply_sell_le:
  assumes "slippage_apply m (of_int k * QUANT) ''SELL'' ''MARKET'' = Inr p"
    and "0 \<le> k" "is_decimal (of_int k * QUANT)" "0 \<le> sm_market_bps m"
  shows "p \<le> of_int k * QUANT"
proof (rule quantize_le_multiple [OF QUANT_pos])
  let ?f = "dsub 1 (ddiv (sm_market_bps m) BASIS_POINTS)"
  show "quantize8 (dmul (of_int k * QUANT) ?f) = Inr p"
    using assms(1) by (simp add: slippage_apply_def valid_order_types_def Let_def)
  have "?f \<le> 1" by (rule dsub_le) (simp_all add: ddiv_nonneg assms(4) BASIS_POINTS_def)
  then have "of_int k * QUANT * ?f \<le> of_int k * QUANT * 1"
    by (rule mult_left_mono) (simp add: assms(2) less_imp_le)
  then show "dmul (of_int k * QUANT) ?f \<le> of_int k * QUANT"
    unfolding dmul_def using dcm.rd_le [OF assms(3)] by simp
qed

lemma fee_calculate_nonneg:
  assumes "fee_calculate m n ot = Inr f" "0 \<le> n" "0 \<le> fm_taker_rate m" "0 \<le> fm_maker_rate m"
  shows "0 \<le> f"
  using assms by (auto simp: fee_calculate_def Let_def split: if_splits
      intro: quantize_nonneg [OF QUANT_pos, of _ ROUND_HALF_EVEN] dmul_nonneg)

end
