(* ===== verification/RiskChecks.thy ===== *)
theory RiskChecks
  imports Costs
begin

text \<open>
  \<^verbatim>\<open>backend/risk_engine/checks.py\<close> and \<^verbatim>\<open>adjustments.py\<close>: the individual checks of the risk engine, each a
  function to its outcome, its rule and its reason. The texts of the reasons, which nothing reads back,
  are represented by the branch that wrote them; the two that carry figures to the audit keep them.
  A check that can raise returns \<open>result\<close>.
\<close>

datatype check_outcome = PASS | BLOCK | ADJUST_DOWN

datatype audit_reason =
    Branch string
  | SlippageAudit slippage_estimate
  | FeeAudit fee_estimate
  | NetRRBelowMinimum rat fee_estimate

record check_result =
  cr_outcome :: check_outcome
  cr_rule :: string
  cr_reason :: audit_reason

definition check :: "check_outcome \<Rightarrow> string \<Rightarrow> string \<Rightarrow> check_result" where
  "check out rule branch = \<lparr>cr_outcome = out, cr_rule = rule, cr_reason = Branch branch\<rparr>"

definition leverage_cap_for_env :: "app_config \<Rightarrow> environment \<Rightarrow> int" where
  "leverage_cap_for_env config env = cap_for_env (cfg_leverage config) env"

subsection \<open>Blocking checks\<close>

definition check_sl_required :: "model_decision \<Rightarrow> check_result" where
  "check_sl_required d =
     (if md_execute d \<and> md_stop_loss d \<le> 0 then check BLOCK ''sl_required'' ''missing''
      else check PASS ''sl_required'' ''present'')"

definition check_tp_or_exit_plan :: "model_decision \<Rightarrow> check_result" where
  "check_tp_or_exit_plan d =
     (if \<not> md_execute d then check PASS ''tp_or_exit_plan'' ''not_applicable''
      else let has_tp = 0 < md_take_profit d;
               plan = md_position_management_plan d;
               has_exit_plan = (pp_use_trailing_stop plan \<or> pp_move_to_break_even plan
                 \<or> strip_chars py_blank (pp_partial_close_plan plan) \<noteq> []
                 \<or> 0 < pp_max_time_in_trade_minutes plan)
      in if \<not> has_tp \<and> \<not> has_exit_plan then check BLOCK ''tp_or_exit_plan'' ''missing''
         else check PASS ''tp_or_exit_plan'' ''present'')"

definition loss_percent :: "rat \<Rightarrow> rat \<Rightarrow> rat" where
  "loss_percent loss initial_balance = fmul (fl (ddiv loss initial_balance)) 100"

definition check_daily_drawdown :: "rat \<Rightarrow> rat \<Rightarrow> rat \<Rightarrow> check_result" where
  "check_daily_drawdown daily_loss initial_balance max_daily_loss_percent =
     (if initial_balance \<le> 0 then check BLOCK ''daily_drawdown'' ''invalid_balance''
      else if max_daily_loss_percent \<le> loss_percent daily_loss initial_balance
        then check BLOCK ''daily_drawdown'' ''limit_reached''
      else check PASS ''daily_drawdown'' ''within_limit'')"

definition check_total_drawdown :: "rat \<Rightarrow> rat \<Rightarrow> rat \<Rightarrow> check_result" where
  "check_total_drawdown total_loss initial_balance max_total_loss_percent =
     (if initial_balance \<le> 0 then check BLOCK ''total_drawdown'' ''invalid_balance''
      else if max_total_loss_percent \<le> loss_percent total_loss initial_balance
        then check BLOCK ''total_drawdown'' ''limit_reached''
      else check PASS ''total_drawdown'' ''within_limit'')"

definition check_margin_cap :: "rat \<Rightarrow> rat \<Rightarrow> check_result" where
  "check_margin_cap margin max_margin =
     (if max_margin < margin then check ADJUST_DOWN ''margin_cap'' ''above_cap''
      else check PASS ''margin_cap'' ''within_cap'')"

definition check_leverage_cap :: "int \<Rightarrow> app_config \<Rightarrow> environment \<Rightarrow> check_result" where
  "check_leverage_cap lev config env =
     (if leverage_cap_for_env config env < lev then check ADJUST_DOWN ''leverage_cap'' ''above_cap''
      else check PASS ''leverage_cap'' ''within_cap'')"

definition check_funding_gate ::
    "model_decision \<Rightarrow> rat option \<Rightarrow> funding_gate_config \<Rightarrow> check_result" where
  "check_funding_gate d funding_rate config =
     (if \<not> fg_enabled config then check PASS ''funding_gate'' ''disabled''
      else if md_decision d = NO_OPERAR then check PASS ''funding_gate'' ''no_trade''
      else case funding_rate of
        None \<Rightarrow>
          if fg_block_if_funding_unknown config then check BLOCK ''funding_gate'' ''unknown''
          else check PASS ''funding_gate'' ''unknown_accepted''
      | Some rate \<Rightarrow>
          let adverse = (if md_decision d = LONG then rate else - rate) in
          if fg_max_adverse_funding_rate config \<le> adverse then check BLOCK ''funding_gate'' ''limit_reached''
          else check PASS ''funding_gate'' ''within_limit'')"

definition check_max_open_positions :: "model_decision \<Rightarrow> int option \<Rightarrow> int \<Rightarrow> check_result" where
  "check_max_open_positions d open_positions_count max_open_positions =
     (if md_decision d = NO_OPERAR then check PASS ''max_open_positions'' ''no_trade''
      else case open_positions_count of
        None \<Rightarrow> check BLOCK ''max_open_positions'' ''unreliable_count''
      | Some n \<Rightarrow>
          if max_open_positions \<le> n then check BLOCK ''max_open_positions'' ''limit_reached''
          else check PASS ''max_open_positions'' ''within_limit'')"

subsection \<open>Liquidation\<close>

definition estimate_liquidation_price :: "rat \<Rightarrow> rat \<Rightarrow> decision_type \<Rightarrow> rat" where
  "estimate_liquidation_price entry_price liq_dist_pct direction =
     (if direction = LONG then fmul entry_price (fsub 1 (fdiv liq_dist_pct 100))
      else fmul entry_price (fadd 1 (fdiv liq_dist_pct 100)))"

definition sl_is_past_liquidation :: "rat \<Rightarrow> rat \<Rightarrow> decision_type \<Rightarrow> bool" where
  "sl_is_past_liquidation sl liq_price direction =
     (if direction = LONG then sl \<le> liq_price else liq_price \<le> sl)"

definition sl_buffer_percent :: "rat \<Rightarrow> rat \<Rightarrow> decision_type \<Rightarrow> rat result" where
  "sl_buffer_percent sl liq_price direction =
     (if liq_price = 0 then Inl ZeroDivisionError
      else if direction = LONG then Inr (fmul (fdiv (fsub sl liq_price) liq_price) 100)
      else Inr (fmul (fdiv (fsub liq_price sl) liq_price) 100))"

definition check_liquidation_safety ::
    "model_decision \<Rightarrow> liquidation_safety_config \<Rightarrow> check_result result" where
  "check_liquidation_safety d config =
     (if \<not> lq_enabled config then Inr (check PASS ''liquidation_safety'' ''disabled'')
      else if md_decision d = NO_OPERAR then Inr (check PASS ''liquidation_safety'' ''no_trade'')
      else if md_execute d \<and> md_stop_loss d \<le> 0 then Inr (check BLOCK ''liquidation_safety'' ''sl_missing'')
      else let liq_dist = md_liquidation_distance_percent_estimated d in
      if liq_dist = 0 then
        (if lq_block_if_liquidation_unknown config then Inr (check BLOCK ''liquidation_unknown'' ''unknown'')
         else Inr (check PASS ''liquidation_safety'' ''unknown_accepted''))
      else let entry = md_entry_price d; sl = md_stop_loss d; direction = md_decision d in
      if entry \<le> 0 then Inr (check BLOCK ''liquidation_safety'' ''invalid_entry'')
      else let liq_price = estimate_liquidation_price entry liq_dist direction in
      if sl_is_past_liquidation sl liq_price direction then
        (if lq_block_if_stop_after_liquidation config then Inr (check BLOCK ''sl_after_liquidation'' ''past'')
         else Inr (check PASS ''liquidation_safety'' ''past_accepted''))
      else if liq_dist < lq_min_distance_entry_to_liquidation_percent config then
        Inr (check ADJUST_DOWN ''entry_liq_distance'' ''too_close'')
      else bindE (sl_buffer_percent sl liq_price direction) (\<lambda>buffer_pct.
        if buffer_pct < 0 then Inr (check BLOCK ''sl_after_liquidation'' ''negative_buffer'')
        else if buffer_pct < lq_min_buffer_stop_to_liquidation_percent config then
          Inr (check ADJUST_DOWN ''sl_liq_buffer'' ''too_small'')
        else Inr (check PASS ''liquidation_safety'' ''safe'')))"

subsection \<open>Recovery patterns\<close>

text \<open>The type tests of the source hold by typing here; the range tests remain.\<close>

definition check_anti_martingala :: "rat \<Rightarrow> rat option \<Rightarrow> rat option \<Rightarrow> check_result result" where
  "check_anti_martingala proposed_margin last_trade_pnl last_trade_margin =
     (if proposed_margin \<le> 0 then Inl ValueError
      else if last_trade_margin \<noteq> None \<and> the last_trade_margin \<le> 0 then Inl ValueError
      else case (last_trade_pnl, last_trade_margin) of
        (Some pnl, Some margin) \<Rightarrow>
          if 0 \<le> pnl then Inr (check PASS ''anti_martingala'' ''no_loss'')
          else if margin < proposed_margin then Inr (check BLOCK ''anti_martingala'' ''martingale'')
          else Inr (check PASS ''anti_martingala'' ''not_larger'')
      | _ \<Rightarrow> Inr (check PASS ''anti_martingala'' ''no_history''))"

definition check_anti_leverage_escalation :: "int \<Rightarrow> rat option \<Rightarrow> int option \<Rightarrow> check_result result" where
  "check_anti_leverage_escalation proposed_leverage last_trade_pnl last_trade_leverage =
     (if proposed_leverage \<le> 0 then Inl ValueError
      else if last_trade_leverage \<noteq> None \<and> the last_trade_leverage \<le> 0 then Inl ValueError
      else case (last_trade_pnl, last_trade_leverage) of
        (Some pnl, Some lev) \<Rightarrow>
          if 0 \<le> pnl then Inr (check PASS ''anti_leverage_escalation'' ''no_loss'')
          else if lev < proposed_leverage then Inr (check BLOCK ''anti_leverage_escalation'' ''escalation'')
          else Inr (check PASS ''anti_leverage_escalation'' ''not_larger'')
      | _ \<Rightarrow> Inr (check PASS ''anti_leverage_escalation'' ''no_history''))"

definition check_anti_averaging :: "rat option \<Rightarrow> check_result" where
  "check_anti_averaging open_position_unrealized_pnl =
     (case open_position_unrealized_pnl of
        None \<Rightarrow> check PASS ''anti_averaging'' ''no_position''
      | Some pnl \<Rightarrow>
          if 0 \<le> pnl then check PASS ''anti_averaging'' ''no_loss''
          else check BLOCK ''anti_averaging'' ''averaging'')"

subsection \<open>Costs\<close>

definition check_fee_gate :: "fee_estimate option \<Rightarrow> rat \<Rightarrow> check_result" where
  "check_fee_gate estimate min_net_risk_reward =
     (case estimate of
        None \<Rightarrow> check BLOCK ''fee_gate'' ''no_estimate''
      | Some e \<Rightarrow>
          let minimum = dec_of_float min_net_risk_reward in
          if fe_net_risk_reward e < minimum then
            \<lparr>cr_outcome = BLOCK, cr_rule = ''fee_gate'', cr_reason = NetRRBelowMinimum minimum e\<rparr>
          else \<lparr>cr_outcome = PASS, cr_rule = ''fee_gate'', cr_reason = FeeAudit e\<rparr>)"

definition check_slippage_estimate :: "slippage_estimate option \<Rightarrow> check_result" where
  "check_slippage_estimate estimate =
     (case estimate of
        None \<Rightarrow> check PASS ''slippage_estimate'' ''no_estimate''
      | Some e \<Rightarrow> \<lparr>cr_outcome = PASS, cr_rule = ''slippage_estimate'', cr_reason = SlippageAudit e\<rparr>)"

subsection \<open>Adjustments\<close>

definition compute_adjusted_margin :: "rat \<Rightarrow> rat \<Rightarrow> rat" where
  "compute_adjusted_margin original max_margin = min original max_margin"

definition compute_adjusted_leverage :: "int \<Rightarrow> app_config \<Rightarrow> environment \<Rightarrow> int" where
  "compute_adjusted_leverage original config env = min original (leverage_cap_for_env config env)"

subsection \<open>When a check blocks\<close>

lemma check_sel [simp]:
  "cr_outcome (check c r b) = c" "cr_rule (check c r b) = r" "cr_reason (check c r b) = Branch b"
  by (simp_all add: check_def)

named_theorems blocks \<open>the exact condition under which each check blocks\<close>

lemma sl_required_blocks [blocks]:
  "cr_outcome (check_sl_required d) = BLOCK \<longleftrightarrow> md_execute d \<and> md_stop_loss d \<le> 0"
  by (simp add: check_sl_required_def)

lemma daily_drawdown_blocks [blocks]:
  "cr_outcome (check_daily_drawdown l b m) = BLOCK \<longleftrightarrow> b \<le> 0 \<or> m \<le> loss_percent l b"
  by (simp add: check_daily_drawdown_def)

lemma total_drawdown_blocks [blocks]:
  "cr_outcome (check_total_drawdown l b m) = BLOCK \<longleftrightarrow> b \<le> 0 \<or> m \<le> loss_percent l b"
  by (simp add: check_total_drawdown_def)

text \<open>The funding that the trade would pay is unknown or reaches the limit.\<close>

definition funding_adverse :: "model_decision \<Rightarrow> rat option \<Rightarrow> funding_gate_config \<Rightarrow> bool" where
  "funding_adverse d r c \<longleftrightarrow>
     fg_enabled c \<and> md_decision d \<noteq> NO_OPERAR \<and>
     (case r of None \<Rightarrow> fg_block_if_funding_unknown c
      | Some x \<Rightarrow> fg_max_adverse_funding_rate c \<le> (if md_decision d = LONG then x else - x))"

lemma funding_gate_blocks [blocks]:
  "cr_outcome (check_funding_gate d r c) = BLOCK \<longleftrightarrow> funding_adverse d r c"
  by (auto simp: check_funding_gate_def funding_adverse_def Let_def split: option.splits)

lemma fee_gate_blocks [blocks]:
  "cr_outcome (check_fee_gate e m) = BLOCK \<longleftrightarrow>
     (case e of None \<Rightarrow> True | Some x \<Rightarrow> fe_net_risk_reward x < dec_of_float m)"
  by (auto simp: check_fee_gate_def Let_def split: option.splits)

lemma max_open_positions_blocks [blocks]:
  "cr_outcome (check_max_open_positions d n m) = BLOCK \<longleftrightarrow>
     md_decision d \<noteq> NO_OPERAR \<and> (case n of None \<Rightarrow> True | Some k \<Rightarrow> m \<le> k)"
  by (auto simp: check_max_open_positions_def split: option.splits)

lemma anti_averaging_blocks [blocks]:
  "cr_outcome (check_anti_averaging p) = BLOCK \<longleftrightarrow> (case p of None \<Rightarrow> False | Some x \<Rightarrow> x < 0)"
  by (auto simp: check_anti_averaging_def split: option.splits)

lemma slippage_estimate_passes [simp]: "cr_outcome (check_slippage_estimate e) = PASS"
  by (simp add: check_slippage_estimate_def split: option.split)

lemma anti_martingala_blocks:
  "check_anti_martingala m p l = Inr c \<Longrightarrow> cr_outcome c = BLOCK \<longleftrightarrow>
     (\<exists>pnl margin. p = Some pnl \<and> l = Some margin \<and> pnl < 0 \<and> margin < m)"
  by (auto simp: check_anti_martingala_def split: option.splits if_splits)

lemma anti_leverage_escalation_blocks:
  "check_anti_leverage_escalation m p l = Inr c \<Longrightarrow> cr_outcome c = BLOCK \<longleftrightarrow>
     (\<exists>pnl lev. p = Some pnl \<and> l = Some lev \<and> pnl < 0 \<and> lev < m)"
  by (auto simp: check_anti_leverage_escalation_def split: option.splits if_splits)

text \<open>The take profit or a way out of the plan: a trailing stop, a break-even, a partial close or a time limit.\<close>

definition exit_plan_present :: "model_decision \<Rightarrow> bool" where
  "exit_plan_present d \<longleftrightarrow>
     (let plan = md_position_management_plan d in
      0 < md_take_profit d \<or> pp_use_trailing_stop plan \<or> pp_move_to_break_even plan
      \<or> strip_chars py_blank (pp_partial_close_plan plan) \<noteq> [] \<or> 0 < pp_max_time_in_trade_minutes plan)"

lemma tp_or_exit_plan_blocks [blocks]:
  "cr_outcome (check_tp_or_exit_plan d) = BLOCK \<longleftrightarrow> md_execute d \<and> \<not> exit_plan_present d"
  by (auto simp: check_tp_or_exit_plan_def exit_plan_present_def Let_def)

text \<open>
  What the liquidation rule asks of a directional decision with a stop, when it is enabled. An unknown distance, or
  a stop that is past the estimated liquidation price, is accepted only where the configuration says so; the entry
  is positive; and with a sufficient distance the buffer between the stop and the liquidation is not negative.
\<close>

definition liquidation_acceptable :: "model_decision \<Rightarrow> liquidation_safety_config \<Rightarrow> bool" where
  "liquidation_acceptable d c \<longleftrightarrow>
     (let distance = md_liquidation_distance_percent_estimated d;
          price = estimate_liquidation_price (md_entry_price d) distance (md_decision d) in
      if \<not> lq_enabled c \<or> md_decision d = NO_OPERAR then True
      else if distance = 0 then \<not> lq_block_if_liquidation_unknown c
      else 0 < md_entry_price d \<and>
        (if sl_is_past_liquidation (md_stop_loss d) price (md_decision d)
         then \<not> lq_block_if_stop_after_liquidation c
         else distance < lq_min_distance_entry_to_liquidation_percent c
           \<or> (case sl_buffer_percent (md_stop_loss d) price (md_decision d) of
                Inl _ \<Rightarrow> False | Inr buffer \<Rightarrow> 0 \<le> buffer)))"

lemma liquidation_safety_blocks:
  assumes "check_liquidation_safety d c = Inr r" "md_execute d" "0 < md_stop_loss d"
  shows "cr_outcome r = BLOCK \<longleftrightarrow> \<not> liquidation_acceptable d c"
  using assms by (auto simp: check_liquidation_safety_def liquidation_acceptable_def Let_def bindE_Inr_iff not_le check_def
      split: if_splits)

end
