(* ===== verification/Aggregator.thy ===== *)
theory Aggregator
  imports ModelDecision
begin

text \<open>
  \<^verbatim>\<open>backend/decision_engine/aggregator.py\<close> and \<^verbatim>\<open>aggregator_schemas.py\<close>: the deterministic combination of the
  quantitative signals, the market regime and the volatility with the decision of the language model.
  All numbers are floats. The power \<^verbatim>\<open>score ** 1.5\<close> is computed by the C library and is the argument
  \<open>pow15\<close>. The texts of the contradictions are represented by the rule that produced them.
\<close>

record quant_signals_package =
  qs_momentum_signal :: "rat option"
  qs_mean_reversion_signal :: "rat option"
  qs_breakout_signal :: "rat option"
  qs_funding_signal :: "rat option"
  qs_open_interest_signal :: "rat option"
  qs_order_flow_imbalance_signal :: "rat option"
  qs_liquidity_sweep_signal :: "rat option"
  qs_signal_strength_score :: "rat option"
  qs_signal_conflict_score :: "rat option"

definition W_QUANT :: rat where "W_QUANT = fl (4/10)"
definition W_GPT :: rat where "W_GPT = fl (3/10)"
definition W_REGIME :: rat where "W_REGIME = fl (2/10)"
definition W_VOLATILITY :: rat where "W_VOLATILITY = fl (1/10)"
definition MIN_SCORE_TO_TRADE :: rat where "MIN_SCORE_TO_TRADE = fl (5/10)"
definition DIRECTION_MISMATCH_THRESHOLD :: rat where "DIRECTION_MISMATCH_THRESHOLD = fl (2/10)"
definition MAX_CONFLICT_SCORE :: rat where "MAX_CONFLICT_SCORE = fl (6/10)"
definition MIN_STRENGTH_SCORE :: rat where "MIN_STRENGTH_SCORE = fl (4/10)"
definition MIN_GPT_CONFIDENCE :: rat where "MIN_GPT_CONFIDENCE = fl (7/10)"

fun REGIME_FACTOR :: "primary_regime \<Rightarrow> rat" where
  "REGIME_FACTOR TRENDING = fl (85/100)"
| "REGIME_FACTOR BREAKOUT = fl (85/100)"
| "REGIME_FACTOR RANGING = fl (55/100)"
| "REGIME_FACTOR LOW_VOLATILITY = fl (50/100)"
| "REGIME_FACTOR HIGH_VOLATILITY = fl (40/100)"
| "REGIME_FACTOR UNCLEAR = fl (20/100)"

definition available :: "'a option list \<Rightarrow> 'a list" where
  "available xs = map the (filter (\<lambda>v. v \<noteq> None) xs)"

definition compute_quant_score :: "quant_signals_package \<Rightarrow> rat" where
  "compute_quant_score qs =
     (case qs_signal_strength_score qs of
        Some v \<Rightarrow> v
      | None \<Rightarrow>
          let xs = map abs (available
                [qs_momentum_signal qs, qs_mean_reversion_signal qs, qs_breakout_signal qs,
                 qs_funding_signal qs, qs_open_interest_signal qs, qs_order_flow_imbalance_signal qs,
                 qs_liquidity_sweep_signal qs])
          in if xs = [] then 0 else min (fdiv (fsum xs) (of_nat (length xs))) 1)"

definition compute_volatility_factor :: "(rat \<Rightarrow> rat) \<Rightarrow> rat \<Rightarrow> rat" where
  "compute_volatility_factor pow15 score = max (fsub 1 (fmul (pow15 score) (fl (6/10)))) 0"

definition net_quant_direction :: "quant_signals_package \<Rightarrow> rat option" where
  "net_quant_direction qs =
     (let xs = available [qs_momentum_signal qs, qs_mean_reversion_signal qs, qs_breakout_signal qs]
      in if xs = [] then None else Some (fdiv (fsum xs) (of_nat (length xs))))"

datatype contradiction =
  direction_mismatch | quant_internal_conflict | low_quant_strength | low_gpt_confidence

definition detect_contradictions :: "model_decision \<Rightarrow> quant_signals_package \<Rightarrow> contradiction list" where
  "detect_contradictions d qs =
     (case net_quant_direction qs of
        None \<Rightarrow> []
      | Some net \<Rightarrow>
          if md_decision d = LONG \<and> net < - DIRECTION_MISMATCH_THRESHOLD then [direction_mismatch]
          else if md_decision d = SHORT \<and> DIRECTION_MISMATCH_THRESHOLD < net then [direction_mismatch]
          else [])
     @ (case qs_signal_conflict_score qs of
          None \<Rightarrow> []
        | Some c \<Rightarrow> if MAX_CONFLICT_SCORE < c then [quant_internal_conflict] else [])
     @ (let effective_strength = (case qs_signal_strength_score qs of
                                    Some v \<Rightarrow> v | None \<Rightarrow> compute_quant_score qs)
        in if effective_strength < MIN_STRENGTH_SCORE then [low_quant_strength] else [])
     @ (if md_confidence d < MIN_GPT_CONFIDENCE then [low_gpt_confidence] else [])"

definition determine_final_action :: "decision_type \<Rightarrow> rat \<Rightarrow> contradiction list \<Rightarrow> decision_type" where
  "determine_final_action gpt_action score contradictions =
     (if contradictions \<noteq> [] then NO_OPERAR
      else if score < MIN_SCORE_TO_TRADE then NO_OPERAR
      else gpt_action)"

record contributing_sources =
  cs_quant_score :: rat
  cs_gpt_context_score :: rat
  cs_regime_factor :: rat
  cs_volatility_factor :: rat

definition unit_interval :: "rat \<Rightarrow> bool" where
  "unit_interval x \<longleftrightarrow> 0 \<le> x \<and> x \<le> 1"

definition make_contributing_sources :: "contributing_sources \<Rightarrow> contributing_sources result" where
  "make_contributing_sources c =
     (if unit_interval (cs_quant_score c) \<and> unit_interval (cs_gpt_context_score c)
         \<and> unit_interval (cs_regime_factor c) \<and> unit_interval (cs_volatility_factor c)
      then Inr c else Inl ValidationError)"

record aggregation_result =
  ag_aggregation_id :: string
  ag_decision_id :: string
  ag_symbol :: symbol
  ag_contributing_sources :: contributing_sources
  ag_aggregated_score :: rat
  ag_final_action :: decision_type
  ag_contradictions_detected :: "contradiction list"

definition make_aggregation_result :: "aggregation_result \<Rightarrow> aggregation_result result" where
  "make_aggregation_result a =
     (if unit_interval (ag_aggregated_score a) \<and> uuid_valid (ag_aggregation_id a)
         \<and> uuid_valid (ag_decision_id a) \<and> List.member allowed_symbols (ag_symbol a)
      then Inr a else Inl ValidationError)"

definition aggregated_score_of :: "rat \<Rightarrow> rat \<Rightarrow> rat \<Rightarrow> rat \<Rightarrow> rat" where
  "aggregated_score_of quant_score gpt_context_score regime_factor volatility_factor =
     fadd (fadd (fadd (fmul W_QUANT quant_score) (fmul W_GPT gpt_context_score))
                (fmul W_REGIME regime_factor))
          (fmul W_VOLATILITY volatility_factor)"

text \<open>\<^verbatim>\<open>DecisionAggregator.aggregate\<close>; \<open>new_id\<close> is the fresh \<^verbatim>\<open>uuid4\<close>.\<close>

definition aggregate ::
    "(rat \<Rightarrow> rat) \<Rightarrow> string \<Rightarrow> model_decision \<Rightarrow> quant_signals_package \<Rightarrow> primary_regime \<Rightarrow> rat
     \<Rightarrow> aggregation_result result" where
  "aggregate pow15 new_id d qs regime volatility_score =
     (let quant_score = compute_quant_score qs;
          gpt_context_score = md_confidence d;
          regime_factor = REGIME_FACTOR regime;
          volatility_factor = compute_volatility_factor pow15 volatility_score;
          aggregated_score = aggregated_score_of quant_score gpt_context_score regime_factor volatility_factor;
          (contradictions, final_action) =
            (if md_decision d = NO_OPERAR then ([], NO_OPERAR)
             else let cs = detect_contradictions d qs
                  in (cs, determine_final_action (md_decision d) aggregated_score cs))
      in bindE (make_contributing_sources
                 \<lparr>cs_quant_score = quant_score, cs_gpt_context_score = gpt_context_score,
                  cs_regime_factor = regime_factor, cs_volatility_factor = volatility_factor\<rparr>) (\<lambda>sources.
         make_aggregation_result
           \<lparr>ag_aggregation_id = new_id, ag_decision_id = md_decision_id d, ag_symbol = md_symbol d,
            ag_contributing_sources = sources, ag_aggregated_score = fround 6 aggregated_score,
            ag_final_action = final_action, ag_contradictions_detected = contradictions\<rparr>))"

subsection \<open>Lemmas\<close>

lemmas aggregator_constants =
  W_QUANT_def W_GPT_def W_REGIME_def W_VOLATILITY_def MIN_SCORE_TO_TRADE_def
  DIRECTION_MISMATCH_THRESHOLD_def MAX_CONFLICT_SCORE_def MIN_STRENGTH_SCORE_def MIN_GPT_CONFIDENCE_def

lemma effective_strength_eq:
  "(case qs_signal_strength_score qs of Some v \<Rightarrow> v | None \<Rightarrow> compute_quant_score qs) = compute_quant_score qs"
  by (simp add: compute_quant_score_def split: option.split)

lemma no_contradictionD:
  assumes "detect_contradictions d qs = []"
  shows "MIN_GPT_CONFIDENCE \<le> md_confidence d"
    and "MIN_STRENGTH_SCORE \<le> compute_quant_score qs"
    and "qs_signal_conflict_score qs = Some c \<Longrightarrow> c \<le> MAX_CONFLICT_SCORE"
    and "net_quant_direction qs = Some n \<Longrightarrow> md_decision d = LONG \<Longrightarrow> - DIRECTION_MISMATCH_THRESHOLD \<le> n"
    and "net_quant_direction qs = Some n \<Longrightarrow> md_decision d = SHORT \<Longrightarrow> n \<le> DIRECTION_MISMATCH_THRESHOLD"
  using assms
  by (auto simp: detect_contradictions_def effective_strength_eq Let_def not_less split: if_splits option.splits)

lemma aggregate_InrD:
  assumes "aggregate pow15 i d qs regime vs = Inr a"
  shows "ag_decision_id a = md_decision_id d" "ag_symbol a = md_symbol d" "ag_aggregation_id a = i"
    "unit_interval (ag_aggregated_score a)"
    "ag_final_action a =
       (if md_decision d = NO_OPERAR then NO_OPERAR
        else determine_final_action (md_decision d)
               (aggregated_score_of (compute_quant_score qs) (md_confidence d) (REGIME_FACTOR regime)
                  (compute_volatility_factor pow15 vs))
               (detect_contradictions d qs))"
  using assms
  by (auto simp: aggregate_def Let_def bindE_Inr_iff make_contributing_sources_def
      make_aggregation_result_def split: if_splits)

lemma REGIME_FACTOR_bounds: "0 \<le> REGIME_FACTOR r" "REGIME_FACTOR r \<le> fl (85/100)"
  by (cases r; simp add: flt.rd_nonneg) (cases r; simp add: flt.rd_mono)

lemma volatility_factor_unit:
  assumes "0 \<le> pow15 v"
  shows "unit_interval (compute_volatility_factor pow15 v)"
proof -
  have "0 \<le> fmul (pow15 v) (fl (6/10))"
    unfolding fmul_def by (rule flt.rd_nonneg) (simp add: assms flt.rd_nonneg)
  then have "fsub 1 (fmul (pow15 v) (fl (6/10))) \<le> 1"
    unfolding fsub_def by (rule flt.rd_sub_le [OF fl_1])
  then show ?thesis by (simp add: compute_volatility_factor_def unit_interval_def)
qed

lemma aggregated_score_of_mono:
  assumes "q \<le> q'" "g \<le> g'" "r \<le> r'" "v \<le> v'"
  shows "aggregated_score_of q g r v \<le> aggregated_score_of q' g' r' v'"
  unfolding aggregated_score_of_def float_ops
  by (intro flt.rd_mono add_mono mult_left_mono assms)
    (simp_all add: aggregator_constants flt.rd_nonneg)

lemma aggregated_score_of_zero: "aggregated_score_of 0 0 0 0 = 0"
  by (simp add: aggregated_score_of_def float_ops)

lemma fl_dyadic: "\<bar>m\<bar> < 2 ^ 53 \<Longrightarrow> fl (of_int m / 256) = of_int m / 256"
  unfolding fl_def by (rule rnd_exact [where m = m and k = "- 8"]) (simp_all add: power_int_minus)

lemma fl_le_dyadic: "x \<le> of_int m / 256 \<Longrightarrow> \<bar>m\<bar> < 2 ^ 53 \<Longrightarrow> fl x \<le> of_int m / 256"
  by (rule flt.rd_le [OF fl_dyadic])

lemma aggregated_score_of_top: "aggregated_score_of 1 1 (fl (85/100)) 1 \<le> 1"
proof -
  have w: "fl (4/10) \<le> 103/256" "fl (3/10) \<le> 77/256" "fl (2/10) \<le> 52/256" "fl (1/10) \<le> 26/256"
    "fl (85/100) \<le> 218/256"
    using fl_le_dyadic [of "4/10" 103] fl_le_dyadic [of "3/10" 77] fl_le_dyadic [of "2/10" 52]
      fl_le_dyadic [of "1/10" 26] fl_le_dyadic [of "85/100" 218] by simp_all
  have "W_REGIME * fl (85/100) \<le> 52/256 * (218/256)"
    unfolding W_REGIME_def by (rule mult_mono) (use w in \<open>simp_all add: flt.rd_nonneg\<close>)
  then have r: "fmul W_REGIME (fl (85/100)) \<le> 45/256"
    using fl_le_dyadic [of "W_REGIME * fl (85/100)" 45] by (simp add: fmul_def)
  have qg: "fmul W_QUANT 1 \<le> 103/256" "fmul W_GPT 1 \<le> 77/256" "fmul W_VOLATILITY 1 \<le> 26/256"
    using w by (simp_all add: fmul_def aggregator_constants flt.rd_idem)
  have "fadd (fmul W_QUANT 1) (fmul W_GPT 1) \<le> 180/256"
    using fl_le_dyadic [of "fmul W_QUANT 1 + fmul W_GPT 1" 180] qg by (simp add: fadd_def)
  then have "fadd (fadd (fmul W_QUANT 1) (fmul W_GPT 1)) (fmul W_REGIME (fl (85/100))) \<le> 225/256"
    using fl_le_dyadic [of "fadd (fmul W_QUANT 1) (fmul W_GPT 1) + fmul W_REGIME (fl (85/100))" 225] r
    by (simp add: fadd_def)
  then have "aggregated_score_of 1 1 (fl (85/100)) 1 \<le> 251/256"
    using fl_le_dyadic [of "fadd (fadd (fmul W_QUANT 1) (fmul W_GPT 1)) (fmul W_REGIME (fl (85/100)))
        + fmul W_VOLATILITY 1" 251] qg(3)
    by (simp add: aggregated_score_of_def fadd_def)
  then show ?thesis by simp
qed

lemma aggregated_score_of_unit:
  assumes "unit_interval q" "unit_interval g" "unit_interval v"
  shows "unit_interval (fround 6 (aggregated_score_of q g (REGIME_FACTOR r) v))"
proof -
  have "aggregated_score_of 0 0 0 0 \<le> aggregated_score_of q g (REGIME_FACTOR r) v"
    by (rule aggregated_score_of_mono) (use assms REGIME_FACTOR_bounds in \<open>auto simp: unit_interval_def\<close>)
  moreover have "aggregated_score_of q g (REGIME_FACTOR r) v \<le> aggregated_score_of 1 1 (fl (85/100)) 1"
    by (rule aggregated_score_of_mono) (use assms REGIME_FACTOR_bounds in \<open>auto simp: unit_interval_def\<close>)
  ultimately have "0 \<le> aggregated_score_of q g (REGIME_FACTOR r) v"
      "aggregated_score_of q g (REGIME_FACTOR r) v \<le> 1"
    using aggregated_score_of_zero aggregated_score_of_top by linarith+
  then show ?thesis unfolding unit_interval_def by (rule fround_unit)
qed

end
