(* ===== verification/RiskEngine.thy ===== *)
theory RiskEngine
  imports RiskChecks Aggregator
begin

text \<open>
  \<^verbatim>\<open>backend/risk_engine/engine.py\<close> and \<^verbatim>\<open>schemas.py\<close>: the validation of a decision and the contract of its
  result. The keyword arguments of \<^verbatim>\<open>validate\<close> that come from the account and the market form the record
  \<open>risk_inputs\<close>; \<open>new_id\<close> is the fresh \<^verbatim>\<open>uuid4\<close> of the result. The dictionary of reasons keeps its order.
\<close>

datatype risk_decision = RISK_APPROVE | RISK_ADJUST_DOWN | RISK_BLOCK | RISK_NO_OPERAR

definition EXECUTABLE_RISK_DECISIONS :: "risk_decision list" where
  "EXECUTABLE_RISK_DECISIONS = [RISK_APPROVE, RISK_ADJUST_DOWN]"

definition MAX_MARGIN_USDT :: rat where
  "MAX_MARGIN_USDT = 10"

record adjusted_parameters =
  ap_margin_usdt :: rat
  ap_leverage :: int

definition make_adjusted_parameters :: "rat \<Rightarrow> int \<Rightarrow> adjusted_parameters result" where
  "make_adjusted_parameters margin lev =
     (if 0 < margin \<and> margin \<le> MAX_MARGIN_USDT \<and> 1 \<le> lev \<and> lev \<le> 10
      then Inr \<lparr>ap_margin_usdt = margin, ap_leverage = lev\<rparr> else Inl ValidationError)"

record risk_result =
  rv_validation_id :: string
  rv_aggregation_id :: string
  rv_symbol :: symbol
  rv_decision :: risk_decision
  rv_original_margin_usdt :: rat
  rv_original_leverage :: int
  rv_adjusted_parameters :: "adjusted_parameters option"
  rv_daily_loss_at_check_usdt :: rat
  rv_total_loss_at_check_usdt :: rat
  rv_reasons :: "(string, audit_reason) dict"

definition adjusted_parameters_coherent :: "risk_result \<Rightarrow> risk_result result" where
  "adjusted_parameters_coherent r =
     (let no_params = List.member [RISK_BLOCK, RISK_NO_OPERAR] (rv_decision r) in
      if no_params \<and> rv_adjusted_parameters r \<noteq> None then Inl ValidationError
      else if \<not> no_params \<and> rv_adjusted_parameters r = None then Inl ValidationError
      else if rv_decision r \<noteq> RISK_NO_OPERAR \<and> rv_original_margin_usdt r \<le> 0 then Inl ValidationError
      else case (rv_decision r, rv_adjusted_parameters r) of
        (RISK_ADJUST_DOWN, Some a) \<Rightarrow>
          if ap_margin_usdt a < rv_original_margin_usdt r \<or> ap_leverage a < rv_original_leverage r
          then Inr r else Inl ValidationError
      | _ \<Rightarrow> Inr r)"

definition make_risk_result :: "risk_result \<Rightarrow> risk_result result" where
  "make_risk_result r =
     (if 0 \<le> rv_original_margin_usdt r \<and> rv_original_margin_usdt r \<le> MAX_MARGIN_USDT
         \<and> 1 \<le> rv_original_leverage r \<and> rv_original_leverage r \<le> 10
         \<and> 0 \<le> rv_daily_loss_at_check_usdt r \<and> 0 \<le> rv_total_loss_at_check_usdt r
         \<and> rv_reasons r \<noteq> []
         \<and> uuid_valid (rv_validation_id r) \<and> uuid_valid (rv_aggregation_id r)
         \<and> List.member allowed_symbols (rv_symbol r)
      then adjusted_parameters_coherent r else Inl ValidationError)"

record risk_inputs =
  ri_daily_loss_usdt :: rat
  ri_total_loss_usdt :: rat
  ri_last_trade_pnl_usdt :: "rat option"
  ri_last_trade_margin_usdt :: "rat option"
  ri_open_position_unrealized_pnl_usdt :: "rat option"
  ri_funding_rate :: "rat option"
  ri_open_positions_count :: "int option"
  ri_fee_estimate :: "fee_estimate option"
  ri_slippage_estimate :: "slippage_estimate option"
  ri_last_account_trade_pnl_usdt :: "rat option"
  ri_last_account_trade_leverage :: "int option"

text \<open>The list \<^verbatim>\<open>block_checks\<close>, evaluated in order.\<close>

definition block_checks :: "model_decision \<Rightarrow> risk_inputs \<Rightarrow> app_config \<Rightarrow> check_result list result" where
  "block_checks d ri config =
     (let initial_balance = dec_of_float (ch_initial_balance_usdt (cfg_challenge config));
          risk = cfg_risk config in
      bindE (check_liquidation_safety d (cfg_liquidation_safety config)) (\<lambda>c_liq.
      bindE (check_anti_martingala (dec_of_float (md_margin_usdt d))
               (ri_last_trade_pnl_usdt ri) (ri_last_trade_margin_usdt ri)) (\<lambda>c_mart.
      bindE (check_anti_leverage_escalation (md_leverage d)
               (ri_last_account_trade_pnl_usdt ri) (ri_last_account_trade_leverage ri)) (\<lambda>c_esc.
      Inr
        [check_sl_required d,
         check_tp_or_exit_plan d,
         check_daily_drawdown (ri_daily_loss_usdt ri) initial_balance (rk_max_daily_loss_percent risk),
         check_total_drawdown (ri_total_loss_usdt ri) initial_balance (rk_max_total_loss_percent risk),
         c_liq,
         check_funding_gate d (ri_funding_rate ri) (cfg_funding_gate config),
         check_fee_gate (ri_fee_estimate ri) (rk_min_net_risk_reward risk),
         check_max_open_positions d (ri_open_positions_count ri) (tr_max_open_positions (cfg_trading config)),
         c_mart,
         c_esc,
         check_anti_averaging (ri_open_position_unrealized_pnl_usdt ri),
         check_slippage_estimate (ri_slippage_estimate ri)]))))"

definition reasons_of :: "check_result list \<Rightarrow> (string, audit_reason) dict \<Rightarrow> (string, audit_reason) dict" where
  "reasons_of cs reasons = foldl (\<lambda>r c. dict_set (cr_rule c) (cr_reason c) r) reasons cs"

definition adjust_checks :: "model_decision \<Rightarrow> app_config \<Rightarrow> check_result list" where
  "adjust_checks d config =
     [check_margin_cap (dec_of_float (md_margin_usdt d))
        (dec_of_float (rk_max_margin_per_trade_usdt (cfg_risk config))),
      check_leverage_cap (md_leverage d) config (ex_environment (cfg_execution config))]"

definition risk_result_of ::
    "string \<Rightarrow> string \<Rightarrow> model_decision \<Rightarrow> risk_inputs \<Rightarrow> risk_decision \<Rightarrow> adjusted_parameters option
     \<Rightarrow> (string, audit_reason) dict \<Rightarrow> risk_result" where
  "risk_result_of new_id aggregation_id d ri decision adjusted reasons =
     \<lparr>rv_validation_id = new_id, rv_aggregation_id = aggregation_id, rv_symbol = md_symbol d,
      rv_decision = decision, rv_original_margin_usdt = dec_of_float (md_margin_usdt d),
      rv_original_leverage = md_leverage d, rv_adjusted_parameters = adjusted,
      rv_daily_loss_at_check_usdt = ri_daily_loss_usdt ri,
      rv_total_loss_at_check_usdt = ri_total_loss_usdt ri, rv_reasons = reasons\<rparr>"

definition risk_validate ::
    "string \<Rightarrow> aggregation_result \<Rightarrow> model_decision \<Rightarrow> risk_inputs \<Rightarrow> app_config \<Rightarrow> risk_result result" where
  "risk_validate new_id agg d ri config =
     (let mk = risk_result_of new_id (ag_aggregation_id agg) d ri in
      if \<not> md_execute d then
        make_risk_result (mk RISK_NO_OPERAR None [(''no_operar'', Branch ''no_edge'')])
      else if md_margin_usdt d \<le> 0 then Inl ValueError
      else let max_margin = dec_of_float (rk_max_margin_per_trade_usdt (cfg_risk config));
               env = ex_environment (cfg_execution config);
               original_margin = dec_of_float (md_margin_usdt d);
               original_leverage = md_leverage d in
      bindE (block_checks d ri config) (\<lambda>cs.
        if list_ex (\<lambda>c. cr_outcome c = BLOCK) cs then
          make_risk_result (mk RISK_BLOCK None (reasons_of cs []))
        else let as = adjust_checks d config;
                 reasons = reasons_of as (reasons_of cs []) in
        if list_ex (\<lambda>c. cr_outcome c = ADJUST_DOWN) as then
          bindE (make_adjusted_parameters (compute_adjusted_margin original_margin max_margin)
                   (compute_adjusted_leverage original_leverage config env)) (\<lambda>a.
          make_risk_result (mk RISK_ADJUST_DOWN (Some a) reasons))
        else
          bindE (make_adjusted_parameters original_margin original_leverage) (\<lambda>a.
          make_risk_result (mk RISK_APPROVE (Some a) reasons))))"

subsection \<open>Lemmas\<close>

definition executable :: "risk_result \<Rightarrow> bool" where
  "executable r \<longleftrightarrow> List.member EXECUTABLE_RISK_DECISIONS (rv_decision r)"

lemma executable_iff: "executable r \<longleftrightarrow> rv_decision r = RISK_APPROVE \<or> rv_decision r = RISK_ADJUST_DOWN"
  by (auto simp: executable_def EXECUTABLE_RISK_DECISIONS_def)

lemma make_adjusted_parameters_Inr:
  "make_adjusted_parameters m l = Inr a \<longleftrightarrow>
     0 < m \<and> m \<le> 10 \<and> 1 \<le> l \<and> l \<le> 10 \<and> a = \<lparr>ap_margin_usdt = m, ap_leverage = l\<rparr>"
  by (auto simp: make_adjusted_parameters_def MAX_MARGIN_USDT_def)

lemma adjusted_parameters_coherent_Inr: "adjusted_parameters_coherent r = Inr r' \<Longrightarrow> r' = r"
  by (auto simp: adjusted_parameters_coherent_def Let_def split: if_splits risk_decision.splits option.splits)

lemma make_risk_result_Inr: "make_risk_result r = Inr r' \<Longrightarrow> r' = r \<and> adjusted_parameters_coherent r = Inr r"
  by (auto simp: make_risk_result_def split: if_splits dest: adjusted_parameters_coherent_Inr)

lemma risk_result_of_simps [simp]:
  "rv_decision (risk_result_of i g d ri x a rs) = x"
  "rv_adjusted_parameters (risk_result_of i g d ri x a rs) = a"
  "rv_reasons (risk_result_of i g d ri x a rs) = rs"
  "rv_symbol (risk_result_of i g d ri x a rs) = md_symbol d"
  by (simp_all add: risk_result_of_def)

text \<open>The four ways in which the validation returns.\<close>

lemma risk_validate_cases:
  assumes "risk_validate i agg d ri config = Inr r"
  obtains (no_operar) "\<not> md_execute d" "rv_decision r = RISK_NO_OPERAR" "rv_adjusted_parameters r = None"
  | (block) cs where "md_execute d" "0 < md_margin_usdt d" "block_checks d ri config = Inr cs"
      "list_ex (\<lambda>c. cr_outcome c = BLOCK) cs" "rv_decision r = RISK_BLOCK" "rv_adjusted_parameters r = None"
      "rv_reasons r = reasons_of cs []"
  | (adjust) cs a where "md_execute d" "0 < md_margin_usdt d" "block_checks d ri config = Inr cs"
      "\<not> list_ex (\<lambda>c. cr_outcome c = BLOCK) cs"
      "list_ex (\<lambda>c. cr_outcome c = ADJUST_DOWN) (adjust_checks d config)"
      "rv_decision r = RISK_ADJUST_DOWN" "rv_adjusted_parameters r = Some a"
      "make_adjusted_parameters
         (compute_adjusted_margin (dec_of_float (md_margin_usdt d))
           (dec_of_float (rk_max_margin_per_trade_usdt (cfg_risk config))))
         (compute_adjusted_leverage (md_leverage d) config (ex_environment (cfg_execution config))) = Inr a"
      "rv_reasons r = reasons_of (adjust_checks d config) (reasons_of cs [])"
  | (approve) cs a where "md_execute d" "0 < md_margin_usdt d" "block_checks d ri config = Inr cs"
      "\<not> list_ex (\<lambda>c. cr_outcome c = BLOCK) cs"
      "\<not> list_ex (\<lambda>c. cr_outcome c = ADJUST_DOWN) (adjust_checks d config)"
      "rv_decision r = RISK_APPROVE" "rv_adjusted_parameters r = Some a"
      "make_adjusted_parameters (dec_of_float (md_margin_usdt d)) (md_leverage d) = Inr a"
      "rv_reasons r = reasons_of (adjust_checks d config) (reasons_of cs [])"
proof (cases "md_execute d")
  case False
  then have "r = risk_result_of i (ag_aggregation_id agg) d ri RISK_NO_OPERAR None
      [(''no_operar'', Branch ''no_edge'')]"
    using assms make_risk_result_Inr by (auto simp: risk_validate_def Let_def)
  with False show thesis by (intro no_operar) simp_all
next
  case exec: True
  have pos: "0 < md_margin_usdt d"
    using assms exec by (auto simp: risk_validate_def Let_def split: if_splits)
  obtain cs where cs: "block_checks d ri config = Inr cs"
    using assms exec pos by (auto simp: risk_validate_def Let_def bindE_Inr_iff)
  note r = assms [unfolded risk_validate_def Let_def, simplified exec cs, simplified, simplified pos not_le]
  show thesis
  proof (cases "list_ex (\<lambda>c. cr_outcome c = BLOCK) cs")
    case True
    with r pos have "r = risk_result_of i (ag_aggregation_id agg) d ri RISK_BLOCK None (reasons_of cs [])"
      using make_risk_result_Inr by (auto simp: not_le [symmetric])
    with True show thesis by (intro block [OF exec pos cs]) simp_all
  next
    case nb: False
    show thesis
    proof (cases "list_ex (\<lambda>c. cr_outcome c = ADJUST_DOWN) (adjust_checks d config)")
      case True
      with r pos nb obtain a where a: "make_adjusted_parameters
         (compute_adjusted_margin (dec_of_float (md_margin_usdt d))
           (dec_of_float (rk_max_margin_per_trade_usdt (cfg_risk config))))
         (compute_adjusted_leverage (md_leverage d) config (ex_environment (cfg_execution config))) = Inr a"
        and "r = risk_result_of i (ag_aggregation_id agg) d ri RISK_ADJUST_DOWN (Some a)
              (reasons_of (adjust_checks d config) (reasons_of cs []))"
        using make_risk_result_Inr by (auto simp: not_le [symmetric] bindE_Inr_iff)
      with True show thesis by (intro adjust [OF exec pos cs nb]) simp_all
    next
      case False
      with r pos nb obtain a where a: "make_adjusted_parameters (dec_of_float (md_margin_usdt d)) (md_leverage d) = Inr a"
        and "r = risk_result_of i (ag_aggregation_id agg) d ri RISK_APPROVE (Some a)
              (reasons_of (adjust_checks d config) (reasons_of cs []))"
        using make_risk_result_Inr by (auto simp: not_le [symmetric] bindE_Inr_iff)
      with False show thesis by (intro approve [OF exec pos cs nb]) simp_all
    qed
  qed
qed

text \<open>
  What it means that no check of the list blocks. \<^verbatim>\<open>check_slippage_estimate\<close> is the one entry of the list
  that has no conjunct here: it is informative and always passes.
\<close>

definition risk_rules_hold :: "model_decision \<Rightarrow> risk_inputs \<Rightarrow> app_config \<Rightarrow> bool" where
  "risk_rules_hold d ri config \<longleftrightarrow>
     (let b = dec_of_float (ch_initial_balance_usdt (cfg_challenge config)) in
      0 < md_stop_loss d
      \<and> exit_plan_present d
      \<and> 0 < b
      \<and> loss_percent (ri_daily_loss_usdt ri) b < rk_max_daily_loss_percent (cfg_risk config)
      \<and> loss_percent (ri_total_loss_usdt ri) b < rk_max_total_loss_percent (cfg_risk config)
      \<and> liquidation_acceptable d (cfg_liquidation_safety config)
      \<and> \<not> funding_adverse d (ri_funding_rate ri) (cfg_funding_gate config)
      \<and> (case ri_fee_estimate ri of None \<Rightarrow> False
         | Some e \<Rightarrow> dec_of_float (rk_min_net_risk_reward (cfg_risk config)) \<le> fe_net_risk_reward e)
      \<and> (md_decision d \<noteq> NO_OPERAR \<longrightarrow>
          (case ri_open_positions_count ri of None \<Rightarrow> False
           | Some n \<Rightarrow> n < tr_max_open_positions (cfg_trading config)))
      \<and> \<not> (\<exists>pnl margin. ri_last_trade_pnl_usdt ri = Some pnl \<and> ri_last_trade_margin_usdt ri = Some margin
             \<and> pnl < 0 \<and> margin < dec_of_float (md_margin_usdt d))
      \<and> \<not> (\<exists>pnl lev. ri_last_account_trade_pnl_usdt ri = Some pnl
             \<and> ri_last_account_trade_leverage ri = Some lev \<and> pnl < 0 \<and> lev < md_leverage d)
      \<and> (case ri_open_position_unrealized_pnl_usdt ri of None \<Rightarrow> True | Some x \<Rightarrow> 0 \<le> x))"

lemma block_checks_iff:
  assumes "block_checks d ri config = Inr cs" "md_execute d"
  shows "list_ex (\<lambda>c. cr_outcome c = BLOCK) cs \<longleftrightarrow> \<not> risk_rules_hold d ri config"
proof -
  from assms(1) obtain c_liq c_mart c_esc where c:
    "check_liquidation_safety d (cfg_liquidation_safety config) = Inr c_liq"
    "check_anti_martingala (dec_of_float (md_margin_usdt d)) (ri_last_trade_pnl_usdt ri)
       (ri_last_trade_margin_usdt ri) = Inr c_mart"
    "check_anti_leverage_escalation (md_leverage d) (ri_last_account_trade_pnl_usdt ri)
       (ri_last_account_trade_leverage ri) = Inr c_esc"
    by (auto simp: block_checks_def Let_def bindE_Inr_iff)
  show ?thesis
  proof (cases "0 < md_stop_loss d")
    case True
    note outcomes = blocks liquidation_safety_blocks [OF c(1) assms(2) True] anti_martingala_blocks [OF c(2)]
      anti_leverage_escalation_blocks [OF c(3)]
    show ?thesis using assms c True
      by (simp add: block_checks_def risk_rules_hold_def Let_def outcomes not_le not_less split: option.splits)
        (auto simp: outcomes)
  next
    case False
    then show ?thesis using assms c
      by (auto simp: block_checks_def risk_rules_hold_def Let_def blocks)
  qed
qed

lemma block_checks_pass:
  assumes "block_checks d ri config = Inr cs" "\<not> list_ex (\<lambda>c. cr_outcome c = BLOCK) cs" "md_execute d"
  shows "risk_rules_hold d ri config"
  using block_checks_iff [OF assms(1,3)] assms(2) by simp

lemma adjusted_bounds:
  assumes "make_adjusted_parameters (compute_adjusted_margin m mm) (compute_adjusted_leverage l config env) = Inr a"
  shows "0 < ap_margin_usdt a" "ap_margin_usdt a \<le> m" "ap_margin_usdt a \<le> mm" "ap_margin_usdt a \<le> 10"
    "1 \<le> ap_leverage a" "ap_leverage a \<le> l" "ap_leverage a \<le> leverage_cap_for_env config env"
  using assms
  by (auto simp: make_adjusted_parameters_Inr compute_adjusted_margin_def compute_adjusted_leverage_def)

text \<open>An APPROVE hands on the original parameters, which the caps leave unchanged.\<close>

lemma approve_adjusted:
  assumes "\<not> list_ex (\<lambda>c. cr_outcome c = ADJUST_DOWN) (adjust_checks d config)"
  shows "compute_adjusted_margin (dec_of_float (md_margin_usdt d))
           (dec_of_float (rk_max_margin_per_trade_usdt (cfg_risk config))) = dec_of_float (md_margin_usdt d)"
    "compute_adjusted_leverage (md_leverage d) config (ex_environment (cfg_execution config)) = md_leverage d"
  using assms
  by (auto simp: adjust_checks_def check_margin_cap_def check_leverage_cap_def
      compute_adjusted_margin_def compute_adjusted_leverage_def split: if_splits)

lemma executable_adjusted:
  assumes "risk_validate i agg d ri config = Inr r" "executable r"
  obtains a cs where "rv_adjusted_parameters r = Some a"
    "block_checks d ri config = Inr cs" "\<not> list_ex (\<lambda>c. cr_outcome c = BLOCK) cs" "md_execute d"
    "make_adjusted_parameters
       (compute_adjusted_margin (dec_of_float (md_margin_usdt d))
         (dec_of_float (rk_max_margin_per_trade_usdt (cfg_risk config))))
       (compute_adjusted_leverage (md_leverage d) config (ex_environment (cfg_execution config))) = Inr a"
  using assms(1)
proof (cases rule: risk_validate_cases)
  case (approve cs a)
  then show ?thesis using that approve_adjusted [OF approve(5)] by metis
qed (use assms(2) that in \<open>auto simp: executable_iff\<close>)

text \<open>The reasons of the last checks survive in the dictionary.\<close>

lemma reasons_of_snoc: "reasons_of (cs @ [c]) r = dict_set (cr_rule c) (cr_reason c) (reasons_of cs r)"
  by (simp add: reasons_of_def)

lemma reasons_of_other:
  "(\<And>c. c \<in> set cs \<Longrightarrow> cr_rule c \<noteq> k) \<Longrightarrow> dict_get (reasons_of cs r) k = dict_get r k"
proof (induction cs rule: rev_induct)
  case (snoc c cs)
  have c: "cr_rule c \<noteq> k" using snoc.prems [of c] by simp
  have "dict_get (reasons_of cs r) k = dict_get r k"
    by (rule snoc.IH) (use snoc.prems in auto)
  then show ?case using c by (simp add: reasons_of_snoc)
qed (simp add: reasons_of_def)

lemma slippage_rule [simp]: "cr_rule (check_slippage_estimate e) = ''slippage_estimate''"
  by (simp add: check_slippage_estimate_def split: option.split)

lemma block_checks_slippage:
  assumes "block_checks d ri config = Inr cs"
  shows "dict_get (reasons_of cs r) ''slippage_estimate''
    = Some (cr_reason (check_slippage_estimate (ri_slippage_estimate ri)))"
proof -
  obtain cs' where "cs = cs' @ [check_slippage_estimate (ri_slippage_estimate ri)]"
    using assms by (auto simp: block_checks_def Let_def bindE_Inr_iff)
  then show ?thesis by (simp add: reasons_of_snoc)
qed

lemma adjust_checks_rules: "c \<in> set (adjust_checks d config) \<Longrightarrow> cr_rule c \<noteq> ''slippage_estimate''"
  by (auto simp: adjust_checks_def check_margin_cap_def check_leverage_cap_def split: if_splits)

lemma validated_reasons_slippage:
  assumes "risk_validate i agg d ri config = Inr r" "md_execute d"
  shows "dict_get (rv_reasons r) ''slippage_estimate''
    = Some (cr_reason (check_slippage_estimate (ri_slippage_estimate ri)))"
  using assms(1)
proof (cases rule: risk_validate_cases)
  case no_operar
  then show ?thesis using assms(2) by simp
qed (simp_all add: block_checks_slippage reasons_of_other adjust_checks_rules)

end
