(* ===== verification/Samples.thy ===== *)
theory Samples
  imports RiskEngine MarketData
begin

text \<open>
  Concrete values on which the properties are exercised: a configuration that passes the boot validation, a
  LONG decision on BTCUSDT, its costs, and the account figures of a bot without losses.
\<close>

definition sample_config :: app_config where
  "sample_config =
     \<lparr>cfg_challenge = \<lparr>ch_initial_balance_usdt = 16, ch_max_margin_per_trade_usdt = 10,
        ch_daily_loss_limit_percent = 20, ch_total_loss_limit_percent = 40\<rparr>,
      cfg_trading = \<lparr>tr_margin_type = ISOLATED, tr_position_mode = ONE_WAY, tr_allowed_symbols = allowed_symbols,
        tr_max_open_positions = 1, tr_max_open_positions_allowed = 3\<rparr>,
      cfg_risk = \<lparr>rk_max_margin_per_trade_usdt = 4, rk_max_daily_loss_percent = 20,
        rk_max_total_loss_percent = 40, rk_min_net_risk_reward = 3/2, rk_martingale_allowed = False,
        rk_cross_margin_allowed = False\<rparr>,
      cfg_leverage = \<lparr>lv_mode = DYNAMIC_BY_VOLATILITY, lv_max_leverage_paper = 10, lv_max_leverage_testnet = 5,
        lv_max_leverage_live_initial = 3, lv_max_leverage_live_absolute = 5, lv_live_phase = INITIAL\<rparr>,
      cfg_execution = \<lparr>ex_environment = PAPER, ex_live_requires_env_confirmation = True,
        ex_live_confirmation_env_var = ''LIVE_CONFIRM'', ex_live_confirmation_required_value = ''YES''\<rparr>,
      cfg_storage = \<lparr>st_log_all_decisions = True, st_log_risk_validations = True\<rparr>,
      cfg_reconciliation = \<lparr>rc_enabled = True, rc_run_before_new_entries = True, rc_block_on_orphan_orders = True,
        rc_block_on_untracked_positions = True, rc_block_on_unconfirmed_protection = True\<rparr>,
      cfg_connection_health = \<lparr>hc_max_clock_skew_ms = 1000, hc_max_latency_ms = 2000\<rparr>,
      cfg_liquidation_safety = \<lparr>lq_enabled = True, lq_min_distance_entry_to_liquidation_percent = 5,
        lq_min_buffer_stop_to_liquidation_percent = 2, lq_block_if_liquidation_unknown = True,
        lq_block_if_stop_after_liquidation = True\<rparr>,
      cfg_slippage = \<lparr>sl_market_impact_bps = 2\<rparr>,
      cfg_funding_gate = \<lparr>fg_enabled = True, fg_max_adverse_funding_rate = 1/128,
        fg_block_if_funding_unknown = True\<rparr>,
      cfg_position_management = \<lparr>pm_break_even_enabled = True, pm_trailing_stop_enabled = True,
        pm_trailing_default_mode = ''PERCENT'', pm_trailing_default_percent = 1/64,
        pm_trailing_default_atr_multiplier = 3/2, pm_be_trigger_atr_multiplier = 1,
        pm_be_sl_offset_percent = 1/1024\<rparr>,
      cfg_failure_policy = \<lparr>fp_gpt_failure_blocks_new_entries = True,
        fp_token_budget_failure_blocks_new_entries = True,
        fp_deterministic_position_management_without_gpt = True, fp_exits_do_not_require_gpt_response = True,
        fp_every_position_requires_confirmed_sl_tp = True\<rparr>,
      cfg_token_budget = \<lparr>tb_max_tokens_per_request = 6000, tb_max_tokens_per_hour = 60000,
        tb_max_tokens_per_24h = 500000, tb_alert_at_percent = 3/4\<rparr>,
      cfg_login_throttle = \<lparr>lt_enabled = True, lt_max_failures_per_username = 5, lt_max_failures_per_ip = 20,
        lt_window_seconds = 900, lt_lockout_seconds = 60, lt_lockout_backoff_factor = 2,
        lt_max_lockout_seconds = 3600\<rparr>\<rparr>"

definition sample_plan :: position_management_plan where
  "sample_plan = \<lparr>pp_use_trailing_stop = True, pp_move_to_break_even = True, pp_partial_close_plan = [],
     pp_max_time_in_trade_minutes = 0\<rparr>"

definition sample_id :: string where
  "sample_id = ''12345678-1234-1234-1234-123456789abc''"

definition sample_decision :: model_decision where
  "sample_decision =
     \<lparr>md_decision_id = sample_id, md_challenge_mode = CHALLENGE_MODE, md_environment = PAPER, md_decision = LONG,
      md_symbol = ''BTCUSDT'', md_margin_type = ISOLATED, md_position_mode = ONE_WAY,
      md_entry_type = ENTRY_MARKET, md_entry_price = 1024, md_stop_loss = 960, md_take_profit = 1152,
      md_invalidation_price = 950, md_leverage = 4, md_margin_usdt = 5, md_net_risk_reward = 2,
      md_liquidation_distance_percent_estimated = 50, md_confidence = 3/4,
      md_position_management_plan = sample_plan, md_execute = True\<rparr>"

definition sample_fees :: fee_estimate where
  "sample_fees = \<lparr>fe_entry_fee_usdt = 1/128, fe_exit_fee_at_tp_usdt = 1/128, fe_exit_fee_at_sl_usdt = 1/128,
     fe_gross_risk_reward = 3, fe_net_risk_reward = 5/2, fe_entry_rate = 1/2048, fe_exit_rate = 1/2048\<rparr>"

definition sample_inputs :: risk_inputs where
  "sample_inputs = \<lparr>ri_daily_loss_usdt = 1, ri_total_loss_usdt = 1, ri_last_trade_pnl_usdt = None,
     ri_last_trade_margin_usdt = None, ri_open_position_unrealized_pnl_usdt = None,
     ri_funding_rate = Some (1/1024), ri_open_positions_count = Some 0, ri_fee_estimate = Some sample_fees,
     ri_slippage_estimate = None, ri_last_account_trade_pnl_usdt = None,
     ri_last_account_trade_leverage = None\<rparr>"

definition sample_sources :: contributing_sources where
  "sample_sources = \<lparr>cs_quant_score = 3/4, cs_gpt_context_score = 3/4, cs_regime_factor = 3/4,
     cs_volatility_factor = 3/4\<rparr>"

definition sample_aggregation :: aggregation_result where
  "sample_aggregation = \<lparr>ag_aggregation_id = sample_id, ag_decision_id = sample_id, ag_symbol = ''BTCUSDT'',
     ag_contributing_sources = sample_sources, ag_aggregated_score = 3/4, ag_final_action = LONG,
     ag_contradictions_detected = []\<rparr>"

end
