(* ===== verification/RiskProperties.thy ===== *)
theory RiskProperties
  imports Samples
begin

text \<open>
  The properties of the risk gate: what an executable result guarantees, when the validation returns, when it
  must block, and the two behaviours of the liquidation check that its callers have to know.
\<close>

subsection \<open>When the checks return\<close>

lemma dec_of_float_cap: "is_float x \<Longrightarrow> dec_of_float x \<le> 10 \<longleftrightarrow> x \<le> 10"
proof -
  assume x: "is_float x"
  have "dec_of_float 10 = 10" "is_float 10" by code_simp+
  then show ?thesis using dec_of_float_le_iff [OF x, of 10] by simp
qed

lemma check_liquidation_safety_total:
  assumes "estimate_liquidation_price (md_entry_price d) (md_liquidation_distance_percent_estimated d)
             (md_decision d) \<noteq> 0"
  shows "\<exists>c. check_liquidation_safety d config = Inr c"
  using assms by (simp add: check_liquidation_safety_def sl_buffer_percent_def Let_def)

lemma block_checks_total:
  assumes "0 < dec_of_float (md_margin_usdt d)" "0 < md_leverage d"
    "\<And>m. ri_last_trade_margin_usdt ri = Some m \<Longrightarrow> 0 < m"
    "\<And>l. ri_last_account_trade_leverage ri = Some l \<Longrightarrow> 0 < l"
    "estimate_liquidation_price (md_entry_price d) (md_liquidation_distance_percent_estimated d)
             (md_decision d) \<noteq> 0"
  shows "\<exists>cs. block_checks d ri config = Inr cs"
proof -
  have "\<exists>c. check_anti_martingala (dec_of_float (md_margin_usdt d)) (ri_last_trade_pnl_usdt ri)
      (ri_last_trade_margin_usdt ri) = Inr c"
    using assms(1,3)
    by (cases "ri_last_trade_margin_usdt ri"; cases "ri_last_trade_pnl_usdt ri")
      (auto simp: check_anti_martingala_def not_le)
  moreover have "\<exists>c. check_anti_leverage_escalation (md_leverage d) (ri_last_account_trade_pnl_usdt ri)
      (ri_last_account_trade_leverage ri) = Inr c"
    using assms(2,4)
    by (cases "ri_last_account_trade_leverage ri"; cases "ri_last_account_trade_pnl_usdt ri")
      (auto simp: check_anti_leverage_escalation_def not_le)
  ultimately show ?thesis
    using check_liquidation_safety_total [OF assms(5), of "cfg_liquidation_safety config"]
    by (auto simp: block_checks_def Let_def)
qed

lemma reasons_of_nonempty: "cs \<noteq> [] \<or> r \<noteq> [] \<Longrightarrow> reasons_of cs r \<noteq> []"
proof (induction cs rule: rev_induct)
  case (snoc c cs)
  have "dict_get (reasons_of (cs @ [c]) r) (cr_rule c) = Some (cr_reason c)"
    by (simp add: reasons_of_snoc)
  then show ?case by auto
qed (simp add: reasons_of_def)

lemma block_checks_nonempty: "block_checks d ri config = Inr cs \<Longrightarrow> cs \<noteq> []"
  by (auto simp: block_checks_def Let_def bindE_Inr_iff)

text \<open>
  The arguments that the caller is responsible for: identifiers, figures of the account that are not
  negative, a margin and a leverage cap that leave room for a trade, and a liquidation price that is not zero.
\<close>

definition risk_arguments_ok ::
    "string \<Rightarrow> aggregation_result \<Rightarrow> risk_inputs \<Rightarrow> app_config \<Rightarrow> model_decision \<Rightarrow> bool" where
  "risk_arguments_ok new_id agg ri config d \<longleftrightarrow>
     uuid_valid new_id \<and> uuid_valid (ag_aggregation_id agg)
     \<and> 0 \<le> ri_daily_loss_usdt ri \<and> 0 \<le> ri_total_loss_usdt ri
     \<and> (case ri_last_trade_margin_usdt ri of None \<Rightarrow> True | Some m \<Rightarrow> 0 < m)
     \<and> (case ri_last_account_trade_leverage ri of None \<Rightarrow> True | Some l \<Rightarrow> 0 < l)
     \<and> is_float (rk_max_margin_per_trade_usdt (cfg_risk config))
     \<and> 0 < rk_max_margin_per_trade_usdt (cfg_risk config)
     \<and> 1 \<le> leverage_cap_for_env config (ex_environment (cfg_execution config))
     \<and> is_float (md_margin_usdt d)
     \<and> (estimate_liquidation_price (md_entry_price d) (md_liquidation_distance_percent_estimated d)
             (md_decision d) \<noteq> 0)"

definition close_config :: app_config where
  "close_config = sample_config\<lparr>cfg_liquidation_safety :=
     (cfg_liquidation_safety sample_config)\<lparr>lq_min_distance_entry_to_liquidation_percent := 60\<rparr>\<rparr>"
definition small_decision :: model_decision where
  "small_decision = sample_decision\<lparr>md_margin_usdt := 4\<rparr>"

lemma sample_decision_valid: "model_decision_validate sample_decision = Inr sample_decision"
  by code_simp

lemma sample_risk:
  "\<exists>r. risk_validate sample_id sample_aggregation sample_decision sample_inputs sample_config = Inr r
     \<and> rv_decision r = RISK_ADJUST_DOWN"
proof -
  have "case risk_validate sample_id sample_aggregation sample_decision sample_inputs sample_config of
      Inr r \<Rightarrow> rv_decision r = RISK_ADJUST_DOWN | Inl _ \<Rightarrow> False" by code_simp
  then show ?thesis by (auto split: sum.splits)
qed

lemma sample_execute: "md_execute sample_decision"
  by (simp add: sample_decision_def)

subsection \<open>Properties\<close>

text \<open>
  C1. The risk gate is exact. A validation that returns is executable (APPROVE or ADJUST_DOWN) if and only if the
  decision asked to execute and every blocking rule held: stop present, take profit or exit plan present, both
  drawdowns below their limits, liquidation acceptable, funding not adverse, net risk-reward at least the minimum,
  free position slot, no martingale, no leverage escalation, no averaging. And then the final margin and leverage
  are positive, never above the proposal and never above the caps.
\<close>

theorem risk_executable_sound:
  assumes "risk_validate i agg d ri config = Inr r"
  shows "(executable r \<longleftrightarrow> md_execute d \<and> risk_rules_hold d ri config)
    \<and> (executable r \<longrightarrow>
    (\<exists>a. rv_adjusted_parameters r = Some a
       \<and> 0 < ap_margin_usdt a \<and> ap_margin_usdt a \<le> dec_of_float (md_margin_usdt d)
       \<and> ap_margin_usdt a \<le> dec_of_float (rk_max_margin_per_trade_usdt (cfg_risk config))
       \<and> ap_margin_usdt a \<le> 10
       \<and> 1 \<le> ap_leverage a \<and> ap_leverage a \<le> md_leverage d
       \<and> ap_leverage a \<le> leverage_cap_for_env config (ex_environment (cfg_execution config))))"
proof (intro conjI impI)
  show "executable r \<longleftrightarrow> md_execute d \<and> risk_rules_hold d ri config"
    using assms by (cases rule: risk_validate_cases) (use block_checks_iff in \<open>auto simp: executable_iff\<close>)
  assume "executable r"
  then show "\<exists>a. rv_adjusted_parameters r = Some a
       \<and> 0 < ap_margin_usdt a \<and> ap_margin_usdt a \<le> dec_of_float (md_margin_usdt d)
       \<and> ap_margin_usdt a \<le> dec_of_float (rk_max_margin_per_trade_usdt (cfg_risk config))
       \<and> ap_margin_usdt a \<le> 10
       \<and> 1 \<le> ap_leverage a \<and> ap_leverage a \<le> md_leverage d
       \<and> ap_leverage a \<le> leverage_cap_for_env config (ex_environment (cfg_execution config))"
    using executable_adjusted [OF assms] adjusted_bounds by metis
qed

theorem risk_executable_sound_witness:
  "\<exists>r. risk_validate sample_id sample_aggregation sample_decision sample_inputs sample_config = Inr r
     \<and> risk_rules_hold sample_decision sample_inputs sample_config \<and> rv_adjusted_parameters r \<noteq> None"
proof -
  obtain r where r: "risk_validate sample_id sample_aggregation sample_decision sample_inputs sample_config = Inr r"
      "executable r"
    using sample_risk by (auto simp: executable_iff)
  from risk_executable_sound [OF r(1)] r show ?thesis by auto
qed

text \<open>
  A decision with execute = False, whatever else it says and whatever the account looks like, is answered
  NO_OPERAR: it is never executable, carries no parameters and records only the no-edge reason.
\<close>

theorem risk_no_operar_never_executes:
  assumes "risk_validate i agg d ri config = Inr r" "\<not> md_execute d"
  shows "rv_decision r = RISK_NO_OPERAR \<and> \<not> executable r \<and> rv_adjusted_parameters r = None
    \<and> rv_reasons r = [(''no_operar'', Branch ''no_edge'')]"
proof -
  have "r = risk_result_of i (ag_aggregation_id agg) d ri RISK_NO_OPERAR None
      [(''no_operar'', Branch ''no_edge'')]"
    using assms make_risk_result_Inr by (auto simp: risk_validate_def Let_def)
  then show ?thesis by (simp add: executable_iff)
qed

theorem risk_no_operar_never_executes_witness:
  "\<exists>r. risk_validate sample_id sample_aggregation (sample_decision\<lparr>md_execute := False\<rparr>) sample_inputs
        sample_config = Inr r \<and> \<not> executable r"
proof -
  have "case risk_validate sample_id sample_aggregation (sample_decision\<lparr>md_execute := False\<rparr>) sample_inputs
      sample_config of Inr r \<Rightarrow> True | Inl _ \<Rightarrow> False" by code_simp
  then obtain r where r: "risk_validate sample_id sample_aggregation (sample_decision\<lparr>md_execute := False\<rparr>)
      sample_inputs sample_config = Inr r" by (auto split: sum.splits)
  have "\<not> md_execute (sample_decision\<lparr>md_execute := False\<rparr>)" by simp
  from risk_no_operar_never_executes [OF r this] r show ?thesis by blast
qed

text \<open>
  C2. The gate fails closed: without a fee estimate, or for a directional decision without a reliable count of
  open positions or (when the configuration says so) without a funding rate, an executing decision is blocked.
\<close>

theorem risk_fails_closed:
  assumes "risk_validate i agg d ri config = Inr r" "md_execute d"
    "ri_fee_estimate ri = None
     \<or> md_decision d \<noteq> NO_OPERAR \<and> ri_open_positions_count ri = None
     \<or> md_decision d \<noteq> NO_OPERAR \<and> ri_funding_rate ri = None
         \<and> fg_enabled (cfg_funding_gate config) \<and> fg_block_if_funding_unknown (cfg_funding_gate config)"
  shows "rv_decision r = RISK_BLOCK \<and> \<not> executable r \<and> rv_adjusted_parameters r = None"
proof -
  have no: "\<not> executable r"
  proof
    assume "executable r"
    then have "risk_rules_hold d ri config"
      using executable_adjusted [OF assms(1)] block_checks_pass by metis
    then show False
      using assms(3) by (auto simp: risk_rules_hold_def funding_adverse_def Let_def split: option.splits)
  qed
  from assms(1) show ?thesis
    by (cases rule: risk_validate_cases) (use no assms(2) in \<open>simp_all add: executable_iff\<close>)
qed

theorem risk_fails_closed_witness:
  "\<exists>r. risk_validate sample_id sample_aggregation sample_decision
        (sample_inputs\<lparr>ri_fee_estimate := None\<rparr>) sample_config = Inr r \<and> rv_decision r = RISK_BLOCK"
proof -
  have "case risk_validate sample_id sample_aggregation sample_decision
      (sample_inputs\<lparr>ri_fee_estimate := None\<rparr>) sample_config of Inr r \<Rightarrow> True | Inl _ \<Rightarrow> False" by code_simp
  then obtain r where r: "risk_validate sample_id sample_aggregation sample_decision
      (sample_inputs\<lparr>ri_fee_estimate := None\<rparr>) sample_config = Inr r" by (auto split: sum.splits)
  from risk_fails_closed [OF r sample_execute] r show ?thesis by auto
qed

text \<open>
  The validation of a decision that passed its own validators returns a result: no branch raises, and the
  contract of the result (positive bounded margin and leverage, ADJUST_DOWN strictly below the proposal, at least one
  reason) is always met, provided the account figures are in range, the caps leave room for a trade and the
  estimated liquidation price is not zero.
\<close>

theorem risk_validate_total:
  assumes v: "model_decision_validate d = Inr d" and a: "risk_arguments_ok i agg ri config d"
  shows "\<exists>r. risk_validate i agg d ri config = Inr r"
proof -
  note f = model_decision_validate_Inr [OF v]
  have fields: "0 \<le> md_margin_usdt d" "md_margin_usdt d \<le> 10" "1 \<le> md_leverage d" "md_leverage d \<le> 10"
      "List.member allowed_symbols (md_symbol d)"
    using f by (auto simp: decision_fields_def split: if_splits)
  have m: "0 \<le> dec_of_float (md_margin_usdt d)" "dec_of_float (md_margin_usdt d) \<le> 10"
    using a fields by (simp_all add: risk_arguments_ok_def dec_of_float_nonneg_iff dec_of_float_cap)
  have mk: "\<And>x p rs. rs \<noteq> [] \<Longrightarrow>
      make_risk_result (risk_result_of i (ag_aggregation_id agg) d ri x p rs)
        = adjusted_parameters_coherent (risk_result_of i (ag_aggregation_id agg) d ri x p rs)"
    using a fields m by (simp add: make_risk_result_def risk_result_of_def risk_arguments_ok_def MAX_MARGIN_USDT_def)
  show ?thesis
  proof (cases "md_execute d")
    case False
    then show ?thesis
      using mk by (simp add: risk_validate_def Let_def adjusted_parameters_coherent_def)
  next
    case True
    have pos: "0 < md_margin_usdt d"
      using validated_executable [OF v True] by (simp add: executable_coherent_def)
    then have mpos: "0 < dec_of_float (md_margin_usdt d)"
      using a by (simp add: risk_arguments_ok_def dec_of_float_pos_iff)
    obtain cs where cs: "block_checks d ri config = Inr cs"
      using block_checks_total [OF mpos, of ri config] a fields
      by (auto simp: risk_arguments_ok_def split: option.splits)
    have ne: "\<And>r. reasons_of cs r \<noteq> []" "\<And>as r. reasons_of as (reasons_of cs r) \<noteq> []"
      using block_checks_nonempty [OF cs] by (simp_all add: reasons_of_nonempty)
    have mm: "0 < dec_of_float (rk_max_margin_per_trade_usdt (cfg_risk config))"
      using a by (simp add: risk_arguments_ok_def dec_of_float_pos_iff)
    have original: "\<And>x p rs. rv_original_margin_usdt (risk_result_of i (ag_aggregation_id agg) d ri x p rs)
          = dec_of_float (md_margin_usdt d)"
        "\<And>x p rs. rv_original_leverage (risk_result_of i (ag_aggregation_id agg) d ri x p rs) = md_leverage d"
      by (simp_all add: risk_result_of_def)
    have cap: "1 \<le> leverage_cap_for_env config (ex_environment (cfg_execution config))"
      using a by (simp add: risk_arguments_ok_def)
    show ?thesis
      using True pos cs mpos m mm fields cap
      by (auto simp: risk_validate_def Let_def mk ne make_adjusted_parameters_def MAX_MARGIN_USDT_def
          adjusted_parameters_coherent_def original compute_adjusted_margin_def
          compute_adjusted_leverage_def adjust_checks_def check_margin_cap_def check_leverage_cap_def
          not_le not_less min_def)
  qed
qed

theorem risk_validate_total_witness:
  "\<exists>r. risk_validate sample_id sample_aggregation sample_decision sample_inputs sample_config = Inr r"
proof (rule risk_validate_total)
  show "model_decision_validate sample_decision = Inr sample_decision" by (rule sample_decision_valid)
  show "risk_arguments_ok sample_id sample_aggregation sample_inputs sample_config sample_decision" by code_simp
qed

text \<open>
  C34. The check of the liquidation distance divides by the estimated liquidation price. For a LONG whose
  estimated liquidation distance is 100 percent that price is zero: the validation does not return an audited
  BLOCK, it raises ZeroDivisionError.
\<close>

theorem liquidation_distance_100_raises:
  assumes "md_execute d" "0 < md_margin_usdt d" "md_decision d = LONG"
    "0 < md_entry_price d" "0 < md_stop_loss d"
    "md_liquidation_distance_percent_estimated d = 100"
    "lq_enabled (cfg_liquidation_safety config)"
    "lq_min_distance_entry_to_liquidation_percent (cfg_liquidation_safety config) \<le> 100"
  shows "risk_validate i agg d ri config = Inl ZeroDivisionError"
proof -
  have z: "estimate_liquidation_price (md_entry_price d) 100 LONG = 0"
    by (simp add: estimate_liquidation_price_def float_ops)
  have "check_liquidation_safety d (cfg_liquidation_safety config) = Inl ZeroDivisionError"
    using assms z by (simp add: check_liquidation_safety_def Let_def sl_is_past_liquidation_def sl_buffer_percent_def)
  then show ?thesis using assms(1,2) by (simp add: risk_validate_def block_checks_def Let_def)
qed

theorem liquidation_distance_100_raises_witness:
  "risk_validate sample_id sample_aggregation
     (sample_decision\<lparr>md_liquidation_distance_percent_estimated := 100\<rparr>) sample_inputs sample_config
   = Inl ZeroDivisionError"
  by (rule liquidation_distance_100_raises) (simp_all add: sample_decision_def sample_config_def)

text \<open>
  The engine looks for ADJUST_DOWN only among the margin and leverage caps. A liquidation check that answers
  ADJUST_DOWN (entry too close to liquidation) leaves a decision approved with its margin and leverage unchanged.
\<close>

theorem liquidation_adjust_down_ignored:
  "(case check_liquidation_safety small_decision (cfg_liquidation_safety close_config) of
      Inr c \<Rightarrow> cr_outcome c = ADJUST_DOWN | Inl _ \<Rightarrow> False)
   \<and> (case risk_validate sample_id sample_aggregation small_decision sample_inputs close_config of
      Inr r \<Rightarrow> rv_decision r = RISK_APPROVE
        \<and> rv_adjusted_parameters r = Some \<lparr>ap_margin_usdt = 4, ap_leverage = 4\<rparr> | Inl _ \<Rightarrow> False)"
  by code_simp
end
