(* ===== verification/BotStateMachine.thy ===== *)
theory BotStateMachine
  imports Prelude
begin

text \<open>
  \<^verbatim>\<open>backend/trading_core/bot_state_machine.py\<close>: the five operating states, the table of allowed
  transitions, the operations of \<^verbatim>\<open>BotStateMachine\<close> (its only state is the current \<^verbatim>\<open>BotState\<close>), and
  the mapping of a persisted string to a state. A raised \<^verbatim>\<open>InvalidStateTransitionError\<close> carries the two
  states. The step relation \<open>machine_step\<close> is one successful \<^verbatim>\<open>transition_to\<close>.
\<close>

datatype bot_state = ACTIVE | SAFE_MODE | HALTED | KILL_SWITCH_TRIGGERED | MANUAL_PAUSED

datatype transition_error = InvalidStateTransitionError bot_state bot_state

fun state_value :: "bot_state \<Rightarrow> string" where
  "state_value ACTIVE = ''ACTIVE''"
| "state_value SAFE_MODE = ''SAFE_MODE''"
| "state_value HALTED = ''HALTED''"
| "state_value KILL_SWITCH_TRIGGERED = ''KILL_SWITCH_TRIGGERED''"
| "state_value MANUAL_PAUSED = ''MANUAL_PAUSED''"

fun allowed_transitions :: "bot_state \<Rightarrow> bot_state list" where
  "allowed_transitions ACTIVE = [SAFE_MODE, HALTED, KILL_SWITCH_TRIGGERED, MANUAL_PAUSED]"
| "allowed_transitions SAFE_MODE = [ACTIVE, HALTED, KILL_SWITCH_TRIGGERED, MANUAL_PAUSED]"
| "allowed_transitions HALTED = [ACTIVE, KILL_SWITCH_TRIGGERED]"
| "allowed_transitions KILL_SWITCH_TRIGGERED = [HALTED]"
| "allowed_transitions MANUAL_PAUSED = [ACTIVE, SAFE_MODE]"

definition can_transition_to :: "bot_state \<Rightarrow> bot_state \<Rightarrow> bool" where
  "can_transition_to s target = List.member (allowed_transitions s) target"

definition transition_to :: "bot_state \<Rightarrow> bot_state \<Rightarrow> transition_error + bot_state" where
  "transition_to s target =
     (if \<not> can_transition_to s target then Inl (InvalidStateTransitionError s target) else Inr target)"

definition force_set :: "bot_state \<Rightarrow> bot_state \<Rightarrow> bot_state" where
  "force_set s target = (if target = s then s else target)"

definition can_trade :: "bot_state \<Rightarrow> bool" where
  "can_trade s \<longleftrightarrow> s = ACTIVE"

definition can_manage_positions :: "bot_state \<Rightarrow> bool" where
  "can_manage_positions s \<longleftrightarrow> List.member [ACTIVE, SAFE_MODE] s"

definition is_running :: "bot_state \<Rightarrow> bool" where
  "is_running s \<longleftrightarrow> \<not> List.member [HALTED, KILL_SWITCH_TRIGGERED] s"

text \<open>\<^verbatim>\<open>BotState(raw)\<close>: the member whose value is the string, \<open>None\<close> for the ValueError.\<close>

definition parse_state :: "string \<Rightarrow> bot_state option" where
  "parse_state raw =
     (if raw = ''ACTIVE'' then Some ACTIVE
      else if raw = ''SAFE_MODE'' then Some SAFE_MODE
      else if raw = ''HALTED'' then Some HALTED
      else if raw = ''KILL_SWITCH_TRIGGERED'' then Some KILL_SWITCH_TRIGGERED
      else if raw = ''MANUAL_PAUSED'' then Some MANUAL_PAUSED
      else None)"

definition resolve_persisted_state :: "string option \<Rightarrow> bot_state option" where
  "resolve_persisted_state raw = (case raw of None \<Rightarrow> Some ACTIVE | Some v \<Rightarrow> parse_state v)"

inductive machine_step :: "bot_state \<Rightarrow> bot_state \<Rightarrow> bool" where
  machine_stepI: "transition_to s target = Inr s' \<Longrightarrow> machine_step s s'"

inductive_simps machine_step_iff: "machine_step s s'"

subsection \<open>Lemmas\<close>

lemma force_set_eq [simp]: "force_set s target = target"
  by (simp add: force_set_def)

lemma transition_to_Inr_iff:
  "transition_to s target = Inr s' \<longleftrightarrow> s' = target \<and> can_transition_to s target"
  by (auto simp: transition_to_def)

lemma transition_to_Inl_iff:
  "transition_to s target = Inl e \<longleftrightarrow> e = InvalidStateTransitionError s target \<and> \<not> can_transition_to s target"
  by (auto simp: transition_to_def)

lemma machine_step_allowed: "machine_step s s' \<longleftrightarrow> s' \<in> set (allowed_transitions s)"
  by (auto simp: machine_step_iff transition_to_Inr_iff can_transition_to_def)

lemma parse_state_value [simp]: "parse_state (state_value s) = Some s"
  by (cases s) (simp_all add: parse_state_def)

lemma parse_state_Some_iff: "parse_state raw = Some s \<longleftrightarrow> raw = state_value s"
  by (cases s) (auto simp: parse_state_def)

lemma resolve_persisted_value [simp]: "resolve_persisted_state (Some (state_value s)) = Some s"
  by (simp add: resolve_persisted_state_def)

lemma can_trade_imp_running: "can_trade s \<Longrightarrow> is_running s \<and> can_manage_positions s"
  by (simp add: can_trade_def is_running_def can_manage_positions_def)

lemma kill_switch_successor: "machine_step KILL_SWITCH_TRIGGERED s \<longleftrightarrow> s = HALTED"
  by (simp add: machine_step_allowed)

text \<open>
  A run of transitions that leaves the kill switch and ends in a state that trades passes through
  HALTED: the manual review the specification asks for.
\<close>

fun machine_run :: "bot_state \<Rightarrow> bot_state list \<Rightarrow> bool" where
  "machine_run s [] = True"
| "machine_run s (t # ts) = (machine_step s t \<and> machine_run t ts)"

lemma kill_switch_run_head:
  "machine_run KILL_SWITCH_TRIGGERED ts \<Longrightarrow> ts \<noteq> [] \<Longrightarrow> hd ts = HALTED"
  by (cases ts) (simp_all add: kill_switch_successor)

end
