(* ===== verification/DecisionProperties.thy ===== *)
theory DecisionProperties
  imports RiskProperties BotStateMachine
begin

text \<open>
  The properties of what comes before the risk gate: the configuration, the market data guard, the decision
  schema, the aggregator, the cost estimates and the table of operating states.
\<close>

subsection \<open>Configuration\<close>

text \<open>
  A configuration that loads respects every hard limit of the specification: at most 10 USDT of margin per
  trade, one to three open positions in ISOLATED mode on whitelisted symbols, a net risk-reward floor of 1.5, no
  martingale, leverage caps of 10, 5 and 5 (3 in the initial LIVE phase) by environment, and LIVE only with the
  confirmation variable set to its required value.
\<close>

theorem loaded_config_limits:
  assumes "load_config environ raw = Inr c"
  shows "c = raw \<and> rk_max_margin_per_trade_usdt (cfg_risk c) \<le> 10
    \<and> 3/2 \<le> rk_min_net_risk_reward (cfg_risk c) \<and> \<not> rk_martingale_allowed (cfg_risk c)
    \<and> 1 \<le> tr_max_open_positions (cfg_trading c) \<and> tr_max_open_positions (cfg_trading c) \<le> 3
    \<and> tr_margin_type (cfg_trading c) = ISOLATED
    \<and> set (tr_allowed_symbols (cfg_trading c)) \<subseteq> set allowed_symbols
    \<and> (\<forall>env. cap_for_env (cfg_leverage c) env \<le> (case env of PAPER \<Rightarrow> 10 | TESTNET \<Rightarrow> 5
         | LIVE \<Rightarrow> if lv_live_phase (cfg_leverage c) = ABSOLUTE then 5 else 3))
    \<and> (ex_environment (cfg_execution c) = LIVE \<and> ex_live_requires_env_confirmation (cfg_execution c) \<longrightarrow>
        (case environ (ex_live_confirmation_env_var (cfg_execution c)) of None \<Rightarrow> [] | Some v \<Rightarrow> v)
          = ex_live_confirmation_required_value (cfg_execution c))"
proof -
  have ok: "c = raw" "config_ok c" using load_config_Inr [OF assms] by blast+
  have risk: "rk_max_margin_per_trade_usdt (cfg_risk c) \<le> 10 \<and> 3/2 \<le> rk_min_net_risk_reward (cfg_risk c)
      \<and> \<not> rk_martingale_allowed (cfg_risk c)"
    using ok(2) validate_risk_bounds [of "cfg_risk c"] unfolding config_ok_def
    by (auto simp: validate_risk_def split: if_splits)
  have "validate_live_confirmation environ c = Inr ()"
    using assms ok by (auto simp: load_config_def bindE_Inr_iff dest: model_validate_Inr)
  then have live: "ex_environment (cfg_execution c) = LIVE \<and> ex_live_requires_env_confirmation (cfg_execution c) \<longrightarrow>
      (case environ (ex_live_confirmation_env_var (cfg_execution c)) of None \<Rightarrow> [] | Some v \<Rightarrow> v)
        = ex_live_confirmation_required_value (cfg_execution c)"
    by (auto simp: validate_live_confirmation_def Let_def split: if_splits)
  have cap: "\<And>env. cap_for_env (cfg_leverage c) env \<le> (case env of PAPER \<Rightarrow> 10 | TESTNET \<Rightarrow> 5
         | LIVE \<Rightarrow> if lv_live_phase (cfg_leverage c) = ABSOLUTE then 5 else 3)"
    using ok(2) cap_for_env_bounds unfolding config_ok_def by blast
  show ?thesis
    using ok risk live cap validate_trading_bounds [of "cfg_trading c"] unfolding config_ok_def by blast
qed

theorem loaded_config_limits_witness: "tr_max_open_positions (cfg_trading sample_config) \<le> 3"
proof -
  have "load_config (\<lambda>_. None) sample_config = Inr sample_config" by code_simp
  from loaded_config_limits [OF this] show ?thesis by blast
qed

subsection \<open>Operating states\<close>

text \<open>
  Whatever sequence of allowed transitions follows a triggered kill switch, its first state is HALTED, so
  the bot never trades again without passing through the manual review.
\<close>

theorem kill_switch_needs_review:
  "machine_run KILL_SWITCH_TRIGGERED ts \<and> ts \<noteq> [] \<longrightarrow> hd ts = HALTED \<and> \<not> can_trade (hd ts)"
  using kill_switch_run_head [of ts] by (auto simp: can_trade_def)

theorem kill_switch_needs_review_witness:
  "machine_run KILL_SWITCH_TRIGGERED [HALTED, ACTIVE] \<and> hd [HALTED, ACTIVE] = HALTED"
proof -
  have "machine_run KILL_SWITCH_TRIGGERED [HALTED, ACTIVE]" by (simp add: machine_step_allowed)
  then show ?thesis using kill_switch_needs_review [of "[HALTED, ACTIVE]"] by simp
qed

text \<open>
  A state that was persisted is read back as itself, a bot without a persisted row is ACTIVE, and a string
  that names no state is rejected instead of being mapped to one.
\<close>

theorem persisted_state_roundtrip:
  "resolve_persisted_state (Some (state_value s)) = Some s \<and> resolve_persisted_state None = Some ACTIVE
   \<and> (resolve_persisted_state (Some raw) = None \<longleftrightarrow> raw \<notin> range state_value)"
proof -
  have "resolve_persisted_state (Some raw) = None \<longleftrightarrow> raw \<notin> range state_value"
    using parse_state_Some_iff [of raw] by (cases "parse_state raw") (auto simp: resolve_persisted_state_def)
  then show ?thesis by (simp add: resolve_persisted_state_def [of None])
qed

subsection \<open>Market data\<close>

text \<open>
  The market data guard lets a snapshot through exactly when it is at most 30 seconds old (as the float
  difference the code computes), every timeframe has at least three candles and the last 5m close is positive;
  the snapshot itself is not changed.
\<close>

theorem validate_snapshot_accepts_iff:
  "validate_snapshot now s = Inr s' \<longleftrightarrow>
     s' = s \<and> fl (of_int (now - ms_timestamp_utc s) / 1000000) \<le> 30
     \<and> 3 \<le> cd_n_candles (tf_15m (ms_candles s)) \<and> 3 \<le> cd_n_candles (tf_1h (ms_candles s))
     \<and> 3 \<le> cd_n_candles (tf_4h (ms_candles s)) \<and> 0 < cd_close (tf_5m (ms_candles s))"
  using evaluate_coherence_INVALID_iff [of s] evaluate_freshness_EXPIRED_iff [of now s]
  by (cases "evaluate_coherence s") (auto simp: validate_snapshot_def Let_def not_less not_le)

subsection \<open>The decision\<close>

text \<open>
  C37. A decision of the language model that passes the schema and asks to execute is directional, has a
  positive margin of at most 10 USDT, a leverage between 1 and the cap of its environment, positive stop and
  target on the right sides of its entry, and a net risk-reward of at least 1.5.
\<close>

theorem validated_decision_coherent:
  assumes "model_decision_validate d = Inr d'" "md_execute d"
  shows "d' = d \<and> executable_coherent d \<and> 3/2 \<le> md_net_risk_reward d"
proof -
  have c: "executable_coherent d" by (rule validated_executable [OF assms])
  then show ?thesis
    using model_decision_validate_Inr [OF assms(1)] assms(2)
    by (auto simp: execute_requires_minimum_rr_def executable_coherent_def MIN_NET_RISK_REWARD_FLOOR_def
        split: if_splits)
qed

theorem validated_decision_coherent_witness: "executable_coherent sample_decision"
  using validated_decision_coherent [OF sample_decision_valid sample_execute] by simp

subsection \<open>The aggregator\<close>

definition sample_signals :: quant_signals_package where
  "sample_signals = \<lparr>qs_momentum_signal = Some (1/2), qs_mean_reversion_signal = None, qs_breakout_signal = None,
     qs_funding_signal = None, qs_open_interest_signal = None, qs_order_flow_imbalance_signal = None,
     qs_liquidity_sweep_signal = None, qs_signal_strength_score = Some (3/4), qs_signal_conflict_score = Some 0\<rparr>"

text \<open>
  Aggregation is total on validated inputs: with scores in the unit interval and well-formed identifiers it
  returns a result, whose score is again in the unit interval for every market regime.
\<close>

theorem aggregate_total:
  assumes "model_decision_validate d = Inr d" "uuid_valid i" "unit_interval (compute_quant_score qs)"
    "unit_interval v" "0 \<le> pow15 v"
  shows "\<exists>a. aggregate pow15 i d qs regime v = Inr a \<and> unit_interval (ag_aggregated_score a)
    \<and> ag_decision_id a = md_decision_id d \<and> ag_symbol a = md_symbol d"
proof -
  have f: "unit_interval (md_confidence d)" "uuid_valid (md_decision_id d)"
      "List.member allowed_symbols (md_symbol d)"
    using model_decision_validate_Inr [OF assms(1)]
    by (auto simp: decision_fields_def unit_interval_def split: if_splits)
  have vf: "unit_interval (compute_volatility_factor pow15 v)" by (rule volatility_factor_unit) (rule assms(5))
  have rf: "unit_interval (REGIME_FACTOR regime)"
  proof -
    have "fl (85/100) \<le> 1" by (rule flt.rd_le [OF fl_1]) simp
    then show ?thesis using REGIME_FACTOR_bounds [of regime] by (simp add: unit_interval_def)
  qed
  have sc: "unit_interval (fround 6 (aggregated_score_of (compute_quant_score qs) (md_confidence d)
      (REGIME_FACTOR regime) (compute_volatility_factor pow15 v)))"
    by (rule aggregated_score_of_unit [OF assms(3) f(1) vf])
  show ?thesis
    using assms(2,3) f vf rf sc
    by (auto simp: aggregate_def Let_def make_contributing_sources_def make_aggregation_result_def)
qed

theorem aggregate_total_witness:
  "\<exists>a. aggregate (\<lambda>x. x * x) sample_id sample_decision sample_signals TRENDING (1/2) = Inr a
     \<and> unit_interval (ag_aggregated_score a)"
proof -
  have "uuid_valid sample_id" by code_simp
  moreover have "unit_interval (compute_quant_score sample_signals)"
    by (simp add: compute_quant_score_def sample_signals_def unit_interval_def)
  ultimately show ?thesis
    using aggregate_total [OF sample_decision_valid, of sample_id sample_signals "1/2" "\<lambda>x. x * x" TRENDING]
    by (auto simp: unit_interval_def)
qed

lemma sample_aggregate:
  "\<exists>a. aggregate (\<lambda>x. x * x) sample_id sample_decision sample_signals TRENDING (1/2) = Inr a"
proof -
  have m: "model_decision_validate sample_decision = Inr sample_decision" by (rule sample_decision_valid)
  have f: "unit_interval (md_confidence sample_decision)"
    by (simp add: sample_decision_def unit_interval_def)
  have q: "unit_interval (compute_quant_score sample_signals)"
    by (simp add: compute_quant_score_def sample_signals_def unit_interval_def)
  have v: "unit_interval (compute_volatility_factor (\<lambda>x. x * x) (1/2))" by (rule volatility_factor_unit) simp
  have r: "unit_interval (REGIME_FACTOR TRENDING)"
    using flt.rd_le [OF fl_1, of "85/100"] by (simp add: unit_interval_def flt.rd_nonneg)
  have "uuid_valid sample_id" "uuid_valid (md_decision_id sample_decision)"
      "List.member allowed_symbols (md_symbol sample_decision)" by code_simp+
  then show ?thesis
    using q f v r aggregated_score_of_unit [OF q f v, of TRENDING]
    by (auto simp: aggregate_def Let_def make_contributing_sources_def make_aggregation_result_def)
qed

text \<open>
  C36. The aggregator can only veto. Its final action is the action of the decision or NO_OPERAR, never the
  opposite side, and it keeps a trade only when the confidence, the strength and the combined score reach their
  thresholds, the signals do not conflict and the net direction of the signals does not contradict the side.
\<close>

theorem aggregate_only_vetoes:
  assumes "aggregate pow15 i d qs regime v = Inr a"
  shows "(ag_final_action a = NO_OPERAR \<or> ag_final_action a = md_decision d)
    \<and> (ag_final_action a \<noteq> NO_OPERAR \<longrightarrow>
        MIN_GPT_CONFIDENCE \<le> md_confidence d \<and> MIN_STRENGTH_SCORE \<le> compute_quant_score qs
        \<and> MIN_SCORE_TO_TRADE \<le> aggregated_score_of (compute_quant_score qs) (md_confidence d)
            (REGIME_FACTOR regime) (compute_volatility_factor pow15 v)
        \<and> (\<forall>c. qs_signal_conflict_score qs = Some c \<longrightarrow> c \<le> MAX_CONFLICT_SCORE)
        \<and> (\<forall>n. net_quant_direction qs = Some n \<longrightarrow>
             (if md_decision d = LONG then - DIRECTION_MISMATCH_THRESHOLD \<le> n
              else n \<le> DIRECTION_MISMATCH_THRESHOLD)))"
proof -
  note f = aggregate_InrD(5) [OF assms]
  have side: "md_decision d = LONG \<or> md_decision d = SHORT \<or> md_decision d = NO_OPERAR"
    by (cases "md_decision d") auto
  show ?thesis
    using f side no_contradictionD [of d qs]
    by (auto simp: determine_final_action_def not_less split: if_splits)
qed

theorem aggregate_only_vetoes_witness:
  "\<exists>a. aggregate (\<lambda>x. x * x) sample_id sample_decision sample_signals TRENDING (1/2) = Inr a
     \<and> ag_final_action a \<noteq> SHORT"
proof -
  obtain a where a: "aggregate (\<lambda>x. x * x) sample_id sample_decision sample_signals TRENDING (1/2) = Inr a"
    using sample_aggregate by blast
  have "md_decision sample_decision = LONG" by (simp add: sample_decision_def)
  with aggregate_only_vetoes [OF a] a show ?thesis by force
qed

subsection \<open>Costs\<close>

text \<open>
  The fee estimate is conservative: with rates that the adapter may return, the fees are non-negative and the
  entry fee is never below the exact charge, and the net risk-reward that the gate compares never exceeds the
  gross one.
\<close>

theorem fee_estimate_conservative:
  assumes "estimate_fees side etype notional entry sl tp rates = Inr e" "make_fee_rates mk tk = Inr rates"
  shows "fe_net_risk_reward e \<le> fe_gross_risk_reward e
    \<and> dmul notional (fe_entry_rate e) \<le> fe_entry_fee_usdt e
    \<and> 0 \<le> fe_entry_fee_usdt e \<and> 0 \<le> fe_exit_fee_at_tp_usdt e \<and> 0 \<le> fe_exit_fee_at_sl_usdt e"
proof -
  have "0 \<le> fr_maker rates" "0 \<le> fr_taker rates" using assms(2) by (auto simp: make_fee_rates_Inr)
  then show ?thesis
    using estimate_fees_net_le_gross [OF assms(1)] estimate_fees_fee_bounds [OF assms(1)] by blast
qed

theorem fee_estimate_conservative_witness:
  "\<exists>e. estimate_fees LONG ENTRY_MARKET 200 100 50 300 \<lparr>fr_maker = 1/4, fr_taker = 1/2\<rparr> = Inr e
     \<and> fe_net_risk_reward e \<le> fe_gross_risk_reward e"
proof -
  have "case estimate_fees LONG ENTRY_MARKET 200 100 50 300 \<lparr>fr_maker = 1/4, fr_taker = 1/2\<rparr> of
      Inr e \<Rightarrow> True | Inl _ \<Rightarrow> False" by code_simp
  then obtain e where e: "estimate_fees LONG ENTRY_MARKET 200 100 50 300
      \<lparr>fr_maker = 1/4, fr_taker = 1/2\<rparr> = Inr e"
    by (auto split: sum.splits)
  have "make_fee_rates (1/4) (1/2) = Inr \<lparr>fr_maker = 1/4, fr_taker = 1/2\<rparr>"
    by (simp add: make_fee_rates_Inr)
  from fee_estimate_conservative [OF e this] e show ?thesis by blast
qed

text \<open>
  Simulated slippage never favours the bot: for a price on the 8-decimal grid, a market BUY fills at or
  above it and a market SELL at or below it, rounding included.
\<close>

theorem slippage_never_favourable:
  assumes "0 \<le> k" "is_decimal (of_int k * QUANT)" "0 \<le> sm_market_bps m"
    "slippage_apply m (of_int k * QUANT) ''BUY'' ''MARKET'' = Inr b"
    "slippage_apply m (of_int k * QUANT) ''SELL'' ''MARKET'' = Inr s"
  shows "s \<le> of_int k * QUANT \<and> of_int k * QUANT \<le> b"
  using slippage_apply_buy_ge [OF assms(4,1,2,3)] slippage_apply_sell_le [OF assms(5,1,2,3)] by simp

theorem slippage_never_favourable_witness:
  "\<exists>b s. slippage_apply \<lparr>sm_market_bps = 5000\<rparr> (of_int 100000000 * QUANT) ''BUY'' ''MARKET'' = Inr b
     \<and> slippage_apply \<lparr>sm_market_bps = 5000\<rparr> (of_int 100000000 * QUANT) ''SELL'' ''MARKET'' = Inr s \<and> s \<le> b"
proof -
  have "case slippage_apply \<lparr>sm_market_bps = 5000\<rparr> (of_int 100000000 * QUANT) ''BUY'' ''MARKET'' of
      Inr b \<Rightarrow> True | Inl _ \<Rightarrow> False" by code_simp
  then obtain b where b: "slippage_apply \<lparr>sm_market_bps = 5000\<rparr> (of_int 100000000 * QUANT) ''BUY'' ''MARKET''
      = Inr b" by (auto split: sum.splits)
  have "case slippage_apply \<lparr>sm_market_bps = 5000\<rparr> (of_int 100000000 * QUANT) ''SELL'' ''MARKET'' of
      Inr b \<Rightarrow> True | Inl _ \<Rightarrow> False" by code_simp
  then obtain s where s: "slippage_apply \<lparr>sm_market_bps = 5000\<rparr> (of_int 100000000 * QUANT) ''SELL'' ''MARKET''
      = Inr s" by (auto split: sum.splits)
  have d: "is_decimal (of_int 100000000 * QUANT)" by code_simp
  have "0 \<le> sm_market_bps \<lparr>sm_market_bps = 5000\<rparr>" by simp
  from slippage_never_favourable [OF _ d this b s] b s show ?thesis by force
qed

end
