(* ===== verification/ExitLogic.thy ===== *)
theory ExitLogic
  imports Exchange
begin

text \<open>
  The pure exit logic of \<^verbatim>\<open>backend/position_manager\<close>: \<^verbatim>\<open>schemas.py\<close> (the exit configuration of a position
  and its validator), \<^verbatim>\<open>trailing.py\<close>, \<^verbatim>\<open>break_even.py\<close> and \<^verbatim>\<open>config_mapper.py\<close>, which builds a
  configuration from an approved decision and the defaults.
\<close>

subsection \<open>Schemas\<close>

datatype trigger_reason =
  TRIGGER_NONE | SL_HIT | TP_HIT | TP_PARTIAL | TRAILING_SL_HIT | SETUP_INVALIDATED

record take_profit_level =
  tl_price :: rat
  tl_close_fraction :: rat

definition make_take_profit_level :: "take_profit_level \<Rightarrow> take_profit_level result" where
  "make_take_profit_level l =
     (if 0 < tl_price l \<and> 0 < tl_close_fraction l \<and> tl_close_fraction l \<le> 1 then Inr l
      else Inl ValidationError)"

record invalidation_action =
  ia_new_sl :: "rat option"
  ia_close_fraction :: rat

definition make_invalidation_action :: "invalidation_action \<Rightarrow> invalidation_action result" where
  "make_invalidation_action a =
     (if \<not> (opt_gt_0 (ia_new_sl a) \<and> 0 \<le> ia_close_fraction a \<and> ia_close_fraction a \<le> 1)
        then Inl ValidationError
      else if ia_new_sl a = None \<and> ia_close_fraction a = 0 then Inl ValidationError
      else Inr a)"

record position_config =
  pc_symbol :: symbol
  pc_stop_loss :: "rat option"
  pc_take_profit :: "rat option"
  pc_take_profit_levels :: "take_profit_level list"
  pc_trailing_delta :: "rat option"
  pc_trailing_percent :: "rat option"
  pc_trailing_atr :: "rat option"
  pc_trailing_atr_multiplier :: "rat option"
  pc_trailing_atr_dynamic :: bool
  pc_trailing_atr_smoothing_alpha :: "rat option"
  pc_be_trigger_delta :: "rat option"
  pc_be_sl_offset :: rat
  pc_invalidation_action :: "invalidation_action option"
  pc_invalidation_price :: "rat option"

definition resolved_trailing_mode :: "position_config \<Rightarrow> trailing_mode option" where
  "resolved_trailing_mode c =
     (if pc_trailing_delta c \<noteq> None then Some FIXED
      else if pc_trailing_percent c \<noteq> None then Some PERCENT
      else if pc_trailing_atr c \<noteq> None \<or> pc_trailing_atr_dynamic c then Some ATR
      else None)"

definition opt_in :: "(rat \<Rightarrow> bool) \<Rightarrow> rat option \<Rightarrow> bool" where
  "opt_in P v = (case v of None \<Rightarrow> True | Some x \<Rightarrow> P x)"

definition position_config_fields :: "position_config \<Rightarrow> bool" where
  "position_config_fields c \<longleftrightarrow>
     opt_gt_0 (pc_stop_loss c) \<and> opt_gt_0 (pc_take_profit c)
     \<and> opt_gt_0 (pc_trailing_delta c)
     \<and> opt_in (\<lambda>x. 0 < x \<and> x < 1) (pc_trailing_percent c)
     \<and> opt_gt_0 (pc_trailing_atr c) \<and> opt_gt_0 (pc_trailing_atr_multiplier c)
     \<and> opt_in (\<lambda>x. 0 < x \<and> x \<le> 1) (pc_trailing_atr_smoothing_alpha c)
     \<and> opt_gt_0 (pc_be_trigger_delta c) \<and> 0 \<le> pc_be_sl_offset c
     \<and> opt_gt_0 (pc_invalidation_price c)"

definition validate_config :: "position_config \<Rightarrow> position_config result" where
  "validate_config c =
     (let has_atr_mode = (pc_trailing_atr c \<noteq> None \<or> pc_trailing_atr_dynamic c);
          n_trailing = length (filter (\<lambda>b. b)
            [pc_trailing_delta c \<noteq> None, pc_trailing_percent c \<noteq> None, has_atr_mode]) in
      if pc_take_profit c \<noteq> None \<and> pc_take_profit_levels c \<noteq> [] then Inl ValidationError
      else if 1 < n_trailing then Inl ValidationError
      else if pc_trailing_atr_multiplier c \<noteq> None \<and> \<not> has_atr_mode then Inl ValidationError
      else if pc_trailing_atr_smoothing_alpha c \<noteq> None \<and> \<not> has_atr_mode then Inl ValidationError
      else if \<not> (pc_stop_loss c \<noteq> None \<or> pc_take_profit c \<noteq> None \<or> pc_take_profit_levels c \<noteq> []
                 \<or> 0 < n_trailing) then Inl ValidationError
      else if 0 < pc_be_sl_offset c \<and> pc_be_trigger_delta c = None then Inl ValidationError
      else if pc_be_trigger_delta c \<noteq> None \<and> the (pc_be_trigger_delta c) \<le> pc_be_sl_offset c
        then Inl ValidationError
      else if pc_invalidation_price c \<noteq> None \<and> pc_invalidation_action c = None then Inl ValidationError
      else Inr c)"

text \<open>The constructor; its levels and its action have been constructed before it.\<close>

definition make_position_config :: "position_config \<Rightarrow> position_config result" where
  "make_position_config c = (if \<not> position_config_fields c then Inl ValidationError else validate_config c)"

record tick_result =
  tk_symbol :: symbol
  tk_trigger :: trigger_reason
  tk_mark_price :: rat
  tk_close_order_id :: "string option"
  tk_tp_level_index :: "int option"
  tk_closed_fraction :: "rat option"

record invalidation_event =
  ie_symbol :: symbol
  ie_mark_price :: rat
  ie_old_sl :: "rat option"
  ie_new_sl :: "rat option"
  ie_closed_fraction :: "rat option"
  ie_close_order_id :: "string option"

subsection \<open>Trailing stop\<close>

definition update_high_water :: "order_side \<Rightarrow> rat \<Rightarrow> rat option \<Rightarrow> rat" where
  "update_high_water side mark_price high_water =
     (case high_water of
        None \<Rightarrow> mark_price
      | Some hw \<Rightarrow> if side = BUY then max mark_price hw else min mark_price hw)"

definition trailing_stop_from_delta :: "order_side \<Rightarrow> rat \<Rightarrow> rat \<Rightarrow> rat" where
  "trailing_stop_from_delta side high_water delta =
     (if side = BUY then dsub high_water delta else dadd high_water delta)"

definition resolve_trailing_delta ::
    "trailing_mode \<Rightarrow> rat \<Rightarrow> rat option \<Rightarrow> rat option \<Rightarrow> rat option \<Rightarrow> rat option \<Rightarrow> rat result" where
  "resolve_trailing_delta mode reference_price fixed_delta percent atr_value atr_multiplier =
     (case mode of
        FIXED \<Rightarrow> (case fixed_delta of None \<Rightarrow> Inl ValueError | Some d \<Rightarrow> Inr d)
      | PERCENT \<Rightarrow> (case percent of None \<Rightarrow> Inl ValueError | Some p \<Rightarrow> Inr (dmul reference_price p))
      | ATR \<Rightarrow> (case atr_value of
            None \<Rightarrow> Inl ValueError
          | Some a \<Rightarrow> Inr (dmul a (case atr_multiplier of None \<Rightarrow> 1 | Some m \<Rightarrow> m))))"

definition compute_trailing_stop :: "order_side \<Rightarrow> rat \<Rightarrow> rat \<Rightarrow> rat option \<Rightarrow> rat \<times> rat" where
  "compute_trailing_stop side mark_price trailing_delta high_water =
     (let new_high_water = update_high_water side mark_price high_water
      in (new_high_water, trailing_stop_from_delta side new_high_water trailing_delta))"

definition is_trailing_stop_hit :: "order_side \<Rightarrow> rat \<Rightarrow> rat \<Rightarrow> bool" where
  "is_trailing_stop_hit side mark_price trailing_stop =
     (if side = BUY then mark_price \<le> trailing_stop else trailing_stop \<le> mark_price)"

subsection \<open>Break-even\<close>

definition maybe_move_to_break_even ::
    "order_side \<Rightarrow> rat \<Rightarrow> rat \<Rightarrow> rat \<Rightarrow> rat option \<Rightarrow> rat \<Rightarrow> rat option" where
  "maybe_move_to_break_even side entry_price mark_price be_trigger_delta current_sl be_sl_offset =
     (if side = BUY then
        let trigger_price = dadd entry_price be_trigger_delta in
        if mark_price < trigger_price then None
        else let be_sl = dadd entry_price be_sl_offset in
        if current_sl \<noteq> None \<and> be_sl \<le> the current_sl then None
        else Some be_sl
      else
        let trigger_price = dsub entry_price be_trigger_delta in
        if trigger_price < mark_price then None
        else let be_sl = dsub entry_price be_sl_offset in
        if current_sl \<noteq> None \<and> the current_sl \<le> be_sl then None
        else Some be_sl)"

subsection \<open>Configuration of a new position\<close>

definition BE_SL_OFFSET_MAX_FRACTION_OF_TRIGGER :: rat where
  "BE_SL_OFFSET_MAX_FRACTION_OF_TRIGGER = 1 / 2"

text \<open>The result is the triple \<^verbatim>\<open>trailing_percent\<close>, \<^verbatim>\<open>trailing_atr\<close>, \<^verbatim>\<open>trailing_atr_multiplier\<close>.\<close>

definition trailing_defaults ::
    "bool \<Rightarrow> position_management_config \<Rightarrow> rat option \<Rightarrow> (rat option \<times> rat option \<times> rat option) result" where
  "trailing_defaults use_trailing_stop defaults atr_1h =
     (if use_trailing_stop \<and> pm_trailing_stop_enabled defaults then
        bindE (parse_trailing_mode (pm_trailing_default_mode defaults)) (\<lambda>mode.
        case mode of
          FIXED \<Rightarrow> Inl ValueError
        | PERCENT \<Rightarrow> Inr (Some (dec_of_float (pm_trailing_default_percent defaults)), None, None)
        | ATR \<Rightarrow> (case atr_1h of
              None \<Rightarrow> Inl ValueError
            | Some a \<Rightarrow> Inr (None, Some a, Some (dec_of_float (pm_trailing_default_atr_multiplier defaults)))))
      else Inr (None, None, None))"

text \<open>The result is the pair \<^verbatim>\<open>be_trigger_delta\<close>, \<^verbatim>\<open>be_sl_offset\<close>.\<close>

definition break_even_defaults ::
    "bool \<Rightarrow> position_management_config \<Rightarrow> rat \<Rightarrow> rat option \<Rightarrow> (rat option \<times> rat) result" where
  "break_even_defaults move_to_break_even defaults entry_price atr_1h =
     (if move_to_break_even \<and> pm_break_even_enabled defaults then
        (case atr_1h of
           None \<Rightarrow> Inl ValueError
         | Some a \<Rightarrow>
             let be_trigger_delta = dmul a (dec_of_float (pm_be_trigger_atr_multiplier defaults));
                 fee_buffer = dmul entry_price (dec_of_float (pm_be_sl_offset_percent defaults));
                 max_offset = dmul be_trigger_delta BE_SL_OFFSET_MAX_FRACTION_OF_TRIGGER
             in Inr (Some be_trigger_delta, min fee_buffer max_offset))
      else Inr (None, 0))"

definition build_position_config ::
    "symbol \<Rightarrow> rat \<Rightarrow> rat \<Rightarrow> bool \<Rightarrow> bool \<Rightarrow> position_management_config \<Rightarrow> rat \<Rightarrow> rat option
     \<Rightarrow> position_config result" where
  "build_position_config symb stop_loss take_profit use_trailing_stop move_to_break_even defaults
     entry_price atr_1h =
     bindE (trailing_defaults use_trailing_stop defaults atr_1h) (\<lambda>(percent, atr, multiplier).
     bindE (break_even_defaults move_to_break_even defaults entry_price atr_1h) (\<lambda>(be_delta, be_offset).
     make_position_config
       \<lparr>pc_symbol = symb, pc_stop_loss = Some stop_loss, pc_take_profit = Some take_profit,
        pc_take_profit_levels = [], pc_trailing_delta = None, pc_trailing_percent = percent,
        pc_trailing_atr = atr, pc_trailing_atr_multiplier = multiplier, pc_trailing_atr_dynamic = False,
        pc_trailing_atr_smoothing_alpha = None, pc_be_trigger_delta = be_delta,
        pc_be_sl_offset = be_offset, pc_invalidation_action = None, pc_invalidation_price = None\<rparr>))"

subsection \<open>Lemmas\<close>

lemma update_high_water_ge:
  "side = BUY \<Longrightarrow> mark \<le> update_high_water side mark hw \<and> (\<forall>h. hw = Some h \<longrightarrow> h \<le> update_high_water side mark hw)"
  "side = SELL \<Longrightarrow> update_high_water side mark hw \<le> mark \<and> (\<forall>h. hw = Some h \<longrightarrow> update_high_water side mark hw \<le> h)"
  by (auto simp: update_high_water_def split: option.split)

lemma update_high_water_decimal:
  "is_decimal mark \<Longrightarrow> (\<And>h. hw = Some h \<Longrightarrow> is_decimal h) \<Longrightarrow> is_decimal (update_high_water side mark hw)"
  by (auto simp: update_high_water_def max_def min_def split: option.split)

text \<open>At a fixed distance the trailing stop only moves in the favour of the position.\<close>

lemma trailing_stop_ratchet_BUY:
  "trailing_stop_from_delta BUY h d \<le> trailing_stop_from_delta BUY (update_high_water BUY mark (Some h)) d"
  by (simp add: trailing_stop_from_delta_def dsub_def update_high_water_def dcm.rd_mono)

lemma trailing_stop_ratchet_SELL:
  "trailing_stop_from_delta SELL (update_high_water SELL mark (Some h)) d \<le> trailing_stop_from_delta SELL h d"
  by (simp add: trailing_stop_from_delta_def dadd_def update_high_water_def dcm.rd_mono)

lemma break_even_improves_BUY:
  assumes "maybe_move_to_break_even BUY e m d sl off = Some sl'" "is_decimal e" "0 \<le> off"
  shows "e \<le> sl' \<and> (\<forall>s. sl = Some s \<longrightarrow> s < sl') \<and> dadd e d \<le> m"
  using assms dcm.rd_add_ge [of e off]
  by (auto simp: maybe_move_to_break_even_def Let_def dadd_def not_less not_le split: if_splits)

lemma break_even_improves_SELL:
  assumes "maybe_move_to_break_even SELL e m d sl off = Some sl'" "is_decimal e" "0 \<le> off"
  shows "sl' \<le> e \<and> (\<forall>s. sl = Some s \<longrightarrow> sl' < s) \<and> m \<le> dsub e d"
  using assms dcm.rd_sub_le [of e off]
  by (auto simp: maybe_move_to_break_even_def Let_def dsub_def not_less not_le split: if_splits)

text \<open>A validated configuration keeps the break-even stop at or before the price that triggers it.\<close>

lemma make_position_config_Inr:
  assumes "make_position_config c = Inr c'"
  shows "c' = c" "position_config_fields c"
    "pc_stop_loss c \<noteq> None \<or> pc_take_profit c \<noteq> None \<or> pc_take_profit_levels c \<noteq> []
       \<or> resolved_trailing_mode c \<noteq> None"
    "pc_be_trigger_delta c = Some d \<Longrightarrow> pc_be_sl_offset c < d"
  using assms
  by (auto simp: make_position_config_def validate_config_def Let_def resolved_trailing_mode_def
      split: if_splits)

lemma built_config_fields:
  assumes "build_position_config s sl tp trail be defaults entry atr = Inr c"
  shows "pc_symbol c = s" "pc_stop_loss c = Some sl" "pc_take_profit c = Some tp"
    "pc_take_profit_levels c = []" "position_config_fields c"
    "pc_be_trigger_delta c = Some d \<Longrightarrow> pc_be_sl_offset c < d \<and> atr \<noteq> None"
  using assms
  by (auto simp: build_position_config_def bindE_Inr_iff break_even_defaults_def Let_def
      split: prod.splits if_splits option.splits dest: make_position_config_Inr(1,2) make_position_config_Inr(4))

end
