(* ===== verification/PositionManager.thy ===== *)
theory PositionManager
  imports ExitLogic
begin

text \<open>
  \<^verbatim>\<open>backend/position_manager/manager.py\<close>: the monitor of the open positions. Its dictionaries are the fields
  of \<open>manager\<close> (the time stamps that throttle a log message are left out). The exchange adapter is the
  pair of functions \<open>get_pos\<close> and \<open>place\<close> on an adapter state: what the class calls on its \<^verbatim>\<open>ExchangeAdapter\<close>.
  The identifiers that a tick draws from \<^verbatim>\<open>uuid4\<close> are an argument. A \<^verbatim>\<open>try/finally\<close> that removes the
  configuration removes it in the state returned with the exception. The last component of a result is
  the list of calls of the \<^verbatim>\<open>on_invalidation_event\<close> callback, whose failures the code isolates.
\<close>

record manager =
  mg_configs :: "(symbol, position_config) dict"
  mg_high_water :: "(symbol, rat) dict"
  mg_trailing_stop :: "(symbol, rat) dict"
  mg_effective_sl :: "(symbol, rat option) dict"
  mg_effective_tp :: "(symbol, rat option) dict"
  mg_remaining_tp_levels :: "(symbol, take_profit_level list) dict"
  mg_smoothed_atr :: "(symbol, rat) dict"
  mg_auto_invalidation_fired :: "symbol list"

definition manager_init :: manager where
  "manager_init = \<lparr>mg_configs = [], mg_high_water = [], mg_trailing_stop = [], mg_effective_sl = [],
     mg_effective_tp = [], mg_remaining_tp_levels = [], mg_smoothed_atr = [],
     mg_auto_invalidation_fired = []\<rparr>"

subsection \<open>Configuration\<close>

definition set_config :: "position_config \<Rightarrow> manager \<Rightarrow> manager" where
  "set_config c m =
     (let s = pc_symbol c in
      m\<lparr>mg_configs := dict_set s c (mg_configs m),
        mg_effective_sl := dict_set s (pc_stop_loss c) (mg_effective_sl m),
        mg_effective_tp := dict_set s (pc_take_profit c) (mg_effective_tp m),
        mg_remaining_tp_levels := dict_set s (pc_take_profit_levels c) (mg_remaining_tp_levels m),
        mg_high_water := dict_pop s (mg_high_water m),
        mg_trailing_stop := dict_pop s (mg_trailing_stop m),
        mg_smoothed_atr := dict_pop s (mg_smoothed_atr m),
        mg_auto_invalidation_fired := removeAll s (mg_auto_invalidation_fired m)\<rparr>)"

definition get_config :: "symbol \<Rightarrow> manager \<Rightarrow> position_config option" where
  "get_config s m = dict_get (mg_configs m) s"

definition configured_symbols :: "manager \<Rightarrow> symbol list" where
  "configured_symbols m = dict_keys (mg_configs m)"

definition get_trailing_stop :: "symbol \<Rightarrow> manager \<Rightarrow> rat option" where
  "get_trailing_stop s m = dict_get (mg_trailing_stop m) s"

definition join_opt :: "'b option option \<Rightarrow> 'b option" where
  "join_opt x = (case x of None \<Rightarrow> None | Some y \<Rightarrow> y)"

definition get_effective_sl :: "symbol \<Rightarrow> manager \<Rightarrow> rat option" where
  "get_effective_sl s m = join_opt (dict_get (mg_effective_sl m) s)"

definition get_effective_tp :: "symbol \<Rightarrow> manager \<Rightarrow> rat option" where
  "get_effective_tp s m = join_opt (dict_get (mg_effective_tp m) s)"

definition get_remaining_tp_levels :: "symbol \<Rightarrow> manager \<Rightarrow> take_profit_level list" where
  "get_remaining_tp_levels s m =
     (case dict_get (mg_remaining_tp_levels m) s of None \<Rightarrow> [] | Some ls \<Rightarrow> ls)"

definition remove_config :: "symbol \<Rightarrow> manager \<Rightarrow> manager" where
  "remove_config s m =
     m\<lparr>mg_configs := dict_pop s (mg_configs m),
       mg_high_water := dict_pop s (mg_high_water m),
       mg_trailing_stop := dict_pop s (mg_trailing_stop m),
       mg_smoothed_atr := dict_pop s (mg_smoothed_atr m),
       mg_effective_sl := dict_pop s (mg_effective_sl m),
       mg_effective_tp := dict_pop s (mg_effective_tp m),
       mg_remaining_tp_levels := dict_pop s (mg_remaining_tp_levels m),
       mg_auto_invalidation_fired := removeAll s (mg_auto_invalidation_fired m)\<rparr>"

definition set_effective_sl :: "symbol \<Rightarrow> rat \<Rightarrow> manager \<Rightarrow> manager" where
  "set_effective_sl s v m = m\<lparr>mg_effective_sl := dict_set s (Some v) (mg_effective_sl m)\<rparr>"

definition update_sl :: "symbol \<Rightarrow> rat \<Rightarrow> manager \<Rightarrow> unit result \<times> manager" where
  "update_sl s new_sl m =
     (if get_config s m = None then (Inl KeyError, m) else (Inr (), set_effective_sl s new_sl m))"

definition update_tp :: "symbol \<Rightarrow> rat \<Rightarrow> manager \<Rightarrow> unit result \<times> manager" where
  "update_tp s new_tp m =
     (if get_config s m = None then (Inl KeyError, m)
      else (Inr (), m\<lparr>mg_remaining_tp_levels := dict_set s [] (mg_remaining_tp_levels m),
                      mg_effective_tp := dict_set s (Some new_tp) (mg_effective_tp m)\<rparr>))"

subsection \<open>Closing orders\<close>

type_synonym book = "rat \<times> rat"
type_synonym 'a get_pos = "symbol \<Rightarrow> 'a \<Rightarrow> position_state option result"
type_synonym 'a place = "string \<times> int \<Rightarrow> order_request \<Rightarrow> 'a \<Rightarrow> order_result result \<times> 'a"

text \<open>The client order id of the closing order, and the context of the adapter's call.\<close>

type_synonym tick_ids = "string \<times> (string \<times> int)"

definition usable_book :: "book option \<Rightarrow> book option" where
  "usable_book b =
     (case b of
        None \<Rightarrow> None
      | Some (bid, ask) \<Rightarrow> if bid \<le> 0 \<or> ask \<le> 0 \<or> ask \<le> bid then None else Some (bid, ask))"

definition close_side :: "order_side \<Rightarrow> order_side" where
  "close_side side = (if side = BUY then SELL else BUY)"

definition close_request :: "string \<Rightarrow> symbol \<Rightarrow> rat \<Rightarrow> rat \<Rightarrow> order_side \<Rightarrow> book option \<Rightarrow> order_request" where
  "close_request cid s quantity mark_price side bk =
     \<lparr>rq_client_order_id = cid, rq_symbol = s, rq_side = close_side side, rq_order_type = MARKET,
      rq_quantity = quantity, rq_price = Some mark_price, rq_stop_price = None, rq_is_reduce_only = True,
      rq_bid = map_option fst (usable_book bk), rq_ask = map_option snd (usable_book bk)\<rparr>"

definition place_close_order ::
    "'a place \<Rightarrow> tick_ids \<Rightarrow> symbol \<Rightarrow> rat \<Rightarrow> rat \<Rightarrow> order_side \<Rightarrow> book option \<Rightarrow> 'a \<Rightarrow> string result \<times> 'a" where
  "place_close_order place ids s quantity mark_price side bk a =
     (case make_order_request (close_request (fst ids) s quantity mark_price side bk) of
        Inl e \<Rightarrow> (Inl e, a)
      | Inr r \<Rightarrow>
          (case place (snd ids) r a of
             (Inl e, a') \<Rightarrow> (Inl e, a')
           | (Inr _, a') \<Rightarrow> (Inr (fst ids), a')))"

text \<open>The result of a step: result or exception, manager, adapter, invalidation events.\<close>

type_synonym 'a tick_outcome = "tick_result result \<times> manager \<times> 'a \<times> invalidation_event list"

definition no_trigger :: "symbol \<Rightarrow> rat \<Rightarrow> tick_result" where
  "no_trigger s mark_price =
     \<lparr>tk_symbol = s, tk_trigger = TRIGGER_NONE, tk_mark_price = mark_price, tk_close_order_id = None,
      tk_tp_level_index = None, tk_closed_fraction = None\<rparr>"

text \<open>The four closings of a whole position (stop, single take profit, trailing stop) share this shape.\<close>

definition close_whole ::
    "'a place \<Rightarrow> tick_ids \<Rightarrow> symbol \<Rightarrow> rat \<Rightarrow> book option \<Rightarrow> position_state \<Rightarrow> trigger_reason
     \<Rightarrow> manager \<Rightarrow> 'a \<Rightarrow> 'a tick_outcome" where
  "close_whole place ids s mark_price bk p trigger m a =
     (let (res, a') = place_close_order place ids s (ps_quantity p) mark_price (ps_side p) bk a;
          m' = remove_config s m
      in case res of
           Inl e \<Rightarrow> (Inl e, m', a', [])
         | Inr order_id \<Rightarrow>
             (Inr \<lparr>tk_symbol = s, tk_trigger = trigger, tk_mark_price = mark_price,
                   tk_close_order_id = Some order_id, tk_tp_level_index = None,
                   tk_closed_fraction = None\<rparr>, m', a', []))"

subsection \<open>Setup invalidation\<close>

definition finish_invalidation ::
    "symbol \<Rightarrow> rat \<Rightarrow> invalidation_action \<Rightarrow> rat option \<Rightarrow> string option \<Rightarrow> rat option
     \<Rightarrow> manager \<Rightarrow> 'a \<Rightarrow> 'a tick_outcome" where
  "finish_invalidation s mark_price action old_sl close_order_id closed_fraction m a =
     (let new_sl = (if get_config s m = None then None else ia_new_sl action);
          m' = (case new_sl of None \<Rightarrow> m | Some v \<Rightarrow> set_effective_sl s v m);
          event = \<lparr>ie_symbol = s, ie_mark_price = mark_price, ie_old_sl = old_sl, ie_new_sl = new_sl,
                   ie_closed_fraction = closed_fraction, ie_close_order_id = close_order_id\<rparr>
      in (Inr \<lparr>tk_symbol = s, tk_trigger = SETUP_INVALIDATED, tk_mark_price = mark_price,
               tk_close_order_id = close_order_id, tk_tp_level_index = None,
               tk_closed_fraction = closed_fraction\<rparr>, m', a, [event]))"

definition apply_invalidation_action ::
    "'a place \<Rightarrow> tick_ids \<Rightarrow> symbol \<Rightarrow> rat \<Rightarrow> book option \<Rightarrow> invalidation_action \<Rightarrow> position_state
     \<Rightarrow> manager \<Rightarrow> 'a \<Rightarrow> 'a tick_outcome" where
  "apply_invalidation_action place ids s mark_price bk action p m a =
     (let old_sl = get_effective_sl s m in
      if 0 < ia_close_fraction action then
        let close_qty = dmul (ps_quantity p) (ia_close_fraction action);
            is_full_close = (1 \<le> ia_close_fraction action);
            (res, a') = place_close_order place ids s close_qty mark_price (ps_side p) bk a;
            m' = (if is_full_close then remove_config s m else m)
        in case res of
             Inl e \<Rightarrow> (Inl e, m', a', [])
           | Inr order_id \<Rightarrow>
               finish_invalidation s mark_price action old_sl (Some order_id)
                 (Some (ia_close_fraction action)) m' a'
      else finish_invalidation s mark_price action old_sl None None m a)"

definition trigger_setup_invalidation ::
    "'a get_pos \<Rightarrow> 'a place \<Rightarrow> tick_ids \<Rightarrow> symbol \<Rightarrow> rat \<Rightarrow> book option \<Rightarrow> manager \<Rightarrow> 'a
     \<Rightarrow> tick_result option result \<times> manager \<times> 'a \<times> invalidation_event list" where
  "trigger_setup_invalidation get_pos place ids s mark_price bk m a =
     (case get_config s m of
        None \<Rightarrow> (Inr None, m, a, [])
      | Some c \<Rightarrow>
          (case pc_invalidation_action c of
             None \<Rightarrow> (Inr None, m, a, [])
           | Some action \<Rightarrow>
               (case get_pos s a of
                  Inl e \<Rightarrow> (Inl e, m, a, [])
                | Inr None \<Rightarrow> (Inr None, m, a, [])
                | Inr (Some p) \<Rightarrow>
                    (case apply_invalidation_action place ids s mark_price bk action p m a of
                       (res, out) \<Rightarrow> (bindE res (\<lambda>t. Inr (Some t)), out)))))"

subsection \<open>The tick\<close>

definition crossed_against :: "order_side \<Rightarrow> rat \<Rightarrow> rat \<Rightarrow> bool" where
  "crossed_against side mark_price level \<longleftrightarrow>
     (side = BUY \<and> mark_price \<le> level) \<or> (side = SELL \<and> level \<le> mark_price)"

definition crossed_in_favour :: "order_side \<Rightarrow> rat \<Rightarrow> rat \<Rightarrow> bool" where
  "crossed_in_favour side mark_price level \<longleftrightarrow>
     (side = BUY \<and> level \<le> mark_price) \<or> (side = SELL \<and> mark_price \<le> level)"

definition update_smoothed_atr ::
    "symbol \<Rightarrow> position_config \<Rightarrow> rat option \<Rightarrow> manager \<Rightarrow> rat option \<times> manager" where
  "update_smoothed_atr s c atr m =
     (let prev = (case dict_get (mg_smoothed_atr m) s of None \<Rightarrow> pc_trailing_atr c | Some v \<Rightarrow> Some v) in
      case atr of
        None \<Rightarrow> (prev, m)
      | Some x \<Rightarrow>
          let alpha = (case pc_trailing_atr_smoothing_alpha c of None \<Rightarrow> 1 | Some v \<Rightarrow> v);
              smoothed = (case prev of None \<Rightarrow> x
                          | Some v \<Rightarrow> dadd (dmul alpha x) (dmul (dsub 1 alpha) v))
          in (Some smoothed, m\<lparr>mg_smoothed_atr := dict_set s smoothed (mg_smoothed_atr m)\<rparr>))"

definition tick_atr_value ::
    "symbol \<Rightarrow> position_config \<Rightarrow> trailing_mode \<Rightarrow> rat option \<Rightarrow> manager \<Rightarrow> rat option \<times> manager" where
  "tick_atr_value s c mode atr m =
     (if mode = ATR \<and> pc_trailing_atr_dynamic c
      then update_smoothed_atr s c
             (case atr of Some x \<Rightarrow> if x \<le> 0 then None else Some x | None \<Rightarrow> None) m
      else (pc_trailing_atr c, m))"

text \<open>The trailing section: the trailing stop of this tick, if any, and the state.\<close>

definition tick_trailing ::
    "symbol \<Rightarrow> rat \<Rightarrow> rat option \<Rightarrow> position_config \<Rightarrow> order_side \<Rightarrow> manager \<Rightarrow> rat option result \<times> manager" where
  "tick_trailing s mark_price atr c side m =
     (case resolved_trailing_mode c of
        None \<Rightarrow> (Inr None, m)
      | Some mode \<Rightarrow>
          let hw = update_high_water side mark_price (dict_get (mg_high_water m) s);
              (atr_value, m) = tick_atr_value s c mode atr m;
              m = m\<lparr>mg_high_water := dict_set s hw (mg_high_water m)\<rparr>
          in if atr_value = None \<and> mode = ATR then (Inr None, m)
             else case resolve_trailing_delta mode hw (pc_trailing_delta c) (pc_trailing_percent c)
                         atr_value (pc_trailing_atr_multiplier c) of
                    Inl e \<Rightarrow> (Inl e, m)
                  | Inr delta \<Rightarrow>
                      let stop = trailing_stop_from_delta side hw delta
                      in (Inr (Some stop), m\<lparr>mg_trailing_stop := dict_set s stop (mg_trailing_stop m)\<rparr>))"

definition tick_break_even :: "symbol \<Rightarrow> rat \<Rightarrow> position_config \<Rightarrow> position_state \<Rightarrow> manager \<Rightarrow> manager" where
  "tick_break_even s mark_price c p m =
     (case pc_be_trigger_delta c of
        None \<Rightarrow> m
      | Some delta \<Rightarrow>
          (case maybe_move_to_break_even (ps_side p) (ps_entry_price p) mark_price delta
                  (get_effective_sl s m) (pc_be_sl_offset c) of
             None \<Rightarrow> m
           | Some new_sl \<Rightarrow> set_effective_sl s new_sl m))"

definition invalidation_due :: "symbol \<Rightarrow> rat \<Rightarrow> position_config \<Rightarrow> order_side \<Rightarrow> manager \<Rightarrow> bool" where
  "invalidation_due s mark_price c side m \<longleftrightarrow>
     pc_invalidation_action c \<noteq> None \<and> \<not> List.member (mg_auto_invalidation_fired m) s
     \<and> (case pc_invalidation_price c of None \<Rightarrow> False | Some v \<Rightarrow> crossed_against side mark_price v)"

definition tick_invalidation ::
    "'a place \<Rightarrow> tick_ids \<Rightarrow> symbol \<Rightarrow> rat \<Rightarrow> book option \<Rightarrow> position_config \<Rightarrow> position_state
     \<Rightarrow> manager \<Rightarrow> 'a \<Rightarrow> 'a tick_outcome" where
  "tick_invalidation place ids s mark_price bk c p m a =
     (case apply_invalidation_action place ids s mark_price bk (the (pc_invalidation_action c)) p m a of
        (Inl e, out) \<Rightarrow> (Inl e, out)
      | (Inr t, m', a', evs) \<Rightarrow>
          (Inr t,
           (if get_config s m' = None then m'
            else m'\<lparr>mg_auto_invalidation_fired := List.insert s (mg_auto_invalidation_fired m')\<rparr>),
           a', evs))"

text \<open>One level of a multi-level take profit has been reached.\<close>

definition tick_tp_level ::
    "'a place \<Rightarrow> tick_ids \<Rightarrow> symbol \<Rightarrow> rat \<Rightarrow> book option \<Rightarrow> position_config \<Rightarrow> position_state
     \<Rightarrow> take_profit_level list \<Rightarrow> manager \<Rightarrow> 'a \<Rightarrow> 'a tick_outcome" where
  "tick_tp_level place ids s mark_price bk c p levels m a =
     (let next_level = hd levels;
          tp_idx = int (length (pc_take_profit_levels c)) - int (length levels);
          close_qty = dmul (ps_quantity p) (tl_close_fraction next_level);
          is_last_level = (length levels = 1);
          (res, a') = place_close_order place ids s close_qty mark_price (ps_side p) bk a;
          m' = (if is_last_level then remove_config s m else m)
      in case res of
           Inl e \<Rightarrow> (Inl e, m', a', [])
         | Inr order_id \<Rightarrow>
             (Inr \<lparr>tk_symbol = s, tk_trigger = (if is_last_level then TP_HIT else TP_PARTIAL),
                   tk_mark_price = mark_price, tk_close_order_id = Some order_id,
                   tk_tp_level_index = Some tp_idx, tk_closed_fraction = Some (tl_close_fraction next_level)\<rparr>,
              (if is_last_level then m'
               else m'\<lparr>mg_remaining_tp_levels := dict_set s (tl levels) (mg_remaining_tp_levels m')\<rparr>),
              a', []))"

text \<open>The take-profit section: an outcome if it fires.\<close>

definition tick_take_profit ::
    "'a place \<Rightarrow> tick_ids \<Rightarrow> symbol \<Rightarrow> rat \<Rightarrow> book option \<Rightarrow> position_config \<Rightarrow> position_state
     \<Rightarrow> manager \<Rightarrow> 'a \<Rightarrow> 'a tick_outcome option" where
  "tick_take_profit place ids s mark_price bk c p m a =
     (let levels = get_remaining_tp_levels s m in
      if levels \<noteq> [] then
        if crossed_in_favour (ps_side p) mark_price (tl_price (hd levels))
        then Some (tick_tp_level place ids s mark_price bk c p levels m a) else None
      else case get_effective_tp s m of
             None \<Rightarrow> None
           | Some tp \<Rightarrow>
               if crossed_in_favour (ps_side p) mark_price tp
               then Some (close_whole place ids s mark_price bk p TP_HIT m a) else None)"

text \<open>The four triggers in their order of priority.\<close>

definition tick_triggers ::
    "'a place \<Rightarrow> tick_ids \<Rightarrow> symbol \<Rightarrow> rat \<Rightarrow> book option \<Rightarrow> position_config \<Rightarrow> position_state
     \<Rightarrow> rat option \<Rightarrow> manager \<Rightarrow> 'a \<Rightarrow> 'a tick_outcome" where
  "tick_triggers place ids s mark_price bk c p trailing_stop_price m a =
     (let side = ps_side p in
      if (case get_effective_sl s m of None \<Rightarrow> False | Some sl \<Rightarrow> crossed_against side mark_price sl)
      then close_whole place ids s mark_price bk p SL_HIT m a
      else if invalidation_due s mark_price c side m
      then tick_invalidation place ids s mark_price bk c p m a
      else case tick_take_profit place ids s mark_price bk c p m a of
             Some out \<Rightarrow> out
           | None \<Rightarrow>
               if (case trailing_stop_price of None \<Rightarrow> False
                   | Some t \<Rightarrow> is_trailing_stop_hit side mark_price t)
               then close_whole place ids s mark_price bk p TRAILING_SL_HIT m a
               else (Inr (no_trigger s mark_price), m, a, []))"

definition tick ::
    "'a get_pos \<Rightarrow> 'a place \<Rightarrow> tick_ids \<Rightarrow> symbol \<Rightarrow> rat \<Rightarrow> rat option \<Rightarrow> book option \<Rightarrow> manager \<Rightarrow> 'a
     \<Rightarrow> 'a tick_outcome" where
  "tick get_pos place ids s mark_price atr bk m a =
     (case get_pos s a of
        Inl e \<Rightarrow> (Inl e, m, a, [])
      | Inr None \<Rightarrow>
          (Inr (no_trigger s mark_price), (if get_config s m = None then m else remove_config s m), a, [])
      | Inr (Some p) \<Rightarrow>
          (case get_config s m of
             None \<Rightarrow> (Inr (no_trigger s mark_price), m, a, [])
           | Some c \<Rightarrow>
               (case tick_trailing s mark_price atr c (ps_side p) m of
                  (Inl e, m) \<Rightarrow> (Inl e, m, a, [])
                | (Inr trailing_stop_price, m) \<Rightarrow>
                    tick_triggers place ids s mark_price bk c p trailing_stop_price
                      (tick_break_even s mark_price c p m) a)))"

end
