(* ===== verification/PositionManagerFacts.thy ===== *)
theory PositionManagerFacts
  imports PositionManager
begin

text \<open>
  The correctness of the position manager: its dictionaries stay consistent under every operation, a
  stop crossed by the price is served before any other trigger, break-even only tightens the stop, the
  levels of a multi-level take profit are served once and in order, and, for every adapter that keeps
  the contract of \<open>exchange_adapter\<close>, a closing trigger leaves no position and no configuration.
\<close>

subsection \<open>Consistency of the dictionaries\<close>

definition symbol_ok :: "manager \<Rightarrow> symbol \<Rightarrow> bool" where
  "symbol_ok m s \<longleftrightarrow>
     (case get_config s m of
        None \<Rightarrow>
          dict_get (mg_effective_sl m) s = None \<and> dict_get (mg_effective_tp m) s = None
          \<and> dict_get (mg_remaining_tp_levels m) s = None \<and> dict_get (mg_high_water m) s = None
          \<and> dict_get (mg_trailing_stop m) s = None \<and> dict_get (mg_smoothed_atr m) s = None
          \<and> s \<notin> set (mg_auto_invalidation_fired m)
      | Some c \<Rightarrow>
          pc_symbol c = s \<and> dict_get (mg_effective_sl m) s \<noteq> None \<and> dict_get (mg_effective_tp m) s \<noteq> None
          \<and> (\<exists>k. dict_get (mg_remaining_tp_levels m) s = Some (drop k (pc_take_profit_levels c))))"

definition manager_ok :: "manager \<Rightarrow> bool" where
  "manager_ok m \<longleftrightarrow> (\<forall>s. symbol_ok m s)"

lemma manager_ok_init: "manager_ok manager_init"
  by (simp add: manager_ok_def symbol_ok_def manager_init_def get_config_def)

text \<open>The state that the manager keeps for one symbol is the same in two managers.\<close>

definition same_symbol :: "symbol \<Rightarrow> manager \<Rightarrow> manager \<Rightarrow> bool" where
  "same_symbol t m m' \<longleftrightarrow>
     dict_get (mg_configs m') t = dict_get (mg_configs m) t
     \<and> dict_get (mg_effective_sl m') t = dict_get (mg_effective_sl m) t
     \<and> dict_get (mg_effective_tp m') t = dict_get (mg_effective_tp m) t
     \<and> dict_get (mg_remaining_tp_levels m') t = dict_get (mg_remaining_tp_levels m) t
     \<and> dict_get (mg_high_water m') t = dict_get (mg_high_water m) t
     \<and> dict_get (mg_trailing_stop m') t = dict_get (mg_trailing_stop m) t
     \<and> dict_get (mg_smoothed_atr m') t = dict_get (mg_smoothed_atr m) t
     \<and> (t \<in> set (mg_auto_invalidation_fired m') \<longleftrightarrow> t \<in> set (mg_auto_invalidation_fired m))"

lemma same_symbol_refl [simp]: "same_symbol t m m"
  by (simp add: same_symbol_def)

lemma same_symbol_trans: "same_symbol t m m' \<Longrightarrow> same_symbol t m' m'' \<Longrightarrow> same_symbol t m m''"
  by (simp add: same_symbol_def)

lemma same_symbol_ok: "same_symbol t m m' \<Longrightarrow> symbol_ok m t \<Longrightarrow> symbol_ok m' t"
  unfolding same_symbol_def symbol_ok_def get_config_def by (cases "dict_get (mg_configs m) t") simp_all

lemma manager_ok_update:
  "manager_ok m \<Longrightarrow> (\<And>t. t \<noteq> s \<Longrightarrow> same_symbol t m m') \<Longrightarrow> symbol_ok m' s \<Longrightarrow> manager_ok m'"
  unfolding manager_ok_def by (metis same_symbol_ok)

lemma manager_okD: "manager_ok m \<Longrightarrow> symbol_ok m s"
  by (simp add: manager_ok_def)

lemma symbol_ok_SomeD:
  assumes "symbol_ok m s" "get_config s m = Some c"
  obtains sl tp k where "pc_symbol c = s" "dict_get (mg_effective_sl m) s = Some sl"
    "dict_get (mg_effective_tp m) s = Some tp"
    "dict_get (mg_remaining_tp_levels m) s = Some (drop k (pc_take_profit_levels c))"
  using assms by (auto simp: symbol_ok_def)

lemma symbol_ok_SomeI:
  "get_config s m = Some c \<Longrightarrow> pc_symbol c = s \<Longrightarrow> dict_get (mg_effective_sl m) s \<noteq> None \<Longrightarrow>
   dict_get (mg_effective_tp m) s \<noteq> None \<Longrightarrow>
   dict_get (mg_remaining_tp_levels m) s = Some (drop k (pc_take_profit_levels c)) \<Longrightarrow> symbol_ok m s"
  by (auto simp: symbol_ok_def)

lemma get_config_set_config [simp]:
  "get_config t (set_config c m) = (if t = pc_symbol c then Some c else get_config t m)"
  by (simp add: get_config_def set_config_def Let_def)

lemma get_config_remove [simp]: "get_config t (remove_config s m) = (if t = s then None else get_config t m)"
  by (simp add: get_config_def remove_config_def)

lemma get_config_set_sl [simp]: "get_config t (set_effective_sl s v m) = get_config t m"
  by (simp add: get_config_def set_effective_sl_def)

lemma set_config_same: "t \<noteq> pc_symbol c \<Longrightarrow> same_symbol t m (set_config c m)"
  by (simp add: same_symbol_def set_config_def Let_def)

lemma remove_config_same: "t \<noteq> s \<Longrightarrow> same_symbol t m (remove_config s m)"
  by (simp add: same_symbol_def remove_config_def)

lemma set_effective_sl_same: "t \<noteq> s \<Longrightarrow> same_symbol t m (set_effective_sl s v m)"
  by (simp add: same_symbol_def set_effective_sl_def)

lemma set_config_ok: "manager_ok m \<Longrightarrow> manager_ok (set_config c m)"
  by (rule manager_ok_update [where s = "pc_symbol c"])
    (auto simp: set_config_same,
     auto simp: set_config_def Let_def get_config_def intro!: symbol_ok_SomeI [where c = c and k = 0])

lemma remove_config_ok: "manager_ok m \<Longrightarrow> manager_ok (remove_config s m)"
  by (rule manager_ok_update [where s = s])
    (auto simp: remove_config_same, auto simp: symbol_ok_def remove_config_def get_config_def)

lemma set_effective_sl_ok:
  assumes "manager_ok m" "get_config s m \<noteq> None"
  shows "manager_ok (set_effective_sl s v m)"
proof (rule manager_ok_update [OF assms(1), where s = s])
  obtain c where c: "get_config s m = Some c" using assms(2) by auto
  show "symbol_ok (set_effective_sl s v m) s"
    by (rule symbol_ok_SomeD [OF manager_okD [OF assms(1)] c])
      (use c in \<open>auto simp: set_effective_sl_def get_config_def intro!: symbol_ok_SomeI [where c = c]\<close>)
qed (rule set_effective_sl_same)

lemma update_sl_ok: "manager_ok m \<Longrightarrow> update_sl s v m = (res, m') \<Longrightarrow> manager_ok m'"
  by (auto simp: update_sl_def split: if_splits intro: set_effective_sl_ok)

lemma update_tp_ok:
  assumes "manager_ok m" "update_tp s v m = (res, m')"
  shows "manager_ok m'"
proof (cases "get_config s m")
  case None
  with assms show ?thesis by (simp add: update_tp_def)
next
  case (Some c)
  with assms(2) have m': "m' = m\<lparr>mg_remaining_tp_levels := dict_set s [] (mg_remaining_tp_levels m),
      mg_effective_tp := dict_set s (Some v) (mg_effective_tp m)\<rparr>" by (simp add: update_tp_def)
  show ?thesis
  proof (rule manager_ok_update [OF assms(1), where s = s])
    show "symbol_ok m' s"
      by (rule symbol_ok_SomeD [OF manager_okD [OF assms(1)] Some])
        (use Some in \<open>auto simp: m' get_config_def
          intro!: symbol_ok_SomeI [where c = c and k = "length (pc_take_profit_levels c)"]\<close>)
  qed (simp add: same_symbol_def m')
qed

lemma tick_atr_value_fields:
  assumes "tick_atr_value s c mode atr m = (v, m')"
  shows "mg_configs m' = mg_configs m" "mg_effective_sl m' = mg_effective_sl m" "mg_effective_tp m' = mg_effective_tp m"
    "mg_remaining_tp_levels m' = mg_remaining_tp_levels m"
    "mg_auto_invalidation_fired m' = mg_auto_invalidation_fired m" "t \<noteq> s \<Longrightarrow> same_symbol t m m'"
  using assms
  by (auto simp: tick_atr_value_def update_smoothed_atr_def same_symbol_def Let_def split: option.splits if_splits)

lemma tick_trailing_form:
  assumes "tick_trailing s mk atr c side m = (res, m')"
  obtains "m' = m"
  | mode v m0 hw where "tick_atr_value s c mode atr m = (v, m0)" "m' = m0\<lparr>mg_high_water := dict_set s hw (mg_high_water m0)\<rparr>"
  | mode v m0 hw stop where "tick_atr_value s c mode atr m = (v, m0)"
      "m' = m0\<lparr>mg_high_water := dict_set s hw (mg_high_water m0), mg_trailing_stop := dict_set s stop (mg_trailing_stop m0)\<rparr>"
proof (cases "resolved_trailing_mode c")
  case None
  with assms show ?thesis by (intro that(1)) (simp add: tick_trailing_def)
next
  case (Some mode)
  obtain v m0 where "tick_atr_value s c mode atr m = (v, m0)" by (cases "tick_atr_value s c mode atr m")
  with assms Some that(2,3) show ?thesis
    by (auto simp: tick_trailing_def Let_def split: if_splits sum.splits)
qed

text \<open>The trailing section only writes the high-water mark, the trailing stop and the smoothed ATR.\<close>

lemma tick_trailing_fields:
  assumes "tick_trailing s mk atr c side m = (res, m')"
  shows "mg_configs m' = mg_configs m" "mg_effective_sl m' = mg_effective_sl m"
    "mg_effective_tp m' = mg_effective_tp m" "mg_remaining_tp_levels m' = mg_remaining_tp_levels m"
    "mg_auto_invalidation_fired m' = mg_auto_invalidation_fired m"
    "t \<noteq> s \<Longrightarrow> same_symbol t m m'"
  by (rule tick_trailing_form [OF assms]; use tick_atr_value_fields in \<open>simp add: same_symbol_def\<close>)+

lemma tick_trailing_ok:
  assumes "manager_ok m" "get_config s m = Some c" "tick_trailing s mk atr c side m = (res, m')"
  shows "manager_ok m'" "get_config t m' = get_config t m"
proof -
  note f = tick_trailing_fields [OF assms(3)]
  show "get_config t m' = get_config t m" by (simp add: get_config_def f)
  show "manager_ok m'"
    by (rule manager_ok_update [OF assms(1), where s = s], erule f(6),
        rule symbol_ok_SomeD [OF manager_okD [OF assms(1)] assms(2)])
      (use assms(2) in \<open>auto simp: f get_config_def intro!: symbol_ok_SomeI\<close>)
qed

lemma tick_break_even_ok:
  "manager_ok m \<Longrightarrow> get_config s m \<noteq> None \<Longrightarrow> manager_ok (tick_break_even s mk c p m)"
  by (auto simp: tick_break_even_def split: option.splits intro: set_effective_sl_ok)

lemma tick_break_even_config [simp]: "get_config t (tick_break_even s mk c p m) = get_config t m"
  by (simp add: tick_break_even_def split: option.split)

lemma close_whole_state:
  "close_whole place ids s mk bk p tr m a = (res, m', a', evs) \<Longrightarrow> m' = remove_config s m"
  by (auto simp: close_whole_def Let_def split: prod.splits sum.splits)

lemma finish_invalidation_ok:
  "manager_ok m \<Longrightarrow> finish_invalidation s mk act old oid cf m a = (res, m', a', evs) \<Longrightarrow> manager_ok m'"
  by (auto simp: finish_invalidation_def Let_def split: if_splits option.splits intro: set_effective_sl_ok)

lemma apply_invalidation_ok:
  "manager_ok m \<Longrightarrow> apply_invalidation_action place ids s mk bk act p m a = (res, m', a', evs) \<Longrightarrow> manager_ok m'"
  by (auto simp: apply_invalidation_action_def Let_def split: if_splits prod.splits sum.splits
      intro: finish_invalidation_ok remove_config_ok)

lemma fired_ok:
  assumes "manager_ok m" "get_config s m \<noteq> None"
  shows "manager_ok (m\<lparr>mg_auto_invalidation_fired := List.insert s (mg_auto_invalidation_fired m)\<rparr>)"
proof (rule manager_ok_update [OF assms(1), where s = s])
  obtain c where c: "get_config s m = Some c" using assms(2) by auto
  show "symbol_ok (m\<lparr>mg_auto_invalidation_fired := List.insert s (mg_auto_invalidation_fired m)\<rparr>) s"
    by (rule symbol_ok_SomeD [OF manager_okD [OF assms(1)] c])
      (use c in \<open>auto simp: get_config_def intro!: symbol_ok_SomeI [where c = c]\<close>)
qed (simp add: same_symbol_def)

lemma tick_invalidation_ok:
  assumes "manager_ok m" "tick_invalidation place ids s mk bk c p m a = (res, m', a', evs)"
  shows "manager_ok m'"
  using assms
  by (auto simp: tick_invalidation_def split: prod.splits sum.splits if_splits
      intro: fired_ok dest: apply_invalidation_ok)

lemma tick_tp_level_ok:
  assumes "manager_ok m" "get_config s m = Some c" "get_remaining_tp_levels s m \<noteq> []"
    and "tick_tp_level place ids s mk bk c p (get_remaining_tp_levels s m) m a = (res, m', a', evs)"
  shows "manager_ok m'"
proof -
  obtain sl tp k where k: "pc_symbol c = s" "dict_get (mg_effective_sl m) s = Some sl"
    "dict_get (mg_effective_tp m) s = Some tp"
    "dict_get (mg_remaining_tp_levels m) s = Some (drop k (pc_take_profit_levels c))"
    using symbol_ok_SomeD [OF manager_okD [OF assms(1)] assms(2)] by metis
  let ?m = "m\<lparr>mg_remaining_tp_levels := dict_set s (tl (get_remaining_tp_levels s m)) (mg_remaining_tp_levels m)\<rparr>"
  have "manager_ok ?m"
  proof (rule manager_ok_update [OF assms(1), where s = s])
    show "symbol_ok ?m s"
      by (rule symbol_ok_SomeI [where c = c and k = "Suc k"])
        (use assms(2) k in \<open>simp_all add: get_config_def get_remaining_tp_levels_def drop_Suc [symmetric] tl_drop\<close>)
  qed (simp add: same_symbol_def)
  then show ?thesis
    using assms by (auto simp: tick_tp_level_def Let_def split: prod.splits sum.splits if_splits
        intro: remove_config_ok)
qed

lemma tick_take_profit_ok:
  assumes "manager_ok m" "get_config s m = Some c"
    "tick_take_profit place ids s mk bk c p m a = Some (res, m', a', evs)"
  shows "manager_ok m'"
  using assms remove_config_ok [of m s]
  by (auto simp: tick_take_profit_def Let_def split: if_splits option.splits
      dest: close_whole_state intro: tick_tp_level_ok)

lemma tick_triggers_ok:
  assumes "manager_ok m" "get_config s m = Some c"
    "tick_triggers place ids s mk bk c p ts m a = (res, m', a', evs)"
  shows "manager_ok m'"
  using assms remove_config_ok [of m s]
  by (auto simp: tick_triggers_def Let_def split: if_splits option.splits
      intro: tick_invalidation_ok tick_take_profit_ok dest!: close_whole_state)

lemma tick_ok:
  assumes "manager_ok m" "tick get_pos place ids s mk atr bk m a = (res, m', a', evs)"
  shows "manager_ok m'"
  using assms
proof (cases "get_pos s a")
  case (Inr po)
  show ?thesis
  proof (cases po)
    case None
    with Inr assms show ?thesis by (auto simp: tick_def intro: remove_config_ok split: if_splits)
  next
    case p: (Some p)
    show ?thesis
    proof (cases "get_config s m")
      case None
      with Inr p assms show ?thesis by (simp add: tick_def)
    next
      case (Some c)
      obtain tr m1 where t: "tick_trailing s mk atr c (ps_side p) m = (tr, m1)" by fastforce
      note m1 = tick_trailing_ok [OF assms(1) Some t]
      show ?thesis
      proof (cases tr)
        case (Inl e)
        with Inr p Some t assms m1(1) show ?thesis by (simp add: tick_def)
      next
        case tr: (Inr ts)
        have c1: "get_config s (tick_break_even s mk c p m1) = Some c" using m1(2) Some by simp
        have "manager_ok (tick_break_even s mk c p m1)"
          by (rule tick_break_even_ok) (use m1 Some in auto)
        from tick_triggers_ok [OF this c1] show ?thesis
          using Inr p Some t tr assms by (simp add: tick_def)
      qed
    qed
  qed
qed (simp add: tick_def)

lemma trigger_setup_invalidation_ok:
  assumes "manager_ok m" "trigger_setup_invalidation get_pos place ids s mk bk m a = (res, m', a', evs)"
  shows "manager_ok m'"
  using assms
  by (auto simp: trigger_setup_invalidation_def split: option.splits sum.splits prod.splits
      dest: apply_invalidation_ok)

end
