(* ===== verification/PositionTriggers.thy ===== *)
theory PositionTriggers
  imports PositionManagerFacts
begin

text \<open>
  What a tick of the position manager does: the stop before everything else, break-even that only
  tightens, take-profit levels served in order, an effect confined to its symbol; and, for an adapter
  that keeps the contract \<open>exchange_adapter\<close>, closing triggers that leave nothing behind.
\<close>

subsection \<open>The sections of the tick\<close>

lemma resolved_mode_parameter:
  "resolved_trailing_mode c = Some FIXED \<Longrightarrow> \<exists>d. pc_trailing_delta c = Some d"
  "resolved_trailing_mode c = Some PERCENT \<Longrightarrow> \<exists>d. pc_trailing_percent c = Some d"
  by (auto simp: resolved_trailing_mode_def split: if_splits)

lemma resolve_trailing_delta_total:
  assumes "resolved_trailing_mode c = Some mode" "\<not> (v = None \<and> mode = ATR)"
  shows "\<exists>d. resolve_trailing_delta mode hw (pc_trailing_delta c) (pc_trailing_percent c) v mult = Inr d"
  using assms resolved_mode_parameter [of c]
  by (cases mode) (auto simp: resolve_trailing_delta_def)

lemma tick_trailing_total:
  obtains ts m' where "tick_trailing s mk atr c side m = (Inr ts, m')"
proof (cases "resolved_trailing_mode c")
  case None
  then show thesis by (intro that [of None m]) (simp add: tick_trailing_def)
next
  case (Some mode)
  obtain v m1 where x: "tick_atr_value s c mode atr m = (v, m1)" by fastforce
  let ?hw = "update_high_water side mk (dict_get (mg_high_water m) s)"
  show thesis
  proof (cases "v = None \<and> mode = ATR")
    case True
    then have "tick_trailing s mk atr c side m
        = (Inr None, m1\<lparr>mg_high_water := dict_set s ?hw (mg_high_water m1)\<rparr>)"
      using Some x by (simp add: tick_trailing_def Let_def)
    then show thesis by (rule that)
  next
    case False
    obtain d where d: "resolve_trailing_delta mode ?hw
        (pc_trailing_delta c) (pc_trailing_percent c) v (pc_trailing_atr_multiplier c) = Inr d"
      using resolve_trailing_delta_total [OF Some False] by blast
    have "fst (tick_trailing s mk atr c side m) = Inr (Some (trailing_stop_from_delta side ?hw d))"
      using False Some x d by (auto simp: tick_trailing_def Let_def)
    then show thesis by (metis that prod.collapse)
  qed
qed

lemma get_effective_sl_set [simp]:
  "get_effective_sl t (set_effective_sl s v m) = (if t = s then Some v else get_effective_sl t m)"
  by (simp add: get_effective_sl_def set_effective_sl_def join_opt_def)

definition at_least_as_tight :: "order_side \<Rightarrow> rat \<Rightarrow> rat \<Rightarrow> bool" where
  "at_least_as_tight side sl sl' \<longleftrightarrow> (if side = BUY then sl \<le> sl' else sl' \<le> sl)"

lemma break_even_tightens:
  assumes "get_effective_sl s m = Some sl"
  obtains sl' where "get_effective_sl s (tick_break_even s mk c p m) = Some sl'"
    "at_least_as_tight (ps_side p) sl sl'"
proof (cases "get_effective_sl s (tick_break_even s mk c p m)")
  case None
  with assms show thesis by (simp add: tick_break_even_def split: option.splits)
next
  case (Some x)
  then have "at_least_as_tight (ps_side p) sl x"
    using assms
    by (auto simp: tick_break_even_def maybe_move_to_break_even_def at_least_as_tight_def Let_def
        split: option.splits if_splits)
  with Some show thesis by (rule that)
qed

lemma crossed_tighter:
  "crossed_against side mk sl \<Longrightarrow> at_least_as_tight side sl sl' \<Longrightarrow> crossed_against side mk sl'"
  by (cases side) (auto simp: crossed_against_def at_least_as_tight_def)

text \<open>The tick of a configured symbol with an open position, with its sections unfolded.\<close>

lemma tick_openE:
  assumes "get_pos s a = Inr (Some p)" "get_config s m = Some c"
  obtains ts m1 where "tick_trailing s mk atr c (ps_side p) m = (Inr ts, m1)"
    "tick get_pos place ids s mk atr bk m a =
       tick_triggers place ids s mk bk c p ts (tick_break_even s mk c p m1) a"
proof -
  obtain ts m1 where t: "tick_trailing s mk atr c (ps_side p) m = (Inr ts, m1)"
    by (rule tick_trailing_total)
  with assms show thesis by (intro that [OF t]) (simp add: tick_def)
qed

lemma tick_trailing_sl:
  "tick_trailing s mk atr c side m = (res, m') \<Longrightarrow> get_effective_sl t m' = get_effective_sl t m"
  by (simp add: get_effective_sl_def tick_trailing_fields)

lemma tick_stop_crossed:
  assumes "get_pos s a = Inr (Some p)" "get_config s m = Some c"
    and sl: "get_effective_sl s m = Some sl" "crossed_against (ps_side p) mk sl"
  obtains m1 where "tick get_pos place ids s mk atr bk m a = close_whole place ids s mk bk p SL_HIT m1 a"
proof (rule tick_openE [where get_pos = get_pos and s = s and a = a and m = m, OF assms(1,2)])
  fix ts m1
  assume t: "tick_trailing s mk atr c (ps_side p) m = (Inr ts, m1)"
    and tick: "tick get_pos place ids s mk atr bk m a =
       tick_triggers place ids s mk bk c p ts (tick_break_even s mk c p m1) a"
  have "get_effective_sl s m1 = Some sl" using sl(1) tick_trailing_sl [OF t] by simp
  then obtain sl' where "get_effective_sl s (tick_break_even s mk c p m1) = Some sl'"
      "at_least_as_tight (ps_side p) sl sl'"
    by (rule break_even_tightens)
  with sl(2) have "tick_triggers place ids s mk bk c p ts (tick_break_even s mk c p m1) a
      = close_whole place ids s mk bk p SL_HIT (tick_break_even s mk c p m1) a"
    by (simp add: tick_triggers_def Let_def crossed_tighter)
  with tick show thesis by (intro that) simp
qed

subsection \<open>Effect on the other symbols\<close>

lemma finish_invalidation_same:
  "finish_invalidation s mk act old oid cf m a = (res, m', a', evs) \<Longrightarrow> t \<noteq> s \<Longrightarrow> same_symbol t m m' \<and> a' = a"
  by (auto simp: finish_invalidation_def Let_def set_effective_sl_same split: if_splits option.splits)

lemma apply_invalidation_same:
  "apply_invalidation_action place ids s mk bk act p m a = (res, m', a', evs) \<Longrightarrow> t \<noteq> s \<Longrightarrow> same_symbol t m m'"
  by (auto simp: apply_invalidation_action_def Let_def split: if_splits prod.splits sum.splits
      dest!: finish_invalidation_same intro: same_symbol_trans remove_config_same)

lemma tick_invalidation_same:
  assumes "tick_invalidation place ids s mk bk c p m a = (res, m', a', evs)" "t \<noteq> s"
  shows "same_symbol t m m'"
proof -
  obtain res1 m1 a1 evs1 where
    e: "apply_invalidation_action place ids s mk bk (the (pc_invalidation_action c)) p m a = (res1, m1, a1, evs1)"
    by (metis prod_cases4)
  have 1: "same_symbol t m m1" by (rule apply_invalidation_same [OF e assms(2)])
  have 2: "same_symbol t m1 m'" using assms e
    by (auto simp: tick_invalidation_def same_symbol_def split: sum.splits if_splits)
  from 1 2 show ?thesis by (rule same_symbol_trans)
qed

lemma tick_take_profit_same:
  "tick_take_profit place ids s mk bk c p m a = Some (res, m', a', evs) \<Longrightarrow> t \<noteq> s \<Longrightarrow> same_symbol t m m'"
  by (auto simp: tick_take_profit_def tick_tp_level_def Let_def remove_config_same
      split: if_splits option.splits prod.splits sum.splits dest!: close_whole_state)
    (simp_all add: same_symbol_def)

lemma tick_triggers_same:
  "tick_triggers place ids s mk bk c p ts m a = (res, m', a', evs) \<Longrightarrow> t \<noteq> s \<Longrightarrow> same_symbol t m m'"
  by (auto simp: tick_triggers_def Let_def remove_config_same split: if_splits option.splits
      dest!: close_whole_state intro: tick_invalidation_same tick_take_profit_same)

lemma tick_break_even_same: "t \<noteq> s \<Longrightarrow> same_symbol t m (tick_break_even s mk c p m)"
  by (simp add: tick_break_even_def set_effective_sl_same split: option.split)

lemma tick_same:
  assumes "tick get_pos place ids s mk atr bk m a = (res, m', a', evs)" "t \<noteq> s"
  shows "same_symbol t m m'"
proof (cases "\<exists>p c. get_pos s a = Inr (Some p) \<and> get_config s m = Some c")
  case True
  then obtain p c where pc: "get_pos s a = Inr (Some p)" "get_config s m = Some c" by blast
  show ?thesis
  proof (rule tick_openE [where get_pos = get_pos and s = s and a = a and m = m, OF pc])
    fix ts m1
    assume t: "tick_trailing s mk atr c (ps_side p) m = (Inr ts, m1)"
      and "tick get_pos place ids s mk atr bk m a =
         tick_triggers place ids s mk bk c p ts (tick_break_even s mk c p m1) a"
    then have "same_symbol t (tick_break_even s mk c p m1) m'"
      using assms tick_triggers_same by metis
    then show ?thesis
      using tick_trailing_fields(6) [OF t assms(2)] tick_break_even_same [OF assms(2)] same_symbol_trans
      by metis
  qed
next
  case False
  with assms show ?thesis
    by (auto simp: tick_def remove_config_same split: sum.splits option.splits if_splits)
qed

subsection \<open>Results\<close>

lemma close_whole_result:
  "close_whole place ids s mk bk p tr m a = (Inr t, m', a', evs) \<Longrightarrow>
     tk_symbol t = s \<and> tk_trigger t = tr \<and> tk_tp_level_index t = None \<and> tk_close_order_id t = Some (fst ids)"
  by (auto simp: close_whole_def place_close_order_def Let_def split: prod.splits sum.splits)

lemma invalidation_result:
  "tick_invalidation place ids s mk bk c p m a = (Inr t, m', a', evs) \<Longrightarrow>
     tk_symbol t = s \<and> tk_trigger t = SETUP_INVALIDATED \<and> tk_tp_level_index t = None"
  by (auto simp: tick_invalidation_def apply_invalidation_action_def finish_invalidation_def Let_def
      split: prod.splits sum.splits if_splits)

lemma tp_level_result:
  "tick_tp_level place ids s mk bk c p levels m a = (Inr t, m', a', evs) \<Longrightarrow>
     tk_symbol t = s \<and> tk_trigger t = (if length levels = 1 then TP_HIT else TP_PARTIAL)
     \<and> tk_tp_level_index t = Some (int (length (pc_take_profit_levels c)) - int (length levels))
     \<and> tk_closed_fraction t = Some (tl_close_fraction (hd levels))"
  by (auto simp: tick_tp_level_def Let_def split: prod.splits sum.splits)

text \<open>The ways in which the triggers return a result.\<close>

lemma tick_triggers_outcomes:
  "tick_triggers place ids s mk bk c p ts m a = close_whole place ids s mk bk p SL_HIT m a
   \<or> tick_triggers place ids s mk bk c p ts m a = tick_invalidation place ids s mk bk c p m a
   \<or> (\<exists>out. tick_take_profit place ids s mk bk c p m a = Some out
        \<and> tick_triggers place ids s mk bk c p ts m a = out)
   \<or> tick_triggers place ids s mk bk c p ts m a = close_whole place ids s mk bk p TRAILING_SL_HIT m a
   \<or> tick_triggers place ids s mk bk c p ts m a = (Inr (no_trigger s mk), m, a, [])"
  by (cases "tick_take_profit place ids s mk bk c p m a") (auto simp: tick_triggers_def Let_def)

lemma tick_triggers_cases:
  assumes "tick_triggers place ids s mk bk c p ts m a = (Inr t, m', a', evs)"
  obtains (close) tr where "close_whole place ids s mk bk p tr m a = (Inr t, m', a', evs)"
      "tr = SL_HIT \<or> tr = TP_HIT \<or> tr = TRAILING_SL_HIT"
  | (invalidated) "tick_invalidation place ids s mk bk c p m a = (Inr t, m', a', evs)"
  | (level) "tick_tp_level place ids s mk bk c p (get_remaining_tp_levels s m) m a = (Inr t, m', a', evs)"
      "get_remaining_tp_levels s m \<noteq> []"
  | (none) "t = no_trigger s mk" "m' = m" "a' = a" "evs = []"
proof -
  consider "tick_triggers place ids s mk bk c p ts m a = close_whole place ids s mk bk p SL_HIT m a"
    | "tick_triggers place ids s mk bk c p ts m a = tick_invalidation place ids s mk bk c p m a"
    | out where "tick_take_profit place ids s mk bk c p m a = Some out"
        "tick_triggers place ids s mk bk c p ts m a = out"
    | "tick_triggers place ids s mk bk c p ts m a = close_whole place ids s mk bk p TRAILING_SL_HIT m a"
    | "tick_triggers place ids s mk bk c p ts m a = (Inr (no_trigger s mk), m, a, [])"
    using tick_triggers_outcomes [of place ids s mk bk c p ts m a] by blast
  then show thesis
  proof cases
    case (3 out)
    show thesis
    proof (cases "get_remaining_tp_levels s m = []")
      case True
      then have "out = close_whole place ids s mk bk p TP_HIT m a"
        using 3(1) by (auto simp: tick_take_profit_def split: option.splits if_splits)
      then show thesis using 3(2) assms close [of TP_HIT] by simp
    next
      case False
      then have "out = tick_tp_level place ids s mk bk c p (get_remaining_tp_levels s m) m a"
        using 3(1) by (auto simp: tick_take_profit_def Let_def split: if_splits)
      then show thesis using 3(2) assms level False by simp
    qed
  qed (use assms close [of SL_HIT] close [of TRAILING_SL_HIT] invalidated none in simp_all)
qed

lemma tick_triggers_symbol:
  assumes "tick_triggers place ids s mk bk c p ts m a = (Inr t, m', a', evs)"
  shows "tk_symbol t = s"
  using assms
proof (cases rule: tick_triggers_cases)
  case (close tr)
  then show ?thesis by (auto dest: close_whole_result)
next
  case invalidated
  then show ?thesis by (auto dest: invalidation_result)
next
  case level
  then show ?thesis by (auto dest: tp_level_result)
qed (simp add: no_trigger_def)

text \<open>A configuration that a successful tick removes was removed by a trigger or for want of a position.\<close>

lemma tick_removed:
  assumes "tick get_pos place ids s mk atr bk m a = (Inr t, m', a', evs)"
    and "get_config s m = Some c" "get_config s m' = None"
  shows "tk_symbol t = s" "tk_trigger t \<noteq> TRIGGER_NONE \<or> get_pos s a = Inr None"
proof -
  have "tk_symbol t = s \<and> (tk_trigger t \<noteq> TRIGGER_NONE \<or> get_pos s a = Inr None)"
  proof (cases "get_pos s a")
    case (Inl e)
    with assms show ?thesis by (simp add: tick_def)
  next
    case (Inr po)
    show ?thesis
    proof (cases po)
      case None
      with Inr assms show ?thesis by (auto simp: tick_def no_trigger_def)
    next
      case (Some p)
      with Inr have p: "get_pos s a = Inr (Some p)" by simp
      show ?thesis
      proof (rule tick_openE [where get_pos = get_pos and s = s and a = a and m = m, OF p assms(2)])
        fix ts m1
        assume t: "tick_trailing s mk atr c (ps_side p) m = (Inr ts, m1)"
          and "tick get_pos place ids s mk atr bk m a =
             tick_triggers place ids s mk bk c p ts (tick_break_even s mk c p m1) a"
        with assms(1) have tt: "tick_triggers place ids s mk bk c p ts (tick_break_even s mk c p m1) a
            = (Inr t, m', a', evs)" by simp
        have c1: "get_config s (tick_break_even s mk c p m1) = Some c"
          using assms(2) tick_trailing_fields(1) [OF t] by (simp add: get_config_def [of _ m1] get_config_def [of _ m])
        from tt show ?thesis
        proof (cases rule: tick_triggers_cases)
          case (close tr)
          then show ?thesis by (auto dest: close_whole_result)
        next
          case invalidated
          then show ?thesis by (auto dest: invalidation_result)
        next
          case level
          then show ?thesis by (auto dest!: tp_level_result split: if_splits)
        next
          case none
          with c1 assms(3) show ?thesis by simp
        qed
      qed
    qed
  qed
  then show "tk_symbol t = s" "tk_trigger t \<noteq> TRIGGER_NONE \<or> get_pos s a = Inr None" by simp_all
qed

subsection \<open>Levels of a multi-level take profit\<close>

lemma tick_level_index:
  assumes "manager_ok m" "tick get_pos place ids s mk atr bk m a = (Inr t, m', a', evs)"
    and "tk_tp_level_index t = Some i"
  obtains c k where "get_config s m = Some c" "i = int k" "k < length (pc_take_profit_levels c)"
    "get_remaining_tp_levels s m = drop k (pc_take_profit_levels c)"
    "tk_closed_fraction t = Some (tl_close_fraction (pc_take_profit_levels c ! k))"
proof -
  have "\<exists>p c. get_pos s a = Inr (Some p) \<and> get_config s m = Some c"
    using assms(2,3) by (auto simp: tick_def no_trigger_def split: sum.splits option.splits if_splits)
  then obtain p c where p: "get_pos s a = Inr (Some p)" and c: "get_config s m = Some c" by blast
  obtain k where k: "dict_get (mg_remaining_tp_levels m) s = Some (drop k (pc_take_profit_levels c))"
    using symbol_ok_SomeD [OF manager_okD [OF assms(1)] c] by metis
  show thesis
  proof (rule tick_openE [where get_pos = get_pos and s = s and a = a and m = m, OF p c])
    fix ts m1
    assume t: "tick_trailing s mk atr c (ps_side p) m = (Inr ts, m1)"
      and "tick get_pos place ids s mk atr bk m a =
         tick_triggers place ids s mk bk c p ts (tick_break_even s mk c p m1) a"
    with assms(2) have tt: "tick_triggers place ids s mk bk c p ts (tick_break_even s mk c p m1) a
        = (Inr t, m', a', evs)" by simp
    let ?m = "tick_break_even s mk c p m1"
    have lv: "get_remaining_tp_levels s ?m = drop k (pc_take_profit_levels c)"
      using k by (simp add: get_remaining_tp_levels_def tick_break_even_def set_effective_sl_def
          tick_trailing_fields [OF t] split: option.split)
    from tt show thesis
    proof (cases rule: tick_triggers_cases)
      case level
      let ?L = "pc_take_profit_levels c"
      have kl: "k < length ?L" using level(2) lv by simp
      have "i = int (length ?L) - int (length (drop k ?L))"
        "tk_closed_fraction t = Some (tl_close_fraction (hd (drop k ?L)))"
        using tp_level_result [OF level(1)] assms(3) lv by auto
      with kl k show thesis
        by (intro that [OF c, of k]) (auto simp: hd_drop_conv_nth get_remaining_tp_levels_def)
    qed (use assms(3) in \<open>auto dest!: close_whole_result invalidation_result simp: no_trigger_def\<close>)
  qed
qed

subsection \<open>On an adapter that keeps the contract\<close>

text \<open>The view that the monitor has of an adapter that keeps the contract.\<close>

locale monitored_exchange = exchange_adapter adapter_ok get_pos place status
  for adapter_ok :: "'a \<Rightarrow> bool"
    and get_pos :: "symbol \<Rightarrow> 'a \<Rightarrow> position_state option result"
    and place :: "string \<times> int \<Rightarrow> order_request \<Rightarrow> 'a \<Rightarrow> order_result result \<times> 'a"
    and status :: "string \<Rightarrow> 'a \<Rightarrow> order_result option"
begin

lemma close_order_leaves_none:
  assumes "place_close_order place ids s (ps_quantity p) mk side bk a = (Inr oid, a')"
    and "get_pos s a = Inr (Some p)" "status (fst ids) a = None"
  shows "get_pos s a' = Inr None"
proof -
  from assms(1) obtain out where "place (snd ids) (close_request (fst ids) s (ps_quantity p) mk side bk) a = (Inr out, a')"
    by (auto simp: place_close_order_def make_order_request_Inr split: sum.splits prod.splits)
  from place_closes [OF this] show ?thesis
    using assms(2,3) by (simp add: close_request_def)
qed

lemma close_whole_leaves_none:
  assumes "close_whole place ids s mk bk p tr m a = (Inr t, m', a', evs)"
    and "get_pos s a = Inr (Some p)" "status (fst ids) a = None"
  shows "get_pos s a' = Inr None" "get_config s m' = None"
  using assms
  by (auto simp: close_whole_def Let_def intro: close_order_leaves_none split: prod.splits sum.splits)

text \<open>A stop, a single take profit and a trailing stop close the position and end its monitoring.\<close>

lemma closing_trigger:
  assumes "tick get_pos place ids s mk atr bk m a = (Inr t, m', a', evs)"
    and "tk_trigger t = SL_HIT \<or> tk_trigger t = TRAILING_SL_HIT
         \<or> tk_trigger t = TP_HIT \<and> tk_tp_level_index t = None"
    and "status (fst ids) a = None"
  shows "get_pos s a' = Inr None" "get_config s m' = None"
proof -
  have "\<exists>p c. get_pos s a = Inr (Some p) \<and> get_config s m = Some c"
    using assms(1,2) by (auto simp: tick_def no_trigger_def split: sum.splits option.splits if_splits)
  then obtain p c where p: "get_pos s a = Inr (Some p)" and c: "get_config s m = Some c" by blast
  have "get_pos s a' = Inr None \<and> get_config s m' = None"
  proof (rule tick_openE [where get_pos = get_pos and s = s and a = a and m = m, OF p c])
    fix ts m1
    assume "tick get_pos place ids s mk atr bk m a =
         tick_triggers place ids s mk bk c p ts (tick_break_even s mk c p m1) a"
    with assms(1) have "tick_triggers place ids s mk bk c p ts (tick_break_even s mk c p m1) a
        = (Inr t, m', a', evs)" by simp
    then show ?thesis
    proof (cases rule: tick_triggers_cases)
      case (close tr)
      show ?thesis using close_whole_leaves_none [OF close(1) p assms(3)] by blast
    qed (use assms(2) in \<open>auto dest!: invalidation_result tp_level_result simp: no_trigger_def split: if_splits\<close>)
  qed
  then show "get_pos s a' = Inr None" "get_config s m' = None" by simp_all
qed

lemma close_order_ok:
  "place_close_order place ids s q mk side bk a = (res, a') \<Longrightarrow> adapter_ok a \<Longrightarrow> adapter_ok a'"
  by (auto simp: place_close_order_def split: sum.splits prod.splits intro: place_ok)

lemma close_order_frame:
  "place_close_order place ids s q mk side bk a = (res, a') \<Longrightarrow> t \<noteq> s \<Longrightarrow> get_pos t a' = get_pos t a"
  by (auto simp: place_close_order_def close_request_def make_order_request_Inr split: sum.splits prod.splits
      dest: place_frame)

definition adapter_step :: "symbol \<Rightarrow> 'a \<Rightarrow> 'a \<Rightarrow> bool" where
  "adapter_step s a a' \<longleftrightarrow> (adapter_ok a \<longrightarrow> adapter_ok a') \<and> (\<forall>t. t \<noteq> s \<longrightarrow> get_pos t a' = get_pos t a)"

lemma close_order_step: "place_close_order place ids s q mk side bk a = (res, a') \<Longrightarrow> adapter_step s a a'"
  by (simp add: adapter_step_def close_order_ok close_order_frame)

lemma adapter_step_refl [simp]: "adapter_step s a a"
  by (simp add: adapter_step_def)

lemma tick_triggers_step:
  assumes "tick_triggers place ids s mk bk c p ts m a = (res, m', a', evs)"
  shows "adapter_step s a a'"
  using assms
  by (auto simp: tick_triggers_def close_whole_def tick_invalidation_def apply_invalidation_action_def
      finish_invalidation_def tick_take_profit_def tick_tp_level_def Let_def
      split: if_splits option.splits prod.splits sum.splits dest: close_order_step)

lemma tick_step:
  assumes "tick get_pos place ids s mk atr bk m a = (res, m', a', evs)"
  shows "adapter_step s a a'"
proof (cases "\<exists>p c. get_pos s a = Inr (Some p) \<and> get_config s m = Some c")
  case True
  then obtain p c where pc: "get_pos s a = Inr (Some p)" "get_config s m = Some c" by blast
  show ?thesis
  proof (rule tick_openE [where get_pos = get_pos and s = s and a = a and m = m, OF pc])
    fix ts m1
    assume "tick get_pos place ids s mk atr bk m a =
         tick_triggers place ids s mk bk c p ts (tick_break_even s mk c p m1) a"
    with assms show ?thesis by (intro tick_triggers_step) simp
  qed
next
  case False
  with assms show ?thesis by (auto simp: tick_def split: sum.splits option.splits if_splits)
qed

end

end
