(* ===== verification/PaperAdapter.thy ===== *)
theory PaperAdapter
  imports Costs
begin

text \<open>
  \<^verbatim>\<open>backend/exchange_adapters/paper_adapter.py\<close>: the simulated exchange, with its five dictionaries and its
  balance as one record. A stateful operation returns its result or exception together with the state it
  leaves behind: what was written before an exception stays written. The context of a call holds the
  fresh \<^verbatim>\<open>uuid4\<close> of the order and the current time.
\<close>

record paper =
  pa_balance_usdt :: rat
  pa_fee :: fee_model
  pa_slip :: slippage_model
  pa_orders :: "(string, order_result) dict"
  pa_positions :: "(symbol, position_state) dict"
  pa_leverage :: "(symbol, int) dict"
  pa_funding_paid :: "(symbol, rat) dict"

definition paper_init :: "rat \<Rightarrow> fee_model option \<Rightarrow> slippage_model option \<Rightarrow> paper" where
  "paper_init initial_balance fee slip =
     \<lparr>pa_balance_usdt = initial_balance,
      pa_fee = (case fee of None \<Rightarrow> fee_model_default | Some f \<Rightarrow> f),
      pa_slip = (case slip of None \<Rightarrow> slippage_model_default | Some m \<Rightarrow> m),
      pa_orders = [], pa_positions = [], pa_leverage = [], pa_funding_paid = []\<rparr>"

type_synonym call_context = "string \<times> int"

definition MAX_LEVERAGE_PAPER :: int where
  "MAX_LEVERAGE_PAPER = 10"

fun order_type_to_model_type :: "order_type \<Rightarrow> string" where
  "order_type_to_model_type MARKET = ''MARKET''"
| "order_type_to_model_type LIMIT = ''LIMIT''"
| "order_type_to_model_type STOP_MARKET = ''STOP''"
| "order_type_to_model_type TAKE_PROFIT_MARKET = ''STOP''"

subsection \<open>Fills\<close>

definition cross_spread :: "rat \<Rightarrow> order_request \<Rightarrow> rat result" where
  "cross_spread fill_price r =
     (case (rq_bid r, rq_ask r) of
        (Some bid, Some ask) \<Rightarrow>
          bindE (half_spread bid ask) (\<lambda>spread.
          quantize8 (if rq_side r = BUY then dadd fill_price spread else dsub fill_price spread))
      | _ \<Rightarrow> Inr fill_price)"

text \<open>The part of \<^verbatim>\<open>_fill_market_order\<close> that computes: fill price, fee and slippage.\<close>

definition quote_market_order :: "paper \<Rightarrow> order_request \<Rightarrow> (rat \<times> rat \<times> rat) result" where
  "quote_market_order a r =
     (case rq_price r of
        None \<Rightarrow> Inl ValueError
      | Some price \<Rightarrow>
          if price \<le> 0 then Inl ValueError
          else let model_order_type = order_type_to_model_type (rq_order_type r) in
          bindE (slippage_apply (pa_slip a) price (side_value (rq_side r)) model_order_type) (\<lambda>p.
          bindE (cross_spread p r) (\<lambda>fill_price.
          bindE (quantize8 (dmul fill_price (rq_quantity r))) (\<lambda>notional.
          bindE (fee_calculate (pa_fee a) notional model_order_type) (\<lambda>fee_usdt.
          bindE (quantize8 (dmul \<bar>dsub fill_price price\<bar> (rq_quantity r))) (\<lambda>slippage_usdt.
          Inr (fill_price, fee_usdt, slippage_usdt)))))))"

definition leverage_of :: "paper \<Rightarrow> symbol \<Rightarrow> int \<Rightarrow> int" where
  "leverage_of a s dflt = (case dict_get (pa_leverage a) s of None \<Rightarrow> dflt | Some l \<Rightarrow> l)"

definition simulated_position :: "symbol \<Rightarrow> order_side \<Rightarrow> rat \<Rightarrow> rat \<Rightarrow> rat \<Rightarrow> int \<Rightarrow> position_state" where
  "simulated_position s side quantity entry margin lev =
     \<lparr>ps_symbol = s, ps_side = side, ps_quantity = quantity, ps_entry_price = entry,
      ps_mark_price = None, ps_unrealized_pnl = 0, ps_margin_usdt = margin, ps_leverage = lev,
      ps_stop_loss = None, ps_take_profit = None, ps_is_simulated = True\<rparr>"

definition set_position :: "symbol \<Rightarrow> position_state \<Rightarrow> paper \<Rightarrow> unit result \<times> paper" where
  "set_position s p a =
     (case make_position_state p of
        Inl e \<Rightarrow> (Inl e, a)
      | Inr p \<Rightarrow> (Inr (), a\<lparr>pa_positions := dict_set s p (pa_positions a)\<rparr>))"

definition open_or_net_position :: "order_request \<Rightarrow> rat \<Rightarrow> paper \<Rightarrow> unit result \<times> paper" where
  "open_or_net_position r fill_price a =
     (let lev = leverage_of a (rq_symbol r) 1;
          new_notional = dmul fill_price (rq_quantity r);
          new_margin = ddiv new_notional (of_int lev);
          s = rq_symbol r in
      case dict_get (pa_positions a) s of
        None \<Rightarrow> set_position s (simulated_position s (rq_side r) (rq_quantity r) fill_price new_margin lev) a
      | Some existing \<Rightarrow>
          if ps_side existing \<noteq> rq_side r then
            set_position s (simulated_position s (rq_side r) (rq_quantity r) fill_price new_margin lev) a
          else
            let total_quantity = dadd (ps_quantity existing) (rq_quantity r);
                weighted_entry =
                  ddiv (dadd (dmul (ps_entry_price existing) (ps_quantity existing))
                             (dmul fill_price (rq_quantity r))) total_quantity;
                total_margin = dadd (ps_margin_usdt existing) new_margin
            in set_position s
                 (simulated_position s (ps_side existing) total_quantity weighted_entry total_margin lev) a)"

definition close_or_reduce_position :: "symbol \<Rightarrow> rat \<Rightarrow> rat \<Rightarrow> paper \<Rightarrow> unit result \<times> paper" where
  "close_or_reduce_position s quantity fill_price a =
     (case dict_get (pa_positions a) s of
        None \<Rightarrow> (Inr (), a)
      | Some existing \<Rightarrow>
          let pnl_per_unit = (if ps_side existing = BUY then dsub fill_price (ps_entry_price existing)
                              else dsub (ps_entry_price existing) fill_price);
              closed_qty = min quantity (ps_quantity existing);
              realized_pnl = dmul pnl_per_unit closed_qty;
              a = a\<lparr>pa_balance_usdt := dadd (pa_balance_usdt a) realized_pnl\<rparr> in
          if ps_quantity existing \<le> closed_qty then
            (Inr (), a\<lparr>pa_positions := dict_pop s (pa_positions a)\<rparr>)
          else
            let remaining_qty = dsub (ps_quantity existing) closed_qty;
                lev = leverage_of a s (ps_leverage existing);
                remaining_margin = ddiv (dmul (ps_entry_price existing) remaining_qty) (of_int lev)
            in set_position s
                 (simulated_position s (ps_side existing) remaining_qty (ps_entry_price existing)
                    remaining_margin (ps_leverage existing)) a)"

definition simulated_order_result ::
    "call_context \<Rightarrow> order_request \<Rightarrow> order_status \<Rightarrow> rat \<Rightarrow> rat option \<Rightarrow> rat \<Rightarrow> rat option \<Rightarrow> order_result" where
  "simulated_order_result ctx r status filled fill_price fee slippage =
     \<lparr>or_order_id = fst ctx, or_client_order_id = rq_client_order_id r, or_symbol = rq_symbol r,
      or_side = rq_side r, or_order_type = rq_order_type r, or_status = status,
      or_quantity_requested = rq_quantity r, or_quantity_filled = filled, or_fill_price = fill_price,
      or_fee_usdt = fee, or_slippage_usdt = slippage, or_is_simulated = True,
      or_timestamp_utc = snd ctx\<rparr>"

definition fill_market_order :: "call_context \<Rightarrow> order_request \<Rightarrow> paper \<Rightarrow> order_result result \<times> paper" where
  "fill_market_order ctx r a =
     (case quote_market_order a r of
        Inl e \<Rightarrow> (Inl e, a)
      | Inr (fill_price, fee_usdt, slippage_usdt) \<Rightarrow>
          let a = a\<lparr>pa_balance_usdt := dsub (pa_balance_usdt a) fee_usdt\<rparr>;
              (res, a) = (if rq_is_reduce_only r
                          then close_or_reduce_position (rq_symbol r) (rq_quantity r) fill_price a
                          else open_or_net_position r fill_price a)
          in (bindE res (\<lambda>_. make_order_result
                (simulated_order_result ctx r FILLED (rq_quantity r) (Some fill_price) fee_usdt
                   (Some slippage_usdt))), a))"

definition register_pending_order :: "call_context \<Rightarrow> order_request \<Rightarrow> order_result result" where
  "register_pending_order ctx r = make_order_result (simulated_order_result ctx r PENDING 0 None 0 None)"

subsection \<open>The adapter protocol\<close>

definition place_order :: "call_context \<Rightarrow> order_request \<Rightarrow> paper \<Rightarrow> order_result result \<times> paper" where
  "place_order ctx r a =
     (case dict_get (pa_orders a) (rq_client_order_id r) of
        Some known \<Rightarrow> (Inr known, a)
      | None \<Rightarrow>
          let (res, a) = (if rq_order_type r = MARKET then fill_market_order ctx r a
                          else (register_pending_order ctx r, a))
          in case res of
               Inl e \<Rightarrow> (Inl e, a)
             | Inr result \<Rightarrow>
                 (Inr result, a\<lparr>pa_orders := dict_set (rq_client_order_id r) result (pa_orders a)\<rparr>))"

definition cancel_order :: "int \<Rightarrow> string \<Rightarrow> paper \<Rightarrow> bool \<times> paper" where
  "cancel_order now cid a =
     (case dict_get (pa_orders a) cid of
        None \<Rightarrow> (False, a)
      | Some result \<Rightarrow>
          if or_status result \<noteq> PENDING then (False, a)
          else let cancelled = result\<lparr>or_status := CANCELLED, or_quantity_filled := 0, or_fill_price := None,
                     or_fee_usdt := 0, or_slippage_usdt := None, or_is_simulated := True,
                     or_timestamp_utc := now\<rparr>
               in (True, a\<lparr>pa_orders := dict_set cid cancelled (pa_orders a)\<rparr>))"

definition get_order_status :: "string \<Rightarrow> paper \<Rightarrow> order_result option" where
  "get_order_status cid a = dict_get (pa_orders a) cid"

definition get_position :: "symbol \<Rightarrow> paper \<Rightarrow> position_state option" where
  "get_position s a = dict_get (pa_positions a) s"

definition get_open_orders :: "symbol \<Rightarrow> paper \<Rightarrow> order_result list" where
  "get_open_orders s a =
     filter (\<lambda>o'. or_symbol o' = s \<and> or_status o' = PENDING) (dict_values (pa_orders a))"

definition get_account_state :: "paper \<Rightarrow> account_state result" where
  "get_account_state a =
     (let used_margin = dsum (map ps_margin_usdt (dict_values (pa_positions a)));
          unrealized_pnl = dsum (map ps_unrealized_pnl (dict_values (pa_positions a)));
          equity = dadd (pa_balance_usdt a) unrealized_pnl;
          available = max 0 (dsub equity used_margin)
      in make_account_state
           \<lparr>ac_balance_usdt = pa_balance_usdt a, ac_equity_usdt = equity,
            ac_available_margin_usdt = available, ac_used_margin_usdt = used_margin,
            ac_is_simulated = True\<rparr>)"

definition set_leverage :: "symbol \<Rightarrow> int \<Rightarrow> paper \<Rightarrow> unit result \<times> paper" where
  "set_leverage s lev a =
     (if lev < 1 \<or> MAX_LEVERAGE_PAPER < lev then (Inl ValueError, a)
      else (Inr (), a\<lparr>pa_leverage := dict_set s lev (pa_leverage a)\<rparr>))"

definition set_margin_type :: "symbol \<Rightarrow> margin_type \<Rightarrow> paper \<Rightarrow> unit result \<times> paper" where
  "set_margin_type s mt a = (if mt = CROSS then (Inl ValueError, a) else (Inr (), a))"

definition get_fee_rates :: "symbol \<Rightarrow> paper \<Rightarrow> fee_rates result" where
  "get_fee_rates s a = fee_model_rates (pa_fee a)"

definition apply_funding :: "symbol \<Rightarrow> rat \<Rightarrow> rat \<Rightarrow> paper \<Rightarrow> rat \<times> paper" where
  "apply_funding s funding_rate mark_price a =
     (case dict_get (pa_positions a) s of
        None \<Rightarrow> (0, a)
      | Some p \<Rightarrow>
          let payment = compute_funding_payment (ps_side p) (ps_quantity p) mark_price funding_rate;
              paid = (case dict_get (pa_funding_paid a) s of None \<Rightarrow> 0 | Some x \<Rightarrow> x)
          in (payment, a\<lparr>pa_balance_usdt := dsub (pa_balance_usdt a) payment,
                         pa_funding_paid := dict_set s (dadd paid payment) (pa_funding_paid a)\<rparr>))"

definition get_funding_paid :: "symbol \<Rightarrow> paper \<Rightarrow> rat" where
  "get_funding_paid s a = (case dict_get (pa_funding_paid a) s of None \<Rightarrow> 0 | Some x \<Rightarrow> x)"

subsection \<open>The invariant\<close>

definition paper_position_ok :: "symbol \<Rightarrow> position_state \<Rightarrow> bool" where
  "paper_position_ok s p \<longleftrightarrow>
     ps_symbol p = s \<and> 0 < ps_quantity p \<and> 0 < ps_entry_price p \<and> 0 < ps_margin_usdt p
     \<and> 1 \<le> ps_leverage p \<and> ps_unrealized_pnl p = 0"

definition paper_ok :: "paper \<Rightarrow> bool" where
  "paper_ok a \<longleftrightarrow>
     is_decimal (pa_balance_usdt a)
     \<and> distinct (dict_keys (pa_positions a))
     \<and> (\<forall>(s, p) \<in> set (pa_positions a). paper_position_ok s p)
     \<and> (\<forall>(c, r) \<in> set (pa_orders a). or_client_order_id r = c)
     \<and> (\<forall>(s, l) \<in> set (pa_leverage a). 1 \<le> l \<and> l \<le> MAX_LEVERAGE_PAPER)"

lemma paper_ok_init: "is_decimal b \<Longrightarrow> paper_ok (paper_init b f m)"
  by (simp add: paper_ok_def paper_init_def)

lemma paper_ok_position: "paper_ok a \<Longrightarrow> get_position s a = Some p \<Longrightarrow> paper_position_ok s p"
  by (auto simp: paper_ok_def get_position_def dest!: map_of_SomeD)

lemma set_position_ok:
  assumes "paper_ok a" "set_position s (simulated_position s side q e m l) a = (res, a')"
  shows "paper_ok a'"
proof (cases res)
  case (Inl x)
  with assms show ?thesis by (auto simp: set_position_def split: sum.splits)
next
  case (Inr u)
  with assms(2) have a': "a' = a\<lparr>pa_positions := dict_set s (simulated_position s side q e m l) (pa_positions a)\<rparr>"
    and p: "paper_position_ok s (simulated_position s side q e m l)"
    by (auto simp: set_position_def make_position_state_Inr simulated_position_def paper_position_ok_def
        split: sum.splits)
  from assms(1) p show ?thesis
    unfolding a' paper_ok_def by (auto simp: distinct_dict_set dest!: set_dict_setD)
qed

lemma open_or_net_ok: "paper_ok a \<Longrightarrow> open_or_net_position r fp a = (res, a') \<Longrightarrow> paper_ok a'"
  by (auto simp: open_or_net_position_def Let_def split: option.splits if_splits intro: set_position_ok)

lemma paper_ok_balance: "paper_ok a \<Longrightarrow> is_decimal b \<Longrightarrow> paper_ok (a\<lparr>pa_balance_usdt := b\<rparr>)"
  by (simp add: paper_ok_def)

lemma paper_ok_pop: "paper_ok a \<Longrightarrow> paper_ok (a\<lparr>pa_positions := dict_pop s (pa_positions a)\<rparr>)"
  by (auto simp: paper_ok_def distinct_dict_pop dest!: set_dict_popD)

lemma close_or_reduce_ok: "paper_ok a \<Longrightarrow> close_or_reduce_position s q fp a = (res, a') \<Longrightarrow> paper_ok a'"
  by (auto simp: close_or_reduce_position_def Let_def split: option.splits if_splits
      intro!: paper_ok_balance paper_ok_pop [of "a\<lparr>pa_balance_usdt := b\<rparr>" for b, simplified]
      elim!: set_position_ok [rotated])

lemma fill_market_order_ok: "paper_ok a \<Longrightarrow> fill_market_order ctx r a = (res, a') \<Longrightarrow> paper_ok a'"
  by (auto simp: fill_market_order_def Let_def split: sum.splits prod.splits if_splits
      intro!: paper_ok_balance elim!: close_or_reduce_ok [rotated] open_or_net_ok [rotated])

lemma fill_market_order_result:
  assumes "fill_market_order ctx r a = (Inr res, a')"
  obtains fp fee sl where "quote_market_order a r = Inr (fp, fee, sl)"
    "res = simulated_order_result ctx r FILLED (rq_quantity r) (Some fp) fee (Some sl)" "0 \<le> fee" "0 \<le> sl" "0 \<le> fp"
    "(if rq_is_reduce_only r
      then close_or_reduce_position (rq_symbol r) (rq_quantity r) fp
      else open_or_net_position r fp) (a\<lparr>pa_balance_usdt := dsub (pa_balance_usdt a) fee\<rparr>) = (Inr (), a')"
  using assms
  by (auto simp: fill_market_order_def Let_def bindE_Inr_iff make_order_result_Inr simulated_order_result_def
      split: sum.splits prod.splits if_splits)

lemma fill_market_order_id:
  "fill_market_order ctx r a = (Inr res, a') \<Longrightarrow> or_client_order_id res = rq_client_order_id r"
  by (erule fill_market_order_result) (simp add: simulated_order_result_def)

lemma place_order_ok:
  assumes "paper_ok a" "place_order ctx r a = (res, a')"
  shows "paper_ok a'"
proof -
  have upd: "paper_ok (b\<lparr>pa_orders := dict_set (rq_client_order_id r) x (pa_orders b)\<rparr>)"
    if "paper_ok b" "or_client_order_id x = rq_client_order_id r" for b x
    using that by (auto simp: paper_ok_def dest!: set_dict_setD)
  show ?thesis
    using assms
    by (auto simp: place_order_def Let_def register_pending_order_def make_order_result_Inr
        simulated_order_result_def split: option.splits if_splits sum.splits prod.splits
        intro!: upd dest: fill_market_order_id intro: fill_market_order_ok)
qed

lemma set_leverage_ok: "paper_ok a \<Longrightarrow> set_leverage s l a = (res, a') \<Longrightarrow> paper_ok a'"
  by (auto simp: set_leverage_def paper_ok_def split: if_splits dest!: set_dict_setD)

lemma set_margin_type_ok: "paper_ok a \<Longrightarrow> set_margin_type s m a = (res, a') \<Longrightarrow> paper_ok a'"
  by (auto simp: set_margin_type_def split: if_splits)

lemma cancel_order_ok: "paper_ok a \<Longrightarrow> cancel_order now c a = (b, a') \<Longrightarrow> paper_ok a'"
  by (fastforce simp: cancel_order_def Let_def paper_ok_def split: option.splits if_splits
      dest: set_dict_setD map_of_SomeD)

lemma apply_funding_ok: "paper_ok a \<Longrightarrow> apply_funding s f m a = (x, a') \<Longrightarrow> paper_ok a'"
  by (auto simp: apply_funding_def Let_def paper_ok_def split: option.splits)

lemmas paper_ok_preserved =
  place_order_ok set_leverage_ok set_margin_type_ok cancel_order_ok apply_funding_ok

subsection \<open>Idempotence, frame and closing\<close>

lemma place_order_known:
  "get_order_status (rq_client_order_id r) a = Some res \<Longrightarrow> place_order ctx r a = (Inr res, a)"
  by (simp add: place_order_def get_order_status_def)

lemma place_order_registers:
  assumes "place_order ctx r a = (Inr res, a')"
  shows "get_order_status (rq_client_order_id r) a' = Some res"
  using assms
  by (auto simp: place_order_def get_order_status_def Let_def split: option.splits sum.splits prod.splits)

lemma set_position_frame:
  "set_position s p a = (res, a') \<Longrightarrow> t \<noteq> s \<Longrightarrow> get_position t a' = get_position t a"
  by (auto simp: set_position_def get_position_def split: sum.splits)

lemma fill_frame:
  assumes "(if b then close_or_reduce_position (rq_symbol r) q fp else open_or_net_position r fp) a = (res, a')"
    and "t \<noteq> rq_symbol r"
  shows "get_position t a' = get_position t a"
  using assms
  by (auto simp: close_or_reduce_position_def open_or_net_position_def Let_def get_position_def
      set_position_def split: option.splits if_splits sum.splits)

lemma get_position_balance [simp]:
  "get_position s (a\<lparr>pa_balance_usdt := b\<rparr>) = get_position s a"
  "get_position s (a\<lparr>pa_orders := d\<rparr>) = get_position s a"
  by (simp_all add: get_position_def)

lemma place_order_frame:
  assumes "place_order ctx r a = (res, a')" "t \<noteq> rq_symbol r"
  shows "get_position t a' = get_position t a"
proof -
  have "get_position t b = get_position t a" if "fill_market_order ctx r a = (x, b)" for x b
    using that fill_frame [where t = t and r = r] assms(2)
    by (fastforce simp: fill_market_order_def Let_def split: sum.splits prod.splits if_splits)
  then show ?thesis
    using assms(1)
    by (auto simp: place_order_def Let_def split: option.splits sum.splits prod.splits if_splits)
qed

lemma close_whole_position:
  assumes "close_or_reduce_position s q fp a = (res, a')" "get_position s a = Some p" "ps_quantity p \<le> q"
  shows "get_position s a' = None" "res = Inr ()"
    "pa_balance_usdt a' = dadd (pa_balance_usdt a)
       (dmul (if ps_side p = BUY then dsub fp (ps_entry_price p) else dsub (ps_entry_price p) fp) (ps_quantity p))"
  using assms by (auto simp: close_or_reduce_position_def get_position_def Let_def min_def split: if_splits)

text \<open>A reduce-only order leaves either no position or a smaller one on the same side at the same entry.\<close>

lemma reduce_position:
  assumes "close_or_reduce_position s q fp a = (Inr (), a')" "get_position s a = Some p" "q < ps_quantity p"
  obtains p' where "get_position s a' = Some p'" "ps_side p' = ps_side p" "ps_entry_price p' = ps_entry_price p"
    "ps_quantity p' = dsub (ps_quantity p) q"
  using assms
  by (auto simp: close_or_reduce_position_def get_position_def Let_def min_def set_position_def
      make_position_state_Inr simulated_position_def split: if_splits sum.splits)

lemma place_order_closes:
  assumes "place_order ctx r a = (Inr res, a')" "rq_order_type r = MARKET" "rq_is_reduce_only r"
    and "get_order_status (rq_client_order_id r) a = None"
    and "get_position (rq_symbol r) a = Some p" "ps_quantity p \<le> rq_quantity r"
  shows "get_position (rq_symbol r) a' = None"
proof -
  from assms obtain b where b: "fill_market_order ctx r a = (Inr res, b)"
      "get_position (rq_symbol r) a' = get_position (rq_symbol r) b"
    by (auto simp: place_order_def get_order_status_def Let_def split: sum.splits prod.splits)
  from b(1) show ?thesis
  proof (rule fill_market_order_result)
    fix fp fee sl
    assume "(if rq_is_reduce_only r
      then close_or_reduce_position (rq_symbol r) (rq_quantity r) fp
      else open_or_net_position r fp) (a\<lparr>pa_balance_usdt := dsub (pa_balance_usdt a) fee\<rparr>) = (Inr (), b)"
    then show ?thesis
      using close_whole_position(1) [of "rq_symbol r" "rq_quantity r" fp] assms(3,5,6) b(2) by simp
  qed
qed

subsection \<open>The account\<close>

lemma account_state_total:
  assumes "paper_ok a"
  shows "\<exists>ac. get_account_state a = Inr ac \<and> ac_balance_usdt ac = pa_balance_usdt a
    \<and> ac_equity_usdt ac = pa_balance_usdt a \<and> 0 \<le> ac_used_margin_usdt ac"
proof -
  have ps: "paper_position_ok (fst x) (snd x)" if "x \<in> set (pa_positions a)" for x
    using assms that by (auto simp: paper_ok_def)
  have "dsum (map ps_unrealized_pnl (dict_values (pa_positions a))) = 0"
    by (rule dsum_zero) (use ps in \<open>auto simp: paper_position_ok_def\<close>)
  moreover have "0 \<le> dsum (map ps_margin_usdt (dict_values (pa_positions a)))"
    by (rule dsum_nonneg) (use ps in \<open>force simp: paper_position_ok_def\<close>)
  moreover have "dadd (pa_balance_usdt a) 0 = pa_balance_usdt a"
    using assms by (simp add: paper_ok_def dadd_def)
  ultimately show ?thesis by (simp add: get_account_state_def make_account_state_def Let_def)
qed

subsection \<open>The simulated exchange keeps the contract\<close>

definition paper_get_pos :: "symbol \<Rightarrow> paper \<Rightarrow> position_state option result" where
  "paper_get_pos s a = Inr (get_position s a)"

interpretation paper_adapter: exchange_adapter paper_ok paper_get_pos place_order get_order_status
  by unfold_locales
    (auto simp: place_order_known paper_get_pos_def place_order_frame paper_position_ok_def
      intro: place_order_ok place_order_registers place_order_closes dest: paper_ok_position)

end
