(* ===== verification/PositionTicks.thy ===== *)
theory PositionTicks
  imports PositionTriggers PaperAdapter
begin

text \<open>
  \<^verbatim>\<open>backend/position_manager/tick_service.py\<close>: one round of ticks over the configured symbols. The price and
  book sources are functions that may raise; each symbol fails on its own. The lock that serialises
  rounds leaves no trace here: a round is one function.
\<close>

text \<open>\<open>ids\<close> supplies the identifiers that the tick of a symbol may use.\<close>

definition tick_symbol ::
    "'a get_pos \<Rightarrow> 'a place \<Rightarrow> (symbol \<Rightarrow> tick_ids) \<Rightarrow> (symbol \<Rightarrow> rat result)
     \<Rightarrow> (symbol \<Rightarrow> book option result) option \<Rightarrow> symbol
     \<Rightarrow> tick_result list \<times> manager \<times> 'a \<times> invalidation_event list
     \<Rightarrow> tick_result list \<times> manager \<times> 'a \<times> invalidation_event list" where
  "tick_symbol get_pos place ids get_mark_price get_book s st =
     (case st of (results, m, a, evs) \<Rightarrow>
        (case get_mark_price s of
           Inl _ \<Rightarrow> (results, m, a, evs)
         | Inr mark_price \<Rightarrow>
             let bk = (case get_book of None \<Rightarrow> None
                       | Some f \<Rightarrow> (case f s of Inl _ \<Rightarrow> None | Inr b \<Rightarrow> b));
                 config_before_tick = get_config s m
             in case tick get_pos place (ids s) s mark_price None bk m a of
                  (Inr t, m', a', evs') \<Rightarrow> (results @ [t], m', a', evs @ evs')
                | (Inl _, m', a', evs') \<Rightarrow>
                    (results,
                     (case config_before_tick of
                        None \<Rightarrow> m'
                      | Some c \<Rightarrow> if get_config s m' = None then set_config c m' else m'),
                     a', evs @ evs')))"

definition tick_all ::
    "'a get_pos \<Rightarrow> 'a place \<Rightarrow> (symbol \<Rightarrow> tick_ids) \<Rightarrow> (symbol \<Rightarrow> rat result)
     \<Rightarrow> (symbol \<Rightarrow> book option result) option \<Rightarrow> manager \<Rightarrow> 'a
     \<Rightarrow> tick_result list \<times> manager \<times> 'a \<times> invalidation_event list" where
  "tick_all get_pos place ids get_mark_price get_book m a =
     foldl (\<lambda>st s. tick_symbol get_pos place ids get_mark_price get_book s st) ([], m, a, [])
       (configured_symbols m)"

interpretation paper_monitor: monitored_exchange paper_ok paper_get_pos place_order get_order_status
  by unfold_locales

subsection \<open>Lemmas\<close>

lemma tick_symbol_results: "\<exists>ts. fst (tick_symbol gp pl ids gm gb s (rs, m, a, evs)) = rs @ ts"
  by (simp add: tick_symbol_def Let_def split: sum.split prod.split)

lemma tick_symbol_cases:
  assumes "tick_symbol gp pl ids gm gb s (rs, m, a, evs) = (rs', m', a', evs')"
  obtains (no_price) "rs' = rs" "m' = m" "a' = a"
  | (ticked) x b t e where "tick gp pl (ids s) s x None b m a = (Inr t, m', a', e)" "rs' = rs @ [t]"
  | (failed) x b err m1 e where "tick gp pl (ids s) s x None b m a = (Inl err, m1, a', e)" "rs' = rs"
      "m' = (case get_config s m of None \<Rightarrow> m1
             | Some c \<Rightarrow> if get_config s m1 = None then set_config c m1 else m1)"
proof (cases "gm s")
  case (Inl e)
  with assms show thesis by (intro no_price) (simp_all add: tick_symbol_def)
next
  case (Inr x)
  define b where "b = (case gb of None \<Rightarrow> None | Some f \<Rightarrow> (case f s of Inl _ \<Rightarrow> None | Inr b \<Rightarrow> b))"
  obtain r m1 a1 e1 where t: "tick gp pl (ids s) s x None b m a = (r, m1, a1, e1)" by (metis prod_cases4)
  show thesis
  proof (cases r)
    case (Inl err)
    with assms Inr t b_def show thesis by (intro failed [of x b err m1 e1]) (simp_all add: tick_symbol_def)
  next
    case r: (Inr tr)
    with assms Inr t b_def show thesis by (intro ticked [of x b tr e1]) (simp_all add: tick_symbol_def)
  qed
qed

lemma tick_symbol_ok:
  assumes "tick_symbol gp pl ids gm gb s (rs, m, a, evs) = (rs', m', a', evs')" "manager_ok m"
  shows "manager_ok m'"
  using assms(1)
proof (cases rule: tick_symbol_cases)
  case (ticked x b t e)
  show ?thesis by (rule tick_ok [OF assms(2) ticked(1)])
next
  case (failed x b err m1 e)
  have "manager_ok m1" by (rule tick_ok [OF assms(2) failed(1)])
  with failed(3) show ?thesis by (auto split: option.splits intro: set_config_ok)
qed (use assms(2) in simp)

lemma tick_other:
  assumes "tick gp pl ids s x atr b m a = (r, m1, a1, e1)" "t \<noteq> s"
  shows "get_config t m1 = get_config t m"
  using tick_same [OF assms] by (simp add: same_symbol_def get_config_def)

lemma config_symbol: "manager_ok m \<Longrightarrow> get_config s m = Some c \<Longrightarrow> pc_symbol c = s"
  using symbol_ok_SomeD [OF manager_okD] by metis

lemma tick_symbol_other:
  assumes "tick_symbol gp pl ids gm gb s (rs, m, a, evs) = (rs', m', a', evs')" "manager_ok m" "t \<noteq> s"
  shows "get_config t m' = get_config t m"
  using assms(1)
proof (cases rule: tick_symbol_cases)
  case (ticked x b tr e)
  show ?thesis by (rule tick_other [OF ticked(1) assms(3)])
next
  case (failed x b err m1 e)
  from failed(3) tick_other [OF failed(1) assms(3)] assms(3) show ?thesis
    by (auto split: option.splits dest: config_symbol [OF assms(2)])
qed simp

text \<open>A symbol loses its configuration only with a result that reports a trigger or a missing position.\<close>

definition monitored_or_reported :: "symbol \<Rightarrow> tick_result list \<Rightarrow> manager \<Rightarrow> bool" where
  "monitored_or_reported s results m \<longleftrightarrow> get_config s m \<noteq> None \<or> (\<exists>t \<in> set results. tk_symbol t = s)"

lemma tick_symbol_self:
  assumes "tick_symbol gp pl ids gm gb s (rs, m, a, evs) = (rs', m', a', evs')" "manager_ok m"
    and "get_config s m \<noteq> None"
  shows "monitored_or_reported s rs' m'"
proof -
  obtain c where c: "get_config s m = Some c" using assms(3) by auto
  show ?thesis
    using assms(1)
  proof (cases rule: tick_symbol_cases)
    case no_price
    with c show ?thesis by (simp add: monitored_or_reported_def)
  next
    case (ticked x b t e)
    then show ?thesis using tick_removed(1) [OF ticked(1) c] by (auto simp: monitored_or_reported_def)
  next
    case (failed x b err m1 e)
    with c config_symbol [OF assms(2) c] show ?thesis by (auto simp: monitored_or_reported_def)
  qed
qed

lemma monitored_or_reported_step:
  assumes "tick_symbol gp pl ids gm gb x (rs, m, a, evs) = (rs', m', a', evs')" "manager_ok m"
    and "monitored_or_reported s rs m"
  shows "monitored_or_reported s rs' m'"
proof (cases "get_config s m = None")
  case True
  then obtain t where "t \<in> set rs" "tk_symbol t = s" using assms(3) by (auto simp: monitored_or_reported_def)
  moreover obtain ts where "rs' = rs @ ts"
    using tick_symbol_results [of gp pl ids gm gb x rs m a evs] assms(1) by auto
  ultimately show ?thesis by (auto simp: monitored_or_reported_def)
next
  case False
  show ?thesis
  proof (cases "s = x")
    case True
    with tick_symbol_self [OF assms(1,2)] False show ?thesis by simp
  next
    case neq: False
    then show ?thesis
      using tick_symbol_other [OF assms(1,2) neq] False by (simp add: monitored_or_reported_def)
  qed
qed

lemma tick_round:
  assumes "foldl (\<lambda>st s. tick_symbol gp pl ids gm gb s st) (rs, m, a, evs) ss = (rs', m', a', evs')"
    and "manager_ok m" "monitored_or_reported s rs m"
  shows "monitored_or_reported s rs' m' \<and> manager_ok m'"
  using assms
proof (induction ss arbitrary: rs m a evs)
  case (Cons x ss)
  obtain rs1 m1 a1 evs1 where st: "tick_symbol gp pl ids gm gb x (rs, m, a, evs) = (rs1, m1, a1, evs1)"
    by (metis prod_cases4)
  show ?case
  proof (rule Cons.IH)
    show "foldl (\<lambda>st s. tick_symbol gp pl ids gm gb s st) (rs1, m1, a1, evs1) ss = (rs', m', a', evs')"
      using Cons.prems(1) st by simp
    show "manager_ok m1" by (rule tick_symbol_ok [OF st Cons.prems(2)])
    show "monitored_or_reported s rs1 m1" by (rule monitored_or_reported_step [OF st Cons.prems(2,3)])
  qed
qed simp

lemma tick_all_monitored:
  assumes "tick_all gp pl ids gm gb m a = (rs, m', a', evs)" "manager_ok m" "get_config s m \<noteq> None"
  shows "get_config s m' \<noteq> None \<or> (\<exists>t \<in> set rs. tk_symbol t = s)"
proof -
  have "monitored_or_reported s [] m" using assms(3) by (simp add: monitored_or_reported_def)
  from tick_round [OF assms(1) [unfolded tick_all_def] assms(2) this]
  show ?thesis by (simp add: monitored_or_reported_def)
qed

lemma tick_all_ok:
  assumes "tick_all gp pl ids gm gb m a = (rs, m', a', evs)" "manager_ok m"
  shows "manager_ok m'"
proof (cases "configured_symbols m")
  case Nil
  with assms show ?thesis by (simp add: tick_all_def)
next
  case (Cons x ss)
  then have "get_config x m \<noteq> None"
    by (auto simp: configured_symbols_def get_config_def map_of_eq_None_iff)
  then have "monitored_or_reported x [] m" by (simp add: monitored_or_reported_def)
  from tick_round [OF assms(1) [unfolded tick_all_def] assms(2) this] show ?thesis by simp
qed

end
