(* ===== verification/PaperProperties.thy ===== *)
theory PaperProperties
  imports PositionTicks
begin

text \<open>
  The properties of the simulated exchange. The step relation \<open>paper_step\<close> is one
  call of an operation of the adapter that changes its state, successful or not.
\<close>

subsection \<open>Histories of the simulated exchange\<close>

inductive paper_step :: "paper \<Rightarrow> paper \<Rightarrow> bool" where
  step_place: "place_order ctx r a = (res, a') \<Longrightarrow> paper_step a a'"
| step_cancel: "cancel_order now cid a = (b, a') \<Longrightarrow> paper_step a a'"
| step_leverage: "set_leverage s l a = (res', a') \<Longrightarrow> paper_step a a'"
| step_margin: "set_margin_type s mt a = (res', a') \<Longrightarrow> paper_step a a'"
| step_funding: "apply_funding s f mk a = (x, a') \<Longrightarrow> paper_step a a'"

inductive_cases paper_stepE: "paper_step a a'"

lemma paper_step_ok: "paper_step a a' \<Longrightarrow> paper_ok a \<Longrightarrow> paper_ok a'"
  by (elim paper_stepE) (auto intro: paper_ok_preserved)

lemma paper_steps_ok: "paper_step\<^sup>*\<^sup>* a a' \<Longrightarrow> paper_ok a \<Longrightarrow> paper_ok a'"
  by (induction rule: rtranclp_induct) (auto intro: paper_step_ok)

lemma fill_orders: "fill_market_order ctx r a = (res, a') \<Longrightarrow> pa_orders a' = pa_orders a"
  by (auto simp: fill_market_order_def close_or_reduce_position_def open_or_net_position_def set_position_def
      Let_def split: sum.splits prod.splits if_splits option.splits)

lemma place_orders:
  assumes "place_order ctx r a = (res, a')"
  shows "pa_orders a' = pa_orders a \<or> (\<exists>x. pa_orders a' = dict_set (rq_client_order_id r) x (pa_orders a))"
  using assms fill_orders [of ctx r a]
  by (cases "fill_market_order ctx r a")
    (auto simp: place_order_def Let_def split: option.splits sum.splits prod.splits if_splits)

lemma paper_step_known:
  assumes "paper_step a a'" "get_order_status cid a \<noteq> None"
  shows "get_order_status cid a' \<noteq> None"
  using assms(1)
proof cases
  case (step_place ctx r res)
  then show ?thesis using place_orders [OF step_place] assms(2)
    by (auto simp: get_order_status_def split: if_splits)
qed (use assms(2) in \<open>auto simp: get_order_status_def cancel_order_def set_leverage_def set_margin_type_def
    apply_funding_def Let_def split: option.splits if_splits\<close>)

lemma paper_steps_known:
  "paper_step\<^sup>*\<^sup>* a a' \<Longrightarrow> get_order_status cid a \<noteq> None \<Longrightarrow> get_order_status cid a' \<noteq> None"
  by (induction rule: rtranclp_induct) (auto dest: paper_step_known)

text \<open>A LONG of one BTCUSDT at 100, opened on an account of 1000 USDT.\<close>

definition sample_paper0 :: paper where
  "sample_paper0 = paper_init 1000 (Some \<lparr>fm_taker_rate = 1/8, fm_maker_rate = 1/8\<rparr>) (Some \<lparr>sm_market_bps = 0\<rparr>)"

definition sample_order :: "string \<Rightarrow> order_side \<Rightarrow> bool \<Rightarrow> order_request" where
  "sample_order cid side reduce_only =
     \<lparr>rq_client_order_id = cid, rq_symbol = ''BTCUSDT'', rq_side = side, rq_order_type = MARKET,
      rq_quantity = 1, rq_price = Some 100, rq_stop_price = None, rq_is_reduce_only = reduce_only,
      rq_bid = None, rq_ask = None\<rparr>"

definition sample_result :: "string \<Rightarrow> order_side \<Rightarrow> order_result" where
  "sample_result cid side =
     \<lparr>or_order_id = ''x'', or_client_order_id = cid, or_symbol = ''BTCUSDT'', or_side = side,
      or_order_type = MARKET, or_status = FILLED, or_quantity_requested = 1, or_quantity_filled = 1,
      or_fill_price = Some 100, or_fee_usdt = 25/2, or_slippage_usdt = Some 0, or_is_simulated = True,
      or_timestamp_utc = 0\<rparr>"

definition sample_paper1 :: paper where
  "sample_paper1 = sample_paper0\<lparr>pa_balance_usdt := 1975/2,
     pa_orders := [(''c1'', sample_result ''c1'' BUY)],
     pa_positions := [(''BTCUSDT'', simulated_position ''BTCUSDT'' BUY 1 100 100 1)]\<rparr>"

definition sample_paper2 :: paper where
  "sample_paper2 = sample_paper1\<lparr>pa_balance_usdt := 975,
     pa_orders := [(''c1'', sample_result ''c1'' BUY), (''c2'', sample_result ''c2'' SELL)],
     pa_positions := []\<rparr>"

lemma sample_open:
  "place_order (''x'', 0) (sample_order ''c1'' BUY False) sample_paper0 = (Inr (sample_result ''c1'' BUY), sample_paper1)"
  by code_simp

lemma sample_close:
  "place_order (''x'', 0) (sample_order ''c2'' SELL True) sample_paper1 = (Inr (sample_result ''c2'' SELL), sample_paper2)"
  by code_simp

subsection \<open>The simulated exchange\<close>

text \<open>
  C35. Every state that the simulated exchange can reach from its start is well formed (one position per
  symbol, each with positive quantity, entry and margin; leverages within 1 to 10; orders filed under their client
  id), and there its account report succeeds, with an equity equal to the cash balance: the adapter never marks an
  open position to market.
\<close>

theorem paper_reachable_ok:
  assumes "paper_step\<^sup>*\<^sup>* (paper_init b fees slip) a" "is_decimal b"
  shows "paper_ok a \<and> (\<exists>ac. get_account_state a = Inr ac \<and> ac_balance_usdt ac = pa_balance_usdt a
    \<and> ac_equity_usdt ac = pa_balance_usdt a \<and> 0 \<le> ac_used_margin_usdt ac)"
proof -
  have "paper_ok a" by (rule paper_steps_ok [OF assms(1)]) (rule paper_ok_init [OF assms(2)])
  then show ?thesis using account_state_total by simp
qed

theorem paper_reachable_ok_witness: "paper_ok sample_paper1"
proof -
  have "paper_step\<^sup>*\<^sup>* sample_paper0 sample_paper1"
    by (rule r_into_rtranclp, rule paper_step.intros(1) [OF sample_open])
  moreover have "is_decimal 1000" by code_simp
  ultimately show ?thesis unfolding sample_paper0_def using paper_reachable_ok by blast
qed

text \<open>
  Placing an order is idempotent over the whole later history: once an order was accepted, repeating its
  client order id, after any sequence of operations of the adapter, returns the order on file and changes nothing, so a
  retry can never open or close a second time.
\<close>

theorem place_order_retry:
  assumes "place_order ctx r a = (Inr res, a')" "paper_step\<^sup>*\<^sup>* a' a''" "rq_client_order_id r' = rq_client_order_id r"
  shows "\<exists>out. get_order_status (rq_client_order_id r) a'' = Some out \<and> place_order ctx' r' a'' = (Inr out, a'')"
proof -
  have "get_order_status (rq_client_order_id r) a'' \<noteq> None"
    using paper_steps_known [OF assms(2)] place_order_registers [OF assms(1)] by simp
  then obtain out where "get_order_status (rq_client_order_id r') a'' = Some out"
    using assms(3) by auto
  then show ?thesis using place_order_known assms(3) by metis
qed

theorem place_order_retry_witness:
  "\<exists>out. place_order (''y'', 7) (sample_order ''c1'' BUY False) sample_paper2 = (Inr out, sample_paper2)"
proof -
  have "paper_step\<^sup>*\<^sup>* sample_paper1 sample_paper2"
    by (rule r_into_rtranclp, rule paper_step.intros(1) [OF sample_close])
  from place_order_retry [OF sample_open this refl] show ?thesis by blast
qed

text \<open>
  An accepted market order that may only reduce and covers the whole position closes it: the position
  disappears, the balance changes by exactly the realised profit or loss at the fill price less the fee, and the
  positions of other symbols stay as they are.
\<close>

theorem closing_order_settles:
  assumes "place_order ctx r a = (Inr res, a')" "rq_order_type r = MARKET" "rq_is_reduce_only r"
    "get_order_status (rq_client_order_id r) a = None" "get_position (rq_symbol r) a = Some p"
    "ps_quantity p \<le> rq_quantity r"
  shows "get_position (rq_symbol r) a' = None
    \<and> (\<exists>fp. or_fill_price res = Some fp \<and> pa_balance_usdt a' =
         dadd (dsub (pa_balance_usdt a) (or_fee_usdt res))
              (dmul (if ps_side p = BUY then dsub fp (ps_entry_price p) else dsub (ps_entry_price p) fp)
                    (ps_quantity p)))
    \<and> (\<forall>t. t \<noteq> rq_symbol r \<longrightarrow> get_position t a' = get_position t a)"
proof -
  from assms(1,2,4) obtain b where b: "fill_market_order ctx r a = (Inr res, b)"
      "pa_balance_usdt a' = pa_balance_usdt b"
    by (auto simp: place_order_def get_order_status_def Let_def split: sum.splits prod.splits)
  have bal: "\<exists>fp. or_fill_price res = Some fp \<and> pa_balance_usdt b =
      dadd (dsub (pa_balance_usdt a) (or_fee_usdt res))
        (dmul (if ps_side p = BUY then dsub fp (ps_entry_price p) else dsub (ps_entry_price p) fp) (ps_quantity p))"
    using b(1)
  proof (rule fill_market_order_result)
    fix fp fee sl
    assume r: "res = simulated_order_result ctx r FILLED (rq_quantity r) (Some fp) fee (Some sl)"
      and "(if rq_is_reduce_only r then close_or_reduce_position (rq_symbol r) (rq_quantity r) fp
        else open_or_net_position r fp) (a\<lparr>pa_balance_usdt := dsub (pa_balance_usdt a) fee\<rparr>) = (Inr (), b)"
    then show ?thesis
      using close_whole_position(3) [of "rq_symbol r" "rq_quantity r" fp] assms(3,5,6)
      by (simp add: simulated_order_result_def)
  qed
  show ?thesis
    using place_order_closes [OF assms] bal b(2) place_order_frame [OF assms(1)] by simp
qed

theorem closing_order_settles_witness: "get_position ''BTCUSDT'' sample_paper2 = None"
proof -
  have "get_position (rq_symbol (sample_order ''c2'' SELL True)) sample_paper1
      = Some (simulated_position ''BTCUSDT'' BUY 1 100 100 1)"
    "get_order_status (rq_client_order_id (sample_order ''c2'' SELL True)) sample_paper1 = None" by code_simp+
  from closing_order_settles [OF sample_close _ _ this(2,1)] show ?thesis
    by (simp add: sample_order_def simulated_position_def)
qed

text \<open>
  A reduce-only market order on a symbol without a position is not rejected: it is reported as FILLED for
  the whole requested quantity, and its fee is charged to the balance although nothing was closed.
\<close>

theorem reduce_only_without_position_charges:
  assumes "place_order ctx r a = (Inr res, a')" "rq_order_type r = MARKET" "rq_is_reduce_only r"
    "get_order_status (rq_client_order_id r) a = None" "get_position (rq_symbol r) a = None"
  shows "or_status res = FILLED \<and> or_quantity_filled res = rq_quantity r
    \<and> pa_balance_usdt a' = dsub (pa_balance_usdt a) (or_fee_usdt res) \<and> pa_positions a' = pa_positions a"
proof -
  from assms(1,2,4) obtain b where b: "fill_market_order ctx r a = (Inr res, b)"
      "pa_balance_usdt a' = pa_balance_usdt b" "pa_positions a' = pa_positions b"
    by (auto simp: place_order_def get_order_status_def Let_def split: sum.splits prod.splits)
  from b(1) show ?thesis
    by (rule fill_market_order_result)
      (use assms(3,5) b(2,3) in \<open>auto simp: close_or_reduce_position_def get_position_def simulated_order_result_def\<close>)
qed

theorem reduce_only_without_position_charges_witness:
  "\<exists>res a'. place_order (''x'', 0) (sample_order ''c3'' SELL True) sample_paper2 = (Inr res, a')
     \<and> or_quantity_filled res = 1"
proof -
  have "\<exists>a'. place_order (''x'', 0) (sample_order ''c3'' SELL True) sample_paper2
      = (Inr (sample_result ''c3'' SELL), a')"
  proof -
    have "fst (place_order (''x'', 0) (sample_order ''c3'' SELL True) sample_paper2)
        = Inr (sample_result ''c3'' SELL)" by code_simp
    then show ?thesis by (metis prod.collapse)
  qed
  then obtain a' where a: "place_order (''x'', 0) (sample_order ''c3'' SELL True) sample_paper2
      = (Inr (sample_result ''c3'' SELL), a')" ..
  have "get_position (rq_symbol (sample_order ''c3'' SELL True)) sample_paper2 = None"
    "get_order_status (rq_client_order_id (sample_order ''c3'' SELL True)) sample_paper2 = None" by code_simp+
  from reduce_only_without_position_charges [OF a _ _ this(2,1)] a show ?thesis
    by (simp add: sample_order_def)
qed

end
