(* ===== verification/ManagerProperties.thy ===== *)
theory ManagerProperties
  imports PaperProperties
begin

text \<open>
  The properties of the position manager, stated on the simulated exchange through the interpretation
  \<open>paper_monitor\<close> of the adapter contract, and for an arbitrary adapter where the adapter does not matter.
\<close>

abbreviation paper_tick ::
    "tick_ids \<Rightarrow> symbol \<Rightarrow> rat \<Rightarrow> rat option \<Rightarrow> book option \<Rightarrow> manager \<Rightarrow> paper \<Rightarrow> paper tick_outcome" where
  "paper_tick \<equiv> tick paper_get_pos place_order"

definition sample_exit :: position_config where
  "sample_exit =
     \<lparr>pc_symbol = ''BTCUSDT'', pc_stop_loss = Some 90, pc_take_profit = None,
      pc_take_profit_levels = [\<lparr>tl_price = 110, tl_close_fraction = 1/2\<rparr>], pc_trailing_delta = Some 20,
      pc_trailing_percent = None, pc_trailing_atr = None, pc_trailing_atr_multiplier = None,
      pc_trailing_atr_dynamic = False, pc_trailing_atr_smoothing_alpha = None,
      pc_be_trigger_delta = Some 4, pc_be_sl_offset = 1, pc_invalidation_action = None,
      pc_invalidation_price = None\<rparr>"

definition sample_manager :: manager where
  "sample_manager = set_config sample_exit manager_init"

definition sample_ids :: tick_ids where
  "sample_ids = (''12345678-1234-1234-1234-123456789abc'', (''x'', 0))"

lemma sample_manager_ok: "manager_ok sample_manager"
  by (simp add: sample_manager_def set_config_ok manager_ok_init)

lemma sample_get_config: "get_config ''BTCUSDT'' sample_manager = Some sample_exit"
  by (simp add: sample_manager_def sample_exit_def)

lemma sample_get_sl: "get_effective_sl ''BTCUSDT'' sample_manager = Some 90"
  by code_simp

lemma sample_get_pos:
  "paper_get_pos ''BTCUSDT'' sample_paper1 = Inr (Some (simulated_position ''BTCUSDT'' BUY 1 100 100 1))"
  by code_simp

subsection \<open>Lemmas\<close>

text \<open>A tick without a trigger never loosens the stop.\<close>

lemma tick_none_stop:
  assumes "tick get_pos place ids s mk atr bk m a = (Inr t, m', a', evs)" "tk_trigger t = TRIGGER_NONE"
    and p: "get_pos s a = Inr (Some p)" and sl: "get_effective_sl s m = Some sl"
  shows "\<exists>sl'. get_effective_sl s m' = Some sl' \<and> at_least_as_tight (ps_side p) sl sl'"
proof (cases "get_config s m")
  case None
  with assms show ?thesis by (auto simp: tick_def at_least_as_tight_def)
next
  case (Some c)
  show ?thesis
  proof (rule tick_openE [where get_pos = get_pos and s = s and a = a and m = m, OF p Some])
    fix ts m1
    assume t: "tick_trailing s mk atr c (ps_side p) m = (Inr ts, m1)"
      and "tick get_pos place ids s mk atr bk m a =
         tick_triggers place ids s mk bk c p ts (tick_break_even s mk c p m1) a"
    with assms(1) have tt: "tick_triggers place ids s mk bk c p ts (tick_break_even s mk c p m1) a
        = (Inr t, m', a', evs)" by simp
    have sl1: "get_effective_sl s m1 = Some sl" using sl tick_trailing_sl [OF t] by simp
    from tt show ?thesis
    proof (cases rule: tick_triggers_cases)
      case (close tr)
      then show ?thesis using assms(2) by (auto dest: close_whole_result)
    next
      case invalidated
      then show ?thesis using assms(2) by (auto dest: invalidation_result)
    next
      case level
      then show ?thesis using assms(2) by (auto dest!: tp_level_result split: if_splits)
    next
      case none
      with break_even_tightens [OF sl1, of mk c p] show ?thesis by metis
    qed
  qed
qed

lemma tick_trailing_value:
  assumes "tick_trailing s mk atr c side m = (Inr (Some st), m')"
    and "resolved_trailing_mode c = Some FIXED" "pc_trailing_delta c = Some d"
  shows "st = trailing_stop_from_delta side (update_high_water side mk (dict_get (mg_high_water m) s)) d"
    and "dict_get (mg_high_water m') s = Some (update_high_water side mk (dict_get (mg_high_water m) s))"
  using assms
  by (auto simp: tick_trailing_def Let_def tick_atr_value_def resolve_trailing_delta_def)

subsection \<open>Properties\<close>

text \<open>
  C21. The stop has priority. If the mark price has crossed the effective stop of a monitored open position, then on
  every adapter the tick asks for one order, reduce-only, at market, on the other side and for the whole quantity of
  the position, and ends the monitoring of the symbol whether that order is accepted or not. When it is, the result
  is SL_HIT; when it is not, the tick raises what the order raised. Break-even, invalidation, take profits and
  trailing stop have no say at that price.
\<close>

theorem stop_has_priority:
  assumes "get_pos s a = Inr (Some p)" "get_config s m = Some c" "get_effective_sl s m = Some sl"
    "(if ps_side p = BUY then mk \<le> sl else sl \<le> mk)"
    and "tick get_pos place ids s mk atr bk m a = (res, m', a', evs)"
  shows "get_config s m' = None \<and> evs = []
    \<and> (\<exists>r. rq_client_order_id r = fst ids \<and> rq_symbol r = s \<and> rq_quantity r = ps_quantity p
        \<and> rq_side r = (if ps_side p = BUY then SELL else BUY) \<and> rq_order_type r = MARKET \<and> rq_is_reduce_only r
        \<and> (case make_order_request r of
             Inl e \<Rightarrow> res = Inl e \<and> a' = a
           | Inr _ \<Rightarrow> a' = snd (place (snd ids) r a)
               \<and> (case fst (place (snd ids) r a) of
                    Inl e \<Rightarrow> res = Inl e
                  | Inr _ \<Rightarrow> res = Inr \<lparr>tk_symbol = s, tk_trigger = SL_HIT, tk_mark_price = mk,
                      tk_close_order_id = Some (fst ids), tk_tp_level_index = None, tk_closed_fraction = None\<rparr>)))"
proof -
  have "crossed_against (ps_side p) mk sl"
    using assms(4) by (cases "ps_side p") (auto simp: crossed_against_def)
  from tick_stop_crossed [where get_pos = get_pos and s = s and a = a and m = m, OF assms(1-3) this]
  obtain m1 where t: "tick get_pos place ids s mk atr bk m a = close_whole place ids s mk bk p SL_HIT m1 a" by metis
  let ?r = "close_request (fst ids) s (ps_quantity p) mk (ps_side p) bk"
  have "make_order_request ?r = Inr r' \<Longrightarrow> r' = ?r" for r' by (simp add: make_order_request_Inr)
  then have "get_config s m' = None \<and> evs = []
      \<and> (case make_order_request ?r of
             Inl e \<Rightarrow> res = Inl e \<and> a' = a
           | Inr _ \<Rightarrow> a' = snd (place (snd ids) ?r a)
               \<and> (case fst (place (snd ids) ?r a) of
                    Inl e \<Rightarrow> res = Inl e
                  | Inr _ \<Rightarrow> res = Inr \<lparr>tk_symbol = s, tk_trigger = SL_HIT, tk_mark_price = mk,
                      tk_close_order_id = Some (fst ids), tk_tp_level_index = None, tk_closed_fraction = None\<rparr>))"
    using assms(5) unfolding t close_whole_def place_close_order_def Let_def
    by (auto split: sum.splits prod.splits)
  moreover have "rq_side ?r = (if ps_side p = BUY then SELL else BUY)"
    by (simp add: close_request_def close_side_def)
  ultimately show ?thesis
    by (intro conjI exI [of _ ?r]) (simp_all add: close_request_def)
qed

theorem stop_has_priority_witness:
  "\<exists>t m' a' evs. paper_tick sample_ids ''BTCUSDT'' 85 None None sample_manager sample_paper1 = (Inr t, m', a', evs)
     \<and> tk_trigger t = SL_HIT \<and> get_config ''BTCUSDT'' m' = None \<and> get_position ''BTCUSDT'' a' = None"
proof -
  obtain res m' a' evs where t: "paper_tick sample_ids ''BTCUSDT'' 85 None None sample_manager sample_paper1
      = (res, m', a', evs)" by (metis prod_cases4)
  have "case paper_tick sample_ids ''BTCUSDT'' 85 None None sample_manager sample_paper1 of
      (res, m', a', evs) \<Rightarrow> \<not> isl res \<and> get_position ''BTCUSDT'' a' = None" by code_simp
  with t obtain x where x: "res = Inr x" "get_position ''BTCUSDT'' a' = None" by (cases res) auto
  obtain r where "get_config ''BTCUSDT'' m' = None"
      "case make_order_request r of
         Inl e \<Rightarrow> res = Inl e \<and> a' = sample_paper1
       | Inr _ \<Rightarrow> a' = snd (place_order (snd sample_ids) r sample_paper1)
           \<and> (case fst (place_order (snd sample_ids) r sample_paper1) of
                Inl e \<Rightarrow> res = Inl e
              | Inr _ \<Rightarrow> res = Inr \<lparr>tk_symbol = ''BTCUSDT'', tk_trigger = SL_HIT, tk_mark_price = 85,
                  tk_close_order_id = Some (fst sample_ids), tk_tp_level_index = None, tk_closed_fraction = None\<rparr>)"
    using stop_has_priority [where get_pos = paper_get_pos and s = "''BTCUSDT''" and a = sample_paper1
      and m = sample_manager, OF sample_get_pos sample_get_config sample_get_sl _ t]
    by (auto simp: simulated_position_def)
  with x have "get_config ''BTCUSDT'' m' = None" "tk_trigger x = SL_HIT" by (auto split: sum.splits)
  with t x show ?thesis by blast
qed

text \<open>
  A tick that triggers nothing never loosens the stop of an open position: break-even can only raise the
  stop of a LONG and lower the stop of a SHORT.
\<close>

theorem stop_never_loosened:
  assumes "tick get_pos place ids s mk atr bk m a = (Inr t, m', a', evs)" "tk_trigger t = TRIGGER_NONE"
    "get_pos s a = Inr (Some p)" "get_effective_sl s m = Some sl"
  shows "\<exists>sl'. get_effective_sl s m' = Some sl' \<and> (if ps_side p = BUY then sl \<le> sl' else sl' \<le> sl)"
  using tick_none_stop [OF assms] by (simp add: at_least_as_tight_def)

theorem stop_never_loosened_witness:
  "\<exists>t m' a' evs sl'. paper_tick sample_ids ''BTCUSDT'' 105 None None sample_manager sample_paper1
     = (Inr t, m', a', evs) \<and> get_effective_sl ''BTCUSDT'' m' = Some sl' \<and> 90 \<le> sl'"
proof -
  obtain x m' a' evs where t: "paper_tick sample_ids ''BTCUSDT'' 105 None None sample_manager sample_paper1
      = (x, m', a', evs)" by (metis prod_cases4)
  have "fst (paper_tick sample_ids ''BTCUSDT'' 105 None None sample_manager sample_paper1)
      = Inr (no_trigger ''BTCUSDT'' 105)" by code_simp
  with t have "paper_tick sample_ids ''BTCUSDT'' 105 None None sample_manager sample_paper1
      = (Inr (no_trigger ''BTCUSDT'' 105), m', a', evs)" by simp
  from stop_never_loosened [where get_pos = paper_get_pos and s = "''BTCUSDT''" and a = sample_paper1
      and m = sample_manager, OF this _ sample_get_pos sample_get_sl] this show ?thesis
    by (auto simp: no_trigger_def simulated_position_def)
qed

text \<open>
  At a fixed distance the trailing stop is a ratchet: between two consecutive trailing updates of a position
  it never moves away from the price, up or down as the mark price may go.
\<close>

theorem trailing_stop_ratchets:
  assumes "resolved_trailing_mode c = Some FIXED"
    "tick_trailing s mk1 atr1 c side m = (Inr (Some t1), m1)"
    "tick_trailing s mk2 atr2 c side m1 = (Inr (Some t2), m2)"
  shows "if side = BUY then t1 \<le> t2 else t2 \<le> t1"
proof -
  obtain d where d: "pc_trailing_delta c = Some d" using resolved_mode_parameter(1) [OF assms(1)] by blast
  note v = tick_trailing_value [OF assms(2,1) d] tick_trailing_value [OF assms(3,1) d]
  show ?thesis
    using v trailing_stop_ratchet_BUY trailing_stop_ratchet_SELL by (cases side) simp_all
qed

theorem trailing_stop_ratchets_witness:
  "\<exists>m1 t1 m2 t2. tick_trailing ''BTCUSDT'' 105 None sample_exit BUY sample_manager = (Inr (Some t1), m1)
     \<and> tick_trailing ''BTCUSDT'' 95 None sample_exit BUY m1 = (Inr (Some t2), m2) \<and> t1 \<le> t2"
proof -
  have m: "resolved_trailing_mode sample_exit = Some FIXED" by code_simp
  obtain x1 m1 where 1: "tick_trailing ''BTCUSDT'' 105 None sample_exit BUY sample_manager = (x1, m1)" by fastforce
  obtain x2 m2 where 2: "tick_trailing ''BTCUSDT'' 95 None sample_exit BUY m1 = (x2, m2)" by fastforce
  have "fst (tick_trailing ''BTCUSDT'' 105 None sample_exit BUY sample_manager) = Inr (Some 85)" by code_simp
  then have e1: "x1 = Inr (Some 85)" using 1 by simp
  have "fst (tick_trailing ''BTCUSDT'' 95 None sample_exit BUY
      (snd (tick_trailing ''BTCUSDT'' 105 None sample_exit BUY sample_manager))) = Inr (Some 85)" by code_simp
  then have e2: "x2 = Inr (Some 85)" using 1 2 by simp
  show ?thesis using trailing_stop_ratchets [OF m 1 [unfolded e1] 2 [unfolded e2]] 1 2 e1 e2 by auto
qed

text \<open>
  Take-profit levels are served in order and one per tick: a tick that reports level i found exactly the first
  i levels of the configuration consumed, and closes the fraction of the i-th.
\<close>

theorem levels_in_order:
  assumes "manager_ok m" "tick get_pos place ids s mk atr bk m a = (Inr t, m', a', evs)"
    "tk_tp_level_index t = Some i"
  shows "\<exists>c k. get_config s m = Some c \<and> i = int k \<and> k < length (pc_take_profit_levels c)
    \<and> get_remaining_tp_levels s m = drop k (pc_take_profit_levels c)
    \<and> tk_closed_fraction t = Some (tl_close_fraction (pc_take_profit_levels c ! k))"
  by (rule tick_level_index [OF assms]) blast

definition sample_tick :: "paper tick_outcome" where
  "sample_tick = paper_tick sample_ids ''BTCUSDT'' 112 None None sample_manager sample_paper1"

lemma sample_tick_result:
  obtains t m' a' evs where "sample_tick = (Inr t, m', a', evs)" "tk_trigger t = TP_HIT"
    "tk_tp_level_index t = Some 0" "get_config ''BTCUSDT'' m' = None"
    "\<exists>p. get_position ''BTCUSDT'' a' = Some p \<and> ps_quantity p = 1/2"
proof -
  have "case sample_tick of (Inr t, m', a', evs) \<Rightarrow> tk_trigger t = TP_HIT \<and> tk_tp_level_index t = Some 0
      \<and> get_config ''BTCUSDT'' m' = None
      \<and> map_option ps_quantity (get_position ''BTCUSDT'' a') = Some (1/2) | _ \<Rightarrow> False" by code_simp
  then show thesis by (auto intro: that split: prod.splits sum.splits)
qed

theorem levels_in_order_witness:
  "\<exists>t m' a' evs. sample_tick = (Inr t, m', a', evs) \<and> tk_closed_fraction t = Some (1/2)"
proof -
  obtain t m' a' evs where t: "sample_tick = (Inr t, m', a', evs)" "tk_tp_level_index t = Some 0"
    by (rule sample_tick_result)
  from levels_in_order [OF sample_manager_ok t(1) [unfolded sample_tick_def] t(2)] sample_get_config t(1)
  show ?thesis by (auto simp: sample_exit_def)
qed

text \<open>
  The last level of a multi-level take profit ends the monitoring even when its fraction is below one: half
  of the position stays open on the exchange with neither a configuration nor a stop.
\<close>

theorem last_level_leaves_unmonitored_remainder:
  "\<exists>t m' a' evs p. paper_tick sample_ids ''BTCUSDT'' 112 None None sample_manager sample_paper1 = (Inr t, m', a', evs)
     \<and> tk_trigger t = TP_HIT \<and> get_config ''BTCUSDT'' m' = None
     \<and> get_position ''BTCUSDT'' a' = Some p \<and> ps_quantity p = 1/2"
  using sample_tick_result unfolding sample_tick_def by metis

text \<open>
  On the simulated exchange a stop, a trailing stop and a single take profit leave nothing behind: when the
  tick reports one of them under a fresh order id, the position is closed and its configuration removed.
\<close>

theorem closing_trigger_complete:
  assumes "paper_tick ids s mk atr bk m a = (Inr t, m', a', evs)"
    "tk_trigger t = SL_HIT \<or> tk_trigger t = TRAILING_SL_HIT \<or> tk_trigger t = TP_HIT \<and> tk_tp_level_index t = None"
    "get_order_status (fst ids) a = None"
  shows "get_position s a' = None \<and> get_config s m' = None"
  using paper_monitor.closing_trigger [OF assms] by (simp add: paper_get_pos_def)

theorem closing_trigger_complete_witness:
  "\<exists>t m' a' evs. paper_tick sample_ids ''BTCUSDT'' 85 None None sample_manager sample_paper1 = (Inr t, m', a', evs)
     \<and> get_position ''BTCUSDT'' a' = None"
proof -
  have "case paper_tick sample_ids ''BTCUSDT'' 85 None None sample_manager sample_paper1 of
      (Inr t, m', a', evs) \<Rightarrow> tk_trigger t = SL_HIT | _ \<Rightarrow> False" by code_simp
  then obtain t m' a' evs where t: "paper_tick sample_ids ''BTCUSDT'' 85 None None sample_manager sample_paper1
      = (Inr t, m', a', evs)" "tk_trigger t = SL_HIT" by (auto split: prod.splits sum.splits)
  have "get_order_status (fst sample_ids) sample_paper1 = None" by code_simp
  from closing_trigger_complete [OF t(1) _ this] t show ?thesis by blast
qed

text \<open>
  C22. A tick acts on its symbol alone and keeps the invariants: whatever it returns, exceptions included, the
  manager stays well formed, the exchange stays well formed, and neither the monitoring state nor the position of
  another symbol changes.
\<close>

theorem tick_local_and_safe:
  assumes "paper_tick ids s mk atr bk m a = (res, m', a', evs)" "manager_ok m" "paper_ok a"
  shows "manager_ok m' \<and> paper_ok a' \<and> (\<forall>t. t \<noteq> s \<longrightarrow> same_symbol t m m' \<and> get_position t a' = get_position t a)"
  using tick_ok [OF assms(2,1)] paper_monitor.tick_step [OF assms(1)] tick_same [OF assms(1)] assms(3)
  by (simp add: paper_monitor.adapter_step_def paper_get_pos_def)

theorem tick_local_and_safe_witness:
  "\<exists>res m' a' evs. paper_tick sample_ids ''BTCUSDT'' 112 None None sample_manager sample_paper1 = (res, m', a', evs)
     \<and> manager_ok m' \<and> paper_ok a'"
proof -
  obtain res m' a' evs where t: "paper_tick sample_ids ''BTCUSDT'' 112 None None sample_manager sample_paper1
      = (res, m', a', evs)" by (metis prod_cases4)
  have d: "is_decimal (1975/2)" by code_simp
  have "paper_ok sample_paper1"
    using d by (simp add: paper_ok_def sample_paper1_def sample_paper0_def paper_init_def
        paper_position_ok_def simulated_position_def sample_result_def)
  from tick_local_and_safe [OF t sample_manager_ok this] t show ?thesis by blast
qed

text \<open>
  A round of ticks never loses a position silently: after ticking every configured symbol, with prices or
  orders that may fail, each symbol is still monitored unless the round reports a result for it.
\<close>

theorem round_keeps_monitoring:
  assumes "tick_all gp pl ids gm gb m a = (rs, m', a', evs)" "manager_ok m" "get_config s m \<noteq> None"
  shows "manager_ok m' \<and> (get_config s m' \<noteq> None \<or> (\<exists>t \<in> set rs. tk_symbol t = s))"
  using tick_all_monitored [OF assms] tick_all_ok [OF assms(1,2)] by simp

theorem round_keeps_monitoring_witness:
  "\<exists>rs m' a' evs. tick_all paper_get_pos place_order (\<lambda>_. sample_ids) (\<lambda>_. Inl ValueError) None sample_manager
     sample_paper1 = (rs, m', a', evs) \<and> manager_ok m'"
proof -
  obtain rs m' a' evs where t: "tick_all paper_get_pos place_order (\<lambda>_. sample_ids) (\<lambda>_. Inl ValueError) None
      sample_manager sample_paper1 = (rs, m', a', evs)" by (metis prod_cases4)
  have "get_config ''BTCUSDT'' sample_manager \<noteq> None" by (simp add: sample_get_config)
  from round_keeps_monitoring [OF t sample_manager_ok this] t show ?thesis by blast
qed

text \<open>
  The configuration that a new position is given keeps the stop and the target of the approved decision
  unchanged, and its break-even offset, clamped when it has to be, lies below the distance that triggers it.
\<close>

theorem built_config_faithful:
  assumes "build_position_config s sl tp trail be defaults entry atr = Inr c"
  shows "pc_symbol c = s \<and> pc_stop_loss c = Some sl \<and> pc_take_profit c = Some tp
    \<and> 0 < sl \<and> 0 < tp \<and> 0 \<le> pc_be_sl_offset c
    \<and> (\<forall>d. pc_be_trigger_delta c = Some d \<longrightarrow> pc_be_sl_offset c < d)
    \<and> (pc_be_trigger_delta c \<noteq> None \<longrightarrow> atr \<noteq> None)"
  using built_config_fields [OF assms] by (auto simp: position_config_fields_def)

definition sample_defaults :: position_management_config where
  "sample_defaults = \<lparr>pm_break_even_enabled = True, pm_trailing_stop_enabled = True,
     pm_trailing_default_mode = ''PERCENT'', pm_trailing_default_percent = 1/2,
     pm_trailing_default_atr_multiplier = 3/2, pm_be_trigger_atr_multiplier = 1, pm_be_sl_offset_percent = 1/2\<rparr>"

theorem built_config_faithful_witness:
  "\<exists>c. build_position_config ''BTCUSDT'' 90 120 True True sample_defaults 100 (Some 2) = Inr c
     \<and> pc_be_sl_offset c < 2"
proof -
  have "case build_position_config ''BTCUSDT'' 90 120 True True sample_defaults 100 (Some 2) of
      Inr c \<Rightarrow> pc_be_trigger_delta c = Some 2 | Inl _ \<Rightarrow> False" by code_simp
  then obtain c where c: "build_position_config ''BTCUSDT'' 90 120 True True sample_defaults 100 (Some 2) = Inr c"
      "pc_be_trigger_delta c = Some 2" by (auto split: sum.splits)
  from built_config_faithful [OF c(1)] c show ?thesis by blast
qed

end
