(* ===== verification/QuantSignals.thy ===== *)
theory QuantSignals
  imports Aggregator MarketData
begin

text \<open>
  \<^verbatim>\<open>backend/quant_signals\<close>: the seven signals of a snapshot, one module each, and
  \<^verbatim>\<open>compute_quant_signals\<close>, which packs them. The functions of C's math library are a parameter
  \<open>math\<close>; the rationales, which only the audit stores, are left out.
\<close>

record math_lib =
  m_tanh :: "rat \<Rightarrow> rat"
  m_sqrt :: "rat \<Rightarrow> rat"
  m_square :: "rat \<Rightarrow> rat"

subsection \<open>Timeframes\<close>

datatype timeframe = TF_5m | TF_15m | TF_1h | TF_4h

definition TIMEFRAMES :: "timeframe list" where
  "TIMEFRAMES = [TF_5m, TF_15m, TF_1h, TF_4h]"

fun TF_WEIGHTS :: "timeframe \<Rightarrow> rat" where
  "TF_WEIGHTS TF_5m = fl (10/100)"
| "TF_WEIGHTS TF_15m = fl (20/100)"
| "TF_WEIGHTS TF_1h = fl (30/100)"
| "TF_WEIGHTS TF_4h = fl (40/100)"

fun candle_of :: "candles \<Rightarrow> timeframe \<Rightarrow> candle_data" where
  "candle_of c TF_5m = tf_5m c"
| "candle_of c TF_15m = tf_15m c"
| "candle_of c TF_1h = tf_1h c"
| "candle_of c TF_4h = tf_4h c"

fun history_of :: "candles \<Rightarrow> timeframe \<Rightarrow> candle_data list" where
  "history_of c TF_5m = history_5m c"
| "history_of c TF_15m = history_15m c"
| "history_of c TF_1h = history_1h c"
| "history_of c TF_4h = history_4h c"

definition clip :: "rat \<Rightarrow> rat" where
  "clip x = max (- 1) (min 1 x)"

text \<open>The weighted sum over the timeframes, clipped, with which three of the modules end.\<close>

definition weighted_signal :: "(timeframe \<Rightarrow> rat) \<Rightarrow> rat" where
  "weighted_signal f = clip (fsum (map (\<lambda>tf. fmul (TF_WEIGHTS tf) (f tf)) TIMEFRAMES))"

subsection \<open>Momentum\<close>

fun TF_ROC_THRESHOLD :: "timeframe \<Rightarrow> rat" where
  "TF_ROC_THRESHOLD TF_5m = fl (2/1000)"
| "TF_ROC_THRESHOLD TF_15m = fl (4/1000)"
| "TF_ROC_THRESHOLD TF_1h = fl (10/1000)"
| "TF_ROC_THRESHOLD TF_4h = fl (20/1000)"

definition roc :: "candle_data \<Rightarrow> rat" where
  "roc c = (if cd_open c = 0 then 0 else fl (ddiv (dsub (cd_close c) (cd_open c)) (cd_open c)))"

definition calculate_momentum :: "math_lib \<Rightarrow> market_snapshot \<Rightarrow> rat" where
  "calculate_momentum math s =
     weighted_signal (\<lambda>tf. m_tanh math (fdiv (roc (candle_of (ms_candles s) tf)) (TF_ROC_THRESHOLD tf)))"

subsection \<open>Mean reversion\<close>

definition MIN_CV :: rat where
  "MIN_CV = fl (1/1000000)"

definition compute_mean_reversion_signal :: "math_lib \<Rightarrow> market_snapshot \<Rightarrow> rat result" where
  "compute_mean_reversion_signal math s =
     (let closes = map (\<lambda>tf. fl (cd_close (candle_of (ms_candles s) tf))) TIMEFRAMES;
          n = of_nat (length closes);
          mean = fdiv (fsum closes) n;
          variance = fdiv (fsum (map (\<lambda>c. m_square math (fsub c mean)) closes)) n;
          std = m_sqrt math variance
      in if mean = 0 then Inl ZeroDivisionError
         else if fdiv std mean < MIN_CV then Inr 0
         else Inr (m_tanh math (fdiv (fsub mean (fl (ms_last_price s))) std)))"

subsection \<open>Breakout\<close>

definition BREAKOUT_THRESHOLD :: rat where
  "BREAKOUT_THRESHOLD = fl (1/100)"

definition INSIDE_ATTENUATION :: rat where
  "INSIDE_ATTENUATION = fl (1/10)"

definition MIN_VOL_FACTOR :: rat where
  "MIN_VOL_FACTOR = fl (2/10)"

definition vol_rate :: "rat \<Rightarrow> rat \<Rightarrow> rat" where
  "vol_rate volume minutes = fdiv (fl volume) minutes"

definition raw_breakout :: "math_lib \<Rightarrow> rat \<Rightarrow> rat \<Rightarrow> rat \<Rightarrow> rat result" where
  "raw_breakout math box_top box_bottom last_price =
     (if box_top < last_price then
        (if box_top = 0 then Inl ZeroDivisionError
         else Inr (m_tanh math (fdiv (fdiv (fsub last_price box_top) box_top) BREAKOUT_THRESHOLD)))
      else if last_price < box_bottom then
        (if box_bottom = 0 then Inl ZeroDivisionError
         else Inr (m_tanh math (fdiv (fdiv (fsub last_price box_bottom) box_bottom) BREAKOUT_THRESHOLD)))
      else let mid = fdiv (fadd box_top box_bottom) 2 in
        if mid = 0 then Inr 0
        else Inr (fmul (m_tanh math (fdiv (fdiv (fsub last_price mid) mid) BREAKOUT_THRESHOLD)) INSIDE_ATTENUATION))"

definition volume_factor :: "candles \<Rightarrow> rat" where
  "volume_factor c =
     (let vol_5m_rate = vol_rate (cd_volume (tf_5m c)) 5;
          vol_1h_rate = vol_rate (cd_volume (tf_1h c)) 60;
          vol_4h_rate = vol_rate (cd_volume (tf_4h c)) 240;
          baseline_rate = fdiv (fadd vol_1h_rate vol_4h_rate) 2
      in if baseline_rate \<le> 0 then 1 else max MIN_VOL_FACTOR (min 1 (fdiv vol_5m_rate baseline_rate)))"

definition calculate_breakout :: "math_lib \<Rightarrow> market_snapshot \<Rightarrow> rat result" where
  "calculate_breakout math s =
     bindE (raw_breakout math (fl (cd_high (tf_4h (ms_candles s)))) (fl (cd_low (tf_4h (ms_candles s))))
              (fl (ms_last_price s)))
       (\<lambda>raw. Inr (clip (fmul raw (volume_factor (ms_candles s)))))"

subsection \<open>Funding and open interest\<close>

definition FUNDING_SCALE :: rat where
  "FUNDING_SCALE = fl (3/10000)"

definition compute_funding_signal :: "math_lib \<Rightarrow> market_snapshot \<Rightarrow> rat" where
  "compute_funding_signal math s =
     (case ms_funding_rate s of
        None \<Rightarrow> 0
      | Some rate \<Rightarrow> clip (- m_tanh math (fdiv rate FUNDING_SCALE)))"

definition compute_open_interest_signal :: "math_lib \<Rightarrow> market_snapshot \<Rightarrow> rat result" where
  "compute_open_interest_signal math s =
     (case ms_open_interest s of
        None \<Rightarrow> Inr 0
      | Some oi \<Rightarrow>
          if ms_volume s = 0 then Inr 0
          else if fl (ms_volume s) = 0 then Inl ZeroDivisionError
          else let ratio = fdiv (fl oi) (fl (ms_volume s))
               in Inr (clip (- m_tanh math (fdiv (fsub ratio 1) 1))))"

subsection \<open>Order flow\<close>

definition candle_ofi :: "candle_data \<Rightarrow> rat" where
  "candle_ofi c =
     (let price_range = dsub (cd_high c) (cd_low c) in
      if price_range = 0 then 0
      else clip (fl (ddiv (dsub (dsub (dmul 2 (cd_close c)) (cd_high c)) (cd_low c)) price_range)))"

definition calculate_order_flow_imbalance :: "market_snapshot \<Rightarrow> rat" where
  "calculate_order_flow_imbalance s = weighted_signal (\<lambda>tf. candle_ofi (candle_of (ms_candles s) tf))"

subsection \<open>Liquidity sweeps\<close>

fun TF_SWEEP_THRESHOLD :: "timeframe \<Rightarrow> rat" where
  "TF_SWEEP_THRESHOLD TF_5m = fl (25/100)"
| "TF_SWEEP_THRESHOLD TF_15m = fl (25/100)"
| "TF_SWEEP_THRESHOLD TF_1h = fl (28/100)"
| "TF_SWEEP_THRESHOLD TF_4h = fl (30/100)"

definition MIN_RANGE :: rat where
  "MIN_RANGE = fl (1/100000000)"

definition SWING_LOOKBACK :: nat where
  "SWING_LOOKBACK = 3"

definition MIN_HISTORY_LEN :: nat where
  "MIN_HISTORY_LEN = 2 * SWING_LOOKBACK + 1"

definition HISTORICAL_WEIGHT :: rat where
  "HISTORICAL_WEIGHT = fl (6/10)"

definition wick_metrics :: "candle_data \<Rightarrow> rat \<times> rat \<times> rat" where
  "wick_metrics c =
     (let high = fl (cd_high c); low = fl (cd_low c); open' = fl (cd_open c); close = fl (cd_close c);
          body_top = max open' close; body_bot = min open' close
      in (fsub high low, fsub body_bot low, fsub high body_top))"

definition proxy_score :: "math_lib \<Rightarrow> candle_data \<Rightarrow> rat \<Rightarrow> rat" where
  "proxy_score math c threshold =
     (case wick_metrics c of
        (candle_range, lower_wick, upper_wick) \<Rightarrow>
          if MIN_RANGE \<le> candle_range then
            let wick_imbalance = fdiv (fsub lower_wick upper_wick) candle_range;
                wick_fraction = fdiv (fadd lower_wick upper_wick) candle_range;
                raw_score = fmul wick_imbalance wick_fraction
            in m_tanh math (fdiv raw_score threshold)
          else 0)"

text \<open>
  \<^verbatim>\<open>_find_swing_lows\<close> and \<^verbatim>\<open>_find_swing_highs\<close>: the pivots that lie strictly on one side of every
  neighbour within the lookback.
\<close>

definition pivots :: "(rat \<Rightarrow> rat \<Rightarrow> bool) \<Rightarrow> rat list \<Rightarrow> nat \<Rightarrow> rat list" where
  "pivots beats xs lookback =
     map (\<lambda>i. xs ! i)
       (filter (\<lambda>i. list_all (\<lambda>j. j \<noteq> i \<longrightarrow> beats (xs ! i) (xs ! j)) [i - lookback..<i + lookback + 1])
          [lookback..<length xs - lookback])"

definition find_swing_lows :: "candle_data list \<Rightarrow> nat \<Rightarrow> rat list" where
  "find_swing_lows history lookback = pivots (<) (map (\<lambda>c. fl (cd_low c)) history) lookback"

definition find_swing_highs :: "candle_data list \<Rightarrow> nat \<Rightarrow> rat list" where
  "find_swing_highs history lookback = pivots (>) (map (\<lambda>c. fl (cd_high c)) history) lookback"

text \<open>The best score over the levels that the candle pierced and came back from.\<close>

definition best_sweep :: "math_lib \<Rightarrow> (rat \<Rightarrow> bool) \<Rightarrow> (rat \<Rightarrow> rat) \<Rightarrow> (rat \<Rightarrow> rat) \<Rightarrow> rat list \<Rightarrow> rat" where
  "best_sweep math swept penetration recovery levels =
     foldl (\<lambda>best level.
         if swept level then
           let score = m_tanh math (fadd (penetration level) (recovery level))
           in if best < score then score else best
         else best) 0 levels"

definition historical_score :: "math_lib \<Rightarrow> candle_data \<Rightarrow> candle_data list \<Rightarrow> nat \<Rightarrow> rat" where
  "historical_score math c history lookback =
     (let low = fl (cd_low c); high = fl (cd_high c); close = fl (cd_close c);
          candle_range = fsub high low;
          denom = (if MIN_RANGE \<le> candle_range then candle_range else 1);
          best_bull = best_sweep math (\<lambda>l. low < l \<and> l < close)
            (\<lambda>l. fdiv (fsub l low) denom) (\<lambda>l. fdiv (fsub close l) denom) (find_swing_lows history lookback);
          best_bear = best_sweep math (\<lambda>l. l < high \<and> close < l)
            (\<lambda>l. fdiv (fsub high l) denom) (\<lambda>l. fdiv (fsub l close) denom) (find_swing_highs history lookback)
      in if best_bear \<le> best_bull then best_bull else - best_bear)"

definition blended_score :: "math_lib \<Rightarrow> candles \<Rightarrow> timeframe \<Rightarrow> rat" where
  "blended_score math cs tf =
     (let c = candle_of cs tf;
          history = history_of cs tf;
          proxy = proxy_score math c (TF_SWEEP_THRESHOLD tf)
      in if MIN_HISTORY_LEN \<le> length history
         then fadd (fmul HISTORICAL_WEIGHT (historical_score math c history SWING_LOOKBACK))
                   (fmul (fsub 1 HISTORICAL_WEIGHT) proxy)
         else proxy)"

definition calculate_liquidity_sweeps :: "math_lib \<Rightarrow> market_snapshot \<Rightarrow> rat" where
  "calculate_liquidity_sweeps math s = weighted_signal (blended_score math (ms_candles s))"

subsection \<open>The package\<close>

definition signal_in_range :: "rat option \<Rightarrow> bool" where
  "signal_in_range v = (case v of None \<Rightarrow> True | Some x \<Rightarrow> - 1 \<le> x \<and> x \<le> 1)"

definition score_in_range :: "rat option \<Rightarrow> bool" where
  "score_in_range v = (case v of None \<Rightarrow> True | Some x \<Rightarrow> 0 \<le> x \<and> x \<le> 1)"

definition make_quant_package :: "market_snapshot \<Rightarrow> quant_signals_package \<Rightarrow> quant_signals_package result" where
  "make_quant_package s q =
     (if list_all signal_in_range
           [qs_momentum_signal q, qs_mean_reversion_signal q, qs_breakout_signal q, qs_funding_signal q,
            qs_open_interest_signal q, qs_order_flow_imbalance_signal q, qs_liquidity_sweep_signal q]
         \<and> score_in_range (qs_signal_strength_score q) \<and> score_in_range (qs_signal_conflict_score q)
         \<and> uuid_valid (ms_snapshot_id s) \<and> List.member allowed_symbols (ms_symbol s)
      then Inr q else Inl ValidationError)"

definition compute_quant_signals :: "math_lib \<Rightarrow> market_snapshot \<Rightarrow> quant_signals_package result" where
  "compute_quant_signals math s =
     bindE (calculate_breakout math s) (\<lambda>breakout.
     bindE (compute_mean_reversion_signal math s) (\<lambda>mean_reversion.
     bindE (compute_open_interest_signal math s) (\<lambda>open_interest.
     make_quant_package s
       \<lparr>qs_momentum_signal = Some (calculate_momentum math s),
        qs_mean_reversion_signal = Some mean_reversion,
        qs_breakout_signal = Some breakout,
        qs_funding_signal = Some (compute_funding_signal math s),
        qs_open_interest_signal = Some open_interest,
        qs_order_flow_imbalance_signal = Some (calculate_order_flow_imbalance s),
        qs_liquidity_sweep_signal = Some (calculate_liquidity_sweeps math s),
        qs_signal_strength_score = None, qs_signal_conflict_score = None\<rparr>)))"

subsection \<open>Lemmas\<close>

text \<open>The documented range of \<^verbatim>\<open>math.tanh\<close>.\<close>

definition tanh_bounded :: "math_lib \<Rightarrow> bool" where
  "tanh_bounded math \<longleftrightarrow> (\<forall>x. - 1 \<le> m_tanh math x \<and> m_tanh math x \<le> 1)"

lemma clip_range [simp]: "- 1 \<le> clip x" "clip x \<le> 1"
  by (simp_all add: clip_def)

lemma signal_in_range_clip [simp]: "signal_in_range (Some (clip x))"
  by (simp add: signal_in_range_def)

lemma signal_in_range_0 [simp]: "signal_in_range (Some 0)"
  by (simp add: signal_in_range_def)

lemma weighted_signal_range [simp]: "signal_in_range (Some (weighted_signal f))"
  by (simp add: weighted_signal_def)

lemma funding_range [simp]: "signal_in_range (Some (compute_funding_signal math s))"
  by (simp add: compute_funding_signal_def split: option.split)

lemma momentum_range [simp]: "signal_in_range (Some (calculate_momentum math s))"
  by (simp add: calculate_momentum_def)

lemma sweeps_range [simp]: "signal_in_range (Some (calculate_liquidity_sweeps math s))"
  by (simp add: calculate_liquidity_sweeps_def)

lemma order_flow_range [simp]: "signal_in_range (Some (calculate_order_flow_imbalance s))"
  by (simp add: calculate_order_flow_imbalance_def)

lemma breakout_range: "calculate_breakout math s = Inr x \<Longrightarrow> signal_in_range (Some x)"
  by (auto simp: calculate_breakout_def bindE_Inr_iff)

lemma open_interest_range: "compute_open_interest_signal math s = Inr x \<Longrightarrow> signal_in_range (Some x)"
  by (auto simp: compute_open_interest_signal_def Let_def split: option.splits if_splits)

lemma mean_reversion_range:
  "tanh_bounded math \<Longrightarrow> compute_mean_reversion_signal math s = Inr x \<Longrightarrow> signal_in_range (Some x)"
  by (auto simp: compute_mean_reversion_signal_def Let_def tanh_bounded_def signal_in_range_def split: if_splits)

lemma swing_lows_pivot:
  assumes "l \<in> set (find_swing_lows history k)"
  obtains i where "k \<le> i" "i + k < length history" "l = fl (cd_low (history ! i))"
    "\<And>j. i - k \<le> j \<Longrightarrow> j \<le> i + k \<Longrightarrow> j \<noteq> i \<Longrightarrow> l < fl (cd_low (history ! j))"
  using assms by (force simp: find_swing_lows_def pivots_def list_all_iff)

lemma best_sweep_nonneg: "0 \<le> best_sweep math sw p r levels"
proof -
  have "b \<le> foldl (\<lambda>best level. if sw level then let score = m_tanh math (fadd (p level) (r level))
          in if best < score then score else best else best) b levels" for b
    by (induction levels arbitrary: b) (auto simp: Let_def intro: order_trans [OF less_imp_le])
  then show ?thesis by (simp add: best_sweep_def)
qed

lemma quant_package_unscored:
  assumes "compute_quant_signals math s = Inr q"
  shows "qs_signal_strength_score q = None" "qs_signal_conflict_score q = None"
  using assms by (auto simp: compute_quant_signals_def make_quant_package_def bindE_Inr_iff split: if_splits)

end
