(* ===== verification/MarketRegime.thy ===== *)
theory MarketRegime
  imports ModelDecision MarketData
begin

text \<open>
  \<^verbatim>\<open>backend/market_regime\<close>: the classifiers of a snapshot, evaluated on its candles in floating point,
  and \<^verbatim>\<open>MarketRegimeEngine.assess\<close>. The explanatory notes of an assessment are left out.
\<close>

datatype volatility_state = VOL_HIGH | VOL_NORMAL | VOL_LOW
datatype liquidity_state = LIQ_HIGH | LIQ_NORMAL | LIQ_LOW
datatype funding_state = FUND_POSITIVE | FUND_NEUTRAL | FUND_NEGATIVE | FUND_EXTREME
datatype open_interest_state = OI_RISING | OI_STABLE | OI_FALLING | OI_UNKNOWN
datatype trend_alignment = BULLISH | BEARISH | MIXED | NEUTRAL

record regime_assessment =
  ra_snapshot_id :: string
  ra_symbol :: symbol
  ra_timestamp_utc :: int
  ra_primary_regime :: primary_regime
  ra_secondary_regime :: "primary_regime option"
  ra_regime_confidence :: rat
  ra_volatility_state :: volatility_state
  ra_liquidity_state :: liquidity_state
  ra_funding_state :: funding_state
  ra_open_interest_state :: open_interest_state
  ra_trend_alignment :: trend_alignment

definition make_regime_assessment :: "regime_assessment \<Rightarrow> regime_assessment result" where
  "make_regime_assessment a =
     (if 0 \<le> ra_regime_confidence a \<and> ra_regime_confidence a \<le> 1
         \<and> uuid_valid (ra_snapshot_id a) \<and> List.member allowed_symbols (ra_symbol a)
      then Inr a else Inl ValidationError)"

subsection \<open>Thresholds\<close>

definition HIGH_VOL_RANGE_PCT :: rat where "HIGH_VOL_RANGE_PCT = 4"
definition LOW_VOL_RANGE_PCT :: rat where "LOW_VOL_RANGE_PCT = fl (3/10)"
definition HIGH_SPREAD_PCT :: rat where "HIGH_SPREAD_PCT = fl (15/10)"
definition LOW_SPREAD_PCT :: rat where "LOW_SPREAD_PCT = fl (5/100)"
definition BODY_RATIO_WEAK :: rat where "BODY_RATIO_WEAK = fl (35/100)"
definition CLOSE_POS_BULLISH :: rat where "CLOSE_POS_BULLISH = fl (70/100)"
definition CLOSE_POS_BEARISH :: rat where "CLOSE_POS_BEARISH = fl (30/100)"
definition BREAKOUT_BODY_RATIO :: rat where "BREAKOUT_BODY_RATIO = fl (75/100)"
definition BREAKOUT_RANGE_PCT :: rat where "BREAKOUT_RANGE_PCT = fl (15/10)"
definition TREND_BODY_1H :: rat where "TREND_BODY_1H = fl (50/100)"
definition TREND_BODY_4H :: rat where "TREND_BODY_4H = fl (40/100)"
definition FUNDING_EXTREME :: rat where "FUNDING_EXTREME = fl (2/1000)"
definition FUNDING_POSITIVE :: rat where "FUNDING_POSITIVE = fl (1/10000)"
definition FUNDING_NEGATIVE :: rat where "FUNDING_NEGATIVE = - fl (1/10000)"

subsection \<open>Candles\<close>

definition candle_metrics :: "candle_data \<Rightarrow> rat \<times> rat" where
  "candle_metrics c =
     (let candle_range = fl (dsub (cd_high c) (cd_low c)) in
      if candle_range = 0 then (0, 1/2)
      else let body = \<bar>fl (dsub (cd_close c) (cd_open c))\<bar>
           in (fdiv body candle_range, fdiv (fl (dsub (cd_close c) (cd_low c))) candle_range))"

definition range_pct :: "candle_data \<Rightarrow> rat" where
  "range_pct c =
     (let close = fl (cd_close c) in
      if close = 0 then 0 else fmul (fdiv (fl (dsub (cd_high c) (cd_low c))) close) 100)"

definition is_bullish_close :: "rat \<Rightarrow> bool" where
  "is_bullish_close p \<longleftrightarrow> CLOSE_POS_BULLISH \<le> p"

definition is_bearish_close :: "rat \<Rightarrow> bool" where
  "is_bearish_close p \<longleftrightarrow> p \<le> CLOSE_POS_BEARISH"

subsection \<open>States\<close>

definition assess_volatility_state :: "market_snapshot \<Rightarrow> volatility_state" where
  "assess_volatility_state s =
     (let range_1h_pct = range_pct (tf_1h (ms_candles s)) in
      if HIGH_VOL_RANGE_PCT \<le> range_1h_pct then VOL_HIGH
      else if range_1h_pct \<le> LOW_VOL_RANGE_PCT then VOL_LOW else VOL_NORMAL)"

definition assess_liquidity_state :: "market_snapshot \<Rightarrow> liquidity_state" where
  "assess_liquidity_state s =
     (let spread_pct = fl (ms_spread_percent s) in
      if HIGH_SPREAD_PCT \<le> spread_pct then LIQ_LOW
      else if spread_pct \<le> LOW_SPREAD_PCT then LIQ_HIGH else LIQ_NORMAL)"

definition assess_funding_state :: "market_snapshot \<Rightarrow> funding_state" where
  "assess_funding_state s =
     (case ms_funding_rate s of
        None \<Rightarrow> FUND_NEUTRAL
      | Some rate \<Rightarrow>
          if FUNDING_EXTREME \<le> \<bar>rate\<bar> then FUND_EXTREME
          else if FUNDING_POSITIVE \<le> rate then FUND_POSITIVE
          else if rate \<le> FUNDING_NEGATIVE then FUND_NEGATIVE else FUND_NEUTRAL)"

definition assess_open_interest_state :: "market_snapshot \<Rightarrow> open_interest_state" where
  "assess_open_interest_state s = (if ms_open_interest s = None then OI_UNKNOWN else OI_STABLE)"

definition close_positions :: "market_snapshot \<Rightarrow> rat list" where
  "close_positions s =
     map (\<lambda>c. snd (candle_metrics c))
       [tf_5m (ms_candles s), tf_15m (ms_candles s), tf_1h (ms_candles s), tf_4h (ms_candles s)]"

definition assess_trend_alignment :: "market_snapshot \<Rightarrow> trend_alignment" where
  "assess_trend_alignment s =
     (let ps = close_positions s;
          bullish_count = length (filter is_bullish_close ps);
          bearish_count = length (filter (\<lambda>p. \<not> is_bullish_close p \<and> is_bearish_close p) ps)
      in if 3 \<le> bullish_count then BULLISH
         else if 3 \<le> bearish_count then BEARISH
         else if 0 < bullish_count \<and> 0 < bearish_count then MIXED else NEUTRAL)"

subsection \<open>Regimes\<close>

definition classify_secondary_regime ::
    "primary_regime \<Rightarrow> volatility_state \<Rightarrow> trend_alignment \<Rightarrow> primary_regime option" where
  "classify_secondary_regime primary vol trend =
     (if primary = BREAKOUT then Some TRENDING
      else if List.member [TRENDING, RANGING] primary \<and> vol = VOL_HIGH then Some HIGH_VOLATILITY
      else if List.member [TRENDING, RANGING] primary \<and> vol = VOL_LOW then Some LOW_VOLATILITY
      else if primary = UNCLEAR \<and> List.member [BULLISH, BEARISH] trend then Some TRENDING
      else None)"

definition classify_primary_regime ::
    "market_snapshot \<Rightarrow> volatility_state \<Rightarrow> trend_alignment \<Rightarrow> primary_regime \<times> rat" where
  "classify_primary_regime s vol trend =
     (let (body_ratio_1h, close_pos_1h) = candle_metrics (tf_1h (ms_candles s));
          (body_ratio_4h, _) = candle_metrics (tf_4h (ms_candles s));
          range_1h_pct = range_pct (tf_1h (ms_candles s)) in
      if vol = VOL_HIGH then
        (HIGH_VOLATILITY,
         fround 3 (min 1 (fadd (fl (6/10)) (fdiv (fsub range_1h_pct HIGH_VOL_RANGE_PCT) HIGH_VOL_RANGE_PCT))))
      else if vol = VOL_LOW then
        (LOW_VOLATILITY,
         fround 3 (min 1 (fadd (fl (6/10)) (fdiv (fsub LOW_VOL_RANGE_PCT range_1h_pct) LOW_VOL_RANGE_PCT))))
      else if BREAKOUT_BODY_RATIO \<le> body_ratio_1h
              \<and> (is_bullish_close close_pos_1h \<or> is_bearish_close close_pos_1h)
              \<and> BREAKOUT_RANGE_PCT \<le> range_1h_pct then
        (BREAKOUT, fround 3 (min 1 (fadd (fmul body_ratio_1h (1/2)) (1/2))))
      else if TREND_BODY_1H \<le> body_ratio_1h \<and> TREND_BODY_4H \<le> body_ratio_4h
              \<and> List.member [BULLISH, BEARISH] trend then
        (TRENDING,
         fround 3 (min 1 (fadd (fmul (fdiv (fadd body_ratio_1h body_ratio_4h) 2) (fl (8/10))) (fl (2/10)))))
      else if body_ratio_1h \<le> BODY_RATIO_WEAK
              \<and> CLOSE_POS_BEARISH < close_pos_1h \<and> close_pos_1h < CLOSE_POS_BULLISH then
        (RANGING,
         fround 3 (min 1 (fadd (1/2) (fmul (fdiv (fsub BODY_RATIO_WEAK body_ratio_1h) BODY_RATIO_WEAK) (1/2)))))
      else (UNCLEAR, fl (3/10)))"

definition assess :: "market_snapshot \<Rightarrow> regime_assessment result" where
  "assess s =
     (let vol = assess_volatility_state s;
          trend = assess_trend_alignment s;
          (primary, confidence) = classify_primary_regime s vol trend
      in make_regime_assessment
           \<lparr>ra_snapshot_id = ms_snapshot_id s, ra_symbol = ms_symbol s, ra_timestamp_utc = ms_timestamp_utc s,
            ra_primary_regime = primary,
            ra_secondary_regime = classify_secondary_regime primary vol trend,
            ra_regime_confidence = confidence, ra_volatility_state = vol,
            ra_liquidity_state = assess_liquidity_state s, ra_funding_state = assess_funding_state s,
            ra_open_interest_state = assess_open_interest_state s, ra_trend_alignment = trend\<rparr>)"

subsection \<open>Lemmas\<close>

lemma fdiv_nonneg: "0 \<le> x \<Longrightarrow> 0 \<le> y \<Longrightarrow> 0 \<le> fdiv x y"
  by (simp add: fdiv_def flt.rd_nonneg)

lemma fmul_nonneg: "0 \<le> x \<Longrightarrow> 0 \<le> y \<Longrightarrow> 0 \<le> fmul x y"
  by (simp add: fmul_def flt.rd_nonneg)

lemma fadd_nonneg: "0 \<le> x \<Longrightarrow> 0 \<le> y \<Longrightarrow> 0 \<le> fadd x y"
  by (simp add: fadd_def flt.rd_nonneg)

lemma fsub_nonneg: "y \<le> x \<Longrightarrow> 0 \<le> fsub x y"
  by (simp add: fsub_def flt.rd_nonneg)

lemmas float_nonneg = fdiv_nonneg fmul_nonneg fadd_nonneg fsub_nonneg

lemma round_min_unit: "0 \<le> x \<Longrightarrow> 0 \<le> fround n (min 1 x) \<and> fround n (min 1 x) \<le> 1"
  by (rule fround_unit) simp_all

lemma fl_quarter: "fl (1/4) = 1/4"
  by code_simp

lemma regime_thresholds_pos: "0 < LOW_VOL_RANGE_PCT" "0 < BODY_RATIO_WEAK" "0 < BREAKOUT_BODY_RATIO"
    "0 < TREND_BODY_1H" "0 < TREND_BODY_4H"
  using flt.rd_ge [OF fl_quarter, of "3/10"] flt.rd_ge [OF fl_quarter, of "35/100"]
    flt.rd_ge [OF fl_quarter, of "75/100"] flt.rd_ge [OF fl_quarter, of "50/100"]
    flt.rd_ge [OF fl_quarter, of "40/100"]
  by (simp_all add: LOW_VOL_RANGE_PCT_def BODY_RATIO_WEAK_def BREAKOUT_BODY_RATIO_def TREND_BODY_1H_def
      TREND_BODY_4H_def)

text \<open>Every branch of the classification answers a confidence in the unit interval.\<close>

lemma classify_primary_regime_unit:
  assumes "vol = assess_volatility_state s" "classify_primary_regime s vol trend = (r, c)"
  shows "0 \<le> c \<and> c \<le> 1"
proof -
  have fr: "0 \<le> fl x" if "0 \<le> x" for x by (rule flt.rd_nonneg) (rule that)
  have "fl (3/10) \<le> 1" using flt.rd_le [of 1 "3/10"] by simp
  moreover have "0 \<le> range_pct (tf_1h (ms_candles s)) - HIGH_VOL_RANGE_PCT" if "vol = VOL_HIGH"
    using that assms(1) by (simp add: assess_volatility_state_def Let_def split: if_splits)
  moreover have "0 \<le> LOW_VOL_RANGE_PCT - range_pct (tf_1h (ms_candles s))" if "vol = VOL_LOW"
    using that assms(1) by (simp add: assess_volatility_state_def Let_def split: if_splits)
  ultimately show ?thesis
    using assms(2) regime_thresholds_pos
    by (auto simp: classify_primary_regime_def Let_def HIGH_VOL_RANGE_PCT_def split: prod.splits if_splits
        intro!: round_min_unit [THEN conjunct1] round_min_unit [THEN conjunct2] float_nonneg fr)
qed

lemma assess_Inr_iff:
  "(\<exists>a. assess s = Inr a) \<longleftrightarrow> uuid_valid (ms_snapshot_id s) \<and> List.member allowed_symbols (ms_symbol s)"
  using classify_primary_regime_unit [OF refl, of s "assess_trend_alignment s"]
  by (auto simp: assess_def make_regime_assessment_def Let_def split: prod.split)

end
