(* ===== verification/Volatility.thy ===== *)
theory Volatility
  imports QuantSignals MarketRegime
begin

text \<open>
  \<^verbatim>\<open>backend/volatility\<close>: the volatility assessment of a snapshot (\<^verbatim>\<open>engine.py\<close>, \<^verbatim>\<open>schemas.py\<close>) and the
  dynamic leverage that combines it with the market regime and the environment (\<^verbatim>\<open>leverage.py\<close>).
\<close>

datatype volatility_regime = EXPANSION | CONTRACTION

record volatility_assessment =
  vo_snapshot_id :: string
  vo_timestamp_utc :: int
  vo_symbol :: symbol
  vo_atr :: "timeframe \<Rightarrow> rat"
  vo_atr_percent :: rat
  vo_realized_vol :: rat
  vo_volatility_regime :: volatility_regime
  vo_volatility_score :: rat
  vo_liquidation_risk_score :: rat
  vo_leverage_cap :: int

definition make_volatility_assessment :: "volatility_assessment \<Rightarrow> volatility_assessment result" where
  "make_volatility_assessment v =
     (if list_all (\<lambda>tf. 0 \<le> vo_atr v tf) TIMEFRAMES
         \<and> 0 \<le> vo_atr_percent v \<and> 0 \<le> vo_realized_vol v
         \<and> 0 \<le> vo_volatility_score v \<and> vo_volatility_score v \<le> 1
         \<and> 0 \<le> vo_liquidation_risk_score v \<and> vo_liquidation_risk_score v \<le> 1
         \<and> 1 \<le> vo_leverage_cap v
         \<and> uuid_valid (vo_snapshot_id v) \<and> List.member allowed_symbols (vo_symbol v)
      then Inr v else Inl ValidationError)"

subsection \<open>The assessment\<close>

definition REALIZED_VOL_THRESHOLD :: rat where
  "REALIZED_VOL_THRESHOLD = fl (1/100)"

definition EXPANSION_THRESHOLD :: rat where
  "EXPANSION_THRESHOLD = 1/2"

definition LEVERAGE_BANDS :: "(rat \<times> int) list" where
  "LEVERAGE_BANDS = [(1/4, 10), (1/2, 7), (3/4, 5), (1, 3)]"

definition ATR_PERCENT_CAP :: rat where
  "ATR_PERCENT_CAP = 1"

definition atr_from_candle :: "candle_data \<Rightarrow> rat" where
  "atr_from_candle c = dsub (cd_high c) (cd_low c)"

definition abs_roc :: "candle_data \<Rightarrow> rat" where
  "abs_roc c = (if cd_open c = 0 then 0 else fl (ddiv \<bar>dsub (cd_close c) (cd_open c)\<bar> (cd_open c)))"

definition range_vol :: "candle_data \<Rightarrow> rat" where
  "range_vol c = (if cd_open c = 0 then 0 else fl (ddiv (dsub (cd_high c) (cd_low c)) (cd_open c)))"

definition leverage_cap_for_score :: "rat \<Rightarrow> int" where
  "leverage_cap_for_score score =
     (case find (\<lambda>(max_score, _). score \<le> max_score) LEVERAGE_BANDS of
        Some (_, cap) \<Rightarrow> cap
      | None \<Rightarrow> snd (last LEVERAGE_BANDS))"

definition compute_volatility_assessment :: "math_lib \<Rightarrow> market_snapshot \<Rightarrow> volatility_assessment result" where
  "compute_volatility_assessment math s =
     (let atrs = (\<lambda>tf. atr_from_candle (candle_of (ms_candles s) tf));
          atr_percent = fmul (fl (ddiv (atrs TF_1h) (ms_last_price s))) 100;
          range_vols = map (\<lambda>tf. range_vol (candle_of (ms_candles s) tf)) TIMEFRAMES;
          realized_vol = fdiv (fsum range_vols) (of_nat (length range_vols));
          raw_score = m_tanh math (fdiv realized_vol REALIZED_VOL_THRESHOLD);
          volatility_score = max 0 (min 1 raw_score);
          atr_percent_norm = min 1 (fdiv atr_percent ATR_PERCENT_CAP)
      in if ms_last_price s = 0 then Inl DivisionByZero
         else make_volatility_assessment
           \<lparr>vo_snapshot_id = ms_snapshot_id s, vo_timestamp_utc = ms_timestamp_utc s, vo_symbol = ms_symbol s,
            vo_atr = atrs, vo_atr_percent = atr_percent, vo_realized_vol = realized_vol,
            vo_volatility_regime = (if EXPANSION_THRESHOLD \<le> volatility_score then EXPANSION else CONTRACTION),
            vo_volatility_score = volatility_score,
            vo_liquidation_risk_score = max 0 (min 1 (fdiv (fadd volatility_score atr_percent_norm) 2)),
            vo_leverage_cap = leverage_cap_for_score volatility_score\<rparr>)"

subsection \<open>Dynamic leverage\<close>

fun REGIME_MULTIPLIERS :: "primary_regime \<Rightarrow> rat" where
  "REGIME_MULTIPLIERS TRENDING = 1"
| "REGIME_MULTIPLIERS RANGING = fl (8/10)"
| "REGIME_MULTIPLIERS HIGH_VOLATILITY = fl (7/10)"
| "REGIME_MULTIPLIERS LOW_VOLATILITY = 1"
| "REGIME_MULTIPLIERS BREAKOUT = fl (7/10)"
| "REGIME_MULTIPLIERS UNCLEAR = fl (5/10)"

record dynamic_leverage =
  dy_suggested_leverage :: int
  dy_vol_cap :: int
  dy_regime_adjusted :: int
  dy_env_cap :: int

definition make_dynamic_leverage :: "dynamic_leverage \<Rightarrow> dynamic_leverage result" where
  "make_dynamic_leverage r =
     (if 1 \<le> dy_suggested_leverage r \<and> 1 \<le> dy_vol_cap r \<and> 1 \<le> dy_regime_adjusted r \<and> 1 \<le> dy_env_cap r
      then Inr r else Inl ValidationError)"

definition compute_dynamic_leverage ::
    "volatility_assessment \<Rightarrow> primary_regime \<Rightarrow> environment \<Rightarrow> leverage_config \<Rightarrow> dynamic_leverage result" where
  "compute_dynamic_leverage v regime env lc =
     (let vol_cap = vo_leverage_cap v;
          regime_adjusted = max 1 \<lfloor>fmul (of_int vol_cap) (REGIME_MULTIPLIERS regime)\<rfloor>;
          env_cap = cap_for_env lc env
      in make_dynamic_leverage
           \<lparr>dy_suggested_leverage = min regime_adjusted env_cap, dy_vol_cap = vol_cap,
            dy_regime_adjusted = regime_adjusted, dy_env_cap = env_cap\<rparr>)"

subsection \<open>Lemmas\<close>

lemma leverage_cap_for_score_bounds: "3 \<le> leverage_cap_for_score x" "leverage_cap_for_score x \<le> 10"
  by (simp_all add: leverage_cap_for_score_def LEVERAGE_BANDS_def)

lemma leverage_cap_for_score_antimono:
  "x \<le> y \<Longrightarrow> leverage_cap_for_score y \<le> leverage_cap_for_score x"
  by (auto simp: leverage_cap_for_score_def LEVERAGE_BANDS_def)

lemma regime_multiplier_unit: "REGIME_MULTIPLIERS r \<le> 1"
  using flt.rd_le [of 1 "8/10"] flt.rd_le [of 1 "7/10"] flt.rd_le [of 1 "5/10"]
  by (cases r) simp_all

text \<open>The suggestion never exceeds the volatility cap nor the cap of the environment.\<close>

lemma dynamic_leverage_capped:
  assumes "compute_dynamic_leverage v regime env lc = Inr r" "vo_leverage_cap v < 2 ^ 53"
  shows "1 \<le> dy_suggested_leverage r" "dy_suggested_leverage r \<le> vo_leverage_cap v"
    "dy_suggested_leverage r \<le> cap_for_env lc env"
proof -
  define n where "n = vo_leverage_cap v"
  have n: "1 \<le> n" "n < 2 ^ 53"
    using assms by (auto simp: compute_dynamic_leverage_def make_dynamic_leverage_def Let_def n_def
        split: if_splits)
  have "fl (of_int n) = of_int n" using n by (intro fl_int) simp
  moreover have "of_int n * REGIME_MULTIPLIERS regime \<le> of_int n * (1 :: rat)"
    using n by (intro mult_left_mono regime_multiplier_unit) simp
  ultimately have "fmul (of_int n) (REGIME_MULTIPLIERS regime) \<le> of_int n"
    using flt.rd_le [of "of_int n"] by (simp add: fmul_def)
  then have "\<lfloor>fmul (of_int n) (REGIME_MULTIPLIERS regime)\<rfloor> \<le> n" by linarith
  with assms(1) n show "1 \<le> dy_suggested_leverage r" "dy_suggested_leverage r \<le> vo_leverage_cap v"
    "dy_suggested_leverage r \<le> cap_for_env lc env"
    by (auto simp: compute_dynamic_leverage_def make_dynamic_leverage_def Let_def n_def split: if_splits)
qed

lemma range_vol_nonneg: "cd_low c \<le> cd_high c \<Longrightarrow> 0 \<le> cd_open c \<Longrightarrow> 0 \<le> range_vol c"
  by (simp add: range_vol_def flt.rd_nonneg dsub_def dcm.rd_nonneg ddiv_nonneg)

end
