(* ===== verification/Storage.thy ===== *)
theory Storage
  imports RiskEngine BotStateMachine
begin

text \<open>
  \<^verbatim>\<open>backend/storage\<close>: the tables that the modelled code reads and writes (\<^verbatim>\<open>models.py\<close>), the unit of work of a
  SQLAlchemy session, and the repositories of \<^verbatim>\<open>repositories/base.py\<close>, \<^verbatim>\<open>bot.py\<close>, \<^verbatim>\<open>trades.py\<close> and the
  volatility repository of \<^verbatim>\<open>snapshots.py\<close>. A table is the list of its rows in insertion order; instants are
  microseconds since the epoch. Columns that no modelled code uses are left out. A session sees its own
  flushed work; \<^verbatim>\<open>commit\<close> publishes it and \<^verbatim>\<open>rollback\<close> returns to what was committed. Where SQL leaves the
  order of equal keys open, the model takes the earlier row.
\<close>

subsection \<open>Rows\<close>

record bot_run_row =
  br_id :: string
  br_started_at :: int
  br_ended_at :: "int option"
  br_environment :: string
  br_status :: string
  br_notes :: "string option"

record bot_state_row =
  bs_bot_run_id :: string
  bs_state :: string
  bs_previous_state :: "string option"
  bs_reason :: "string option"
  bs_created_at :: int

record kill_switch_event =
  ke_bot_run_id :: string
  ke_timestamp :: int
  ke_trigger_reason :: string
  ke_state_before :: string
  ke_action_taken :: string
  ke_requires_manual_review :: bool

record system_event =
  sv_bot_run_id :: string
  sv_timestamp :: int
  sv_event_type :: string
  sv_severity :: string
  sv_message :: string

datatype audit_event = KillSwitchEvent kill_switch_event | SystemEvent system_event

record trade_row =
  td_id :: string
  td_bot_run_id :: string
  td_symbol :: string
  td_direction :: string
  td_entry_price :: "rat option"
  td_margin_usdt :: rat
  td_leverage :: int
  td_quantity :: "rat option"
  td_net_pnl :: "rat option"
  td_status :: string
  td_opened_at :: int
  td_closed_at :: "int option"

record order_row =
  od_id :: string
  od_bot_run_id :: string
  od_trade_id :: "string option"
  od_client_order_id :: string
  od_symbol :: string
  od_order_type :: string
  od_side :: string
  od_quantity :: rat
  od_price :: "rat option"
  od_status :: string
  od_exchange_order_id :: "string option"
  od_created_at :: int
  od_filled_at :: "int option"
  od_fill_price :: "rat option"
  od_fee :: "rat option"
  od_slippage_usdt :: "rat option"
  od_estimated_slippage_usdt :: "rat option"
  od_is_simulated :: bool

record position_row =
  po_id :: string
  po_bot_run_id :: string
  po_trade_id :: "string option"
  po_symbol :: string
  po_direction :: string
  po_quantity :: rat
  po_entry_price :: rat
  po_margin_usdt :: rat
  po_leverage :: int
  po_stop_loss :: "rat option"
  po_take_profit :: "rat option"
  po_status :: string
  po_opened_at :: int

record volatility_row =
  va_bot_run_id :: string
  va_symbol :: string
  va_timestamp :: int
  va_atr :: "rat option"

text \<open>\<^verbatim>\<open>DecisionType\<close> as the rows store it.\<close>

definition direction_value :: "decision_type \<Rightarrow> string" where
  "direction_value t = (case t of LONG \<Rightarrow> ''LONG'' | SHORT \<Rightarrow> ''SHORT'' | NO_OPERAR \<Rightarrow> ''NO_OPERAR'')"

text \<open>The three audit tables of the decision pipeline. The JSON column of a decision is its dump, left out.\<close>

record decision_row =
  dn_id :: string
  dn_bot_run_id :: string
  dn_symbol :: symbol
  dn_action :: string
  dn_direction :: "string option"
  dn_confidence :: "rat option"
  dn_margin_usdt :: "rat option"
  dn_leverage :: "int option"
  dn_stop_loss :: "rat option"
  dn_take_profit :: "rat option"

record aggregation_row =
  gn_id :: string
  gn_bot_run_id :: string
  gn_decision_id :: "string option"
  gn_symbol :: symbol
  gn_quant_score :: "rat option"
  gn_gpt_confidence :: "rat option"
  gn_regime_factor :: "rat option"
  gn_volatility_factor :: "rat option"
  gn_aggregated_score :: "rat option"
  gn_final_action :: string
  gn_contradictions_detected :: "contradiction list"

record validation_row =
  vn_id :: string
  vn_bot_run_id :: string
  vn_decision_aggregation_id :: "string option"
  vn_symbol :: symbol
  vn_result :: string
  vn_original_margin :: "rat option"
  vn_original_leverage :: "int option"
  vn_adjusted_margin :: "rat option"
  vn_adjusted_leverage :: "int option"
  vn_daily_loss_at_check :: "rat option"
  vn_total_loss_at_check :: "rat option"
  vn_reasons :: "(string, audit_reason) dict"

text \<open>The calls of the language model and what they cost. The prompts are columns of their own here.\<close>

record model_request_row =
  mq_id :: string
  mq_bot_run_id :: string
  mq_symbol :: symbol
  mq_model :: string
  mq_system_prompt :: string
  mq_user_prompt :: string
  mq_prompt_version :: string
  mq_request_hash :: string

record model_response_row =
  mp_model_request_id :: string
  mp_raw_response :: string
  mp_normalized_response :: "model_decision option"
  mp_prompt_tokens :: "int option"
  mp_completion_tokens :: "int option"
  mp_total_tokens :: "int option"
  mp_model :: string
  mp_finish_reason :: "string option"
  mp_is_valid_schema :: bool

record token_usage_row =
  tu_bot_run_id :: string
  tu_timestamp :: int
  tu_model :: string
  tu_prompt_tokens :: int
  tu_completion_tokens :: int
  tu_total_tokens :: int

record db =
  db_bot_runs :: "bot_run_row list"
  db_bot_states :: "bot_state_row list"
  db_events :: "audit_event list"
  db_trades :: "trade_row list"
  db_orders :: "order_row list"
  db_positions :: "position_row list"
  db_volatility :: "volatility_row list"
  db_decisions :: "decision_row list"
  db_aggregations :: "aggregation_row list"
  db_validations :: "validation_row list"
  db_model_requests :: "model_request_row list"
  db_model_responses :: "model_response_row list"
  db_token_usage :: "token_usage_row list"

definition db_empty :: db where
  "db_empty = \<lparr>db_bot_runs = [], db_bot_states = [], db_events = [], db_trades = [], db_orders = [],
     db_positions = [], db_volatility = [], db_decisions = [], db_aggregations = [], db_validations = [],
     db_model_requests = [], db_model_responses = [], db_token_usage = []\<rparr>"

subsection \<open>The session\<close>

record session =
  ss_committed :: db
  ss_work :: db
  ss_commits :: nat

definition ss_commit :: "session \<Rightarrow> session" where
  "ss_commit s = s\<lparr>ss_committed := ss_work s, ss_commits := Suc (ss_commits s)\<rparr>"

definition ss_rollback :: "session \<Rightarrow> session" where
  "ss_rollback s = s\<lparr>ss_work := ss_committed s\<rparr>"

definition ss_update :: "(db \<Rightarrow> db) \<Rightarrow> session \<Rightarrow> session" where
  "ss_update f s = s\<lparr>ss_work := f (ss_work s)\<rparr>"

text \<open>
  A \<^verbatim>\<open>begin_nested\<close> block that fails returns to the savepoint \<open>s0\<close>; a commit inside the block has ended the
  savepoint together with its transaction, and only what came after the commit is undone.
\<close>

definition ss_savepoint_rollback :: "session \<Rightarrow> session \<Rightarrow> session" where
  "ss_savepoint_rollback s0 s =
     (if ss_commits s = ss_commits s0 then s\<lparr>ss_work := ss_work s0\<rparr> else ss_rollback s)"

subsection \<open>Queries\<close>

text \<open>\<^verbatim>\<open>order_by(key.desc()).limit(1)\<close>\<close>

definition latest_by :: "('r \<Rightarrow> int) \<Rightarrow> 'r list \<Rightarrow> 'r option" where
  "latest_by key rows =
     foldl (\<lambda>best r. case best of None \<Rightarrow> Some r | Some b \<Rightarrow> if key b < key r then Some r else best) None rows"

definition get_active :: "db \<Rightarrow> bot_run_row option" where
  "get_active d = latest_by br_started_at (filter (\<lambda>r. br_status r = ''RUNNING'') (db_bot_runs d))"

definition get_most_recent :: "db \<Rightarrow> bot_run_row option" where
  "get_most_recent d = latest_by br_started_at (db_bot_runs d)"

definition get_bot_run :: "string \<Rightarrow> db \<Rightarrow> bot_run_row option" where
  "get_bot_run run d = find (\<lambda>r. br_id r = run) (db_bot_runs d)"

definition get_latest_bot_state :: "string \<Rightarrow> db \<Rightarrow> bot_state_row option" where
  "get_latest_bot_state run d =
     latest_by bs_created_at (filter (\<lambda>r. bs_bot_run_id r = run) (db_bot_states d))"

definition update_bot_run :: "string \<Rightarrow> (bot_run_row \<Rightarrow> bot_run_row) \<Rightarrow> db \<Rightarrow> db" where
  "update_bot_run run f d =
     d\<lparr>db_bot_runs := map (\<lambda>r. if br_id r = run then f r else r) (db_bot_runs d)\<rparr>"

text \<open>\<^verbatim>\<open>BotRunRepository.close\<close>\<close>

definition close_run :: "int \<Rightarrow> string \<Rightarrow> bot_run_row \<Rightarrow> bot_run_row" where
  "close_run now status r = r\<lparr>br_status := status, br_ended_at := Some now\<rparr>"

definition bot_run_close :: "int \<Rightarrow> string \<Rightarrow> string \<Rightarrow> db \<Rightarrow> db" where
  "bot_run_close now run status d = update_bot_run run (close_run now status) d"

definition close_orphan_running :: "int \<Rightarrow> string \<Rightarrow> db \<Rightarrow> db" where
  "close_orphan_running now reason d =
     d\<lparr>db_bot_runs := map (\<lambda>r.
         if br_status r = ''RUNNING'' then
           close_run now ''CRASHED''
             (r\<lparr>br_notes := Some (case br_notes r of None \<Rightarrow> reason | Some n \<Rightarrow> n @ CHR 0x0A # reason)\<rparr>)
         else r) (db_bot_runs d)\<rparr>"

text \<open>The insert is checked against the partial unique index \<^verbatim>\<open>uq_bot_runs_single_running\<close>.\<close>

definition insert_bot_run :: "bot_run_row \<Rightarrow> db \<Rightarrow> db result" where
  "insert_bot_run r d =
     (if br_status r = ''RUNNING'' \<and> list_ex (\<lambda>x. br_status x = ''RUNNING'') (db_bot_runs d)
      then Inl IntegrityError else Inr (d\<lparr>db_bot_runs := db_bot_runs d @ [r]\<rparr>))"

definition save_bot_state :: "bot_state_row \<Rightarrow> db \<Rightarrow> db" where
  "save_bot_state r d = d\<lparr>db_bot_states := db_bot_states d @ [r]\<rparr>"

definition add_event :: "audit_event \<Rightarrow> db \<Rightarrow> db" where
  "add_event e d = d\<lparr>db_events := db_events d @ [e]\<rparr>"

subsection \<open>Trades\<close>

definition MICROSECONDS_PER_DAY :: int where
  "MICROSECONDS_PER_DAY = 86400000000"

definition closed_losses :: "string \<Rightarrow> db \<Rightarrow> trade_row list" where
  "closed_losses run d =
     filter (\<lambda>t. td_bot_run_id t = run \<and> td_status t = ''CLOSED''
                 \<and> (case td_net_pnl t of None \<Rightarrow> False | Some p \<Rightarrow> p < 0)) (db_trades d)"

definition sum_pnl :: "trade_row list \<Rightarrow> rat" where
  "sum_pnl ts = (\<Sum>t\<leftarrow>ts. case td_net_pnl t of None \<Rightarrow> 0 | Some p \<Rightarrow> p)"

text \<open>\<^verbatim>\<open>sum\<close> over no row is NULL, read as zero. The database adds exactly; \<^verbatim>\<open>abs\<close> rounds to the context.\<close>

definition get_loss_totals :: "int \<Rightarrow> string \<Rightarrow> db \<Rightarrow> rat \<times> rat" where
  "get_loss_totals now run d =
     (let today_start = now - now mod MICROSECONDS_PER_DAY;
          total = closed_losses run d;
          daily = filter (\<lambda>t. case td_closed_at t of None \<Rightarrow> False | Some c \<Rightarrow> today_start \<le> c) total
      in (dec \<bar>sum_pnl daily\<bar>, dec \<bar>sum_pnl total\<bar>))"

definition closed_trades :: "string \<Rightarrow> db \<Rightarrow> trade_row list" where
  "closed_trades run d =
     filter (\<lambda>t. td_bot_run_id t = run \<and> td_status t = ''CLOSED'' \<and> td_closed_at t \<noteq> None) (db_trades d)"

definition get_last_closed_trade :: "string \<Rightarrow> string \<Rightarrow> db \<Rightarrow> trade_row option" where
  "get_last_closed_trade run s d =
     latest_by (\<lambda>t. the (td_closed_at t)) (filter (\<lambda>t. td_symbol t = s) (closed_trades run d))"

definition get_last_closed_trade_any_symbol :: "string \<Rightarrow> db \<Rightarrow> trade_row option" where
  "get_last_closed_trade_any_symbol run d = latest_by (\<lambda>t. the (td_closed_at t)) (closed_trades run d)"

definition add_trade :: "trade_row \<Rightarrow> db \<Rightarrow> db" where
  "add_trade t d = d\<lparr>db_trades := db_trades d @ [t]\<rparr>"

subsection \<open>Orders and positions\<close>

definition get_by_client_order_id :: "string \<Rightarrow> db \<Rightarrow> order_row option" where
  "get_by_client_order_id cid d = find (\<lambda>r. od_client_order_id r = cid) (db_orders d)"

text \<open>The insert is checked against \<^verbatim>\<open>uq_orders_client_order_id\<close>.\<close>

definition insert_order :: "order_row \<Rightarrow> db \<Rightarrow> db result" where
  "insert_order r d =
     (if list_ex (\<lambda>x. od_client_order_id x = od_client_order_id r) (db_orders d) then Inl IntegrityError
      else Inr (d\<lparr>db_orders := db_orders d @ [r]\<rparr>))"

definition link_order_trade :: "string \<Rightarrow> string \<Rightarrow> db \<Rightarrow> db" where
  "link_order_trade oid tid d =
     d\<lparr>db_orders := map (\<lambda>r. if od_id r = oid then r\<lparr>od_trade_id := Some tid\<rparr> else r) (db_orders d)\<rparr>"

definition orders_by_status :: "string \<Rightarrow> string \<Rightarrow> nat \<Rightarrow> db \<Rightarrow> order_row list" where
  "orders_by_status run status limit d =
     take limit (rev (sort_key od_created_at
       (rev (filter (\<lambda>r. od_bot_run_id r = run \<and> od_status r = status) (db_orders d)))))"

definition orders_by_client_order_ids :: "string list \<Rightarrow> db \<Rightarrow> order_row list" where
  "orders_by_client_order_ids cids d = filter (\<lambda>r. List.member cids (od_client_order_id r)) (db_orders d)"

definition list_open_positions :: "string \<Rightarrow> db \<Rightarrow> position_row list" where
  "list_open_positions run d =
     filter (\<lambda>p. po_bot_run_id p = run \<and> po_status p = ''OPEN'') (db_positions d)"

definition add_position :: "position_row \<Rightarrow> db \<Rightarrow> db" where
  "add_position p d = d\<lparr>db_positions := db_positions d @ [p]\<rparr>"

definition latest_volatility :: "string \<Rightarrow> string \<Rightarrow> db \<Rightarrow> volatility_row option" where
  "latest_volatility run s d =
     latest_by va_timestamp (filter (\<lambda>v. va_bot_run_id v = run \<and> va_symbol v = s) (db_volatility d))"

text \<open>\<^verbatim>\<open>TokenUsageRepository\<close>; the sum over no row is NULL, read as zero.\<close>

definition tokens_in_window :: "string \<Rightarrow> int \<Rightarrow> db \<Rightarrow> int" where
  "tokens_in_window run since d =
     (\<Sum>u\<leftarrow>filter (\<lambda>u. tu_bot_run_id u = run \<and> since \<le> tu_timestamp u) (db_token_usage d). tu_total_tokens u)"

definition total_tokens_for_run :: "string \<Rightarrow> db \<Rightarrow> int" where
  "total_tokens_for_run run d = (\<Sum>u\<leftarrow>filter (\<lambda>u. tu_bot_run_id u = run) (db_token_usage d). tu_total_tokens u)"

definition add_token_usage :: "token_usage_row \<Rightarrow> db \<Rightarrow> db" where
  "add_token_usage u d = d\<lparr>db_token_usage := db_token_usage d @ [u]\<rparr>"

definition add_model_request :: "model_request_row \<Rightarrow> db \<Rightarrow> db" where
  "add_model_request q d = d\<lparr>db_model_requests := db_model_requests d @ [q]\<rparr>"

definition add_model_response :: "model_response_row \<Rightarrow> db \<Rightarrow> db" where
  "add_model_response p d = d\<lparr>db_model_responses := db_model_responses d @ [p]\<rparr>"

subsection \<open>Lemmas\<close>

lemma latest_by_Nil [simp]: "latest_by key [] = None"
  by (simp add: latest_by_def)

lemma latest_by_snoc:
  "latest_by key (rows @ [r]) =
     (case latest_by key rows of None \<Rightarrow> Some r | Some b \<Rightarrow> if key b < key r then Some r else Some b)"
  by (simp add: latest_by_def split: option.split)

lemma latest_by_None_iff [simp]: "latest_by key rows = None \<longleftrightarrow> rows = []"
  by (induction rows rule: rev_induct) (auto simp: latest_by_snoc split: option.splits if_splits)

lemma latest_by_SomeD:
  "latest_by key rows = Some r \<Longrightarrow> r \<in> set rows \<and> (\<forall>x \<in> set rows. key x \<le> key r)"
proof (induction rows arbitrary: r rule: rev_induct)
  case (snoc y ys)
  show ?case
  proof (cases "latest_by key ys")
    case None
    with snoc.prems show ?thesis by (simp add: latest_by_snoc)
  next
    case (Some b)
    from snoc.IH [OF Some] snoc.prems Some show ?thesis
      by (auto simp: latest_by_snoc split: if_splits)
  qed
qed simp

lemma latest_by_newest:
  assumes "\<And>x. x \<in> set rows \<Longrightarrow> key x < key r"
  shows "latest_by key (rows @ [r]) = Some r"
  using assms latest_by_SomeD [of key rows] by (auto simp: latest_by_snoc split: option.split)

lemma ss_simps [simp]:
  "ss_committed (ss_commit s) = ss_work s" "ss_work (ss_commit s) = ss_work s"
  "ss_committed (ss_rollback s) = ss_committed s" "ss_work (ss_rollback s) = ss_committed s"
  "ss_committed (ss_update f s) = ss_committed s" "ss_work (ss_update f s) = f (ss_work s)"
  "ss_commits (ss_update f s) = ss_commits s" "ss_commits (ss_rollback s) = ss_commits s"
  "ss_commits (ss_commit s) = Suc (ss_commits s)"
  by (simp_all add: ss_commit_def ss_rollback_def ss_update_def)

lemma get_loss_totals_nonneg: "0 \<le> fst (get_loss_totals now run d)" "0 \<le> snd (get_loss_totals now run d)"
  by (simp_all add: get_loss_totals_def Let_def dcm.rd_nonneg)

lemma get_loss_totals_no_closed:
  assumes "\<And>t. t \<in> set (db_trades d) \<Longrightarrow> td_status t \<noteq> ''CLOSED''"
  shows "get_loss_totals now run d = (0, 0)"
proof -
  have "closed_losses run d = []" using assms by (auto simp: closed_losses_def filter_empty_conv)
  then show ?thesis by (simp add: get_loss_totals_def sum_pnl_def)
qed

definition single_running :: "db \<Rightarrow> bool" where
  "single_running d \<longleftrightarrow> length (filter (\<lambda>r. br_status r = ''RUNNING'') (db_bot_runs d)) \<le> 1"

lemma insert_bot_run_single: "single_running d \<Longrightarrow> insert_bot_run r d = Inr d' \<Longrightarrow> single_running d'"
  by (auto simp: insert_bot_run_def single_running_def list_ex_iff filter_empty_conv split: if_splits)

lemma close_orphan_running_none:
  "r \<in> set (db_bot_runs (close_orphan_running now reason d)) \<Longrightarrow> br_status r \<noteq> ''RUNNING''"
  by (auto simp: close_orphan_running_def close_run_def)

lemma insert_order_unique:
  assumes "distinct (map od_client_order_id (db_orders d))" "insert_order r d = Inr d'"
  shows "distinct (map od_client_order_id (db_orders d'))"
  using assms by (fastforce simp: insert_order_def list_ex_iff split: if_splits)

end
