(* ===== verification/MarketCycle.thy ===== *)
theory MarketCycle
  imports Volatility PaperAdapter Storage PositionManager
begin

text \<open>
  One round of market data: \<^verbatim>\<open>backend/market_data/cycle_service.py\<close> over the guard of \<^verbatim>\<open>engine.py\<close> and the
  analysis of \<^verbatim>\<open>analysis_service.py\<close>. The fetcher is a function of what the service asks it for; of the
  rows that the analysis stores only the volatility assessment is read again.
\<close>

record market_cache =
  mk_last_prices :: "(symbol, rat) dict"
  mk_last_books :: "(symbol, book) dict"

definition market_cache_init :: market_cache where
  "market_cache_init = \<lparr>mk_last_prices = [], mk_last_books = []\<rparr>"

definition get_last_price :: "symbol \<Rightarrow> market_cache \<Rightarrow> rat option" where
  "get_last_price s c = dict_get (mk_last_prices c) s"

definition get_last_book :: "symbol \<Rightarrow> market_cache \<Rightarrow> book option" where
  "get_last_book s c = dict_get (mk_last_books c) s"

subsection \<open>The hook of an accepted snapshot\<close>

definition volatility_to_db :: "string \<Rightarrow> volatility_assessment \<Rightarrow> volatility_row" where
  "volatility_to_db run v =
     \<lparr>va_bot_run_id = run, va_symbol = vo_symbol v, va_timestamp = vo_timestamp_utc v,
      va_atr = Some (vo_atr v TF_1h)\<rparr>"

definition analyse :: "math_lib \<Rightarrow> market_snapshot
    \<Rightarrow> (quant_signals_package \<times> regime_assessment \<times> volatility_assessment) result" where
  "analyse math s =
     bindE (compute_quant_signals math s) (\<lambda>quant.
     bindE (assess s) (\<lambda>regime.
     bindE (compute_volatility_assessment math s) (\<lambda>vol. Inr (quant, regime, vol))))"

definition on_snapshot :: "math_lib \<Rightarrow> string \<Rightarrow> market_snapshot \<Rightarrow> db \<Rightarrow> db" where
  "on_snapshot math run s d =
     (case analyse math s of
        Inl _ \<Rightarrow> d
      | Inr (_, _, vol) \<Rightarrow> d\<lparr>db_volatility := db_volatility d @ [volatility_to_db run vol]\<rparr>)"

definition process_snapshot :: "int \<Rightarrow> market_snapshot \<Rightarrow> market_snapshot result" where
  "process_snapshot now s = validate_snapshot now s"

subsection \<open>A round\<close>

type_synonym fetcher = "symbol \<Rightarrow> rat \<Rightarrow> int \<Rightarrow> int \<Rightarrow> market_snapshot result"

definition keep_snapshot ::
    "math_lib \<Rightarrow> string \<Rightarrow> int \<Rightarrow> symbol \<times> market_snapshot result
     \<Rightarrow> market_snapshot list \<times> market_cache \<times> session \<Rightarrow> market_snapshot list \<times> market_cache \<times> session" where
  "keep_snapshot math run now f st =
     (case (f, st) of ((s, res), (successful, c, ss)) \<Rightarrow>
        (case res of
           Inl _ \<Rightarrow> st
         | Inr snap \<Rightarrow>
             (case process_snapshot now snap of
                Inl _ \<Rightarrow> st
              | Inr _ \<Rightarrow>
                  (successful @ [snap],
                   \<lparr>mk_last_prices = dict_set s (ms_last_price snap) (mk_last_prices c),
                    mk_last_books = dict_set s (ms_bid snap, ms_ask snap) (mk_last_books c)\<rparr>,
                   ss_update (on_snapshot math run snap) ss))))"

definition market_tick_all ::
    "math_lib \<Rightarrow> string \<Rightarrow> symbol list \<Rightarrow> fetcher \<Rightarrow> bool \<Rightarrow> int \<Rightarrow> paper \<Rightarrow> market_cache \<Rightarrow> session
     \<Rightarrow> market_snapshot list result \<times> market_cache \<times> session" where
  "market_tick_all math run symbs fetch commit_ok now a c ss =
     (case get_account_state a of
        Inl e \<Rightarrow> (Inl e, c, ss)
      | Inr account \<Rightarrow>
          let open_positions_count = int (length (filter (\<lambda>s. get_position s a \<noteq> None) symbs));
              active_orders_count = int (\<Sum>s\<leftarrow>symbs. length (get_open_orders s a));
              results = map (\<lambda>s. (s, fetch s (ac_balance_usdt account) open_positions_count active_orders_count)) symbs;
              (successful, c, ss) = foldl (\<lambda>st f. keep_snapshot math run now f st) ([], c, ss) results
          in if commit_ok then (Inr successful, c, ss_commit ss) else (Inl SQLAlchemyError, c, ss))"

subsection \<open>Lemmas\<close>

lemma keep_snapshot_kept:
  assumes "keep_snapshot math run now (s, res) (xs, c, ss) = (ys, c', ss')"
  shows "ys = xs \<and> c' = c \<and> ss' = ss
    \<or> (\<exists>snap. res = Inr snap \<and> validate_snapshot now snap = Inr snap \<and> ys = xs @ [snap]
         \<and> get_last_price s c' = Some (ms_last_price snap) \<and> get_last_book s c' = Some (ms_bid snap, ms_ask snap)
         \<and> ss' = ss_update (on_snapshot math run snap) ss)"
  using assms
  by (auto simp: keep_snapshot_def process_snapshot_def validate_snapshot_def Let_def get_last_price_def
      get_last_book_def split: sum.splits if_splits prod.splits)

text \<open>The analysis touches no table but that of the volatility.\<close>

lemma on_snapshot_frames [simp]:
  "db_orders (on_snapshot math run s d) = db_orders d" "db_trades (on_snapshot math run s d) = db_trades d"
  "db_positions (on_snapshot math run s d) = db_positions d"
  "db_bot_states (on_snapshot math run s d) = db_bot_states d"
  "db_bot_runs (on_snapshot math run s d) = db_bot_runs d"
  by (simp_all add: on_snapshot_def split: sum.split prod.split)

definition fresh_at :: "int \<Rightarrow> market_snapshot \<Rightarrow> bool" where
  "fresh_at now s \<longleftrightarrow> validate_snapshot now s = Inr s"

lemma fold_kept:
  assumes "foldl (\<lambda>st f. keep_snapshot math run now f st) (xs, c, ss) fs = (ys, c', ss')"
  shows "(\<forall>y \<in> set ys. y \<in> set xs \<or> fresh_at now y)
    \<and> db_orders (ss_work ss') = db_orders (ss_work ss) \<and> db_bot_states (ss_work ss') = db_bot_states (ss_work ss)
    \<and> db_bot_runs (ss_work ss') = db_bot_runs (ss_work ss) \<and> db_trades (ss_work ss') = db_trades (ss_work ss)
    \<and> db_positions (ss_work ss') = db_positions (ss_work ss)"
  using assms
proof (induction fs arbitrary: xs c ss)
  case (Cons f fs)
  obtain s res where f: "f = (s, res)" by fastforce
  obtain zs c1 ss1 where k: "keep_snapshot math run now f (xs, c, ss) = (zs, c1, ss1)" by (metis prod_cases3)
  with Cons.prems have "foldl (\<lambda>st f. keep_snapshot math run now f st) (zs, c1, ss1) fs = (ys, c', ss')"
    by simp
  from Cons.IH [OF this] keep_snapshot_kept [OF k [unfolded f]] show ?case
    by (auto simp: fresh_at_def)
qed simp

lemma market_tick_snapshots:
  assumes "market_tick_all math run symbs fetch ok now a c ss = (Inr snaps, c', ss')"
  shows "\<forall>s \<in> set snaps. fresh_at now s" "db_orders (ss_work ss') = db_orders (ss_work ss)"
    "db_bot_states (ss_work ss') = db_bot_states (ss_work ss)" "db_bot_runs (ss_work ss') = db_bot_runs (ss_work ss)"
    "db_trades (ss_work ss') = db_trades (ss_work ss)" "db_positions (ss_work ss') = db_positions (ss_work ss)"
  using assms fold_kept
  by (fastforce simp: market_tick_all_def Let_def split: sum.splits prod.splits if_splits)+

text \<open>A symbol whose snapshot was refused keeps the price of an earlier round.\<close>

lemma keep_snapshot_stale:
  assumes "keep_snapshot math run now (s, res) (xs, c, ss) = (ys, c', ss')" "t \<noteq> s \<or> ys = xs"
  shows "get_last_price t c' = get_last_price t c" "get_last_book t c' = get_last_book t c"
  using assms
  by (auto simp: keep_snapshot_def get_last_price_def get_last_book_def split: sum.splits)

end
