(* ===== verification/EmergencyStop.thy ===== *)
theory EmergencyStop
  imports Storage ModelDecision
begin

text \<open>
  \<^verbatim>\<open>backend/trading_core/emergency_stop.py\<close>: the one place that writes an emergency transition (row lock,
  re-read of the persisted state, validation, state row and audit row in one commit), and its manual caller
  \<^verbatim>\<open>backend/api/routes_kill_switch.py\<close> with the resolution of the run in \<^verbatim>\<open>backend/api/dependencies.py\<close>.
  Each rejection is a value. \<open>commit_ok\<close> says whether the database accepts the flush and the commit; a
  failure leaves what was pending to the rollback of the caller. Log messages are left out.
\<close>

subsection \<open>The service\<close>

datatype stop_rejection =
    BotRunNotRunningError string "string option"
  | UnknownPersistedStateError string "string option"
  | CurrentStateNotAllowedError bot_state "bot_state list"
  | TransitionRejected transition_error
  | DatabaseFailure py_error

record emergency_stop_result =
  es_bot_state :: bot_state_row
  es_previous_state :: bot_state
  es_triggered_at :: int

type_synonym audit_event_factory = "string \<Rightarrow> int \<Rightarrow> bot_state \<Rightarrow> audit_event"

text \<open>The keyword arguments of \<^verbatim>\<open>trigger\<close> that its callers choose.\<close>

record stop_request =
  sr_bot_run_id :: string
  sr_target :: bot_state
  sr_reason :: string
  sr_audit_event :: audit_event_factory
  sr_require_current_in :: "bot_state list option"
  sr_release_lock_on_reject :: bool

type_synonym stop_outcome = "(stop_rejection + emergency_stop_result) \<times> session \<times> bot_state option"

definition reject :: "stop_request \<Rightarrow> stop_rejection \<Rightarrow> session \<Rightarrow> bot_state option \<Rightarrow> stop_outcome" where
  "reject q e s machine = (Inl e, (if sr_release_lock_on_reject q then ss_rollback s else s), machine)"

definition transition_row :: "int \<Rightarrow> stop_request \<Rightarrow> bot_state \<Rightarrow> bot_state_row" where
  "transition_row now q current =
     \<lparr>bs_bot_run_id = sr_bot_run_id q, bs_state = state_value (sr_target q),
      bs_previous_state = Some (state_value current), bs_reason = Some (sr_reason q), bs_created_at = now\<rparr>"

text \<open>From the validation of the transition to the end of \<^verbatim>\<open>trigger\<close>.\<close>

definition commit_transition ::
    "bool \<Rightarrow> int \<Rightarrow> stop_request \<Rightarrow> bot_state \<Rightarrow> session \<Rightarrow> bot_state option \<Rightarrow> stop_outcome" where
  "commit_transition commit_ok now q current s machine =
     (case transition_to current (sr_target q) of
        Inl e \<Rightarrow> reject q (TransitionRejected e) s machine
      | Inr _ \<Rightarrow>
          let row = transition_row now q current;
              s = ss_update (save_bot_state row) s;
              s = ss_update (add_event (sr_audit_event q (sr_bot_run_id q) now current)) s in
          if \<not> commit_ok then (Inl (DatabaseFailure SQLAlchemyError), s, machine)
          else (Inr \<lparr>es_bot_state = row, es_previous_state = current, es_triggered_at = now\<rparr>,
                ss_commit s, map_option (\<lambda>m. force_set m (sr_target q)) machine))"

text \<open>\<open>machine\<close> is the in-memory state machine of a long-lived caller, \<open>None\<close> when there is none.\<close>

definition trigger :: "bool \<Rightarrow> int \<Rightarrow> stop_request \<Rightarrow> session \<Rightarrow> bot_state option \<Rightarrow> stop_outcome" where
  "trigger commit_ok now q s machine =
     (let run = sr_bot_run_id q;
          status = map_option br_status (get_bot_run run (ss_work s)) in
      if status \<noteq> Some ''RUNNING'' then reject q (BotRunNotRunningError run status) s machine
      else let raw_state = map_option bs_state (get_latest_bot_state run (ss_work s)) in
      case resolve_persisted_state raw_state of
        None \<Rightarrow> reject q (UnknownPersistedStateError run raw_state) s machine
      | Some current \<Rightarrow>
          let machine = map_option (\<lambda>m. if current \<noteq> m then force_set m current else m) machine in
          case sr_require_current_in q of
            None \<Rightarrow> commit_transition commit_ok now q current s machine
          | Some required \<Rightarrow>
              if \<not> List.member required current
              then reject q (CurrentStateNotAllowedError current required) s machine
              else commit_transition commit_ok now q current s machine)"

subsection \<open>The kill switch endpoint\<close>

text \<open>
  A response is the body of a 200 or the status code of an \<^verbatim>\<open>HTTPException\<close>. The dependencies are resolved
  before the body is checked; \<^verbatim>\<open>get_db\<close> rolls back when an exception leaves the endpoint and closes the
  session, which drops what was not committed, in any case.
\<close>

record kill_switch_out =
  ko_bot_run_id :: string
  ko_state :: string
  ko_previous_state :: string
  ko_reason :: string
  ko_triggered_at :: int

definition get_current_bot_run :: "string option \<Rightarrow> db \<Rightarrow> nat + bot_run_row" where
  "get_current_bot_run bot_run_id d =
     (case bot_run_id of
        Some run \<Rightarrow>
          if \<not> uuid_valid run then Inl 404
          else (case get_bot_run run d of None \<Rightarrow> Inl 404 | Some r \<Rightarrow> Inr r)
      | None \<Rightarrow> (case get_active d of None \<Rightarrow> Inl 404 | Some r \<Rightarrow> Inr r))"

definition kill_switch_request :: "string \<Rightarrow> nat + string" where
  "kill_switch_request reason =
     (if 1 \<le> length reason \<and> length reason \<le> 1024 then Inr reason else Inl 422)"

definition kill_switch_stop :: "string \<Rightarrow> string \<Rightarrow> stop_request" where
  "kill_switch_stop run reason =
     \<lparr>sr_bot_run_id = run, sr_target = KILL_SWITCH_TRIGGERED, sr_reason = reason,
      sr_audit_event = (\<lambda>bot_run_id now previous. KillSwitchEvent
        \<lparr>ke_bot_run_id = bot_run_id, ke_timestamp = now, ke_trigger_reason = reason,
         ke_state_before = state_value previous, ke_action_taken = ''MANUAL_KILL_SWITCH'',
         ke_requires_manual_review = True\<rparr>),
      sr_require_current_in = None, sr_release_lock_on_reject = False\<rparr>"

definition rejection_status :: "stop_rejection \<Rightarrow> nat" where
  "rejection_status e =
     (case e of
        BotRunNotRunningError _ _ \<Rightarrow> 409
      | UnknownPersistedStateError _ _ \<Rightarrow> 500
      | TransitionRejected _ \<Rightarrow> 409
      | CurrentStateNotAllowedError _ _ \<Rightarrow> 500
      | DatabaseFailure _ \<Rightarrow> 500)"

definition trigger_kill_switch ::
    "bool \<Rightarrow> int \<Rightarrow> string \<Rightarrow> bot_run_row \<Rightarrow> session \<Rightarrow> (nat + kill_switch_out) \<times> session" where
  "trigger_kill_switch commit_ok now reason bot_run s =
     (case trigger commit_ok now (kill_switch_stop (br_id bot_run) reason) s None of
        (Inl e, s, _) \<Rightarrow> (Inl (rejection_status e), ss_rollback s)
      | (Inr r, s, _) \<Rightarrow>
          (Inr \<lparr>ko_bot_run_id = br_id bot_run, ko_state = bs_state (es_bot_state r),
                ko_previous_state = state_value (es_previous_state r), ko_reason = reason,
                ko_triggered_at = es_triggered_at r\<rparr>, s))"

definition post_kill_switch ::
    "bool \<Rightarrow> int \<Rightarrow> string option \<Rightarrow> string \<Rightarrow> session \<Rightarrow> (nat + kill_switch_out) \<times> session" where
  "post_kill_switch commit_ok now bot_run_id reason s =
     (case get_current_bot_run bot_run_id (ss_work s) of
        Inl code \<Rightarrow> (Inl code, ss_rollback s)
      | Inr bot_run \<Rightarrow>
          (case kill_switch_request reason of
             Inl code \<Rightarrow> (Inl code, ss_rollback s)
           | Inr reason \<Rightarrow> trigger_kill_switch commit_ok now reason bot_run s))"

subsection \<open>Lemmas\<close>

text \<open>The persisted state of a run, as the rest of the program reads it.\<close>

definition persisted_state :: "string \<Rightarrow> db \<Rightarrow> bot_state option" where
  "persisted_state run d = resolve_persisted_state (map_option bs_state (get_latest_bot_state run d))"

definition run_is_running :: "string \<Rightarrow> db \<Rightarrow> bool" where
  "run_is_running run d \<longleftrightarrow> map_option br_status (get_bot_run run d) = Some ''RUNNING''"

definition source_allowed :: "stop_request \<Rightarrow> bot_state \<Rightarrow> bool" where
  "source_allowed q current \<longleftrightarrow>
     (case sr_require_current_in q of None \<Rightarrow> True | Some required \<Rightarrow> current \<in> set required)
     \<and> can_transition_to current (sr_target q)"

text \<open>What a successful trigger writes.\<close>

definition stopped_db :: "int \<Rightarrow> stop_request \<Rightarrow> bot_state \<Rightarrow> db \<Rightarrow> db" where
  "stopped_db now q current d =
     add_event (sr_audit_event q (sr_bot_run_id q) now current) (save_bot_state (transition_row now q current) d)"

lemma commit_transition_Inr:
  "commit_transition commit_ok now q current s machine = (Inr r, s', machine') \<longleftrightarrow>
     commit_ok \<and> can_transition_to current (sr_target q)
     \<and> r = \<lparr>es_bot_state = transition_row now q current, es_previous_state = current, es_triggered_at = now\<rparr>
     \<and> s' = ss_commit (ss_update (stopped_db now q current) s)
     \<and> machine' = map_option (\<lambda>_. sr_target q) machine"
  by (auto simp: commit_transition_def reject_def transition_to_def Let_def ss_update_def stopped_db_def)

lemma commit_transition_Inl:
  "commit_transition commit_ok now q current s machine = (Inl e, s', machine') \<Longrightarrow>
     (\<not> can_transition_to current (sr_target q) \<or> \<not> commit_ok) \<and> ss_committed s' = ss_committed s
     \<and> ss_commits s' = ss_commits s \<and> machine' = machine"
  by (auto simp: commit_transition_def reject_def transition_to_def Let_def split: if_splits)

lemma trigger_Inr:
  assumes "trigger commit_ok now q s machine = (Inr r, s', machine')"
  obtains current where "run_is_running (sr_bot_run_id q) (ss_work s)"
    "persisted_state (sr_bot_run_id q) (ss_work s) = Some current" "source_allowed q current" "commit_ok"
    "r = \<lparr>es_bot_state = transition_row now q current, es_previous_state = current, es_triggered_at = now\<rparr>"
    "s' = ss_commit (ss_update (stopped_db now q current) s)"
    "machine' = map_option (\<lambda>_. sr_target q) machine"
  using assms
  by (auto simp: trigger_def reject_def Let_def run_is_running_def persisted_state_def source_allowed_def
      commit_transition_Inr option.map_comp comp_def split: if_splits option.splits)

lemma trigger_succeeds:
  assumes "run_is_running (sr_bot_run_id q) (ss_work s)"
    "persisted_state (sr_bot_run_id q) (ss_work s) = Some current" "source_allowed q current"
  shows "trigger True now q s machine =
    (Inr \<lparr>es_bot_state = transition_row now q current, es_previous_state = current, es_triggered_at = now\<rparr>,
     ss_commit (ss_update (stopped_db now q current) s), map_option (\<lambda>_. sr_target q) machine)"
  using assms
  by (auto simp: trigger_def Let_def run_is_running_def persisted_state_def source_allowed_def
      commit_transition_Inr option.map_comp comp_def split: option.splits)

lemma trigger_Inl_committed:
  assumes "trigger commit_ok now q s machine = (Inl e, s', machine')"
  shows "ss_committed s' = ss_committed s" "ss_commits s' = ss_commits s"
  using assms commit_transition_Inl
  by (force simp: trigger_def reject_def Let_def split: if_splits option.splits)+

lemma trigger_Inl_reason:
  assumes "trigger commit_ok now q s machine = (Inl e, s', machine')"
  shows "\<not> run_is_running (sr_bot_run_id q) (ss_work s)
    \<or> persisted_state (sr_bot_run_id q) (ss_work s) = None
    \<or> (\<exists>current. persisted_state (sr_bot_run_id q) (ss_work s) = Some current \<and> \<not> source_allowed q current)
    \<or> \<not> commit_ok"
  using assms trigger_succeeds [of q s] by (cases commit_ok) force+

lemma stopped_db_fields [simp]:
  "db_bot_runs (stopped_db now q c d) = db_bot_runs d"
  "db_bot_states (stopped_db now q c d) = db_bot_states d @ [transition_row now q c]"
  "db_events (stopped_db now q c d) = db_events d @ [sr_audit_event q (sr_bot_run_id q) now c]"
  "db_trades (stopped_db now q c d) = db_trades d" "db_orders (stopped_db now q c d) = db_orders d"
  "db_positions (stopped_db now q c d) = db_positions d"
  by (simp_all add: stopped_db_def add_event_def save_bot_state_def)

definition clock_after :: "string \<Rightarrow> int \<Rightarrow> db \<Rightarrow> bool" where
  "clock_after run now d \<longleftrightarrow> list_all (\<lambda>r. bs_bot_run_id r = run \<longrightarrow> bs_created_at r < now) (db_bot_states d)"

lemma stopped_db_state:
  assumes "clock_after (sr_bot_run_id q) now d"
  shows "persisted_state (sr_bot_run_id q) (stopped_db now q c d) = Some (sr_target q)"
proof -
  have "get_latest_bot_state (sr_bot_run_id q) (stopped_db now q c d) = Some (transition_row now q c)"
    using assms latest_by_newest [of "filter (\<lambda>r. bs_bot_run_id r = sr_bot_run_id q) (db_bot_states d)"
        bs_created_at "transition_row now q c"]
    by (simp add: get_latest_bot_state_def transition_row_def clock_after_def list_all_iff)
  then show ?thesis by (simp add: persisted_state_def transition_row_def)
qed

end
