(* ===== verification/SafeMode.thy ===== *)
theory SafeMode
  imports EmergencyStop MarketData "HOL-Library.Char_ord" "HOL-Library.List_Lexorder"
begin

text \<open>
  The first of the two scanners that put the bot into SAFE_MODE,
  \<^verbatim>\<open>backend/connection_health/monitor.py\<close> with its \<^verbatim>\<open>schemas.py\<close>, and what both scanners share: Python's
  sorted sets of symbols, dictionaries built from rows, and the call of the emergency stop with its \<^verbatim>\<open>except\<close>
  clauses. Strings are ordered by code point.
\<close>

subsection \<open>Sorted sets and dictionaries of rows\<close>

definition sorted_set :: "string list \<Rightarrow> string list" where
  "sorted_set xs = sort (remdups xs)"

text \<open>\<^verbatim>\<open>{key(r): r for r in rows}\<close>: the last row of a key wins.\<close>

definition dict_by :: "('r \<Rightarrow> string) \<Rightarrow> 'r list \<Rightarrow> (string, 'r) dict" where
  "dict_by key rows = foldl (\<lambda>d r. dict_set (key r) r d) [] rows"

lemma set_sorted_set [simp]: "set (sorted_set xs) = set xs"
  by (simp add: sorted_set_def)

lemma distinct_sorted_set [simp]: "distinct (sorted_set xs)"
  by (simp add: sorted_set_def)

lemma dict_by_snoc: "dict_by key (rows @ [r]) = dict_set (key r) r (dict_by key rows)"
  by (simp add: dict_by_def)

lemma dict_by_SomeD: "dict_get (dict_by key rows) k = Some r \<Longrightarrow> r \<in> set rows \<and> key r = k"
  by (induction rows rule: rev_induct) (auto simp: dict_by_snoc dict_by_def [of key "[]"] split: if_splits)

lemma dict_by_None_iff: "dict_get (dict_by key rows) k = None \<longleftrightarrow> k \<notin> key ` set rows"
  by (induction rows rule: rev_induct) (auto simp: dict_by_snoc dict_by_def [of key "[]"])

subsection \<open>Entering SAFE_MODE\<close>

definition safe_mode_stop :: "string \<Rightarrow> string \<Rightarrow> string \<Rightarrow> stop_request" where
  "safe_mode_stop run event_type reason =
     \<lparr>sr_bot_run_id = run, sr_target = SAFE_MODE, sr_reason = reason,
      sr_audit_event = (\<lambda>bot_run_id now previous. SystemEvent
        \<lparr>sv_bot_run_id = bot_run_id, sv_timestamp = now, sv_event_type = event_type,
         sv_severity = ''WARNING'', sv_message = reason\<rparr>),
      sr_require_current_in = Some [ACTIVE], sr_release_lock_on_reject = True\<rparr>"

text \<open>
  Every rejection is logged and swallowed; a failure of the database is rolled back. The state machine keeps
  what the service did to it.
\<close>

definition enter_safe_mode :: "bool \<Rightarrow> int \<Rightarrow> stop_request \<Rightarrow> session \<Rightarrow> bot_state \<Rightarrow> session \<times> bot_state" where
  "enter_safe_mode commit_ok now q s machine =
     (case trigger commit_ok now q s (Some machine) of
        (Inl (DatabaseFailure _), s, m) \<Rightarrow> (ss_rollback s, the m)
      | (_, s, m) \<Rightarrow> (s, the m))"

subsection \<open>The connection health monitor\<close>

datatype anomaly_reason = SYMBOL_DATA_UNAVAILABLE | CLOCK_SKEW_EXCEEDED | LATENCY_EXCEEDED

fun anomaly_value :: "anomaly_reason \<Rightarrow> string" where
  "anomaly_value SYMBOL_DATA_UNAVAILABLE = ''SYMBOL_DATA_UNAVAILABLE''"
| "anomaly_value CLOCK_SKEW_EXCEEDED = ''CLOCK_SKEW_EXCEEDED''"
| "anomaly_value LATENCY_EXCEEDED = ''LATENCY_EXCEEDED''"

record anomaly_finding =
  an_symbol :: symbol
  an_reason :: anomaly_reason

record health_monitor =
  hm_bot_run_id :: string
  hm_max_clock_skew_ms :: int
  hm_max_latency_ms :: int
  hm_symbols :: "symbol list"

definition health_monitor_init :: "string \<Rightarrow> int \<Rightarrow> int \<Rightarrow> symbol list option \<Rightarrow> health_monitor" where
  "health_monitor_init run skew latency symbs =
     \<lparr>hm_bot_run_id = run, hm_max_clock_skew_ms = skew, hm_max_latency_ms = latency,
      hm_symbols = (case symbs of None \<Rightarrow> allowed_symbols
                    | Some xs \<Rightarrow> if xs = [] then allowed_symbols else xs)\<rparr>"

definition check_symbol :: "health_monitor \<Rightarrow> (symbol, market_snapshot) dict \<Rightarrow> symbol \<Rightarrow> anomaly_finding list" where
  "check_symbol h by_symbol s =
     (case dict_get by_symbol s of
        None \<Rightarrow> [\<lparr>an_symbol = s, an_reason = SYMBOL_DATA_UNAVAILABLE\<rparr>]
      | Some snap \<Rightarrow>
          (if hm_max_clock_skew_ms h < \<bar>ms_clock_skew_ms snap\<bar>
           then [\<lparr>an_symbol = s, an_reason = CLOCK_SKEW_EXCEEDED\<rparr>] else [])
          @ (if hm_max_latency_ms h < ms_latency_ms snap
             then [\<lparr>an_symbol = s, an_reason = LATENCY_EXCEEDED\<rparr>] else []))"

definition check_all :: "health_monitor \<Rightarrow> market_snapshot list \<Rightarrow> anomaly_finding list" where
  "check_all h snapshots = concat (map (check_symbol h (dict_by ms_symbol snapshots)) (sorted_set (hm_symbols h)))"

fun join_with :: "string \<Rightarrow> string list \<Rightarrow> string" where
  "join_with sep [] = []"
| "join_with sep [x] = x"
| "join_with sep (x # y # xs) = x @ sep @ join_with sep (y # xs)"

definition health_reason :: "anomaly_finding list \<Rightarrow> string" where
  "health_reason fs = ''Anomalias de conexion/reloj detectadas: ''
     @ join_with ''; '' (map (\<lambda>f. an_symbol f @ '':'' @ anomaly_value (an_reason f)) fs)"

definition check_and_enforce ::
    "bool \<Rightarrow> int \<Rightarrow> health_monitor \<Rightarrow> market_snapshot list \<Rightarrow> session \<Rightarrow> bot_state
     \<Rightarrow> anomaly_finding list \<times> session \<times> bot_state" where
  "check_and_enforce commit_ok now h snapshots s machine =
     (let findings = check_all h snapshots in
      if findings = [] then (findings, s, machine)
      else if machine \<noteq> ACTIVE then (findings, s, machine)
      else (findings,
            enter_safe_mode commit_ok now
              (safe_mode_stop (hm_bot_run_id h) ''CONNECTION_HEALTH_ANOMALY'' (health_reason findings)) s machine))"

subsection \<open>Lemmas\<close>

lemma safe_mode_stop_sel [simp]:
  "sr_bot_run_id (safe_mode_stop run ty rs) = run" "sr_target (safe_mode_stop run ty rs) = SAFE_MODE"
  "sr_require_current_in (safe_mode_stop run ty rs) = Some [ACTIVE]"
  "sr_release_lock_on_reject (safe_mode_stop run ty rs) = True"
  by (simp_all add: safe_mode_stop_def)

lemma safe_mode_source: "source_allowed (safe_mode_stop run ty rs) c \<longleftrightarrow> c = ACTIVE"
  by (cases c) (auto simp: source_allowed_def can_transition_to_def)

lemma enter_safe_mode_fires:
  assumes "run_is_running run (ss_work s)" "persisted_state run (ss_work s) = Some ACTIVE"
  shows "enter_safe_mode True now (safe_mode_stop run ty rs) s machine =
    (ss_commit (ss_update (stopped_db now (safe_mode_stop run ty rs) ACTIVE) s), SAFE_MODE)"
  using trigger_succeeds [of "safe_mode_stop run ty rs" s ACTIVE now "Some machine"] assms
  by (simp add: enter_safe_mode_def safe_mode_source)

text \<open>Whatever happens, the committed database either gains the two rows of the stop or stays as it was.\<close>

lemma enter_safe_mode_atomic:
  assumes "enter_safe_mode commit_ok now (safe_mode_stop run ty rs) s machine = (s', machine')"
  shows "ss_committed s' = ss_committed s
    \<or> run_is_running run (ss_work s) \<and> persisted_state run (ss_work s) = Some ACTIVE \<and> machine' = SAFE_MODE
      \<and> ss_committed s' = stopped_db now (safe_mode_stop run ty rs) ACTIVE (ss_work s)"
proof -
  obtain res s1 m1 where t: "trigger commit_ok now (safe_mode_stop run ty rs) s (Some machine) = (res, s1, m1)"
    by (metis prod_cases3)
  show ?thesis
  proof (cases res)
    case (Inl e)
    from trigger_Inl_committed(1) [OF t [unfolded Inl]] show ?thesis
      using assms t Inl by (auto simp: enter_safe_mode_def split: stop_rejection.splits)
  next
    case (Inr r)
    from t [unfolded Inr] show ?thesis
      by (rule trigger_Inr) (use assms t Inr in \<open>auto simp: enter_safe_mode_def safe_mode_source\<close>)
  qed
qed

lemma check_symbol_Nil_iff:
  "check_symbol h d s = [] \<longleftrightarrow>
     (\<exists>snap. dict_get d s = Some snap \<and> \<bar>ms_clock_skew_ms snap\<bar> \<le> hm_max_clock_skew_ms h
        \<and> ms_latency_ms snap \<le> hm_max_latency_ms h)"
  by (cases "dict_get d s") (auto simp: check_symbol_def not_less)

lemma check_all_Nil_iff:
  "check_all h snaps = [] \<longleftrightarrow>
     (\<forall>s \<in> set (hm_symbols h). \<exists>snap. dict_get (dict_by ms_symbol snaps) s = Some snap
        \<and> \<bar>ms_clock_skew_ms snap\<bar> \<le> hm_max_clock_skew_ms h \<and> ms_latency_ms snap \<le> hm_max_latency_ms h)"
  by (simp add: check_all_def check_symbol_Nil_iff)

end
