(* ===== verification/Reconciliation.thy ===== *)
theory Reconciliation
  imports SafeMode PositionTicks
begin

text \<open>
  \<^verbatim>\<open>backend/reconciliation/engine.py\<close> and \<^verbatim>\<open>gate.py\<close>: the comparison of the exchange with the database and
  with the position manager, and the gate that turns blocking findings into SAFE_MODE. The adapter is the three
  reads that the engine calls, each of which may raise; the texts of the details are left out.
\<close>

subsection \<open>The report\<close>

datatype discrepancy_type =
    MISSING_IN_DB | MISSING_IN_ADAPTER | QUANTITY_MISMATCH | PRICE_MISMATCH | STATUS_MISMATCH
  | SIDE_MISMATCH | PARTIAL_FILL | MISSING_PROTECTION | MANUAL_SL_TP_CHANGE

record position_discrepancy =
  dp_symbol :: symbol
  dp_type :: discrepancy_type
  dp_adapter_quantity :: "rat option"
  dp_adapter_entry_price :: "rat option"
  dp_adapter_side :: "string option"
  dp_adapter_stop_loss :: "rat option"
  dp_adapter_take_profit :: "rat option"
  dp_db_quantity :: "rat option"
  dp_db_entry_price :: "rat option"
  dp_db_side :: "string option"
  dp_config_stop_loss :: "rat option"
  dp_config_take_profit :: "rat option"

record order_discrepancy =
  dq_client_order_id :: string
  dq_symbol :: symbol
  dq_type :: discrepancy_type
  dq_adapter_status :: "string option"
  dq_db_status :: "string option"
  dq_quantity_requested :: "rat option"
  dq_quantity_filled :: "rat option"

record reconciliation_report =
  rr_bot_run_id :: string
  rr_position_discrepancies :: "position_discrepancy list"
  rr_order_discrepancies :: "order_discrepancy list"
  rr_failed_symbols :: "symbol list"
  rr_balance_fetch_failed :: bool

definition is_complete :: "reconciliation_report \<Rightarrow> bool" where
  "is_complete r \<longleftrightarrow> rr_failed_symbols r = [] \<and> \<not> rr_balance_fetch_failed r"

definition is_consistent :: "reconciliation_report \<Rightarrow> bool" where
  "is_consistent r \<longleftrightarrow> is_complete r \<and> rr_position_discrepancies r = [] \<and> rr_order_discrepancies r = []"

definition total_discrepancies :: "reconciliation_report \<Rightarrow> nat" where
  "total_discrepancies r = length (rr_position_discrepancies r) + length (rr_order_discrepancies r)"

subsection \<open>The engine\<close>

definition DECIMAL_TOLERANCE :: rat where
  "DECIMAL_TOLERANCE = 1 / 10 ^ 8"

definition ORDER_FETCH_LIMIT :: nat where
  "ORDER_FETCH_LIMIT = 1000"

record 'a reads =
  rd_account :: "'a \<Rightarrow> account_state result"
  rd_position :: "symbol \<Rightarrow> 'a \<Rightarrow> position_state option result"
  rd_open_orders :: "symbol \<Rightarrow> 'a \<Rightarrow> order_result list result"

record reconciler =
  rn_position_manager :: "manager option"
  rn_symbols :: "symbol list"
  rn_decimal_tolerance :: rat

definition reconciler_init :: "manager option \<Rightarrow> symbol list option \<Rightarrow> rat option \<Rightarrow> reconciler" where
  "reconciler_init m symbs tol =
     \<lparr>rn_position_manager = m,
      rn_symbols = sorted_set (case symbs of None \<Rightarrow> allowed_symbols
                               | Some xs \<Rightarrow> if xs = [] then allowed_symbols else xs),
      rn_decimal_tolerance = (case tol of None \<Rightarrow> DECIMAL_TOLERANCE | Some t \<Rightarrow> t)\<rparr>"

definition no_figures :: "symbol \<Rightarrow> discrepancy_type \<Rightarrow> position_discrepancy" where
  "no_figures s ty =
     \<lparr>dp_symbol = s, dp_type = ty, dp_adapter_quantity = None, dp_adapter_entry_price = None,
      dp_adapter_side = None, dp_adapter_stop_loss = None, dp_adapter_take_profit = None,
      dp_db_quantity = None, dp_db_entry_price = None, dp_db_side = None,
      dp_config_stop_loss = None, dp_config_take_profit = None\<rparr>"

definition exceeds :: "reconciler \<Rightarrow> rat \<Rightarrow> rat \<Rightarrow> bool" where
  "exceeds n x y \<longleftrightarrow> rn_decimal_tolerance n < \<bar>dsub x y\<bar>"

definition compare_position :: "reconciler \<Rightarrow> symbol \<Rightarrow> position_state \<Rightarrow> position_row \<Rightarrow> position_discrepancy list" where
  "compare_position n s p row =
     (if side_value (ps_side p) \<noteq> po_direction row
      then [(no_figures s SIDE_MISMATCH)\<lparr>dp_adapter_side := Some (side_value (ps_side p)),
              dp_db_side := Some (po_direction row)\<rparr>] else [])
     @ (if exceeds n (ps_quantity p) (po_quantity row)
        then [(no_figures s QUANTITY_MISMATCH)\<lparr>dp_adapter_quantity := Some (ps_quantity p),
                dp_db_quantity := Some (po_quantity row)\<rparr>] else [])
     @ (if exceeds n (ps_entry_price p) (po_entry_price row)
        then [(no_figures s PRICE_MISMATCH)\<lparr>dp_adapter_entry_price := Some (ps_entry_price p),
                dp_db_entry_price := Some (po_entry_price row)\<rparr>] else [])"

definition check_manual_sl_tp_change ::
    "reconciler \<Rightarrow> symbol \<Rightarrow> bool \<Rightarrow> rat option \<Rightarrow> rat option \<Rightarrow> position_discrepancy list" where
  "check_manual_sl_tp_change n s is_stop_loss adapter_value config_value =
     (case adapter_value of
        None \<Rightarrow> []
      | Some v \<Rightarrow>
          if (case config_value of None \<Rightarrow> False | Some c \<Rightarrow> \<not> exceeds n v c) then []
          else [(no_figures s MANUAL_SL_TP_CHANGE)
                 \<lparr>dp_adapter_stop_loss := (if is_stop_loss then Some v else None),
                  dp_adapter_take_profit := (if is_stop_loss then None else Some v),
                  dp_config_stop_loss := (if is_stop_loss then config_value else None),
                  dp_config_take_profit := (if is_stop_loss then None else config_value)\<rparr>])"

definition check_protection :: "reconciler \<Rightarrow> symbol \<Rightarrow> position_state \<Rightarrow> position_discrepancy list" where
  "check_protection n s p =
     (case rn_position_manager n of
        None \<Rightarrow> []
      | Some m \<Rightarrow>
          (case get_config s m of
             None \<Rightarrow> [(no_figures s MISSING_PROTECTION)\<lparr>dp_adapter_side := Some (side_value (ps_side p)),
                        dp_adapter_quantity := Some (ps_quantity p)\<rparr>]
           | Some c \<Rightarrow>
               check_manual_sl_tp_change n s True (ps_stop_loss p)
                 (case get_effective_sl s m of None \<Rightarrow> pc_stop_loss c | Some v \<Rightarrow> Some v)
               @ check_manual_sl_tp_change n s False (ps_take_profit p)
                   (case get_effective_tp s m of None \<Rightarrow> pc_take_profit c | Some v \<Rightarrow> Some v)))"

text \<open>One symbol of \<^verbatim>\<open>_reconcile_positions\<close>; \<open>None\<close> when the exchange could not be read.\<close>

definition reconcile_position ::
    "reconciler \<Rightarrow> position_state option result \<Rightarrow> position_row option \<Rightarrow> symbol
     \<Rightarrow> position_discrepancy list option" where
  "reconcile_position n adapter_pos db_pos s =
     (case adapter_pos of
        Inl _ \<Rightarrow> None
      | Inr None \<Rightarrow>
          (case db_pos of
             None \<Rightarrow> Some []
           | Some row \<Rightarrow> Some [(no_figures s MISSING_IN_ADAPTER)\<lparr>dp_db_quantity := Some (po_quantity row),
                          dp_db_entry_price := Some (po_entry_price row),
                          dp_db_side := Some (po_direction row)\<rparr>])
      | Inr (Some p) \<Rightarrow>
          (case db_pos of
             None \<Rightarrow> Some [(no_figures s MISSING_IN_DB)\<lparr>dp_adapter_quantity := Some (ps_quantity p),
                       dp_adapter_entry_price := Some (ps_entry_price p),
                       dp_adapter_side := Some (side_value (ps_side p)),
                       dp_adapter_stop_loss := ps_stop_loss p,
                       dp_adapter_take_profit := ps_take_profit p\<rparr>]
           | Some row \<Rightarrow> Some (compare_position n s p row @ check_protection n s p)))"

definition reconcile_positions ::
    "'a reads \<Rightarrow> reconciler \<Rightarrow> string \<Rightarrow> db \<Rightarrow> 'a \<Rightarrow> position_discrepancy list \<times> symbol list" where
  "reconcile_positions rd n run d a =
     (let db_positions = dict_by po_symbol (list_open_positions run d);
          symbols = sorted_set (rn_symbols n @ dict_keys db_positions)
      in foldl (\<lambda>(found, failed) s.
           case reconcile_position n (rd_position rd s a) (dict_get db_positions s) s of
             None \<Rightarrow> (found, failed @ [s])
           | Some ds \<Rightarrow> (found @ ds, failed)) ([], []) symbols)"

definition compare_order :: "order_result \<Rightarrow> order_row option \<Rightarrow> order_discrepancy list" where
  "compare_order r db_order =
     (let base = \<lparr>dq_client_order_id = or_client_order_id r, dq_symbol = or_symbol r, dq_type = MISSING_IN_DB,
                  dq_adapter_status = Some (status_value (or_status r)), dq_db_status = None,
                  dq_quantity_requested = None, dq_quantity_filled = None\<rparr>
      in case db_order of
           None \<Rightarrow> [base]
         | Some row \<Rightarrow>
             if or_status r = PARTIALLY_FILLED then
               [base\<lparr>dq_type := PARTIAL_FILL, dq_quantity_requested := Some (or_quantity_requested r),
                     dq_quantity_filled := Some (or_quantity_filled r)\<rparr>]
             else if status_value (or_status r) \<noteq> od_status row then
               [base\<lparr>dq_type := STATUS_MISMATCH, dq_db_status := Some (od_status row)\<rparr>]
             else [])"

text \<open>The orders of one symbol: discrepancies, and the client order ids seen.\<close>

definition reconcile_symbol_orders ::
    "db \<Rightarrow> order_result list \<Rightarrow> order_discrepancy list \<times> string list" where
  "reconcile_symbol_orders d adapter_orders =
     (let db_rows = dict_by od_client_order_id
            (orders_by_client_order_ids (map or_client_order_id adapter_orders) d)
      in (concat (map (\<lambda>r. compare_order r (dict_get db_rows (or_client_order_id r))) adapter_orders),
          map or_client_order_id adapter_orders))"

definition reconcile_orders ::
    "'a reads \<Rightarrow> reconciler \<Rightarrow> string \<Rightarrow> db \<Rightarrow> 'a \<Rightarrow> order_discrepancy list \<times> symbol list" where
  "reconcile_orders rd n run d a =
     (let pending_rows = orders_by_status run ''PENDING'' ORDER_FETCH_LIMIT d;
          db_pending = dict_by od_client_order_id pending_rows;
          symbols = sorted_set (rn_symbols n @ map od_symbol (dict_values db_pending));
          (found, seen, failed) =
            foldl (\<lambda>(found, seen, failed) s.
              case rd_open_orders rd s a of
                Inl _ \<Rightarrow> (found, seen, failed @ [s])
              | Inr adapter_orders \<Rightarrow>
                  let (ds, cids) = reconcile_symbol_orders d adapter_orders
                  in (found @ ds, seen @ cids, failed)) ([], [], []) symbols;
          gone = filter (\<lambda>(cid, row). \<not> List.member seen cid \<and> \<not> List.member failed (od_symbol row)) db_pending
      in (found @ map (\<lambda>(cid, row).
            \<lparr>dq_client_order_id = cid, dq_symbol = od_symbol row, dq_type = MISSING_IN_ADAPTER,
             dq_adapter_status = None, dq_db_status = Some (od_status row),
             dq_quantity_requested = None, dq_quantity_filled = None\<rparr>) gone,
          failed))"

definition check_balance :: "'a reads \<Rightarrow> 'a \<Rightarrow> bool" where
  "check_balance rd a = (case rd_account rd a of Inl _ \<Rightarrow> True | Inr _ \<Rightarrow> False)"

definition reconcile :: "'a reads \<Rightarrow> reconciler \<Rightarrow> string \<Rightarrow> db \<Rightarrow> 'a \<Rightarrow> reconciliation_report" where
  "reconcile rd n run d a =
     (let (positions, pos_failed) = reconcile_positions rd n run d a;
          (orders, order_failed) = reconcile_orders rd n run d a
      in \<lparr>rr_bot_run_id = run, rr_position_discrepancies = positions, rr_order_discrepancies = orders,
          rr_failed_symbols = sorted_set (pos_failed @ order_failed),
          rr_balance_fetch_failed = check_balance rd a\<rparr>)"

subsection \<open>The gate\<close>

text \<open>The accented letters of the messages are the characters 0xE9 and 0xF3.\<close>

fun show_nat :: "nat \<Rightarrow> string" where
  "show_nat n = (if n < 10 then [char_of (48 + n)] else show_nat (n div 10) @ [char_of (48 + n mod 10)])"

declare show_nat.simps [simp del]

definition count_of :: "discrepancy_type \<Rightarrow> discrepancy_type list \<Rightarrow> nat" where
  "count_of ty tys = length (filter (\<lambda>x. x = ty) tys)"

definition count_reason :: "bool \<Rightarrow> nat \<Rightarrow> string \<Rightarrow> string list" where
  "count_reason enabled n label = (if enabled \<and> 0 < n then [show_nat n @ label] else [])"

definition ORPHAN_LABEL :: string where
  "ORPHAN_LABEL = '' orden(es) hu'' @ [CHR 0xE9] @ ''rfana(s)''"

definition UNTRACKED_LABEL :: string where
  "UNTRACKED_LABEL = '' posici'' @ [CHR 0xF3] @ ''n(es) no trackeada(s) en DB''"

definition UNPROTECTED_LABEL :: string where
  "UNPROTECTED_LABEL = '' posici'' @ [CHR 0xF3] @ ''n(es) sin protecci'' @ [CHR 0xF3] @ ''n confirmada''"

definition blocking_reasons :: "reconciliation_config \<Rightarrow> reconciliation_report \<Rightarrow> string list" where
  "blocking_reasons c r =
     (let orders = map dq_type (rr_order_discrepancies r);
          positions = map dp_type (rr_position_discrepancies r)
      in (if rr_balance_fetch_failed r then [''fallo de lectura de balance de cuenta''] else [])
         @ count_reason (rc_block_on_orphan_orders c) (count_of MISSING_IN_DB orders) ORPHAN_LABEL
         @ count_reason (rc_block_on_untracked_positions c) (count_of MISSING_IN_DB positions) UNTRACKED_LABEL
         @ count_reason (rc_block_on_unconfirmed_protection c) (count_of MISSING_PROTECTION positions)
             UNPROTECTED_LABEL)"

definition reconciliation_reason :: "string list \<Rightarrow> string" where
  "reconciliation_reason reasons =
     ''Reconciliation bloque'' @ [CHR 0xF3] @ '' nuevas entradas: '' @ join_with ''; '' reasons"

definition run_and_enforce ::
    "bool \<Rightarrow> int \<Rightarrow> 'a reads \<Rightarrow> reconciler \<Rightarrow> reconciliation_config \<Rightarrow> string \<Rightarrow> 'a \<Rightarrow> session \<Rightarrow> bot_state
     \<Rightarrow> reconciliation_report option \<times> session \<times> bot_state" where
  "run_and_enforce commit_ok now rd n c run a s machine =
     (if \<not> (rc_enabled c \<and> rc_run_before_new_entries c) then (None, s, machine)
      else let report = reconcile rd n run (ss_work s) a;
               reasons = blocking_reasons c report in
      if reasons = [] then (Some report, s, machine)
      else if machine \<noteq> ACTIVE then (Some report, s, machine)
      else (Some report,
            enter_safe_mode commit_ok now
              (safe_mode_stop run ''RECONCILIATION_BLOCKED'' (reconciliation_reason reasons)) s machine))"

subsection \<open>Lemmas\<close>

lemma foldl_partition:
  "foldl (\<lambda>(found, failed) s. case f s of None \<Rightarrow> (found, failed @ [s]) | Some ds \<Rightarrow> (found @ ds, failed))
     (xs, ys) ss
   = (xs @ concat (map (\<lambda>s. case f s of None \<Rightarrow> [] | Some ds \<Rightarrow> ds) ss), ys @ filter (\<lambda>s. f s = None) ss)"
  by (induction ss arbitrary: xs ys) (simp_all split: option.split)

lemma reconcile_positions_eq:
  "reconcile_positions rd n run d a =
     (let db_positions = dict_by po_symbol (list_open_positions run d);
          f = (\<lambda>s. reconcile_position n (rd_position rd s a) (dict_get db_positions s) s);
          symbols = sorted_set (rn_symbols n @ dict_keys db_positions)
      in (concat (map (\<lambda>s. case f s of None \<Rightarrow> [] | Some ds \<Rightarrow> ds) symbols), filter (\<lambda>s. f s = None) symbols))"
  unfolding reconcile_positions_def Let_def by (subst foldl_partition) simp

text \<open>The OPEN row that the database holds for a symbol, and the symbols of a reconciliation.\<close>

definition open_row :: "string \<Rightarrow> db \<Rightarrow> symbol \<Rightarrow> position_row option" where
  "open_row run d s = dict_get (dict_by po_symbol (list_open_positions run d)) s"

lemma open_row_None_iff:
  "open_row run d s = None \<longleftrightarrow> (\<forall>r \<in> set (list_open_positions run d). po_symbol r \<noteq> s)"
  by (auto simp: open_row_def dict_by_None_iff)

lemma open_row_SomeD: "open_row run d s = Some r \<Longrightarrow> r \<in> set (list_open_positions run d) \<and> po_symbol r = s"
  unfolding open_row_def by (rule dict_by_SomeD)

lemma position_discrepancies:
  assumes "s \<in> set (rn_symbols n) \<or> open_row run d s \<noteq> None"
    and "reconcile_position n (rd_position rd s a) (open_row run d s) s = Some ds" "x \<in> set ds"
  shows "x \<in> set (rr_position_discrepancies (reconcile rd n run d a))"
proof -
  let ?D = "dict_by po_symbol (list_open_positions run d)"
  have "s \<in> set (rn_symbols n @ dict_keys ?D)"
    using assms(1) by (auto simp: open_row_def map_of_eq_None_iff)
  then have "x \<in> set (fst (reconcile_positions rd n run d a))"
    using assms(2,3) by (force simp: reconcile_positions_eq Let_def open_row_def)
  then show ?thesis by (auto simp: reconcile_def split: prod.split)
qed

lemma position_failed:
  assumes "s \<in> set (rn_symbols n) \<or> open_row run d s \<noteq> None" "rd_position rd s a = Inl e"
  shows "s \<in> set (rr_failed_symbols (reconcile rd n run d a))"
proof -
  let ?D = "dict_by po_symbol (list_open_positions run d)"
  have "s \<in> set (rn_symbols n @ dict_keys ?D)"
    using assms(1) by (auto simp: open_row_def map_of_eq_None_iff)
  then have "s \<in> set (snd (reconcile_positions rd n run d a))"
    using assms(2) by (simp add: reconcile_positions_eq Let_def reconcile_position_def)
  then show ?thesis by (auto simp: reconcile_def split: prod.split)
qed

lemma reconcile_position_None_iff: "reconcile_position n ap dp s = None \<longleftrightarrow> (\<exists>e. ap = Inl e)"
  by (auto simp: reconcile_position_def split: sum.split option.split)

text \<open>What a consistent report says of a symbol that was reconciled.\<close>

lemma consistent_position:
  assumes "is_consistent (reconcile rd n run d a)" "s \<in> set (rn_symbols n) \<or> open_row run d s \<noteq> None"
  obtains (none) "rd_position rd s a = Inr None" "open_row run d s = None"
  | (both) p row where "rd_position rd s a = Inr (Some p)" "open_row run d s = Some row"
      "compare_position n s p row = []" "check_protection n s p = []"
proof -
  have nf: "rr_failed_symbols (reconcile rd n run d a) = []"
    and nd: "rr_position_discrepancies (reconcile rd n run d a) = []"
    using assms(1) by (simp_all add: is_consistent_def is_complete_def)
  have "reconcile_position n (rd_position rd s a) (open_row run d s) s \<noteq> None"
  proof
    assume "reconcile_position n (rd_position rd s a) (open_row run d s) s = None"
    then obtain e where "rd_position rd s a = Inl e" by (auto simp: reconcile_position_None_iff)
    from position_failed [OF assms(2) this] nf show False by simp
  qed
  then obtain ds where ds: "reconcile_position n (rd_position rd s a) (open_row run d s) s = Some ds"
    by auto
  moreover have "ds = []" using position_discrepancies [OF assms(2) ds] nd by (cases ds) auto
  ultimately show thesis
    by (auto simp: reconcile_position_def split: sum.splits option.splits intro: none both)
qed

definition paper_reads :: "paper reads" where
  "paper_reads = \<lparr>rd_account = get_account_state, rd_position = paper_get_pos,
     rd_open_orders = (\<lambda>s a. Inr (get_open_orders s a))\<rparr>"

lemma blocking_reasons_Nil_iff:
  "blocking_reasons c r = [] \<longleftrightarrow>
     \<not> rr_balance_fetch_failed r
     \<and> (rc_block_on_orphan_orders c \<longrightarrow> MISSING_IN_DB \<notin> dq_type ` set (rr_order_discrepancies r))
     \<and> (rc_block_on_untracked_positions c \<longrightarrow> MISSING_IN_DB \<notin> dp_type ` set (rr_position_discrepancies r))
     \<and> (rc_block_on_unconfirmed_protection c \<longrightarrow>
          MISSING_PROTECTION \<notin> dp_type ` set (rr_position_discrepancies r))"
proof -
  have c: "0 < count_of ty tys \<longleftrightarrow> ty \<in> set tys" for ty tys
    by (auto simp: count_of_def filter_empty_conv)
  have r: "count_reason b k l = [] \<longleftrightarrow> \<not> (b \<and> 0 < k)" for b k l
    by (simp add: count_reason_def)
  show ?thesis by (simp only: blocking_reasons_def Let_def append_is_Nil_conv r c set_map) auto
qed

end
