(* ===== verification/ExecutionEngine.thy ===== *)
theory ExecutionEngine
  imports PaperAdapter RiskEngine Storage PositionManagerFacts
begin

text \<open>
  \<^verbatim>\<open>backend/execution/engine.py\<close> and \<^verbatim>\<open>schemas.py\<close>: the execution of an approved plan on the simulated
  exchange, the only one the engine runs on. The state is what the engine holds: adapter, position manager
  and database session; it is returned with every exception, since what was written before the exception stays
  written. \<open>timed_out\<close> says that the worker thread did not answer in time: a started thread is not cancelled, so
  its order still reaches the adapter. Flushes are part of the session's work, a commit publishes it.
\<close>

record execution_result =
  xr_order_result :: order_result
  xr_trade_id :: "string option"
  xr_order_db_id :: string
  xr_position_registered :: bool

record execution_state =
  xs_adapter :: paper
  xs_manager :: manager
  xs_session :: session

record execution_engine =
  xe_bot_run_id :: string
  xe_defaults :: position_management_config

text \<open>The identifiers drawn by the rows and by the adapter, and the current time.\<close>

record execution_ids =
  xi_order_row :: string
  xi_trade_row :: string
  xi_position_row :: string
  xi_exchange_order :: string
  xi_now :: int

definition get_open_position_unrealized_pnl :: "symbol \<Rightarrow> execution_state \<Rightarrow> rat option" where
  "get_open_position_unrealized_pnl s x = map_option ps_unrealized_pnl (get_position s (xs_adapter x))"

definition latest_atr :: "execution_engine \<Rightarrow> symbol \<Rightarrow> db \<Rightarrow> rat option" where
  "latest_atr e s d = (case latest_volatility (xe_bot_run_id e) s d of None \<Rightarrow> None | Some v \<Rightarrow> va_atr v)"

definition result_from_existing_order :: "order_row \<Rightarrow> execution_result result" where
  "result_from_existing_order row =
     bindE (parse_status (od_status row)) (\<lambda>status.
     bindE (parse_side (od_side row)) (\<lambda>side.
     bindE (parse_order_type (od_order_type row)) (\<lambda>otype.
     bindE (make_order_result
       \<lparr>or_order_id = (case od_exchange_order_id row of None \<Rightarrow> od_id row
                       | Some v \<Rightarrow> if v = [] then od_id row else v),
        or_client_order_id = od_client_order_id row, or_symbol = od_symbol row, or_side = side,
        or_order_type = otype, or_status = status, or_quantity_requested = od_quantity row,
        or_quantity_filled = (if status = FILLED then od_quantity row else 0),
        or_fill_price = od_fill_price row,
        or_fee_usdt = (case od_fee row of None \<Rightarrow> 0 | Some f \<Rightarrow> f),
        or_slippage_usdt = od_slippage_usdt row, or_is_simulated = od_is_simulated row,
        or_timestamp_utc = (case od_filled_at row of None \<Rightarrow> od_created_at row | Some t \<Rightarrow> t)\<rparr>) (\<lambda>r.
     Inr \<lparr>xr_order_result = r, xr_trade_id = od_trade_id row, xr_order_db_id = od_id row,
          xr_position_registered = (od_trade_id row \<noteq> None)\<rparr>))))"

definition compute_quantity :: "rat \<Rightarrow> int \<Rightarrow> model_decision \<Rightarrow> rat result" where
  "compute_quantity margin lev d =
     quantize ROUND_DOWN QUANT (ddiv (dmul margin (of_int lev)) (dec_of_float (md_entry_price d)))"

definition build_order_request ::
    "model_decision \<Rightarrow> rat \<Rightarrow> slippage_estimate option \<Rightarrow> order_request result" where
  "build_order_request d quantity est =
     make_order_request
       \<lparr>rq_client_order_id = md_decision_id d, rq_symbol = md_symbol d, rq_side = entry_side d,
        rq_order_type = entry_order_type d, rq_quantity = quantity,
        rq_price = Some (dec_of_float (md_entry_price d)), rq_stop_price = None, rq_is_reduce_only = False,
        rq_bid = map_option se_bid est, rq_ask = map_option se_ask est\<rparr>"

definition place_order_with_timeout ::
    "bool \<Rightarrow> call_context \<Rightarrow> order_request \<Rightarrow> paper \<Rightarrow> order_result result \<times> paper" where
  "place_order_with_timeout timed_out ctx r a =
     (let (res, a) = place_order ctx r a in (if timed_out then Inl ExecutionTimeoutError else res, a))"

subsection \<open>Persistence\<close>

definition new_order_row ::
    "execution_engine \<Rightarrow> execution_ids \<Rightarrow> model_decision \<Rightarrow> order_result \<Rightarrow> slippage_estimate option \<Rightarrow> order_row" where
  "new_order_row e ids d r est =
     \<lparr>od_id = xi_order_row ids, od_bot_run_id = xe_bot_run_id e, od_trade_id = None,
      od_client_order_id = or_client_order_id r, od_symbol = or_symbol r,
      od_order_type = order_type_value (or_order_type r), od_side = side_value (or_side r),
      od_quantity = (if or_status r = FILLED then or_quantity_filled r else or_quantity_requested r),
      od_price = Some (dec_of_float (md_entry_price d)), od_status = status_value (or_status r),
      od_exchange_order_id = Some (or_order_id r), od_created_at = xi_now ids,
      od_filled_at = (if or_status r = FILLED then Some (or_timestamp_utc r) else None),
      od_fill_price = or_fill_price r, od_fee = Some (or_fee_usdt r),
      od_slippage_usdt = (if or_status r = FILLED then or_slippage_usdt r else None),
      od_estimated_slippage_usdt = map_option se_estimated_slippage_usdt est,
      od_is_simulated = or_is_simulated r\<rparr>"

definition new_trade_row ::
    "execution_engine \<Rightarrow> execution_ids \<Rightarrow> model_decision \<Rightarrow> adjusted_parameters \<Rightarrow> order_result \<Rightarrow> trade_row" where
  "new_trade_row e ids d adj r =
     \<lparr>td_id = xi_trade_row ids, td_bot_run_id = xe_bot_run_id e, td_symbol = md_symbol d,
      td_direction = direction_value (md_decision d), td_entry_price = or_fill_price r,
      td_margin_usdt = ap_margin_usdt adj, td_leverage = ap_leverage adj,
      td_quantity = Some (or_quantity_filled r), td_net_pnl = None, td_status = ''OPEN'',
      td_opened_at = or_timestamp_utc r, td_closed_at = None\<rparr>"

definition new_position_row ::
    "execution_engine \<Rightarrow> execution_ids \<Rightarrow> model_decision \<Rightarrow> adjusted_parameters \<Rightarrow> order_result \<Rightarrow> rat
     \<Rightarrow> position_row" where
  "new_position_row e ids d adj r fill_price =
     \<lparr>po_id = xi_position_row ids, po_bot_run_id = xe_bot_run_id e, po_trade_id = Some (xi_trade_row ids),
      po_symbol = md_symbol d, po_direction = direction_value (md_decision d),
      po_quantity = or_quantity_filled r, po_entry_price = fill_price,
      po_margin_usdt = ap_margin_usdt adj, po_leverage = ap_leverage adj,
      po_stop_loss = Some (dec_of_float (md_stop_loss d)),
      po_take_profit = Some (dec_of_float (md_take_profit d)),
      po_status = ''OPEN'', po_opened_at = or_timestamp_utc r\<rparr>"

definition exit_config :: "execution_engine \<Rightarrow> model_decision \<Rightarrow> rat \<Rightarrow> rat \<Rightarrow> position_config result" where
  "exit_config e d atr fill_price =
     build_position_config (md_symbol d) (dec_of_float (md_stop_loss d)) (dec_of_float (md_take_profit d))
       (pp_use_trailing_stop (md_position_management_plan d))
       (pp_move_to_break_even (md_position_management_plan d)) (xe_defaults e) fill_price (Some atr)"

text \<open>From the filled order to the end of \<^verbatim>\<open>execute_approved_plan\<close>.\<close>

definition register_fill ::
    "execution_engine \<Rightarrow> execution_ids \<Rightarrow> model_decision \<Rightarrow> adjusted_parameters \<Rightarrow> rat \<Rightarrow> order_result \<Rightarrow> rat
     \<Rightarrow> execution_state \<Rightarrow> execution_result result \<times> execution_state" where
  "register_fill e ids d adj atr r fill_price x =
     (let s = ss_update (add_trade (new_trade_row e ids d adj r)) (xs_session x);
          s = ss_update (link_order_trade (xi_order_row ids) (xi_trade_row ids)) s;
          s = ss_update (add_position (new_position_row e ids d adj r fill_price)) s
      in case exit_config e d atr fill_price of
           Inl err \<Rightarrow> (Inl err, x\<lparr>xs_session := s\<rparr>)
         | Inr c \<Rightarrow>
             (Inr \<lparr>xr_order_result = r, xr_trade_id = Some (xi_trade_row ids), xr_order_db_id = xi_order_row ids,
                   xr_position_registered = True\<rparr>,
              x\<lparr>xs_session := ss_commit s, xs_manager := set_config c (xs_manager x)\<rparr>))"

definition persist_result ::
    "execution_engine \<Rightarrow> execution_ids \<Rightarrow> model_decision \<Rightarrow> adjusted_parameters \<Rightarrow> rat
     \<Rightarrow> slippage_estimate option \<Rightarrow> order_result \<Rightarrow> execution_state \<Rightarrow> execution_result result \<times> execution_state" where
  "persist_result e ids d adj atr est r x =
     (case insert_order (new_order_row e ids d r est) (ss_work (xs_session x)) of
        Inl err \<Rightarrow> (Inl err, x)
      | Inr w \<Rightarrow>
          let s = ss_update (\<lambda>_. w) (xs_session x) in
          if or_status r \<noteq> FILLED then
            (Inr \<lparr>xr_order_result = r, xr_trade_id = None, xr_order_db_id = xi_order_row ids,
                  xr_position_registered = False\<rparr>, x\<lparr>xs_session := ss_commit s\<rparr>)
          else case or_fill_price r of
                 None \<Rightarrow> (Inl RuntimeError, x\<lparr>xs_session := ss_commit s\<rparr>)
               | Some fill_price \<Rightarrow> register_fill e ids d adj atr r fill_price (x\<lparr>xs_session := s\<rparr>))"

subsection \<open>The plan\<close>

definition place_plan ::
    "execution_engine \<Rightarrow> bool \<Rightarrow> execution_ids \<Rightarrow> model_decision \<Rightarrow> adjusted_parameters \<Rightarrow> rat
     \<Rightarrow> slippage_estimate option \<Rightarrow> execution_state \<Rightarrow> execution_result result \<times> execution_state" where
  "place_plan e timed_out ids d adj atr est x =
     (case set_margin_type (md_symbol d) (md_margin_type d) (xs_adapter x) of
        (Inl err, a) \<Rightarrow> (Inl err, x\<lparr>xs_adapter := a\<rparr>)
      | (Inr _, a) \<Rightarrow>
     (case set_leverage (md_symbol d) (ap_leverage adj) a of
        (Inl err, a) \<Rightarrow> (Inl err, x\<lparr>xs_adapter := a\<rparr>)
      | (Inr _, a) \<Rightarrow>
     (case bindE (compute_quantity (ap_margin_usdt adj) (ap_leverage adj) d)
             (\<lambda>q. build_order_request d q est) of
        Inl err \<Rightarrow> (Inl err, x\<lparr>xs_adapter := a\<rparr>)
      | Inr r \<Rightarrow>
     (case place_order_with_timeout timed_out (xi_exchange_order ids, xi_now ids) r a of
        (Inl err, a) \<Rightarrow> (Inl err, x\<lparr>xs_adapter := a\<rparr>)
      | (Inr res, a) \<Rightarrow> persist_result e ids d adj atr est res (x\<lparr>xs_adapter := a\<rparr>)))))"

definition execute_approved_plan ::
    "execution_engine \<Rightarrow> bool \<Rightarrow> execution_ids \<Rightarrow> model_decision \<Rightarrow> risk_result
     \<Rightarrow> slippage_estimate option \<Rightarrow> execution_state \<Rightarrow> execution_result result \<times> execution_state" where
  "execute_approved_plan e timed_out ids d rr est x =
     (case get_by_client_order_id (md_decision_id d) (ss_work (xs_session x)) of
        Some row \<Rightarrow> (result_from_existing_order row, x)
      | None \<Rightarrow>
          if \<not> executable rr then (Inl ValueError, x)
          else if md_entry_type d = NO_ENTRY then (Inl ValueError, x)
          else case rv_adjusted_parameters rr of
            None \<Rightarrow> (Inl RuntimeError, x)
          | Some adj \<Rightarrow>
              if md_entry_price d \<le> 0 then (Inl ValueError, x)
              else case latest_atr e (md_symbol d) (ss_work (xs_session x)) of
                None \<Rightarrow> (Inl ValueError, x)
              | Some atr \<Rightarrow> place_plan e timed_out ids d adj atr est x)"

subsection \<open>Lemmas\<close>

text \<open>The only ways in which a plan reaches the adapter's order book.\<close>

lemma place_plan_cases:
  assumes "place_plan e timed_out ids d adj atr est x = (res, x')"
  obtains (refused) err a where "res = Inl err" "x' = x\<lparr>xs_adapter := a\<rparr>"
      "pa_orders a = pa_orders (xs_adapter x)" "pa_positions a = pa_positions (xs_adapter x)"
      "pa_balance_usdt a = pa_balance_usdt (xs_adapter x)"
  | (failed) err q r a a' where "res = Inl err" "x' = x\<lparr>xs_adapter := a'\<rparr>"
      "compute_quantity (ap_margin_usdt adj) (ap_leverage adj) d = Inr q"
      "build_order_request d q est = Inr r"
      "place_order_with_timeout timed_out (xi_exchange_order ids, xi_now ids) r a = (Inl err, a')"
      "pa_orders a = pa_orders (xs_adapter x)" "pa_positions a = pa_positions (xs_adapter x)"
  | (placed) q r a a' out where
      "compute_quantity (ap_margin_usdt adj) (ap_leverage adj) d = Inr q"
      "build_order_request d q est = Inr r"
      "place_order (xi_exchange_order ids, xi_now ids) r a = (Inr out, a')" "\<not> timed_out"
      "persist_result e ids d adj atr est out (x\<lparr>xs_adapter := a'\<rparr>) = (res, x')"
      "pa_orders a = pa_orders (xs_adapter x)" "pa_positions a = pa_positions (xs_adapter x)"
proof -
  obtain m1 a1 where m: "set_margin_type (md_symbol d) (md_margin_type d) (xs_adapter x) = (m1, a1)" by fastforce
  obtain l2 a2 where l: "set_leverage (md_symbol d) (ap_leverage adj) a1 = (l2, a2)" by fastforce
  have f: "pa_orders a1 = pa_orders (xs_adapter x)" "pa_positions a1 = pa_positions (xs_adapter x)"
      "pa_balance_usdt a1 = pa_balance_usdt (xs_adapter x)"
      "pa_orders a2 = pa_orders a1" "pa_positions a2 = pa_positions a1" "pa_balance_usdt a2 = pa_balance_usdt a1"
    using m l by (auto simp: set_margin_type_def set_leverage_def split: if_splits)
  show thesis
  proof (cases m1)
    case (Inl err)
    with assms m f show thesis by (intro refused [of err a1]) (simp_all add: place_plan_def)
  next
    case m1: (Inr u)
    show thesis
    proof (cases l2)
      case (Inl err)
      with assms m l m1 f show thesis by (intro refused [of err a2]) (simp_all add: place_plan_def)
    next
      case l2: (Inr v)
      show thesis
      proof (cases "bindE (compute_quantity (ap_margin_usdt adj) (ap_leverage adj) d)
             (\<lambda>q. build_order_request d q est)")
        case (Inl err)
        with assms m l m1 l2 f show thesis by (intro refused [of err a2]) (simp_all add: place_plan_def)
      next
        case b: (Inr r)
        then obtain q where q: "compute_quantity (ap_margin_usdt adj) (ap_leverage adj) d = Inr q"
            "build_order_request d q est = Inr r" by (auto simp: bindE_Inr_iff)
        obtain p3 a3 where p: "place_order_with_timeout timed_out (xi_exchange_order ids, xi_now ids) r a2 = (p3, a3)"
          by fastforce
        show thesis
        proof (cases p3)
          case (Inl err)
          with assms m l m1 l2 b p f q show thesis
            by (intro failed [of err a3 q r a2]) (simp_all add: place_plan_def)
        next
          case (Inr out)
          with p have "place_order (xi_exchange_order ids, xi_now ids) r a2 = (Inr out, a3)" "\<not> timed_out"
            by (auto simp: place_order_with_timeout_def split: prod.splits if_splits)
          with assms m l m1 l2 b p f q Inr show thesis
            by (intro placed [of q r a2 out a3]) (simp_all add: place_plan_def)
        qed
      qed
    qed
  qed
qed

lemma build_order_request_Inr:
  assumes "build_order_request d q est = Inr r"
  shows "rq_client_order_id r = md_decision_id d" "rq_symbol r = md_symbol d" "rq_quantity r = q" "0 < q"
    "rq_is_reduce_only r = False" "rq_side r = entry_side d" "rq_order_type r = entry_order_type d"
    "uuid_valid (md_decision_id d)" "md_symbol d \<in> set allowed_symbols"
  using assms by (auto simp: build_order_request_def make_order_request_Inr)

lemma place_order_result_id:
  assumes "place_order ctx r a = (Inr out, a')" "paper_ok a"
  shows "or_client_order_id out = rq_client_order_id r"
  using assms
  by (auto simp: place_order_def Let_def paper_ok_def register_pending_order_def make_order_result_Inr
      simulated_order_result_def split: option.splits sum.splits prod.splits if_splits
      dest: fill_market_order_id dest!: map_of_SomeD)

text \<open>Once an order with the identifier of the decision is on file, executing the plan again changes nothing.\<close>

lemma execute_known:
  "get_by_client_order_id (md_decision_id d) (ss_work (xs_session x)) = Some row \<Longrightarrow>
   execute_approved_plan e timed_out ids d rr est x = (result_from_existing_order row, x)"
  by (simp add: execute_approved_plan_def)

lemma execute_Inr_guards:
  assumes "execute_approved_plan e timed_out ids d rr est x = (Inr res, x')"
    and "get_by_client_order_id (md_decision_id d) (ss_work (xs_session x)) = None"
  obtains adj atr where "executable rr" "md_entry_type d \<noteq> NO_ENTRY" "rv_adjusted_parameters rr = Some adj"
    "0 < md_entry_price d" "latest_atr e (md_symbol d) (ss_work (xs_session x)) = Some atr"
    "place_plan e timed_out ids d adj atr est x = (Inr res, x')"
  using assms by (auto simp: execute_approved_plan_def split: if_splits option.splits)

text \<open>The notional of the order at the entry price never exceeds what the margin and the leverage allow.\<close>

lemma compute_quantity_bound:
  assumes "compute_quantity margin lev d = Inr q" "0 \<le> margin" "0 \<le> lev" "0 < dec_of_float (md_entry_price d)"
  shows "q \<le> ddiv (dmul margin (of_int lev)) (dec_of_float (md_entry_price d))" "0 \<le> q"
proof -
  have n: "0 \<le> ddiv (dmul margin (of_int lev)) (dec_of_float (md_entry_price d))"
    by (intro ddiv_nonneg dmul_nonneg) (use assms in auto)
  show "q \<le> ddiv (dmul margin (of_int lev)) (dec_of_float (md_entry_price d))"
    using assms(1) unfolding compute_quantity_def by (rule quantize_down_le [OF QUANT_pos n])
  show "0 \<le> q" using assms(1) unfolding compute_quantity_def by (rule quantize_nonneg [OF QUANT_pos n])
qed

end
