(* ===== verification/ExecutionFacts.thy ===== *)
theory ExecutionFacts
  imports ExecutionEngine
begin

text \<open>
  What an executed plan leaves in the database, on the exchange and in the position manager.
\<close>

subsection \<open>The order on file\<close>

lemma fresh_order_result:
  assumes "place_order ctx r a = (Inr out, a')" "get_order_status (rq_client_order_id r) a = None"
    "0 < rq_quantity r"
  shows "make_order_result out = Inr out" "or_client_order_id out = rq_client_order_id r"
    "or_timestamp_utc out = snd ctx" "or_order_id out = fst ctx" "or_quantity_requested out = rq_quantity r"
    "or_status out = FILLED \<and> or_quantity_filled out = rq_quantity r \<and> or_fill_price out \<noteq> None
     \<or> or_status out = PENDING \<and> or_quantity_filled out = 0 \<and> or_slippage_usdt out = None"
  using assms
  by (auto simp: place_order_def get_order_status_def Let_def register_pending_order_def make_order_result_Inr
      simulated_order_result_def split: sum.splits prod.splits if_splits elim!: fill_market_order_result)

lemma find_append_None: "find P xs = None \<Longrightarrow> find P (xs @ ys) = find P ys"
  by (induction xs) (auto split: if_splits)

lemma find_map_preserving:
  "(\<And>x. P (f x) = P x) \<Longrightarrow> find P (map f xs) = map_option f (find P xs)"
  by (induction xs) auto

lemma get_order_link:
  "get_by_client_order_id cid (link_order_trade oid tid d)
   = map_option (\<lambda>r. if od_id r = oid then r\<lparr>od_trade_id := Some tid\<rparr> else r) (get_by_client_order_id cid d)"
  unfolding get_by_client_order_id_def link_order_trade_def by (simp add: find_map_preserving)

lemma get_order_other [simp]:
  "get_by_client_order_id cid (add_trade t d) = get_by_client_order_id cid d"
  "get_by_client_order_id cid (add_position p d) = get_by_client_order_id cid d"
  by (simp_all add: get_by_client_order_id_def add_trade_def add_position_def)

lemma get_order_inserted:
  assumes "insert_order row d = Inr d'" "get_by_client_order_id (od_client_order_id row) d = None"
  shows "get_by_client_order_id (od_client_order_id row) d' = Some row"
  using assms find_append_None
  by (fastforce simp: insert_order_def get_by_client_order_id_def split: if_splits)

lemma order_row_roundtrip:
  assumes "make_order_result out = Inr out" "or_order_id out \<noteq> []" "or_timestamp_utc out = xi_now ids"
    "or_status out = FILLED \<and> or_quantity_filled out = or_quantity_requested out
     \<or> or_status out = PENDING \<and> or_quantity_filled out = 0 \<and> or_slippage_usdt out = None"
  shows "result_from_existing_order ((new_order_row e ids d out est)\<lparr>od_trade_id := t\<rparr>)
    = Inr \<lparr>xr_order_result = out, xr_trade_id = t, xr_order_db_id = xi_order_row ids,
           xr_position_registered = (t \<noteq> None)\<rparr>"
  using assms by (cases out) (auto simp: result_from_existing_order_def new_order_row_def)

lemma new_order_row_sel [simp]:
  "od_client_order_id (new_order_row e ids d out est) = or_client_order_id out"
  "od_id (new_order_row e ids d out est) = xi_order_row ids"
  by (simp_all add: new_order_row_def)

text \<open>A result that is returned stands in the database under the identifier of the decision.\<close>

lemma persist_result_replay:
  assumes "persist_result e ids d adj atr est out x = (Inr res, x')"
    and "get_by_client_order_id (or_client_order_id out) (ss_work (xs_session x)) = None"
    and "make_order_result out = Inr out" "or_order_id out \<noteq> []" "or_timestamp_utc out = xi_now ids"
    "or_status out = FILLED \<and> or_quantity_filled out = or_quantity_requested out
     \<or> or_status out = PENDING \<and> or_quantity_filled out = 0 \<and> or_slippage_usdt out = None"
  shows "\<exists>row. get_by_client_order_id (or_client_order_id out) (ss_work (xs_session x')) = Some row
    \<and> result_from_existing_order row = Inr res"
proof -
  let ?row = "new_order_row e ids d out est"
  obtain w where w: "insert_order ?row (ss_work (xs_session x)) = Inr w"
    using assms(1) by (auto simp: persist_result_def split: sum.splits)
  have g: "get_by_client_order_id (or_client_order_id out) w = Some ?row"
    using get_order_inserted [OF w] assms(2) by simp
  note rt = order_row_roundtrip [where e = e and d = d and est = est, OF assms(3-6)]
  show ?thesis
  proof (cases "or_status out = FILLED")
    case False
    then have "res = \<lparr>xr_order_result = out, xr_trade_id = None, xr_order_db_id = xi_order_row ids,
        xr_position_registered = False\<rparr>" "ss_work (xs_session x') = w"
      using assms(1) w by (auto simp: persist_result_def Let_def ss_update_def ss_commit_def)
    moreover have "?row\<lparr>od_trade_id := None\<rparr> = ?row" by (simp add: new_order_row_def)
    ultimately show ?thesis using g rt [where t = None] by simp
  next
    case True
    then obtain fp where "register_fill e ids d adj atr out fp (x\<lparr>xs_session := ss_update (\<lambda>_. w) (xs_session x)\<rparr>)
        = (Inr res, x')"
      using assms(1) w by (auto simp: persist_result_def Let_def split: option.splits)
    then have "res = \<lparr>xr_order_result = out, xr_trade_id = Some (xi_trade_row ids),
        xr_order_db_id = xi_order_row ids, xr_position_registered = True\<rparr>"
      "get_by_client_order_id (or_client_order_id out) (ss_work (xs_session x'))
        = Some (?row\<lparr>od_trade_id := Some (xi_trade_row ids)\<rparr>)"
      using g by (auto simp: register_fill_def Let_def get_order_link split: sum.splits)
    then show ?thesis using rt [where t = "Some (xi_trade_row ids)"] by simp
  qed
qed

lemma execute_replay:
  assumes "execute_approved_plan e timed_out ids d rr est x = (Inr res, x')"
    and "get_by_client_order_id (md_decision_id d) (ss_work (xs_session x)) = None"
    and "get_order_status (md_decision_id d) (xs_adapter x) = None" "xi_exchange_order ids \<noteq> []"
  shows "execute_approved_plan e' timed_out' ids' d rr' est' x' = (Inr res, x')"
proof -
  obtain adj atr where "place_plan e timed_out ids d adj atr est x = (Inr res, x')"
    using execute_Inr_guards [OF assms(1,2)] by metis
  then show ?thesis
  proof (cases rule: place_plan_cases)
    case (placed q r a a' out)
    note b = build_order_request_Inr [OF placed(2)]
    have "get_order_status (rq_client_order_id r) a = None"
      using assms(3) placed(6) b(1) by (simp add: get_order_status_def)
    note o = fresh_order_result [OF placed(3) this, unfolded b(3), OF b(4)]
    have "\<exists>row. get_by_client_order_id (or_client_order_id out) (ss_work (xs_session x')) = Some row
        \<and> result_from_existing_order row = Inr res"
      by (rule persist_result_replay [OF placed(5)]) (use o b assms(2,4) in auto)
    then obtain row where "get_by_client_order_id (md_decision_id d) (ss_work (xs_session x')) = Some row"
        "result_from_existing_order row = Inr res" using o(2) b(1) by auto
    then show ?thesis by (simp add: execute_known)
  qed simp_all
qed

subsection \<open>Retry after a timeout\<close>

lemma persist_result_adapter: "persist_result e ids d adj atr est out x = (res, x') \<Longrightarrow> xs_adapter x' = xs_adapter x"
  by (auto simp: persist_result_def register_fill_def Let_def split: sum.splits option.splits if_splits)

lemma execute_known_to_adapter:
  assumes "execute_approved_plan e timed_out ids d rr est x = (res, x')"
    and "get_order_status (md_decision_id d) (xs_adapter x) = Some out"
  shows "pa_orders (xs_adapter x') = pa_orders (xs_adapter x)"
    "pa_positions (xs_adapter x') = pa_positions (xs_adapter x)"
proof -
  have place: "pa_orders a' = pa_orders a \<and> pa_positions a' = pa_positions a"
    if "place_order ctx r a = (y, a')" "build_order_request d q est = Inr r"
      "pa_orders a = pa_orders (xs_adapter x)" for ctx r a y a' q
  proof -
    have "get_order_status (rq_client_order_id r) a = Some out"
      using assms(2) that(3) build_order_request_Inr(1) [OF that(2)] by (simp add: get_order_status_def)
    then show ?thesis using place_order_known that(1) by (metis prod.inject)
  qed
  have "pa_orders (xs_adapter x') = pa_orders (xs_adapter x) \<and> pa_positions (xs_adapter x') = pa_positions (xs_adapter x)"
  proof (cases "\<exists>adj atr. place_plan e timed_out ids d adj atr est x = (res, x')")
    case True
    then obtain adj atr where "place_plan e timed_out ids d adj atr est x = (res, x')" by blast
    then show ?thesis
    proof (cases rule: place_plan_cases)
      case (refused err a)
      then show ?thesis by simp
    next
      case (failed err q r a a')
      then have "\<exists>y. place_order (xi_exchange_order ids, xi_now ids) r a = (y, a')"
        by (auto simp: place_order_with_timeout_def split: prod.splits)
      with place failed show ?thesis by auto
    next
      case (placed q r a a' out')
      with place [OF placed(3,2,6)] persist_result_adapter [OF placed(5)] show ?thesis by simp
    qed
  next
    case False
    with assms(1) show ?thesis
      by (auto simp: execute_approved_plan_def split: option.splits if_splits)
  qed
  then show "pa_orders (xs_adapter x') = pa_orders (xs_adapter x)"
    "pa_positions (xs_adapter x') = pa_positions (xs_adapter x)" by simp_all
qed

subsection \<open>A registered position\<close>

lemma register_fill_Inr:
  assumes "register_fill e ids d adj atr r fp x = (Inr res, x')"
  obtains c where "exit_config e d atr fp = Inr c" "xs_manager x' = set_config c (xs_manager x)"
    "ss_committed (xs_session x') = ss_work (xs_session x')" "xs_adapter x' = xs_adapter x"
    "ss_work (xs_session x') = add_position (new_position_row e ids d adj r fp)
       (link_order_trade (xi_order_row ids) (xi_trade_row ids)
         (add_trade (new_trade_row e ids d adj r) (ss_work (xs_session x))))"
    "xr_position_registered res" "xr_order_result res = r"
  using assms by (auto simp: register_fill_def Let_def split: sum.splits)

text \<open>How a registered position came about.\<close>

lemma execute_registered:
  assumes "execute_approved_plan e timed_out ids d rr est x = (Inr res, x')" "xr_position_registered res"
    and "get_by_client_order_id (md_decision_id d) (ss_work (xs_session x)) = None"
  obtains adj atr q r a a' w fp x1 where "executable rr" "rv_adjusted_parameters rr = Some adj"
    "compute_quantity (ap_margin_usdt adj) (ap_leverage adj) d = Inr q" "build_order_request d q est = Inr r"
    "place_order (xi_exchange_order ids, xi_now ids) r a = (Inr (xr_order_result res), a')"
    "pa_orders a = pa_orders (xs_adapter x)" "pa_positions a = pa_positions (xs_adapter x)"
    "latest_atr e (md_symbol d) (ss_work (xs_session x)) = Some atr"
    "insert_order (new_order_row e ids d (xr_order_result res) est) (ss_work (xs_session x)) = Inr w"
    "or_fill_price (xr_order_result res) = Some fp" "or_status (xr_order_result res) = FILLED"
    "xs_adapter x1 = a'" "xs_manager x1 = xs_manager x" "ss_work (xs_session x1) = w" "0 < md_entry_price d"
    "register_fill e ids d adj atr (xr_order_result res) fp x1 = (Inr res, x')"
proof -
  obtain adj atr where g: "executable rr" "rv_adjusted_parameters rr = Some adj" "0 < md_entry_price d"
      "latest_atr e (md_symbol d) (ss_work (xs_session x)) = Some atr"
    and p: "place_plan e timed_out ids d adj atr est x = (Inr res, x')"
    using execute_Inr_guards [OF assms(1,3)] by metis
  from p show thesis
  proof (cases rule: place_plan_cases)
    case (placed q r a a' out)
    from placed(5) obtain w where w: "insert_order (new_order_row e ids d out est) (ss_work (xs_session x)) = Inr w"
      by (auto simp: persist_result_def split: sum.splits)
    have st: "or_status out = FILLED"
      using placed(5) w assms(2) by (auto simp: persist_result_def Let_def split: if_splits)
    with placed(5) w obtain fp where fp: "or_fill_price out = Some fp"
      "register_fill e ids d adj atr out fp
         (x\<lparr>xs_adapter := a', xs_session := ss_update (\<lambda>_. w) (xs_session x)\<rparr>) = (Inr res, x')"
      by (auto simp: persist_result_def Let_def split: option.splits)
    have out: "xr_order_result res = out" using fp(2) by (rule register_fill_Inr)
    show thesis
      by (rule that [OF g(1,2) placed(1,2) _ placed(6,7) g(4) _ _ _ _ _ _ g(3),
            of a' w fp "x\<lparr>xs_adapter := a', xs_session := ss_update (\<lambda>_. w) (xs_session x)\<rparr>"])
        (use placed(3) w st fp out in auto)
  qed simp_all
qed

end
