(* ===== verification/DecisionAudit.thy ===== *)
theory DecisionAudit
  imports ExecutionEngine
begin

text \<open>
  The audit trail of a decision (\<^verbatim>\<open>backend/storage/audit.py\<close>): the rows of \<^verbatim>\<open>decisions\<close>,
  \<^verbatim>\<open>decision_aggregations\<close> and \<^verbatim>\<open>risk_validations\<close>, with the primary and foreign keys that the database checks
  when a row is flushed. The foreign keys to \<^verbatim>\<open>bot_runs\<close> are not repeated here.
\<close>

definition new_decision_row :: "string \<Rightarrow> model_decision \<Rightarrow> decision_row" where
  "new_decision_row run d =
     \<lparr>dn_id = md_decision_id d, dn_bot_run_id = run, dn_symbol = md_symbol d,
      dn_action = (if md_execute d then ''OPEN'' else ''NO_OPERAR''),
      dn_direction = (if md_decision d \<noteq> NO_OPERAR then Some (direction_value (md_decision d)) else None),
      dn_confidence = Some (md_confidence d), dn_margin_usdt = Some (dec_of_float (md_margin_usdt d)),
      dn_leverage = Some (md_leverage d), dn_stop_loss = Some (dec_of_float (md_stop_loss d)),
      dn_take_profit = Some (dec_of_float (md_take_profit d))\<rparr>"

text \<open>The row of a decision that is already on file stays as it is.\<close>

definition audit_model_decision :: "string \<Rightarrow> model_decision \<Rightarrow> db \<Rightarrow> db" where
  "audit_model_decision run d w =
     (if list_ex (\<lambda>r. dn_id r = md_decision_id d) (db_decisions w) then w
      else w\<lparr>db_decisions := db_decisions w @ [new_decision_row run d]\<rparr>)"

text \<open>\<^verbatim>\<open>DecisionAggregationResult.to_db_kwargs\<close>\<close>

definition aggregation_to_db :: "string \<Rightarrow> aggregation_result \<Rightarrow> aggregation_row" where
  "aggregation_to_db run a =
     \<lparr>gn_id = ag_aggregation_id a, gn_bot_run_id = run, gn_decision_id = Some (ag_decision_id a),
      gn_symbol = ag_symbol a,
      gn_quant_score = Some (cs_quant_score (ag_contributing_sources a)),
      gn_gpt_confidence = Some (cs_gpt_context_score (ag_contributing_sources a)),
      gn_regime_factor = Some (cs_regime_factor (ag_contributing_sources a)),
      gn_volatility_factor = Some (cs_volatility_factor (ag_contributing_sources a)),
      gn_aggregated_score = Some (ag_aggregated_score a),
      gn_final_action = direction_value (ag_final_action a),
      gn_contradictions_detected = ag_contradictions_detected a\<rparr>"

definition audit_decision_aggregation :: "string \<Rightarrow> aggregation_result \<Rightarrow> db \<Rightarrow> db result" where
  "audit_decision_aggregation run a w =
     (if list_ex (\<lambda>r. gn_id r = ag_aggregation_id a) (db_aggregations w)
         \<or> \<not> list_ex (\<lambda>r. dn_id r = ag_decision_id a) (db_decisions w)
      then Inl IntegrityError
      else Inr (w\<lparr>db_aggregations := db_aggregations w @ [aggregation_to_db run a]\<rparr>))"

fun risk_decision_value :: "risk_decision \<Rightarrow> string" where
  "risk_decision_value RISK_APPROVE = ''APPROVE''"
| "risk_decision_value RISK_ADJUST_DOWN = ''ADJUST_DOWN''"
| "risk_decision_value RISK_BLOCK = ''BLOCK''"
| "risk_decision_value RISK_NO_OPERAR = ''NO_OPERAR''"

text \<open>\<^verbatim>\<open>RiskValidationResult.to_db_kwargs\<close>, and the row with or without its link to the aggregation\<close>

definition validation_to_db :: "string \<Rightarrow> risk_result \<Rightarrow> validation_row result" where
  "validation_to_db run r =
     (if \<not> uuid_valid run then Inl ValueError
      else Inr
        \<lparr>vn_id = rv_validation_id r, vn_bot_run_id = run, vn_decision_aggregation_id = Some (rv_aggregation_id r),
         vn_symbol = rv_symbol r, vn_result = risk_decision_value (rv_decision r),
         vn_original_margin = Some (rv_original_margin_usdt r),
         vn_original_leverage = Some (rv_original_leverage r),
         vn_adjusted_margin = map_option ap_margin_usdt (rv_adjusted_parameters r),
         vn_adjusted_leverage = map_option ap_leverage (rv_adjusted_parameters r),
         vn_daily_loss_at_check = Some (rv_daily_loss_at_check_usdt r),
         vn_total_loss_at_check = Some (rv_total_loss_at_check_usdt r), vn_reasons = rv_reasons r\<rparr>)"

definition audit_risk_validation :: "string \<Rightarrow> risk_result \<Rightarrow> bool \<Rightarrow> db \<Rightarrow> db result" where
  "audit_risk_validation run r link_aggregation w =
     bindE (validation_to_db run r) (\<lambda>row.
     let row = (if \<not> link_aggregation then row\<lparr>vn_decision_aggregation_id := None\<rparr> else row) in
     if list_ex (\<lambda>x. vn_id x = vn_id row) (db_validations w)
        \<or> (case vn_decision_aggregation_id row of
             None \<Rightarrow> False
           | Some g \<Rightarrow> \<not> list_ex (\<lambda>x. gn_id x = g) (db_aggregations w))
     then Inl IntegrityError
     else Inr (w\<lparr>db_validations := db_validations w @ [row]\<rparr>))"

subsection \<open>Lemmas\<close>

text \<open>Every stored reference leads to a stored row.\<close>

definition audit_linked :: "db \<Rightarrow> bool" where
  "audit_linked w \<longleftrightarrow>
     (\<forall>g \<in> set (db_aggregations w). \<forall>i. gn_decision_id g = Some i \<longrightarrow> i \<in> dn_id ` set (db_decisions w))
     \<and> (\<forall>v \<in> set (db_validations w). \<forall>i. vn_decision_aggregation_id v = Some i
          \<longrightarrow> i \<in> gn_id ` set (db_aggregations w))"

lemma audit_model_decision_on_file:
  "md_decision_id d \<in> dn_id ` set (db_decisions (audit_model_decision run d w))"
  by (force simp: audit_model_decision_def list_ex_iff new_decision_row_def)

lemma audit_model_decision_idem [simp]:
  "audit_model_decision run d (audit_model_decision run d w) = audit_model_decision run d w"
  using audit_model_decision_on_file [of d run w]
  by (subst audit_model_decision_def) (auto simp: list_ex_iff)

lemma audit_model_decision_linked: "audit_linked w \<Longrightarrow> audit_linked (audit_model_decision run d w)"
  by (auto simp: audit_linked_def audit_model_decision_def)

lemma audit_decision_aggregation_linked:
  "audit_linked w \<Longrightarrow> audit_decision_aggregation run a w = Inr w' \<Longrightarrow> audit_linked w'"
  by (auto simp: audit_linked_def audit_decision_aggregation_def aggregation_to_db_def list_ex_iff
      split: if_splits)

lemma audit_risk_validation_linked:
  "audit_linked w \<Longrightarrow> audit_risk_validation run r l w = Inr w' \<Longrightarrow> audit_linked w'"
  by (auto simp: audit_linked_def audit_risk_validation_def bindE_Inr_iff Let_def list_ex_iff image_iff
      split: if_splits option.splits) blast+

text \<open>What the trading tables keep.\<close>

lemma audit_frames [simp]:
  "db_orders (audit_model_decision run d w) = db_orders w"
  "db_trades (audit_model_decision run d w) = db_trades w"
  "db_positions (audit_model_decision run d w) = db_positions w"
  "db_bot_states (audit_model_decision run d w) = db_bot_states w"
  "db_bot_runs (audit_model_decision run d w) = db_bot_runs w"
  by (simp_all add: audit_model_decision_def)

lemma audit_aggregation_frames:
  "audit_decision_aggregation run a w = Inr w' \<Longrightarrow>
     db_orders w' = db_orders w \<and> db_trades w' = db_trades w \<and> db_positions w' = db_positions w
     \<and> db_bot_states w' = db_bot_states w \<and> db_bot_runs w' = db_bot_runs w"
  by (auto simp: audit_decision_aggregation_def split: if_splits)

lemma audit_validation_frames:
  "audit_risk_validation run r l w = Inr w' \<Longrightarrow>
     db_orders w' = db_orders w \<and> db_trades w' = db_trades w \<and> db_positions w' = db_positions w
     \<and> db_bot_states w' = db_bot_states w \<and> db_bot_runs w' = db_bot_runs w"
  by (auto simp: audit_risk_validation_def bindE_Inr_iff Let_def split: if_splits option.splits)

text \<open>An aggregation is stored once its decision is.\<close>

lemma audit_aggregation_succeeds:
  assumes "ag_decision_id a = md_decision_id d"
    "\<And>r. r \<in> set (db_aggregations w) \<Longrightarrow> gn_id r \<noteq> ag_aggregation_id a"
  shows "\<exists>w'. audit_decision_aggregation run a (audit_model_decision run d w) = Inr w'"
proof -
  have "db_aggregations (audit_model_decision run d w) = db_aggregations w"
    by (simp add: audit_model_decision_def)
  with assms audit_model_decision_on_file [of d run w] show ?thesis
    by (auto simp: audit_decision_aggregation_def list_ex_iff)
qed

end
