(* ===== verification/CycleRunner.thy ===== *)
theory CycleRunner
  imports MarketCycle Reconciliation ExecutionFacts DecisionAudit
begin

text \<open>
  \<^verbatim>\<open>backend/trading_core/cycle_runner.py\<close>: the loop of the worker. The collaborators are the models of the
  other theories, in the wiring of the orchestrator; the answer of GPT, the clock, the outcome of a commit,
  fresh identifiers and what other processes commit meanwhile are inputs of each step. A step returns its
  exception or result together with the state it leaves.
\<close>

subsection \<open>The runner and its state\<close>

text \<open>
  \<open>cr_pipeline\<close> is \<^verbatim>\<open>_decision_pipeline_ready\<close>. A collaborator that is not injected is \<open>None\<close>.
\<close>

record cycle_runner =
  cr_bot_run_id :: string
  cr_config :: app_config
  cr_engine :: execution_engine
  cr_math :: math_lib
  cr_pow15 :: "rat \<Rightarrow> rat"
  cr_pipeline :: bool
  cr_market_symbols :: "symbol list option"
  cr_health :: "health_monitor option"
  cr_position_ticks :: bool
  cr_reconciler :: "reconciler option"
  cr_interval_seconds :: int

record cycle_state =
  cy_exec :: execution_state
  cy_machine :: bot_state
  cy_cache :: market_cache
  cy_opened_this_tick :: int
  cy_heartbeats :: nat

abbreviation cy_session :: "cycle_state \<Rightarrow> session" where
  "cy_session st \<equiv> xs_session (cy_exec st)"

definition with_session :: "session \<Rightarrow> cycle_state \<Rightarrow> cycle_state" where
  "with_session s st = st\<lparr>cy_exec := (cy_exec st)\<lparr>xs_session := s\<rparr>\<rparr>"

text \<open>A commit of another process, seen by the next reads of the session.\<close>

definition ss_external :: "(db \<Rightarrow> db) \<Rightarrow> session \<Rightarrow> session" where
  "ss_external f s = s\<lparr>ss_committed := f (ss_committed s), ss_work := f (ss_work s)\<rparr>"

record sync_input =
  sy_others :: "db \<Rightarrow> db"
  sy_read_ok :: bool

record symbol_input =
  si_sync :: sync_input
  si_answer :: "model_decision option result"
  si_while_asking :: "db \<Rightarrow> db"
  si_aggregation_id :: string
  si_validation_id :: string
  si_now :: int
  si_timed_out :: bool
  si_ids :: execution_ids
  si_reload_ok :: bool

subsection \<open>The persisted state\<close>

definition sync_state_from_db :: "cycle_runner \<Rightarrow> sync_input \<Rightarrow> cycle_state \<Rightarrow> cycle_state" where
  "sync_state_from_db r i st =
     (let st = with_session (ss_external (sy_others i) (cy_session st)) st in
      if \<not> sy_read_ok i then with_session (ss_rollback (cy_session st)) st
      else case get_latest_bot_state (cr_bot_run_id r) (ss_work (cy_session st)) of
        None \<Rightarrow> st
      | Some latest \<Rightarrow>
          (case resolve_persisted_state (Some (bs_state latest)) of
             None \<Rightarrow> st
           | Some persisted \<Rightarrow>
               if persisted \<noteq> cy_machine st then st\<lparr>cy_machine := force_set (cy_machine st) persisted\<rparr> else st))"

definition touch_heartbeat :: "cycle_state \<Rightarrow> cycle_state" where
  "touch_heartbeat st = st\<lparr>cy_heartbeats := Suc (cy_heartbeats st)\<rparr>"

subsection \<open>The decision pipeline of a symbol\<close>

text \<open>Steps 7 of \<^verbatim>\<open>_process_symbol\<close>: the costs, estimated on the proposed parameters.\<close>

definition proposed_slippage ::
    "cycle_runner \<Rightarrow> market_snapshot \<Rightarrow> model_decision \<Rightarrow> slippage_estimate option result" where
  "proposed_slippage r snap d =
     (if is_estimable d
      then bindE (estimate_for_decision snap d (dec_of_float (md_margin_usdt d)) (md_leverage d)
                    (impact_bps (cfg_slippage (cr_config r)))) (\<lambda>e. Inr (Some e))
      else Inr None)"

definition proposed_fees :: "symbol \<Rightarrow> paper \<Rightarrow> model_decision \<Rightarrow> fee_estimate option result" where
  "proposed_fees s a d =
     (if is_estimable d
      then (case get_fee_rates s a of
              Inl FeeRatesUnavailableError \<Rightarrow> Inr None
            | Inl e \<Rightarrow> Inl e
            | Inr rates \<Rightarrow>
                bindE (estimate_fees_for_decision d (dec_of_float (md_margin_usdt d)) (md_leverage d) rates)
                  (\<lambda>f. Inr (Some f)))
      else Inr None)"

text \<open>Step 8: what the risk engine is told.\<close>

definition risk_inputs_of ::
    "cycle_runner \<Rightarrow> market_snapshot \<Rightarrow> bool \<Rightarrow> rat \<times> rat \<Rightarrow> fee_estimate option \<Rightarrow> slippage_estimate option
     \<Rightarrow> cycle_state \<Rightarrow> risk_inputs" where
  "risk_inputs_of r snap reliable losses fees slip st =
     (let run = cr_bot_run_id r;
          d = ss_work (cy_session st);
          last_trade = get_last_closed_trade run (ms_symbol snap) d;
          last_account_trade = get_last_closed_trade_any_symbol run d
      in \<lparr>ri_daily_loss_usdt = fst losses, ri_total_loss_usdt = snd losses,
          ri_last_trade_pnl_usdt = (case last_trade of None \<Rightarrow> None | Some t \<Rightarrow> td_net_pnl t),
          ri_last_trade_margin_usdt = map_option td_margin_usdt last_trade,
          ri_open_position_unrealized_pnl_usdt = get_open_position_unrealized_pnl (ms_symbol snap) (cy_exec st),
          ri_funding_rate = ms_funding_rate snap,
          ri_open_positions_count =
            (if reliable then Some (ms_open_positions_count snap + cy_opened_this_tick st) else None),
          ri_fee_estimate = fees, ri_slippage_estimate = slip,
          ri_last_account_trade_pnl_usdt = (case last_account_trade of None \<Rightarrow> None | Some t \<Rightarrow> td_net_pnl t),
          ri_last_account_trade_leverage = map_option td_leverage last_account_trade\<rparr>)"

text \<open>
  Step 9. \<open>si_reload_ok\<close> tells whether the identifiers of the rows can be read again after the commit of
  the execution, inside the \<^verbatim>\<open>begin_nested\<close> block that the commit has closed: where they cannot, the
  execution has committed and then raises.
\<close>

definition execution_outcome ::
    "bool \<Rightarrow> execution_state \<Rightarrow> execution_result result \<times> execution_state \<Rightarrow> execution_result result \<times> execution_state" where
  "execution_outcome reload_ok x out =
     (case out of
        (Inr res, x') \<Rightarrow>
          if \<not> reload_ok \<and> ss_commits (xs_session x') \<noteq> ss_commits (xs_session x) then (Inl SQLAlchemyError, x')
          else (Inr res, x')
      | (Inl e, x') \<Rightarrow> (Inl e, x'))"

definition executed_estimate ::
    "cycle_runner \<Rightarrow> market_snapshot \<Rightarrow> model_decision \<Rightarrow> adjusted_parameters \<Rightarrow> slippage_estimate option
     \<Rightarrow> slippage_estimate option result" where
  "executed_estimate r snap d approved proposed =
     (let parameters_changed = (ap_margin_usdt approved \<noteq> dec_of_float (md_margin_usdt d)
                                \<or> ap_leverage approved \<noteq> md_leverage d)
      in if proposed \<noteq> None \<and> parameters_changed
         then bindE (estimate_for_decision snap d (ap_margin_usdt approved) (ap_leverage approved)
                       (impact_bps (cfg_slippage (cr_config r)))) (\<lambda>e. Inr (Some e))
         else Inr proposed)"

definition slot_released :: "execution_result result \<Rightarrow> bool" where
  "slot_released res =
     (case res of
        Inl _ \<Rightarrow> False
      | Inr x \<Rightarrow> List.member [CANCELLED, FAILED] (or_status (xr_order_result x))
                 \<and> or_quantity_filled (xr_order_result x) = 0)"

definition execute_plan ::
    "cycle_runner \<Rightarrow> symbol_input \<Rightarrow> market_snapshot \<Rightarrow> model_decision \<Rightarrow> risk_result \<Rightarrow> slippage_estimate option
     \<Rightarrow> cycle_state \<Rightarrow> unit result \<times> cycle_state" where
  "execute_plan r i snap d rr slip st =
     (if \<not> executable rr then (Inr (), st)
      else case rv_adjusted_parameters rr of
        None \<Rightarrow> (Inl RuntimeError, st)
      | Some approved \<Rightarrow>
     (case executed_estimate r snap d approved slip of
        Inl e \<Rightarrow> (Inl e, st)
      | Inr est \<Rightarrow>
          let st = st\<lparr>cy_opened_this_tick := cy_opened_this_tick st + 1\<rparr>;
              (res, x) = execution_outcome (si_reload_ok i) (cy_exec st)
                (execute_approved_plan (cr_engine r) (si_timed_out i) (si_ids i) d rr est (cy_exec st));
              st = st\<lparr>cy_exec := x\<rparr>;
              st = (if slot_released res
                    then st\<lparr>cy_opened_this_tick := cy_opened_this_tick st - 1\<rparr> else st)
          in (bindE res (\<lambda>_. Inr ()), st)))"

text \<open>Steps 7 to 9, from an aggregation that did not end in NO_OPERAR.\<close>

definition validate_and_execute ::
    "cycle_runner \<Rightarrow> symbol_input \<Rightarrow> market_snapshot \<Rightarrow> bool \<Rightarrow> rat \<times> rat \<Rightarrow> model_decision
     \<Rightarrow> aggregation_result \<Rightarrow> cycle_state \<Rightarrow> unit result \<times> cycle_state" where
  "validate_and_execute r i snap reliable losses d agg st =
     (case proposed_slippage r snap d of
        Inl e \<Rightarrow> (Inl e, st)
      | Inr slip \<Rightarrow>
     (case proposed_fees (ms_symbol snap) (xs_adapter (cy_exec st)) d of
        Inl e \<Rightarrow> (Inl e, st)
      | Inr fees \<Rightarrow>
     (case risk_validate (si_validation_id i) agg d
             (risk_inputs_of r snap reliable losses fees slip st) (cr_config r) of
        Inl e \<Rightarrow> (Inl e, st)
      | Inr rr \<Rightarrow>
     (case (if st_log_risk_validations (cfg_storage (cr_config r))
            then audit_risk_validation (cr_bot_run_id r) rr (st_log_all_decisions (cfg_storage (cr_config r)))
                   (ss_work (cy_session st))
            else Inr (ss_work (cy_session st))) of
        Inl e \<Rightarrow> (Inl e, st)
      | Inr w \<Rightarrow>
          execute_plan r i snap d rr slip (with_session (ss_update (\<lambda>_. w) (cy_session st)) st)))))"

text \<open>Steps 4 to 9, from the answer of GPT.\<close>

definition decide ::
    "cycle_runner \<Rightarrow> symbol_input \<Rightarrow> market_snapshot \<Rightarrow> bool \<Rightarrow> rat \<times> rat \<Rightarrow> quant_signals_package
     \<Rightarrow> regime_assessment \<Rightarrow> volatility_assessment \<Rightarrow> model_decision \<Rightarrow> cycle_state
     \<Rightarrow> unit result \<times> cycle_state" where
  "decide r i snap reliable losses quant regime vol d st =
     (case aggregate (cr_pow15 r) (si_aggregation_id i) d quant (ra_primary_regime regime)
             (vo_volatility_score vol) of
        Inl e \<Rightarrow> (Inl e, st)
      | Inr agg \<Rightarrow>
     (case (if st_log_all_decisions (cfg_storage (cr_config r))
            then audit_decision_aggregation (cr_bot_run_id r) agg
                   (audit_model_decision (cr_bot_run_id r) d (ss_work (cy_session st)))
            else Inr (ss_work (cy_session st))) of
        Inl e \<Rightarrow> (Inl e, st)
      | Inr w \<Rightarrow>
          let st = with_session (ss_update (\<lambda>_. w) (cy_session st)) st in
          if ag_final_action agg = NO_OPERAR then (Inr (), st)
          else validate_and_execute r i snap reliable losses d agg st))"

text \<open>
  The losses are read before GPT is asked; what other processes commit until the answer is there is
  \<open>si_while_asking\<close>.
\<close>

definition process_symbol ::
    "cycle_runner \<Rightarrow> symbol_input \<Rightarrow> market_snapshot \<Rightarrow> bool \<Rightarrow> cycle_state \<Rightarrow> unit result \<times> cycle_state" where
  "process_symbol r i snap reliable st =
     (let losses = get_loss_totals (si_now i) (cr_bot_run_id r) (ss_work (cy_session st));
          st = with_session (ss_external (si_while_asking i) (cy_session st)) st in
      case analyse (cr_math r) snap of
        Inl e \<Rightarrow> (Inl e, st)
      | Inr (quant, regime, vol) \<Rightarrow>
          (case si_answer i of
             Inl e \<Rightarrow> (Inl e, st)
           | Inr None \<Rightarrow> (Inr (), st)
           | Inr (Some d) \<Rightarrow> decide r i snap reliable losses quant regime vol d st))"

subsection \<open>The pipeline of a tick\<close>

text \<open>A symbol runs inside a savepoint: what it raises undoes its uncommitted work only.\<close>

definition process_isolated ::
    "cycle_runner \<Rightarrow> symbol_input \<Rightarrow> market_snapshot \<Rightarrow> bool \<Rightarrow> cycle_state \<Rightarrow> cycle_state" where
  "process_isolated r i snap reliable st =
     (case process_symbol r i snap reliable st of
        (Inr _, st') \<Rightarrow> st'
      | (Inl _, st') \<Rightarrow>
          with_session
            (ss_savepoint_rollback (ss_external (si_while_asking i) (cy_session st)) (cy_session st')) st')"

fun run_decision_pipeline ::
    "cycle_runner \<Rightarrow> symbol list \<Rightarrow> bool \<Rightarrow> (symbol_input \<times> market_snapshot) list \<Rightarrow> cycle_state \<Rightarrow> cycle_state" where
  "run_decision_pipeline r unverified reliable [] st = st"
| "run_decision_pipeline r unverified reliable ((i, snap) # rest) st =
     (let st = sync_state_from_db r (si_sync i) st in
      if \<not> is_running (cy_machine st) then st
      else if \<not> can_trade (cy_machine st) then run_decision_pipeline r unverified reliable rest st
      else if List.member unverified (ms_symbol snap) then run_decision_pipeline r unverified reliable rest st
      else run_decision_pipeline r unverified reliable rest (process_isolated r i snap reliable st))"

subsection \<open>A tick\<close>

record tick_input =
  ti_now :: int
  ti_fetch :: fetcher
  ti_market_commit_ok :: bool
  ti_health_commit_ok :: bool
  ti_gate_commit_ok :: bool
  ti_ids :: "symbol \<Rightarrow> tick_ids"
  ti_symbols :: "nat \<Rightarrow> symbol_input"

definition market_phase ::
    "cycle_runner \<Rightarrow> tick_input \<Rightarrow> cycle_state \<Rightarrow> market_snapshot list result \<times> cycle_state" where
  "market_phase r i st =
     (case cr_market_symbols r of
        None \<Rightarrow> (Inr [], st)
      | Some symbs \<Rightarrow>
          (case market_tick_all (cr_math r) (cr_bot_run_id r) symbs (ti_fetch i) (ti_market_commit_ok i) (ti_now i)
                  (xs_adapter (cy_exec st)) (cy_cache st) (cy_session st) of
             (res, c, ss) \<Rightarrow> (res, with_session ss (st\<lparr>cy_cache := c\<rparr>))))"

definition health_phase :: "cycle_runner \<Rightarrow> tick_input \<Rightarrow> market_snapshot list \<Rightarrow> cycle_state \<Rightarrow> cycle_state" where
  "health_phase r i snaps st =
     (case cr_health r of
        None \<Rightarrow> st
      | Some h \<Rightarrow>
          (case check_and_enforce (ti_health_commit_ok i) (ti_now i) h snaps (cy_session st) (cy_machine st) of
             (findings, ss, m) \<Rightarrow> with_session ss (st\<lparr>cy_machine := m\<rparr>)))"

text \<open>The sources of prices that \<^verbatim>\<open>_build_position_tick_service\<close> makes from the cache of the market data.\<close>

definition cached_mark_price :: "market_cache \<Rightarrow> symbol \<Rightarrow> rat result" where
  "cached_mark_price c s = (case get_last_price s c of None \<Rightarrow> Inl LookupError | Some p \<Rightarrow> Inr p)"

definition position_phase :: "cycle_runner \<Rightarrow> tick_input \<Rightarrow> cycle_state \<Rightarrow> cycle_state" where
  "position_phase r i st =
     (if \<not> cr_position_ticks r then st
      else case tick_all paper_get_pos place_order (ti_ids i) (cached_mark_price (cy_cache st))
                  (Some (\<lambda>s. Inr (get_last_book s (cy_cache st))))
                  (xs_manager (cy_exec st)) (xs_adapter (cy_exec st)) of
        (results, m, a, evs) \<Rightarrow> st\<lparr>cy_exec := (cy_exec st)\<lparr>xs_manager := m, xs_adapter := a\<rparr>\<rparr>)"

text \<open>The gate reads through the manager as it is now; without a report every symbol counts as verified.\<close>

definition gate_phase ::
    "cycle_runner \<Rightarrow> tick_input \<Rightarrow> cycle_state \<Rightarrow> symbol list \<times> bool \<times> cycle_state" where
  "gate_phase r i st =
     (case cr_reconciler r of
        None \<Rightarrow> ([], True, st)
      | Some n \<Rightarrow>
          (case run_and_enforce (ti_gate_commit_ok i) (ti_now i) paper_reads
                  (n\<lparr>rn_position_manager := Some (xs_manager (cy_exec st))\<rparr>)
                  (cfg_reconciliation (cr_config r)) (cr_bot_run_id r) (xs_adapter (cy_exec st))
                  (cy_session st) (cy_machine st) of
             (report, ss, m) \<Rightarrow>
               ((case report of None \<Rightarrow> [] | Some rep \<Rightarrow> rr_failed_symbols rep),
                (case report of None \<Rightarrow> True | Some rep \<Rightarrow> is_complete rep),
                with_session ss (st\<lparr>cy_machine := m\<rparr>))))"

definition cycle_tick :: "cycle_runner \<Rightarrow> tick_input \<Rightarrow> cycle_state \<Rightarrow> unit result \<times> cycle_state" where
  "cycle_tick r i st =
     (case market_phase r i (touch_heartbeat st) of
        (Inl e, st) \<Rightarrow> (Inl e, st)
      | (Inr snaps, st) \<Rightarrow>
          let st = health_phase r i snaps st;
              st = position_phase r i st;
              (unverified, reliable, st) = gate_phase r i st in
          if cr_pipeline r \<and> snaps \<noteq> []
          then (Inr (), run_decision_pipeline r unverified reliable
                          (zip (map (ti_symbols i) [0..<length snaps]) snaps) (st\<lparr>cy_opened_this_tick := 0\<rparr>))
          else (Inr (), st))"

subsection \<open>The loop\<close>

text \<open>
  One input per iteration; \<open>li_shutdown\<close> is the outcome of the wait at its end. The loop stops at the first
  shutdown, an exception of a tick leaves it, and inputs that run out leave it running.
\<close>

record loop_input =
  li_sync :: sync_input
  li_tick :: tick_input
  li_shutdown :: bool

datatype loop_outcome = STOPPED | RAISED py_error | RUNNING_ON

definition iteration :: "cycle_runner \<Rightarrow> loop_input \<Rightarrow> cycle_state \<Rightarrow> unit result \<times> cycle_state" where
  "iteration r i st =
     (let st = sync_state_from_db r (li_sync i) st in
      if \<not> is_running (cy_machine st) then (Inr (), touch_heartbeat st) else cycle_tick r (li_tick i) st)"

fun run_loop :: "cycle_runner \<Rightarrow> loop_input list \<Rightarrow> cycle_state \<Rightarrow> loop_outcome \<times> cycle_state" where
  "run_loop r [] st = (RUNNING_ON, st)"
| "run_loop r (i # rest) st =
     (case iteration r i st of
        (Inl e, st) \<Rightarrow> (RAISED e, st)
      | (Inr _, st) \<Rightarrow> if li_shutdown i then (STOPPED, st) else run_loop r rest st)"

definition run_cycles :: "cycle_runner \<Rightarrow> bool \<Rightarrow> loop_input list \<Rightarrow> cycle_state \<Rightarrow> loop_outcome \<times> cycle_state" where
  "run_cycles r shutdown_requested inputs st =
     (if shutdown_requested then (STOPPED, st) else run_loop r inputs st)"

subsection \<open>Construction\<close>

definition DEFAULT_INTERVAL_SECONDS :: int where
  "DEFAULT_INTERVAL_SECONDS = 10"

definition cycle_runner_init :: "cycle_runner \<Rightarrow> cycle_runner result" where
  "cycle_runner_init r = (if cr_interval_seconds r \<le> 0 then Inl ValueError else Inr r)"

text \<open>\<open>parse_int\<close> is Python's \<^verbatim>\<open>int\<close> of a string, \<open>None\<close> for its \<^verbatim>\<open>ValueError\<close>.\<close>

definition parse_interval_from_env :: "(string \<Rightarrow> int option) \<Rightarrow> string option \<Rightarrow> int \<Rightarrow> int result" where
  "parse_interval_from_env parse_int raw dflt =
     (case raw of
        None \<Rightarrow> Inr dflt
      | Some s \<Rightarrow>
          if s = [] then Inr dflt
          else case parse_int s of
            None \<Rightarrow> Inl ValueError
          | Some v \<Rightarrow> if v \<le> 0 then Inl ValueError else Inr v)"

end
