(* ===== verification/CycleFacts.thy ===== *)
theory CycleFacts
  imports CycleRunner RiskProperties
begin

text \<open>
  What a cycle keeps: the positions that can appear, the gates every order has passed, and the tables
  that the phases of a tick leave alone.
\<close>

subsection \<open>Open positions of the simulated exchange\<close>

definition open_symbols :: "paper \<Rightarrow> symbol set" where
  "open_symbols a = {s. get_position s a \<noteq> None}"

lemma finite_open_symbols [simp]: "finite (open_symbols a)"
proof -
  have "open_symbols a \<subseteq> fst ` set (pa_positions a)"
    by (force simp: open_symbols_def get_position_def map_of_eq_None_iff)
  then show ?thesis by (rule finite_subset) simp
qed

lemma open_symbols_positions: "pa_positions a' = pa_positions a \<Longrightarrow> open_symbols a' = open_symbols a"
  by (simp add: open_symbols_def get_position_def)

lemma place_order_open:
  assumes "place_order ctx r a = (res, a')"
  shows "open_symbols a' \<subseteq> insert (rq_symbol r) (open_symbols a)"
  using place_order_frame [OF assms] by (auto simp: open_symbols_def paper_get_pos_def)

text \<open>A tick of the position manager never opens a position.\<close>

lemma tick_not_open:
  "get_pos s a = Inr None \<Longrightarrow> tick get_pos place ids s mk atr bk m a = (res, m', a', evs) \<Longrightarrow> a' = a"
  by (simp add: tick_def Let_def split: if_splits option.splits)

lemma tick_open:
  assumes "tick paper_get_pos place_order ids s mk atr bk m a = (res, m', a', evs)"
  shows "open_symbols a' \<subseteq> open_symbols a"
proof (cases "get_position s a")
  case None
  then show ?thesis using tick_not_open [OF _ assms] by (simp add: paper_get_pos_def)
next
  case (Some p)
  have "paper_monitor.adapter_step s a a'" by (rule paper_monitor.tick_step [OF assms])
  then show ?thesis
    using Some by (auto simp: paper_monitor.adapter_step_def paper_get_pos_def open_symbols_def)
qed

lemma tick_paper_ok:
  assumes "tick paper_get_pos place_order ids s mk atr bk m a = (res, m', a', evs)" "paper_ok a"
  shows "paper_ok a'"
  using paper_monitor.tick_step [OF assms(1)] assms(2) by (simp add: paper_monitor.adapter_step_def)

lemma tick_symbol_open:
  assumes "tick_symbol paper_get_pos place_order ids gm gb s (rs, m, a, evs) = (rs', m', a', evs')"
  shows "open_symbols a' \<subseteq> open_symbols a \<and> (paper_ok a \<longrightarrow> paper_ok a')"
  using assms
proof (cases rule: tick_symbol_cases)
  case (ticked x b t e)
  show ?thesis using tick_open [OF ticked(1)] tick_paper_ok [OF ticked(1)] by simp
next
  case (failed x b err m1 e)
  show ?thesis using tick_open [OF failed(1)] tick_paper_ok [OF failed(1)] by simp
qed simp

lemma tick_round_open:
  assumes "foldl (\<lambda>st s. tick_symbol paper_get_pos place_order ids gm gb s st) (rs, m, a, evs) ss
    = (rs', m', a', evs')"
  shows "open_symbols a' \<subseteq> open_symbols a \<and> (paper_ok a \<longrightarrow> paper_ok a')"
  using assms
proof (induction ss arbitrary: rs m a evs)
  case (Cons x ss)
  obtain rs1 m1 a1 evs1 where st: "tick_symbol paper_get_pos place_order ids gm gb x (rs, m, a, evs) = (rs1, m1, a1, evs1)"
    by (metis prod_cases4)
  with Cons.prems Cons.IH [of rs1 m1 a1 evs1] tick_symbol_open [OF st] show ?case by auto
qed simp

lemma tick_all_open:
  "tick_all paper_get_pos place_order ids gm gb m a = (rs, m', a', evs) \<Longrightarrow>
     open_symbols a' \<subseteq> open_symbols a \<and> (paper_ok a \<longrightarrow> paper_ok a')"
  unfolding tick_all_def by (rule tick_round_open)

subsection \<open>The execution of a plan\<close>

lemma register_fill_adapter: "register_fill e ids d adj atr out fp x = (res, x') \<Longrightarrow> xs_adapter x' = xs_adapter x"
  by (auto simp: register_fill_def Let_def split: sum.splits)

lemma persist_result_Inr: "persist_result e ids d adj atr est out x = (Inr res, x') \<Longrightarrow> xr_order_result res = out"
  by (auto simp: persist_result_def register_fill_def Let_def split: sum.splits option.splits if_splits)

lemma execute_cases:
  assumes "execute_approved_plan e timed_out ids d rr est x = (res, x')"
  obtains (untouched) "xs_adapter x' = xs_adapter x" "xs_manager x' = xs_manager x"
  | (planned) adj atr where "place_plan e timed_out ids d adj atr est x = (res, x')" "executable rr"
      "rv_adjusted_parameters rr = Some adj" "md_entry_type d \<noteq> NO_ENTRY"
  using assms by (auto simp: execute_approved_plan_def split: option.splits if_splits)

lemma place_timeout_open:
  assumes "place_order_with_timeout to ctx r a = (res, a')"
  shows "open_symbols a' \<subseteq> insert (rq_symbol r) (open_symbols a)" "paper_ok a \<Longrightarrow> paper_ok a'"
proof -
  obtain y where y: "place_order ctx r a = (y, a')"
    using assms by (auto simp: place_order_with_timeout_def split: prod.splits)
  show "open_symbols a' \<subseteq> insert (rq_symbol r) (open_symbols a)" by (rule place_order_open [OF y])
  show "paper_ok a'" if "paper_ok a" by (rule place_order_ok [OF that y])
qed

lemma execute_open:
  assumes "execute_approved_plan e timed_out ids d rr est x = (res, x')"
  shows "open_symbols (xs_adapter x') \<subseteq> insert (md_symbol d) (open_symbols (xs_adapter x))"
  using assms
proof (cases rule: execute_cases)
  case (planned adj atr)
  from planned(1) show ?thesis
  proof (cases rule: place_plan_cases)
    case (refused err a)
    then show ?thesis using open_symbols_positions [of a "xs_adapter x"] by auto
  next
    case (failed err q r a a')
    then show ?thesis using place_timeout_open(1) [OF failed(5)] build_order_request_Inr(2) [OF failed(4)]
        open_symbols_positions [OF failed(7)] by auto
  next
    case (placed q r a a' out)
    then show ?thesis using place_order_open [OF placed(3)] build_order_request_Inr(2) [OF placed(2)]
        open_symbols_positions [OF placed(7)] persist_result_adapter [OF placed(5)] by auto
  qed
qed auto

text \<open>An order that ended CANCELLED or FAILED without a fill was on file already and moved no position.\<close>

lemma execute_released:
  assumes "execute_approved_plan e timed_out ids d rr est x = (res, x')" "slot_released res"
  shows "open_symbols (xs_adapter x') = open_symbols (xs_adapter x)"
  using assms(1)
proof (cases rule: execute_cases)
  case (planned adj atr)
  from assms(2) obtain xr where xr: "res = Inr xr"
    "or_status (xr_order_result xr) = CANCELLED \<or> or_status (xr_order_result xr) = FAILED"
    by (auto simp: slot_released_def split: sum.splits)
  from planned(1) show ?thesis
  proof (cases rule: place_plan_cases)
    case (placed q r a a' out)
    have out: "xr_order_result xr = out" using persist_result_Inr placed(5) xr(1) by blast
    have "get_order_status (rq_client_order_id r) a \<noteq> None"
    proof
      assume "get_order_status (rq_client_order_id r) a = None"
      from fresh_order_result(6) [OF placed(3) this] build_order_request_Inr(3,4) [OF placed(2)] xr(2) out
      show False by auto
    qed
    then have "a' = a" using place_order_known placed(3) by (metis option.exhaust prod.inject)
    then show ?thesis
      using open_symbols_positions [OF placed(7)] persist_result_adapter [OF placed(5)] by simp
  qed (use xr in simp_all)
qed simp

lemma place_plan_paper_ok:
  assumes "place_plan e timed_out ids d adj atr est x = (res, x')" "paper_ok (xs_adapter x)"
  shows "paper_ok (xs_adapter x')"
  using assms
  by (auto simp: place_plan_def split: prod.splits sum.splits dest!: persist_result_adapter)
    (metis set_margin_type_ok set_leverage_ok place_timeout_open(2))+

lemma execute_paper_ok:
  assumes "execute_approved_plan e timed_out ids d rr est x = (res, x')" "paper_ok (xs_adapter x)"
  shows "paper_ok (xs_adapter x')"
  using assms(1) by (cases rule: execute_cases) (use assms(2) place_plan_paper_ok in auto)

text \<open>The tables of the state machine are not the execution's.\<close>

definition same_bot_tables :: "db \<Rightarrow> db \<Rightarrow> bool" where
  "same_bot_tables d d' \<longleftrightarrow> db_bot_states d' = db_bot_states d \<and> db_bot_runs d' = db_bot_runs d"

lemma same_bot_tables_refl [simp]: "same_bot_tables d d"
  by (simp add: same_bot_tables_def)

lemma same_bot_tables_trans: "same_bot_tables a b \<Longrightarrow> same_bot_tables b c \<Longrightarrow> same_bot_tables a c"
  by (simp add: same_bot_tables_def)

lemma insert_order_bot_tables: "insert_order row d = Inr d' \<Longrightarrow> same_bot_tables d d'"
  by (auto simp: insert_order_def same_bot_tables_def split: if_splits)

lemma order_tables_bot [simp]:
  "same_bot_tables d (add_trade t d')= same_bot_tables d d'"
  "same_bot_tables d (add_position p d') = same_bot_tables d d'"
  "same_bot_tables d (link_order_trade a b d') = same_bot_tables d d'"
  by (simp_all add: same_bot_tables_def add_trade_def add_position_def link_order_trade_def)

text \<open>A session whose own work has not touched the two tables.\<close>

definition bot_tables_clean :: "session \<Rightarrow> bool" where
  "bot_tables_clean s \<longleftrightarrow> same_bot_tables (ss_committed s) (ss_work s)"

definition same_bot_session :: "session \<Rightarrow> session \<Rightarrow> bool" where
  "same_bot_session s s' \<longleftrightarrow> same_bot_tables (ss_committed s) (ss_committed s')
     \<and> same_bot_tables (ss_work s) (ss_work s')"

lemma persist_result_bot:
  assumes "persist_result e ids d adj atr est out x = (res, x')" "bot_tables_clean (xs_session x)"
  shows "same_bot_session (xs_session x) (xs_session x')"
  using assms
  by (auto simp: persist_result_def register_fill_def Let_def same_bot_session_def bot_tables_clean_def
      split: sum.splits option.splits if_splits dest!: insert_order_bot_tables
      intro: same_bot_tables_trans)

lemma place_plan_bot:
  assumes "place_plan e timed_out ids d adj atr est x = (res, x')" "bot_tables_clean (xs_session x)"
  shows "same_bot_session (xs_session x) (xs_session x')"
  using assms
  by (auto simp: place_plan_def same_bot_session_def split: prod.splits sum.splits
      dest!: persist_result_bot)

lemma execute_bot:
  assumes "execute_approved_plan e timed_out ids d rr est x = (res, x')" "bot_tables_clean (xs_session x)"
  shows "same_bot_session (xs_session x) (xs_session x')"
  using assms place_plan_bot
  by (auto simp: execute_approved_plan_def same_bot_session_def split: option.splits if_splits)

subsection \<open>The decision pipeline of a symbol\<close>

abbreviation cy_adapter :: "cycle_state \<Rightarrow> paper" where
  "cy_adapter st \<equiv> xs_adapter (cy_exec st)"

abbreviation cy_manager :: "cycle_state \<Rightarrow> manager" where
  "cy_manager st \<equiv> xs_manager (cy_exec st)"

lemma with_session_sel [simp]:
  "cy_session (with_session s st) = s" "cy_adapter (with_session s st) = cy_adapter st"
  "cy_manager (with_session s st) = cy_manager st" "cy_machine (with_session s st) = cy_machine st"
  "cy_cache (with_session s st) = cy_cache st"
  "cy_opened_this_tick (with_session s st) = cy_opened_this_tick st"
  "cy_heartbeats (with_session s st) = cy_heartbeats st"
  by (simp_all add: with_session_def)

text \<open>The counter of the tick pays for every position that may have appeared.\<close>

definition slot_accounted :: "symbol \<Rightarrow> cycle_state \<Rightarrow> cycle_state \<Rightarrow> bool" where
  "slot_accounted s st st' \<longleftrightarrow>
     cy_opened_this_tick st' = cy_opened_this_tick st \<and> open_symbols (cy_adapter st') = open_symbols (cy_adapter st)
     \<or> cy_opened_this_tick st' = cy_opened_this_tick st + 1
       \<and> open_symbols (cy_adapter st') \<subseteq> insert s (open_symbols (cy_adapter st))"

lemma slot_accounted_refl [simp]:
  "slot_accounted s st st" "slot_accounted s st (with_session ss st)"
  by (simp_all add: slot_accounted_def)

lemma execution_outcome_state: "snd (execution_outcome ok x out) = snd out"
  by (simp add: execution_outcome_def split: prod.split sum.split)

lemma execution_outcome_released:
  "slot_released (fst (execution_outcome ok x out)) \<Longrightarrow> fst (execution_outcome ok x out) = fst out"
  by (auto simp: execution_outcome_def slot_released_def split: prod.splits sum.splits if_splits)

lemma execute_plan_cases:
  assumes "execute_plan r i snap d rr slip st = (res, st')"
  obtains (kept) "st' = st"
  | (run) x res1 est where "executable rr"
      "execute_approved_plan (cr_engine r) (si_timed_out i) (si_ids i) d rr est (cy_exec st) = (res1, x)"
      "cy_exec st' = x" "cy_machine st' = cy_machine st" "cy_cache st' = cy_cache st"
      "cy_heartbeats st' = cy_heartbeats st" "slot_accounted (md_symbol d) st st'"
proof (cases "\<exists>approved est. executable rr \<and> rv_adjusted_parameters rr = Some approved
    \<and> executed_estimate r snap d approved slip = Inr est")
  case False
  with assms have "st' = st" by (auto simp: execute_plan_def split: if_splits option.splits sum.splits)
  then show thesis by (rule kept)
next
  case True
  then obtain approved est where g: "executable rr" "rv_adjusted_parameters rr = Some approved"
    "executed_estimate r snap d approved slip = Inr est" by blast
  obtain res1 x where x: "execute_approved_plan (cr_engine r) (si_timed_out i) (si_ids i) d rr est (cy_exec st)
      = (res1, x)" by fastforce
  obtain res2 where o: "execution_outcome (si_reload_ok i) (cy_exec st) (res1, x) = (res2, x)"
    using execution_outcome_state [of "si_reload_ok i" "cy_exec st" "(res1, x)"] by (metis prod.collapse snd_conv)
  have released: "slot_released res2 \<Longrightarrow> open_symbols (xs_adapter x) = open_symbols (cy_adapter st)"
    using execution_outcome_released [of "si_reload_ok i" "cy_exec st" "(res1, x)"] o execute_released [OF x]
    by simp
  have st': "st' = (if slot_released res2 then st\<lparr>cy_exec := x\<rparr>
      else st\<lparr>cy_exec := x, cy_opened_this_tick := cy_opened_this_tick st + 1\<rparr>)"
    using assms g x o by (auto simp: execute_plan_def Let_def)
  have "slot_accounted (md_symbol d) st st'"
    using st' released execute_open [OF x] by (auto simp: slot_accounted_def)
  then show thesis using st' g(1) x by (intro run [of est res1 x]) auto
qed

lemma audit_bot_tables:
  "audit_risk_validation run rr l w = Inr w' \<Longrightarrow> same_bot_tables w w'"
  "audit_decision_aggregation run a (audit_model_decision run d w) = Inr w' \<Longrightarrow> same_bot_tables w w'"
  using audit_validation_frames audit_aggregation_frames by (fastforce simp: same_bot_tables_def)+

lemma clean_update [simp]:
  "same_bot_tables (ss_work s) w \<Longrightarrow> bot_tables_clean s \<Longrightarrow> bot_tables_clean (ss_update (\<lambda>_. w) s)"
  by (auto simp: bot_tables_clean_def intro: same_bot_tables_trans)

text \<open>
  Either nothing reaches the execution, or the decision has passed every gate.
\<close>

lemma validate_and_execute_cases:
  assumes "validate_and_execute r i snap reliable losses d agg st = (res, st')"
  obtains (refused) "st' = st \<or> (\<exists>w. same_bot_tables (ss_work (cy_session st)) w
      \<and> st' = with_session (ss_update (\<lambda>_. w) (cy_session st)) st)"
  | (passed) slip fees rr w where "proposed_slippage r snap d = Inr slip"
      "proposed_fees (ms_symbol snap) (cy_adapter st) d = Inr fees"
      "risk_validate (si_validation_id i) agg d (risk_inputs_of r snap reliable losses fees slip st) (cr_config r) = Inr rr"
      "executable rr" "same_bot_tables (ss_work (cy_session st)) w"
      "execute_plan r i snap d rr slip (with_session (ss_update (\<lambda>_. w) (cy_session st)) st) = (res, st')"
proof (cases "\<exists>slip fees rr w. proposed_slippage r snap d = Inr slip
    \<and> proposed_fees (ms_symbol snap) (cy_adapter st) d = Inr fees
    \<and> risk_validate (si_validation_id i) agg d (risk_inputs_of r snap reliable losses fees slip st) (cr_config r) = Inr rr
    \<and> (if st_log_risk_validations (cfg_storage (cr_config r))
            then audit_risk_validation (cr_bot_run_id r) rr (st_log_all_decisions (cfg_storage (cr_config r)))
                   (ss_work (cy_session st))
            else Inr (ss_work (cy_session st))) = Inr w")
  case False
  with assms have "st' = st" by (auto simp: validate_and_execute_def split: sum.splits if_splits)
  then show thesis by (intro refused) simp
next
  case True
  then obtain slip fees rr w where g: "proposed_slippage r snap d = Inr slip"
      "proposed_fees (ms_symbol snap) (cy_adapter st) d = Inr fees"
      "risk_validate (si_validation_id i) agg d (risk_inputs_of r snap reliable losses fees slip st) (cr_config r) = Inr rr"
    and w: "(if st_log_risk_validations (cfg_storage (cr_config r))
            then audit_risk_validation (cr_bot_run_id r) rr (st_log_all_decisions (cfg_storage (cr_config r)))
                   (ss_work (cy_session st))
            else Inr (ss_work (cy_session st))) = Inr w" by blast
  have b: "same_bot_tables (ss_work (cy_session st)) w"
    using w audit_bot_tables(1) by (auto split: if_splits)
  have e: "execute_plan r i snap d rr slip (with_session (ss_update (\<lambda>_. w) (cy_session st)) st) = (res, st')"
    using assms g w by (simp add: validate_and_execute_def)
  show thesis
  proof (cases "executable rr")
    case True
    show thesis by (rule passed [OF g True b e])
  next
    case False
    with e b show thesis by (intro refused) (auto simp: execute_plan_def)
  qed
qed

lemma ss_update_same [simp]: "ss_update (\<lambda>_. ss_work s) s = s"
  by (simp add: ss_update_def)

lemma ss_update_twice [simp]: "ss_update (\<lambda>_. w) (ss_update f s) = ss_update (\<lambda>_. w) s"
  by (simp add: ss_update_def)

lemma with_session_self: "with_session (cy_session st) st = st"
  by (simp add: with_session_def)

lemma with_session_twice [simp]: "with_session s (with_session s' st) = with_session s st"
  by (simp add: with_session_def)

lemma aggregate_directional:
  assumes "aggregate pow15 i d qs regime v = Inr agg" "ag_final_action agg \<noteq> NO_OPERAR"
  shows "md_decision d \<noteq> NO_OPERAR"
  using assms
  by (auto simp: aggregate_def Let_def bindE_Inr_iff make_aggregation_result_def split: if_splits prod.splits)

lemma decide_cases:
  assumes "decide r i snap reliable losses quant regime vol d st = (res, st')"
  obtains (refused) w where "same_bot_tables (ss_work (cy_session st)) w"
      "st' = with_session (ss_update (\<lambda>_. w) (cy_session st)) st"
  | (passed) agg slip fees rr w1 w where
      "aggregate (cr_pow15 r) (si_aggregation_id i) d quant (ra_primary_regime regime) (vo_volatility_score vol) = Inr agg"
      "ag_final_action agg \<noteq> NO_OPERAR" "proposed_slippage r snap d = Inr slip"
      "proposed_fees (ms_symbol snap) (cy_adapter st) d = Inr fees"
      "risk_validate (si_validation_id i) agg d
         (risk_inputs_of r snap reliable losses fees slip (with_session (ss_update (\<lambda>_. w1) (cy_session st)) st))
         (cr_config r) = Inr rr"
      "executable rr" "same_bot_tables (ss_work (cy_session st)) w"
      "execute_plan r i snap d rr slip (with_session (ss_update (\<lambda>_. w) (cy_session st)) st) = (res, st')"
proof (cases "\<exists>agg w1. aggregate (cr_pow15 r) (si_aggregation_id i) d quant (ra_primary_regime regime)
      (vo_volatility_score vol) = Inr agg
    \<and> (if st_log_all_decisions (cfg_storage (cr_config r))
            then audit_decision_aggregation (cr_bot_run_id r) agg
                   (audit_model_decision (cr_bot_run_id r) d (ss_work (cy_session st)))
            else Inr (ss_work (cy_session st))) = Inr w1")
  case False
  with assms have "st' = st" by (auto simp: decide_def split: sum.splits if_splits)
  then show thesis by (intro refused [of "ss_work (cy_session st)"]) (simp_all add: with_session_def)
next
  case True
  then obtain agg w1 where a: "aggregate (cr_pow15 r) (si_aggregation_id i) d quant (ra_primary_regime regime)
      (vo_volatility_score vol) = Inr agg"
    and w1: "(if st_log_all_decisions (cfg_storage (cr_config r))
            then audit_decision_aggregation (cr_bot_run_id r) agg
                   (audit_model_decision (cr_bot_run_id r) d (ss_work (cy_session st)))
            else Inr (ss_work (cy_session st))) = Inr w1" by blast
  have b: "same_bot_tables (ss_work (cy_session st)) w1"
    using w1 audit_bot_tables(2) by (auto split: if_splits)
  show thesis
  proof (cases "ag_final_action agg = NO_OPERAR")
    case True
    with assms a w1 have "st' = with_session (ss_update (\<lambda>_. w1) (cy_session st)) st"
      by (simp add: decide_def Let_def)
    with b show thesis by (rule refused)
  next
    case False
    with assms a w1 have "validate_and_execute r i snap reliable losses d agg
        (with_session (ss_update (\<lambda>_. w1) (cy_session st)) st) = (res, st')"
      by (simp add: decide_def Let_def)
    then show thesis
    proof (cases rule: validate_and_execute_cases)
      case refused
      with b that(1) show thesis by (auto intro: same_bot_tables_trans)
    next
      case (passed slip fees rr w)
      then show thesis
        using that(2) [OF a False passed(1) _ passed(3,4), of w] same_bot_tables_trans [OF b] by simp
    qed
  qed
qed

lemma process_symbol_cases:
  assumes "process_symbol r i snap reliable st = (res, st')"
    and "s0 = ss_external (si_while_asking i) (cy_session st)"
  obtains (refused) w where "same_bot_tables (ss_work s0) w" "st' = with_session (ss_update (\<lambda>_. w) s0) st"
  | (passed) d quant regime vol agg losses slip fees rr w1 w where "analyse (cr_math r) snap = Inr (quant, regime, vol)"
      "si_answer i = Inr (Some d)"
      "aggregate (cr_pow15 r) (si_aggregation_id i) d quant (ra_primary_regime regime) (vo_volatility_score vol) = Inr agg"
      "ag_final_action agg \<noteq> NO_OPERAR" "proposed_slippage r snap d = Inr slip"
      "proposed_fees (ms_symbol snap) (cy_adapter st) d = Inr fees"
      "risk_validate (si_validation_id i) agg d
         (risk_inputs_of r snap reliable losses fees slip (with_session (ss_update (\<lambda>_. w1) s0) st))
         (cr_config r) = Inr rr"
      "executable rr" "same_bot_tables (ss_work s0) w"
      "execute_plan r i snap d rr slip (with_session (ss_update (\<lambda>_. w) s0) st) = (res, st')"
      "losses = get_loss_totals (si_now i) (cr_bot_run_id r) (ss_work (cy_session st))"
proof (cases "\<exists>quant regime vol d. analyse (cr_math r) snap = Inr (quant, regime, vol) \<and> si_answer i = Inr (Some d)")
  case False
  with assms have "st' = with_session s0 st"
    by (auto simp: process_symbol_def Let_def split: sum.splits option.splits)
  then show thesis by (intro refused [of "ss_work s0"]) simp_all
next
  case True
  then obtain quant regime vol d where g: "analyse (cr_math r) snap = Inr (quant, regime, vol)"
    "si_answer i = Inr (Some d)" by blast
  let ?losses = "get_loss_totals (si_now i) (cr_bot_run_id r) (ss_work (cy_session st))"
  from g have "decide r i snap reliable ?losses quant regime vol d (with_session s0 st) = (res, st')"
    using assms by (auto simp: process_symbol_def Let_def)
  then show thesis
  proof (cases rule: decide_cases)
    case (refused w)
    then show thesis by (intro that(1) [of w]) simp_all
  next
    case (passed agg slip fees rr w1 w)
    then show thesis using that(2) [OF g passed(1-3) _ _ passed(6), of fees ?losses w1 w] by simp
  qed
qed

text \<open>What a decision that reaches the execution has shown.\<close>

lemma passed_gates:
  assumes "proposed_slippage r snap d = Inr slip" "proposed_fees s a d = Inr fees"
    and "risk_validate v agg d (risk_inputs_of r snap reliable losses fees slip st) (cr_config r) = Inr rr"
    and "executable rr" "md_decision d \<noteq> NO_OPERAR"
  shows "md_symbol d = ms_symbol snap" "md_execute d" "reliable"
    "ms_open_positions_count snap + cy_opened_this_tick st < tr_max_open_positions (cfg_trading (cr_config r))"
    "risk_rules_hold d (risk_inputs_of r snap reliable losses fees slip st) (cr_config r)"
proof -
  obtain a' cs where x: "md_execute d" "block_checks d (risk_inputs_of r snap reliable losses fees slip st) (cr_config r) = Inr cs"
    "\<not> list_ex (\<lambda>c. cr_outcome c = BLOCK) cs"
    by (rule executable_adjusted [OF assms(3,4)])
  show h: "risk_rules_hold d (risk_inputs_of r snap reliable losses fees slip st) (cr_config r)"
    by (rule block_checks_pass [OF x(2,3,1)])
  show "md_execute d" by (rule x(1))
  have e: "is_estimable d"
    using h assms(2) by (auto simp: risk_rules_hold_def risk_inputs_of_def proposed_fees_def Let_def split: if_splits)
  then show "md_symbol d = ms_symbol snap"
    using assms(1) by (auto simp: proposed_slippage_def bindE_Inr_iff estimate_for_decision_def split: if_splits)
  show "reliable" "ms_open_positions_count snap + cy_opened_this_tick st
      < tr_max_open_positions (cfg_trading (cr_config r))"
    using h assms(5) by (auto simp: risk_rules_hold_def risk_inputs_of_def Let_def split: if_splits)
qed

subsection \<open>The pipeline\<close>

lemma sync_exec [simp]:
  "cy_adapter (sync_state_from_db r y st) = cy_adapter st" "cy_manager (sync_state_from_db r y st) = cy_manager st"
  "cy_opened_this_tick (sync_state_from_db r y st) = cy_opened_this_tick st"
  "cy_cache (sync_state_from_db r y st) = cy_cache st" "cy_heartbeats (sync_state_from_db r y st) = cy_heartbeats st"
  by (simp_all add: sync_state_from_db_def Let_def split: option.split)

lemma ss_external_sel [simp]:
  "ss_committed (ss_external f s) = f (ss_committed s)" "ss_work (ss_external f s) = f (ss_work s)"
  "ss_commits (ss_external f s) = ss_commits s"
  by (simp_all add: ss_external_def)

lemma process_isolated_cases:
  assumes "process_isolated r i snap reliable st = st'"
  obtains (kept) "cy_adapter st' = cy_adapter st" "cy_manager st' = cy_manager st"
      "cy_opened_this_tick st' = cy_opened_this_tick st" "cy_machine st' = cy_machine st"
      "cy_cache st' = cy_cache st" "cy_heartbeats st' = cy_heartbeats st"
  | (ran) d rr est res1 x s1 where "si_answer i = Inr (Some d)" "md_symbol d = ms_symbol snap" "md_execute d"
      "executable rr" "reliable"
      "ms_open_positions_count snap + cy_opened_this_tick st < tr_max_open_positions (cfg_trading (cr_config r))"
      "execute_approved_plan (cr_engine r) (si_timed_out i) (si_ids i) d rr est
         ((cy_exec st)\<lparr>xs_session := s1\<rparr>) = (res1, x)"
      "cy_adapter st' = xs_adapter x" "cy_manager st' = xs_manager x"
      "slot_accounted (ms_symbol snap) st st'" "cy_machine st' = cy_machine st"
      "cy_cache st' = cy_cache st" "cy_heartbeats st' = cy_heartbeats st"
proof -
  define s0 where "s0 = ss_external (si_while_asking i) (cy_session st)"
  obtain res st1 where p: "process_symbol r i snap reliable st = (res, st1)" by fastforce
  have st': "\<exists>ss. st' = with_session ss st1"
    using assms p by (auto simp: process_isolated_def split: sum.splits intro: with_session_self [symmetric])
  then obtain ss where ss: "st' = with_session ss st1" by blast
  from p s0_def show thesis
  proof (cases rule: process_symbol_cases)
    case (refused w)
    then show thesis using ss by (intro kept) simp_all
  next
    case (passed d quant regime vol agg losses slip fees rr w1 w)
    note g = passed_gates [OF passed(5-8) aggregate_directional [OF passed(3,4)]]
    from passed(10) show thesis
    proof (cases rule: execute_plan_cases)
      case kept
      then show thesis using ss that(1) by simp
    next
      case (run x res1 est)
      show thesis
      proof (rule that(2))
        show "execute_approved_plan (cr_engine r) (si_timed_out i) (si_ids i) d rr est
         ((cy_exec st)\<lparr>xs_session := ss_update (\<lambda>_. w) s0\<rparr>) = (res1, x)"
          using run(2) by (simp add: with_session_def)
        show "slot_accounted (ms_symbol snap) st st'"
          using run(7) g(1) ss by (simp add: slot_accounted_def)
      qed (use g passed run ss in simp_all)
    qed
  qed
qed

lemma process_isolated_machine [simp]: "cy_machine (process_isolated r i snap reliable st) = cy_machine st"
  by (rule process_isolated_cases [OF refl, of r i snap reliable st]) simp_all

text \<open>The number of positions never passes the larger of the limit and what was open before.\<close>

definition within_limit :: "cycle_runner \<Rightarrow> int \<Rightarrow> cycle_state \<Rightarrow> bool" where
  "within_limit r n st \<longleftrightarrow>
     0 \<le> cy_opened_this_tick st \<and> int (card (open_symbols (cy_adapter st))) \<le> n + cy_opened_this_tick st
     \<and> (cy_opened_this_tick st = 0
        \<or> n + cy_opened_this_tick st \<le> tr_max_open_positions (cfg_trading (cr_config r)))"

lemma process_isolated_within:
  assumes "within_limit r n st" "n \<le> ms_open_positions_count snap"
  shows "within_limit r n (process_isolated r i snap reliable st)"
proof (rule process_isolated_cases [OF refl, of r i snap reliable st])
  assume "cy_adapter (process_isolated r i snap reliable st) = cy_adapter st"
    "cy_opened_this_tick (process_isolated r i snap reliable st) = cy_opened_this_tick st"
  with assms(1) show ?thesis by (simp add: within_limit_def)
next
  let ?st' = "process_isolated r i snap reliable st"
  assume lim: "ms_open_positions_count snap + cy_opened_this_tick st
      < tr_max_open_positions (cfg_trading (cr_config r))"
    and acc: "slot_accounted (ms_symbol snap) st ?st'"
  have "card (insert (ms_symbol snap) (open_symbols (cy_adapter st))) \<le> Suc (card (open_symbols (cy_adapter st)))"
    by (simp add: card_insert_if)
  moreover have "card (open_symbols (cy_adapter ?st'))
      \<le> card (insert (ms_symbol snap) (open_symbols (cy_adapter st)))"
    if "open_symbols (cy_adapter ?st') \<subseteq> insert (ms_symbol snap) (open_symbols (cy_adapter st))"
    using that by (intro card_mono) simp_all
  ultimately show ?thesis using acc assms lim by (auto simp: slot_accounted_def within_limit_def)
qed

lemma pipeline_within:
  assumes "within_limit r n st" "\<forall>(i, s) \<in> set xs. n \<le> ms_open_positions_count s"
  shows "within_limit r n (run_decision_pipeline r unverified reliable xs st)"
  using assms
proof (induction r unverified reliable xs st rule: run_decision_pipeline.induct)
  case (2 r unverified reliable i snap rest st)
  have w: "within_limit r n (sync_state_from_db r (si_sync i) st)"
    using "2.prems"(1) by (simp add: within_limit_def)
  show ?case
    using "2.IH" [OF refl] "2.prems"(2) w process_isolated_within [OF w] by (simp add: Let_def)
qed simp

lemma pipeline_symbols:
  "open_symbols (cy_adapter (run_decision_pipeline r unverified reliable xs st))
     \<subseteq> open_symbols (cy_adapter st) \<union> ms_symbol ` snd ` set xs"
proof (induction r unverified reliable xs st rule: run_decision_pipeline.induct)
  case (2 r unverified reliable i snap rest st)
  let ?s1 = "sync_state_from_db r (si_sync i) st"
  have "open_symbols (cy_adapter (process_isolated r i snap reliable ?s1))
      \<subseteq> insert (ms_symbol snap) (open_symbols (cy_adapter ?s1))"
    by (rule process_isolated_cases [OF refl, of r i snap reliable ?s1]) (auto simp: slot_accounted_def)
  then show ?case using "2.IH" [OF refl] by (auto simp: Let_def)
qed simp

end
