(* ===== verification/CycleTicks.thy ===== *)
theory CycleTicks
  imports CycleFacts
begin

text \<open>
  A tick and the loop: the phases one by one, the limit on open positions over a whole run, the states
  that block new entries, and the transitions of the bot that a worker can commit.
\<close>

subsection \<open>The phases\<close>

lemma fold_kept_from:
  assumes "foldl (\<lambda>st f. keep_snapshot math run now f st) (xs, c, ss) fs = (ys, c', ss')"
  shows "set ys \<subseteq> set xs \<union> {s. \<exists>symb. (symb, Inr s) \<in> set fs}"
  using assms
proof (induction fs arbitrary: xs c ss)
  case (Cons f fs)
  obtain s res where f: "f = (s, res)" by fastforce
  obtain zs c1 ss1 where k: "keep_snapshot math run now f (xs, c, ss) = (zs, c1, ss1)" by (metis prod_cases3)
  with Cons.prems have "foldl (\<lambda>st f. keep_snapshot math run now f st) (zs, c1, ss1) fs = (ys, c', ss')"
    by simp
  then have "set ys \<subseteq> set zs \<union> {s. \<exists>symb. (symb, Inr s) \<in> set fs}" by (rule Cons.IH)
  moreover have "set zs \<subseteq> set xs \<union> {s'. res = Inr s'}" using keep_snapshot_kept [OF k [unfolded f]] by auto
  ultimately show ?case unfolding f by auto
qed simp

text \<open>
  What the market data relies on: a fetcher answers for the symbol it was asked for and puts the count of
  open positions it was given into the snapshot.
\<close>

definition honest_fetcher :: "fetcher \<Rightarrow> bool" where
  "honest_fetcher f \<longleftrightarrow> (\<forall>s b n k snap. f s b n k = Inr snap \<longrightarrow> ms_symbol snap = s \<and> ms_open_positions_count snap = n)"

lemma market_phase_exec:
  assumes "market_phase r i st = (res, st')"
  shows "cy_adapter st' = cy_adapter st" "cy_manager st' = cy_manager st" "cy_machine st' = cy_machine st"
    "cy_heartbeats st' = cy_heartbeats st" "cy_opened_this_tick st' = cy_opened_this_tick st"
  using assms by (auto simp: market_phase_def with_session_def split: option.splits prod.splits)

definition market_symbols :: "cycle_runner \<Rightarrow> symbol list" where
  "market_symbols r = (case cr_market_symbols r of None \<Rightarrow> [] | Some symbs \<Rightarrow> symbs)"

lemma market_phase_snaps:
  assumes "market_phase r i st = (Inr snaps, st')" "honest_fetcher (ti_fetch i)" "s \<in> set snaps"
  shows "ms_symbol s \<in> set (market_symbols r)"
    "ms_open_positions_count s = int (length (filter (\<lambda>s. get_position s (cy_adapter st) \<noteq> None) (market_symbols r)))"
proof -
  have "\<exists>symb b k. symb \<in> set (market_symbols r) \<and> ti_fetch i symb b
      (int (length (filter (\<lambda>s. get_position s (cy_adapter st) \<noteq> None) (market_symbols r)))) k = Inr s"
  proof (cases "cr_market_symbols r")
    case None
    then show ?thesis using assms(1,3) by (simp add: market_phase_def)
  next
    case (Some symbs)
    obtain account where acc: "get_account_state (cy_adapter st) = Inr account"
      using assms(1) Some by (auto simp: market_phase_def market_tick_all_def split: sum.splits)
    define fs where "fs = map (\<lambda>s. (s, ti_fetch i s (ac_balance_usdt account)
      (int (length (filter (\<lambda>s. get_position s (cy_adapter st) \<noteq> None) symbs)))
      (int (\<Sum>s\<leftarrow>symbs. length (get_open_orders s (cy_adapter st)))))) symbs"
    obtain ys c ss where f: "foldl (\<lambda>st f. keep_snapshot (cr_math r) (cr_bot_run_id r) (ti_now i) f st)
        ([], cy_cache st, cy_session st) fs = (ys, c, ss)" by (metis prod_cases3)
    have "snaps = ys"
      using assms(1) Some acc f unfolding fs_def
      by (auto simp: market_phase_def market_tick_all_def Let_def split: if_splits)
    with fold_kept_from [OF f] assms(3) obtain symb where "(symb, Inr s) \<in> set fs" by auto
    then have "symb \<in> set symbs" "ti_fetch i symb (ac_balance_usdt account)
      (int (length (filter (\<lambda>s. get_position s (cy_adapter st) \<noteq> None) symbs)))
      (int (\<Sum>s\<leftarrow>symbs. length (get_open_orders s (cy_adapter st)))) = Inr s"
      unfolding fs_def by auto
    then show ?thesis unfolding market_symbols_def Some option.case by blast
  qed
  then show "ms_symbol s \<in> set (market_symbols r)"
    "ms_open_positions_count s = int (length (filter (\<lambda>s. get_position s (cy_adapter st) \<noteq> None) (market_symbols r)))"
    using assms(2) by (auto simp: honest_fetcher_def)
qed

lemma count_covers:
  assumes "open_symbols a \<subseteq> set symbs"
  shows "card (open_symbols a) \<le> length (filter (\<lambda>s. get_position s a \<noteq> None) symbs)"
proof -
  have "open_symbols a = set (filter (\<lambda>s. get_position s a \<noteq> None) symbs)"
    using assms by (auto simp: open_symbols_def)
  then show ?thesis by (metis card_length)
qed

lemma health_phase_exec [simp]:
  "cy_adapter (health_phase r i snaps st) = cy_adapter st" "cy_manager (health_phase r i snaps st) = cy_manager st"
  "cy_heartbeats (health_phase r i snaps st) = cy_heartbeats st"
  "cy_cache (health_phase r i snaps st) = cy_cache st"
  by (simp_all add: health_phase_def with_session_def split: option.split prod.split)

lemma position_phase_exec:
  "open_symbols (cy_adapter (position_phase r i st)) \<subseteq> open_symbols (cy_adapter st)"
  "paper_ok (cy_adapter st) \<Longrightarrow> paper_ok (cy_adapter (position_phase r i st))"
  "manager_ok (cy_manager st) \<Longrightarrow> manager_ok (cy_manager (position_phase r i st))"
  "cy_session (position_phase r i st) = cy_session st" "cy_machine (position_phase r i st) = cy_machine st"
  "cy_heartbeats (position_phase r i st) = cy_heartbeats st"
  using tick_all_open tick_all_ok
  by (auto simp: position_phase_def split: prod.split)

lemma gate_phase_exec:
  assumes "gate_phase r i st = (unverified, reliable, st')"
  shows "cy_adapter st' = cy_adapter st" "cy_manager st' = cy_manager st" "cy_heartbeats st' = cy_heartbeats st"
  using assms by (auto simp: gate_phase_def with_session_def split: option.splits prod.splits)

text \<open>A tick, phase by phase.\<close>

lemma cycle_tick_cases:
  assumes "cycle_tick r i st = (res, st')"
  obtains (failed) e where "market_phase r i (touch_heartbeat st) = (Inl e, st')" "res = Inl e"
  | (ticked) snaps st1 unverified reliable st2 where "market_phase r i (touch_heartbeat st) = (Inr snaps, st1)"
      "res = Inr ()" "gate_phase r i (position_phase r i (health_phase r i snaps st1)) = (unverified, reliable, st2)"
      "st' = (if cr_pipeline r \<and> snaps \<noteq> []
              then run_decision_pipeline r unverified reliable (zip (map (ti_symbols i) [0..<length snaps]) snaps)
                     (st2\<lparr>cy_opened_this_tick := 0\<rparr>)
              else st2)"
  using assms
  by (auto simp: cycle_tick_def Let_def split: prod.splits sum.splits if_splits)

subsection \<open>The limit on open positions\<close>

definition position_limit_ok :: "cycle_runner \<Rightarrow> cycle_state \<Rightarrow> bool" where
  "position_limit_ok r st \<longleftrightarrow>
     open_symbols (cy_adapter st) \<subseteq> set (market_symbols r)
     \<and> int (card (open_symbols (cy_adapter st))) \<le> tr_max_open_positions (cfg_trading (cr_config r))"

lemma touch_heartbeat_sel [simp]:
  "cy_exec (touch_heartbeat st) = cy_exec st" "cy_machine (touch_heartbeat st) = cy_machine st"
  "cy_heartbeats (touch_heartbeat st) = Suc (cy_heartbeats st)"
  by (simp_all add: touch_heartbeat_def)

lemma cycle_tick_limit:
  assumes "cycle_tick r i st = (res, st')" "honest_fetcher (ti_fetch i)" "position_limit_ok r st"
  shows "position_limit_ok r st'"
  using assms(1)
proof (cases rule: cycle_tick_cases)
  case (failed e)
  then show ?thesis using market_phase_exec(1) [OF failed(1)] assms(3) by (simp add: position_limit_ok_def)
next
  case (ticked snaps st1 unverified reliable st2)
  let ?n = "int (length (filter (\<lambda>s. get_position s (cy_adapter st) \<noteq> None) (market_symbols r)))"
  have st2: "open_symbols (cy_adapter st2) \<subseteq> open_symbols (cy_adapter st)"
    using gate_phase_exec(1) [OF ticked(3)] position_phase_exec(1) [of r i "health_phase r i snaps st1"]
      market_phase_exec(1) [OF ticked(1)] by auto
  then have c2: "card (open_symbols (cy_adapter st2)) \<le> card (open_symbols (cy_adapter st))"
    by (intro card_mono) simp_all
  have limit2: "position_limit_ok r st2" using st2 c2 assms(3) by (auto simp: position_limit_ok_def)
  have snaps: "ms_symbol s \<in> set (market_symbols r)" "ms_open_positions_count s = ?n" if "s \<in> set snaps" for s
    using market_phase_snaps [OF ticked(1) assms(2) that] by simp_all
  show ?thesis
  proof (cases "cr_pipeline r \<and> snaps \<noteq> []")
    case False
    then have "st' = st2" using ticked(4) by auto
    then show ?thesis using limit2 by simp
  next
    case True
    let ?xs = "zip (map (ti_symbols i) [0..<length snaps]) snaps"
    let ?m = "int (card (open_symbols (cy_adapter st2)))"
    have xs: "s \<in> set snaps" if "(j, s) \<in> set ?xs" for j s using that by (auto dest: set_zip_rightD)
    have "card (open_symbols (cy_adapter st))
        \<le> length (filter (\<lambda>s. get_position s (cy_adapter st) \<noteq> None) (market_symbols r))"
      using assms(3) by (intro count_covers) (simp add: position_limit_ok_def)
    then have n: "?m \<le> ?n" using c2 by linarith
    have "within_limit r ?m (st2\<lparr>cy_opened_this_tick := 0\<rparr>)" by (simp add: within_limit_def)
    moreover have "\<forall>(j, s) \<in> set ?xs. ?m \<le> ms_open_positions_count s"
      using snaps(2) xs n by fastforce
    ultimately have w: "within_limit r ?m st'" using pipeline_within ticked(4) True by simp
    have "open_symbols (cy_adapter st') \<subseteq> open_symbols (cy_adapter st2) \<union> ms_symbol ` snd ` set ?xs"
      using pipeline_symbols [of r unverified reliable ?xs "st2\<lparr>cy_opened_this_tick := 0\<rparr>"] ticked(4) True by simp
    moreover have "ms_symbol ` snd ` set ?xs \<subseteq> set (market_symbols r)" using snaps(1) xs by force
    moreover have "open_symbols (cy_adapter st2) \<subseteq> set (market_symbols r)"
      using limit2 by (simp add: position_limit_ok_def)
    ultimately have "open_symbols (cy_adapter st') \<subseteq> set (market_symbols r)" by blast
    then show ?thesis using w limit2 by (auto simp: position_limit_ok_def within_limit_def)
  qed
qed

lemma iteration_limit:
  assumes "iteration r i st = (res, st')" "honest_fetcher (ti_fetch (li_tick i))" "position_limit_ok r st"
  shows "position_limit_ok r st'"
proof -
  have "position_limit_ok r (sync_state_from_db r (li_sync i) st)"
    using assms(3) by (simp add: position_limit_ok_def)
  then show ?thesis
    using assms(1,2) cycle_tick_limit [of r "li_tick i" "sync_state_from_db r (li_sync i) st" res st']
    by (auto simp: iteration_def Let_def position_limit_ok_def split: if_splits)
qed

lemma run_loop_limit:
  assumes "run_loop r inputs st = (out, st')" "\<forall>i \<in> set inputs. honest_fetcher (ti_fetch (li_tick i))"
    "position_limit_ok r st"
  shows "position_limit_ok r st'"
  using assms
proof (induction r inputs st rule: run_loop.induct)
  case (2 r i rest st)
  obtain res st1 where it: "iteration r i st = (res, st1)" by fastforce
  have "position_limit_ok r st1" by (rule iteration_limit [OF it]) (use "2.prems" in auto)
  then show ?case using "2.prems"(1,2) it "2.IH" [OF it [symmetric]]
    by (auto split: sum.splits if_splits)
qed simp

subsection \<open>States that block entries\<close>

definition blocks_entries :: "string \<Rightarrow> db \<Rightarrow> bool" where
  "blocks_entries run d \<longleftrightarrow>
     (case get_latest_bot_state run d of
        None \<Rightarrow> False
      | Some row \<Rightarrow> (case parse_state (bs_state row) of None \<Rightarrow> False | Some p \<Rightarrow> p \<noteq> ACTIVE))"

definition keeps_blocked :: "string \<Rightarrow> (db \<Rightarrow> db) \<Rightarrow> bool" where
  "keeps_blocked run f \<longleftrightarrow> (\<forall>d. blocks_entries run d \<longrightarrow> blocks_entries run (f d))"

lemma sync_blocked:
  assumes "sy_read_ok y" "keeps_blocked (cr_bot_run_id r) (sy_others y)"
    "blocks_entries (cr_bot_run_id r) (ss_work (cy_session st))"
  shows "cy_machine (sync_state_from_db r y st) \<noteq> ACTIVE"
    "blocks_entries (cr_bot_run_id r) (ss_work (cy_session (sync_state_from_db r y st)))"
proof -
  have b: "blocks_entries (cr_bot_run_id r) (sy_others y (ss_work (cy_session st)))"
    using assms(2,3) by (simp add: keeps_blocked_def)
  then show "cy_machine (sync_state_from_db r y st) \<noteq> ACTIVE"
    using assms(1) by (auto simp: sync_state_from_db_def blocks_entries_def Let_def resolve_persisted_state_def
        split: option.splits)
  show "blocks_entries (cr_bot_run_id r) (ss_work (cy_session (sync_state_from_db r y st)))"
    using b assms(1) by (auto simp: sync_state_from_db_def Let_def split: option.split)
qed

lemma pipeline_blocked:
  assumes "blocks_entries (cr_bot_run_id r) (ss_work (cy_session st))"
    "\<forall>(i, s) \<in> set xs. sy_read_ok (si_sync i) \<and> keeps_blocked (cr_bot_run_id r) (sy_others (si_sync i))"
  shows "cy_adapter (run_decision_pipeline r unverified reliable xs st) = cy_adapter st
    \<and> cy_manager (run_decision_pipeline r unverified reliable xs st) = cy_manager st
    \<and> cy_opened_this_tick (run_decision_pipeline r unverified reliable xs st) = cy_opened_this_tick st"
  using assms
proof (induction r unverified reliable xs st rule: run_decision_pipeline.induct)
  case (2 r unverified reliable i snap rest st)
  let ?s1 = "sync_state_from_db r (si_sync i) st"
  have b: "cy_machine ?s1 \<noteq> ACTIVE" "blocks_entries (cr_bot_run_id r) (ss_work (cy_session ?s1))"
    using sync_blocked [of "si_sync i" r st] "2.prems" by auto
  then have "\<not> can_trade (cy_machine ?s1)" by (simp add: can_trade_def)
  with "2.IH"(1) [OF refl] b(2) "2.prems"(2) show ?case by (simp add: Let_def)
qed simp

subsection \<open>The transitions a worker commits\<close>

text \<open>
  The abstract machine is the persisted state as every process reads it. \<open>others\<close> is what the other processes may
  do to it in one commit; the worker itself adds a single step, the brake from ACTIVE to SAFE_MODE.
\<close>

definition abs_state :: "cycle_runner \<Rightarrow> cycle_state \<Rightarrow> bot_state option" where
  "abs_state r st = persisted_state (cr_bot_run_id r) (ss_committed (cy_session st))"

inductive system_step :: "(bot_state option \<Rightarrow> bot_state option \<Rightarrow> bool) \<Rightarrow> bot_state option \<Rightarrow> bot_state option \<Rightarrow> bool"
  for others where
  other_step: "others p q \<Longrightarrow> system_step others p q"
| brake_step: "system_step others (Some ACTIVE) (Some SAFE_MODE)"

inductive_simps system_step_iff: "system_step others p q"

definition machine_moves ::
    "(bot_state option \<Rightarrow> bot_state option \<Rightarrow> bool) \<Rightarrow> bot_state option \<Rightarrow> bot_state option \<Rightarrow> bool" where
  "machine_moves others = (system_step others)\<^sup>*\<^sup>*"

lemma machine_moves_refl [simp]: "machine_moves others a a"
  by (simp add: machine_moves_def)

lemma machine_moves_trans: "machine_moves others a b \<Longrightarrow> machine_moves others b c \<Longrightarrow> machine_moves others a c"
  by (auto simp: machine_moves_def intro: rtranclp_trans)

lemma machine_moves_brake: "machine_moves others (Some ACTIVE) (Some SAFE_MODE)"
  by (simp add: machine_moves_def r_into_rtranclp brake_step)

text \<open>Without the others, only the brake is left; and what the others and the brake keep, every run keeps.\<close>

lemma machine_moves_alone:
  assumes "machine_moves (\<lambda>_ _. False) a b"
  shows "b = a \<or> a = Some ACTIVE \<and> b = Some SAFE_MODE"
  using assms unfolding machine_moves_def
  by (induction rule: rtranclp_induct) (auto simp: system_step_iff)

text \<open>What another process may commit: it reads the two tables only, and moves the state as \<open>others\<close> says.\<close>

definition lawful ::
    "(bot_state option \<Rightarrow> bot_state option \<Rightarrow> bool) \<Rightarrow> string \<Rightarrow> (db \<Rightarrow> db) \<Rightarrow> bool" where
  "lawful others run f \<longleftrightarrow>
     (\<forall>d d'. same_bot_tables d d' \<longrightarrow> same_bot_tables (f d) (f d'))
     \<and> (\<forall>d. persisted_state run (f d) = persisted_state run d
          \<or> others (persisted_state run d) (persisted_state run (f d)))"

lemma lawful_id [simp]: "lawful others run id" "lawful others run (\<lambda>d. d)"
  by (simp_all add: lawful_def)

lemma lawful_moves: "lawful others run f \<Longrightarrow> machine_moves others (persisted_state run d) (persisted_state run (f d))"
  unfolding lawful_def machine_moves_def by (metis other_step r_into_rtranclp rtranclp.rtrancl_refl)

lemma bot_tables_cong:
  assumes "same_bot_tables d d'"
  shows "persisted_state run d' = persisted_state run d" "run_is_running run d' = run_is_running run d"
    "clock_after run now d' = clock_after run now d"
  using assms by (simp_all add: same_bot_tables_def persisted_state_def get_latest_bot_state_def
      run_is_running_def get_bot_run_def clock_after_def)

definition simulates ::
    "(bot_state option \<Rightarrow> bot_state option \<Rightarrow> bool) \<Rightarrow> cycle_runner \<Rightarrow> cycle_state \<Rightarrow> cycle_state \<Rightarrow> bool" where
  "simulates others r st st' \<longleftrightarrow>
     (bot_tables_clean (cy_session st) \<longrightarrow>
        bot_tables_clean (cy_session st') \<and> machine_moves others (abs_state r st) (abs_state r st'))"

lemma simulates_refl [simp]: "simulates others r st st"
  by (simp add: simulates_def)

lemma simulates_trans: "simulates others r a b \<Longrightarrow> simulates others r b c \<Longrightarrow> simulates others r a c"
  by (auto simp: simulates_def intro: machine_moves_trans)

lemma simulates_session:
  "cy_session st' = cy_session st \<Longrightarrow> simulates others r st st'"
  by (simp add: simulates_def abs_state_def)

lemma external_simulates:
  assumes "lawful others (cr_bot_run_id r) f" "bot_tables_clean s"
  shows "bot_tables_clean (ss_external f s)"
    "machine_moves others (persisted_state (cr_bot_run_id r) (ss_committed s))
       (persisted_state (cr_bot_run_id r) (ss_committed (ss_external f s)))"
  using assms by (simp_all add: lawful_def lawful_moves bot_tables_clean_def)

lemma rollback_clean [simp]: "bot_tables_clean (ss_rollback s)" "bot_tables_clean (ss_commit s)"
  by (simp_all add: bot_tables_clean_def)

lemma sync_simulates:
  assumes "lawful others (cr_bot_run_id r) (sy_others y)"
  shows "simulates others r st (sync_state_from_db r y st)"
  using external_simulates [OF assms]
  by (auto simp: simulates_def abs_state_def sync_state_from_db_def Let_def split: option.split)

lemma same_bot_session_clean:
  "same_bot_session s s' \<Longrightarrow> bot_tables_clean s \<Longrightarrow> bot_tables_clean s'"
  by (auto simp: same_bot_session_def bot_tables_clean_def same_bot_tables_def)

lemma process_session:
  assumes "process_symbol r i snap reliable st = (res, st')" "bot_tables_clean s0"
    and "s0 = ss_external (si_while_asking i) (cy_session st)"
  shows "same_bot_session s0 (cy_session st')"
  using assms(1,3)
proof (cases rule: process_symbol_cases)
  case (refused w)
  then show ?thesis by (simp add: same_bot_session_def)
next
  case (passed d quant regime vol agg losses slip fees rr w1 w)
  let ?s1 = "ss_update (\<lambda>_. w) s0"
  have c: "bot_tables_clean ?s1" by (rule clean_update [OF passed(9) assms(2)])
  have s1: "same_bot_session s0 ?s1" using passed(9) by (simp add: same_bot_session_def)
  from passed(10) show ?thesis
  proof (cases rule: execute_plan_cases)
    case kept
    then show ?thesis using s1 by simp
  next
    case (run x res1 est)
    have "same_bot_session ?s1 (cy_session st')"
      using execute_bot [OF run(2)] c run(3) by simp
    with s1 show ?thesis by (auto simp: same_bot_session_def intro: same_bot_tables_trans)
  qed
qed

lemma process_simulates:
  assumes "lawful others (cr_bot_run_id r) (si_while_asking i)"
  shows "simulates others r st (process_isolated r i snap reliable st)"
proof -
  define s0 where "s0 = ss_external (si_while_asking i) (cy_session st)"
  obtain res st1 where p: "process_symbol r i snap reliable st = (res, st1)" by fastforce
  have "bot_tables_clean (cy_session (process_isolated r i snap reliable st))
      \<and> machine_moves others (abs_state r st) (abs_state r (process_isolated r i snap reliable st))"
    if clean: "bot_tables_clean (cy_session st)"
  proof -
    note e = external_simulates [OF assms clean, folded s0_def]
    have b: "same_bot_session s0 (cy_session st1)" by (rule process_session [OF p e(1) s0_def])
    have k: "same_bot_session s0 (cy_session (process_isolated r i snap reliable st))"
      using p b e(1) by (auto simp: process_isolated_def ss_savepoint_rollback_def s0_def [symmetric]
          same_bot_session_def bot_tables_clean_def same_bot_tables_def split: sum.split)
    have "persisted_state (cr_bot_run_id r) (ss_committed (cy_session (process_isolated r i snap reliable st)))
        = persisted_state (cr_bot_run_id r) (ss_committed s0)"
      using k by (intro bot_tables_cong(1)) (simp add: same_bot_session_def)
    then show ?thesis
      using e(2) same_bot_session_clean [OF k e(1)] by (simp add: abs_state_def)
  qed
  then show ?thesis by (simp add: simulates_def)
qed

lemma pipeline_simulates:
  assumes "\<forall>(i, s) \<in> set xs. lawful others (cr_bot_run_id r) (sy_others (si_sync i))
    \<and> lawful others (cr_bot_run_id r) (si_while_asking i)"
  shows "simulates others r st (run_decision_pipeline r unverified reliable xs st)"
  using assms
proof (induction r unverified reliable xs st rule: run_decision_pipeline.induct)
  case (2 r unverified reliable i snap rest st)
  have s: "simulates others r st (sync_state_from_db r (si_sync i) st)"
    by (rule sync_simulates) (use "2.prems" in auto)
  have p: "simulates others r st (process_isolated r i snap reliable (sync_state_from_db r (si_sync i) st))"
    by (rule simulates_trans [OF s process_simulates]) (use "2.prems" in auto)
  have rest: "\<forall>(i, s) \<in> set rest. lawful others (cr_bot_run_id r) (sy_others (si_sync i))
    \<and> lawful others (cr_bot_run_id r) (si_while_asking i)" using "2.prems" by auto
  note ih1 = simulates_trans [OF s "2.IH"(1) [OF refl _ _ rest]]
  note ih2 = simulates_trans [OF s "2.IH"(2) [OF refl _ _ _ rest]]
  note ih3 = simulates_trans [OF p "2.IH"(3) [OF refl _ _ _ rest]]
  show ?case
    unfolding run_decision_pipeline.simps(2) Let_def
    by (auto intro: s ih1 ih2 ih3)
qed simp

lemma fold_kept_committed:
  assumes "foldl (\<lambda>st f. keep_snapshot math run now f st) (xs, c, ss) fs = (ys, c', ss')"
  shows "ss_committed ss' = ss_committed ss"
  using assms
proof (induction fs arbitrary: xs c ss)
  case (Cons f fs)
  obtain s res where f: "f = (s, res)" by fastforce
  obtain zs c1 ss1 where k: "keep_snapshot math run now f (xs, c, ss) = (zs, c1, ss1)" by (metis prod_cases3)
  with Cons.prems have "foldl (\<lambda>st f. keep_snapshot math run now f st) (zs, c1, ss1) fs = (ys, c', ss')"
    by simp
  from Cons.IH [OF this] keep_snapshot_kept [OF k [unfolded f]] show ?case by auto
qed simp

lemma market_tick_session:
  assumes "market_tick_all math run symbs fetch ok now a c ss = (res, c', ss')" "bot_tables_clean ss"
  shows "bot_tables_clean ss' \<and> same_bot_tables (ss_committed ss) (ss_committed ss')"
proof (cases "get_account_state a")
  case (Inl e)
  with assms show ?thesis by (simp add: market_tick_all_def)
next
  case (Inr account)
  define fs where "fs = map (\<lambda>s. (s, fetch s (ac_balance_usdt account)
      (int (length (filter (\<lambda>s. get_position s a \<noteq> None) symbs)))
      (int (\<Sum>s\<leftarrow>symbs. length (get_open_orders s a))))) symbs"
  obtain ys c1 s1 where f: "foldl (\<lambda>st f. keep_snapshot math run now f st) ([], c, ss) fs = (ys, c1, s1)"
    by (metis prod_cases3)
  have "same_bot_tables (ss_work ss) (ss_work s1)" "ss_committed s1 = ss_committed ss"
    using fold_kept [OF f] fold_kept_committed [OF f] by (simp_all add: same_bot_tables_def)
  moreover have "ss' = (if ok then ss_commit s1 else s1)"
    using assms(1) Inr f unfolding fs_def by (auto simp: market_tick_all_def Let_def)
  ultimately show ?thesis
    using assms(2) by (auto simp: bot_tables_clean_def intro: same_bot_tables_trans)
qed

lemma market_phase_session:
  assumes "market_phase r i st = (res, st')" "bot_tables_clean (cy_session st)"
  shows "bot_tables_clean (cy_session st')" "abs_state r st' = abs_state r st"
    "same_bot_tables (ss_committed (cy_session st)) (ss_committed (cy_session st'))"
proof -
  have k: "bot_tables_clean (cy_session st') \<and> same_bot_tables (ss_committed (cy_session st)) (ss_committed (cy_session st'))"
    using assms market_tick_session [OF _ assms(2)]
    by (auto simp: market_phase_def with_session_def split: option.splits prod.splits)
  then show "bot_tables_clean (cy_session st')"
    "same_bot_tables (ss_committed (cy_session st)) (ss_committed (cy_session st'))" by simp_all
  show "abs_state r st' = abs_state r st"
    unfolding abs_state_def using k by (intro bot_tables_cong(1)) simp
qed

text \<open>One entry into SAFE_MODE: at most the transition from ACTIVE, and a session without loose ends.\<close>

lemma enter_safe_mode_clean:
  assumes "enter_safe_mode commit_ok now (safe_mode_stop run ty rs) s machine = (s', machine')"
  shows "bot_tables_clean s'"
proof -
  obtain res s1 m1 where t: "trigger commit_ok now (safe_mode_stop run ty rs) s (Some machine) = (res, s1, m1)"
    by (metis prod_cases3)
  have "bot_tables_clean s1 \<or> (\<exists>e. res = Inl (DatabaseFailure e))"
    using t by (auto simp: trigger_def commit_transition_def reject_def Let_def
        split: option.splits if_splits sum.splits)
  with assms t show ?thesis
    by (auto simp: enter_safe_mode_def split: sum.splits stop_rejection.splits)
qed

lemma enter_safe_mode_moves:
  assumes "enter_safe_mode commit_ok now (safe_mode_stop run ty rs) s machine = (s', machine')"
    and "bot_tables_clean s" "clock_after run now (ss_committed s)"
  shows "persisted_state run (ss_committed s') = persisted_state run (ss_committed s) \<and> ss_committed s' = ss_committed s
    \<or> persisted_state run (ss_committed s) = Some ACTIVE \<and> persisted_state run (ss_committed s') = Some SAFE_MODE
      \<and> machine' = SAFE_MODE"
  using enter_safe_mode_atomic [OF assms(1)]
proof
  assume a: "run_is_running run (ss_work s) \<and> persisted_state run (ss_work s) = Some ACTIVE \<and> machine' = SAFE_MODE
    \<and> ss_committed s' = stopped_db now (safe_mode_stop run ty rs) ACTIVE (ss_work s)"
  have b: "same_bot_tables (ss_committed s) (ss_work s)" using assms(2) by (simp add: bot_tables_clean_def)
  have "clock_after run now (ss_work s)" using assms(3) bot_tables_cong(3) [OF b] by simp
  then have "persisted_state run (ss_committed s') = Some SAFE_MODE"
    using a stopped_db_state [of "safe_mode_stop run ty rs" now "ss_work s" ACTIVE] by simp
  with a bot_tables_cong(1) [OF b] show ?thesis by simp
qed simp

text \<open>The two gates of a tick keep the clock, or have left ACTIVE.\<close>

definition gate_ready :: "cycle_runner \<Rightarrow> int \<Rightarrow> cycle_state \<Rightarrow> bool" where
  "gate_ready r now st \<longleftrightarrow> bot_tables_clean (cy_session st)
     \<and> (clock_after (cr_bot_run_id r) now (ss_committed (cy_session st)) \<or> abs_state r st \<noteq> Some ACTIVE)"

lemma safe_mode_gate:
  assumes "enter_safe_mode commit_ok now (safe_mode_stop (cr_bot_run_id r) ty rs) (cy_session st) machine = (s', machine')"
    and "gate_ready r now st" "cy_session st' = s'"
  shows "gate_ready r now st'" "machine_moves others (abs_state r st) (abs_state r st')"
proof -
  let ?run = "cr_bot_run_id r"
  have c: "bot_tables_clean (cy_session st)" and w: "bot_tables_clean s'"
    using assms(2) enter_safe_mode_clean [OF assms(1)] by (simp_all add: gate_ready_def)
  consider (same) "ss_committed s' = ss_committed (cy_session st)"
    | (moved) "abs_state r st = Some ACTIVE" "persisted_state ?run (ss_committed s') = Some SAFE_MODE"
  proof (cases "abs_state r st = Some ACTIVE")
    case True
    then have "clock_after ?run now (ss_committed (cy_session st))" using assms(2) by (simp add: gate_ready_def)
    from enter_safe_mode_moves [OF assms(1) c this] that True show thesis by (auto simp: abs_state_def)
  next
    case False
    have "same_bot_tables (ss_committed (cy_session st)) (ss_work (cy_session st))"
      using c by (simp add: bot_tables_clean_def)
    from bot_tables_cong(1) [OF this] False enter_safe_mode_atomic [OF assms(1)] show thesis
      by (intro same) (auto simp: abs_state_def)
  qed
  then show "gate_ready r now st'" "machine_moves others (abs_state r st) (abs_state r st')"
    using assms(2,3) w machine_moves_brake by (cases; auto simp: gate_ready_def abs_state_def)+
qed

lemma gate_ready_session: "cy_session st' = cy_session st \<Longrightarrow> gate_ready r now st' = gate_ready r now st"
  by (simp add: gate_ready_def abs_state_def)

lemma abs_state_session: "cy_session st' = cy_session st \<Longrightarrow> abs_state r st' = abs_state r st"
  by (simp add: abs_state_def)

definition well_wired :: "cycle_runner \<Rightarrow> bool" where
  "well_wired r \<longleftrightarrow> (case cr_health r of None \<Rightarrow> True | Some h \<Rightarrow> hm_bot_run_id h = cr_bot_run_id r)"

lemma safe_mode_gate_or_same:
  assumes "cy_session st' = cy_session st
    \<or> (\<exists>ok ty rs m m'. enter_safe_mode ok now (safe_mode_stop (cr_bot_run_id r) ty rs) (cy_session st) m
         = (cy_session st', m'))"
    and "gate_ready r now st"
  shows "gate_ready r now st' \<and> machine_moves others (abs_state r st) (abs_state r st')"
  using assms(1)
proof
  assume "cy_session st' = cy_session st"
  then show ?thesis using assms(2) gate_ready_session abs_state_session by (metis machine_moves_refl)
next
  assume "\<exists>ok ty rs m m'. enter_safe_mode ok now (safe_mode_stop (cr_bot_run_id r) ty rs) (cy_session st) m
         = (cy_session st', m')"
  then show ?thesis using safe_mode_gate [OF _ assms(2) refl] by blast
qed

lemma health_phase_session:
  assumes "well_wired r"
  shows "cy_session (health_phase r i snaps st) = cy_session st
    \<or> (\<exists>ok ty rs m m'. enter_safe_mode ok (ti_now i) (safe_mode_stop (cr_bot_run_id r) ty rs) (cy_session st) m
         = (cy_session (health_phase r i snaps st), m'))"
proof (cases "cr_health r")
  case None
  then show ?thesis by (simp add: health_phase_def)
next
  case (Some h)
  obtain f ss m where c: "check_and_enforce (ti_health_commit_ok i) (ti_now i) h snaps (cy_session st) (cy_machine st)
      = (f, ss, m)" by (metis prod_cases3)
  then have "cy_session (health_phase r i snaps st) = ss"
    using Some by (simp add: health_phase_def)
  then show ?thesis
    using c assms Some by (auto simp: check_and_enforce_def Let_def well_wired_def split: if_splits)
qed

lemma gate_phase_session:
  assumes "gate_phase r i st = (u, rel, st')"
  shows "cy_session st' = cy_session st
    \<or> (\<exists>ok ty rs m m'. enter_safe_mode ok (ti_now i) (safe_mode_stop (cr_bot_run_id r) ty rs) (cy_session st) m
         = (cy_session st', m'))"
proof (cases "cr_reconciler r")
  case None
  with assms show ?thesis by (simp add: gate_phase_def)
next
  case (Some n)
  obtain rep ss m where c: "run_and_enforce (ti_gate_commit_ok i) (ti_now i) paper_reads
      (n\<lparr>rn_position_manager := Some (cy_manager st)\<rparr>) (cfg_reconciliation (cr_config r)) (cr_bot_run_id r)
      (cy_adapter st) (cy_session st) (cy_machine st) = (rep, ss, m)" by (metis prod_cases3)
  then have "cy_session st' = ss" using assms Some by (auto simp: gate_phase_def)
  then show ?thesis
    using c by (auto simp: run_and_enforce_def Let_def split: if_splits)
qed

text \<open>One tick of the worker is a sequence of steps of the abstract machine.\<close>

definition lawful_symbol ::
    "(bot_state option \<Rightarrow> bot_state option \<Rightarrow> bool) \<Rightarrow> string \<Rightarrow> symbol_input \<Rightarrow> bool" where
  "lawful_symbol others run i \<longleftrightarrow> lawful others run (sy_others (si_sync i)) \<and> lawful others run (si_while_asking i)"

lemma cycle_tick_moves:
  assumes "cycle_tick r i st = (res, st')" "well_wired r" "bot_tables_clean (cy_session st)"
    and "clock_after (cr_bot_run_id r) (ti_now i) (ss_committed (cy_session st))"
    and "\<forall>k. lawful_symbol others (cr_bot_run_id r) (ti_symbols i k)"
  shows "bot_tables_clean (cy_session st') \<and> machine_moves others (abs_state r st) (abs_state r st')"
  using assms(1)
proof (cases rule: cycle_tick_cases)
  case (failed e)
  note m = market_phase_session [OF failed(1)]
  have "abs_state r (touch_heartbeat st) = abs_state r st" by (rule abs_state_session) simp
  then show ?thesis using m assms(3) by simp
next
  case (ticked snaps st1 u rel st2)
  let ?h = "health_phase r i snaps st1" and ?now = "ti_now i"
  let ?p = "position_phase r i ?h"
  have t: "abs_state r (touch_heartbeat st) = abs_state r st" by (rule abs_state_session) simp
  note m = market_phase_session [OF ticked(1)]
  have c: "bot_tables_clean (cy_session (touch_heartbeat st))" using assms(3) by simp
  have g1: "gate_ready r ?now st1"
    using m(1) [OF c] bot_tables_cong(3) [OF m(3) [OF c]] assms(4) by (simp add: gate_ready_def)
  have g2: "gate_ready r ?now ?h \<and> machine_moves others (abs_state r st1) (abs_state r ?h)"
    by (rule safe_mode_gate_or_same [OF health_phase_session [OF assms(2)] g1])
  have ps: "cy_session ?p = cy_session ?h" by (rule position_phase_exec(4))
  have g3: "gate_ready r ?now ?p" using g2 gate_ready_session [OF ps] by simp
  have g4: "gate_ready r ?now st2 \<and> machine_moves others (abs_state r ?p) (abs_state r st2)"
    by (rule safe_mode_gate_or_same [OF gate_phase_session [OF ticked(3)] g3])
  have mv: "machine_moves others (abs_state r st) (abs_state r st2)"
    using g2 g4 m(2) [OF c] t abs_state_session [OF ps] machine_moves_trans by metis
  let ?st3 = "st2\<lparr>cy_opened_this_tick := 0\<rparr>"
  have s3: "cy_session ?st3 = cy_session st2" by simp
  have sim: "simulates others r ?st3 (run_decision_pipeline r u rel (zip (map (ti_symbols i) [0..<length snaps]) snaps) ?st3)"
    using assms(5) by (intro pipeline_simulates) (auto simp: lawful_symbol_def dest!: set_zip_leftD)
  show ?thesis
  proof (cases "cr_pipeline r \<and> snaps \<noteq> []")
    case True
    with sim ticked(4) g4 have "bot_tables_clean (cy_session st') \<and> machine_moves others (abs_state r ?st3) (abs_state r st')"
      by (simp add: simulates_def gate_ready_def)
    then show ?thesis using mv machine_moves_trans abs_state_session [OF s3] by metis
  next
    case False
    then have "st' = st2" using ticked(4) by auto
    then show ?thesis using g4 mv by (simp add: gate_ready_def)
  qed
qed

end
