(* ===== verification/Orchestrator.thy ===== *)
theory Orchestrator
  imports CycleTicks
begin

text \<open>
  \<^verbatim>\<open>backend/trading_core/orchestrator.py\<close> and \<^verbatim>\<open>worker/run_worker.py\<close>: a start of the worker (the state carried
  over from the previous run, the orphans closed, the new run inserted under the unique index, one commit),
  the wiring of the collaborators, the run of the loop and the close of the run. What other processes commit
  meanwhile, the clock, the fresh identifier and the outcome of a commit are inputs.
\<close>

subsection \<open>Starting\<close>

record startup_input =
  su_parse_int :: "string \<Rightarrow> int option"
  su_interval_env :: "string option"
  su_config :: app_config
  su_math :: math_lib
  su_pow15 :: "rat \<Rightarrow> rat"
  su_gpt_key :: bool
  su_run_id :: string
  su_now :: int
  su_racing :: "db \<Rightarrow> db"
  su_recheck :: "db \<Rightarrow> db"
  su_commit_ok :: bool

text \<open>The previous run whose stopped state this start inherits, and the state machine after it.\<close>

definition resolve_carried_over_state :: "db \<Rightarrow> bot_state \<Rightarrow> bot_run_row option \<times> bot_state" where
  "resolve_carried_over_state d machine =
     (case get_most_recent d of
        None \<Rightarrow> (None, machine)
      | Some previous_run \<Rightarrow>
          (case get_latest_bot_state (br_id previous_run) d of
             None \<Rightarrow> (None, machine)
           | Some previous_state \<Rightarrow>
               (case parse_state (bs_state previous_state) of
                  None \<Rightarrow> (None, machine)
                | Some p \<Rightarrow>
                    if is_running p then (None, machine) else (Some previous_run, force_set machine p))))"

definition orphan_reason :: string where
  "orphan_reason = ''Cerrado como CRASHED por el arranque del worker 0.1.0: ''
     @ ''quedo en RUNNING sin shutdown limpio (probable SIGKILL).''"

definition close_orphan_runs :: "int \<Rightarrow> session \<Rightarrow> session" where
  "close_orphan_runs now s = ss_update (close_orphan_running now orphan_reason) s"

definition new_bot_run :: "startup_input \<Rightarrow> bot_run_row" where
  "new_bot_run i = \<lparr>br_id = su_run_id i, br_started_at = su_now i, br_ended_at = None,
     br_environment = ''PAPER'', br_status = ''RUNNING'', br_notes = None\<rparr>"

definition carried_row :: "startup_input \<Rightarrow> bot_run_row \<Rightarrow> bot_state \<Rightarrow> bot_state_row" where
  "carried_row i previous machine =
     \<lparr>bs_bot_run_id = su_run_id i, bs_state = state_value machine,
      bs_previous_state = Some (state_value ACTIVE),
      bs_reason = Some (''Arrastrado del bot_run anterior '' @ br_id previous
        @ '' al reiniciar el worker: el estado detenido requiere revision manual antes de retomar.''),
      bs_created_at = su_now i\<rparr>"

text \<open>
  \<open>owns_machine\<close> holds when no state machine was injected, \<open>owns_session\<close> when no session was. The insert runs
  in a savepoint: a clash undoes the insert only, and is looked at again before it is translated.
\<close>

definition prepare_paper_context ::
    "bool \<Rightarrow> bool \<Rightarrow> startup_input \<Rightarrow> session \<Rightarrow> bot_state \<Rightarrow> string result \<times> session \<times> bot_state" where
  "prepare_paper_context owns_machine owns_session i s machine =
     (if ex_environment (cfg_execution (su_config i)) \<noteq> PAPER then (Inl NotImplementedError, s, machine)
      else let (carried_over_from, machine) =
                 (if owns_machine then resolve_carried_over_state (ss_work s) machine else (None, machine));
               s = ss_external (su_racing i) (close_orphan_runs (su_now i) s) in
      case insert_bot_run (new_bot_run i) (ss_work s) of
        Inl e \<Rightarrow>
          let s = ss_external (su_recheck i) s in
          (case get_active (ss_work s) of
             None \<Rightarrow> (Inl e, s, machine)
           | Some _ \<Rightarrow> (Inl BotRunAlreadyActiveError, if owns_session then ss_rollback s else s, machine))
      | Inr w \<Rightarrow>
          let s = ss_update (\<lambda>_. w) s;
              s = (case carried_over_from of
                     None \<Rightarrow> s
                   | Some previous \<Rightarrow> ss_update (save_bot_state (carried_row i previous machine)) s) in
          if su_commit_ok i then (Inr (su_run_id i), ss_commit s, machine)
          else (Inl SQLAlchemyError, s, machine))"

subsection \<open>The wiring\<close>

definition build_adapter :: "app_config \<Rightarrow> paper" where
  "build_adapter cfg =
     paper_init (dec_of_float (ch_initial_balance_usdt (cfg_challenge cfg))) None
       (Some \<lparr>sm_market_bps = impact_bps (cfg_slippage cfg)\<rparr>)"

definition build_execution_engine :: "app_config \<Rightarrow> string \<Rightarrow> execution_engine" where
  "build_execution_engine cfg run = \<lparr>xe_bot_run_id = run, xe_defaults = cfg_position_management cfg\<rparr>"

definition build_reconciliation_gate :: "app_config \<Rightarrow> manager \<Rightarrow> reconciler" where
  "build_reconciliation_gate cfg m = reconciler_init (Some m) (Some (tr_allowed_symbols (cfg_trading cfg))) None"

definition build_connection_health_monitor :: "app_config \<Rightarrow> string \<Rightarrow> health_monitor" where
  "build_connection_health_monitor cfg run =
     health_monitor_init run (hc_max_clock_skew_ms (cfg_connection_health cfg))
       (hc_max_latency_ms (cfg_connection_health cfg)) (Some (tr_allowed_symbols (cfg_trading cfg)))"

text \<open>Without the key of GPT the decision pipeline is left out and the rest runs.\<close>

definition build_cycle_runner :: "startup_input \<Rightarrow> int \<Rightarrow> string \<Rightarrow> cycle_runner" where
  "build_cycle_runner i interval run =
     (let cfg = su_config i in
      \<lparr>cr_bot_run_id = run, cr_config = cfg, cr_engine = build_execution_engine cfg run, cr_math = su_math i,
       cr_pow15 = su_pow15 i, cr_pipeline = su_gpt_key i,
       cr_market_symbols = Some (tr_allowed_symbols (cfg_trading cfg)),
       cr_health = Some (build_connection_health_monitor cfg run), cr_position_ticks = True,
       cr_reconciler = Some (build_reconciliation_gate cfg manager_init), cr_interval_seconds = interval\<rparr>)"

definition initial_cycle_state :: "app_config \<Rightarrow> session \<Rightarrow> bot_state \<Rightarrow> cycle_state" where
  "initial_cycle_state cfg s machine =
     \<lparr>cy_exec = \<lparr>xs_adapter = build_adapter cfg, xs_manager = manager_init, xs_session = s\<rparr>, cy_machine = machine,
      cy_cache = market_cache_init, cy_opened_this_tick = 0, cy_heartbeats = 0\<rparr>"

text \<open>
  What an orchestrator drives: a runner of its caller, a runner over services of its caller, or its own
  paper context with the run it must close (\<open>None\<close> once closed) and its execution engine (open or not).
\<close>

datatype orchestrator =
    Injected_runner
  | Injected_services int
  | Paper_context cycle_runner cycle_state "string option" bool

record injection =
  ij_state_machine :: "bot_state option"
  ij_cycle_runner :: bool
  ij_market_data_service :: bool
  ij_execution_engine :: bool
  ij_session :: bool

definition orchestrator_init :: "injection \<Rightarrow> startup_input \<Rightarrow> session \<Rightarrow> orchestrator result \<times> session" where
  "orchestrator_init j i s =
     (let machine = (case ij_state_machine j of None \<Rightarrow> ACTIVE | Some m \<Rightarrow> m) in
      if ij_cycle_runner j then (Inr Injected_runner, s)
      else case parse_interval_from_env (su_parse_int i) (su_interval_env i) DEFAULT_INTERVAL_SECONDS of
        Inl e \<Rightarrow> (Inl e, s)
      | Inr interval \<Rightarrow>
          if ij_market_data_service j \<noteq> ij_execution_engine j then (Inl ValueError, s)
          else if ij_market_data_service j then (Inr (Injected_services interval), s)
          else (case prepare_paper_context (ij_state_machine j = None) (\<not> ij_session j) i s machine of
                  (Inl e, s, _) \<Rightarrow> (Inl e, s)
                | (Inr run, s, machine) \<Rightarrow>
                    (bindE (cycle_runner_init (build_cycle_runner i interval run))
                       (\<lambda>r. Inr (Paper_context r (initial_cycle_state (su_config i) s machine) (Some run) True)), s)))"

subsection \<open>Running and closing\<close>

definition orchestrator_close :: "bool \<Rightarrow> int \<Rightarrow> orchestrator \<Rightarrow> unit result \<times> orchestrator" where
  "orchestrator_close commit_ok now oc =
     (case oc of
        Paper_context r st (Some run) engine \<Rightarrow>
          let s = ss_update (bot_run_close now run ''STOPPED'') (cy_session st) in
          if commit_ok then (Inr (), Paper_context r (with_session (ss_commit s) st) None False)
          else (Inl SQLAlchemyError, Paper_context r (with_session s st) (Some run) False)
      | Paper_context r st None engine \<Rightarrow> (Inr (), Paper_context r st None False)
      | _ \<Rightarrow> (Inr (), oc))"

text \<open>
  \<^verbatim>\<open>run\<close>: the loop, then \<^verbatim>\<open>close\<close> in the \<^verbatim>\<open>finally\<close>, whose exception replaces that of the loop. While the inputs
  have not ended the loop, nothing is closed.
\<close>

definition orchestrator_run ::
    "bool \<Rightarrow> int \<Rightarrow> bool \<Rightarrow> loop_input list \<Rightarrow> orchestrator \<Rightarrow> loop_outcome \<times> orchestrator" where
  "orchestrator_run commit_ok now shutdown_requested inputs oc =
     (case oc of
        Paper_context r st run engine \<Rightarrow>
          (case run_cycles r shutdown_requested inputs st of
             (RUNNING_ON, st) \<Rightarrow> (RUNNING_ON, Paper_context r st run engine)
           | (out, st) \<Rightarrow>
               (case orchestrator_close commit_ok now (Paper_context r st run engine) of
                  (Inl e, oc) \<Rightarrow> (RAISED e, oc)
                | (Inr _, oc) \<Rightarrow> (out, oc)))
      | _ \<Rightarrow> (RUNNING_ON, oc))"

subsection \<open>The worker\<close>

definition DEFAULT_STARTUP_RACE_BACKOFF_SECONDS :: int where
  "DEFAULT_STARTUP_RACE_BACKOFF_SECONDS = 300"

definition parse_backoff_seconds_from_env :: "(string \<Rightarrow> int option) \<Rightarrow> string option \<Rightarrow> int result" where
  "parse_backoff_seconds_from_env parse_int raw =
     (case raw of
        None \<Rightarrow> Inr DEFAULT_STARTUP_RACE_BACKOFF_SECONDS
      | Some s \<Rightarrow>
          if s = [] then Inr DEFAULT_STARTUP_RACE_BACKOFF_SECONDS
          else case parse_int s of
            None \<Rightarrow> Inl ValueError
          | Some v \<Rightarrow> if v < 0 then Inl ValueError else Inr v)"

text \<open>A lost race sleeps and exits with status 1; any other exception ends the process.\<close>

datatype worker_exit = Race_exit int | Worker_raised py_error | Worker_ran loop_outcome

definition no_injection :: injection where
  "no_injection = \<lparr>ij_state_machine = None, ij_cycle_runner = False, ij_market_data_service = False,
     ij_execution_engine = False, ij_session = False\<rparr>"

definition worker_main ::
    "string option \<Rightarrow> startup_input \<Rightarrow> bool \<Rightarrow> int \<Rightarrow> bool \<Rightarrow> loop_input list \<Rightarrow> session
     \<Rightarrow> worker_exit \<times> orchestrator option" where
  "worker_main backoff_env i commit_ok now shutdown_requested inputs s =
     (case parse_backoff_seconds_from_env (su_parse_int i) backoff_env of
        Inl e \<Rightarrow> (Worker_raised e, None)
      | Inr backoff_seconds \<Rightarrow>
          (case orchestrator_init no_injection i s of
             (Inl BotRunAlreadyActiveError, _) \<Rightarrow> (Race_exit backoff_seconds, None)
           | (Inl e, _) \<Rightarrow> (Worker_raised e, None)
           | (Inr oc, _) \<Rightarrow>
               (case orchestrator_run commit_ok now shutdown_requested inputs oc of
                  (out, oc) \<Rightarrow> (Worker_ran out, Some oc))))"

subsection \<open>Lemmas\<close>

lemma resolve_carried_over_stopped:
  assumes "get_most_recent d = Some prev" "persisted_state (br_id prev) d = Some p" "\<not> is_running p"
  shows "resolve_carried_over_state d m = (Some prev, p)"
  using assms
  by (auto simp: resolve_carried_over_state_def persisted_state_def resolve_persisted_state_def is_running_def
      split: option.splits)

lemma prepare_paper_context_Inr:
  assumes "prepare_paper_context owns os i s m = (Inr run, s', m')"
  obtains w carried where "run = su_run_id i" "ex_environment (cfg_execution (su_config i)) = PAPER"
    "insert_bot_run (new_bot_run i) (su_racing i (close_orphan_running (su_now i) orphan_reason (ss_work s))) = Inr w"
    "(if owns then resolve_carried_over_state (ss_work s) m else (None, m)) = (carried, m')"
    "ss_work s' = (case carried of None \<Rightarrow> w | Some previous \<Rightarrow> save_bot_state (carried_row i previous m') w)"
    "ss_committed s' = ss_work s'"
  using assms
  by (auto simp: prepare_paper_context_def close_orphan_runs_def Let_def ss_external_def
      split: if_splits prod.splits sum.splits option.splits)

lemma build_cycle_runner_interval [simp]: "cr_interval_seconds (build_cycle_runner i interval run) = interval"
  by (simp add: build_cycle_runner_def Let_def)

lemma orchestrator_init_Inr:
  assumes "orchestrator_init j i s = (Inr (Paper_context r st run engine), s')"
  obtains interval m where "0 < interval" "run = Some (su_run_id i)" "engine"
    "prepare_paper_context (ij_state_machine j = None) (\<not> ij_session j) i s
       (case ij_state_machine j of None \<Rightarrow> ACTIVE | Some m \<Rightarrow> m) = (Inr (su_run_id i), s', m)"
    "r = build_cycle_runner i interval (su_run_id i)" "st = initial_cycle_state (su_config i) s' m"
proof -
  obtain interval where iv: "parse_interval_from_env (su_parse_int i) (su_interval_env i) DEFAULT_INTERVAL_SECONDS
      = Inr interval"
    using assms by (auto simp: orchestrator_init_def Let_def split: if_splits sum.splits)
  obtain res ss m where p: "prepare_paper_context (ij_state_machine j = None) (\<not> ij_session j) i s
      (case ij_state_machine j of None \<Rightarrow> ACTIVE | Some m \<Rightarrow> m) = (res, ss, m)" by (metis prod_cases3)
  obtain run0 where res: "res = Inr run0"
    using assms iv p by (cases res) (auto simp: orchestrator_init_def Let_def split: if_splits)
  have r: "bindE (cycle_runner_init (build_cycle_runner i interval run0))
      (\<lambda>r. Inr (Paper_context r (initial_cycle_state (su_config i) ss m) (Some run0) True))
      = Inr (Paper_context r st run engine)" "s' = ss"
    using assms iv p res by (auto simp: orchestrator_init_def Let_def split: if_splits)
  have "run0 = su_run_id i" using p unfolding res by (rule prepare_paper_context_Inr)
  with r p res show thesis
    by (intro that [of interval m]) (auto simp: cycle_runner_init_def bindE_Inr_iff split: if_splits)
qed

lemma built_runner_wired [simp]:
  "well_wired (build_cycle_runner i interval run)" "cr_bot_run_id (build_cycle_runner i interval run) = run"
  "market_symbols (build_cycle_runner i interval run) = tr_allowed_symbols (cfg_trading (su_config i))"
  "cr_config (build_cycle_runner i interval run) = su_config i"
  by (simp_all add: build_cycle_runner_def well_wired_def build_connection_health_monitor_def
      health_monitor_init_def market_symbols_def Let_def)

lemma initial_cycle_state_sel [simp]:
  "cy_adapter (initial_cycle_state cfg s m) = build_adapter cfg" "cy_manager (initial_cycle_state cfg s m) = manager_init"
  "cy_session (initial_cycle_state cfg s m) = s" "cy_machine (initial_cycle_state cfg s m) = m"
  "cy_heartbeats (initial_cycle_state cfg s m) = 0"
  by (simp_all add: initial_cycle_state_def)

lemma build_adapter_flat [simp]: "open_symbols (build_adapter cfg) = {}"
  by (simp add: open_symbols_def build_adapter_def paper_init_def get_position_def)

subsection \<open>A stopped run\<close>

definition stopped :: "string \<Rightarrow> db \<Rightarrow> bool" where
  "stopped run d \<longleftrightarrow> (case persisted_state run d of None \<Rightarrow> True | Some p \<Rightarrow> \<not> is_running p)"

definition keeps_stopped :: "string \<Rightarrow> (db \<Rightarrow> db) \<Rightarrow> bool" where
  "keeps_stopped run f \<longleftrightarrow> (\<forall>d. stopped run d \<longrightarrow> stopped run (f d))"

text \<open>\<open>stopped_everywhere\<close>: in memory, in the work of the session and in what is committed.\<close>

definition stopped_everywhere :: "string \<Rightarrow> cycle_state \<Rightarrow> bool" where
  "stopped_everywhere run st \<longleftrightarrow>
     \<not> is_running (cy_machine st) \<and> stopped run (ss_work (cy_session st)) \<and> stopped run (ss_committed (cy_session st))"

lemma sync_stopped:
  assumes "stopped_everywhere (cr_bot_run_id r) st" "keeps_stopped (cr_bot_run_id r) (sy_others y)"
  shows "stopped_everywhere (cr_bot_run_id r) (sync_state_from_db r y st)"
proof -
  have k: "stopped (cr_bot_run_id r) (sy_others y (ss_work (cy_session st)))"
    "stopped (cr_bot_run_id r) (sy_others y (ss_committed (cy_session st)))"
    using assms by (simp_all add: keeps_stopped_def stopped_everywhere_def)
  have "p \<noteq> cy_machine st \<Longrightarrow> \<not> is_running p"
    if "get_latest_bot_state (cr_bot_run_id r) (sy_others y (ss_work (cy_session st))) = Some row"
      "resolve_persisted_state (Some (bs_state row)) = Some p" for row p
    using k(1) that by (simp add: stopped_def persisted_state_def)
  then show ?thesis
    using assms(1) k by (auto simp: stopped_everywhere_def sync_state_from_db_def Let_def split: option.splits)
qed

lemma run_loop_stopped:
  assumes "run_loop r inputs st = (out, st')" "stopped_everywhere (cr_bot_run_id r) st"
    "\<forall>i \<in> set inputs. keeps_stopped (cr_bot_run_id r) (sy_others (li_sync i))"
  shows "cy_adapter st' = cy_adapter st \<and> cy_manager st' = cy_manager st
    \<and> stopped_everywhere (cr_bot_run_id r) st' \<and> (\<forall>e. out \<noteq> RAISED e)"
  using assms
proof (induction r inputs st rule: run_loop.induct)
  case (2 r i rest st)
  let ?s1 = "sync_state_from_db r (li_sync i) st"
  have s: "stopped_everywhere (cr_bot_run_id r) ?s1" by (rule sync_stopped) (use "2.prems" in auto)
  then have it: "iteration r i st = (Inr (), touch_heartbeat ?s1)"
    by (simp add: iteration_def stopped_everywhere_def)
  have h: "stopped_everywhere (cr_bot_run_id r) (touch_heartbeat ?s1)"
    using s by (simp add: stopped_everywhere_def)
  show ?case
  proof (cases "li_shutdown i")
    case True
    with "2.prems"(1) it h show ?thesis by auto
  next
    case False
    with "2.prems"(1) it have "run_loop r rest (touch_heartbeat ?s1) = (out, st')" by simp
    from "2.IH" [OF it [symmetric] refl False this h] "2.prems"(3) show ?thesis by simp
  qed
qed auto

subsection \<open>The end of the loop\<close>

lemma iteration_heartbeat:
  assumes "iteration r i st = (res, st')"
  shows "cy_heartbeats st' = Suc (cy_heartbeats st)"
proof -
  have pipe: "cy_heartbeats (run_decision_pipeline r u rel xs s) = cy_heartbeats s" for u rel xs s
  proof (induction r u rel xs s rule: run_decision_pipeline.induct)
    case (2 r u rel i snap rest s)
    have "cy_heartbeats (process_isolated r i snap rel x) = cy_heartbeats x" for x
      by (rule process_isolated_cases [OF refl, of r i snap rel x]) simp_all
    with "2.IH" [OF refl] show ?case by (simp add: Let_def)
  qed simp
  have "cy_heartbeats t' = Suc (cy_heartbeats t)" if "cycle_tick r k t = (x, t')" for k t t' x
    using that
  proof (cases rule: cycle_tick_cases)
    case (failed e)
    then show ?thesis using market_phase_exec(4) [OF failed(1)] by simp
  next
    case (ticked snaps st1 u rel st2)
    then show ?thesis
      using market_phase_exec(4) [OF ticked(1)] gate_phase_exec(3) [OF ticked(3)] position_phase_exec(6) [of r k "health_phase r k snaps st1"]
      by (simp add: pipe)
  qed
  from this [of "li_tick i" "sync_state_from_db r (li_sync i) st" res st'] show ?thesis
    using assms by (auto simp: iteration_def Let_def split: if_splits)
qed

lemma run_loop_ends:
  assumes "run_loop r inputs st = (out, st')" "k < length inputs" "li_shutdown (inputs ! k)"
  shows "out \<noteq> RUNNING_ON \<and> cy_heartbeats st < cy_heartbeats st' \<and> cy_heartbeats st' \<le> cy_heartbeats st + Suc k"
  using assms
proof (induction r inputs st arbitrary: k rule: run_loop.induct)
  case (2 r i rest st)
  obtain res st1 where it: "iteration r i st = (res, st1)" by fastforce
  note h = iteration_heartbeat [OF it]
  show ?case
  proof (cases res)
    case (Inl e)
    with "2.prems" it h show ?thesis by auto
  next
    case (Inr u)
    show ?thesis
    proof (cases "li_shutdown i")
      case True
      with "2.prems"(1) it Inr h show ?thesis by auto
    next
      case False
      with "2.prems" obtain k' where k: "k = Suc k'" "k' < length rest" "li_shutdown (rest ! k')" by (cases k) auto
      from False Inr it "2.prems"(1) have "run_loop r rest st1 = (out, st')" by simp
      from "2.IH" [OF it [symmetric] Inr False this k(2,3)] h k(1) show ?thesis by simp
    qed
  qed
qed simp

definition run_closed :: "int \<Rightarrow> string \<Rightarrow> db \<Rightarrow> bool" where
  "run_closed now run d \<longleftrightarrow>
     list_all (\<lambda>r. br_id r = run \<longrightarrow> br_status r = ''STOPPED'' \<and> br_ended_at r = Some now) (db_bot_runs d)"

lemma bot_run_close_closed: "run_closed now run (bot_run_close now run ''STOPPED'' d)"
proof -
  have "br_id (close_run now s r) = br_id r" "br_status (close_run now s r) = s" "br_ended_at (close_run now s r) = Some now"
    for r s by (simp_all add: close_run_def)
  then show ?thesis
    unfolding run_closed_def bot_run_close_def update_bot_run_def by (simp add: list_all_iff) blast
qed

lemma orchestrator_close_twice:
  assumes "orchestrator_close ok now oc = (Inr u, oc')"
  shows "orchestrator_close ok' now' oc' = (Inr (), oc')"
proof (cases oc)
  case (Paper_context r st run engine)
  then show ?thesis
    using assms by (cases run; cases ok) (auto simp: orchestrator_close_def Let_def)
qed (use assms in \<open>auto simp: orchestrator_close_def\<close>)

end
