(* ===== verification/ExecutionProperties.thy ===== *)
theory ExecutionProperties
  imports ExecutionFacts ManagerProperties RiskProperties
begin

text \<open>
  The properties of the execution of an approved plan: replay and retry, what a registered position
  guarantees, and what an exit configuration that cannot be built leaves behind.
\<close>

subsection \<open>A concrete execution\<close>

definition sample_engine :: execution_engine where
  "sample_engine = \<lparr>xe_bot_run_id = ''r1'', xe_defaults = sample_defaults\<rparr>"

definition sample_exec_ids :: execution_ids where
  "sample_exec_ids = \<lparr>xi_order_row = ''o1'', xi_trade_row = ''t1'', xi_position_row = ''p1'',
     xi_exchange_order = ''x1'', xi_now = 100\<rparr>"

definition sample_db :: "rat \<Rightarrow> db" where
  "sample_db atr = db_empty\<lparr>
     db_bot_runs := [\<lparr>br_id = ''r1'', br_started_at = 0, br_ended_at = None, br_environment = ''PAPER'',
       br_status = ''RUNNING'', br_notes = None\<rparr>],
     db_volatility := [\<lparr>va_bot_run_id = ''r1'', va_symbol = ''BTCUSDT'', va_timestamp = 0, va_atr = Some atr\<rparr>]\<rparr>"

definition sample_state :: "rat \<Rightarrow> execution_state" where
  "sample_state atr = \<lparr>xs_adapter = sample_paper0, xs_manager = manager_init,
     xs_session = \<lparr>ss_committed = sample_db atr, ss_work = sample_db atr, ss_commits = 0\<rparr>\<rparr>"

definition sample_approval :: risk_result where
  "sample_approval = risk_result_of sample_id sample_id sample_decision sample_inputs RISK_ADJUST_DOWN
     (Some \<lparr>ap_margin_usdt = 4, ap_leverage = 4\<rparr>) [(''margin_cap'', Branch ''above_cap'')]"

lemma sample_paper0_ok: "paper_ok sample_paper0"
  unfolding sample_paper0_def by (rule paper_ok_init) code_simp

lemma sample_execution:
  obtains res x' where
    "execute_approved_plan sample_engine False sample_exec_ids sample_decision sample_approval None (sample_state 32)
       = (Inr res, x')" "xr_position_registered res"
proof -
  have "case execute_approved_plan sample_engine False sample_exec_ids sample_decision sample_approval None
      (sample_state 32) of (Inr res, x') \<Rightarrow> xr_position_registered res | _ \<Rightarrow> False" by code_simp
  then show thesis by (auto split: prod.splits sum.splits intro: that)
qed

lemma sample_fresh:
  "get_by_client_order_id (md_decision_id sample_decision) (ss_work (xs_session (sample_state atr))) = None"
  "get_order_status (md_decision_id sample_decision) (xs_adapter (sample_state atr)) = None"
  by (simp_all add: sample_state_def sample_db_def db_empty_def get_by_client_order_id_def sample_paper0_def
      paper_init_def get_order_status_def)

subsection \<open>Properties\<close>

text \<open>
  Executing a plan is idempotent and its record is lossless. After a plan of a new decision returned a result,
  executing the same decision again, with any other risk result, slippage estimate, identifiers or clock, changes
  nothing and returns that very result, rebuilt from the row in the database.
\<close>

theorem plan_replay:
  assumes "execute_approved_plan e timed_out ids d rr est x = (Inr res, x')"
    "get_by_client_order_id (md_decision_id d) (ss_work (xs_session x)) = None"
    "get_order_status (md_decision_id d) (xs_adapter x) = None" "xi_exchange_order ids \<noteq> []"
  shows "execute_approved_plan e' timed_out' ids' d rr' est' x' = (Inr res, x')"
  by (rule execute_replay [OF assms])

theorem plan_replay_witness:
  "\<exists>res x'. execute_approved_plan sample_engine True sample_exec_ids sample_decision sample_approval None x'
     = (Inr res, x') \<and> xr_position_registered res"
proof -
  obtain res x' where x: "execute_approved_plan sample_engine False sample_exec_ids sample_decision
      sample_approval None (sample_state 32) = (Inr res, x')" "xr_position_registered res"
    by (rule sample_execution)
  have "xi_exchange_order sample_exec_ids \<noteq> []" by (simp add: sample_exec_ids_def)
  from plan_replay [OF x(1) sample_fresh this] x(2) show ?thesis by blast
qed

text \<open>
  C38. A retry cannot open a second position. Whatever happened to the first attempt (a timeout, a failed write, a
  lost result), once the exchange has the order of a decision on file, executing the decision again leaves the
  orders and the positions of the exchange as they are.
\<close>

theorem retry_opens_nothing:
  assumes "execute_approved_plan e timed_out ids d rr est x = (res, x')"
    "get_order_status (md_decision_id d) (xs_adapter x) = Some out"
  shows "pa_orders (xs_adapter x') = pa_orders (xs_adapter x)
    \<and> pa_positions (xs_adapter x') = pa_positions (xs_adapter x)"
  using execute_known_to_adapter [OF assms] by simp

definition filled_state :: execution_state where
  "filled_state = (sample_state 32)\<lparr>xs_adapter := sample_paper0\<lparr>pa_orders :=
     [(sample_id, (sample_result ''c1'' BUY)\<lparr>or_client_order_id := sample_id\<rparr>)]\<rparr>\<rparr>"

theorem retry_opens_nothing_witness:
  "\<exists>res x'. execute_approved_plan sample_engine False sample_exec_ids sample_decision sample_approval None
     filled_state = (res, x') \<and> pa_positions (xs_adapter x') = []"
proof -
  obtain res x' where x: "execute_approved_plan sample_engine False sample_exec_ids sample_decision
      sample_approval None filled_state = (res, x')" by fastforce
  have "get_order_status (md_decision_id sample_decision) (xs_adapter filled_state)
      = Some ((sample_result ''c1'' BUY)\<lparr>or_client_order_id := sample_id\<rparr>)"
    by (simp add: get_order_status_def filled_state_def sample_decision_def)
  from retry_opens_nothing [OF x this] x show ?thesis
    by (auto simp: filled_state_def sample_paper0_def paper_init_def)
qed

text \<open>
  C10. A position is registered completely or not at all. When a new plan reports a registered position, the plan
  was executable, one trade and one position were added and committed together with the order, the exchange has the
  order on file, and the position manager watches the symbol with the stop and the target of the decision.
\<close>

theorem registered_position_complete:
  assumes "execute_approved_plan e timed_out ids d rr est x = (Inr res, x')" "xr_position_registered res"
    "get_by_client_order_id (md_decision_id d) (ss_work (xs_session x)) = None"
  shows "executable rr
    \<and> length (db_trades (ss_committed (xs_session x'))) = Suc (length (db_trades (ss_work (xs_session x))))
    \<and> length (db_positions (ss_committed (xs_session x'))) = Suc (length (db_positions (ss_work (xs_session x))))
    \<and> length (db_orders (ss_committed (xs_session x'))) = Suc (length (db_orders (ss_work (xs_session x))))
    \<and> get_order_status (md_decision_id d) (xs_adapter x') = Some (xr_order_result res)
    \<and> (\<exists>c. get_config (md_symbol d) (xs_manager x') = Some c)
    \<and> get_effective_sl (md_symbol d) (xs_manager x') = Some (dec_of_float (md_stop_loss d))
    \<and> get_effective_tp (md_symbol d) (xs_manager x') = Some (dec_of_float (md_take_profit d))"
proof (rule execute_registered [OF assms])
  fix adj atr q r a a' w fp x1
  assume rr: "executable rr" and b: "build_order_request d q est = Inr r"
    and p: "place_order (xi_exchange_order ids, xi_now ids) r a = (Inr (xr_order_result res), a')"
    and w: "insert_order (new_order_row e ids d (xr_order_result res) est) (ss_work (xs_session x)) = Inr w"
    and x1: "xs_adapter x1 = a'" "xs_manager x1 = xs_manager x" "ss_work (xs_session x1) = w"
    and f: "register_fill e ids d adj atr (xr_order_result res) fp x1 = (Inr res, x')"
  have o: "get_order_status (md_decision_id d) a' = Some (xr_order_result res)"
    using place_order_registers [OF p] build_order_request_Inr(1) [OF b] by simp
  have l: "length (db_orders w) = Suc (length (db_orders (ss_work (xs_session x))))"
      "db_trades w = db_trades (ss_work (xs_session x))" "db_positions w = db_positions (ss_work (xs_session x))"
    using w by (auto simp: insert_order_def split: if_splits)
  from f show ?thesis
  proof (rule register_fill_Inr)
    fix c
    assume c: "exit_config e d atr fp = Inr c" and m: "xs_manager x' = set_config c (xs_manager x1)"
      and s: "ss_committed (xs_session x') = ss_work (xs_session x')" "xs_adapter x' = xs_adapter x1"
        "ss_work (xs_session x') = add_position (new_position_row e ids d adj (xr_order_result res) fp)
          (link_order_trade (xi_order_row ids) (xi_trade_row ids)
            (add_trade (new_trade_row e ids d adj (xr_order_result res)) (ss_work (xs_session x1))))"
    have k: "pc_symbol c = md_symbol d" "pc_stop_loss c = Some (dec_of_float (md_stop_loss d))"
        "pc_take_profit c = Some (dec_of_float (md_take_profit d))"
      using built_config_fields [OF c [unfolded exit_config_def]] by simp_all
    show ?thesis
      using rr o l s x1 m k
      by (simp add: add_position_def link_order_trade_def add_trade_def set_config_def Let_def
          get_effective_sl_def get_effective_tp_def join_opt_def get_config_def)
  qed
qed

theorem registered_position_complete_witness:
  "\<exists>res x'. execute_approved_plan sample_engine False sample_exec_ids sample_decision sample_approval None
     (sample_state 32) = (Inr res, x') \<and> (\<exists>c. get_config ''BTCUSDT'' (xs_manager x') = Some c)"
proof -
  obtain res x' where x: "execute_approved_plan sample_engine False sample_exec_ids sample_decision
      sample_approval None (sample_state 32) = (Inr res, x')" "xr_position_registered res"
    by (rule sample_execution)
  have "md_symbol sample_decision = ''BTCUSDT''" by (simp add: sample_decision_def)
  with registered_position_complete [OF x sample_fresh(1)] x(1) show ?thesis by metis
qed

subsection \<open>A fill without an exit configuration\<close>

text \<open>An ATR of zero builds neither a break-even trigger nor an ATR trailing stop.\<close>

lemma exit_config_atr_0:
  assumes "pp_move_to_break_even (md_position_management_plan d) \<and> pm_break_even_enabled (xe_defaults e)
    \<or> pp_use_trailing_stop (md_position_management_plan d) \<and> pm_trailing_stop_enabled (xe_defaults e)
      \<and> pm_trailing_default_mode (xe_defaults e) = ''ATR''"
  shows "\<exists>err. exit_config e d 0 fp = Inl err"
proof (rule ccontr)
  assume "\<nexists>err. exit_config e d 0 fp = Inl err"
  then obtain c where c: "exit_config e d 0 fp = Inr c" by (cases "exit_config e d 0 fp") auto
  then have "position_config_fields c" unfolding exit_config_def by (rule built_config_fields(5))
  moreover have "pc_be_trigger_delta c = Some 0 \<or> pc_trailing_atr c = Some 0"
    using c assms
    by (auto simp: exit_config_def build_position_config_def bindE_Inr_iff break_even_defaults_def trailing_defaults_def
        parse_trailing_mode_def dmul_def Let_def split: prod.splits if_splits option.splits dest!: make_position_config_Inr(1))
  ultimately show False by (auto simp: position_config_fields_def)
qed

text \<open>A filled order that opens a position on a symbol without one opens it for the filled quantity.\<close>

lemma fresh_fill_position:
  assumes "place_order ctx r a = (y, a')" "get_order_status (rq_client_order_id r) a = None"
    and "get_position (rq_symbol r) a = None" "\<not> rq_is_reduce_only r"
    and "get_order_status (rq_client_order_id r) a' = Some out" "or_status out = FILLED"
  shows "y = Inr out" "\<exists>p. get_position (rq_symbol r) a' = Some p \<and> ps_quantity p = or_quantity_filled out
    \<and> ps_side p = rq_side r"
proof -
  have frame: "pa_orders b = pa_orders a" if "fill_market_order ctx r a = (z, b)" for z b
    using that assms(4)
    by (auto simp: fill_market_order_def open_or_net_position_def set_position_def Let_def
        split: sum.splits prod.splits if_splits option.splits)
  show y: "y = Inr out"
  proof (cases y)
    case (Inl err)
    then have "pa_orders a' = pa_orders a"
      using assms(1,2) frame
      by (auto simp: place_order_def get_order_status_def Let_def split: sum.splits prod.splits if_splits)
    with assms(2,5) show ?thesis by (simp add: get_order_status_def)
  next
    case (Inr out')
    with place_order_registers assms(1,5) show ?thesis by fastforce
  qed
  show "\<exists>p. get_position (rq_symbol r) a' = Some p \<and> ps_quantity p = or_quantity_filled out \<and> ps_side p = rq_side r"
  proof (cases "rq_order_type r = MARKET")
    case True
    with assms(1,2) y obtain b where b: "fill_market_order ctx r a = (Inr out, b)"
        "get_position (rq_symbol r) a' = get_position (rq_symbol r) b"
      by (auto simp: place_order_def get_order_status_def Let_def split: sum.splits prod.splits)
    from b(1) show ?thesis
      by (rule fill_market_order_result)
        (use assms(3,4) b(2) in \<open>auto simp: open_or_net_position_def set_position_def make_position_state_Inr
            simulated_position_def simulated_order_result_def get_position_def Let_def split: sum.splits\<close>)
  next
    case False
    with assms(1,2,6) y show ?thesis
      by (auto simp: place_order_def get_order_status_def register_pending_order_def make_order_result_Inr
          simulated_order_result_def Let_def split: sum.splits)
  qed
qed

text \<open>When the configuration cannot be built for the price of the fill, the plan raises and nothing is committed.\<close>

lemma persist_result_unprotected:
  assumes "persist_result e ids d adj atr est out x = (res, x')" "or_status out = FILLED" "or_fill_price out \<noteq> None"
    and "\<And>fp. \<exists>err. exit_config e d atr fp = Inl err"
  shows "isl res" "xs_manager x' = xs_manager x" "ss_committed (xs_session x') = ss_committed (xs_session x)"
proof -
  have f: "isl res' \<and> xs_manager y' = xs_manager y \<and> ss_committed (xs_session y') = ss_committed (xs_session y)"
    if "register_fill e ids d adj atr out fp y = (res', y')" for fp y res' y'
    using that assms(4) [of fp] by (auto simp: register_fill_def Let_def ss_update_def)
  show "isl res" "xs_manager x' = xs_manager x" "ss_committed (xs_session x') = ss_committed (xs_session x)"
    using assms(1-3) by (auto simp: persist_result_def Let_def ss_update_def split: sum.splits dest!: f)
qed

text \<open>
  C13. The exit configuration is built only after the fill. When the plan asks for the break-even or for a trailing
  stop on the ATR and the last ATR on file is zero, which the guard on a missing ATR lets through, then whenever the
  order of a new decision fills on a symbol without a position, the plan raises: the exchange holds the position for
  the filled quantity, the position manager is as it was before the plan, and nothing of it is committed.
\<close>

theorem fill_without_protection:
  assumes "execute_approved_plan e timed_out ids d rr est x = (res, x')"
    and "latest_atr e (md_symbol d) (ss_work (xs_session x)) = Some 0"
    and "pp_move_to_break_even (md_position_management_plan d) \<and> pm_break_even_enabled (xe_defaults e)
      \<or> pp_use_trailing_stop (md_position_management_plan d) \<and> pm_trailing_stop_enabled (xe_defaults e)
        \<and> pm_trailing_default_mode (xe_defaults e) = ''ATR''"
    and "get_order_status (md_decision_id d) (xs_adapter x) = None" "get_position (md_symbol d) (xs_adapter x) = None"
    and "get_order_status (md_decision_id d) (xs_adapter x') = Some out" "or_status out = FILLED"
  shows "(\<exists>err. res = Inl err)
    \<and> (\<exists>p. get_position (md_symbol d) (xs_adapter x') = Some p \<and> ps_quantity p = or_quantity_filled out
        \<and> ps_side p = entry_side d)
    \<and> xs_manager x' = xs_manager x \<and> ss_committed (xs_session x') = ss_committed (xs_session x)"
proof -
  have "\<exists>adj. place_plan e timed_out ids d adj 0 est x = (res, x')"
    using assms(1,2,4,6) by (auto simp: execute_approved_plan_def split: option.splits if_splits)
  then obtain adj where p: "place_plan e timed_out ids d adj 0 est x = (res, x')" by blast
  have fill: "y = Inr out \<and> (\<exists>p. get_position (md_symbol d) a' = Some p \<and> ps_quantity p = or_quantity_filled out
        \<and> ps_side p = entry_side d) \<and> or_fill_price out \<noteq> None"
    if "place_order ctx r a = (y, a')" "build_order_request d q est = Inr r" "pa_orders a = pa_orders (xs_adapter x)"
      "pa_positions a = pa_positions (xs_adapter x)" "a' = xs_adapter x'" for ctx r a y a' q
  proof -
    note b = build_order_request_Inr [OF that(2)]
    have n: "get_order_status (rq_client_order_id r) a = None" "get_position (rq_symbol r) a = None"
      using assms(4,5) that(3,4) b(1,2) by (simp_all add: get_order_status_def get_position_def)
    note f = fresh_fill_position [OF that(1) n, unfolded b(1,2,5,6), simplified, OF assms(6) [folded that(5)] assms(7)]
    have "or_fill_price out \<noteq> None"
      using fresh_order_result(6) [OF that(1) [unfolded f(1)] n(1)] b(3,4) assms(7) by auto
    with f show ?thesis by blast
  qed
  from p show ?thesis
  proof (cases rule: place_plan_cases)
    case (refused err a)
    with assms(4,6) show ?thesis by (simp add: get_order_status_def)
  next
    case (failed err q r a a')
    then obtain y where y: "place_order (xi_exchange_order ids, xi_now ids) r a = (y, a')"
      by (auto simp: place_order_with_timeout_def split: prod.splits)
    from fill [OF y failed(4,6,7)] failed(1,2) show ?thesis by simp
  next
    case (placed q r a a' out')
    have a': "a' = xs_adapter x'" using persist_result_adapter [OF placed(5)] by simp
    from fill [OF placed(3,2,6,7) a'] have f: "out' = out" "or_fill_price out \<noteq> None"
        "\<exists>p. get_position (md_symbol d) a' = Some p \<and> ps_quantity p = or_quantity_filled out \<and> ps_side p = entry_side d"
      by auto
    from persist_result_unprotected [OF placed(5)] f(1,2) assms(7) exit_config_atr_0 [OF assms(3)]
    have "isl res \<and> xs_manager x' = xs_manager x \<and> ss_committed (xs_session x') = ss_committed (xs_session x)" by simp
    with f(3) a' show ?thesis by (auto simp: isl_def)
  qed
qed

theorem fill_without_protection_witness:
  "\<exists>err x' p. execute_approved_plan sample_engine False sample_exec_ids sample_decision sample_approval None
      (sample_state 0) = (Inl err, x')
    \<and> get_position ''BTCUSDT'' (xs_adapter x') = Some p \<and> ps_quantity p = 1/64
    \<and> get_config ''BTCUSDT'' (xs_manager x') = None \<and> db_orders (ss_committed (xs_session x')) = []"
proof -
  obtain res x' where x: "execute_approved_plan sample_engine False sample_exec_ids sample_decision sample_approval None
      (sample_state 0) = (res, x')" by fastforce
  have "case execute_approved_plan sample_engine False sample_exec_ids sample_decision sample_approval None
      (sample_state 0) of (res, x') \<Rightarrow>
        (case get_order_status sample_id (xs_adapter x') of
           None \<Rightarrow> False | Some out \<Rightarrow> or_status out = FILLED \<and> or_quantity_filled out = 1/64)" by code_simp
  then obtain out where out: "get_order_status (md_decision_id sample_decision) (xs_adapter x') = Some out"
      "or_status out = FILLED" "or_quantity_filled out = 1/64"
    using x by (auto simp: sample_decision_def split: option.splits)
  have atr: "latest_atr sample_engine (md_symbol sample_decision) (ss_work (xs_session (sample_state 0))) = Some 0"
    by code_simp
  have none: "get_position (md_symbol sample_decision) (xs_adapter (sample_state 0)) = None"
    by (simp add: sample_state_def sample_paper0_def paper_init_def get_position_def)
  have s: "md_symbol sample_decision = ''BTCUSDT''" "xs_manager (sample_state 0) = manager_init"
    "db_orders (ss_committed (xs_session (sample_state 0))) = []"
    by (simp_all add: sample_decision_def sample_state_def sample_db_def db_empty_def)
  have "pp_move_to_break_even (md_position_management_plan sample_decision) \<and> pm_break_even_enabled (xe_defaults sample_engine)"
    by (simp add: sample_decision_def sample_plan_def sample_engine_def sample_defaults_def)
  with fill_without_protection [OF x atr _ sample_fresh(2) none out(1,2)] x out(3) show ?thesis
    by (auto simp: s get_config_def manager_init_def)
qed

end
