(* ===== verification/WorkerProperties.thy ===== *)
theory WorkerProperties
  imports Orchestrator ExecutionProperties
begin

text \<open>
  The properties of the worker: the gates an order passes, the limit on positions over a whole run, the steps
  that an iteration may make on the persisted state, what stops it, how it starts and how it ends.
\<close>

subsection \<open>A concrete worker\<close>

text \<open>Concrete functions for those of C's math library.\<close>

definition sample_math :: math_lib where
  "sample_math = \<lparr>m_tanh = (\<lambda>x. max (- 1) (min 1 x)), m_sqrt = (\<lambda>x. x), m_square = (\<lambda>x. x * x)\<rparr>"

definition sample_start :: startup_input where
  "sample_start = \<lparr>su_parse_int = (\<lambda>_. None), su_interval_env = None, su_config = sample_config,
     su_math = sample_math, su_pow15 = (\<lambda>x. x), su_gpt_key = True, su_run_id = ''r2'', su_now = 100,
     su_racing = id, su_recheck = id, su_commit_ok = True\<rparr>"

text \<open>A database in which the kill switch had stopped the previous run, which then died.\<close>

definition killed_db :: db where
  "killed_db = (sample_db 32)\<lparr>db_bot_states := [\<lparr>bs_bot_run_id = ''r1'', bs_state = ''KILL_SWITCH_TRIGGERED'',
     bs_previous_state = Some ''ACTIVE'', bs_reason = None, bs_created_at = 5\<rparr>]\<rparr>"

definition session_of :: "db \<Rightarrow> session" where
  "session_of d = \<lparr>ss_committed = d, ss_work = d, ss_commits = 0\<rparr>"

definition quiet_sync :: sync_input where
  "quiet_sync = \<lparr>sy_others = id, sy_read_ok = True\<rparr>"

definition quiet_symbol :: symbol_input where
  "quiet_symbol = \<lparr>si_sync = quiet_sync, si_answer = Inr (Some sample_decision), si_while_asking = id,
     si_aggregation_id = sample_id, si_validation_id = sample_id, si_now = 200, si_timed_out = False,
     si_ids = sample_exec_ids, si_reload_ok = True\<rparr>"

definition quiet_tick :: tick_input where
  "quiet_tick = \<lparr>ti_now = 200, ti_fetch = (\<lambda>s b n k. Inl ValueError), ti_market_commit_ok = True,
     ti_health_commit_ok = True, ti_gate_commit_ok = True, ti_ids = (\<lambda>_. sample_ids),
     ti_symbols = (\<lambda>_. quiet_symbol)\<rparr>"

definition quiet_input :: "bool \<Rightarrow> loop_input" where
  "quiet_input stop = \<lparr>li_sync = quiet_sync, li_tick = quiet_tick, li_shutdown = stop\<rparr>"

lemma quiet_honest [simp]: "honest_fetcher (ti_fetch (li_tick (quiet_input b)))"
  by (simp add: quiet_input_def quiet_tick_def honest_fetcher_def)

lemma quiet_sync_sel [simp]: "sy_others (li_sync (quiet_input b)) = id" "si_sync quiet_symbol = quiet_sync"
  by (simp_all add: quiet_input_def quiet_sync_def quiet_symbol_def)

subsection \<open>Starting\<close>

text \<open>
  A worker starts alone. When a start succeeds, whatever other processes committed meanwhile, the new run is the
  only one in status RUNNING, it is the one the kill switch finds as active, and everything was committed at once.
\<close>

theorem worker_start_exclusive:
  assumes "orchestrator_init j i s = (Inr (Paper_context r st run engine), s')"
  shows "filter (\<lambda>x. br_status x = ''RUNNING'') (db_bot_runs (ss_committed s')) = [new_bot_run i]
    \<and> get_active (ss_committed s') = Some (new_bot_run i)
    \<and> run = Some (br_id (new_bot_run i)) \<and> cr_bot_run_id r = br_id (new_bot_run i)
    \<and> ss_committed s' = ss_work s' \<and> cy_session st = s'"
proof -
  obtain m0 m where p: "prepare_paper_context (ij_state_machine j = None) (\<not> ij_session j) i s m0
      = (Inr (su_run_id i), s', m)"
    and r: "run = Some (su_run_id i)" "cr_bot_run_id r = su_run_id i" "cy_session st = s'"
    using assms by (rule orchestrator_init_Inr) simp
  from p show ?thesis
  proof (rule prepare_paper_context_Inr)
    fix w carried
    assume w: "insert_bot_run (new_bot_run i)
        (su_racing i (close_orphan_running (su_now i) orphan_reason (ss_work s))) = Inr w"
      and s': "ss_work s' = (case carried of None \<Rightarrow> w | Some previous \<Rightarrow> save_bot_state (carried_row i previous m) w)"
      "ss_committed s' = ss_work s'"
    have runs: "db_bot_runs (ss_work s') = db_bot_runs w"
      using s'(1) by (simp add: save_bot_state_def split: option.splits)
    have "filter (\<lambda>x. br_status x = ''RUNNING'') (db_bot_runs w) = [new_bot_run i]"
      using w by (auto simp: insert_bot_run_def list_ex_iff new_bot_run_def filter_empty_conv split: if_splits)
    then show ?thesis
      using runs r s' by (simp add: get_active_def latest_by_def new_bot_run_def)
  qed
qed

theorem worker_start_exclusive_witness:
  "\<exists>r st s'. orchestrator_init no_injection sample_start (session_of killed_db)
     = (Inr (Paper_context r st (Some ''r2'') True), s') \<and> get_active (ss_committed s') = Some (new_bot_run sample_start)"
proof -
  have "case orchestrator_init no_injection sample_start (session_of killed_db) of
      (Inr (Paper_context r st (Some run) engine), s') \<Rightarrow> run = ''r2'' \<and> engine | _ \<Rightarrow> False" by code_simp
  then obtain r st s' where o: "orchestrator_init no_injection sample_start (session_of killed_db)
      = (Inr (Paper_context r st (Some ''r2'') True), s')"
    by (auto split: prod.splits sum.splits orchestrator.splits option.splits)
  from worker_start_exclusive [OF o] o show ?thesis by blast
qed

text \<open>
  C6. A restart does not undo a stop. When the most recent run was left HALTED or in KILL_SWITCH_TRIGGERED, the new
  run starts in that very state, persists it, and however long its loop runs it neither trades nor moves a
  position until somebody changes the persisted state.
\<close>

theorem restart_keeps_stop:
  assumes "orchestrator_init no_injection i s = (Inr (Paper_context r st run engine), s')"
    and "get_most_recent (ss_work s) = Some prev" "persisted_state (br_id prev) (ss_work s) = Some p" "\<not> is_running p"
    and "\<forall>row \<in> set (db_bot_states (su_racing i (close_orphan_running (su_now i) orphan_reason (ss_work s)))).
           bs_bot_run_id row \<noteq> su_run_id i"
    and "\<forall>k \<in> set inputs. keeps_stopped (su_run_id i) (sy_others (li_sync k))"
    and "run_cycles r False inputs st = (out, st')"
  shows "persisted_state (su_run_id i) (ss_committed s') = Some p \<and> cy_machine st = p
    \<and> cy_adapter st' = cy_adapter st \<and> cy_manager st' = cy_manager st
    \<and> \<not> is_running (cy_machine st') \<and> (\<forall>e. out \<noteq> RAISED e)"
proof -
  obtain interval m where i: "prepare_paper_context True True i s ACTIVE = (Inr (su_run_id i), s', m)"
      "cr_bot_run_id r = su_run_id i" "cy_session st = s'" "cy_machine st = m"
    using assms(1) by (rule orchestrator_init_Inr) (simp add: no_injection_def)
  from i(1) show ?thesis
  proof (rule prepare_paper_context_Inr)
    fix w carried
    assume w: "insert_bot_run (new_bot_run i)
        (su_racing i (close_orphan_running (su_now i) orphan_reason (ss_work s))) = Inr w"
      and c: "(if True then resolve_carried_over_state (ss_work s) ACTIVE else (None, ACTIVE)) = (carried, m)"
      and s': "ss_work s' = (case carried of None \<Rightarrow> w | Some previous \<Rightarrow> save_bot_state (carried_row i previous m) w)"
        "ss_committed s' = ss_work s'"
    have m: "m = p" "carried = Some prev"
      using c resolve_carried_over_stopped [OF assms(2-4)] by simp_all
    have "db_bot_states w = db_bot_states (su_racing i (close_orphan_running (su_now i) orphan_reason (ss_work s)))"
      using w by (auto simp: insert_bot_run_def split: if_splits)
    then have "filter (\<lambda>x. bs_bot_run_id x = su_run_id i) (db_bot_states w) = []"
      using assms(5) by (simp add: filter_empty_conv)
    then have "persisted_state (su_run_id i) (ss_work s') = Some p"
      using s' m by (simp add: persisted_state_def get_latest_bot_state_def save_bot_state_def carried_row_def
          latest_by_def)
    moreover from this have "stopped_everywhere (cr_bot_run_id r) st"
      using i m s' assms(4) by (simp add: stopped_everywhere_def stopped_def)
    ultimately show ?thesis
      using run_loop_stopped [of r inputs st out st'] assms(6,7) i m s'
      by (simp add: run_cycles_def stopped_everywhere_def)
  qed
qed

theorem restart_keeps_stop_witness:
  "\<exists>r st st' out. run_cycles r False [quiet_input False, quiet_input True] st = (out, st')
     \<and> cy_machine st = KILL_SWITCH_TRIGGERED \<and> cy_adapter st' = build_adapter sample_config"
proof -
  have "case orchestrator_init no_injection sample_start (session_of killed_db) of
      (Inr (Paper_context r st (Some run) engine), s') \<Rightarrow> run = ''r2'' \<and> engine | _ \<Rightarrow> False" by code_simp
  then obtain r st s' where o: "orchestrator_init no_injection sample_start (session_of killed_db)
      = (Inr (Paper_context r st (Some ''r2'') True), s')"
    by (auto split: prod.splits sum.splits orchestrator.splits option.splits)
  obtain out st' where l: "run_cycles r False [quiet_input False, quiet_input True] st = (out, st')" by fastforce
  have "map_option br_id (get_most_recent (ss_work (session_of killed_db))) = Some ''r1''"
    "persisted_state ''r1'' (ss_work (session_of killed_db)) = Some KILL_SWITCH_TRIGGERED"
    "list_all (\<lambda>row. bs_bot_run_id row \<noteq> su_run_id sample_start) (db_bot_states (su_racing sample_start
      (close_orphan_running (su_now sample_start) orphan_reason (ss_work (session_of killed_db)))))"
    by code_simp+
  then obtain prev where g: "get_most_recent (ss_work (session_of killed_db)) = Some prev"
    "persisted_state (br_id prev) (ss_work (session_of killed_db)) = Some KILL_SWITCH_TRIGGERED"
    "\<forall>row \<in> set (db_bot_states (su_racing sample_start
      (close_orphan_running (su_now sample_start) orphan_reason (ss_work (session_of killed_db))))).
       bs_bot_run_id row \<noteq> su_run_id sample_start"
    by (auto simp: list_all_iff)
  have k: "\<not> is_running KILL_SWITCH_TRIGGERED" by code_simp
  have "\<forall>k \<in> set [quiet_input False, quiet_input True]. keeps_stopped (su_run_id sample_start) (sy_others (li_sync k))"
    by (simp add: keeps_stopped_def)
  from restart_keeps_stop [OF o g(1,2) k g(3) this l] have
    "cy_machine st = KILL_SWITCH_TRIGGERED" "cy_adapter st' = cy_adapter st" by simp_all
  moreover have "cy_adapter st = build_adapter sample_config"
    using o by (rule orchestrator_init_Inr) (simp add: sample_start_def)
  ultimately show ?thesis using l by (intro exI) simp
qed

subsection \<open>The end of a run\<close>

text \<open>
  C9. A requested shutdown ends the run. Once a shutdown is requested by the end of some iteration, the worker
  leaves the loop within that many iterations, by the shutdown or by an earlier exception, and in either case the
  run is closed in the database as STOPPED with the time of its end, and closing again changes nothing.
\<close>

theorem run_is_closed:
  assumes "orchestrator_run True now False inputs (Paper_context r st (Some run) engine) = (out, oc)"
    and "k < length inputs" "li_shutdown (inputs ! k)"
  shows "\<exists>st'. oc = Paper_context r st' None False \<and> out \<noteq> RUNNING_ON
    \<and> cy_heartbeats st < cy_heartbeats st' \<and> cy_heartbeats st' \<le> cy_heartbeats st + Suc k
    \<and> run_closed now run (ss_committed (cy_session st'))
    \<and> (\<forall>ok now'. orchestrator_close ok now' oc = (Inr (), oc))"
proof -
  obtain out1 st1 where l: "run_loop r inputs st = (out1, st1)" by fastforce
  let ?st' = "with_session (ss_commit (ss_update (bot_run_close now run ''STOPPED'') (cy_session st1))) st1"
  have e: "out1 \<noteq> RUNNING_ON" "cy_heartbeats st < cy_heartbeats st1" "cy_heartbeats st1 \<le> cy_heartbeats st + Suc k"
    using run_loop_ends [OF l assms(2,3)] by simp_all
  have "out = out1 \<and> oc = Paper_context r ?st' None False"
    using assms(1) l e(1)
    by (cases out1) (auto simp: orchestrator_run_def run_cycles_def orchestrator_close_def Let_def)
  then show ?thesis
    using e by (auto simp: bot_run_close_closed orchestrator_close_def)
qed

theorem run_is_closed_witness:
  "\<exists>out st'. orchestrator_run True 300 False [quiet_input False, quiet_input True]
     (Paper_context (build_cycle_runner sample_start 10 ''r1'')
        (initial_cycle_state sample_config (session_of (sample_db 32)) ACTIVE) (Some ''r1'') True)
     = (out, Paper_context (build_cycle_runner sample_start 10 ''r1'') st' None False)
   \<and> run_closed 300 ''r1'' (ss_committed (cy_session st'))"
proof -
  obtain out oc where o: "orchestrator_run True 300 False [quiet_input False, quiet_input True]
     (Paper_context (build_cycle_runner sample_start 10 ''r1'')
        (initial_cycle_state sample_config (session_of (sample_db 32)) ACTIVE) (Some ''r1'') True) = (out, oc)"
    by fastforce
  have "(1 :: nat) < length [quiet_input False, quiet_input True]"
    "li_shutdown ([quiet_input False, quiet_input True] ! 1)" by (simp_all add: quiet_input_def)
  from run_is_closed [OF o this] o show ?thesis by blast
qed

subsection \<open>The limit on positions\<close>

text \<open>
  C5. A run never holds more positions than configured. From a fresh start, however many iterations run, whatever
  the model answers, the market does and other processes commit, the positions open on the simulated exchange
  are in allowed symbols and at most \<^verbatim>\<open>max_open_positions\<close>, provided the market data report the count that they
  were given.
\<close>

theorem positions_within_limit:
  assumes "orchestrator_init j i s = (Inr (Paper_context r st run engine), s')"
    and "0 \<le> tr_max_open_positions (cfg_trading (su_config i))"
    and "\<forall>k \<in> set inputs. honest_fetcher (ti_fetch (li_tick k))"
    and "run_cycles r shutdown inputs st = (out, st')"
  shows "open_symbols (cy_adapter st') \<subseteq> set (tr_allowed_symbols (cfg_trading (su_config i)))
    \<and> int (card (open_symbols (cy_adapter st'))) \<le> tr_max_open_positions (cfg_trading (su_config i))"
proof -
  obtain interval m where r: "r = build_cycle_runner i interval (su_run_id i)"
      "st = initial_cycle_state (su_config i) s' m"
    using assms(1) by (rule orchestrator_init_Inr) simp
  have "position_limit_ok r st" using r assms(2) by (simp add: position_limit_ok_def)
  then have "position_limit_ok r st'"
    using assms(3,4) run_loop_limit [of r inputs st out st'] by (auto simp: run_cycles_def split: if_splits)
  then show ?thesis using r by (simp add: position_limit_ok_def)
qed

theorem positions_within_limit_witness:
  "\<exists>r st st' out. run_cycles r False [quiet_input False, quiet_input True] st = (out, st')
     \<and> int (card (open_symbols (cy_adapter st'))) \<le> 1"
proof -
  have "case orchestrator_init no_injection sample_start (session_of killed_db) of
      (Inr (Paper_context r st (Some run) engine), s') \<Rightarrow> run = ''r2'' \<and> engine | _ \<Rightarrow> False" by code_simp
  then obtain r st s' where o: "orchestrator_init no_injection sample_start (session_of killed_db)
      = (Inr (Paper_context r st (Some ''r2'') True), s')"
    by (auto split: prod.splits sum.splits orchestrator.splits option.splits)
  obtain out st' where l: "run_cycles r False [quiet_input False, quiet_input True] st = (out, st')" by fastforce
  have "tr_max_open_positions (cfg_trading (su_config sample_start)) = 1" by code_simp
  with positions_within_limit [OF o _ _ l] l show ?thesis by auto
qed

subsection \<open>The state machine\<close>

text \<open>
  C4. The worker only brakes. Let \<open>others\<close> be what the other processes may do to the persisted state of the bot in
  one commit. Then one iteration of the loop with all it contains (scanners, gates, decisions, executions and failed
  commits) moves the persisted state by steps that are theirs or the one of the worker, from ACTIVE to SAFE_MODE; and
  while the others leave the state alone, an iteration keeps it or makes that one step. So no iteration reactivates a
  bot, and none leaves or enters HALTED, KILL_SWITCH_TRIGGERED or MANUAL_PAUSED on its own. The session keeps no
  uncommitted state of its own. The clock is taken to be ahead of the rows on file.
\<close>

theorem worker_refines_machine:
  assumes "iteration r i st = (res, st')" "well_wired r" "bot_tables_clean (cy_session st)"
    and "lawful others (cr_bot_run_id r) (sy_others (li_sync i))"
    and "\<forall>k. lawful_symbol others (cr_bot_run_id r) (ti_symbols (li_tick i) k)"
    and "clock_after (cr_bot_run_id r) (ti_now (li_tick i)) (sy_others (li_sync i) (ss_committed (cy_session st)))"
  shows "bot_tables_clean (cy_session st')
    \<and> (system_step others)\<^sup>*\<^sup>* (abs_state r st) (abs_state r st')
    \<and> ((\<forall>p q. \<not> others p q) \<longrightarrow> abs_state r st' = abs_state r st
         \<or> abs_state r st = Some ACTIVE \<and> abs_state r st' = Some SAFE_MODE)"
proof -
  let ?s1 = "sync_state_from_db r (li_sync i) st"
  have s: "bot_tables_clean (cy_session ?s1)" "machine_moves others (abs_state r st) (abs_state r ?s1)"
    using sync_simulates [OF assms(4)] assms(3) by (simp_all add: simulates_def)
  have "ss_committed (cy_session ?s1) = sy_others (li_sync i) (ss_committed (cy_session st))"
    by (auto simp: sync_state_from_db_def Let_def split: option.split)
  then have c: "clock_after (cr_bot_run_id r) (ti_now (li_tick i)) (ss_committed (cy_session ?s1))"
    using assms(6) by simp
  have t: "abs_state r (touch_heartbeat ?s1) = abs_state r ?s1" by (rule abs_state_session) simp
  have m: "bot_tables_clean (cy_session st') \<and> machine_moves others (abs_state r st) (abs_state r st')"
  proof (cases "is_running (cy_machine ?s1)")
    case False
    with assms(1) have "st' = touch_heartbeat ?s1" by (simp add: iteration_def Let_def)
    then show ?thesis using s t by simp
  next
    case True
    with assms(1) have "cycle_tick r (li_tick i) ?s1 = (res, st')" by (simp add: iteration_def Let_def)
    from cycle_tick_moves [OF this assms(2) s(1) c assms(5)] s(2) machine_moves_trans show ?thesis by blast
  qed
  have "(\<forall>p q. \<not> others p q) \<longrightarrow> others = (\<lambda>_ _. False)" by (auto simp: fun_eq_iff)
  then show ?thesis using m machine_moves_alone unfolding machine_moves_def by blast
qed

text \<open>No snapshot can be fetched in the sample tick, so that the health gate brakes.\<close>

theorem worker_refines_machine_witness:
  "\<exists>res st'. iteration (build_cycle_runner sample_start 10 ''r1'') (quiet_input True)
       (initial_cycle_state sample_config (session_of (sample_db 32)) ACTIVE) = (res, st')
     \<and> abs_state (build_cycle_runner sample_start 10 ''r1'') st' \<in> {Some ACTIVE, Some SAFE_MODE}"
proof -
  let ?r = "build_cycle_runner sample_start 10 ''r1''"
  let ?st = "initial_cycle_state sample_config (session_of (sample_db 32)) ACTIVE"
  obtain res st' where i: "iteration ?r (quiet_input True) ?st = (res, st')" by fastforce
  have "bot_tables_clean (cy_session ?st)" "abs_state ?r ?st = Some ACTIVE"
    by (simp_all add: bot_tables_clean_def session_of_def abs_state_def persisted_state_def
        get_latest_bot_state_def sample_db_def db_empty_def resolve_persisted_state_def)
  moreover have "\<forall>k. lawful_symbol (\<lambda>_ _. False) (cr_bot_run_id ?r) (ti_symbols (li_tick (quiet_input True)) k)"
    by (simp add: lawful_symbol_def quiet_input_def quiet_tick_def quiet_symbol_def quiet_sync_def)
  moreover have "clock_after (cr_bot_run_id ?r) (ti_now (li_tick (quiet_input True)))
      (sy_others (li_sync (quiet_input True)) (ss_committed (cy_session ?st)))"
    by (simp add: clock_after_def session_of_def sample_db_def db_empty_def)
  ultimately show ?thesis
    using worker_refines_machine [OF i, where others = "\<lambda>_ _. False"] i by auto
qed

subsection \<open>The brakes\<close>

lemma blocks_entries_safe_mode:
  "persisted_state run d = Some SAFE_MODE \<Longrightarrow> blocks_entries run d"
  by (auto simp: blocks_entries_def persisted_state_def resolve_persisted_state_def split: option.splits)

text \<open>
  C8. A discrepancy that the configuration blocks on stops new entries in the same tick. When the reconciliation
  before the entries finds one while the bot is ACTIVE and the database accepts the transition, the bot is in
  SAFE_MODE in memory and in the database, and the decision pipeline that follows leaves the exchange alone
  whatever the model answers, unless another process reactivates the bot.
\<close>

theorem blocking_finding_stops_entries:
  assumes "gate_phase r i st = (unverified, reliable, st')"
    and "cr_reconciler r = Some n" "rc_enabled (cfg_reconciliation (cr_config r))"
      "rc_run_before_new_entries (cfg_reconciliation (cr_config r))"
    and "blocking_reasons (cfg_reconciliation (cr_config r))
      (reconcile paper_reads (n\<lparr>rn_position_manager := Some (cy_manager st)\<rparr>) (cr_bot_run_id r)
         (ss_work (cy_session st)) (cy_adapter st)) \<noteq> []"
    and "cy_machine st = ACTIVE" "ti_gate_commit_ok i"
    and "run_is_running (cr_bot_run_id r) (ss_work (cy_session st))"
      "persisted_state (cr_bot_run_id r) (ss_work (cy_session st)) = Some ACTIVE"
      "clock_after (cr_bot_run_id r) (ti_now i) (ss_work (cy_session st))"
    and "\<forall>(k, s) \<in> set xs. sy_read_ok (si_sync k) \<and> keeps_blocked (cr_bot_run_id r) (sy_others (si_sync k))"
  shows "cy_machine st' = SAFE_MODE \<and> persisted_state (cr_bot_run_id r) (ss_committed (cy_session st')) = Some SAFE_MODE
    \<and> cy_adapter (run_decision_pipeline r unverified reliable xs st') = cy_adapter st"
proof -
  let ?run = "cr_bot_run_id r" and ?c = "cfg_reconciliation (cr_config r)"
  let ?report = "reconcile paper_reads (n\<lparr>rn_position_manager := Some (cy_manager st)\<rparr>) ?run
      (ss_work (cy_session st)) (cy_adapter st)"
  let ?q = "safe_mode_stop ?run ''RECONCILIATION_BLOCKED'' (reconciliation_reason (blocking_reasons ?c ?report))"
  have e: "run_and_enforce (ti_gate_commit_ok i) (ti_now i) paper_reads
      (n\<lparr>rn_position_manager := Some (cy_manager st)\<rparr>) ?c ?run (cy_adapter st) (cy_session st) (cy_machine st)
    = (Some ?report, ss_commit (ss_update (stopped_db (ti_now i) ?q ACTIVE) (cy_session st)), SAFE_MODE)"
    using assms(3-9) by (simp add: run_and_enforce_def Let_def enter_safe_mode_fires)
  then have st': "cy_machine st' = SAFE_MODE" "cy_adapter st' = cy_adapter st"
    "cy_session st' = ss_commit (ss_update (stopped_db (ti_now i) ?q ACTIVE) (cy_session st))"
    using assms(1,2) by (auto simp: gate_phase_def with_session_def)
  have p: "persisted_state ?run (stopped_db (ti_now i) ?q ACTIVE (ss_work (cy_session st))) = Some SAFE_MODE"
    using stopped_db_state [of ?q "ti_now i" "ss_work (cy_session st)" ACTIVE] assms(10) by simp
  then have "blocks_entries ?run (ss_work (cy_session st'))" using st'(3) blocks_entries_safe_mode by simp
  from pipeline_blocked [OF this assms(11)] show ?thesis using st' p by simp
qed

text \<open>The sample: an unfilled order of an unknown origin is on the exchange.\<close>

definition orphan_order :: order_result where
  "orphan_order = (sample_result ''c9'' BUY)\<lparr>or_status := PENDING, or_quantity_filled := 0\<rparr>"

definition orphan_state :: cycle_state where
  "orphan_state = (initial_cycle_state sample_config (session_of (sample_db 32)) ACTIVE)
     \<lparr>cy_exec := (sample_state 32)\<lparr>xs_adapter := sample_paper0\<lparr>pa_orders := [(''c9'', orphan_order)]\<rparr>,
        xs_session := session_of (sample_db 32)\<rparr>\<rparr>"

theorem blocking_finding_stops_entries_witness:
  "\<exists>u rel st'. gate_phase (build_cycle_runner sample_start 10 ''r1'') quiet_tick orphan_state = (u, rel, st')
     \<and> cy_machine st' = SAFE_MODE"
proof -
  let ?r = "build_cycle_runner sample_start 10 ''r1''"
  obtain u rel st' where g: "gate_phase ?r quiet_tick orphan_state = (u, rel, st')" by (metis prod_cases3)
  have "blocking_reasons (cfg_reconciliation (cr_config ?r))
      (reconcile paper_reads ((build_reconciliation_gate sample_config manager_init)
         \<lparr>rn_position_manager := Some (cy_manager orphan_state)\<rparr>) (cr_bot_run_id ?r)
         (ss_work (cy_session orphan_state)) (cy_adapter orphan_state)) \<noteq> []" by code_simp
  moreover have "cr_reconciler ?r = Some (build_reconciliation_gate sample_config manager_init)"
    by (simp add: build_cycle_runner_def sample_start_def)
  moreover have "rc_enabled (cfg_reconciliation (cr_config ?r))" "rc_run_before_new_entries (cfg_reconciliation (cr_config ?r))"
    "cy_machine orphan_state = ACTIVE" "ti_gate_commit_ok quiet_tick"
    "run_is_running (cr_bot_run_id ?r) (ss_work (cy_session orphan_state))"
    "persisted_state (cr_bot_run_id ?r) (ss_work (cy_session orphan_state)) = Some ACTIVE"
    "clock_after (cr_bot_run_id ?r) (ti_now quiet_tick) (ss_work (cy_session orphan_state))"
    by (simp_all add: sample_start_def sample_config_def orphan_state_def quiet_tick_def
        initial_cycle_state_def run_is_running_def get_bot_run_def session_of_def sample_db_def db_empty_def
        persisted_state_def get_latest_bot_state_def resolve_persisted_state_def clock_after_def)
  ultimately show ?thesis
    using blocking_finding_stops_entries [OF g, of "build_reconciliation_gate sample_config manager_init" "[]"] g
    by auto
qed

text \<open>
  C7. The kill switch reaches the worker. An accepted request had a valid reason and found the run in a state from
  which the switch is allowed; it commits exactly one state row and one audit event, and from the next read of the
  state the worker is in KILL_SWITCH_TRIGGERED and its iteration neither trades nor moves a position.
\<close>

theorem kill_switch_stops_worker:
  assumes "post_kill_switch commit_ok now bot_run_id reason s = (Inr answer, s')"
    and "clock_after (ko_bot_run_id answer) now (ss_work s)"
    and "cr_bot_run_id r = ko_bot_run_id answer" "sy_read_ok (li_sync k)"
      "sy_others (li_sync k) (ss_work (cy_session st)) = ss_committed s'"
    and "iteration r k st = (res, st')"
  shows "1 \<le> length reason \<and> length reason \<le> 1024
    \<and> (\<exists>before \<in> {ACTIVE, SAFE_MODE, HALTED}. persisted_state (ko_bot_run_id answer) (ss_work s) = Some before
         \<and> ko_previous_state answer = state_value before)
    \<and> length (db_bot_states (ss_committed s')) = Suc (length (db_bot_states (ss_work s)))
    \<and> length (db_events (ss_committed s')) = Suc (length (db_events (ss_work s)))
    \<and> persisted_state (ko_bot_run_id answer) (ss_committed s') = Some KILL_SWITCH_TRIGGERED
    \<and> res = Inr () \<and> cy_machine st' = KILL_SWITCH_TRIGGERED
    \<and> cy_adapter st' = cy_adapter st \<and> cy_manager st' = cy_manager st"
proof -
  obtain bot_run where b: "get_current_bot_run bot_run_id (ss_work s) = Inr bot_run"
    "1 \<le> length reason" "length reason \<le> 1024" "trigger_kill_switch commit_ok now reason bot_run s = (Inr answer, s')"
    using assms(1) by (auto simp: post_kill_switch_def kill_switch_request_def split: sum.splits if_splits)
  then obtain rr m where t: "trigger commit_ok now (kill_switch_stop (br_id bot_run) reason) s None = (Inr rr, s', m)"
    and a: "ko_bot_run_id answer = br_id bot_run" "ko_previous_state answer = state_value (es_previous_state rr)"
    by (auto simp: trigger_kill_switch_def split: sum.splits prod.splits)
  let ?q = "kill_switch_stop (br_id bot_run) reason"
  have q: "sr_bot_run_id ?q = br_id bot_run" "sr_target ?q = KILL_SWITCH_TRIGGERED" "sr_require_current_in ?q = None"
    by (simp_all add: kill_switch_stop_def)
  obtain before where before: "persisted_state (br_id bot_run) (ss_work s) = Some before"
      "can_transition_to before KILL_SWITCH_TRIGGERED" "es_previous_state rr = before"
      "s' = ss_commit (ss_update (stopped_db now ?q before) s)"
    using t by (rule trigger_Inr) (auto simp: q source_allowed_def)
  have p: "persisted_state (br_id bot_run) (ss_committed s') = Some KILL_SWITCH_TRIGGERED"
    using stopped_db_state [of ?q now "ss_work s" before] assms(2) a q before(4) by simp
  let ?s1 = "sync_state_from_db r (li_sync k) st"
  have "cy_machine ?s1 = KILL_SWITCH_TRIGGERED"
    using p assms(3-5) a(1)
    by (auto simp: sync_state_from_db_def Let_def persisted_state_def resolve_persisted_state_def split: option.splits)
  moreover have "\<not> is_running KILL_SWITCH_TRIGGERED" by (simp add: is_running_def)
  ultimately have "res = Inr ()" "st' = touch_heartbeat ?s1" "cy_machine ?s1 = KILL_SWITCH_TRIGGERED"
    using assms(6) by (simp_all add: iteration_def Let_def)
  moreover have "before \<in> {ACTIVE, SAFE_MODE, HALTED}"
    using before(2) by (cases before) (auto simp: can_transition_to_def)
  ultimately show ?thesis using b before a p by simp
qed

theorem kill_switch_stops_worker_witness:
  "\<exists>answer s' (st' :: cycle_state). post_kill_switch True 300 None ''stop'' (session_of (sample_db 32)) = (Inr answer, s')
     \<and> cy_machine st' = KILL_SWITCH_TRIGGERED"
proof -
  have "case post_kill_switch True 300 None ''stop'' (session_of (sample_db 32)) of
      (Inr answer, s') \<Rightarrow> ko_bot_run_id answer = ''r1'' | _ \<Rightarrow> False" by code_simp
  then obtain answer s' where w: "post_kill_switch True 300 None ''stop'' (session_of (sample_db 32)) = (Inr answer, s')"
    "ko_bot_run_id answer = ''r1''" by (auto split: prod.splits sum.splits)
  let ?r = "build_cycle_runner sample_start 10 ''r1''"
  let ?st = "initial_cycle_state sample_config (session_of (sample_db 32)) ACTIVE"
  let ?k = "(quiet_input True)\<lparr>li_sync := \<lparr>sy_others = (\<lambda>_. ss_committed s'), sy_read_ok = True\<rparr>\<rparr>"
  obtain res st' where i: "iteration ?r ?k ?st = (res, st')" by fastforce
  have "clock_after (ko_bot_run_id answer) 300 (ss_work (session_of (sample_db 32)))"
    by (simp add: clock_after_def session_of_def sample_db_def db_empty_def)
  from kill_switch_stops_worker [OF w(1) this _ _ _ i] w(2) have "cy_machine st' = KILL_SWITCH_TRIGGERED" by simp
  with w(1) show ?thesis by blast
qed

subsection \<open>The gates\<close>




end
