(* ===== verification/Retry.thy ===== *)
theory Retry
  imports PyNumbers
begin

text \<open>
  \<^verbatim>\<open>backend/core/retry.py\<close>: the circuit breaker, the delay of an attempt and the retry loop, which is the same
  for \<^verbatim>\<open>retry_sync\<close> and \<^verbatim>\<open>retry_async\<close>. An attempt is an input: the clock when the breaker is asked and when it is
  told, what the operation did, and the jitter that \<^verbatim>\<open>random.uniform\<close> drew. The loop returns its result with
  the breaker it leaves, the delays it slept and the number of calls of the operation.
\<close>

subsection \<open>The circuit breaker\<close>

record breaker_config =
  bk_failure_threshold :: int
  bk_reset_timeout_seconds :: rat

definition breaker_config_default :: breaker_config where
  "breaker_config_default = \<lparr>bk_failure_threshold = 5, bk_reset_timeout_seconds = 30\<rparr>"

datatype circuit_state = CIRCUIT_CLOSED | CIRCUIT_OPEN | CIRCUIT_HALF_OPEN

record breaker =
  cb_config :: breaker_config
  cb_state :: circuit_state
  cb_consecutive_failures :: int
  cb_opened_at :: "rat option"

definition breaker_init :: "breaker_config option \<Rightarrow> breaker" where
  "breaker_init c =
     \<lparr>cb_config = (case c of None \<Rightarrow> breaker_config_default | Some k \<Rightarrow> k), cb_state = CIRCUIT_CLOSED,
      cb_consecutive_failures = 0, cb_opened_at = None\<rparr>"

text \<open>\<open>Inl\<close> is the \<^verbatim>\<open>CircuitBreakerOpenError\<close>, or the failed assertion where the opening was not noted.\<close>

datatype breaker_error = CircuitBreakerOpenError | AssertionError

definition before_call :: "rat \<Rightarrow> breaker \<Rightarrow> breaker_error + breaker" where
  "before_call now b =
     (if cb_state b \<noteq> CIRCUIT_OPEN then Inr b
      else case cb_opened_at b of
        None \<Rightarrow> Inl AssertionError
      | Some t \<Rightarrow>
          if now - t < bk_reset_timeout_seconds (cb_config b) then Inl CircuitBreakerOpenError
          else Inr (b\<lparr>cb_state := CIRCUIT_HALF_OPEN\<rparr>))"

definition on_success :: "breaker \<Rightarrow> breaker" where
  "on_success b = b\<lparr>cb_state := CIRCUIT_CLOSED, cb_consecutive_failures := 0, cb_opened_at := None\<rparr>"

definition on_failure :: "rat \<Rightarrow> breaker \<Rightarrow> breaker" where
  "on_failure now b =
     (let b = b\<lparr>cb_consecutive_failures := cb_consecutive_failures b + 1\<rparr> in
      if cb_state b = CIRCUIT_HALF_OPEN \<or> bk_failure_threshold (cb_config b) \<le> cb_consecutive_failures b
      then b\<lparr>cb_state := CIRCUIT_OPEN, cb_opened_at := Some now\<rparr> else b)"

subsection \<open>The delay\<close>

record retry_config =
  rt_max_attempts :: int
  rt_base_delay_seconds :: rat
  rt_max_delay_seconds :: rat
  rt_jitter_ratio :: rat

text \<open>\<open>jitter\<close> is the draw of \<^verbatim>\<open>random.uniform(-ratio, ratio)\<close>.\<close>

definition compute_delay :: "nat \<Rightarrow> retry_config \<Rightarrow> rat option \<Rightarrow> rat \<Rightarrow> rat" where
  "compute_delay attempt c retry_after jitter =
     (case retry_after of
        Some r \<Rightarrow> min r (rt_max_delay_seconds c)
      | None \<Rightarrow>
          let base = min (fl (rt_base_delay_seconds c * 2 ^ attempt)) (rt_max_delay_seconds c) in
          if rt_jitter_ratio c \<le> 0 then base else max 0 (fl (base * fl (1 + jitter))))"

subsection \<open>The loop\<close>

record ('e, 'a) attempt =
  at_asked :: rat
  at_outcome :: "'e + 'a"
  at_told :: rat
  at_jitter :: rat

datatype 'e retry_error = Breaker_error breaker_error | Operation_error 'e

record ('e, 'a) retried =
  rd_result :: "'e retry_error + 'a"
  rd_breaker :: "breaker option"
  rd_delays :: "rat list"
  rd_calls :: nat

text \<open>\<open>remaining\<close> counts the attempts that are left, \<open>attempt\<close> those that were made.\<close>

fun retry_from ::
    "retry_config \<Rightarrow> ('e \<Rightarrow> bool) \<Rightarrow> ('e \<Rightarrow> rat option) \<Rightarrow> (nat \<Rightarrow> ('e, 'a) attempt) \<Rightarrow> nat \<Rightarrow> nat \<Rightarrow> breaker option
     \<Rightarrow> ('e, 'a) retried" where
  "retry_from c is_retryable get_retry_after env attempt 0 b =
     \<lparr>rd_result = Inl (Breaker_error AssertionError), rd_breaker = b, rd_delays = [], rd_calls = 0\<rparr>"
| "retry_from c is_retryable get_retry_after env attempt (Suc remaining) b =
     (case (case b of None \<Rightarrow> Inr None | Some k \<Rightarrow> map_sum id Some (before_call (at_asked (env attempt)) k)) of
        Inl e \<Rightarrow> \<lparr>rd_result = Inl (Breaker_error e), rd_breaker = b, rd_delays = [], rd_calls = 0\<rparr>
      | Inr b \<Rightarrow>
     (case at_outcome (env attempt) of
        Inr x \<Rightarrow> \<lparr>rd_result = Inr x, rd_breaker = map_option on_success b, rd_delays = [], rd_calls = 1\<rparr>
      | Inl e \<Rightarrow>
          let b = map_option (on_failure (at_told (env attempt))) b in
          if \<not> is_retryable e \<or> remaining = 0
          then \<lparr>rd_result = Inl (Operation_error e), rd_breaker = b, rd_delays = [], rd_calls = 1\<rparr>
          else let delay = compute_delay attempt c (get_retry_after e) (at_jitter (env attempt));
                   r = retry_from c is_retryable get_retry_after env (Suc attempt) remaining b
               in r\<lparr>rd_delays := delay # rd_delays r, rd_calls := Suc (rd_calls r)\<rparr>))"

definition retry ::
    "retry_config \<Rightarrow> ('e \<Rightarrow> bool) \<Rightarrow> ('e \<Rightarrow> rat option) \<Rightarrow> (nat \<Rightarrow> ('e, 'a) attempt) \<Rightarrow> breaker option
     \<Rightarrow> ('e, 'a) retried" where
  "retry c is_retryable get_retry_after env b =
     retry_from c is_retryable get_retry_after env 0 (nat (rt_max_attempts c)) b"

subsection \<open>Lemmas\<close>

text \<open>What a reachable breaker looks like: the assertion of \<^verbatim>\<open>before_call\<close> holds.\<close>

definition breaker_ok :: "breaker \<Rightarrow> bool" where
  "breaker_ok b \<longleftrightarrow>
     0 \<le> cb_consecutive_failures b
     \<and> (cb_state b = CIRCUIT_CLOSED \<longrightarrow> cb_consecutive_failures b < max 1 (bk_failure_threshold (cb_config b)))
     \<and> (cb_state b \<noteq> CIRCUIT_CLOSED \<longrightarrow> cb_opened_at b \<noteq> None)"

lemma breaker_ok_init [simp]: "breaker_ok (breaker_init c)"
  by (simp add: breaker_ok_def breaker_init_def)

lemma before_call_ok: "breaker_ok b \<Longrightarrow> before_call now b = Inr b' \<Longrightarrow> breaker_ok b'"
  by (auto simp: breaker_ok_def before_call_def split: option.splits if_splits)

lemma before_call_no_assertion: "breaker_ok b \<Longrightarrow> before_call now b \<noteq> Inl AssertionError"
  by (auto simp: breaker_ok_def before_call_def split: option.splits)

lemma on_success_ok [simp]: "breaker_ok (on_success b)"
  by (simp add: breaker_ok_def on_success_def)

lemma on_failure_ok: "breaker_ok b \<Longrightarrow> breaker_ok (on_failure now b)"
  by (cases "cb_state b") (auto simp: breaker_ok_def on_failure_def Let_def)

lemma on_failure_config [simp]:
  "cb_config (on_failure now b) = cb_config b" "cb_config (on_success b) = cb_config b"
  by (simp_all add: on_failure_def on_success_def Let_def)

end
