(* ===== verification/TokenBudget.thy ===== *)
theory TokenBudget
  imports Storage
begin

text \<open>
  \<^verbatim>\<open>backend/token_budget\<close>: the budget of tokens of a run, by sliding windows of an hour and a day. The limits are
  those of \<^verbatim>\<open>TokenBudgetConfig\<close>; instants are microseconds.
\<close>

datatype request_purpose = NEW_ENTRY | POSITION_MANAGEMENT

datatype budget_status = BUDGET_NORMAL | BUDGET_WARNING | BUDGET_EXCEEDED

record budget_check =
  bc_ok :: bool
  bc_status :: budget_status
  bc_tokens_used_hour :: int
  bc_tokens_used_day :: int
  bc_limit_hour :: int
  bc_limit_day :: int

record budget_manager =
  bm_bot_run_id :: string
  bm_config :: token_budget_config
  bm_failure_policy :: failure_policy_config

definition MICROSECONDS_PER_HOUR :: int where
  "MICROSECONDS_PER_HOUR = 3600000000"

definition current_usage :: "budget_manager \<Rightarrow> int \<Rightarrow> db \<Rightarrow> int \<times> int" where
  "current_usage m now d =
     (tokens_in_window (bm_bot_run_id m) (now - MICROSECONDS_PER_HOUR) d,
      tokens_in_window (bm_bot_run_id m) (now - 24 * MICROSECONDS_PER_HOUR) d)"

text \<open>The alert compares the integer usage with a float product.\<close>

definition status_for_usage :: "token_budget_config \<Rightarrow> int \<Rightarrow> int \<Rightarrow> budget_status" where
  "status_for_usage c used_hour used_day =
     (if tb_max_tokens_per_hour c \<le> used_hour \<or> tb_max_tokens_per_24h c \<le> used_day then BUDGET_EXCEEDED
      else let alert = tb_alert_at_percent c;
               near_hour = fmul alert (of_int (tb_max_tokens_per_hour c)) \<le> of_int used_hour;
               near_day = fmul alert (of_int (tb_max_tokens_per_24h c)) \<le> of_int used_day
           in if near_hour \<or> near_day then BUDGET_WARNING else BUDGET_NORMAL)"

definition get_current_status :: "budget_manager \<Rightarrow> int \<Rightarrow> db \<Rightarrow> budget_check" where
  "get_current_status m now d =
     (let (used_hour, used_day) = current_usage m now d;
          status = status_for_usage (bm_config m) used_hour used_day
      in \<lparr>bc_ok = (status \<noteq> BUDGET_EXCEEDED), bc_status = status, bc_tokens_used_hour = used_hour,
          bc_tokens_used_day = used_day, bc_limit_hour = tb_max_tokens_per_hour (bm_config m),
          bc_limit_day = tb_max_tokens_per_24h (bm_config m)\<rparr>)"

text \<open>\<open>None\<close> is the \<^verbatim>\<open>TokenBudgetExceededError\<close>.\<close>

definition check_budget :: "budget_manager \<Rightarrow> request_purpose \<Rightarrow> int \<Rightarrow> db \<Rightarrow> budget_check option" where
  "check_budget m purpose now d =
     (let c = bm_config m in
      if purpose = POSITION_MANAGEMENT
      then Some \<lparr>bc_ok = True, bc_status = BUDGET_NORMAL, bc_tokens_used_hour = 0, bc_tokens_used_day = 0,
             bc_limit_hour = tb_max_tokens_per_hour c, bc_limit_day = tb_max_tokens_per_24h c\<rparr>
      else let (used_hour, used_day) = current_usage m now d;
               status = status_for_usage c used_hour used_day in
        if status = BUDGET_EXCEEDED
        then if fp_token_budget_failure_blocks_new_entries (bm_failure_policy m) then None
             else Some \<lparr>bc_ok = False, bc_status = BUDGET_EXCEEDED, bc_tokens_used_hour = used_hour,
                    bc_tokens_used_day = used_day, bc_limit_hour = tb_max_tokens_per_hour c,
                    bc_limit_day = tb_max_tokens_per_24h c\<rparr>
        else Some \<lparr>bc_ok = True, bc_status = status, bc_tokens_used_hour = used_hour,
               bc_tokens_used_day = used_day, bc_limit_hour = tb_max_tokens_per_hour c,
               bc_limit_day = tb_max_tokens_per_24h c\<rparr>)"

text \<open>Passing the limit of a request is only logged.\<close>

definition record_usage :: "budget_manager \<Rightarrow> int \<Rightarrow> int \<Rightarrow> int \<Rightarrow> string \<Rightarrow> db \<Rightarrow> db" where
  "record_usage m now prompt_tokens completion_tokens model d =
     add_token_usage
       \<lparr>tu_bot_run_id = bm_bot_run_id m, tu_timestamp = now, tu_model = model, tu_prompt_tokens = prompt_tokens,
        tu_completion_tokens = completion_tokens, tu_total_tokens = prompt_tokens + completion_tokens\<rparr> d"

subsection \<open>Lemmas\<close>

lemma tokens_in_window_record:
  "since \<le> now \<Longrightarrow> tokens_in_window (bm_bot_run_id m) since (record_usage m now p c model d)
     = tokens_in_window (bm_bot_run_id m) since d + (p + c)"
  by (simp add: record_usage_def add_token_usage_def tokens_in_window_def)

lemma tokens_in_window_other:
  "run \<noteq> bm_bot_run_id m \<Longrightarrow>
     tokens_in_window run since (record_usage m now p c model d) = tokens_in_window run since d"
  by (simp add: record_usage_def add_token_usage_def tokens_in_window_def)

lemma check_budget_ok_iff:
  "check_budget m NEW_ENTRY now d = Some c \<and> bc_ok c \<longleftrightarrow> c = get_current_status m now d \<and> bc_ok c"
  by (auto simp: check_budget_def get_current_status_def Let_def split: prod.splits if_splits)

lemma exceeded_iff:
  "bc_ok (get_current_status m now d) \<longleftrightarrow>
     fst (current_usage m now d) < tb_max_tokens_per_hour (bm_config m)
     \<and> snd (current_usage m now d) < tb_max_tokens_per_24h (bm_config m)"
  by (auto simp: get_current_status_def status_for_usage_def Let_def not_le split: prod.splits)

lemma record_usage_frames [simp]:
  "db_model_requests (record_usage m now p c model d) = db_model_requests d"
  "db_model_responses (record_usage m now p c model d) = db_model_responses d"
  "db_bot_states (record_usage m now p c model d) = db_bot_states d"
  "db_bot_runs (record_usage m now p c model d) = db_bot_runs d"
  by (simp_all add: record_usage_def add_token_usage_def)

end
