(* ===== verification/GptClient.thy ===== *)
theory GptClient
  imports Retry TokenBudget
begin

text \<open>
  \<^verbatim>\<open>backend/decision_engine/gpt_client.py\<close> with \<^verbatim>\<open>schema_guard.py\<close> and \<^verbatim>\<open>invalid_response_handler.py\<close>, and the two
  writers of \<^verbatim>\<open>storage/audit.py\<close> that it calls: a request to the language model, from the budget to a validated
  decision. Each HTTP call is an input. The libraries (\<^verbatim>\<open>json.loads\<close>, the decoding of fields by pydantic, SHA-256)
  are the parameter \<open>lib\<close>; the validators of the decision are those of the theory of the schema.
\<close>

subsection \<open>JSON values\<close>

datatype json = JNull | JBool bool | JInt int | JFloat rat | JStr string | JArr "json list"
  | JObj "(string, json) dict"

fun type_name :: "json \<Rightarrow> string" where
  "type_name JNull = ''NoneType''"
| "type_name (JBool b) = ''bool''"
| "type_name (JInt n) = ''int''"
| "type_name (JFloat x) = ''float''"
| "type_name (JStr s) = ''str''"
| "type_name (JArr xs) = ''list''"
| "type_name (JObj d) = ''dict''"

subsection \<open>Errors\<close>

text \<open>The exceptions of the client; \<open>Escaping_error\<close> is any other exception, which no handler here catches.\<close>

datatype gpt_error =
    GPTClientError
  | GPTRateLimitError "rat option"
  | GPTTimeoutError
  | GPTAuthError
  | GPTResponseValidationError "string list"
  | TokenBudgetExceededError
  | Escaping_error

fun is_gpt_client_error :: "gpt_error \<Rightarrow> bool" where
  "is_gpt_client_error TokenBudgetExceededError = False"
| "is_gpt_client_error Escaping_error = False"
| "is_gpt_client_error e = True"

fun is_retryable :: "gpt_error \<Rightarrow> bool" where
  "is_retryable GPTAuthError = False"
| "is_retryable (GPTResponseValidationError es) = False"
| "is_retryable e = is_gpt_client_error e"

fun get_retry_after :: "gpt_error \<Rightarrow> rat option" where
  "get_retry_after (GPTRateLimitError r) = r"
| "get_retry_after e = None"

subsection \<open>A single call\<close>

text \<open>\<open>hr_retry_after\<close> is \<open>None\<close> when the header is absent or not a number, \<open>hr_json\<close> when the body is not JSON.\<close>

record http_response =
  hr_status :: int
  hr_retry_after :: "rat option"
  hr_text :: string
  hr_json :: "json option"

datatype http_outcome = Timeout_exception | Request_exception | Response http_response

record raw_call_result =
  rc_content :: json
  rc_raw_json :: string
  rc_prompt_tokens :: "int option"
  rc_completion_tokens :: "int option"
  rc_total_tokens :: "int option"
  rc_finish_reason :: "string option"

text \<open>Indexing: a missing key or position is translated, a value of another type raises \<^verbatim>\<open>TypeError\<close>.\<close>

definition index_key :: "string \<Rightarrow> json \<Rightarrow> gpt_error + json" where
  "index_key k j =
     (case j of
        JObj d \<Rightarrow> (case dict_get d k of None \<Rightarrow> Inl GPTClientError | Some v \<Rightarrow> Inr v)
      | _ \<Rightarrow> Inl Escaping_error)"

fun index_first :: "json \<Rightarrow> gpt_error + json" where
  "index_first (JArr (x # xs)) = Inr x"
| "index_first (JStr (c # cs)) = Inr (JStr [c])"
| "index_first (JArr []) = Inl GPTClientError"
| "index_first (JStr []) = Inl GPTClientError"
| "index_first (JObj d) = Inl GPTClientError"
| "index_first j = Inl Escaping_error"

definition field :: "string \<Rightarrow> json \<Rightarrow> json option" where
  "field k j = (case j of JObj d \<Rightarrow> dict_get d k | _ \<Rightarrow> None)"

text \<open>The counts of the API are integers or null.\<close>

definition int_field :: "string \<Rightarrow> json \<Rightarrow> int option" where
  "int_field k j = (case field k j of Some (JInt n) \<Rightarrow> Some n | _ \<Rightarrow> None)"

definition str_field :: "string \<Rightarrow> json \<Rightarrow> string option" where
  "str_field k j = (case field k j of Some (JStr s) \<Rightarrow> Some s | _ \<Rightarrow> None)"

definition extract_body :: "string \<Rightarrow> json \<Rightarrow> gpt_error + raw_call_result" where
  "extract_body text data =
     bindE (bindE (index_key ''choices'' data) index_first) (\<lambda>choice.
     bindE (bindE (index_key ''message'' choice) (index_key ''content'')) (\<lambda>content.
     let finish_reason = str_field ''finish_reason'' choice in
     if finish_reason = Some ''length'' then Inl GPTClientError
     else case (case field ''usage'' data of None \<Rightarrow> JObj [] | Some u \<Rightarrow> u) of
        JObj usage \<Rightarrow> Inr
          \<lparr>rc_content = content, rc_raw_json = text, rc_prompt_tokens = int_field ''prompt_tokens'' (JObj usage),
           rc_completion_tokens = int_field ''completion_tokens'' (JObj usage),
           rc_total_tokens = int_field ''total_tokens'' (JObj usage), rc_finish_reason = finish_reason\<rparr>
      | _ \<Rightarrow> Inl Escaping_error))"

definition extract_content :: "http_response \<Rightarrow> gpt_error + raw_call_result" where
  "extract_content r =
     (let status = hr_status r in
      if status = 429 then Inl (GPTRateLimitError (hr_retry_after r))
      else if status = 401 \<or> status = 403 then Inl GPTAuthError
      else if 500 \<le> status then Inl GPTClientError
      else if status \<noteq> 200 then Inl GPTClientError
      else case hr_json r of None \<Rightarrow> Inl Escaping_error | Some data \<Rightarrow> extract_body (hr_text r) data)"

definition call_once :: "http_outcome \<Rightarrow> gpt_error + raw_call_result" where
  "call_once out =
     (case out of
        Timeout_exception \<Rightarrow> Inl GPTTimeoutError
      | Request_exception \<Rightarrow> Inl GPTClientError
      | Response r \<Rightarrow> extract_content r)"

subsection \<open>The client\<close>

record gpt_config =
  gc_model :: string
  gc_max_retries :: int
  gc_base_delay_seconds :: rat
  gc_max_delay_seconds :: rat
  gc_jitter_ratio :: rat
  gc_circuit_breaker_failure_threshold :: int
  gc_circuit_breaker_reset_seconds :: rat

definition gpt_config_default :: gpt_config where
  "gpt_config_default = \<lparr>gc_model = ''gpt-4o'', gc_max_retries = 3, gc_base_delay_seconds = 1,
     gc_max_delay_seconds = 60, gc_jitter_ratio = fl (2/10), gc_circuit_breaker_failure_threshold = 5,
     gc_circuit_breaker_reset_seconds = 30\<rparr>"

record gpt_client =
  gp_config :: gpt_config
  gp_failure_policy :: failure_policy_config
  gp_budget_manager :: "budget_manager option"
  gp_circuit_breaker :: breaker

text \<open>\<open>api_key\<close> is the argument, or the variable of the environment; an empty one is refused.\<close>

definition gpt_client_init ::
    "gpt_config option \<Rightarrow> failure_policy_config \<Rightarrow> string \<Rightarrow> budget_manager option \<Rightarrow> gpt_error + gpt_client" where
  "gpt_client_init c p api_key budget =
     (let cfg = (case c of None \<Rightarrow> gpt_config_default | Some k \<Rightarrow> k) in
      if api_key = [] then Inl GPTAuthError
      else Inr \<lparr>gp_config = cfg, gp_failure_policy = p, gp_budget_manager = budget,
        gp_circuit_breaker = breaker_init (Some \<lparr>bk_failure_threshold = gc_circuit_breaker_failure_threshold cfg,
          bk_reset_timeout_seconds = gc_circuit_breaker_reset_seconds cfg\<rparr>)\<rparr>)"

record http_call =
  hc_asked :: rat
  hc_outcome :: http_outcome
  hc_told :: rat
  hc_jitter :: rat

definition attempt_of :: "http_call \<Rightarrow> (gpt_error, raw_call_result) attempt" where
  "attempt_of c = \<lparr>at_asked = hc_asked c, at_outcome = call_once (hc_outcome c), at_told = hc_told c,
     at_jitter = hc_jitter c\<rparr>"

definition retry_config_of :: "gpt_config \<Rightarrow> retry_config" where
  "retry_config_of c = \<lparr>rt_max_attempts = gc_max_retries c + 1, rt_base_delay_seconds = gc_base_delay_seconds c,
     rt_max_delay_seconds = gc_max_delay_seconds c, rt_jitter_ratio = gc_jitter_ratio c\<rparr>"

definition call_with_retry ::
    "gpt_config \<Rightarrow> (nat \<Rightarrow> http_call) \<Rightarrow> breaker \<Rightarrow> (gpt_error + raw_call_result) \<times> breaker" where
  "call_with_retry c calls b =
     (let r = retry (retry_config_of c) is_retryable get_retry_after (\<lambda>k. attempt_of (calls k)) (Some b)
      in (case rd_result r of
            Inr x \<Rightarrow> Inr x
          | Inl (Operation_error e) \<Rightarrow> Inl e
          | Inl (Breaker_error CircuitBreakerOpenError) \<Rightarrow> Inl GPTClientError
          | Inl (Breaker_error AssertionError) \<Rightarrow> Inl Escaping_error,
          the (rd_breaker r)))"

definition apply_failure_policy ::
    "failure_policy_config \<Rightarrow> gpt_error \<Rightarrow> request_purpose \<Rightarrow> gpt_error + model_decision option" where
  "apply_failure_policy p e purpose =
     (if purpose = POSITION_MANAGEMENT then
        (if fp_exits_do_not_require_gpt_response p \<and> fp_deterministic_position_management_without_gpt p
         then Inr None else Inl e)
      else if fp_gpt_failure_blocks_new_entries p then Inl e
      else Inr None)"

subsection \<open>The schema guard\<close>

text \<open>
  \<open>gl_loads\<close> answers the message of a \<^verbatim>\<open>JSONDecodeError\<close> or the value, \<open>gl_decode\<close> the errors of the fields or
  the decision before its validators, \<open>gl_message\<close> the text of a failed validator.
\<close>

record gpt_lib =
  gl_loads :: "string \<Rightarrow> string + json"
  gl_decode :: "(string, json) dict \<Rightarrow> string list + model_decision"
  gl_message :: "model_decision \<Rightarrow> string list"
  gl_request_hash :: "string \<Rightarrow> string \<Rightarrow> string \<Rightarrow> string"

record guard_result =
  sg_decision :: "model_decision option"
  sg_errors :: "string list"

definition sg_ok :: "guard_result \<Rightarrow> bool" where
  "sg_ok g \<longleftrightarrow> sg_decision g \<noteq> None"

definition blocked :: "string list \<Rightarrow> guard_result" where
  "blocked errors = \<lparr>sg_decision = None, sg_errors = errors\<rparr>"

definition validate_gpt_response :: "gpt_lib \<Rightarrow> (string, json) dict \<Rightarrow> guard_result" where
  "validate_gpt_response lib raw =
     (case gl_decode lib raw of
        Inl errors \<Rightarrow> blocked errors
      | Inr d \<Rightarrow>
          (case model_decision_validate d of
             Inl _ \<Rightarrow> blocked (gl_message lib d)
           | Inr d \<Rightarrow> \<lparr>sg_decision = Some d, sg_errors = []\<rparr>))"

text \<open>A content that is not a string makes \<^verbatim>\<open>json.loads\<close> raise \<^verbatim>\<open>TypeError\<close>.\<close>

definition validate_gpt_json_string :: "gpt_lib \<Rightarrow> json \<Rightarrow> gpt_error + guard_result" where
  "validate_gpt_json_string lib content =
     (case content of
        JStr raw_json \<Rightarrow>
          (case gl_loads lib raw_json of
             Inl message \<Rightarrow> Inr (blocked [''json_parse_error: '' @ message])
           | Inr (JObj raw) \<Rightarrow> Inr (validate_gpt_response lib raw)
           | Inr parsed \<Rightarrow> Inr (blocked [''Expected a JSON object, got '' @ type_name parsed]))
      | _ \<Rightarrow> Inl Escaping_error)"

subsection \<open>Invalid responses\<close>

datatype invalid_response_type = NO_JSON | SCHEMA_FAIL | RANGE_FAIL | BUSINESS_RULE_FAIL

text \<open>\<^verbatim>\<open>str.lower\<close> on Latin-1, and \<^verbatim>\<open>in\<close> on strings.\<close>

definition lower_char :: "char \<Rightarrow> char" where
  "lower_char c =
     (let n = of_char c :: nat in
      if 65 \<le> n \<and> n \<le> 90 \<or> 192 \<le> n \<and> n \<le> 222 \<and> n \<noteq> 215 then char_of (n + 32) else c)"

definition contains :: "string \<Rightarrow> string \<Rightarrow> bool" where
  "contains sub s \<longleftrightarrow> list_ex (\<lambda>k. take (length sub) (drop k s) = sub) [0..<Suc (length s)]"

definition RANGE_KEYWORDS :: "string list" where
  "RANGE_KEYWORDS = [''greater than'', ''less than'']"

definition classify_errors :: "string list \<Rightarrow> invalid_response_type" where
  "classify_errors errors =
     (let lowered = map (map lower_char) errors in
      if errors = [] then SCHEMA_FAIL
      else if list_ex (\<lambda>e. contains ''json_parse_error'' e \<or> contains ''expected a json object'' e) lowered
      then NO_JSON
      else if list_ex (contains ''value error'') lowered then BUSINESS_RULE_FAIL
      else if list_all (\<lambda>e. list_ex (\<lambda>kw. contains kw e) RANGE_KEYWORDS) lowered then RANGE_FAIL
      else SCHEMA_FAIL)"

record invalid_response_record =
  ir_response_type :: invalid_response_type
  ir_errors :: "string list"
  ir_raw_content_preview :: string
  ir_request_id :: "string option"

definition MAX_PREVIEW_CHARS :: nat where
  "MAX_PREVIEW_CHARS = 500"

definition handle_invalid_response :: "string \<Rightarrow> string list \<Rightarrow> string option \<Rightarrow> invalid_response_record" where
  "handle_invalid_response raw_content errors request_id =
     \<lparr>ir_response_type = classify_errors errors, ir_errors = errors,
      ir_raw_content_preview = take MAX_PREVIEW_CHARS raw_content, ir_request_id = request_id\<rparr>"

subsection \<open>The request\<close>

record gpt_request =
  gr_system_prompt :: string
  gr_user_prompt :: string
  gr_prompt_version :: string

record gpt_input =
  gq_now :: int
  gq_calls :: "nat \<Rightarrow> http_call"
  gq_request_id :: string
  gq_request_audit_ok :: bool
  gq_usage_ok :: bool
  gq_response_audit_ok :: bool

text \<open>\<^verbatim>\<open>_persist_audit_request\<close> with \<^verbatim>\<open>audit_model_request\<close>\<close>

definition new_request_row ::
    "gpt_lib \<Rightarrow> gpt_config \<Rightarrow> gpt_request \<Rightarrow> string \<Rightarrow> string \<times> symbol \<Rightarrow> model_request_row" where
  "new_request_row lib c q request_id target =
     \<lparr>mq_id = request_id, mq_bot_run_id = fst target, mq_symbol = snd target, mq_model = gc_model c,
      mq_system_prompt = gr_system_prompt q, mq_user_prompt = gr_user_prompt q,
      mq_prompt_version = gr_prompt_version q,
      mq_request_hash = gl_request_hash lib (gc_model c) (gr_system_prompt q) (gr_user_prompt q)\<rparr>"

definition new_response_row ::
    "gpt_config \<Rightarrow> string \<Rightarrow> raw_call_result \<Rightarrow> guard_result \<Rightarrow> model_response_row" where
  "new_response_row c request_id raw g =
     \<lparr>mp_model_request_id = request_id, mp_raw_response = rc_raw_json raw, mp_normalized_response = sg_decision g,
      mp_prompt_tokens = rc_prompt_tokens raw, mp_completion_tokens = rc_completion_tokens raw,
      mp_total_tokens = rc_total_tokens raw, mp_model = gc_model c, mp_finish_reason = rc_finish_reason raw,
      mp_is_valid_schema = sg_ok g\<rparr>"

text \<open>The tokens are paid for once the call has answered, whatever the guard says of the answer.\<close>

definition record_tokens :: "gpt_client \<Rightarrow> gpt_input \<Rightarrow> raw_call_result \<Rightarrow> db \<Rightarrow> db" where
  "record_tokens c i raw d =
     (case (gp_budget_manager c, rc_prompt_tokens raw, rc_completion_tokens raw) of
        (Some m, Some p, Some k) \<Rightarrow>
          if gq_usage_ok i then record_usage m (gq_now i) p k (gc_model (gp_config c)) d else d
      | _ \<Rightarrow> d)"

text \<open>The budget before the call: the error, or whether the model may be asked.\<close>

definition budget_gate :: "gpt_client \<Rightarrow> int \<Rightarrow> request_purpose \<Rightarrow> db \<Rightarrow> gpt_error + bool" where
  "budget_gate c now purpose d =
     (case gp_budget_manager c of
        None \<Rightarrow> Inr True
      | Some m \<Rightarrow>
          if purpose \<noteq> NEW_ENTRY then Inr True
          else case check_budget m purpose now d of
            None \<Rightarrow> Inl TokenBudgetExceededError
          | Some r \<Rightarrow> Inr (bc_ok r))"

text \<open>
  \<open>target\<close> is the run and the symbol of the audit, when a session is given. A writer that fails is logged and
  leaves the tables as they were; without a request row no response row is written.
\<close>

definition request ::
    "gpt_lib \<Rightarrow> gpt_input \<Rightarrow> gpt_client \<Rightarrow> gpt_request \<Rightarrow> request_purpose \<Rightarrow> (string \<times> symbol) option \<Rightarrow> db
     \<Rightarrow> (gpt_error + model_decision option) \<times> gpt_client \<times> db" where
  "request lib i c q purpose target d =
     (case budget_gate c (gq_now i) purpose d of
        Inl e \<Rightarrow> (Inl e, c, d)
      | Inr False \<Rightarrow> (Inr None, c, d)
      | Inr True \<Rightarrow>
          let audited = (target \<noteq> None \<and> gq_request_audit_ok i);
              d = (if audited
                   then add_model_request (new_request_row lib (gp_config c) q (gq_request_id i) (the target)) d
                   else d);
              (res, b) = call_with_retry (gp_config c) (gq_calls i) (gp_circuit_breaker c);
              c = c\<lparr>gp_circuit_breaker := b\<rparr> in
          (case res of
             Inl e \<Rightarrow>
               (if is_gpt_client_error e then apply_failure_policy (gp_failure_policy c) e purpose else Inl e, c, d)
           | Inr raw \<Rightarrow>
               let d = record_tokens c i raw d in
               (case validate_gpt_json_string lib (rc_content raw) of
                  Inl e \<Rightarrow> (Inl e, c, d)
                | Inr g \<Rightarrow>
                    let d = (if audited \<and> gq_response_audit_ok i
                             then add_model_response (new_response_row (gp_config c) (gq_request_id i) raw g) d
                             else d) in
                    (case sg_decision g of
                       None \<Rightarrow> (Inl (GPTResponseValidationError (sg_errors g)), c, d)
                     | Some decision \<Rightarrow> (Inr (Some decision), c, d)))))"

end
