(* ===== verification/GptFacts.thy ===== *)
theory GptFacts
  imports GptClient
begin

text \<open>
  What the retry loop, the circuit breaker and a request to the model do on every path, for the properties.
\<close>

subsection \<open>The retry loop\<close>

text \<open>
  The attempts before the \<open>k\<close>-th failed in a retryable way; the \<open>k\<close>-th decided, or the breaker refused it.
\<close>

definition decided_at ::
    "('e \<Rightarrow> bool) \<Rightarrow> (nat \<Rightarrow> ('e, 'a) attempt) \<Rightarrow> nat \<Rightarrow> nat \<Rightarrow> nat \<Rightarrow> ('e, 'a) retried \<Rightarrow> bool" where
  "decided_at ret env n m k r \<longleftrightarrow>
     k < m \<and> length (rd_delays r) = k
     \<and> (\<forall>j < k. \<exists>e. at_outcome (env (n + j)) = Inl e \<and> ret e)
     \<and> (rd_calls r = Suc k \<and> (case at_outcome (env (n + k)) of
            Inr x \<Rightarrow> rd_result r = Inr x
          | Inl e \<Rightarrow> rd_result r = Inl (Operation_error e) \<and> (\<not> ret e \<or> Suc k = m))
        \<or> rd_calls r = k \<and> rd_result r = Inl (Breaker_error CircuitBreakerOpenError))"

lemma decided_at_Suc:
  assumes "decided_at ret env (Suc n) m k r" "at_outcome (env n) = Inl e" "ret e"
  shows "decided_at ret env n (Suc m) (Suc k) (r\<lparr>rd_delays := dl # rd_delays r, rd_calls := Suc (rd_calls r)\<rparr>)"
proof -
  have "\<exists>e. at_outcome (env (n + j)) = Inl e \<and> ret e" if "j < Suc k" for j
    using assms that by (cases j) (auto simp: decided_at_def)
  with assms(1) show ?thesis by (auto simp: decided_at_def split: sum.splits)
qed

lemma retry_from_decided:
  assumes "0 < m" "\<forall>k. b = Some k \<longrightarrow> breaker_ok k"
  shows "\<exists>k. decided_at ret env n m k (retry_from c ret ra env n m b)"
    and "\<forall>k. rd_breaker (retry_from c ret ra env n m b) = Some k \<longrightarrow> breaker_ok k"
  using assms
proof (induction c ret ra env n m b rule: retry_from.induct)
  case (2 c ret ra env n m b)
  let ?asked = "case b of None \<Rightarrow> Inr None | Some k \<Rightarrow> map_sum id Some (before_call (at_asked (env n)) k)"
  {
    case 1
    show ?case
    proof (cases ?asked)
      case (Inl e)
      then have "e = CircuitBreakerOpenError"
        using 1 before_call_no_assertion by (cases e) (auto split: option.splits simp: map_sum_def split: sum.splits)
      with Inl show ?thesis by (intro exI [of _ 0]) (simp add: decided_at_def)
    next
      case (Inr b1)
      have ok: "\<forall>k. b1 = Some k \<longrightarrow> breaker_ok k"
        using Inr 1 before_call_ok by (auto split: option.splits simp: map_sum_def split: sum.splits)
      show ?thesis
      proof (cases "at_outcome (env n)")
        case (Inr x)
        with \<open>?asked = Inr b1\<close> show ?thesis by (intro exI [of _ 0]) (simp add: decided_at_def)
      next
        case (Inl e)
        show ?thesis
        proof (cases "\<not> ret e \<or> m = 0")
          case True
          with Inl \<open>?asked = Inr b1\<close> show ?thesis
            by (intro exI [of _ 0]) (auto simp: decided_at_def Let_def)
        next
          case False
          then obtain k where "decided_at ret env (Suc n) m k
              (retry_from c ret ra env (Suc n) m (map_option (on_failure (at_told (env n))) b1))"
            using "2.IH"(1) [OF Inr Inl refl _ refl] ok on_failure_ok by fastforce
          from decided_at_Suc [OF this Inl] False Inl \<open>?asked = Inr b1\<close> show ?thesis by (auto simp: Let_def)
        qed
      qed
    qed
  next
    case 2
    show ?case
    proof (cases ?asked)
      case (Inl e)
      then show ?thesis using 2 by simp
    next
      case (Inr b1)
      have ok: "\<forall>k. b1 = Some k \<longrightarrow> breaker_ok k"
        using Inr 2 before_call_ok by (auto split: option.splits simp: map_sum_def split: sum.splits)
      show ?thesis
      proof (cases "at_outcome (env n)")
        case (Inr x)
        with \<open>?asked = Inr b1\<close> show ?thesis by auto
      next
        case (Inl e)
        then show ?thesis
          using "2.IH"(2) [OF Inr Inl refl _ refl] ok on_failure_ok \<open>?asked = Inr b1\<close> by (auto simp: Let_def)
      qed
    qed
  }
qed simp_all

subsection \<open>The delays\<close>

lemma compute_delay_bounds:
  assumes "0 \<le> rt_base_delay_seconds c" "0 \<le> rt_max_delay_seconds c" "fl (rt_max_delay_seconds c) = rt_max_delay_seconds c"
    and "0 \<le> rt_jitter_ratio c" "\<bar>j\<bar> \<le> rt_jitter_ratio c" "case ra of None \<Rightarrow> True | Some r \<Rightarrow> 0 \<le> r"
  shows "0 \<le> compute_delay n c ra j"
    and "compute_delay n c ra j \<le> fl (rt_max_delay_seconds c * fl (1 + rt_jitter_ratio c))"
proof -
  let ?m = "rt_max_delay_seconds c" and ?r = "rt_jitter_ratio c"
  let ?base = "min (fl (rt_base_delay_seconds c * 2 ^ n)) ?m"
  have f1: "1 \<le> fl (1 + ?r)" using flt.rd_mono [of 1 "1 + ?r"] assms(4) by simp
  have m: "?m \<le> fl (?m * fl (1 + ?r))"
  proof -
    have "?m * 1 \<le> ?m * fl (1 + ?r)" using assms(2) f1 by (intro mult_left_mono)
    then show ?thesis using flt.rd_mono [of "?m" "?m * fl (1 + ?r)"] assms(3) by simp
  qed
  have base: "0 \<le> ?base" "?base \<le> ?m" using assms(1,2) by (simp_all add: flt.rd_nonneg)
  have j: "fl (1 + j) \<le> fl (1 + ?r)" using assms(5) by (intro flt.rd_mono) linarith
  have "?base * fl (1 + j) \<le> ?m * fl (1 + ?r)"
  proof (cases "0 \<le> fl (1 + j)")
    case True
    then show ?thesis using base j assms(2) by (intro mult_mono) auto
  next
    case False
    then have "?base * fl (1 + j) \<le> 0" using base(1) by (intro mult_nonneg_nonpos) auto
    moreover have "0 \<le> ?m * fl (1 + ?r)" using assms(2) f1 by (intro mult_nonneg_nonneg) auto
    ultimately show ?thesis by linarith
  qed
  then have p: "fl (?base * fl (1 + j)) \<le> fl (?m * fl (1 + ?r))" by (rule flt.rd_mono)
  have z: "0 \<le> fl (?m * fl (1 + ?r))" using m assms(2) by linarith
  show "0 \<le> compute_delay n c ra j"
    using base(1) assms(2,6) unfolding compute_delay_def Let_def by (simp split: option.split_asm)
  show "compute_delay n c ra j \<le> fl (?m * fl (1 + ?r))"
    using p m z base(2) by (simp add: compute_delay_def Let_def min_le_iff_disj split: option.split)
qed

lemma retry_from_delays:
  assumes "\<And>k e j. k < m \<Longrightarrow> at_outcome (env (n + k)) = Inl e \<Longrightarrow>
      P (compute_delay (n + k) c (ra e) (at_jitter (env (n + k))))"
  shows "\<forall>x \<in> set (rd_delays (retry_from c ret ra env n m b)). P x"
  using assms
proof (induction c ret ra env n m b rule: retry_from.induct)
  case (2 c ret ra env n m b)
  have rest: "\<And>k e. k < m \<Longrightarrow> at_outcome (env (Suc n + k)) = Inl e \<Longrightarrow>
      P (compute_delay (Suc n + k) c (ra e) (at_jitter (env (Suc n + k))))"
    using "2.prems" [of "Suc _"] by simp
  have first: "at_outcome (env n) = Inl e \<Longrightarrow> P (compute_delay n c (ra e) (at_jitter (env n)))" for e
    using "2.prems" [of 0] by simp
  show ?case
    using first "2.IH" [OF _ _ refl _ refl rest] by (auto simp: Let_def split: sum.split)
qed simp

subsection \<open>The circuit breaker over a history\<close>

text \<open>Each call of a history was admitted when asked and reported its outcome; \<open>None\<close> when one was refused.\<close>

fun breaker_run :: "breaker \<Rightarrow> (rat \<times> bool \<times> rat) list \<Rightarrow> breaker option" where
  "breaker_run b [] = Some b"
| "breaker_run b ((asked, ok, told) # calls) =
     (case before_call asked b of
        Inl _ \<Rightarrow> None
      | Inr b \<Rightarrow> breaker_run (if ok then on_success b else on_failure told b) calls)"

text \<open>The abstraction: the failures since the last success, and when the last call failed.\<close>

definition trailing_failures :: "(rat \<times> bool \<times> rat) list \<Rightarrow> (rat \<times> bool \<times> rat) list" where
  "trailing_failures calls = takeWhile (\<lambda>(asked, ok, told). \<not> ok) (rev calls)"

definition breaker_abs :: "breaker \<Rightarrow> int \<Rightarrow> rat \<Rightarrow> bool" where
  "breaker_abs b n since \<longleftrightarrow>
     cb_consecutive_failures b = n \<and> 0 \<le> n
     \<and> (cb_state b = CIRCUIT_OPEN \<longleftrightarrow> max 1 (bk_failure_threshold (cb_config b)) \<le> n)
     \<and> (cb_state b \<noteq> CIRCUIT_OPEN \<longrightarrow> cb_state b = CIRCUIT_CLOSED)
     \<and> (cb_state b = CIRCUIT_OPEN \<longrightarrow> cb_opened_at b = Some since)"

lemma breaker_run_snoc:
  "breaker_run b (calls @ [(asked, ok, told)]) =
     (case breaker_run b calls of
        None \<Rightarrow> None
      | Some b \<Rightarrow> (case before_call asked b of
          Inl _ \<Rightarrow> None | Inr b \<Rightarrow> Some (if ok then on_success b else on_failure told b)))"
  by (induction b calls rule: breaker_run.induct) (simp_all split: sum.split)

lemma breaker_run_abs:
  assumes "breaker_run (breaker_init (Some c)) calls = Some b"
  shows "cb_config b = c \<and> breaker_abs b (int (length (trailing_failures calls)))
    (case trailing_failures calls of [] \<Rightarrow> 0 | (asked, ok, told) # _ \<Rightarrow> told)"
  using assms
proof (induction calls arbitrary: b rule: rev_induct)
  case Nil
  then show ?case by (auto simp: breaker_init_def breaker_abs_def trailing_failures_def)
next
  case (snoc x calls)
  obtain asked ok told where x: "x = (asked, ok, told)" by (cases x)
  from snoc.prems obtain b1 b2 where b: "breaker_run (breaker_init (Some c)) calls = Some b1"
    "before_call asked b1 = Inr b2" "b = (if ok then on_success b2 else on_failure told b2)"
    by (auto simp: x breaker_run_snoc split: option.splits sum.splits)
  note ih = snoc.IH [OF b(1)]
  show ?case
    using ih b(2,3)
    by (cases ok) (auto simp: x trailing_failures_def breaker_abs_def before_call_def on_success_def on_failure_def
        Let_def split: option.splits if_splits)
qed

subsection \<open>A request\<close>

lemma call_with_retry_Inr:
  assumes "call_with_retry c calls b = (Inr raw, b')" "breaker_ok b" "0 \<le> gc_max_retries c"
  obtains k where "int k \<le> gc_max_retries c" "call_once (hc_outcome (calls k)) = Inr raw"
    "\<And>j. j < k \<Longrightarrow> \<exists>e. call_once (hc_outcome (calls j)) = Inl e \<and> is_retryable e"
proof -
  let ?r = "retry_from (retry_config_of c) is_retryable get_retry_after (\<lambda>k. attempt_of (calls k)) 0
      (nat (rt_max_attempts (retry_config_of c))) (Some b)"
  have "0 < nat (rt_max_attempts (retry_config_of c))" using assms(3) by (simp add: retry_config_of_def)
  then obtain k where
    k: "decided_at is_retryable (\<lambda>k. attempt_of (calls k)) 0 (nat (rt_max_attempts (retry_config_of c))) k ?r"
    using retry_from_decided(1) [of "nat (rt_max_attempts (retry_config_of c))" "Some b" is_retryable
        "\<lambda>k. attempt_of (calls k)" 0 "retry_config_of c" get_retry_after] assms(2) by auto
  moreover have "rd_result ?r = Inr raw"
    using assms(1) by (auto simp: call_with_retry_def retry_def Let_def split: sum.splits retry_error.splits
        breaker_error.splits)
  ultimately show thesis
    by (intro that [of k]) (auto simp: decided_at_def attempt_of_def retry_config_of_def split: sum.splits)
qed

lemma extract_body_finish:
  assumes "extract_body text data = Inr raw"
  shows "rc_finish_reason raw \<noteq> Some ''length''"
proof -
  obtain choice content where c: "(let finish_reason = str_field ''finish_reason'' choice in
     if finish_reason = Some ''length'' then Inl GPTClientError
     else case (case field ''usage'' data of None \<Rightarrow> JObj [] | Some u \<Rightarrow> u) of
        JObj usage \<Rightarrow> Inr
          \<lparr>rc_content = content, rc_raw_json = text, rc_prompt_tokens = int_field ''prompt_tokens'' (JObj usage),
           rc_completion_tokens = int_field ''completion_tokens'' (JObj usage),
           rc_total_tokens = int_field ''total_tokens'' (JObj usage), rc_finish_reason = finish_reason\<rparr>
      | _ \<Rightarrow> Inl Escaping_error) = Inr raw"
    using assms unfolding extract_body_def bindE_Inr_iff by blast
  define f where "f = str_field ''finish_reason'' choice"
  define u where "u = (case field ''usage'' data of None \<Rightarrow> JObj [] | Some u \<Rightarrow> u)"
  from c have "f \<noteq> Some ''length'' \<and> rc_finish_reason raw = f"
    unfolding Let_def f_def [symmetric] u_def [symmetric]
    by (cases u) (simp_all split: if_split_asm, auto)
  then show ?thesis by metis
qed

lemma call_once_Inr:
  assumes "call_once out = Inr raw"
  shows "\<exists>r data. out = Response r \<and> hr_status r = 200 \<and> hr_json r = Some data
     \<and> extract_body (hr_text r) data = Inr raw \<and> rc_finish_reason raw \<noteq> Some ''length''"
proof (cases out)
  case (Response r)
  then obtain data where "hr_status r = 200" "hr_json r = Some data" "extract_body (hr_text r) data = Inr raw"
    using assms by (auto simp: call_once_def extract_content_def Let_def split: if_split_asm option.split_asm)
  with Response extract_body_finish show ?thesis by blast
qed (use assms in \<open>simp_all add: call_once_def\<close>)

lemma retry_from_error:
  "rd_result (retry_from c ret ra env n m b) = Inl (Operation_error e) \<Longrightarrow> \<exists>k. at_outcome (env k) = Inl e"
  by (induction c ret ra env n m b rule: retry_from.induct)
    (auto simp: Let_def split: sum.splits if_splits)

lemma index_errors:
  "index_key k j = Inl e \<Longrightarrow> e = GPTClientError \<or> e = Escaping_error"
  "index_first j = Inl e \<Longrightarrow> e = GPTClientError \<or> e = Escaping_error"
  by (auto simp: index_key_def split: json.splits option.splits)
    (induction j rule: index_first.induct; simp)

lemma extract_body_error: "extract_body text data = Inl e \<Longrightarrow> e = GPTClientError \<or> e = Escaping_error"
  unfolding extract_body_def bindE_Inl_iff Let_def
  by (elim disjE exE conjE) (auto dest: index_errors split: if_split_asm json.split_asm)

lemma call_once_error: "call_once out \<noteq> Inl TokenBudgetExceededError"
  using extract_body_error [where e = TokenBudgetExceededError]
  by (auto simp: call_once_def extract_content_def Let_def split: http_outcome.split option.split)

lemma call_with_retry_error: "fst (call_with_retry c calls b) \<noteq> Inl TokenBudgetExceededError"
proof
  assume "fst (call_with_retry c calls b) = Inl TokenBudgetExceededError"
  then have "rd_result (retry (retry_config_of c) is_retryable get_retry_after (\<lambda>k. attempt_of (calls k)) (Some b))
      = Inl (Operation_error TokenBudgetExceededError)"
    by (auto simp: call_with_retry_def Let_def split: sum.splits retry_error.splits breaker_error.splits)
  from retry_from_error [OF this [unfolded retry_def]] show False
    using call_once_error by (auto simp: attempt_of_def)
qed

lemma guard_accepts:
  assumes "validate_gpt_json_string lib content = Inr g" "sg_decision g = Some d"
  shows "\<exists>s raw d0. content = JStr s \<and> gl_loads lib s = Inr (JObj raw) \<and> gl_decode lib raw = Inr d0
    \<and> model_decision_validate d0 = Inr d"
  using assms
  by (auto simp: validate_gpt_json_string_def validate_gpt_response_def blocked_def
      split: json.splits sum.splits)

lemma request_cases:
  assumes "request lib i c q purpose target d = (res, c', d')"
  obtains (over) e where "budget_gate c (gq_now i) purpose d = Inl e" "res = Inl e" "c' = c" "d' = d"
  | (soft) "budget_gate c (gq_now i) purpose d = Inr False" "res = Inr None" "c' = c" "d' = d"
  | (unanswered) e b where "budget_gate c (gq_now i) purpose d = Inr True"
      "call_with_retry (gp_config c) (gq_calls i) (gp_circuit_breaker c) = (Inl e, b)"
      "res = (if is_gpt_client_error e then apply_failure_policy (gp_failure_policy c) e purpose else Inl e)"
      "c' = c\<lparr>gp_circuit_breaker := b\<rparr>" "db_token_usage d' = db_token_usage d"
      "db_model_responses d' = db_model_responses d"
  | (unreadable) e raw b where "budget_gate c (gq_now i) purpose d = Inr True"
      "call_with_retry (gp_config c) (gq_calls i) (gp_circuit_breaker c) = (Inr raw, b)"
      "validate_gpt_json_string lib (rc_content raw) = Inl e" "res = Inl e" "c' = c\<lparr>gp_circuit_breaker := b\<rparr>"
      "db_token_usage d' = db_token_usage (record_tokens c i raw d)"
  | (guarded) raw b g where "budget_gate c (gq_now i) purpose d = Inr True"
      "call_with_retry (gp_config c) (gq_calls i) (gp_circuit_breaker c) = (Inr raw, b)"
      "validate_gpt_json_string lib (rc_content raw) = Inr g"
      "res = (case sg_decision g of None \<Rightarrow> Inl (GPTResponseValidationError (sg_errors g)) | Some x \<Rightarrow> Inr (Some x))"
      "c' = c\<lparr>gp_circuit_breaker := b\<rparr>" "db_token_usage d' = db_token_usage (record_tokens c i raw d)"
proof -
  have t: "db_token_usage (record_tokens (c\<lparr>gp_circuit_breaker := b\<rparr>) i raw (add_model_request x d))
      = db_token_usage (record_tokens c i raw d)"
    "db_token_usage (record_tokens (c\<lparr>gp_circuit_breaker := b\<rparr>) i raw d) = db_token_usage (record_tokens c i raw d)"
    for b raw x
    by (simp_all add: record_tokens_def record_usage_def add_token_usage_def add_model_request_def split: option.split)
  obtain res1 b where r: "call_with_retry (gp_config c) (gq_calls i) (gp_circuit_breaker c) = (res1, b)" by fastforce
  show thesis
  proof (cases "budget_gate c (gq_now i) purpose d")
    case (Inl e)
    with assms show thesis by (intro over [of e]) (simp_all add: request_def)
  next
    case (Inr ok)
    show thesis
    proof (cases ok)
      case False
      with assms Inr show thesis by (intro soft) (simp_all add: request_def)
    next
      case True
      with Inr have gate: "budget_gate c (gq_now i) purpose d = Inr True" by simp
      show thesis
      proof (cases res1)
        case (Inl e)
        with assms gate r show thesis
          by (intro unanswered [of e b]) (auto simp: request_def Let_def add_model_request_def)
      next
        case (Inr raw)
        show thesis
        proof (cases "validate_gpt_json_string lib (rc_content raw)")
          case (Inl e)
          with assms gate r Inr show thesis
            by (intro unreadable [of raw b e]) (auto simp: request_def Let_def t)
        next
          case (Inr g)
          with assms gate r \<open>res1 = Inr raw\<close> show thesis
            by (intro guarded [of raw b g])
              (auto simp: request_def Let_def t add_model_response_def split: option.splits)
        qed
      qed
    qed
  qed
qed

lemma budget_gate_True:
  assumes "budget_gate c now NEW_ENTRY d = Inr True" "gp_budget_manager c = Some m"
  shows "bc_ok (get_current_status m now d)"
proof -
  obtain r where "check_budget m NEW_ENTRY now d = Some r" "bc_ok r"
    using assms by (auto simp: budget_gate_def split: option.splits)
  then show ?thesis using check_budget_ok_iff by metis
qed

lemma budget_gate_exhausted:
  assumes "\<not> bc_ok (get_current_status m now d)" "gp_budget_manager c = Some m"
  shows "budget_gate c now NEW_ENTRY d =
    (if fp_token_budget_failure_blocks_new_entries (bm_failure_policy m) then Inl TokenBudgetExceededError else Inr False)"
  using assms
  by (auto simp: budget_gate_def check_budget_def get_current_status_def Let_def split: prod.splits if_splits)

end
