(* ===== verification/GptProperties.thy ===== *)
theory GptProperties
  imports GptFacts Samples
begin

text \<open>
  The properties of the calls of the language model: what a decision that arrives has gone through, what happens
  when none arrives, how often and how long the client tries, and the budget of tokens.
\<close>

subsection \<open>A concrete client\<close>

definition sample_lib :: gpt_lib where
  "sample_lib = \<lparr>gl_loads = (\<lambda>s. if s = ''{}'' then Inr (JObj []) else Inl ''Expecting value''),
     gl_decode = (\<lambda>_. Inr sample_decision), gl_message = (\<lambda>_. [''value error'']), gl_request_hash = (\<lambda>_ _ _. [])\<rparr>"

definition sample_client :: gpt_client where
  "sample_client = \<lparr>gp_config = gpt_config_default\<lparr>gc_jitter_ratio := 1/4\<rparr>,
     gp_failure_policy = cfg_failure_policy sample_config, gp_budget_manager = None,
     gp_circuit_breaker = breaker_init None\<rparr>"

definition sample_body :: "string \<Rightarrow> json" where
  "sample_body content = JObj [(''choices'', JArr [JObj [(''message'', JObj [(''content'', JStr content)]),
     (''finish_reason'', JStr ''stop'')]]), (''usage'', JObj [(''prompt_tokens'', JInt 900),
     (''completion_tokens'', JInt 100), (''total_tokens'', JInt 1000)])]"

definition sample_call :: "http_outcome \<Rightarrow> http_call" where
  "sample_call out = \<lparr>hc_asked = 0, hc_outcome = out, hc_told = 1, hc_jitter = 0\<rparr>"

definition answered :: "string \<Rightarrow> http_call" where
  "answered content = sample_call (Response \<lparr>hr_status = 200, hr_retry_after = None, hr_text = ''{...}'',
     hr_json = Some (sample_body content)\<rparr>)"

text \<open>A time-out, then an answer.\<close>

definition sample_gpt_input :: "string \<Rightarrow> gpt_input" where
  "sample_gpt_input content = \<lparr>gq_now = 100, gq_calls = (\<lambda>k. if k = 0 then sample_call Timeout_exception else answered content),
     gq_request_id = ''q1'', gq_request_audit_ok = True, gq_usage_ok = True, gq_response_audit_ok = True\<rparr>"

definition sample_prompt :: gpt_request where
  "sample_prompt = \<lparr>gr_system_prompt = [], gr_user_prompt = [], gr_prompt_version = ''v1''\<rparr>"

lemma sample_breaker_ok [simp]: "breaker_ok (gp_circuit_breaker sample_client)"
  by (simp add: sample_client_def)

subsection \<open>The circuit breaker\<close>

text \<open>
  C17. The circuit breaker is a counter with a clock. After any history of calls that it admitted, it refuses a call
  exactly when the failures since the last success reach the threshold and less than the reset time has passed
  since the last of them; and its internal assertion never fails.
\<close>

theorem breaker_admits_iff:
  assumes "breaker_run (breaker_init (Some c)) calls = Some b"
  shows "before_call now b =
    (case trailing_failures calls of
       [] \<Rightarrow> Inr b
     | (asked, ok, told) # rest \<Rightarrow>
         if bk_failure_threshold c \<le> int (Suc (length rest)) then
           (if now - told < bk_reset_timeout_seconds c then Inl CircuitBreakerOpenError
            else Inr (b\<lparr>cb_state := CIRCUIT_HALF_OPEN\<rparr>))
         else Inr b)"
  using breaker_run_abs [OF assms]
  by (auto simp: before_call_def breaker_abs_def split: list.splits)

definition failing_calls :: "nat \<Rightarrow> (rat \<times> bool \<times> rat) list" where
  "failing_calls n = (0, True, 0) # map (\<lambda>k. (of_nat k, False, of_nat k)) [0..<n]"

theorem breaker_admits_iff_witness:
  "\<exists>b. breaker_run (breaker_init (Some breaker_config_default)) (failing_calls 5) = Some b
     \<and> before_call 33 b = Inl CircuitBreakerOpenError \<and> before_call 34 b \<noteq> Inl CircuitBreakerOpenError"
proof -
  have "breaker_run (breaker_init (Some breaker_config_default)) (failing_calls 5) \<noteq> None" by code_simp
  then obtain b where b: "breaker_run (breaker_init (Some breaker_config_default)) (failing_calls 5) = Some b" by blast
  have t: "trailing_failures (failing_calls 5) = [(4, False, 4), (3, False, 3), (2, False, 2), (1, False, 1), (0, False, 0)]"
    by code_simp
  from breaker_admits_iff [OF b, of 33] breaker_admits_iff [OF b, of 34] b show ?thesis
    by (simp add: t breaker_config_default_def)
qed

subsection \<open>The retry loop\<close>

text \<open>
  C16. Retrying is bounded. With a valid configuration the loop calls the operation at most \<^verbatim>\<open>max_attempts\<close> times and
  always answers: the first success, or the first error that is not retryable, or the error of the last attempt,
  or that the breaker is open; it sleeps once between two attempts, never longer than the configured maximum with
  its jitter; and the assertion at its end is unreachable.
\<close>

theorem retry_bounded:
  assumes "r = retry c ret ra env b" "1 \<le> rt_max_attempts c" "\<forall>k. b = Some k \<longrightarrow> breaker_ok k"
    and "0 \<le> rt_base_delay_seconds c" "0 \<le> rt_max_delay_seconds c" "fl (rt_max_delay_seconds c) = rt_max_delay_seconds c"
    and "0 \<le> rt_jitter_ratio c" "\<forall>k. \<bar>at_jitter (env k)\<bar> \<le> rt_jitter_ratio c"
    and "\<forall>k e t. at_outcome (env k) = Inl e \<longrightarrow> ra e = Some t \<longrightarrow> 0 \<le> t"
  shows "\<exists>k. int k < rt_max_attempts c \<and> length (rd_delays r) = k \<and> rd_calls r \<le> Suc k
    \<and> (\<forall>j < k. \<exists>e. at_outcome (env j) = Inl e \<and> ret e)
    \<and> (rd_result r = Inl (Breaker_error CircuitBreakerOpenError) \<and> rd_calls r = k
       \<or> rd_calls r = Suc k \<and> (case at_outcome (env k) of
            Inr x \<Rightarrow> rd_result r = Inr x
          | Inl e \<Rightarrow> rd_result r = Inl (Operation_error e) \<and> (ret e \<longrightarrow> int (Suc k) = rt_max_attempts c)))
    \<and> (\<forall>x \<in> set (rd_delays r). 0 \<le> x \<and> x \<le> fl (rt_max_delay_seconds c * fl (1 + rt_jitter_ratio c)))"
proof -
  let ?m = "nat (rt_max_attempts c)"
  obtain k where k: "decided_at ret env 0 ?m k r"
    using retry_from_decided(1) [of ?m b ret env 0 c ra] assms(1-3) by (auto simp: retry_def)
  have "\<forall>x \<in> set (rd_delays r). 0 \<le> x \<and> x \<le> fl (rt_max_delay_seconds c * fl (1 + rt_jitter_ratio c))"
    unfolding assms(1) retry_def
  proof (rule retry_from_delays)
    fix k e
    assume "at_outcome (env (0 + k)) = Inl e"
    then have "case ra e of None \<Rightarrow> True | Some t \<Rightarrow> 0 \<le> t" using assms(9) by (auto split: option.split)
    with compute_delay_bounds [OF assms(4-7)] assms(8)
    show "0 \<le> compute_delay (0 + k) c (ra e) (at_jitter (env (0 + k)))
        \<and> compute_delay (0 + k) c (ra e) (at_jitter (env (0 + k))) \<le> fl (rt_max_delay_seconds c * fl (1 + rt_jitter_ratio c))"
      by blast
  qed
  with k assms(2) show ?thesis
    by (intro exI [of _ k]) (auto simp: decided_at_def split: sum.splits)
qed

theorem retry_bounded_witness:
  "\<exists>k. int k < 4 \<and> rd_calls (retry (retry_config_of (gp_config sample_client)) is_retryable get_retry_after
      (\<lambda>k. attempt_of (sample_call Timeout_exception)) None) \<le> Suc k"
proof -
  let ?c = "retry_config_of (gp_config sample_client)"
  have c: "rt_max_attempts ?c = 4" "rt_max_delay_seconds ?c = 60" "rt_base_delay_seconds ?c = 1" "rt_jitter_ratio ?c = 1/4"
    by (simp_all add: retry_config_of_def sample_client_def gpt_config_default_def)
  have "fl 60 = 60" using fl_int [of 60] by simp
  then show ?thesis
    using retry_bounded [OF refl, of ?c None "\<lambda>k. attempt_of (sample_call Timeout_exception)" get_retry_after is_retryable]
    by (auto simp: c attempt_of_def sample_call_def call_once_def)
qed

subsection \<open>Requests\<close>

text \<open>
  C14. A decision of the model is never taken on trust. When a request returns a decision, one of the at most
  \<^verbatim>\<open>max_retries + 1\<close> calls was answered with status 200 by a JSON object whose fields decode and which passes every
  validator of the schema, all calls before it had failed transiently, and for a new entry the budget of tokens
  was not exhausted.
\<close>

theorem gpt_decision_trusted:
  assumes "request lib i c q purpose target d = (Inr (Some ans), c', d')"
    and "breaker_ok (gp_circuit_breaker c)" "0 \<le> gc_max_retries (gp_config c)"
  shows "\<exists>k r data raw s fields d0. int k \<le> gc_max_retries (gp_config c)
    \<and> hc_outcome (gq_calls i k) = Response r \<and> hr_status r = 200 \<and> hr_json r = Some data
    \<and> extract_body (hr_text r) data = Inr raw \<and> rc_content raw = JStr s \<and> rc_finish_reason raw \<noteq> Some ''length''
    \<and> gl_loads lib s = Inr (JObj fields) \<and> gl_decode lib fields = Inr d0 \<and> model_decision_validate d0 = Inr ans
    \<and> (\<forall>j < k. \<exists>e. call_once (hc_outcome (gq_calls i j)) = Inl e \<and> is_retryable e)
    \<and> (purpose = NEW_ENTRY \<longrightarrow> (\<forall>m. gp_budget_manager c = Some m \<longrightarrow> bc_ok (get_current_status m (gq_now i) d)))"
  using assms(1)
proof (cases rule: request_cases)
  case (unanswered e b)
  then show ?thesis by (auto simp: apply_failure_policy_def split: if_splits)
next
  case (guarded raw b g)
  then have g: "sg_decision g = Some ans" by (simp split: option.splits)
  obtain k where k: "int k \<le> gc_max_retries (gp_config c)" "call_once (hc_outcome (gq_calls i k)) = Inr raw"
    "\<And>j. j < k \<Longrightarrow> \<exists>e. call_once (hc_outcome (gq_calls i j)) = Inl e \<and> is_retryable e"
    by (rule call_with_retry_Inr [OF guarded(2) assms(2,3)]) (rule that)
  have "purpose = NEW_ENTRY \<longrightarrow> (\<forall>m. gp_budget_manager c = Some m \<longrightarrow> bc_ok (get_current_status m (gq_now i) d))"
    using budget_gate_True guarded(1) by blast
  with k call_once_Inr [OF k(2)] guard_accepts [OF guarded(3) g] show ?thesis by blast
qed simp_all

lemma sample_request:
  obtains c' d' where "request sample_lib (sample_gpt_input ''{}'') sample_client sample_prompt NEW_ENTRY None db_empty
      = (Inr (Some sample_decision), c', d')"
proof -
  have v: "model_decision_validate sample_decision = Inr sample_decision" by code_simp
  have "(case request sample_lib (sample_gpt_input ''{}'') sample_client sample_prompt NEW_ENTRY None db_empty of
      (Inr (Some d), _) \<Rightarrow> md_decision_id d = md_decision_id sample_decision | _ \<Rightarrow> False)" by code_simp
  then obtain d c' d' where r: "request sample_lib (sample_gpt_input ''{}'') sample_client sample_prompt NEW_ENTRY None
      db_empty = (Inr (Some d), c', d')" by (auto split: prod.splits sum.splits option.splits)
  from r have "d = sample_decision"
  proof (cases rule: request_cases)
    case (unanswered e b)
    then show ?thesis by (auto simp: apply_failure_policy_def split: if_splits)
  next
    case (guarded raw b g)
    then have "sg_decision g = Some d" by (simp split: option.splits)
    from guard_accepts [OF guarded(3) this] v show ?thesis by (auto simp: sample_lib_def)
  qed simp_all
  with r show thesis using that by blast
qed

theorem gpt_decision_trusted_witness:
  "\<exists>c' d' k. request sample_lib (sample_gpt_input ''{}'') sample_client sample_prompt NEW_ENTRY None db_empty
      = (Inr (Some sample_decision), c', d') \<and> int k \<le> 3"
proof -
  obtain c' d' where r: "request sample_lib (sample_gpt_input ''{}'') sample_client sample_prompt NEW_ENTRY None db_empty
      = (Inr (Some sample_decision), c', d')" by (rule sample_request)
  have m: "gc_max_retries (gp_config sample_client) = 3" by (simp add: sample_client_def gpt_config_default_def)
  from gpt_decision_trusted [OF r sample_breaker_ok] r show ?thesis unfolding m by auto
qed




text \<open>
  The budget of tokens is enforced and filled. With a budget manager whose hour or day is used up, a new entry asks
  nothing, costs nothing and writes nothing; and every call that reports its usage, whether its answer was valid or
  not, adds exactly its tokens to both windows.
\<close>

theorem token_budget_enforced:
  assumes "gp_budget_manager c = Some m"
  shows "(\<not> bc_ok (get_current_status m (gq_now i) d) \<longrightarrow>
      request lib i c q NEW_ENTRY target d =
        (if fp_token_budget_failure_blocks_new_entries (bm_failure_policy m) then Inl TokenBudgetExceededError
         else Inr None, c, d))
    \<and> (\<forall>purpose res c' d' raw p k. request lib i c q purpose target d = (res, c', d')
        \<and> fst (call_with_retry (gp_config c) (gq_calls i) (gp_circuit_breaker c)) = Inr raw
        \<and> rc_prompt_tokens raw = Some p \<and> rc_completion_tokens raw = Some k \<and> gq_usage_ok i
        \<and> budget_gate c (gq_now i) purpose d = Inr True
        \<longrightarrow> current_usage m (gq_now i) d' =
              (fst (current_usage m (gq_now i) d) + (p + k), snd (current_usage m (gq_now i) d) + (p + k)))"
proof -
  have "request lib i c q NEW_ENTRY target d =
      (if fp_token_budget_failure_blocks_new_entries (bm_failure_policy m) then Inl TokenBudgetExceededError
       else Inr None, c, d)" if "\<not> bc_ok (get_current_status m (gq_now i) d)"
    using budget_gate_exhausted [OF that assms] by (simp add: request_def)
  moreover have "current_usage m (gq_now i) d' =
      (fst (current_usage m (gq_now i) d) + (p + k), snd (current_usage m (gq_now i) d) + (p + k))"
    if "request lib i c q purpose target d = (res, c', d')"
      and a: "fst (call_with_retry (gp_config c) (gq_calls i) (gp_circuit_breaker c)) = Inr raw"
      "rc_prompt_tokens raw = Some p" "rc_completion_tokens raw = Some k" "gq_usage_ok i"
      "budget_gate c (gq_now i) purpose d = Inr True" for purpose res c' d' raw p k
  proof -
    have "db_token_usage d' = db_token_usage (record_usage m (gq_now i) p k (gc_model (gp_config c)) d)"
      using that(1) by (cases rule: request_cases) (use a assms in \<open>auto simp: record_tokens_def\<close>)
    then have "tokens_in_window run since d'
        = tokens_in_window run since (record_usage m (gq_now i) p k (gc_model (gp_config c)) d)" for run since
      by (simp add: tokens_in_window_def)
    then show ?thesis
      by (simp add: current_usage_def tokens_in_window_record MICROSECONDS_PER_HOUR_def)
  qed
  ultimately show ?thesis by blast
qed

definition exhausted_db :: db where
  "exhausted_db = db_empty\<lparr>db_token_usage := [\<lparr>tu_bot_run_id = ''r1'', tu_timestamp = 50, tu_model = ''gpt-4o'',
     tu_prompt_tokens = 60000, tu_completion_tokens = 0, tu_total_tokens = 60000\<rparr>]\<rparr>"

definition budgeted_client :: gpt_client where
  "budgeted_client = sample_client\<lparr>gp_budget_manager := Some \<lparr>bm_bot_run_id = ''r1'',
     bm_config = cfg_token_budget sample_config, bm_failure_policy = cfg_failure_policy sample_config\<rparr>\<rparr>"

theorem token_budget_enforced_witness:
  "fst (request sample_lib (sample_gpt_input ''{}'') budgeted_client sample_prompt NEW_ENTRY None exhausted_db)
     = Inl TokenBudgetExceededError"
proof -
  let ?m = "\<lparr>bm_bot_run_id = ''r1'', bm_config = cfg_token_budget sample_config,
      bm_failure_policy = cfg_failure_policy sample_config\<rparr>"
  have "gp_budget_manager budgeted_client = Some ?m" by (simp add: budgeted_client_def)
  moreover have "\<not> bc_ok (get_current_status ?m (gq_now (sample_gpt_input ''{}'')) exhausted_db)" by code_simp
  moreover have "fp_token_budget_failure_blocks_new_entries (bm_failure_policy ?m)" by (simp add: sample_config_def)
  ultimately show ?thesis using token_budget_enforced by simp
qed

end
