(* ===== verification/AuthTokens.thy ===== *)
theory AuthTokens
  imports ModelDecision
begin

text \<open>
  \<^verbatim>\<open>backend/auth/tokens.py\<close> and the bearer check of \<^verbatim>\<open>auth/dependencies.py\<close>: stateless session tokens
  \<^verbatim>\<open>payload.signature\<close>. The payload's JSON in base64url and the HMAC are libraries, the parameter \<open>lib\<close>.
  Instants are microseconds, the claims on the wire whole seconds.
\<close>

record token_claims =
  tc_sub :: string
  tc_issued_at :: int
  tc_expires_at :: int
  tc_jti :: string

text \<open>The payload of a token, in seconds.\<close>

record token_payload =
  tp_sub :: string
  tp_iat :: int
  tp_exp :: int
  tp_jti :: string

text \<open>
  \<open>tl_read\<close> is the decoding of base64url, JSON and the four claims, \<open>None\<close> where any of it is rejected as
  \<^verbatim>\<open>TokenInvalid\<close>; \<open>tl_sign\<close> takes the payload and the key.
\<close>

record token_lib =
  tl_write :: "token_payload \<Rightarrow> string"
  tl_read :: "string \<Rightarrow> token_payload option"
  tl_sign :: "string \<Rightarrow> string \<Rightarrow> string"

datatype token_error = TokenInvalid | TokenExpired

definition MICROSECOND :: int where
  "MICROSECOND = 1000000"

definition issue_token ::
    "token_lib \<Rightarrow> string \<Rightarrow> string \<Rightarrow> int \<Rightarrow> string \<Rightarrow> int \<Rightarrow> string \<times> token_claims" where
  "issue_token lib username secret_key ttl_seconds jti now =
     (let expires_at = now + ttl_seconds * MICROSECOND;
          payload = \<lparr>tp_sub = username, tp_iat = now div MICROSECOND, tp_exp = expires_at div MICROSECOND, tp_jti = jti\<rparr>;
          payload_b64 = tl_write lib payload
      in (payload_b64 @ CHR ''.'' # tl_sign lib payload_b64 secret_key,
          \<lparr>tc_sub = username, tc_issued_at = now, tc_expires_at = expires_at, tc_jti = jti\<rparr>))"

definition is_ascii :: "string \<Rightarrow> bool" where
  "is_ascii s = list_all (\<lambda>c. (of_char c :: nat) < 128) s"

text \<open>\<^verbatim>\<open>partition(".")\<close>: the part before the first dot and the part after it, if there is one.\<close>

definition partition_dot :: "string \<Rightarrow> string \<times> string option" where
  "partition_dot s =
     (case dropWhile (\<lambda>c. c \<noteq> CHR ''.'') s of
        [] \<Rightarrow> (s, None)
      | _ # rest \<Rightarrow> (takeWhile (\<lambda>c. c \<noteq> CHR ''.'') s, Some rest))"

definition verify_token :: "token_lib \<Rightarrow> string \<Rightarrow> string \<Rightarrow> int \<Rightarrow> token_error + token_claims" where
  "verify_token lib token secret_key now =
     (if \<not> is_ascii token then Inl TokenInvalid
      else case partition_dot token of
        (payload_b64, None) \<Rightarrow> Inl TokenInvalid
      | (payload_b64, Some signature_b64) \<Rightarrow>
          if payload_b64 = [] \<or> signature_b64 = [] then Inl TokenInvalid
          else if tl_sign lib payload_b64 secret_key \<noteq> signature_b64 then Inl TokenInvalid
          else case tl_read lib payload_b64 of
            None \<Rightarrow> Inl TokenInvalid
          | Some p \<Rightarrow>
              let expires_at = tp_exp p * MICROSECOND in
              if expires_at \<le> now then Inl TokenExpired
              else Inr \<lparr>tc_sub = tp_sub p, tc_issued_at = tp_iat p * MICROSECOND, tc_expires_at = expires_at,
                     tc_jti = tp_jti p\<rparr>)"

text \<open>The bearer check: the claims, or the 401. \<open>header\<close> is the \<^verbatim>\<open>Authorization\<close> header.\<close>

definition lower_ascii :: "char \<Rightarrow> char" where
  "lower_ascii c = (let n = of_char c :: nat in if 65 \<le> n \<and> n \<le> 90 then char_of (n + 32) else c)"

definition extract_bearer_token :: "string option \<Rightarrow> string option" where
  "extract_bearer_token header =
     (case header of
        None \<Rightarrow> None
      | Some h \<Rightarrow>
          if h = [] then None
          else if take 7 (map lower_ascii h) \<noteq> ''bearer '' then None
          else let token = strip_chars py_blank (drop 7 h) in if token = [] then None else Some token)"

definition require_auth ::
    "token_lib \<Rightarrow> bool \<Rightarrow> string \<Rightarrow> string option \<Rightarrow> string \<Rightarrow> int \<Rightarrow> nat + token_claims" where
  "require_auth lib enabled secret_key header jti now =
     (if \<not> enabled
      then Inr \<lparr>tc_sub = ''anonymous'', tc_issued_at = now, tc_expires_at = now, tc_jti = jti\<rparr>
      else case extract_bearer_token header of
        None \<Rightarrow> Inl 401
      | Some token \<Rightarrow>
          (case verify_token lib token secret_key now of Inl _ \<Rightarrow> Inl 401 | Inr claims \<Rightarrow> Inr claims))"

subsection \<open>Lemmas\<close>

text \<open>What base64url and the encoding of the claims promise.\<close>

definition codec_ok :: "token_lib \<Rightarrow> bool" where
  "codec_ok lib \<longleftrightarrow>
     (\<forall>p. tl_read lib (tl_write lib p) = Some p \<and> tl_write lib p \<noteq> [] \<and> is_ascii (tl_write lib p)
          \<and> CHR ''.'' \<notin> set (tl_write lib p))
     \<and> (\<forall>x k. tl_sign lib x k \<noteq> [] \<and> is_ascii (tl_sign lib x k))"

lemma partition_dot_append:
  assumes "CHR ''.'' \<notin> set p"
  shows "partition_dot (p @ CHR ''.'' # s) = (p, Some s)"
proof -
  have "c \<in> set p \<Longrightarrow> c \<noteq> CHR ''.''" for c using assms by auto
  then show ?thesis
    by (simp add: partition_dot_def dropWhile_append2 takeWhile_append2)
qed

lemma partition_dot_Some:
  assumes "partition_dot t = (p, Some s)"
  shows "t = p @ CHR ''.'' # s"
proof -
  obtain c rest where d: "dropWhile (\<lambda>c. c \<noteq> CHR ''.'') t = c # rest"
    using assms by (cases "dropWhile (\<lambda>c. c \<noteq> CHR ''.'') t") (auto simp: partition_dot_def)
  then have "c = CHR ''.''" using hd_dropWhile [of "\<lambda>c. c \<noteq> CHR ''.''" t] by auto
  moreover have "p = takeWhile (\<lambda>c. c \<noteq> CHR ''.'') t" "s = rest"
    using assms d by (auto simp: partition_dot_def)
  ultimately show ?thesis using d takeWhile_dropWhile_id [of "\<lambda>c. c \<noteq> CHR ''.''" t] by simp
qed

lemma is_ascii_append [simp]: "is_ascii (x @ y) \<longleftrightarrow> is_ascii x \<and> is_ascii y"
  by (simp add: is_ascii_def)

lemma is_ascii_dot [simp]: "is_ascii (CHR ''.'' # y) \<longleftrightarrow> is_ascii y"
  by (simp add: is_ascii_def)

text \<open>Every check a verified token has passed.\<close>

lemma verify_token_Inr:
  assumes "verify_token lib token key now = Inr claims"
  obtains payload p where "token = payload @ CHR ''.'' # tl_sign lib payload key" "payload \<noteq> []"
    "tl_read lib payload = Some p" "now < tp_exp p * MICROSECOND"
    "claims = \<lparr>tc_sub = tp_sub p, tc_issued_at = tp_iat p * MICROSECOND,
               tc_expires_at = tp_exp p * MICROSECOND, tc_jti = tp_jti p\<rparr>"
proof -
  obtain payload s where d: "partition_dot token = (payload, Some s)"
    using assms by (cases "partition_dot token") (auto simp: verify_token_def split: if_splits option.splits)
  then have t: "token = payload @ CHR ''.'' # s" by (rule partition_dot_Some)
  obtain p where "tl_read lib payload = Some p" "now < tp_exp p * MICROSECOND" "s = tl_sign lib payload key"
      "payload \<noteq> []"
    using assms d
    by (cases "tl_read lib payload") (auto simp: verify_token_def Let_def not_le split: if_splits)
  with assms d t show ?thesis
    by (intro that [of payload p]) (simp_all add: verify_token_def Let_def not_le split: if_splits)
qed

end
