(* ===== verification/LoginThrottle.thy ===== *)
theory LoginThrottle
  imports AppConfig ModelDecision
begin

text \<open>
  \<^verbatim>\<open>backend/auth/throttle.py\<close> with \<^verbatim>\<open>storage/repositories/auth.py\<close>, and the login of \<^verbatim>\<open>api/routes_auth.py\<close>: failed
  logins are counted in a sliding window for the typed user and for the source address, and a threshold locks
  the identity for a time that grows with each relapse. Instants are microseconds. \<^verbatim>\<open>math.log\<close> and the power of
  floats are the parameter \<open>tm\<close>, scrypt is the parameter \<open>verify\<close>; the advisory lock makes the step of one
  identity atomic, so the clash of two inserts is left out.
\<close>

subsection \<open>Rows and queries\<close>

datatype login_scope = SCOPE_USERNAME | SCOPE_IP

type_synonym identity = "login_scope \<times> string"

record login_attempt =
  la_identity :: identity
  la_timestamp :: int

record login_lockout =
  lo_identity :: identity
  lo_locked_until :: int
  lo_lockout_count :: int

record auth_db =
  ad_attempts :: "login_attempt list"
  ad_lockouts :: "login_lockout list"

definition insert_attempt :: "identity \<Rightarrow> int \<Rightarrow> auth_db \<Rightarrow> auth_db" where
  "insert_attempt x now d =
     d\<lparr>ad_attempts := ad_attempts d @ [\<lparr>la_identity = x, la_timestamp = now\<rparr>]\<rparr>"

definition count_failures_since :: "identity \<Rightarrow> int \<Rightarrow> auth_db \<Rightarrow> int" where
  "count_failures_since x since d =
     int (length (filter (\<lambda>a. la_identity a = x \<and> since \<le> la_timestamp a) (ad_attempts d)))"

definition clear_attempts :: "identity \<Rightarrow> auth_db \<Rightarrow> auth_db" where
  "clear_attempts x d = d\<lparr>ad_attempts := filter (\<lambda>a. la_identity a \<noteq> x) (ad_attempts d)\<rparr>"

definition purge_attempts_before :: "int \<Rightarrow> auth_db \<Rightarrow> auth_db" where
  "purge_attempts_before cutoff d = d\<lparr>ad_attempts := filter (\<lambda>a. cutoff \<le> la_timestamp a) (ad_attempts d)\<rparr>"

definition get_lockout :: "identity \<Rightarrow> auth_db \<Rightarrow> login_lockout option" where
  "get_lockout x d = find (\<lambda>l. lo_identity l = x) (ad_lockouts d)"

definition renew :: "int \<Rightarrow> login_lockout \<Rightarrow> login_lockout" where
  "renew locked_until l = l\<lparr>lo_lockout_count := lo_lockout_count l + 1, lo_locked_until := locked_until\<rparr>"

definition upsert_lockout :: "identity \<Rightarrow> int \<Rightarrow> auth_db \<Rightarrow> auth_db" where
  "upsert_lockout x locked_until d =
     (case get_lockout x d of
        Some _ \<Rightarrow>
          d\<lparr>ad_lockouts := map (\<lambda>l. if lo_identity l = x then renew locked_until l else l) (ad_lockouts d)\<rparr>
      | None \<Rightarrow>
          d\<lparr>ad_lockouts := ad_lockouts d
              @ [\<lparr>lo_identity = x, lo_locked_until = locked_until, lo_lockout_count = 1\<rparr>]\<rparr>)"

definition purge_lockouts_before :: "int \<Rightarrow> auth_db \<Rightarrow> auth_db" where
  "purge_lockouts_before cutoff d = d\<lparr>ad_lockouts := filter (\<lambda>l. cutoff \<le> lo_locked_until l) (ad_lockouts d)\<rparr>"

definition clear_lockout :: "identity \<Rightarrow> auth_db \<Rightarrow> auth_db" where
  "clear_lockout x d = d\<lparr>ad_lockouts := filter (\<lambda>l. lo_identity l \<noteq> x) (ad_lockouts d)\<rparr>"

subsection \<open>Identities\<close>

definition MAX_IDENTIFIER_LENGTH :: nat where
  "MAX_IDENTIFIER_LENGTH = 255"

definition UNKNOWN_IP :: string where
  "UNKNOWN_IP = ''unknown''"

text \<open>\<^verbatim>\<open>casefold\<close> on Latin-1; the micro sign, whose folding lies outside, stands for itself.\<close>

definition casefold_char :: "char \<Rightarrow> string" where
  "casefold_char c =
     (let n = of_char c :: nat in
      if 65 \<le> n \<and> n \<le> 90 \<or> 192 \<le> n \<and> n \<le> 222 \<and> n \<noteq> 215 then [char_of (n + 32)]
      else if n = 223 then ''ss'' else [c])"

definition normalize_username :: "string \<Rightarrow> string" where
  "normalize_username username =
     take MAX_IDENTIFIER_LENGTH (strip_chars py_blank (concat (map casefold_char username)))"

definition normalize_ip :: "string option \<Rightarrow> string" where
  "normalize_ip ip =
     (case ip of
        None \<Rightarrow> UNKNOWN_IP
      | Some s \<Rightarrow>
          if s = [] then UNKNOWN_IP
          else let t = take MAX_IDENTIFIER_LENGTH (strip_chars py_blank s) in if t = [] then UNKNOWN_IP else t)"

definition identities :: "string \<Rightarrow> string option \<Rightarrow> identity list" where
  "identities username ip = [(SCOPE_USERNAME, normalize_username username), (SCOPE_IP, normalize_ip ip)]"

subsection \<open>The length of a lockout\<close>

record throttle_math =
  tm_log :: "rat \<Rightarrow> rat"
  tm_pow :: "rat \<Rightarrow> nat \<Rightarrow> rat"

text \<open>The exponent is compared as a float before the power is computed, which could overflow.\<close>

definition compute_lockout_seconds :: "throttle_math \<Rightarrow> int \<Rightarrow> login_throttle_config \<Rightarrow> int result" where
  "compute_lockout_seconds tm lockout_count c =
     (if lockout_count < 1 then Inl ValueError
      else if lt_lockout_backoff_factor c \<le> 1 then Inr (min (lt_lockout_seconds c) (lt_max_lockout_seconds c))
      else let exponent = lockout_count - 1;
               exponent_at_ceiling = fdiv (tm_log tm (fdiv (of_int (lt_max_lockout_seconds c)) (of_int (lt_lockout_seconds c))))
                                          (tm_log tm (lt_lockout_backoff_factor c)) in
        if exponent_at_ceiling \<le> of_int exponent then Inr (lt_max_lockout_seconds c)
        else let seconds = fmul (of_int (lt_lockout_seconds c)) (tm_pow tm (lt_lockout_backoff_factor c) (nat exponent))
             in Inr (min (if 0 \<le> seconds then \<lfloor>seconds\<rfloor> else \<lceil>seconds\<rceil>) (lt_max_lockout_seconds c)))"

subsection \<open>The throttle\<close>

definition SECOND :: int where
  "SECOND = 1000000"

record throttle_decision =
  td_locked :: bool
  td_retry_after_seconds :: int
  td_scope :: "login_scope option"

definition remaining_seconds :: "int \<Rightarrow> int \<Rightarrow> int" where
  "remaining_seconds locked_until now = max 1 \<lceil>fdiv (of_int (locked_until - now)) (of_int SECOND)\<rceil>"

definition max_failures :: "login_throttle_config \<Rightarrow> login_scope \<Rightarrow> int" where
  "max_failures c scope =
     (case scope of SCOPE_USERNAME \<Rightarrow> lt_max_failures_per_username c | SCOPE_IP \<Rightarrow> lt_max_failures_per_ip c)"

text \<open>Of the active lockouts the longest decides, the first one on a tie.\<close>

definition active_lockouts :: "identity list \<Rightarrow> int \<Rightarrow> auth_db \<Rightarrow> (login_scope \<times> int) list" where
  "active_lockouts ids now d =
     map (\<lambda>x. (fst x, lo_locked_until (the (get_lockout x d))))
       (filter (\<lambda>x. case get_lockout x d of None \<Rightarrow> False | Some l \<Rightarrow> now < lo_locked_until l) ids)"

definition check_lockout ::
    "login_throttle_config \<Rightarrow> string \<Rightarrow> string option \<Rightarrow> int \<Rightarrow> auth_db \<Rightarrow> throttle_decision" where
  "check_lockout c username ip now d =
     (if \<not> lt_enabled c then \<lparr>td_locked = False, td_retry_after_seconds = 0, td_scope = None\<rparr>
      else case active_lockouts (identities username ip) now d of
        [] \<Rightarrow> \<lparr>td_locked = False, td_retry_after_seconds = 0, td_scope = None\<rparr>
      | x # xs \<Rightarrow>
          let (scope, locked_until) = foldl (\<lambda>best y. if snd best < snd y then y else best) x xs
          in \<lparr>td_locked = True, td_retry_after_seconds = remaining_seconds locked_until now, td_scope = Some scope\<rparr>)"

definition backoff_memory_start :: "login_throttle_config \<Rightarrow> int \<Rightarrow> int" where
  "backoff_memory_start c now = now - max (lt_window_seconds c) (lt_max_lockout_seconds c) * SECOND"

definition window_start :: "login_throttle_config \<Rightarrow> int \<Rightarrow> int" where
  "window_start c now = now - lt_window_seconds c * SECOND"

text \<open>One pass of the loop of \<^verbatim>\<open>record_failure\<close>.\<close>

definition count_and_lock ::
    "throttle_math \<Rightarrow> login_throttle_config \<Rightarrow> int \<Rightarrow> identity \<Rightarrow> auth_db \<Rightarrow> auth_db result" where
  "count_and_lock tm c now x d =
     (let d = insert_attempt x now d in
      if count_failures_since x (window_start c now) d < max_failures c (fst x) then Inr d
      else let next_count = (case get_lockout x d of None \<Rightarrow> 1 | Some l \<Rightarrow> lo_lockout_count l + 1) in
        bindE (compute_lockout_seconds tm next_count c) (\<lambda>duration.
        Inr (clear_attempts x (upsert_lockout x (now + duration * SECOND) d))))"

definition record_failure ::
    "throttle_math \<Rightarrow> login_throttle_config \<Rightarrow> string \<Rightarrow> string option \<Rightarrow> int \<Rightarrow> auth_db \<Rightarrow> auth_db result" where
  "record_failure tm c username ip now d =
     (if \<not> lt_enabled c then Inr d
      else foldl (\<lambda>r x. bindE r (count_and_lock tm c now x))
             (Inr (purge_lockouts_before (backoff_memory_start c now) (purge_attempts_before (window_start c now) d)))
             (identities username ip))"

definition clear_throttle :: "login_throttle_config \<Rightarrow> string \<Rightarrow> string option \<Rightarrow> auth_db \<Rightarrow> auth_db" where
  "clear_throttle c username ip d =
     (if \<not> lt_enabled c then d
      else foldl (\<lambda>d x. clear_lockout x (clear_attempts x d)) d (identities username ip))"

subsection \<open>The login endpoint\<close>

record auth_credentials =
  au_enabled :: bool
  au_username :: string
  au_password_hash :: string
  au_secret_key :: string
  au_token_ttl_seconds :: int

definition MIN_SECRET_KEY_LENGTH :: nat where
  "MIN_SECRET_KEY_LENGTH = 32"

text \<open>\<open>valid_hash\<close> is the format check of the hashing module.\<close>

definition validate_credentials :: "(string \<Rightarrow> bool) \<Rightarrow> auth_credentials \<Rightarrow> unit result" where
  "validate_credentials valid_hash a =
     (if \<not> au_enabled a then Inr ()
      else if au_username a = [] \<or> au_password_hash a = [] \<or> au_secret_key a = [] then Inl ConfigError
      else if \<not> valid_hash (au_password_hash a) then Inl ConfigError
      else if length (au_secret_key a) < MIN_SECRET_KEY_LENGTH then Inl ConfigError
      else Inr ())"

text \<open>
  The answers of \<^verbatim>\<open>POST /auth/login\<close>; 429 carries its \<^verbatim>\<open>Retry-After\<close>. A failure of the throttle itself is a 500.
\<close>

datatype login_answer = Login_ok | Login_error nat "int option"

definition login_request_ok :: "string \<Rightarrow> string \<Rightarrow> bool" where
  "login_request_ok username password \<longleftrightarrow>
     1 \<le> length username \<and> length username \<le> 128 \<and> 1 \<le> length password \<and> length password \<le> 1024"

text \<open>\<open>verify\<close> compares a password with a hash, \<open>dummy\<close> is the hash of no user.\<close>

definition login ::
    "throttle_math \<Rightarrow> (string \<Rightarrow> string \<Rightarrow> bool) \<Rightarrow> string \<Rightarrow> auth_credentials \<Rightarrow> login_throttle_config
     \<Rightarrow> int \<Rightarrow> string option \<Rightarrow> string \<Rightarrow> string \<Rightarrow> auth_db \<Rightarrow> login_answer \<times> auth_db" where
  "login tm verify dummy a c now ip username password d =
     (if \<not> login_request_ok username password then (Login_error 422 None, d)
      else if \<not> au_enabled a then (Login_error 404 None, d)
      else let decision = check_lockout c username ip now d in
      if td_locked decision then (Login_error 429 (Some (td_retry_after_seconds decision)), d)
      else let username_ok = (username = au_username a);
               expected_hash = (if username_ok then au_password_hash a else dummy);
               password_ok = verify password expected_hash in
      if \<not> (username_ok \<and> password_ok) then
        (case record_failure tm c username ip now d of
           Inl _ \<Rightarrow> (Login_error 500 None, d)
         | Inr d' \<Rightarrow> (Login_error 401 None, d'))
      else (Login_ok, clear_throttle c username ip d))"

subsection \<open>Lemmas\<close>

text \<open>What the float power promises for a base above one.\<close>

definition pow_ok :: "throttle_math \<Rightarrow> bool" where
  "pow_ok tm \<longleftrightarrow> (\<forall>b n. 1 \<le> b \<longrightarrow> 1 \<le> tm_pow tm b n)"

lemma valid_throttle:
  assumes "validate_login_throttle c = Inr c"
  shows "0 < max_failures c scope" "0 < lt_window_seconds c" "0 < lt_lockout_seconds c"
    "lt_lockout_seconds c \<le> lt_max_lockout_seconds c" "1 \<le> lt_lockout_backoff_factor c"
  using assms by (auto simp: validate_login_throttle_def max_failures_def split: if_splits login_scope.splits)

text \<open>The product of the base time and a power does not round below the base time.\<close>

lemma backoff_ge_base:
  assumes "0 < s" "s < 2 ^ 53" "1 \<le> p"
  shows "of_int s \<le> fmul (of_int s) p"
proof -
  have "fl (of_int s) = of_int s" using assms by (intro fl_int) auto
  moreover have "(of_int s :: rat) \<le> of_int s * p" using assms by (simp add: mult_le_cancel_left1)
  ultimately show ?thesis unfolding fmul_def fl_def by (rule flt.rd_ge [unfolded fl_def])
qed

lemma compute_lockout_bounds:
  assumes "validate_login_throttle c = Inr c" "lt_lockout_seconds c < 2 ^ 53" "pow_ok tm" "1 \<le> k"
  obtains s where "compute_lockout_seconds tm k c = Inr s"
    "lt_lockout_seconds c \<le> s" "s \<le> lt_max_lockout_seconds c"
proof -
  note v = valid_throttle [OF assms(1)]
  have b: "of_int (lt_lockout_seconds c)
             \<le> fmul (of_int (lt_lockout_seconds c)) (tm_pow tm (lt_lockout_backoff_factor c) n)" for n
    using assms(2,3) v by (intro backoff_ge_base) (auto simp: pow_ok_def)
  have f: "lt_lockout_seconds c \<le> \<lfloor>x\<rfloor>" "0 \<le> x" if "of_int (lt_lockout_seconds c) \<le> x" for x :: rat
    using that v(3) by (simp_all add: le_floor_iff order_trans [OF _ that])
  have "\<exists>s. compute_lockout_seconds tm k c = Inr s \<and> lt_lockout_seconds c \<le> s \<and> s \<le> lt_max_lockout_seconds c"
    using assms(4) v(4) f [OF b] by (simp add: compute_lockout_seconds_def Let_def)
  with that show ?thesis by blast
qed

lemma count_insert:
  "count_failures_since x since (insert_attempt y now d)
     = count_failures_since x since d + (if x = y \<and> since \<le> now then 1 else 0)"
  by (simp add: count_failures_since_def insert_attempt_def)

lemma count_mono:
  assumes "t \<le> since"
  shows "count_failures_since x since d \<le> count_failures_since x t d"
proof -
  have "length (filter (\<lambda>a. la_identity a = x \<and> since \<le> la_timestamp a) xs)
          \<le> length (filter (\<lambda>a. la_identity a = x \<and> t \<le> la_timestamp a) xs)" for xs :: "login_attempt list"
    using assms by (induction xs) auto
  then show ?thesis by (simp add: count_failures_since_def)
qed

lemma count_clear: "x \<noteq> y \<Longrightarrow> count_failures_since x since (clear_attempts y d) = count_failures_since x since d"
  unfolding count_failures_since_def clear_attempts_def
  by (simp add: conj_ac) (metis (mono_tags, lifting) filter_cong)

lemma count_purge:
  assumes "cutoff \<le> since"
  shows "count_failures_since x since (purge_attempts_before cutoff d) = count_failures_since x since d"
proof -
  have "filter (\<lambda>a. la_identity a = x \<and> since \<le> la_timestamp a) (filter (\<lambda>a. cutoff \<le> la_timestamp a) xs)
          = filter (\<lambda>a. la_identity a = x \<and> since \<le> la_timestamp a) xs" for xs :: "login_attempt list"
    using assms by (induction xs) auto
  then show ?thesis by (simp add: count_failures_since_def purge_attempts_before_def del: filter_filter)
qed

lemma count_other_table [simp]:
  "count_failures_since x since (upsert_lockout y u d) = count_failures_since x since d"
  "count_failures_since x since (purge_lockouts_before u d) = count_failures_since x since d"
  "get_lockout x (insert_attempt y now d) = get_lockout x d"
  "get_lockout x (clear_attempts y d) = get_lockout x d"
  "get_lockout x (purge_attempts_before now d) = get_lockout x d"
  by (simp_all add: count_failures_since_def upsert_lockout_def purge_lockouts_before_def get_lockout_def
      insert_attempt_def clear_attempts_def purge_attempts_before_def split: option.split)

lemma get_lockout_upsert:
  "get_lockout y (upsert_lockout x u d)
     = (if y = x
        then Some (case get_lockout x d of
               None \<Rightarrow> \<lparr>lo_identity = x, lo_locked_until = u, lo_lockout_count = 1\<rparr>
             | Some l \<Rightarrow> renew u l)
        else get_lockout y d)"
proof -
  have [simp]: "lo_identity (renew u l) = lo_identity l" for l by (simp add: renew_def)
  have m: "find (\<lambda>l. lo_identity l = y) (map (\<lambda>l. if lo_identity l = x then renew u l else l) ls)
             = (if y = x then map_option (renew u) (find (\<lambda>l. lo_identity l = x) ls)
                else find (\<lambda>l. lo_identity l = y) ls)" for ls :: "login_lockout list"
    by (induction ls) auto
  have a: "find P (ls @ [l]) = (case find P ls of None \<Rightarrow> if P l then Some l else None | Some r \<Rightarrow> Some r)" for P ls and l :: login_lockout
    by (induction ls) auto
  show ?thesis
    by (cases "find (\<lambda>l. lo_identity l = x) (ad_lockouts d)")
       (auto simp: upsert_lockout_def get_lockout_def m a split: option.split)
qed

text \<open>A lockout that is still running survives the purge.\<close>

lemma get_lockout_purge:
  assumes "get_lockout x d = Some l" "cutoff \<le> lo_locked_until l"
  shows "get_lockout x (purge_lockouts_before cutoff d) = Some l"
proof -
  have "find (\<lambda>l. lo_identity l = x) ls = Some l \<Longrightarrow>
          find (\<lambda>l. lo_identity l = x) (filter (\<lambda>l. cutoff \<le> lo_locked_until l) ls) = Some l" for ls :: "login_lockout list"
    using assms(2) by (induction ls) (auto split: if_splits)
  with assms(1) show ?thesis by (simp add: get_lockout_def purge_lockouts_before_def)
qed

subsection \<open>Runs of logins\<close>

record login_request =
  lr_now :: int
  lr_ip :: "string option"
  lr_username :: string
  lr_password :: string

text \<open>The answers to a sequence of logins, one after the other on one database.\<close>

primrec login_run ::
    "throttle_math \<Rightarrow> (string \<Rightarrow> string \<Rightarrow> bool) \<Rightarrow> string \<Rightarrow> auth_credentials \<Rightarrow> login_throttle_config
     \<Rightarrow> login_request list \<Rightarrow> auth_db \<Rightarrow> (login_request \<times> login_answer) list" where
  "login_run tm verify dummy a c [] d = []"
| "login_run tm verify dummy a c (r # rs) d =
     (let (answer, d') = login tm verify dummy a c (lr_now r) (lr_ip r) (lr_username r) (lr_password r) d
      in (r, answer) # login_run tm verify dummy a c rs d')"

text \<open>
  Between \<open>t0\<close> and \<open>t1\<close> the identity has had \<open>k\<close> refusals: either it is locked past \<open>t1\<close>, or all of them are
  still counted and the threshold is not reached.
\<close>

definition counted :: "login_throttle_config \<Rightarrow> identity \<Rightarrow> int \<Rightarrow> int \<Rightarrow> auth_db \<Rightarrow> bool" where
  "counted c x t0 k d \<longleftrightarrow> k \<le> count_failures_since x t0 d \<and> k < max_failures c (fst x)"

definition held :: "login_throttle_config \<Rightarrow> identity \<Rightarrow> int \<Rightarrow> int \<Rightarrow> int \<Rightarrow> auth_db \<Rightarrow> bool" where
  "held c x t0 t1 k d \<longleftrightarrow>
     (\<exists>l. get_lockout x d = Some l \<and> t1 \<le> lo_locked_until l) \<and> k \<le> max_failures c (fst x)
     \<or> counted c x t0 k d"

lemma count_and_lock_other:
  assumes "count_and_lock tm c now y d = Inr d'" "x \<noteq> y"
  shows "count_failures_since x t0 d' = count_failures_since x t0 d" "get_lockout x d' = get_lockout x d"
  using assms
  by (auto simp: count_and_lock_def Let_def bindE_Inr_iff count_insert count_clear get_lockout_upsert
      split: if_splits)

lemma count_and_lock_self:
  assumes step: "count_and_lock tm c now x d = Inr d'"
    and c: "validate_login_throttle c = Inr c" "lt_lockout_seconds c < 2 ^ 53" "pow_ok tm"
    and k: "counted c x t0 k d"
    and t: "t0 \<le> now" "window_start c now \<le> t0" "t1 \<le> now + lt_lockout_seconds c * SECOND"
  shows "held c x t0 t1 (k + 1) d'"
proof -
  let ?d = "insert_attempt x now d"
  have n: "k + 1 \<le> count_failures_since x t0 ?d" using k t by (simp add: count_insert counted_def)
  show ?thesis
  proof (cases "count_failures_since x (window_start c now) ?d < max_failures c (fst x)")
    case True
    moreover have "count_failures_since x t0 ?d \<le> count_failures_since x (window_start c now) ?d"
      using t by (intro count_mono)
    ultimately show ?thesis using step n by (simp add: count_and_lock_def held_def counted_def)
  next
    case False
    then obtain n' s where s: "compute_lockout_seconds tm n' c = Inr s"
        "d' = clear_attempts x (upsert_lockout x (now + s * SECOND) ?d)"
      using step by (auto simp: count_and_lock_def Let_def bindE_Inr_iff)
    have "1 \<le> n'" using s(1) by (rule contrapos_pp) (simp add: compute_lockout_seconds_def)
    then have "lt_lockout_seconds c \<le> s" using compute_lockout_bounds [OF c, of n'] s(1) by (metis sum.inject(2))
    then have "lt_lockout_seconds c * SECOND \<le> s * SECOND" by (simp add: SECOND_def)
    then show ?thesis
      using s(2) k t by (auto simp: held_def counted_def get_lockout_upsert renew_def split: option.split)
  qed
qed

lemma held_purged:
  assumes "held c x t0 t1 k d" "w \<le> t0" "b \<le> t1"
  shows "held c x t0 t1 k (purge_lockouts_before b (purge_attempts_before w d))"
proof (cases "\<exists>l. get_lockout x d = Some l \<and> t1 \<le> lo_locked_until l")
  case True
  then obtain l where l: "get_lockout x (purge_attempts_before w d) = Some l" "t1 \<le> lo_locked_until l" by auto
  with assms(3) have "get_lockout x (purge_lockouts_before b (purge_attempts_before w d)) = Some l"
    by (intro get_lockout_purge) auto
  with l(2) True assms(1) show ?thesis by (auto simp: held_def counted_def)
next
  case False
  with assms show ?thesis by (auto simp: held_def counted_def count_purge)
qed

lemma record_failure_held:
  assumes r: "record_failure tm c username ip now d = Inr d'" "lt_enabled c"
    and c: "validate_login_throttle c = Inr c" "lt_lockout_seconds c < 2 ^ 53" "pow_ok tm"
    and h: "held c x t0 t1 k d"
    and t: "t0 \<le> now" "now < t1" "window_start c now \<le> t0" "t1 \<le> now + lt_lockout_seconds c * SECOND"
    and free: "x \<in> set (identities username ip) \<Longrightarrow> counted c x t0 k d"
  shows "held c x t0 t1 (k + (if x \<in> set (identities username ip) then 1 else 0)) d'"
proof -
  let ?u = "(SCOPE_USERNAME, normalize_username username)" and ?i = "(SCOPE_IP, normalize_ip ip)"
  let ?d0 = "purge_lockouts_before (backoff_memory_start c now) (purge_attempts_before (window_start c now) d)"
  obtain d1 where d1: "count_and_lock tm c now ?u ?d0 = Inr d1" and d2: "count_and_lock tm c now ?i d1 = Inr d'"
    using r by (auto simp: record_failure_def identities_def bindE_Inr_iff)
  have "backoff_memory_start c now \<le> t1"
    using t valid_throttle [OF c(1)] by (simp add: backoff_memory_start_def SECOND_def)
  with h t have h0: "held c x t0 t1 k ?d0" by (intro held_purged)
  have k0: "counted c x t0 k ?d0" if "x \<in> set (identities username ip)"
    using free [OF that] t by (simp add: counted_def count_purge)
  note self = count_and_lock_self [OF _ c _ t(1,3,4)]
  consider (user) "x = ?u" | (ip) "x = ?i" | (other) "x \<noteq> ?u" "x \<noteq> ?i" by blast
  then show ?thesis
  proof cases
    case user
    then have "held c x t0 t1 (k + 1) d1" using self d1 k0 by (simp add: identities_def)
    with user show ?thesis
      using count_and_lock_other [OF d2] by (simp add: held_def counted_def identities_def)
  next
    case ip
    then have "counted c x t0 k d1"
      using k0 count_and_lock_other [OF d1] by (simp add: counted_def identities_def)
    with ip show ?thesis using self d2 by (simp add: identities_def)
  next
    case other
    with h0 show ?thesis
      using count_and_lock_other [OF d1] count_and_lock_other [OF d2]
      by (simp add: held_def counted_def identities_def)
  qed
qed

text \<open>An identity that is locked is refused before the password is looked at.\<close>

lemma locked_identity_refused:
  assumes "lt_enabled c" "x \<in> set (identities username ip)" "get_lockout x d = Some l" "now < lo_locked_until l"
  shows "td_locked (check_lockout c username ip now d)"
proof -
  have "active_lockouts (identities username ip) now d \<noteq> []"
    using assms(2-4) by (auto simp: active_lockouts_def filter_empty_conv intro!: bexI [of _ x])
  with assms(1) show ?thesis
    by (cases "active_lockouts (identities username ip) now d") (auto simp: check_lockout_def split: prod.split)
qed

text \<open>A refusal by password counts against both identities of the request.\<close>

definition refusals :: "identity \<Rightarrow> (login_request \<times> login_answer) list \<Rightarrow> int" where
  "refusals x tr = int (length (filter (\<lambda>(r, answer).
     x \<in> set (identities (lr_username r) (lr_ip r)) \<and> answer = Login_error 401 None) tr))"

text \<open>A login that succeeds forgets the failures and lockouts of its own identities only.\<close>

lemma clear_other:
  assumes "x \<noteq> y"
  shows "count_failures_since x t0 (clear_lockout y (clear_attempts y d)) = count_failures_since x t0 d"
    "get_lockout x (clear_lockout y (clear_attempts y d)) = get_lockout x d"
proof -
  have "count_failures_since x t0 (clear_lockout y b) = count_failures_since x t0 b" for b
    by (simp add: count_failures_since_def clear_lockout_def)
  with count_clear [OF assms] show "count_failures_since x t0 (clear_lockout y (clear_attempts y d)) = count_failures_since x t0 d"
    by simp
  have "find (\<lambda>l. lo_identity l = x) (filter (\<lambda>l. lo_identity l \<noteq> y) ls) = find (\<lambda>l. lo_identity l = x) ls"
    for ls :: "login_lockout list"
    using assms by (induction ls) auto
  then show "get_lockout x (clear_lockout y (clear_attempts y d)) = get_lockout x d"
    by (simp add: get_lockout_def clear_lockout_def clear_attempts_def)
qed

lemma clear_throttle_held:
  "x \<notin> set (identities username ip) \<Longrightarrow> held c x t0 t1 k d \<Longrightarrow> held c x t0 t1 k (clear_throttle c username ip d)"
  by (simp add: clear_throttle_def identities_def held_def counted_def clear_other)

lemma login_held:
  assumes l: "login tm verify dummy a c now ip username password d = (answer, d')" "lt_enabled c"
    and c: "validate_login_throttle c = Inr c" "lt_lockout_seconds c < 2 ^ 53" "pow_ok tm"
    and h: "held c x t0 t1 k d" and no: "x \<in> set (identities username ip) \<Longrightarrow> answer \<noteq> Login_ok"
    and t: "t0 \<le> now" "now < t1" "window_start c now \<le> t0" "t1 \<le> now + lt_lockout_seconds c * SECOND"
  shows "held c x t0 t1 (k + (if x \<in> set (identities username ip) \<and> answer = Login_error 401 None then 1 else 0)) d'"
proof (cases "answer = Login_error 401 None")
  case False
  show ?thesis
  proof (cases "answer = Login_ok")
    case True
    with l no have "d' = clear_throttle c username ip d" "x \<notin> set (identities username ip)"
      by (auto simp: login_def Let_def split: if_splits sum.splits)
    with clear_throttle_held [OF _ h] True show ?thesis by simp
  next
    case nok: False
    with l h False show ?thesis by (auto simp: login_def Let_def split: if_splits sum.splits)
  qed
next
  case True
  with l have r: "record_failure tm c username ip now d = Inr d'"
    and free: "\<not> td_locked (check_lockout c username ip now d)"
    by (auto simp: login_def Let_def split: if_splits sum.splits)
  have "counted c x t0 k d" if "x \<in> set (identities username ip)"
  proof -
    have "\<not> (\<exists>l. get_lockout x d = Some l \<and> t1 \<le> lo_locked_until l)"
      using locked_identity_refused [OF l(2) that] free t by fastforce
    with h show ?thesis by (simp add: held_def)
  qed
  with True show ?thesis using record_failure_held [OF r l(2) c h t] by simp
qed

definition no_success_of :: "identity \<Rightarrow> (login_request \<times> login_answer) list \<Rightarrow> bool" where
  "no_success_of x tr \<longleftrightarrow>
     (\<forall>(r, answer) \<in> set tr. x \<in> set (identities (lr_username r) (lr_ip r)) \<longrightarrow> answer \<noteq> Login_ok)"

lemma login_run_held:
  assumes "lt_enabled c" "validate_login_throttle c = Inr c" "lt_lockout_seconds c < 2 ^ 53" "pow_ok tm"
    and "held c x t0 t1 k d"
    and "\<forall>r\<in>set rs. t0 \<le> lr_now r \<and> lr_now r < t1 \<and> window_start c (lr_now r) \<le> t0
           \<and> t1 \<le> lr_now r + lt_lockout_seconds c * SECOND"
    and "no_success_of x (login_run tm verify dummy a c rs d)"
  shows "k + refusals x (login_run tm verify dummy a c rs d) \<le> max_failures c (fst x)"
  using assms(5-7)
proof (induction rs arbitrary: d k)
  case Nil
  then show ?case by (auto simp: refusals_def held_def counted_def)
next
  case (Cons r rs)
  obtain answer d' where l: "login tm verify dummy a c (lr_now r) (lr_ip r) (lr_username r) (lr_password r) d = (answer, d')"
    by fastforce
  have "held c x t0 t1 (k + (if x \<in> set (identities (lr_username r) (lr_ip r)) \<and> answer = Login_error 401 None then 1 else 0)) d'"
    using Cons.prems l by (intro login_held [OF l assms(1-4)]) (auto simp: no_success_of_def)
  from Cons.IH [OF this] Cons.prems l show ?case
    by (cases "x \<in> set (identities (lr_username r) (lr_ip r)) \<and> answer = Login_error 401 None")
       (auto simp: refusals_def no_success_of_def)
qed

end
