(* ===== verification/AuthProperties.thy ===== *)
theory AuthProperties
  imports AuthTokens LoginThrottle
begin

text \<open>
  The properties of the dashboard's login and of its session tokens, with their witnesses.
\<close>

definition sample_throttle :: login_throttle_config where
  "sample_throttle = \<lparr>lt_enabled = True, lt_max_failures_per_username = 2, lt_max_failures_per_ip = 20,
     lt_window_seconds = 900, lt_lockout_seconds = 300, lt_lockout_backoff_factor = 2,
     lt_max_lockout_seconds = 3600\<rparr>"

definition sample_math :: throttle_math where
  "sample_math = \<lparr>tm_log = (\<lambda>x. x), tm_pow = (\<lambda>b n. b ^ n)\<rparr>"







lemma sample_math_ok: "pow_ok sample_math"
  by (simp add: pow_ok_def sample_math_def one_le_power)


text \<open>
  A lockout, whatever the number of relapses, is computed without an error and lasts at least the base time
  and at most the configured ceiling.
\<close>

theorem lockout_seconds_bounded:
  assumes "validate_login_throttle c = Inr c" "lt_lockout_seconds c < 2 ^ 53" "pow_ok tm" "1 \<le> k"
  shows "\<exists>s. compute_lockout_seconds tm k c = Inr s \<and> lt_lockout_seconds c \<le> s \<and> s \<le> lt_max_lockout_seconds c"
  using compute_lockout_bounds [OF assms] by blast

theorem lockout_seconds_bounded_witness:
  "\<exists>s. compute_lockout_seconds sample_math 3 sample_throttle = Inr s \<and> 300 \<le> s \<and> s \<le> 3600"
  using lockout_seconds_bounded [of sample_throttle sample_math 3] sample_math_ok
  by (simp add: sample_throttle_def validate_login_throttle_def)

subsection \<open>A codec for the witnesses\<close>

text \<open>Numbers in unary, each closed by a letter; a payload is the list of its characters and instants.\<close>

primrec write_nats :: "nat list \<Rightarrow> string" where
  "write_nats [] = ''e''"
| "write_nats (n # ns) = replicate n (CHR ''i'') @ CHR ''n'' # write_nats ns"

fun read_nats :: "nat \<Rightarrow> string \<Rightarrow> nat list" where
  "read_nats k [] = []"
| "read_nats k (c # s) =
     (if c = CHR ''i'' then read_nats (Suc k) s
      else if c = CHR ''n'' then k # read_nats 0 s
      else [])"

definition payload_nats :: "token_payload \<Rightarrow> nat list" where
  "payload_nats p = length (tp_sub p) # map of_char (tp_sub p)
     @ [nat (tp_iat p), nat (- tp_iat p), nat (tp_exp p), nat (- tp_exp p)] @ map of_char (tp_jti p)"

fun nats_payload :: "nat list \<Rightarrow> token_payload option" where
  "nats_payload [] = None"
| "nats_payload (n # ns) =
     (case drop n ns of
        a # b # c # d # js \<Rightarrow>
          Some \<lparr>tp_sub = map char_of (take n ns), tp_iat = int a - int b, tp_exp = int c - int d,
                tp_jti = map char_of js\<rparr>
      | _ \<Rightarrow> None)"

definition sample_codec :: token_lib where
  "sample_codec = \<lparr>tl_write = (\<lambda>p. write_nats (payload_nats p)), tl_read = (\<lambda>s. nats_payload (read_nats 0 s)),
     tl_sign = (\<lambda>x k. ''s'' @ write_nats [length x + length k])\<rparr>"

lemma read_replicate: "read_nats k (replicate n (CHR ''i'') @ s) = read_nats (k + n) s"
  by (induction n arbitrary: k) auto

lemma read_write: "read_nats 0 (write_nats ns) = ns"
  by (induction ns) (simp_all add: read_replicate)

lemma write_nats_chars: "set (write_nats ns) \<subseteq> {CHR ''e'', CHR ''i'', CHR ''n''}"
  by (induction ns) auto

lemma write_nats_plain: "is_ascii (write_nats ns)" "CHR ''.'' \<notin> set (write_nats ns)" "write_nats ns \<noteq> []"
  using write_nats_chars [of ns] by (auto simp: is_ascii_def list_all_iff) (cases ns; simp)

lemma sample_codec_ok: "codec_ok sample_codec"
proof -
  have "nats_payload (payload_nats p) = Some p" for p
    by (cases p) (auto simp: payload_nats_def o_def)
  moreover have "is_ascii (''s'' @ write_nats ns)" for ns
    using write_nats_plain(1) [of ns] by (simp add: is_ascii_def)
  ultimately show ?thesis
    by (simp add: codec_ok_def sample_codec_def read_write write_nats_plain del: append_Cons write_nats.simps)
qed

text \<open>
  A token that was issued is accepted with the same key until the second in which it expires, and its
  claims are those of the issue, with the instants cut to whole seconds; from its expiry on it is rejected as
  expired, and never as invalid.
\<close>

theorem token_roundtrip:
  assumes "codec_ok lib" "issue_token lib user key ttl jti now = (token, claims)"
  shows "verify_token lib token key later
    = (if (tc_expires_at claims div MICROSECOND) * MICROSECOND \<le> later then Inl TokenExpired
       else Inr (claims\<lparr>tc_issued_at := (now div MICROSECOND) * MICROSECOND,
                        tc_expires_at := (tc_expires_at claims div MICROSECOND) * MICROSECOND\<rparr>))"
  using assms by (auto simp: codec_ok_def issue_token_def verify_token_def Let_def partition_dot_append)

text \<open>
  C40. With authentication enabled a request passes only with a bearer token whose signature is that of its
  payload under the secret key, and whose expiry lies in the future; the claims are those of the signed
  payload.
\<close>

theorem access_needs_signed_token:
  assumes "require_auth lib True key header jti now = Inr claims"
  shows "\<exists>h payload p. header = Some h \<and> map lower_ascii (take 7 h) = ''bearer ''
     \<and> strip_chars py_blank (drop 7 h) = payload @ CHR ''.'' # tl_sign lib payload key
     \<and> tl_read lib payload = Some p \<and> now < tc_expires_at claims
     \<and> tc_sub claims = tp_sub p \<and> tc_expires_at claims = tp_exp p * MICROSECOND"
proof -
  obtain token where t: "extract_bearer_token header = Some token" and v: "verify_token lib token key now = Inr claims"
    using assms by (auto simp: require_auth_def split: option.splits sum.splits)
  then obtain h where h: "header = Some h" "map lower_ascii (take 7 h) = ''bearer ''"
      "token = strip_chars py_blank (drop 7 h)"
    by (auto simp: extract_bearer_token_def Let_def take_map split: option.splits if_splits)
  obtain payload p where "token = payload @ CHR ''.'' # tl_sign lib payload key" "tl_read lib payload = Some p"
      "now < tp_exp p * MICROSECOND" "tc_sub claims = tp_sub p" "tc_expires_at claims = tp_exp p * MICROSECOND"
    using verify_token_Inr [OF v] by (metis token_claims.select_convs)
  with h show ?thesis
    by (intro exI [of _ h] exI [of _ payload] exI [of _ p] conjI) simp_all
qed

definition sample_token :: string where
  "sample_token = fst (issue_token sample_codec ''ab'' ''key'' 5 ''j'' 7500000)"

theorem token_roundtrip_witness:
  "verify_token sample_codec sample_token ''key'' 11999999
     = Inr \<lparr>tc_sub = ''ab'', tc_issued_at = 7000000, tc_expires_at = 12000000, tc_jti = ''j''\<rparr>
   \<and> verify_token sample_codec sample_token ''key'' 12000000 = Inl TokenExpired"
proof -
  obtain claims where i: "issue_token sample_codec ''ab'' ''key'' 5 ''j'' 7500000 = (sample_token, claims)"
    by (simp add: sample_token_def prod_eq_iff)
  have claims: "claims = \<lparr>tc_sub = ''ab'', tc_issued_at = 7500000, tc_expires_at = 12500000, tc_jti = ''j''\<rparr>"
    using arg_cong [OF i, of snd] by (simp add: issue_token_def Let_def MICROSECOND_def)
  show ?thesis
    using token_roundtrip [OF sample_codec_ok i, of 11999999] token_roundtrip [OF sample_codec_ok i, of 12000000]
    by (simp add: claims MICROSECOND_def)
qed

lemma sample_token_plain: "strip_chars py_blank sample_token = sample_token" "sample_token \<noteq> []"
proof -
  have "set sample_token \<subseteq> {CHR ''e'', CHR ''i'', CHR ''n'', CHR ''.'', CHR ''s''}"
    using write_nats_chars by (force simp: sample_token_def issue_token_def Let_def sample_codec_def)
  then have plain: "\<forall>c \<in> set sample_token. \<not> py_blank c" by (force simp: py_blank_def)
  have drop: "dropWhile py_blank xs = xs" if "\<forall>c \<in> set xs. \<not> py_blank c" for xs using that by (cases xs) auto
  show "strip_chars py_blank sample_token = sample_token"
    using drop [OF plain] drop [of "rev sample_token"] plain by (simp add: strip_chars_def)
  show "sample_token \<noteq> []" by (simp add: sample_token_def issue_token_def Let_def)
qed

lemma sample_token_verifies:
  "verify_token sample_codec sample_token ''key'' 8000000
     = Inr \<lparr>tc_sub = ''ab'', tc_issued_at = 7000000, tc_expires_at = 12000000, tc_jti = ''j''\<rparr>"
proof -
  obtain claims where i: "issue_token sample_codec ''ab'' ''key'' 5 ''j'' 7500000 = (sample_token, claims)"
    by (simp add: sample_token_def prod_eq_iff)
  have claims: "claims = \<lparr>tc_sub = ''ab'', tc_issued_at = 7500000, tc_expires_at = 12500000, tc_jti = ''j''\<rparr>"
    using arg_cong [OF i, of snd] by (simp add: issue_token_def Let_def MICROSECOND_def)
  show ?thesis
    using token_roundtrip [OF sample_codec_ok i, of 8000000]
    by (simp add: claims MICROSECOND_def)
qed

theorem access_needs_signed_token_witness:
  "\<exists>h payload p. Some (''Bearer '' @ sample_token) = Some h \<and> map lower_ascii (take 7 h) = ''bearer ''
     \<and> strip_chars py_blank (drop 7 h) = payload @ CHR ''.'' # tl_sign sample_codec payload ''key''
     \<and> tl_read sample_codec payload = Some p \<and> 8000000 < (12000000 :: int)
     \<and> ''ab'' = tp_sub p \<and> 12000000 = tp_exp p * MICROSECOND"
proof -
  have "require_auth sample_codec True ''key'' (Some (''Bearer '' @ sample_token)) ''x'' 8000000
      = Inr \<lparr>tc_sub = ''ab'', tc_issued_at = 7000000, tc_expires_at = 12000000, tc_jti = ''j''\<rparr>"
  proof -
    have "map lower_ascii ''Bearer '' = ''bearer ''" by code_simp
    then have "extract_bearer_token (Some (''Bearer '' @ sample_token)) = Some sample_token"
      using sample_token_plain by (simp add: extract_bearer_token_def Let_def)
    then show ?thesis using sample_token_verifies by (simp add: require_auth_def)
  qed
  from access_needs_signed_token [OF this] show ?thesis by simp
qed

end
