(* ===== verification/BacktestMetrics.thy ===== *)
theory BacktestMetrics
  imports ExitLogic Costs QuantSignals
begin

text \<open>
  \<^verbatim>\<open>backend/backtesting/schemas.py\<close> and \<^verbatim>\<open>metrics.py\<close>: what a backtest reads and produces, with the validators,
  and the aggregation of the closed trades. Amounts are decimals, ratios floats; the square root and the power
  of floats are those of the library \<open>math\<close>. Identifiers that nothing reads are left out.
\<close>

subsection \<open>Schemas\<close>

record candle_row =
  cdr_timestamp :: int
  cdr_open :: rat
  cdr_high :: rat
  cdr_low :: rat
  cdr_close :: rat
  cdr_volume :: rat
  cdr_funding_rate :: rat

definition make_candle_row :: "candle_row \<Rightarrow> candle_row result" where
  "make_candle_row c =
     (if \<not> (cdr_low c \<le> cdr_open c \<and> cdr_open c \<le> cdr_high c) then Inl ValidationError
      else if \<not> (cdr_low c \<le> cdr_close c \<and> cdr_close c \<le> cdr_high c) then Inl ValidationError
      else if cdr_volume c < 0 then Inl ValidationError
      else Inr c)"

datatype signal_action = SIGNAL_LONG | SIGNAL_SHORT | SIGNAL_CLOSE | SIGNAL_NO_OP

record trade_signal =
  tsg_action :: signal_action
  tsg_stop_loss :: "rat option"
  tsg_take_profit :: "rat option"
  tsg_take_profit_levels :: "take_profit_level list"
  tsg_leverage :: int
  tsg_margin_usdt :: rat

definition opens :: "signal_action \<Rightarrow> bool" where
  "opens a \<longleftrightarrow> a = SIGNAL_LONG \<or> a = SIGNAL_SHORT"

definition make_trade_signal :: "trade_signal \<Rightarrow> trade_signal result" where
  "make_trade_signal s =
     (if \<not> (1 \<le> tsg_leverage s \<and> tsg_leverage s \<le> 10) then Inl ValidationError
      else if \<not> 0 < tsg_margin_usdt s then Inl ValidationError
      else if opens (tsg_action s) then
        (if tsg_stop_loss s = None then Inl ValidationError
         else if tsg_take_profit s = None \<and> tsg_take_profit_levels s = [] then Inl ValidationError
         else if tsg_take_profit s \<noteq> None \<and> tsg_take_profit_levels s \<noteq> [] then Inl ValidationError
         else if tsg_take_profit_levels s \<noteq> [] \<and> tl_close_fraction (List.last (tsg_take_profit_levels s)) \<noteq> 1
         then Inl ValidationError
         else Inr s)
      else Inr s)"

datatype position_side = SIDE_LONG | SIDE_SHORT

record open_position =
  bpo_side :: position_side
  bpo_entry_candle_index :: nat
  bpo_entry_price :: rat
  bpo_stop_loss :: rat
  bpo_take_profit :: "rat option"
  bpo_take_profit_levels :: "take_profit_level list"
  bpo_leverage :: int
  bpo_margin_usdt :: rat
  bpo_notional_usdt :: rat
  bpo_quantity :: rat
  bpo_entry_fee_usdt :: rat
  bpo_entry_slippage_usdt :: rat
  bpo_accrued_funding_usdt :: rat

definition make_open_position :: "open_position \<Rightarrow> open_position result" where
  "make_open_position p =
     (if bpo_take_profit p \<noteq> None \<and> bpo_take_profit_levels p \<noteq> [] then Inl ValidationError
      else if bpo_take_profit_levels p \<noteq> [] \<and> tl_close_fraction (List.last (bpo_take_profit_levels p)) \<noteq> 1
      then Inl ValidationError
      else Inr p)"

datatype exit_reason = EXIT_SL | EXIT_TP | EXIT_TP_PARTIAL | EXIT_CLOSE_SIGNAL | EXIT_END_OF_DATA

record closed_trade =
  ctr_side :: position_side
  ctr_entry_candle_index :: nat
  ctr_exit_candle_index :: nat
  ctr_entry_price :: rat
  ctr_exit_price :: rat
  ctr_exit_reason :: exit_reason
  ctr_leverage :: int
  ctr_margin_usdt :: rat
  ctr_notional_usdt :: rat
  ctr_gross_pnl_usdt :: rat
  ctr_entry_fee_usdt :: rat
  ctr_exit_fee_usdt :: rat
  ctr_entry_slippage_usdt :: rat
  ctr_exit_slippage_usdt :: rat
  ctr_funding_cost_usdt :: rat
  ctr_net_pnl_usdt :: rat
  ctr_hold_candles :: int
  ctr_is_partial :: bool

definition make_closed_trade :: "closed_trade \<Rightarrow> closed_trade result" where
  "make_closed_trade t =
     (if ctr_is_partial t \<noteq> (ctr_exit_reason t = EXIT_TP_PARTIAL) then Inl ValidationError else Inr t)"

record backtest_config =
  btc_symbol :: string
  btc_timeframe :: string
  btc_initial_balance_usdt :: rat
  btc_latency_candles :: int

definition make_backtest_config :: "backtest_config \<Rightarrow> backtest_config result" where
  "make_backtest_config c =
     (if 0 < btc_initial_balance_usdt c \<and> 0 \<le> btc_latency_candles c then Inr c else Inl ValidationError)"

text \<open>A float that may be \<^verbatim>\<open>inf\<close>.\<close>

datatype profit_factor = Finite rat | Infinite

record backtest_result =
  btr_symbol :: string
  btr_timeframe :: string
  btr_candles_processed :: nat
  btr_trades :: "closed_trade list"
  btr_total_trades :: nat
  btr_winning_trades :: nat
  btr_losing_trades :: nat
  btr_win_rate :: "rat option"
  btr_profit_factor :: "profit_factor option"
  btr_expectancy_usdt :: "rat option"
  btr_max_drawdown_pct :: "rat option"
  btr_sharpe_ratio :: "rat option"
  btr_sortino_ratio :: "rat option"
  btr_total_gross_pnl :: rat
  btr_total_fees_paid :: rat
  btr_total_slippage_cost :: rat
  btr_total_funding_cost :: rat
  btr_total_net_pnl :: rat
  btr_final_balance_usdt :: rat

subsection \<open>Metrics\<close>

definition profit_factor_of :: "closed_trade list \<Rightarrow> profit_factor option" where
  "profit_factor_of trades =
     (let wins = fsum (map (\<lambda>t. fl (ctr_net_pnl_usdt t)) (filter (\<lambda>t. 0 < ctr_net_pnl_usdt t) trades));
          losses = fsum (map (\<lambda>t. \<bar>fl (ctr_net_pnl_usdt t)\<bar>) (filter (\<lambda>t. ctr_net_pnl_usdt t \<le> 0) trades))
      in if losses = 0 then (if wins = 0 then None else Some Infinite) else Some (Finite (fdiv wins losses)))"

definition expectancy :: "closed_trade list \<Rightarrow> rat option result" where
  "expectancy trades =
     (if trades = [] then Inr None
      else map_sum id Some (quantize8 (ddiv (dsum (map ctr_net_pnl_usdt trades)) (of_nat (length trades)))))"

text \<open>The equity, its peak and the greatest drawdown so far.\<close>

definition drawdown_step :: "closed_trade \<Rightarrow> rat \<times> rat \<times> rat \<Rightarrow> rat \<times> rat \<times> rat" where
  "drawdown_step t s =
     (case s of (equity, peak, max_dd) \<Rightarrow>
        let equity = dadd equity (ctr_net_pnl_usdt t);
            peak = (if peak < equity then equity else peak);
            drawdown = (if 0 < peak then fl (ddiv (dsub peak equity) peak) else 0)
        in (equity, peak, if max_dd < drawdown then drawdown else max_dd))"

definition max_drawdown :: "closed_trade list \<Rightarrow> rat \<Rightarrow> rat option" where
  "max_drawdown trades initial_balance =
     (if trades = [] then None
      else Some (snd (snd (fold drawdown_step trades (initial_balance, initial_balance, 0)))))"

definition mean_return :: "rat list \<Rightarrow> rat" where
  "mean_return returns = fdiv (fsum returns) (of_nat (length returns))"

definition sharpe_ratio :: "math_lib \<Rightarrow> closed_trade list \<Rightarrow> rat option" where
  "sharpe_ratio math trades =
     (if length trades < 2 then None
      else let returns = map (\<lambda>t. fl (ctr_net_pnl_usdt t)) trades;
               mean_r = mean_return returns;
               variance = fdiv (fsum (map (\<lambda>r. m_square math (fsub r mean_r)) returns)) (of_nat (length returns - 1));
               std = m_sqrt math variance
           in if std = 0 then None else Some (fdiv (fsub mean_r 0) std))"

definition sortino_ratio :: "math_lib \<Rightarrow> closed_trade list \<Rightarrow> rat option" where
  "sortino_ratio math trades =
     (if length trades < 2 then None
      else let returns = map (\<lambda>t. fl (ctr_net_pnl_usdt t)) trades;
               mean_r = mean_return returns;
               downside_sq = map (\<lambda>r. m_square math (fsub r 0)) (filter (\<lambda>r. r < 0) returns) in
        if downside_sq = [] then None
        else let downside_std = m_sqrt math (fdiv (fsum downside_sq) (of_nat (length downside_sq)))
             in if downside_std = 0 then None else Some (fdiv (fsub mean_r 0) downside_std))"

definition compute_backtest_metrics ::
    "math_lib \<Rightarrow> closed_trade list \<Rightarrow> backtest_config \<Rightarrow> nat \<Rightarrow> backtest_result result" where
  "compute_backtest_metrics math trades c candles_processed =
     (let total = length trades;
          winning = length (filter (\<lambda>t. 0 < ctr_net_pnl_usdt t) trades);
          losing = length (filter (\<lambda>t. ctr_net_pnl_usdt t \<le> 0) trades);
          net_pnl = dsum (map ctr_net_pnl_usdt trades) in
      bindE (expectancy trades) (\<lambda>expectancy_usdt.
      bindE (quantize8 (dsum (map ctr_gross_pnl_usdt trades))) (\<lambda>gross.
      bindE (quantize8 (dsum (map (\<lambda>t. dadd (ctr_entry_fee_usdt t) (ctr_exit_fee_usdt t)) trades))) (\<lambda>fees.
      bindE (quantize8 (dsum (map (\<lambda>t. dadd (ctr_entry_slippage_usdt t) (ctr_exit_slippage_usdt t)) trades))) (\<lambda>slippage.
      bindE (quantize8 (dsum (map ctr_funding_cost_usdt trades))) (\<lambda>funding.
      bindE (quantize8 net_pnl) (\<lambda>net.
      bindE (quantize8 (dadd (btc_initial_balance_usdt c) net_pnl)) (\<lambda>final_balance.
      Inr \<lparr>btr_symbol = btc_symbol c, btr_timeframe = btc_timeframe c, btr_candles_processed = candles_processed,
           btr_trades = trades, btr_total_trades = total, btr_winning_trades = winning, btr_losing_trades = losing,
           btr_win_rate = (if 0 < total then Some (fdiv (of_nat winning) (of_nat total)) else None),
           btr_profit_factor = profit_factor_of trades, btr_expectancy_usdt = expectancy_usdt,
           btr_max_drawdown_pct = max_drawdown trades (btc_initial_balance_usdt c),
           btr_sharpe_ratio = sharpe_ratio math trades, btr_sortino_ratio = sortino_ratio math trades,
           btr_total_gross_pnl = gross, btr_total_fees_paid = fees, btr_total_slippage_cost = slippage,
           btr_total_funding_cost = funding, btr_total_net_pnl = net, btr_final_balance_usdt = final_balance\<rparr>))))))))"

end
