(* ===== verification/Backtest.thy ===== *)
theory Backtest
  imports BacktestMetrics
begin

text \<open>
  \<^verbatim>\<open>backend/backtesting/engine.py\<close> with \<^verbatim>\<open>latency_model.py\<close> and \<^verbatim>\<open>partial_fill_model.py\<close>: the simulation of a
  strategy candle by candle. The signal provider is a function of the index and of the history that it is
  given; a deterministic provider with a state of its own is one too, since its earlier calls are determined by
  the history.
\<close>

subsection \<open>Latency and partial fills\<close>

definition make_latency_model :: "int \<Rightarrow> int result" where
  "make_latency_model extra_candles = (if extra_candles < 0 then Inl ValueError else Inr extra_candles)"

definition fill_candle_offset :: "int \<Rightarrow> nat" where
  "fill_candle_offset extra_candles = nat (1 + extra_candles)"

definition make_partial_fill_model :: "rat \<Rightarrow> rat result" where
  "make_partial_fill_model fill_ratio = (if 0 \<le> fill_ratio \<and> fill_ratio \<le> 1 then Inr fill_ratio else Inl ValueError)"

definition partial_fill_compute :: "rat \<Rightarrow> rat \<Rightarrow> rat result" where
  "partial_fill_compute fill_ratio requested_quantity =
     (if requested_quantity < 0 then Inl ValueError else quantize8 (dmul requested_quantity fill_ratio))"

definition fill_is_partial :: "rat \<Rightarrow> rat \<Rightarrow> bool result" where
  "fill_is_partial fill_ratio requested_quantity =
     bindE (partial_fill_compute fill_ratio requested_quantity) (\<lambda>q. Inr (q < requested_quantity))"

subsection \<open>The engine\<close>

record backtest_engine =
  bte_config :: backtest_config
  bte_fee :: fee_model
  bte_slip :: slippage_model
  bte_latency :: int
  bte_fill_ratio :: rat
  bte_partial_close_enabled :: bool

type_synonym signal_provider = "nat \<Rightarrow> candle_row list \<Rightarrow> trade_signal result"

definition backtest_engine_init ::
    "backtest_config \<Rightarrow> fee_model option \<Rightarrow> slippage_model option \<Rightarrow> int option \<Rightarrow> rat option \<Rightarrow> bool
     \<Rightarrow> backtest_engine result" where
  "backtest_engine_init c fee slip latency fill_ratio partial_close_enabled =
     bindE (case latency of None \<Rightarrow> make_latency_model (btc_latency_candles c) | Some l \<Rightarrow> Inr l) (\<lambda>l.
     Inr \<lparr>bte_config = c, bte_fee = (case fee of None \<Rightarrow> fee_model_default | Some f \<Rightarrow> f),
          bte_slip = (case slip of None \<Rightarrow> slippage_model_default | Some s \<Rightarrow> s), bte_latency = l,
          bte_fill_ratio = (case fill_ratio of None \<Rightarrow> 1 | Some r \<Rightarrow> r),
          bte_partial_close_enabled = partial_close_enabled\<rparr>)"

text \<open>The entry, at the open of the candle; \<open>None\<close> when nothing was filled.\<close>

definition build_position ::
    "backtest_engine \<Rightarrow> trade_signal \<Rightarrow> rat \<Rightarrow> nat \<Rightarrow> bool \<Rightarrow> rat \<Rightarrow> open_position option result" where
  "build_position e s open_price i using_levels stop_loss =
     bindE (slippage_apply (bte_slip e) open_price (if tsg_action s = SIGNAL_LONG then ''BUY'' else ''SELL'') ''MARKET'')
       (\<lambda>fill_price.
     bindE (quantize8 (dmul (tsg_margin_usdt s) (of_int (tsg_leverage s)))) (\<lambda>requested_notional.
     bindE (decimal_div requested_notional fill_price) (\<lambda>raw_quantity.
     bindE (quantize8 raw_quantity) (\<lambda>requested_quantity.
     bindE (quantize8 (dmul requested_quantity (bte_fill_ratio e))) (\<lambda>quantity.
     if quantity \<le> 0 then Inr None
     else
     bindE (quantize8 (dmul requested_notional (bte_fill_ratio e))) (\<lambda>notional.
     bindE (quantize8 (dmul (tsg_margin_usdt s) (bte_fill_ratio e))) (\<lambda>margin_usdt.
     bindE (fee_calculate (bte_fee e) notional ''MARKET'') (\<lambda>fee.
     bindE (quantize8 (dmul \<bar>dsub fill_price open_price\<bar> quantity)) (\<lambda>slippage_cost.
     map_sum id Some (make_open_position
       \<lparr>bpo_side = (if tsg_action s = SIGNAL_LONG then SIDE_LONG else SIDE_SHORT), bpo_entry_candle_index = i,
        bpo_entry_price = fill_price, bpo_stop_loss = stop_loss,
        bpo_take_profit = (if using_levels then None else tsg_take_profit s),
        bpo_take_profit_levels = (if using_levels then tsg_take_profit_levels s else []),
        bpo_leverage = tsg_leverage s, bpo_margin_usdt = margin_usdt, bpo_notional_usdt = notional,
        bpo_quantity = quantity, bpo_entry_fee_usdt = fee, bpo_entry_slippage_usdt = slippage_cost,
        bpo_accrued_funding_usdt = 0\<rparr>))))))))))"

definition open_simulated ::
    "backtest_engine \<Rightarrow> trade_signal \<Rightarrow> candle_row \<Rightarrow> nat \<Rightarrow> open_position option result" where
  "open_simulated e s candle i =
     (case tsg_stop_loss s of
        None \<Rightarrow> Inl ValueError
      | Some stop_loss \<Rightarrow>
          let using_levels = (bte_partial_close_enabled e \<and> tsg_take_profit_levels s \<noteq> []) in
          if \<not> using_levels \<and> tsg_take_profit s = None then Inl ValueError
          else build_position e s (cdr_open candle) i using_levels stop_loss)"

text \<open>The gross result of closing \<open>quantity\<close> at \<open>exit_fill\<close>.\<close>

definition gross_pnl_of :: "open_position \<Rightarrow> rat \<Rightarrow> rat \<Rightarrow> rat result" where
  "gross_pnl_of p exit_fill quantity =
     (if bpo_side p = SIDE_LONG then quantize8 (dmul (dsub exit_fill (bpo_entry_price p)) quantity)
      else quantize8 (dmul (dsub (bpo_entry_price p) exit_fill) quantity))"

definition net_pnl_of :: "rat \<Rightarrow> rat \<Rightarrow> rat \<Rightarrow> rat \<Rightarrow> rat \<Rightarrow> rat \<Rightarrow> rat result" where
  "net_pnl_of gross entry_fee exit_fee entry_slip exit_slip funding =
     quantize8 (dsub (dsub (dsub (dsub (dsub gross entry_fee) exit_fee) entry_slip) exit_slip) funding)"

definition exit_side :: "open_position \<Rightarrow> string" where
  "exit_side p = (if bpo_side p = SIDE_LONG then ''SELL'' else ''BUY'')"

definition close_simulated ::
    "backtest_engine \<Rightarrow> open_position \<Rightarrow> rat \<Rightarrow> nat \<Rightarrow> exit_reason \<Rightarrow> string \<Rightarrow> closed_trade result" where
  "close_simulated e p close_price i reason order_type =
     bindE (slippage_apply (bte_slip e) close_price (exit_side p) order_type) (\<lambda>exit_fill.
     bindE (quantize8 (dmul exit_fill (bpo_quantity p))) (\<lambda>exit_notional.
     bindE (fee_calculate (bte_fee e) exit_notional order_type) (\<lambda>exit_fee.
     bindE (gross_pnl_of p exit_fill (bpo_quantity p)) (\<lambda>gross_pnl.
     bindE (quantize8 (dmul \<bar>dsub exit_fill close_price\<bar> (bpo_quantity p))) (\<lambda>exit_slippage.
     bindE (net_pnl_of gross_pnl (bpo_entry_fee_usdt p) exit_fee (bpo_entry_slippage_usdt p) exit_slippage
              (bpo_accrued_funding_usdt p)) (\<lambda>net_pnl.
     bindE (quantize8 (bpo_accrued_funding_usdt p)) (\<lambda>total_funding.
     make_closed_trade
       \<lparr>ctr_side = bpo_side p, ctr_entry_candle_index = bpo_entry_candle_index p, ctr_exit_candle_index = i,
        ctr_entry_price = bpo_entry_price p, ctr_exit_price = exit_fill, ctr_exit_reason = reason,
        ctr_leverage = bpo_leverage p, ctr_margin_usdt = bpo_margin_usdt p,
        ctr_notional_usdt = bpo_notional_usdt p, ctr_gross_pnl_usdt = gross_pnl,
        ctr_entry_fee_usdt = bpo_entry_fee_usdt p, ctr_exit_fee_usdt = exit_fee,
        ctr_entry_slippage_usdt = bpo_entry_slippage_usdt p, ctr_exit_slippage_usdt = exit_slippage,
        ctr_funding_cost_usdt = total_funding, ctr_net_pnl_usdt = net_pnl,
        ctr_hold_candles = int i - int (bpo_entry_candle_index p), ctr_is_partial = False\<rparr>)))))))"

subsection \<open>Partial closes\<close>

text \<open>The costs that a fraction of the position takes with it.\<close>

definition share :: "rat \<Rightarrow> rat \<Rightarrow> rat result" where
  "share amount fraction = quantize8 (dmul amount fraction)"

definition partial_trade ::
    "backtest_engine \<Rightarrow> open_position \<Rightarrow> take_profit_level \<Rightarrow> rat \<Rightarrow> nat \<Rightarrow> closed_trade result" where
  "partial_trade e p level close_qty i =
     bindE (slippage_apply (bte_slip e) (tl_price level) (exit_side p) ''LIMIT'') (\<lambda>exit_fill.
     bindE (quantize8 (dmul exit_fill close_qty)) (\<lambda>exit_notional.
     bindE (fee_calculate (bte_fee e) exit_notional ''LIMIT'') (\<lambda>exit_fee.
     bindE (gross_pnl_of p exit_fill close_qty) (\<lambda>gross_pnl.
     bindE (share (bpo_entry_fee_usdt p) (tl_close_fraction level)) (\<lambda>entry_fee.
     bindE (share (bpo_entry_slippage_usdt p) (tl_close_fraction level)) (\<lambda>entry_slip.
     bindE (share (bpo_accrued_funding_usdt p) (tl_close_fraction level)) (\<lambda>funding.
     bindE (quantize8 (dmul \<bar>dsub exit_fill (tl_price level)\<bar> close_qty)) (\<lambda>exit_slippage.
     bindE (net_pnl_of gross_pnl entry_fee exit_fee entry_slip exit_slippage funding) (\<lambda>net_pnl.
     bindE (share (bpo_margin_usdt p) (tl_close_fraction level)) (\<lambda>margin_usdt.
     bindE (share (bpo_notional_usdt p) (tl_close_fraction level)) (\<lambda>notional.
     make_closed_trade
       \<lparr>ctr_side = bpo_side p, ctr_entry_candle_index = bpo_entry_candle_index p, ctr_exit_candle_index = i,
        ctr_entry_price = bpo_entry_price p, ctr_exit_price = exit_fill, ctr_exit_reason = EXIT_TP_PARTIAL,
        ctr_leverage = bpo_leverage p, ctr_margin_usdt = margin_usdt, ctr_notional_usdt = notional,
        ctr_gross_pnl_usdt = gross_pnl, ctr_entry_fee_usdt = entry_fee, ctr_exit_fee_usdt = exit_fee,
        ctr_entry_slippage_usdt = entry_slip, ctr_exit_slippage_usdt = exit_slippage,
        ctr_funding_cost_usdt = funding, ctr_net_pnl_usdt = net_pnl,
        ctr_hold_candles = int i - int (bpo_entry_candle_index p), ctr_is_partial = True\<rparr>)))))))))))"

definition remaining_position :: "open_position \<Rightarrow> take_profit_level \<Rightarrow> rat \<Rightarrow> open_position result" where
  "remaining_position p level close_qty =
     (let remaining_fraction = dsub 1 (tl_close_fraction level) in
      bindE (quantize8 (dsub (bpo_quantity p) close_qty)) (\<lambda>quantity.
      bindE (share (bpo_margin_usdt p) remaining_fraction) (\<lambda>margin_usdt.
      bindE (share (bpo_notional_usdt p) remaining_fraction) (\<lambda>notional.
      bindE (share (bpo_entry_fee_usdt p) remaining_fraction) (\<lambda>entry_fee.
      bindE (share (bpo_entry_slippage_usdt p) remaining_fraction) (\<lambda>entry_slip.
      bindE (share (bpo_accrued_funding_usdt p) remaining_fraction) (\<lambda>funding.
      Inr (p\<lparr>bpo_quantity := quantity, bpo_margin_usdt := margin_usdt, bpo_notional_usdt := notional,
             bpo_entry_fee_usdt := entry_fee, bpo_entry_slippage_usdt := entry_slip,
             bpo_accrued_funding_usdt := funding,
             bpo_take_profit_levels := tl (bpo_take_profit_levels p)\<rparr>))))))))"

definition partial_close_tp ::
    "backtest_engine \<Rightarrow> open_position \<Rightarrow> take_profit_level \<Rightarrow> nat \<Rightarrow> (closed_trade option \<times> open_position option) result" where
  "partial_close_tp e p level i =
     bindE (quantize8 (dmul (bpo_quantity p) (tl_close_fraction level))) (\<lambda>close_qty.
     if close_qty \<le> 0 then Inr (None, Some (p\<lparr>bpo_take_profit_levels := tl (bpo_take_profit_levels p)\<rparr>))
     else bindE (partial_trade e p level close_qty i) (\<lambda>trade.
          bindE (remaining_position p level close_qty) (\<lambda>rest.
          Inr (Some trade, Some rest))))"

subsection \<open>Stops and targets\<close>

definition close_simulated_whole ::
    "backtest_engine \<Rightarrow> open_position \<Rightarrow> rat \<Rightarrow> nat \<Rightarrow> exit_reason \<Rightarrow> string
     \<Rightarrow> (closed_trade option \<times> open_position option) result" where
  "close_simulated_whole e p price i reason order_type =
     bindE (close_simulated e p price i reason order_type) (\<lambda>trade. Inr (Some trade, None))"

definition sl_hit :: "open_position \<Rightarrow> candle_row \<Rightarrow> bool" where
  "sl_hit p candle \<longleftrightarrow>
     (if bpo_side p = SIDE_LONG then cdr_low candle \<le> bpo_stop_loss p else bpo_stop_loss p \<le> cdr_high candle)"

definition target_hit :: "open_position \<Rightarrow> rat \<Rightarrow> candle_row \<Rightarrow> bool" where
  "target_hit p price candle \<longleftrightarrow>
     (if bpo_side p = SIDE_LONG then price \<le> cdr_high candle else cdr_low candle \<le> price)"

definition check_single_tp ::
    "backtest_engine \<Rightarrow> open_position \<Rightarrow> candle_row \<Rightarrow> nat \<Rightarrow> (closed_trade option \<times> open_position option) result" where
  "check_single_tp e p candle i =
     (case bpo_take_profit p of
        None \<Rightarrow> Inr (None, None)
      | Some price \<Rightarrow>
          if target_hit p price candle then close_simulated_whole e p price i EXIT_TP ''LIMIT''
          else Inr (None, None))"

definition check_sl_tp ::
    "backtest_engine \<Rightarrow> open_position \<Rightarrow> candle_row \<Rightarrow> nat \<Rightarrow> (closed_trade option \<times> open_position option) result" where
  "check_sl_tp e p candle i =
     (if sl_hit p candle then close_simulated_whole e p (bpo_stop_loss p) i EXIT_SL ''MARKET''
      else case bpo_take_profit_levels p of
        [] \<Rightarrow> check_single_tp e p candle i
      | level # later \<Rightarrow>
          if \<not> target_hit p (tl_price level) candle then check_single_tp e p candle i
          else if later = [] then close_simulated_whole e p (tl_price level) i EXIT_TP ''LIMIT''
          else partial_close_tp e p level i)"

definition funding_for_candle :: "open_position \<Rightarrow> candle_row \<Rightarrow> rat result" where
  "funding_for_candle p candle =
     bindE (quantize8 (dmul (dmul (bpo_quantity p) (cdr_close candle)) (cdr_funding_rate candle))) (\<lambda>x.
     Inr (if bpo_side p = SIDE_LONG then x else - x))"

subsection \<open>The run\<close>

record backtest_state =
  bts_closed_trades :: "closed_trade list"
  bts_open_pos :: "open_position option"
  bts_pending_entry :: "(trade_signal \<times> nat) option"
  bts_pending_close_index :: "nat option"
  bts_history :: "candle_row list"

definition backtest_start :: backtest_state where
  "backtest_start = \<lparr>bts_closed_trades = [], bts_open_pos = None, bts_pending_entry = None,
     bts_pending_close_index = None, bts_history = []\<rparr>"

text \<open>The five steps of a candle.\<close>

definition fill_phase :: "backtest_engine \<Rightarrow> candle_row \<Rightarrow> nat \<Rightarrow> backtest_state \<Rightarrow> backtest_state result" where
  "fill_phase e candle i st =
     (case bts_pending_entry st of
        None \<Rightarrow> Inr st
      | Some (s, fill_idx) \<Rightarrow>
          if fill_idx \<le> i \<and> bts_open_pos st = None
          then bindE (open_simulated e s candle i) (\<lambda>new_pos.
               Inr (st\<lparr>bts_pending_entry := None,
                       bts_open_pos := (case new_pos of None \<Rightarrow> bts_open_pos st | Some p \<Rightarrow> Some p)\<rparr>))
          else Inr st)"

definition close_phase :: "backtest_engine \<Rightarrow> candle_row \<Rightarrow> nat \<Rightarrow> backtest_state \<Rightarrow> backtest_state result" where
  "close_phase e candle i st =
     (case (bts_pending_close_index st, bts_open_pos st) of
        (Some k, Some p) \<Rightarrow>
          if k \<le> i
          then bindE (close_simulated e p (cdr_open candle) i EXIT_CLOSE_SIGNAL ''MARKET'') (\<lambda>trade.
               Inr (st\<lparr>bts_closed_trades := bts_closed_trades st @ [trade], bts_open_pos := None,
                       bts_pending_close_index := None\<rparr>))
          else Inr st
      | _ \<Rightarrow> Inr st)"

definition exit_phase :: "backtest_engine \<Rightarrow> candle_row \<Rightarrow> nat \<Rightarrow> backtest_state \<Rightarrow> backtest_state result" where
  "exit_phase e candle i st =
     (case bts_open_pos st of
        None \<Rightarrow> Inr st
      | Some p \<Rightarrow>
          bindE (check_sl_tp e p candle i) (\<lambda>(trade, updated).
          Inr (case trade of
                 Some t \<Rightarrow> st\<lparr>bts_closed_trades := bts_closed_trades st @ [t], bts_open_pos := updated\<rparr>
               | None \<Rightarrow> (case updated of None \<Rightarrow> st | Some q \<Rightarrow> st\<lparr>bts_open_pos := Some q\<rparr>))))"

definition funding_phase :: "candle_row \<Rightarrow> backtest_state \<Rightarrow> backtest_state result" where
  "funding_phase candle st =
     (case bts_open_pos st of
        None \<Rightarrow> Inr st
      | Some p \<Rightarrow>
          if cdr_funding_rate candle = 0 then Inr st
          else bindE (funding_for_candle p candle) (\<lambda>payment.
               Inr (st\<lparr>bts_open_pos := Some (p\<lparr>bpo_accrued_funding_usdt
                                                := dadd (bpo_accrued_funding_usdt p) payment\<rparr>)\<rparr>)))"

definition signal_phase :: "backtest_engine \<Rightarrow> signal_provider \<Rightarrow> nat \<Rightarrow> backtest_state \<Rightarrow> backtest_state result" where
  "signal_phase e provider i st =
     bindE (bindE (provider i (bts_history st)) make_trade_signal) (\<lambda>s.
     Inr (if opens (tsg_action s) \<and> bts_open_pos st = None \<and> bts_pending_entry st = None
          then st\<lparr>bts_pending_entry := Some (s, i + fill_candle_offset (bte_latency e))\<rparr>
          else if tsg_action s = SIGNAL_CLOSE \<and> bts_open_pos st \<noteq> None \<and> bts_pending_close_index st = None
          then st\<lparr>bts_pending_close_index := Some (i + fill_candle_offset (bte_latency e))\<rparr>
          else st))"

definition candle_step ::
    "backtest_engine \<Rightarrow> signal_provider \<Rightarrow> candle_row \<Rightarrow> nat \<Rightarrow> backtest_state \<Rightarrow> backtest_state result" where
  "candle_step e provider candle i st =
     bindE (fill_phase e candle i st) (\<lambda>st.
     bindE (close_phase e candle i st) (\<lambda>st.
     bindE (exit_phase e candle i st) (\<lambda>st.
     bindE (funding_phase candle st) (\<lambda>st.
     bindE (signal_phase e provider i st) (\<lambda>st.
     Inr (st\<lparr>bts_history := bts_history st @ [candle]\<rparr>))))))"

fun run_candles ::
    "backtest_engine \<Rightarrow> signal_provider \<Rightarrow> nat \<Rightarrow> candle_row list \<Rightarrow> backtest_state \<Rightarrow> backtest_state result" where
  "run_candles e provider i [] st = Inr st"
| "run_candles e provider i (candle # candles) st =
     bindE (candle_step e provider candle i st) (run_candles e provider (Suc i) candles)"

definition end_of_data :: "backtest_engine \<Rightarrow> candle_row list \<Rightarrow> backtest_state \<Rightarrow> closed_trade list result" where
  "end_of_data e candles st =
     (case bts_open_pos st of
        None \<Rightarrow> Inr (bts_closed_trades st)
      | Some p \<Rightarrow>
          bindE (close_simulated e p (cdr_close (List.last candles)) (length candles - 1) EXIT_END_OF_DATA ''LIMIT'')
            (\<lambda>trade. Inr (bts_closed_trades st @ [trade])))"

definition backtest_run ::
    "math_lib \<Rightarrow> backtest_engine \<Rightarrow> candle_row list \<Rightarrow> signal_provider \<Rightarrow> backtest_result result" where
  "backtest_run math e candles provider =
     (if candles = [] then compute_backtest_metrics math [] (bte_config e) 0
      else bindE (run_candles e provider 0 candles backtest_start) (\<lambda>st.
           bindE (end_of_data e candles st) (\<lambda>trades.
           compute_backtest_metrics math trades (bte_config e) (length candles))))"

end
