(* ===== verification/BacktestFacts.thy ===== *)
theory BacktestFacts
  imports Backtest
begin

text \<open>
  The invariant of a backtest: where every position and every trade come from, and in which order they lie. It
  is proved phase by phase and carried through the candles.
\<close>

subsection \<open>What the steps of a position keep\<close>

definition side_of :: "trade_signal \<Rightarrow> position_side" where
  "side_of s = (if tsg_action s = SIGNAL_LONG then SIDE_LONG else SIDE_SHORT)"

definition order_side_of :: "position_side \<Rightarrow> string" where
  "order_side_of side = (if side = SIDE_LONG then ''BUY'' else ''SELL'')"

text \<open>The trade \<open>t\<close> closes (a part of) the position \<open>p\<close> at candle \<open>i\<close>.\<close>

definition closes :: "open_position \<Rightarrow> nat \<Rightarrow> closed_trade \<Rightarrow> bool" where
  "closes p i t \<longleftrightarrow> ctr_side t = bpo_side p \<and> ctr_entry_candle_index t = bpo_entry_candle_index p
     \<and> ctr_entry_price t = bpo_entry_price p \<and> ctr_exit_candle_index t = i"

definition same_entry :: "open_position \<Rightarrow> open_position \<Rightarrow> bool" where
  "same_entry p q \<longleftrightarrow> bpo_side q = bpo_side p \<and> bpo_entry_candle_index q = bpo_entry_candle_index p
     \<and> bpo_entry_price q = bpo_entry_price p"

lemma same_entry_refl [simp]: "same_entry p p" by (simp add: same_entry_def)

lemma option_case_id [simp]: "(case x of None \<Rightarrow> None | Some y \<Rightarrow> Some y) = x"
  by (cases x) simp_all

declare map_sum_Inr_iff [simp]

lemma open_simulated_Some:
  assumes "open_simulated e s candle i = Inr (Some p)"
  shows "bpo_side p = side_of s" "bpo_entry_candle_index p = i"
    "slippage_apply (bte_slip e) (cdr_open candle) (order_side_of (side_of s)) ''MARKET'' = Inr (bpo_entry_price p)"
    "tsg_stop_loss s = Some (bpo_stop_loss p)"
  using assms
  by (auto simp: open_simulated_def build_position_def bindE_Inr_iff make_open_position_def Let_def side_of_def
      order_side_of_def split: option.splits if_splits)

lemma close_simulated_closes:
  assumes "close_simulated e p price i reason order_type = Inr t"
  shows "closes p i t" "\<not> ctr_is_partial t" "ctr_exit_reason t = reason"
  using assms
  by (auto simp: close_simulated_def bindE_Inr_iff make_closed_trade_def closes_def split: if_splits)

lemma partial_trade_closes:
  assumes "partial_trade e p level q i = Inr t"
  shows "closes p i t" "ctr_is_partial t"
  using assms
  by (auto simp: partial_trade_def bindE_Inr_iff make_closed_trade_def closes_def split: if_splits)

lemma remaining_position_entry: "remaining_position p level q = Inr r \<Longrightarrow> same_entry p r"
  by (auto simp: remaining_position_def Let_def bindE_Inr_iff same_entry_def)

text \<open>A check closes nothing, a part (the rest stays open), or everything.\<close>

lemma check_sl_tp_cases:
  assumes "check_sl_tp e p candle i = Inr (trade, updated)"
  obtains "trade = None" "updated = None"
  | q where "trade = None" "updated = Some q" "same_entry p q"
  | t q where "trade = Some t" "updated = Some q" "closes p i t" "ctr_is_partial t" "same_entry p q"
  | t where "trade = Some t" "updated = None" "closes p i t" "\<not> ctr_is_partial t"
proof -
  have whole: "\<exists>t. trade = Some t \<and> updated = None \<and> closes p i t \<and> \<not> ctr_is_partial t"
    if "close_simulated_whole e p price i reason ot = Inr (trade, updated)" for price reason ot
    using that close_simulated_closes [of e p price i reason ot]
    by (auto simp: close_simulated_whole_def bindE_Inr_iff)
  have single: "(trade = None \<and> updated = None) \<or> (\<exists>t. trade = Some t \<and> updated = None \<and> closes p i t \<and> \<not> ctr_is_partial t)"
    if "check_single_tp e p candle i = Inr (trade, updated)"
    using that whole by (auto simp: check_single_tp_def split: option.splits if_splits)
  have partial: "(\<exists>q. trade = None \<and> updated = Some q \<and> same_entry p q)
      \<or> (\<exists>t q. trade = Some t \<and> updated = Some q \<and> closes p i t \<and> ctr_is_partial t \<and> same_entry p q)"
    if "partial_close_tp e p level i = Inr (trade, updated)" for level
    using that partial_trade_closes [of e p level] remaining_position_entry [of p level]
    by (auto simp: partial_close_tp_def bindE_Inr_iff same_entry_def split: if_splits)
  consider price reason ot where "close_simulated_whole e p price i reason ot = Inr (trade, updated)"
    | "check_single_tp e p candle i = Inr (trade, updated)"
    | level where "partial_close_tp e p level i = Inr (trade, updated)"
    | "trade = None" "updated = None"
    using assms by (auto simp: check_sl_tp_def split: list.splits if_splits)
  then show thesis
    by cases (use whole single partial that in blast)+
qed

subsection \<open>The invariant\<close>

text \<open>A signal that was given on the candles before \<open>j\<close> only, and in time for candle \<open>k\<close>.\<close>

definition signal_at :: "signal_provider \<Rightarrow> candle_row list \<Rightarrow> nat \<Rightarrow> trade_signal result" where
  "signal_at provider candles j = bindE (provider j (take j candles)) make_trade_signal"

definition decided ::
    "backtest_engine \<Rightarrow> signal_provider \<Rightarrow> candle_row list \<Rightarrow> trade_signal \<Rightarrow> nat \<Rightarrow> bool" where
  "decided e provider candles s k \<longleftrightarrow>
     (\<exists>j. j + fill_candle_offset (bte_latency e) \<le> k \<and> signal_at provider candles j = Inr s \<and> opens (tsg_action s))"

definition entry_decided ::
    "backtest_engine \<Rightarrow> signal_provider \<Rightarrow> candle_row list \<Rightarrow> position_side \<Rightarrow> nat \<Rightarrow> rat \<Rightarrow> bool" where
  "entry_decided e provider candles side k price \<longleftrightarrow>
     (\<exists>s. decided e provider candles s k \<and> side = side_of s)
     \<and> slippage_apply (bte_slip e) (cdr_open (candles ! k)) (order_side_of side) ''MARKET'' = Inr price"

text \<open>The order of two trades: the second position opens after the first has closed, or both are parts of one.\<close>

definition before :: "closed_trade \<Rightarrow> closed_trade \<Rightarrow> bool" where
  "before t u \<longleftrightarrow>
     ctr_exit_candle_index t < ctr_entry_candle_index u
     \<or> ctr_entry_candle_index t = ctr_entry_candle_index u \<and> ctr_is_partial t
       \<and> ctr_exit_candle_index t \<le> ctr_exit_candle_index u"

definition trade_sound ::
    "backtest_engine \<Rightarrow> signal_provider \<Rightarrow> candle_row list \<Rightarrow> closed_trade \<Rightarrow> bool" where
  "trade_sound e provider candles t \<longleftrightarrow>
     entry_decided e provider candles (ctr_side t) (ctr_entry_candle_index t) (ctr_entry_price t)
     \<and> ctr_entry_candle_index t \<le> ctr_exit_candle_index t"

text \<open>\<open>m\<close> bounds the exits and \<open>n\<close> the entries so far.\<close>

definition backtest_inv ::
    "backtest_engine \<Rightarrow> signal_provider \<Rightarrow> candle_row list \<Rightarrow> nat \<Rightarrow> nat \<Rightarrow> nat \<Rightarrow> backtest_state \<Rightarrow> bool" where
  "backtest_inv e provider candles i m n st \<longleftrightarrow>
     bts_history st = take i candles
     \<and> sorted_wrt before (bts_closed_trades st)
     \<and> (\<forall>t \<in> set (bts_closed_trades st). trade_sound e provider candles t \<and> ctr_exit_candle_index t < m)
     \<and> (\<forall>p. bts_open_pos st = Some p \<longrightarrow>
          entry_decided e provider candles (bpo_side p) (bpo_entry_candle_index p) (bpo_entry_price p)
          \<and> bpo_entry_candle_index p < n \<and> bts_pending_entry st = None
          \<and> (\<forall>t \<in> set (bts_closed_trades st). ctr_exit_candle_index t < bpo_entry_candle_index p
               \<or> ctr_entry_candle_index t = bpo_entry_candle_index p \<and> ctr_is_partial t))
     \<and> (\<forall>s k. bts_pending_entry st = Some (s, k) \<longrightarrow>
          decided e provider candles s k \<and> (\<forall>t \<in> set (bts_closed_trades st). ctr_exit_candle_index t < k))"

lemma backtest_inv_start: "backtest_inv e provider candles 0 0 0 backtest_start"
  by (simp add: backtest_inv_def backtest_start_def)

lemma backtest_inv_mono: "backtest_inv e provider candles i m n st \<Longrightarrow> m \<le> m' \<Longrightarrow> n \<le> n' \<Longrightarrow>
    backtest_inv e provider candles i m' n' st"
  by (fastforce simp: backtest_inv_def)

lemma fill_phase_inv:
  assumes "fill_phase e (candles ! i) i st = Inr st'" "backtest_inv e provider candles i i i st"
  shows "backtest_inv e provider candles i i (Suc i) st'"
proof -
  have s: "backtest_inv e provider candles i i (Suc i) st"
    using assms(2) by (rule backtest_inv_mono) simp_all
  show ?thesis
  proof (cases "st' = st")
    case False
    then obtain s k where p: "bts_pending_entry st = Some (s, k)" "k \<le> i" "bts_open_pos st = None"
      using assms(1) by (cases "bts_pending_entry st") (auto simp: fill_phase_def split: if_splits)
    moreover have "(case x of None \<Rightarrow> bts_open_pos st | Some q \<Rightarrow> Some q) = x" for x
      using p(3) by (cases x) simp_all
    ultimately obtain new_pos where o: "open_simulated e s (candles ! i) i = Inr new_pos"
      and st': "st' = st\<lparr>bts_pending_entry := None, bts_open_pos := new_pos\<rparr>"
      using assms(1) by (auto simp: fill_phase_def bindE_Inr_iff)
    have d: "decided e provider candles s k" using s p(1) by (simp add: backtest_inv_def)
    with p(2) have "decided e provider candles s i" unfolding decided_def by (meson order_trans)
    then show ?thesis
      using s p o st' open_simulated_Some [of e s "candles ! i" i]
      by (cases new_pos) (auto simp: backtest_inv_def entry_decided_def)
  qed (simp add: s)
qed

lemma add_trade_inv:
  assumes "backtest_inv e provider candles i m n st" "bts_open_pos st = Some p"
    and "closes p i t" "m \<le> Suc i" "n \<le> Suc i"
    and "case updated of None \<Rightarrow> True | Some q \<Rightarrow> same_entry p q \<and> ctr_is_partial t"
  shows "backtest_inv e provider candles i (Suc i) (Suc i)
           (st\<lparr>bts_closed_trades := bts_closed_trades st @ [t], bts_open_pos := updated\<rparr>)"
  using assms
  by (cases updated)
     (fastforce simp: backtest_inv_def sorted_wrt_append before_def closes_def trade_sound_def same_entry_def)+

lemma close_phase_inv:
  assumes "close_phase e (candles ! i) i st = Inr st'" "backtest_inv e provider candles i i (Suc i) st"
  shows "backtest_inv e provider candles i (Suc i) (Suc i) st'"
proof -
  have s: "backtest_inv e provider candles i (Suc i) (Suc i) st"
    using assms(2) by (rule backtest_inv_mono) simp_all
  show ?thesis
  proof (cases "st' = st")
    case False
    then obtain p t where p: "bts_open_pos st = Some p"
      and t: "close_simulated e p (cdr_open (candles ! i)) i EXIT_CLOSE_SIGNAL ''MARKET'' = Inr t"
      and st': "st' = st\<lparr>bts_closed_trades := bts_closed_trades st @ [t], bts_open_pos := None,
                       bts_pending_close_index := None\<rparr>"
      using assms(1) by (auto simp: close_phase_def bindE_Inr_iff split: option.splits if_splits)
    have "backtest_inv e provider candles i (Suc i) (Suc i)
            (st\<lparr>bts_closed_trades := bts_closed_trades st @ [t], bts_open_pos := None\<rparr>)"
      using close_simulated_closes [OF t] by (intro add_trade_inv [OF s p]) simp_all
    then show ?thesis using st' by (simp add: backtest_inv_def)
  qed (simp add: s)
qed

lemma exit_phase_inv:
  assumes "exit_phase e (candles ! i) i st = Inr st'" "backtest_inv e provider candles i (Suc i) (Suc i) st"
  shows "backtest_inv e provider candles i (Suc i) (Suc i) st'"
proof (cases "bts_open_pos st")
  case None
  with assms show ?thesis by (simp add: exit_phase_def)
next
  case (Some p)
  then obtain trade updated where c: "check_sl_tp e p (candles ! i) i = Inr (trade, updated)"
    and st': "st' = (case trade of
                 Some t \<Rightarrow> st\<lparr>bts_closed_trades := bts_closed_trades st @ [t], bts_open_pos := updated\<rparr>
               | None \<Rightarrow> (case updated of None \<Rightarrow> st | Some q \<Rightarrow> st\<lparr>bts_open_pos := Some q\<rparr>))"
    using assms(1) by (auto simp: exit_phase_def bindE_Inr_iff)
  from c show ?thesis
  proof (cases rule: check_sl_tp_cases)
    case 1
    with st' assms(2) show ?thesis by simp
  next
    case (2 q)
    with st' assms(2) Some show ?thesis by (simp add: backtest_inv_def same_entry_def)
  next
    case (3 t q)
    with st' show ?thesis using add_trade_inv [OF assms(2) Some 3(3), of "Some q"] by simp
  next
    case (4 t)
    with st' show ?thesis using add_trade_inv [OF assms(2) Some 4(3), of None] by simp
  qed
qed

lemma funding_phase_inv:
  assumes "funding_phase candle st = Inr st'" "backtest_inv e provider candles i m n st"
  shows "backtest_inv e provider candles i m n st'"
proof (cases "st' = st")
  case False
  with assms(1) obtain p x where "bts_open_pos st = Some p"
      "st' = st\<lparr>bts_open_pos := Some (p\<lparr>bpo_accrued_funding_usdt := x\<rparr>)\<rparr>"
    by (auto simp: funding_phase_def bindE_Inr_iff split: option.splits if_splits)
  with assms(2) show ?thesis by (simp add: backtest_inv_def)
qed (simp add: assms(2))

lemma fill_candle_offset_pos: "0 \<le> l \<Longrightarrow> 0 < fill_candle_offset l"
  by (simp add: fill_candle_offset_def)

lemma signal_phase_inv:
  assumes "signal_phase e provider i st = Inr st'" "backtest_inv e provider candles i (Suc i) n st"
    and "0 \<le> bte_latency e"
  shows "backtest_inv e provider candles i (Suc i) n st'"
proof -
  obtain s where s: "signal_at provider candles i = Inr s"
    and st': "st' = (if opens (tsg_action s) \<and> bts_open_pos st = None \<and> bts_pending_entry st = None
          then st\<lparr>bts_pending_entry := Some (s, i + fill_candle_offset (bte_latency e))\<rparr>
          else if tsg_action s = SIGNAL_CLOSE \<and> bts_open_pos st \<noteq> None \<and> bts_pending_close_index st = None
          then st\<lparr>bts_pending_close_index := Some (i + fill_candle_offset (bte_latency e))\<rparr>
          else st)"
    using assms(1,2) by (auto simp: signal_phase_def signal_at_def backtest_inv_def bindE_Inr_iff)
  have "opens (tsg_action s) \<Longrightarrow> decided e provider candles s (i + fill_candle_offset (bte_latency e))"
    using s by (auto simp: decided_def)
  then show ?thesis
    using assms(2) st' fill_candle_offset_pos [OF assms(3)]
    by (fastforce simp: backtest_inv_def)
qed

lemma candle_step_inv:
  assumes "candle_step e provider (candles ! i) i st = Inr st'" "backtest_inv e provider candles i i i st"
    and "0 \<le> bte_latency e" "i < length candles"
  shows "backtest_inv e provider candles (Suc i) (Suc i) (Suc i) st'"
proof -
  obtain s1 s2 s3 s4 s5 where
    "fill_phase e (candles ! i) i st = Inr s1" "close_phase e (candles ! i) i s1 = Inr s2"
    "exit_phase e (candles ! i) i s2 = Inr s3" "funding_phase (candles ! i) s3 = Inr s4"
    "signal_phase e provider i s4 = Inr s5"
    and st': "st' = s5\<lparr>bts_history := bts_history s5 @ [candles ! i]\<rparr>"
    using assms(1) by (auto simp: candle_step_def bindE_Inr_iff)
  with assms(2,3) have "backtest_inv e provider candles i (Suc i) (Suc i) s5"
    by (meson fill_phase_inv close_phase_inv exit_phase_inv funding_phase_inv signal_phase_inv)
  with assms(4) show ?thesis by (simp add: st' backtest_inv_def take_Suc_conv_app_nth)
qed

lemma run_candles_inv:
  assumes "run_candles e provider i rest st = Inr st'" "drop i candles = rest"
    and "backtest_inv e provider candles i i i st" "0 \<le> bte_latency e" "i \<le> length candles"
  shows "backtest_inv e provider candles (length candles) (length candles) (length candles) st'"
  using assms
proof (induction rest arbitrary: i st)
  case Nil
  then show ?case by simp
next
  case (Cons candle rest)
  then have i: "i < length candles" by (metis drop_all leI list.distinct(1))
  then have c: "candle = candles ! i" "drop (Suc i) candles = rest"
    using Cons.prems(2) by (simp_all add: Cons_nth_drop_Suc [symmetric])
  obtain st1 where s: "candle_step e provider candle i st = Inr st1"
    and r: "run_candles e provider (Suc i) rest st1 = Inr st'"
    using Cons.prems(1) by (auto simp: bindE_Inr_iff)
  have "backtest_inv e provider candles (Suc i) (Suc i) (Suc i) st1"
    using s c i Cons.prems(3,4) by (intro candle_step_inv) simp_all
  with Cons.IH [OF r c(2)] i Cons.prems(4) show ?case by simp
qed

end
