(* ===== verification/BacktestValidation.thy ===== *)
theory BacktestValidation
  imports Backtest
begin

text \<open>
  \<^verbatim>\<open>backend/backtesting/validation.py\<close> and \<^verbatim>\<open>service.py\<close>: the guards against data snooping, the splits of a
  data set, the runs on them, and a run with its record in the database. The provider is free of state, as the
  splits require.
\<close>

subsection \<open>Guards\<close>

text \<open>The greatest timestamp of the training set is found in the same pass that collects them all.\<close>

definition max_timestamp :: "candle_row list \<Rightarrow> int option" where
  "max_timestamp candles =
     foldl (\<lambda>m c. case m of
              None \<Rightarrow> Some (cdr_timestamp c)
            | Some x \<Rightarrow> if x < cdr_timestamp c then Some (cdr_timestamp c) else m)
       None candles"

definition assert_no_parameter_snooping :: "candle_row list \<Rightarrow> candle_row list \<Rightarrow> unit result" where
  "assert_no_parameter_snooping train_candles eval_candles =
     (let train_ts = map cdr_timestamp train_candles;
          overlap = filter (\<lambda>c. List.member train_ts (cdr_timestamp c)) eval_candles in
      if overlap \<noteq> [] then Inl ValueError
      else case max_timestamp train_candles of
        None \<Rightarrow> Inr ()
      | Some max_train \<Rightarrow>
          if eval_candles = [] then Inr ()
          else if foldl min (cdr_timestamp (hd eval_candles)) (map cdr_timestamp (tl eval_candles)) < max_train
          then Inl ValueError
          else Inr ())"

subsection \<open>Splits\<close>

record dataset_split =
  dsp_train :: "candle_row list"
  dsp_test :: "candle_row list"

definition split_index :: "nat \<Rightarrow> rat \<Rightarrow> nat" where
  "split_index n train_ratio = nat (max 1 (min (int n - 1) \<lfloor>fmul (of_nat n) train_ratio\<rfloor>))"

definition split_dataset :: "candle_row list \<Rightarrow> rat \<Rightarrow> dataset_split result" where
  "split_dataset candles train_ratio =
     (if \<not> (0 < train_ratio \<and> train_ratio < 1) then Inl ValueError
      else if length candles < 2 then Inl ValueError
      else let k = split_index (length candles) train_ratio
           in Inr \<lparr>dsp_train = take k candles, dsp_test = drop k candles\<rparr>)"

record walk_forward_fold =
  wff_fold_index :: nat
  wff_train :: "candle_row list"
  wff_test :: "candle_row list"

text \<open>The window of fold \<open>i\<close>; the last one takes the rest.\<close>

definition test_start :: "nat \<Rightarrow> nat \<Rightarrow> nat \<Rightarrow> nat" where
  "test_start min_train fold_size i = min_train + i * fold_size"

definition make_fold :: "candle_row list \<Rightarrow> nat \<Rightarrow> nat \<Rightarrow> nat \<Rightarrow> nat \<Rightarrow> walk_forward_fold" where
  "make_fold candles min_train fold_size n_folds i =
     (let start = test_start min_train fold_size i;
          stop = (if i < n_folds - 1 then start + fold_size else length candles)
      in \<lparr>wff_fold_index = i, wff_train = take start candles, wff_test = drop start (take stop candles)\<rparr>)"

definition walk_forward_splits :: "candle_row list \<Rightarrow> int \<Rightarrow> int \<Rightarrow> walk_forward_fold list result" where
  "walk_forward_splits candles n_folds min_train_candles =
     (if n_folds < 1 then Inl ValueError
      else if min_train_candles < 1 then Inl ValueError
      else let n = length candles; k = nat n_folds; m = nat min_train_candles in
        if int n < min_train_candles + n_folds then Inl ValueError
        else let fold_size = (n - m) div k in Inr (map (make_fold candles m fold_size k) [0..<k]))"

subsection \<open>Runs per window\<close>

record split_backtest_result =
  sbr_in_sample :: backtest_result
  sbr_out_of_sample :: backtest_result
  sbr_train_ratio :: rat

definition run_split_backtest ::
    "math_lib \<Rightarrow> candle_row list \<Rightarrow> backtest_engine \<Rightarrow> signal_provider \<Rightarrow> rat \<Rightarrow> split_backtest_result result" where
  "run_split_backtest math candles e provider train_ratio =
     bindE (split_dataset candles train_ratio) (\<lambda>split.
     bindE (backtest_run math e (dsp_train split) provider) (\<lambda>in_sample.
     bindE (backtest_run math e (dsp_test split) provider) (\<lambda>out_of_sample.
     Inr \<lparr>sbr_in_sample = in_sample, sbr_out_of_sample = out_of_sample, sbr_train_ratio = train_ratio\<rparr>)))"

record walk_forward_fold_result =
  wfr_fold_index :: nat
  wfr_train_result :: backtest_result
  wfr_test_result :: backtest_result

definition run_fold ::
    "math_lib \<Rightarrow> backtest_engine \<Rightarrow> signal_provider \<Rightarrow> walk_forward_fold \<Rightarrow> walk_forward_fold_result result" where
  "run_fold math e provider window =
     bindE (backtest_run math e (wff_train window) provider) (\<lambda>train_result.
     bindE (backtest_run math e (wff_test window) provider) (\<lambda>test_result.
     Inr \<lparr>wfr_fold_index = wff_fold_index window, wfr_train_result = train_result, wfr_test_result = test_result\<rparr>))"

fun run_folds ::
    "math_lib \<Rightarrow> backtest_engine \<Rightarrow> signal_provider \<Rightarrow> walk_forward_fold list
     \<Rightarrow> walk_forward_fold_result list result" where
  "run_folds math e provider [] = Inr []"
| "run_folds math e provider (window # windows) =
     bindE (run_fold math e provider window) (\<lambda>r.
     bindE (run_folds math e provider windows) (\<lambda>rs. Inr (r # rs)))"

record walk_forward_result =
  wfb_fold_results :: "walk_forward_fold_result list"
  wfb_n_folds :: nat
  wfb_min_train_candles :: int

definition run_walk_forward_backtest ::
    "math_lib \<Rightarrow> candle_row list \<Rightarrow> backtest_engine \<Rightarrow> signal_provider \<Rightarrow> int \<Rightarrow> int \<Rightarrow> walk_forward_result result" where
  "run_walk_forward_backtest math candles e provider n_folds min_train_candles =
     bindE (walk_forward_splits candles n_folds min_train_candles) (\<lambda>windows.
     bindE (run_folds math e provider windows) (\<lambda>fold_results.
     Inr \<lparr>wfb_fold_results = fold_results, wfb_n_folds = length fold_results,
          wfb_min_train_candles = min_train_candles\<rparr>))"

subsection \<open>A run with its record\<close>

datatype run_status = RUN_RUNNING | RUN_COMPLETED | RUN_FAILED

record backtest_run_row =
  bru_id :: string
  bru_bot_run_id :: string
  bru_symbol :: string
  bru_period_start :: int
  bru_period_end :: int
  bru_status :: run_status
  bru_ended_at :: "int option"

record backtest_result_row =
  brr_backtest_run_id :: string
  brr_total_trades :: nat
  brr_winning_trades :: nat
  brr_losing_trades :: nat
  brr_win_rate :: "rat option"
  brr_total_pnl :: rat
  brr_gross_pnl :: rat
  brr_total_fees :: rat
  brr_total_funding :: rat
  brr_sharpe_ratio :: "rat option"
  brr_sortino_ratio :: "rat option"
  brr_max_drawdown :: "rat option"
  brr_expectancy_usdt :: "rat option"
  brr_profit_factor :: "rat option"
  brr_best_trade_pnl :: rat
  brr_worst_trade_pnl :: rat

record backtest_db =
  bdb_runs :: "backtest_run_row list"
  bdb_results :: "backtest_result_row list"

definition max_default :: "rat \<Rightarrow> rat list \<Rightarrow> rat" where
  "max_default d xs = (case xs of [] \<Rightarrow> d | x # ys \<Rightarrow> foldl max x ys)"

definition min_default :: "rat \<Rightarrow> rat list \<Rightarrow> rat" where
  "min_default d xs = (case xs of [] \<Rightarrow> d | x # ys \<Rightarrow> foldl min x ys)"

definition result_row :: "string \<Rightarrow> backtest_result \<Rightarrow> backtest_result_row" where
  "result_row run_id r =
     \<lparr>brr_backtest_run_id = run_id, brr_total_trades = btr_total_trades r,
      brr_winning_trades = btr_winning_trades r, brr_losing_trades = btr_losing_trades r,
      brr_win_rate = btr_win_rate r, brr_total_pnl = btr_total_net_pnl r, brr_gross_pnl = btr_total_gross_pnl r,
      brr_total_fees = btr_total_fees_paid r, brr_total_funding = btr_total_funding_cost r,
      brr_sharpe_ratio = btr_sharpe_ratio r, brr_sortino_ratio = btr_sortino_ratio r,
      brr_max_drawdown = btr_max_drawdown_pct r, brr_expectancy_usdt = btr_expectancy_usdt r,
      brr_profit_factor = (case btr_profit_factor r of Some (Finite x) \<Rightarrow> Some x | _ \<Rightarrow> None),
      brr_best_trade_pnl = max_default 0 (map ctr_net_pnl_usdt (btr_trades r)),
      brr_worst_trade_pnl = min_default 0 (map ctr_net_pnl_usdt (btr_trades r))\<rparr>"

text \<open>The clocks of the start and of the end, the fresh identifier, and which of the writes succeed: the row of the
  run, the result, and the mark of a failed run.\<close>

record service_input =
  bsi_now :: int
  bsi_ended :: int
  bsi_run_id :: string
  bsi_start_ok :: bool
  bsi_persist_ok :: bool
  bsi_mark_ok :: bool

definition new_backtest_run :: "service_input \<Rightarrow> string \<Rightarrow> backtest_config \<Rightarrow> candle_row list \<Rightarrow> backtest_run_row" where
  "new_backtest_run i bot_run_id c candles =
     \<lparr>bru_id = bsi_run_id i, bru_bot_run_id = bot_run_id, bru_symbol = btc_symbol c,
      bru_period_start = (if candles = [] then bsi_now i else cdr_timestamp (hd candles)),
      bru_period_end = (if candles = [] then bsi_now i else cdr_timestamp (List.last candles)),
      bru_status = RUN_RUNNING, bru_ended_at = None\<rparr>"

definition finish_run :: "run_status \<Rightarrow> int \<Rightarrow> backtest_run_row \<Rightarrow> backtest_run_row" where
  "finish_run status ended_at run = run\<lparr>bru_status := status, bru_ended_at := Some ended_at\<rparr>"

definition run_and_persist ::
    "math_lib \<Rightarrow> service_input \<Rightarrow> string \<Rightarrow> backtest_config \<Rightarrow> candle_row list \<Rightarrow> signal_provider
     \<Rightarrow> fee_model option \<Rightarrow> slippage_model option \<Rightarrow> int option \<Rightarrow> rat option \<Rightarrow> backtest_db
     \<Rightarrow> (backtest_run_row \<times> backtest_result_row) result \<times> backtest_db" where
  "run_and_persist math i bot_run_id c candles provider fee slip latency fill_ratio d =
     (case backtest_engine_init c fee slip latency fill_ratio False of
        Inl e \<Rightarrow> (Inl e, d)
      | Inr engine \<Rightarrow>
          if \<not> bsi_start_ok i then (Inl SQLAlchemyError, d)
          else
          let run = new_backtest_run i bot_run_id c candles;
              marked = (if bsi_mark_ok i then finish_run RUN_FAILED (bsi_ended i) run else run);
              failed = d\<lparr>bdb_runs := bdb_runs d @ [marked]\<rparr> in
          (case backtest_run math engine candles provider of
             Inl e \<Rightarrow> (Inl e, failed)
           | Inr r \<Rightarrow>
               if \<not> bsi_persist_ok i then (Inl SQLAlchemyError, failed)
               else let run = finish_run RUN_COMPLETED (bsi_ended i) run; row = result_row (bru_id run) r
                    in (Inr (run, row), \<lparr>bdb_runs = bdb_runs d @ [run], bdb_results = bdb_results d @ [row]\<rparr>)))"

subsection \<open>Lemmas\<close>

lemma foldl_min_ge: "(x :: int) \<le> a \<Longrightarrow> \<forall>y\<in>set ys. x \<le> y \<Longrightarrow> x \<le> foldl min a ys"
  by (induction ys arbitrary: a) simp_all

lemma max_timestamp_in: "max_timestamp candles = Some x \<Longrightarrow> \<exists>c \<in> set candles. cdr_timestamp c = x"
  unfolding max_timestamp_def
proof (induction candles rule: rev_induct)
  case (snoc c candles)
  then show ?case by (auto split: option.splits if_splits)
qed simp

text \<open>Training candles that all lie before the evaluation candles pass the guard.\<close>

lemma snooping_guard_accepts:
  assumes "\<forall>c \<in> set train. \<forall>d \<in> set test. cdr_timestamp c < cdr_timestamp d"
  shows "assert_no_parameter_snooping train test = Inr ()"
proof (cases "test = []")
  case False
  have "cdr_timestamp d \<notin> cdr_timestamp ` set train" if "d \<in> set test" for d
    using assms that by fastforce
  moreover have "x \<le> foldl min (cdr_timestamp (hd test)) (map cdr_timestamp (tl test))"
    if "max_timestamp train = Some x" for x
    using max_timestamp_in [OF that] assms False
    by (intro foldl_min_ge) (auto intro!: less_imp_le dest: list.set_sel(2))
  ultimately show ?thesis
    using False by (fastforce simp: assert_no_parameter_snooping_def filter_empty_conv List.member_iff split: option.split)
qed (simp add: assert_no_parameter_snooping_def split: option.split)

lemma split_around:
  assumes "sorted_wrt P xs" "x \<in> set (take k xs)" "y \<in> set (drop k xs)"
  shows "P x y"
  using assms by (metis append_take_drop_id sorted_wrt_append)

end
