(* ===== verification/BacktestSamples.thy ===== *)
theory BacktestSamples
  imports BacktestValidation
begin

text \<open>
  A concrete backtest, on which the properties of the engine are tried: a market that stands at 100, slippage of
  one percent, no fees and no funding. Its arithmetic is evaluated once, one operation at a time.
\<close>

lemma bindE_weak_cong: "m = m' \<Longrightarrow> bindE m f = bindE m' f" by simp

definition sample_candle :: "int \<Rightarrow> candle_row" where
  "sample_candle k = \<lparr>cdr_timestamp = k, cdr_open = 100, cdr_high = 101, cdr_low = 99, cdr_close = 100,
     cdr_volume = 10, cdr_funding_rate = 0\<rparr>"

definition sample_backtest_engine :: "int \<Rightarrow> backtest_engine" where
  "sample_backtest_engine latency = \<lparr>bte_config = \<lparr>btc_symbol = ''BTC-USDT'', btc_timeframe = ''5m'',
       btc_initial_balance_usdt = 1000, btc_latency_candles = latency\<rparr>,
     bte_fee = \<lparr>fm_taker_rate = 0, fm_maker_rate = 0\<rparr>, bte_slip = \<lparr>sm_market_bps = 100\<rparr>,
     bte_latency = latency, bte_fill_ratio = 1, bte_partial_close_enabled = False\<rparr>"

definition sample_backtest_math :: math_lib where
  "sample_backtest_math = \<lparr>m_tanh = (\<lambda>x. x), m_sqrt = (\<lambda>x. x), m_square = (\<lambda>x. x * x)\<rparr>"

definition sample_signal :: "signal_action \<Rightarrow> rat \<Rightarrow> trade_signal" where
  "sample_signal a stop = \<lparr>tsg_action = a, tsg_stop_loss = Some stop, tsg_take_profit = Some 120,
     tsg_take_profit_levels = [], tsg_leverage = 1, tsg_margin_usdt = 101\<rparr>"

text \<open>A long entry, one \<^verbatim>\<open>CLOSE\<close> at candle 2 just before the stop of candle 3, and a second long entry.\<close>

definition sample_provider :: signal_provider where
  "sample_provider i history = Inr (
     if i = 0 then sample_signal SIGNAL_LONG 95
     else if i = 2 then sample_signal SIGNAL_CLOSE 95
     else if i = 3 then sample_signal SIGNAL_LONG 80
     else sample_signal SIGNAL_NO_OP 80)"

definition sample_backtest_candles :: "candle_row list" where
  "sample_backtest_candles = map sample_candle [0, 1, 2] @ (sample_candle 3)\<lparr>cdr_low := 94\<rparr>
     # map sample_candle [4, 5, 6, 7]"

definition sample_backtest :: "candle_row list \<Rightarrow> backtest_result result" where
  "sample_backtest candles = backtest_run sample_backtest_math (sample_backtest_engine 1) candles sample_provider"

lemma sample_decimals:
  "ddiv 100 BASIS_POINTS = 1 / 100" "dadd 1 (1 / 100) = 101 / 100" "dsub 1 (1 / 100) = 99 / 100"
  "dmul 100 (101 / 100) = 101" "dmul 100 (99 / 100) = 99" "dmul 95 (99 / 100) = 1881 / 20"
  "dmul 101 1 = 101" "dmul 1 1 = 1" "dmul 99 1 = 99" "dmul (1881 / 20) 1 = 1881 / 20" "dmul 101 0 = 0" "dmul 99 0 = 0"
  "dmul (1881 / 20) 0 = 0" "ddiv 101 101 = 1" "dsub 101 100 = 1" "dsub 99 100 = -1"
  "dsub (1881 / 20) 95 = - (19 / 20)" "dmul (19 / 20) 1 = 19 / 20"
  "dsub 99 101 = -2" "dsub (1881 / 20) 101 = - (139 / 20)" "dmul (- 2) 1 = - 2" "dmul (- (139 / 20)) 1 = - (139 / 20)"
  "dsub (- 2) 0 = - 2" "dsub (- 2) 1 = - 3" "dsub (- 3) 1 = - 4" "dsub (- 4) 0 = - 4"
  "dsub (- (139 / 20)) 0 = - (139 / 20)" "dsub (- (139 / 20)) 1 = - (159 / 20)"
  "dsub (- (159 / 20)) (19 / 20) = - (89 / 10)" "dsub (- (89 / 10)) 0 = - (89 / 10)"
  by code_simp+

lemma sample_quantized:
  "quantize8 101 = Inr 101" "quantize8 99 = Inr 99" "quantize8 1 = Inr 1" "quantize8 0 = Inr 0"
  "quantize8 (1881 / 20) = Inr (1881 / 20)" "quantize8 (19 / 20) = Inr (19 / 20)" "quantize8 (- 2) = Inr (- 2)"
  "quantize8 (- (139 / 20)) = Inr (- (139 / 20))" "quantize8 (- 4) = Inr (- 4)"
  "quantize8 (- (89 / 10)) = Inr (- (89 / 10))"
  by code_simp+

lemmas sample_defs = sample_backtest_engine_def sample_signal_def sample_candle_def valid_order_types_def

definition sample_position :: "nat \<Rightarrow> rat \<Rightarrow> open_position" where
  "sample_position i stop = \<lparr>bpo_side = SIDE_LONG, bpo_entry_candle_index = i, bpo_entry_price = 101,
     bpo_stop_loss = stop, bpo_take_profit = Some 120, bpo_take_profit_levels = [], bpo_leverage = 1,
     bpo_margin_usdt = 101, bpo_notional_usdt = 101, bpo_quantity = 1, bpo_entry_fee_usdt = 0,
     bpo_entry_slippage_usdt = 1, bpo_accrued_funding_usdt = 0\<rparr>"

lemma sample_filled:
  "cdr_open candle = 100 \<Longrightarrow> open_simulated (sample_backtest_engine 1) (sample_signal SIGNAL_LONG stop) candle i
     = Inr (Some (sample_position i stop))"
  by (simp add: open_simulated_def build_position_def slippage_apply_def fee_calculate_def decimal_div_def
      make_open_position_def sample_position_def sample_defs sample_decimals sample_quantized Let_def
      cong: bindE_weak_cong if_weak_cong)

definition sample_trade :: "nat \<Rightarrow> nat \<Rightarrow> rat \<Rightarrow> rat \<Rightarrow> rat \<Rightarrow> rat \<Rightarrow> exit_reason \<Rightarrow> closed_trade" where
  "sample_trade i j price gross slip net reason =
     \<lparr>ctr_side = SIDE_LONG, ctr_entry_candle_index = i, ctr_exit_candle_index = j,
        ctr_entry_price = 101, ctr_exit_price = price, ctr_exit_reason = reason,
        ctr_leverage = 1, ctr_margin_usdt = 101, ctr_notional_usdt = 101, ctr_gross_pnl_usdt = gross,
        ctr_entry_fee_usdt = 0, ctr_exit_fee_usdt = 0,
        ctr_entry_slippage_usdt = 1, ctr_exit_slippage_usdt = slip,
        ctr_funding_cost_usdt = 0, ctr_net_pnl_usdt = net,
        ctr_hold_candles = int j - int i, ctr_is_partial = False\<rparr>"

lemma sample_exited:
  "close_simulated (sample_backtest_engine 1) (sample_position i stop) 100 j EXIT_CLOSE_SIGNAL ''MARKET''
     = Inr (sample_trade i j 99 (-2) 1 (-4) EXIT_CLOSE_SIGNAL)"
  "close_simulated (sample_backtest_engine 1) (sample_position i stop) 95 j EXIT_SL ''MARKET''
     = Inr (sample_trade i j (1881 / 20) (- (139 / 20)) (19 / 20) (- (89 / 10)) EXIT_SL)"
  by (simp_all add: close_simulated_def slippage_apply_def fee_calculate_def exit_side_def gross_pnl_of_def net_pnl_of_def
      make_closed_trade_def sample_trade_def sample_position_def sample_defs sample_decimals sample_quantized Let_def
      cong: bindE_weak_cong if_weak_cong)

lemma sample_signals_ok:
  "make_trade_signal (sample_signal SIGNAL_LONG stop) = Inr (sample_signal SIGNAL_LONG stop)"
  "make_trade_signal (sample_signal SIGNAL_CLOSE stop) = Inr (sample_signal SIGNAL_CLOSE stop)"
  "make_trade_signal (sample_signal SIGNAL_NO_OP stop) = Inr (sample_signal SIGNAL_NO_OP stop)"
  "tsg_action (sample_signal a stop) = a"
  by (simp_all add: make_trade_signal_def opens_def sample_signal_def)

lemma sample_position_simps:
  "bpo_side (sample_position i stop) = SIDE_LONG" "bpo_stop_loss (sample_position i stop) = stop"
  "bpo_take_profit (sample_position i stop) = Some 120" "bpo_take_profit_levels (sample_position i stop) = []"
  by (simp_all add: sample_position_def)

lemma sample_engine_latency: "fill_candle_offset (bte_latency (sample_backtest_engine 1)) = 2"
  by (simp add: sample_backtest_engine_def fill_candle_offset_def)

definition sample_trades :: "closed_trade list" where
  "sample_trades = [sample_trade 2 3 (1881 / 20) (- (139 / 20)) (19 / 20) (- (89 / 10)) EXIT_SL,
     sample_trade 5 5 99 (-2) 1 (-4) EXIT_CLOSE_SIGNAL]"

lemma sample_run:
  assumes "n = 7 \<or> n = 8"
  shows "\<exists>st. run_candles (sample_backtest_engine 1) sample_provider 0 (take n sample_backtest_candles) backtest_start = Inr st
     \<and> end_of_data (sample_backtest_engine 1) (take n sample_backtest_candles) st = Inr sample_trades"
  using assms
  by (auto simp: sample_backtest_candles_def backtest_start_def candle_step_def fill_phase_def close_phase_def
      exit_phase_def funding_phase_def signal_phase_def check_sl_tp_def check_single_tp_def close_simulated_whole_def
      sl_hit_def target_hit_def opens_def sample_provider_def sample_filled sample_exited sample_signals_ok
      sample_position_simps sample_engine_latency sample_trades_def end_of_data_def sample_candle_def eval_nat_numeral
      cong: bindE_weak_cong if_weak_cong)

text \<open>After four candles the stop has closed the first position, and the close asked for at candle 2 is due.\<close>

lemma sample_stale:
  "\<exists>st. run_candles (sample_backtest_engine 1) sample_provider 0 (take 4 sample_backtest_candles) backtest_start = Inr st
     \<and> bts_open_pos st = None \<and> bts_pending_close_index st = Some 4 \<and> length (bts_closed_trades st) = 1"
  by (auto simp: sample_backtest_candles_def backtest_start_def candle_step_def fill_phase_def close_phase_def
      exit_phase_def funding_phase_def signal_phase_def check_sl_tp_def check_single_tp_def close_simulated_whole_def
      sl_hit_def target_hit_def opens_def sample_provider_def sample_filled sample_exited sample_signals_ok
      sample_position_simps sample_engine_latency sample_candle_def eval_nat_numeral
      cong: bindE_weak_cong if_weak_cong)

lemma sample_totals:
  "dsum [- (89 / 10), - 4] = - (129 / 10)" "ddiv (- (129 / 10)) 2 = - (129 / 20)"
  "dsum [- (139 / 20), - 2] = - (179 / 20)" "dadd 0 0 = 0" "dsum [0, 0] = 0"
  "dadd 1 (19 / 20) = 39 / 20" "dadd 1 1 = 2" "dsum [39 / 20, 2] = 79 / 20"
  "dadd 1000 (- (129 / 10)) = 9871 / 10"
  "quantize8 (- (129 / 10)) = Inr (- (129 / 10))" "quantize8 (- (129 / 20)) = Inr (- (129 / 20))"
  "quantize8 (- (179 / 20)) = Inr (- (179 / 20))" "quantize8 (79 / 20) = Inr (79 / 20)"
  "quantize8 (9871 / 10) = Inr (9871 / 10)"
  by code_simp+

lemma sample_metrics:
  "\<exists>r. compute_backtest_metrics math sample_trades (bte_config (sample_backtest_engine 1)) n = Inr r
     \<and> btr_trades r = sample_trades \<and> btr_candles_processed r = n"
  by (simp add: compute_backtest_metrics_def expectancy_def sample_trades_def sample_trade_def
      sample_backtest_engine_def sample_totals sample_quantized cong: bindE_weak_cong)

lemma sample_backtest_result:
  assumes "n = 7 \<or> n = 8"
  obtains r where "sample_backtest (take n sample_backtest_candles) = Inr r" "btr_trades r = sample_trades"
    "btr_candles_processed r = n"
proof -
  have "take n sample_backtest_candles \<noteq> []" "length (take n sample_backtest_candles) = n"
    using assms by (auto simp: sample_backtest_candles_def)
  with sample_run [OF assms] sample_metrics [of sample_backtest_math n] that show thesis
    by (auto simp: sample_backtest_def backtest_run_def)
qed

lemma sample_backtest_candles_take [simp]: "take 8 sample_backtest_candles = sample_backtest_candles"
  by (simp add: sample_backtest_candles_def)

lemma sample_trades_simps:
  "map (\<lambda>t. (ctr_entry_candle_index t, ctr_exit_candle_index t, ctr_exit_reason t)) sample_trades
     = [(2, 3, EXIT_SL), (5, 5, EXIT_CLOSE_SIGNAL)]"
  "length sample_trades = 2"
  by (simp_all add: sample_trades_def sample_trade_def)

end
