(* ===== verification/BacktestProperties.thy ===== *)
theory BacktestProperties
  imports BacktestFacts BacktestSamples
begin

text \<open>
  The properties of the backtests: what a trade may depend on, the order of the trades, what the splits leave to
  the evaluation, and two defects of the engine that its model shows. Each has its witness.
\<close>

subsection \<open>Where the trades come from\<close>

lemma closed_trades_of_run:
  assumes "backtest_run math e candles provider = Inr r"
  obtains "candles = []" "btr_trades r = []"
  | st where "candles \<noteq> []" "run_candles e provider 0 candles backtest_start = Inr st"
      "end_of_data e candles st = Inr (btr_trades r)"
proof (cases "candles = []")
  case True
  with assms that(1) show thesis by (auto simp: backtest_run_def compute_backtest_metrics_def Let_def bindE_Inr_iff)
next
  case False
  with assms that(2) show thesis
    by (auto simp: backtest_run_def compute_backtest_metrics_def Let_def bindE_Inr_iff)
qed

lemma end_of_data_cases:
  assumes "end_of_data e candles st = Inr trades"
  obtains "bts_open_pos st = None" "trades = bts_closed_trades st"
  | p t where "bts_open_pos st = Some p" "trades = bts_closed_trades st @ [t]" "closes p (length candles - 1) t"
  using assms that close_simulated_closes(1)
  by (cases "bts_open_pos st") (fastforce simp: end_of_data_def bindE_Inr_iff)+

text \<open>The invariant at the end of a run, with the position that the last candle closes.\<close>

lemma trades_of_run:
  assumes "backtest_run math e candles provider = Inr r" "0 \<le> bte_latency e"
  shows "sorted_wrt before (btr_trades r)"
    and "\<forall>t \<in> set (btr_trades r). trade_sound e provider candles t \<and> ctr_exit_candle_index t < length candles"
proof -
  let ?ok = "sorted_wrt before (btr_trades r)
    \<and> (\<forall>t \<in> set (btr_trades r). trade_sound e provider candles t \<and> ctr_exit_candle_index t < length candles)"
  have ?ok using assms(1)
  proof (cases rule: closed_trades_of_run)
    case 1
    then show ?thesis by simp
  next
    case (2 st)
    let ?n = "length candles"
    have inv: "backtest_inv e provider candles ?n ?n ?n st"
      using run_candles_inv [OF 2(2), of candles] assms(2) by (simp add: backtest_inv_start)
    show ?thesis using 2(3)
    proof (cases rule: end_of_data_cases)
      case 1
      with inv show ?thesis by (simp add: backtest_inv_def)
    next
      case (2 p t)
      with inv \<open>candles \<noteq> []\<close> show ?thesis
        by (fastforce simp: backtest_inv_def sorted_wrt_append before_def closes_def trade_sound_def)
    qed
  qed
  then show "sorted_wrt before (btr_trades r)"
    and "\<forall>t \<in> set (btr_trades r). trade_sound e provider candles t \<and> ctr_exit_candle_index t < length candles"
    by simp_all
qed

subsection \<open>The trades of a prefix\<close>

lemma run_candles_append:
  "run_candles e provider i (xs @ ys) st
     = bindE (run_candles e provider i xs st) (run_candles e provider (i + length xs) ys)"
  by (induction xs arbitrary: i st) (auto simp: bindE_def split: sum.splits)

text \<open>What a candle adds are trades that it closes.\<close>

definition adds :: "nat \<Rightarrow> nat \<Rightarrow> backtest_state \<Rightarrow> backtest_state \<Rightarrow> bool" where
  "adds i j st st' \<longleftrightarrow> (\<exists>new. bts_closed_trades st' = bts_closed_trades st @ new
     \<and> (\<forall>t \<in> set new. i \<le> ctr_exit_candle_index t \<and> ctr_exit_candle_index t < j))"

lemma adds_same: "bts_closed_trades st' = bts_closed_trades st \<Longrightarrow> adds i j st st'"
  by (simp add: adds_def)

lemma adds_trans: "adds i j st st1 \<Longrightarrow> adds j' k st1 st2 \<Longrightarrow> i \<le> j' \<Longrightarrow> j \<le> k \<Longrightarrow> adds i k st st2"
  by (fastforce simp: adds_def)

lemma close_phase_adds: "close_phase e candle i st = Inr st' \<Longrightarrow> adds i (Suc i) st st'"
  using close_simulated_closes(1)
  by (fastforce simp: close_phase_def adds_def bindE_Inr_iff closes_def split: option.splits if_splits)

lemma exit_phase_adds:
  assumes "exit_phase e candle i st = Inr st'"
  shows "adds i (Suc i) st st'"
proof (cases "bts_open_pos st")
  case None
  with assms show ?thesis by (simp add: exit_phase_def adds_def)
next
  case (Some p)
  then obtain trade updated where c: "check_sl_tp e p candle i = Inr (trade, updated)"
    and st': "st' = (case trade of
                 Some t \<Rightarrow> st\<lparr>bts_closed_trades := bts_closed_trades st @ [t], bts_open_pos := updated\<rparr>
               | None \<Rightarrow> (case updated of None \<Rightarrow> st | Some q \<Rightarrow> st\<lparr>bts_open_pos := Some q\<rparr>))"
    using assms(1) by (auto simp: exit_phase_def bindE_Inr_iff)
  from c show ?thesis
    by (cases rule: check_sl_tp_cases) (auto simp: st' adds_def closes_def)
qed

lemma candle_step_adds:
  assumes "candle_step e provider candle i st = Inr st'"
  shows "adds i (Suc i) st st'"
proof -
  obtain s1 s2 s3 s4 s5 where
    p: "fill_phase e candle i st = Inr s1" "close_phase e candle i s1 = Inr s2"
    "exit_phase e candle i s2 = Inr s3" "funding_phase candle s3 = Inr s4"
    "signal_phase e provider i s4 = Inr s5"
    and st': "st' = s5\<lparr>bts_history := bts_history s5 @ [candle]\<rparr>"
    using assms(1) by (auto simp: candle_step_def bindE_Inr_iff)
  have "bts_closed_trades s1 = bts_closed_trades st"
    using p(1) by (auto simp: fill_phase_def bindE_Inr_iff split: option.splits if_splits)
  moreover have "bts_closed_trades s4 = bts_closed_trades s3"
    using p(4) by (auto simp: funding_phase_def bindE_Inr_iff split: option.splits if_splits)
  moreover have "bts_closed_trades s5 = bts_closed_trades s4"
    using p(5) by (auto simp: signal_phase_def bindE_Inr_iff)
  ultimately have "adds i (Suc i) st s2" "adds i (Suc i) s2 st'"
    using close_phase_adds [OF p(2)] exit_phase_adds [OF p(3)] by (simp_all add: adds_def st')
  then show ?thesis by (rule adds_trans) simp_all
qed

lemma run_candles_adds: "run_candles e provider i candles st = Inr st' \<Longrightarrow> adds i (i + length candles) st st'"
proof (induction candles arbitrary: i st)
  case (Cons candle candles)
  then obtain st1 where "candle_step e provider candle i st = Inr st1"
    "run_candles e provider (Suc i) candles st1 = Inr st'"
    by (auto simp: bindE_Inr_iff)
  with Cons.IH have "adds i (Suc i) st st1" "adds (Suc i) (i + length (candle # candles)) st1 st'"
    using candle_step_adds by fastforce+
  then show ?case by (rule adds_trans) simp_all
qed (simp add: adds_same)

definition exits_before :: "nat \<Rightarrow> backtest_result \<Rightarrow> closed_trade list" where
  "exits_before n r = filter (\<lambda>t. ctr_exit_candle_index t < n) (btr_trades r)"

lemma exits_before_prefix:
  assumes "backtest_run math e candles provider = Inr r" "n < length candles"
  shows "\<exists>st. run_candles e provider 0 (take n candles) backtest_start = Inr st
           \<and> exits_before n r = bts_closed_trades st"
  using assms(1)
proof (cases rule: closed_trades_of_run)
  case 1
  with assms(2) show ?thesis by simp
next
  case (2 st)
  have n: "min (length candles) n = n" using assms(2) by simp
  have "run_candles e provider 0 (take n candles @ drop n candles) backtest_start = Inr st"
    using 2(2) by simp
  then obtain st1 where s1: "run_candles e provider 0 (take n candles) backtest_start = Inr st1"
    and s: "run_candles e provider n (drop n candles) st1 = Inr st"
    unfolding run_candles_append by (auto simp: bindE_Inr_iff n)
  have "adds 0 n backtest_start st1" using run_candles_adds [OF s1] by (simp add: n)
  then have early: "filter (\<lambda>t. ctr_exit_candle_index t < n) (bts_closed_trades st1) = bts_closed_trades st1"
    by (auto simp: adds_def backtest_start_def)
  obtain new where new: "bts_closed_trades st = bts_closed_trades st1 @ new"
      "\<forall>t \<in> set new. n \<le> ctr_exit_candle_index t"
    using run_candles_adds [OF s] by (auto simp: adds_def)
  obtain rest where rest: "btr_trades r = bts_closed_trades st1 @ rest"
      "\<forall>t \<in> set rest. n \<le> ctr_exit_candle_index t"
    using 2(3)
  proof (cases rule: end_of_data_cases)
    case 1
    with new that show thesis by simp
  next
    case (2 p t)
    with new assms(2) show thesis by (intro that [of "new @ [t]"]) (auto simp: closes_def)
  qed
  then have "filter (\<lambda>t. ctr_exit_candle_index t < n) rest = []" by (auto simp: filter_empty_conv)
  with rest early s1 show ?thesis by (simp add: exits_before_def)
qed

subsection \<open>The splits\<close>

lemma foldl_min_le: "y = a \<or> y \<in> set ys \<Longrightarrow> foldl min (a :: int) ys \<le> y"
proof (induction ys arbitrary: a y)
  case (Cons b ys)
  have "foldl min (min a b) ys \<le> min a b" by (rule Cons.IH) simp
  moreover have "y \<in> set ys \<Longrightarrow> foldl min (min a b) ys \<le> y" by (rule Cons.IH) simp
  ultimately show ?case using Cons.prems by auto
qed simp

lemma max_timestamp_ge: "c \<in> set candles \<Longrightarrow> \<exists>x. max_timestamp candles = Some x \<and> cdr_timestamp c \<le> x"
proof (induction candles rule: rev_induct)
  case (snoc d candles)
  have step: "max_timestamp (candles @ [d]) = (case max_timestamp candles of None \<Rightarrow> Some (cdr_timestamp d)
      | Some x \<Rightarrow> if x < cdr_timestamp d then Some (cdr_timestamp d) else Some x)"
    by (simp add: max_timestamp_def split: option.split)
  from snoc show ?case unfolding step by (cases "c = d") (force split: option.split)+
qed simp

lemma snooping_guard_rejects:
  assumes "assert_no_parameter_snooping train test = Inr ()" "c \<in> set train" "d \<in> set test"
  shows "cdr_timestamp c < cdr_timestamp d"
proof -
  obtain x where x: "max_timestamp train = Some x" "cdr_timestamp c \<le> x"
    using max_timestamp_ge [OF assms(2)] by blast
  have ne: "test \<noteq> []" using assms(3) by auto
  have noover: "cdr_timestamp d \<notin> cdr_timestamp ` set train"
    and "\<not> foldl min (cdr_timestamp (hd test)) (map cdr_timestamp (List.tl test)) < x"
    using assms(1,3) x(1) ne
    by (auto simp: assert_no_parameter_snooping_def List.member_iff filter_empty_conv split: if_splits)
  moreover have "foldl min (cdr_timestamp (hd test)) (map cdr_timestamp (List.tl test)) \<le> cdr_timestamp d"
    using assms(3) ne by (intro foldl_min_le) (cases test; auto)
  ultimately have "cdr_timestamp c \<le> cdr_timestamp d" using x(2) by linarith
  moreover have "cdr_timestamp c \<noteq> cdr_timestamp d" using noover assms(2) by (metis image_eqI)
  ultimately show ?thesis by simp
qed

text \<open>The tests of consecutive windows follow each other.\<close>

lemma drop_take_append:
  assumes "a \<le> b" "b \<le> c"
  shows "drop a (take b xs) @ drop b (take c xs) = drop a (take c xs)"
proof -
  have "drop b (take c xs) = drop (b - a) (take (c - a) (drop a xs))"
    using assms by (simp add: drop_take)
  moreover have "drop a (take b xs) = take (b - a) (take (c - a) (drop a xs))"
    using assms by (simp add: drop_take min_def)
  ultimately have "drop a (take b xs) @ drop b (take c xs) = take (c - a) (drop a xs)"
    by (simp only: append_take_drop_id)
  then show ?thesis by (simp only: drop_take)
qed

lemma tests_concat:
  assumes "j < k" "m + k * f \<le> length candles"
  shows "concat (map (\<lambda>i. wff_test (make_fold candles m f k i)) [0..<j])
           = drop m (take (test_start m f j) candles)"
  using assms(1)
proof (induction j)
  case 0
  then show ?case by (simp add: test_start_def)
next
  case (Suc j)
  have "test_start m f j \<le> length candles"
  proof -
    have "j * f \<le> k * f" using Suc.prems by (intro mult_right_mono) simp_all
    with assms(2) have "m + j * f \<le> length candles" by linarith
    then show ?thesis by (simp add: test_start_def)
  qed
  moreover have "wff_test (make_fold candles m f k j)
      = drop (test_start m f j) (take (test_start m f (Suc j)) candles)"
    using Suc.prems by (simp add: make_fold_def Let_def test_start_def algebra_simps)
  moreover have "m \<le> test_start m f j" "test_start m f j \<le> test_start m f (Suc j)"
    by (simp_all add: test_start_def)
  ultimately show ?case
    using Suc.IH Suc.prems drop_take_append [of m "test_start m f j" "test_start m f (Suc j)" candles] by simp
qed

lemma folds_concat:
  assumes "0 < k" "m + k * f \<le> length candles"
  shows "concat (map (\<lambda>i. wff_test (make_fold candles m f k i)) [0..<k]) = drop m candles"
proof -
  obtain j where j: "k = Suc j" using assms(1) by (cases k) simp_all
  have "m + j * f \<le> length candles" using assms(2) by (simp add: j)
  then have "concat (map (\<lambda>i. wff_test (make_fold candles m f k i)) [0..<j])
      = drop m (take (test_start m f j) candles)"
    using j assms(2) by (intro tests_concat) simp_all
  moreover have "wff_test (make_fold candles m f k j) = drop (test_start m f j) (take (length candles) candles)"
    by (simp add: make_fold_def Let_def j)
  moreover have "m \<le> test_start m f j" "test_start m f j \<le> length candles"
    using assms(2) by (simp_all add: test_start_def j)
  ultimately show ?thesis
    using drop_take_append [of m "test_start m f j" "length candles" candles] by (simp add: j)
qed

lemma make_fold_ok:
  assumes "i < k" "0 < f" "0 < m" "m + k * f \<le> length candles"
    and "sorted_wrt (\<lambda>c d. cdr_timestamp c < cdr_timestamp d) candles"
  shows "wff_train (make_fold candles m f k i) \<noteq> []" "wff_test (make_fold candles m f k i) \<noteq> []"
    and "assert_no_parameter_snooping (wff_train (make_fold candles m f k i)) (wff_test (make_fold candles m f k i))
           = Inr ()"
proof -
  let ?s = "test_start m f i"
  have "Suc i * f \<le> k * f" using assms(1) by (intro mult_right_mono) simp_all
  with assms(2,4) have s: "?s + f \<le> length candles" by (simp add: test_start_def)
  then show "wff_train (make_fold candles m f k i) \<noteq> []" "wff_test (make_fold candles m f k i) \<noteq> []"
    using assms(2,3) by (auto simp: make_fold_def Let_def test_start_def)
  have "set (wff_test (make_fold candles m f k i)) \<subseteq> set (drop ?s candles)"
    by (auto simp: make_fold_def Let_def drop_take dest: in_set_takeD)
  moreover have "wff_train (make_fold candles m f k i) = take ?s candles" by (simp add: make_fold_def Let_def)
  ultimately show "assert_no_parameter_snooping (wff_train (make_fold candles m f k i))
      (wff_test (make_fold candles m f k i)) = Inr ()"
    by (intro snooping_guard_accepts) (auto intro: split_around [OF assms(5)])
qed

subsection \<open>The properties\<close>

text \<open>C11. The trades of a backtest are decided before they are made: an entry is at the open of its candle, with
  slippage against the trader, and comes from a signal that was computed at least \<open>1 + latency\<close> candles earlier
  from the candles before it alone; no trade exits before its entry; and the trades are in order, a position
  opening after the one before has closed, the parts of one position following each other.\<close>

theorem backtest_trades_sound:
  assumes "backtest_run math e candles provider = Inr r" "0 \<le> bte_latency e"
  shows "sorted_wrt before (btr_trades r)
    \<and> (\<forall>t \<in> set (btr_trades r).
         (\<exists>j s. j + 1 + nat (bte_latency e) \<le> ctr_entry_candle_index t
            \<and> bindE (provider j (take j candles)) make_trade_signal = Inr s
            \<and> opens (tsg_action s) \<and> ctr_side t = side_of s)
         \<and> slippage_apply (bte_slip e) (cdr_open (candles ! ctr_entry_candle_index t))
             (order_side_of (ctr_side t)) ''MARKET'' = Inr (ctr_entry_price t)
         \<and> ctr_entry_candle_index t \<le> ctr_exit_candle_index t \<and> ctr_exit_candle_index t < length candles)"
proof -
  have off: "fill_candle_offset (bte_latency e) = 1 + nat (bte_latency e)"
    using assms(2) by (simp add: fill_candle_offset_def nat_add_distrib)
  show ?thesis
    using trades_of_run [OF assms]
    by (fastforce simp: trade_sound_def entry_decided_def decided_def signal_at_def off)
qed

theorem backtest_trades_sound_witness:
  "\<exists>r. sample_backtest sample_backtest_candles = Inr r \<and> length (btr_trades r) = 2 \<and> sorted_wrt before (btr_trades r)"
proof -
  obtain r where r: "sample_backtest sample_backtest_candles = Inr r" "btr_trades r = sample_trades"
    using sample_backtest_result [of 8] by auto
  then show ?thesis
    using backtest_trades_sound [of sample_backtest_math "sample_backtest_engine 1" sample_backtest_candles
        sample_provider r]
    by (simp add: sample_backtest_def sample_backtest_engine_def sample_trades_simps)
qed

text \<open>C19. No lookahead: two data sets that agree on their first \<open>n\<close> candles give the same trades up to there,
  whatever comes later, for every provider.\<close>

theorem backtest_no_lookahead:
  assumes "backtest_run math e candles provider = Inr r" "backtest_run math e candles' provider = Inr r'"
    and "take n candles = take n candles'" "n < length candles" "n < length candles'"
  shows "filter (\<lambda>t. ctr_exit_candle_index t < n) (btr_trades r)
           = filter (\<lambda>t. ctr_exit_candle_index t < n) (btr_trades r')"
  using exits_before_prefix [OF assms(1,4)] exits_before_prefix [OF assms(2,5)] assms(3)
  by (auto simp: exits_before_def)

theorem backtest_no_lookahead_witness:
  "\<exists>r r'. sample_backtest sample_backtest_candles = Inr r
     \<and> sample_backtest (take 7 sample_backtest_candles) = Inr r' \<and> r \<noteq> r'
     \<and> filter (\<lambda>t. ctr_exit_candle_index t < 6) (btr_trades r)
         = filter (\<lambda>t. ctr_exit_candle_index t < 6) (btr_trades r')"
proof -
  obtain r where r: "sample_backtest sample_backtest_candles = Inr r" "btr_candles_processed r = 8"
    using sample_backtest_result [of 8] by auto
  obtain r' where r': "sample_backtest (take 7 sample_backtest_candles) = Inr r'" "btr_candles_processed r' = 7"
    using sample_backtest_result [of 7] by auto
  have "r \<noteq> r'" using r(2) r'(2) by auto
  then show ?thesis
    using r(1) r'(1) backtest_no_lookahead [of sample_backtest_math "sample_backtest_engine 1" sample_backtest_candles
        sample_provider r "take 7 sample_backtest_candles" r' 6]
    by (simp add: sample_backtest_def sample_backtest_candles_def)
qed

subsection \<open>A close that nobody waits for any more\<close>

text \<open>A pending close was asked for by a signal at a candle at which a position was open, which is still open or was
  closed at a later candle.\<close>

definition asked_for ::
    "backtest_engine \<Rightarrow> signal_provider \<Rightarrow> candle_row list \<Rightarrow> nat \<Rightarrow> nat \<Rightarrow> backtest_state \<Rightarrow> bool" where
  "asked_for e provider candles k j st \<longleftrightarrow>
     map_sum id tsg_action (signal_at provider candles j) = Inr SIGNAL_CLOSE
     \<and> k = j + fill_candle_offset (bte_latency e)
     \<and> ((\<exists>p. bts_open_pos st = Some p \<and> bpo_entry_candle_index p \<le> j)
        \<or> (\<exists>u \<in> set (bts_closed_trades st). ctr_entry_candle_index u \<le> j \<and> j < ctr_exit_candle_index u))"

definition close_asked ::
    "backtest_engine \<Rightarrow> signal_provider \<Rightarrow> candle_row list \<Rightarrow> nat \<Rightarrow> backtest_state \<Rightarrow> bool" where
  "close_asked e provider candles i st \<longleftrightarrow>
     (\<forall>k. bts_pending_close_index st = Some k \<longrightarrow> (\<exists>j < i. asked_for e provider candles k j st))"

lemma fill_phase_asked:
  assumes "fill_phase e candle i st = Inr st'" "close_asked e provider candles i st"
  shows "close_asked e provider candles i st'"
proof (cases "bts_open_pos st")
  case None
  with assms show ?thesis
    by (fastforce simp: fill_phase_def close_asked_def asked_for_def bindE_Inr_iff split: option.splits if_splits)
next
  case (Some p)
  with assms show ?thesis by (auto simp: fill_phase_def split: option.splits if_splits)
qed

lemma close_phase_asked:
  "close_phase e candle i st = Inr st' \<Longrightarrow> close_asked e provider candles i st \<Longrightarrow> close_asked e provider candles i st'"
  by (auto simp: close_phase_def close_asked_def bindE_Inr_iff split: option.splits if_splits)

lemma exit_phase_asked:
  assumes "exit_phase e candle i st = Inr st'" "close_asked e provider candles i st"
  shows "close_asked e provider candles i st'"
proof (cases "bts_open_pos st")
  case None
  with assms show ?thesis by (simp add: exit_phase_def)
next
  case (Some p)
  then obtain trade updated where c: "check_sl_tp e p candle i = Inr (trade, updated)"
    and st': "st' = (case trade of
                 Some t \<Rightarrow> st\<lparr>bts_closed_trades := bts_closed_trades st @ [t], bts_open_pos := updated\<rparr>
               | None \<Rightarrow> (case updated of None \<Rightarrow> st | Some q \<Rightarrow> st\<lparr>bts_open_pos := Some q\<rparr>))"
    using assms(1) by (auto simp: exit_phase_def bindE_Inr_iff)
  from c show ?thesis
    by (cases rule: check_sl_tp_cases)
      (use assms(2) Some in \<open>fastforce simp: st' close_asked_def asked_for_def same_entry_def closes_def\<close>)+
qed

lemma funding_phase_asked:
  "funding_phase candle st = Inr st' \<Longrightarrow> close_asked e provider candles i st \<Longrightarrow> close_asked e provider candles i st'"
  by (fastforce simp: funding_phase_def close_asked_def asked_for_def bindE_Inr_iff split: option.splits if_splits)

lemma signal_phase_asked:
  assumes "signal_phase e provider i st = Inr st'" "close_asked e provider candles i st"
    and "bts_history st = take i candles" "\<And>p. bts_open_pos st = Some p \<Longrightarrow> bpo_entry_candle_index p \<le> i"
  shows "close_asked e provider candles (Suc i) st'"
proof -
  have same: "close_asked e provider candles (Suc i) x"
    if "bts_pending_close_index x = bts_pending_close_index st" "bts_open_pos x = bts_open_pos st"
      "bts_closed_trades x = bts_closed_trades st" for x
    using assms(2) that by (fastforce simp: close_asked_def asked_for_def less_Suc_eq)
  from assms(1) obtain s where s: "signal_at provider candles i = Inr s"
    and st': "st' = (if opens (tsg_action s) \<and> bts_open_pos st = None \<and> bts_pending_entry st = None
          then st\<lparr>bts_pending_entry := Some (s, i + fill_candle_offset (bte_latency e))\<rparr>
          else if tsg_action s = SIGNAL_CLOSE \<and> bts_open_pos st \<noteq> None \<and> bts_pending_close_index st = None
          then st\<lparr>bts_pending_close_index := Some (i + fill_candle_offset (bte_latency e))\<rparr>
          else st)"
    using assms(3) by (auto simp: signal_phase_def signal_at_def bindE_Inr_iff)
  show ?thesis
  proof (cases "bts_pending_close_index st' = bts_pending_close_index st")
    case True
    then show ?thesis by (rule same) (simp_all add: st')
  next
    case False
    then show ?thesis using s assms(4) by (auto simp: st' close_asked_def asked_for_def split: if_splits)
  qed
qed

lemma candle_step_asked:
  assumes "candle_step e provider (candles ! i) i st = Inr st'" "close_asked e provider candles i st"
    and "backtest_inv e provider candles i i i st" "0 \<le> bte_latency e"
  shows "close_asked e provider candles (Suc i) st'"
proof -
  obtain s1 s2 s3 s4 s5 where
    p: "fill_phase e (candles ! i) i st = Inr s1" "close_phase e (candles ! i) i s1 = Inr s2"
    "exit_phase e (candles ! i) i s2 = Inr s3" "funding_phase (candles ! i) s3 = Inr s4"
    "signal_phase e provider i s4 = Inr s5"
    and st': "st' = s5\<lparr>bts_history := bts_history s5 @ [candles ! i]\<rparr>"
    using assms(1) by (auto simp: candle_step_def bindE_Inr_iff)
  then have "backtest_inv e provider candles i (Suc i) (Suc i) s4"
    using assms(3,4) by (meson fill_phase_inv close_phase_inv exit_phase_inv funding_phase_inv)
  then have "bts_history s4 = take i candles" "\<And>q. bts_open_pos s4 = Some q \<Longrightarrow> bpo_entry_candle_index q \<le> i"
    by (auto simp: backtest_inv_def less_Suc_eq_le)
  with p assms(2) have "close_asked e provider candles (Suc i) s5"
    by (meson fill_phase_asked close_phase_asked exit_phase_asked funding_phase_asked signal_phase_asked)
  then show ?thesis by (simp add: st' close_asked_def asked_for_def)
qed

lemma run_candles_asked:
  assumes "run_candles e provider i xs st = Inr st'" "take (length xs) (drop i candles) = xs"
    and "close_asked e provider candles i st" "backtest_inv e provider candles i i i st" "0 \<le> bte_latency e"
    and "i + length xs \<le> length candles"
  shows "close_asked e provider candles (i + length xs) st'"
  using assms
proof (induction xs arbitrary: i st)
  case (Cons candle xs)
  then have i: "i < length candles" by simp
  then have c: "candle = candles ! i" "take (length xs) (drop (Suc i) candles) = xs"
    using Cons.prems(2) by (simp_all add: Cons_nth_drop_Suc [symmetric])
  obtain st1 where s: "candle_step e provider (candles ! i) i st = Inr st1"
    and r: "run_candles e provider (Suc i) xs st1 = Inr st'"
    using Cons.prems(1) c(1) by (auto simp: bindE_Inr_iff)
  have "close_asked e provider candles (Suc i) st1" "backtest_inv e provider candles (Suc i) (Suc i) (Suc i) st1"
    using s i Cons.prems(3-5) by (auto intro: candle_step_asked candle_step_inv)
  with Cons.IH [OF r c(2)] Cons.prems(5,6) show ?case by simp
qed simp

text \<open>When a close is due and no position is open, the next position that opens is closed at the candle that opens it.\<close>

definition stale_closed :: "nat \<Rightarrow> backtest_state \<Rightarrow> backtest_state \<Rightarrow> bool" where
  "stale_closed i st st' \<longleftrightarrow>
     bts_open_pos st' = None \<and> bts_closed_trades st' = bts_closed_trades st
     \<or> (\<exists>t rest. bts_closed_trades st' = bts_closed_trades st @ t # rest \<and> ctr_exit_reason t = EXIT_CLOSE_SIGNAL
          \<and> i \<le> ctr_entry_candle_index t \<and> ctr_exit_candle_index t = ctr_entry_candle_index t)"

lemma stale_candle:
  assumes "candle_step e provider candle i st = Inr st'" "bts_pending_close_index st = Some k" "k \<le> i"
    and "bts_open_pos st = None"
  shows "bts_open_pos st' = None \<and> bts_closed_trades st' = bts_closed_trades st \<and> bts_pending_close_index st' = Some k
    \<or> (\<exists>t. bts_closed_trades st' = bts_closed_trades st @ [t] \<and> ctr_exit_reason t = EXIT_CLOSE_SIGNAL
         \<and> ctr_entry_candle_index t = i \<and> ctr_exit_candle_index t = i)"
proof -
  obtain s1 s2 s3 s4 s5 where
    p: "fill_phase e candle i st = Inr s1" "close_phase e candle i s1 = Inr s2"
    "exit_phase e candle i s2 = Inr s3" "funding_phase candle s3 = Inr s4"
    "signal_phase e provider i s4 = Inr s5"
    and st': "st' = s5\<lparr>bts_history := bts_history s5 @ [candle]\<rparr>"
    using assms(1) by (auto simp: candle_step_def bindE_Inr_iff)
  have f: "bts_closed_trades s1 = bts_closed_trades st" "bts_pending_close_index s1 = Some k"
      "\<And>q. bts_open_pos s1 = Some q \<Longrightarrow> bpo_entry_candle_index q = i"
    using p(1) assms(2,4) open_simulated_Some(2)
    by (auto simp: fill_phase_def bindE_Inr_iff split: option.splits if_splits)
  have none: "bts_open_pos s5 = None \<and> bts_closed_trades s5 = bts_closed_trades s2" if "bts_open_pos s2 = None"
    using that p(3-5) by (auto simp: exit_phase_def funding_phase_def signal_phase_def bindE_Inr_iff)
  have keep: "bts_pending_close_index s5 = bts_pending_close_index s2"
    if "bts_open_pos s2 = None" "bts_pending_close_index s2 \<noteq> None"
    using that p(3-5) by (auto simp: exit_phase_def funding_phase_def signal_phase_def bindE_Inr_iff)
  show ?thesis
  proof (cases "bts_open_pos s1")
    case None
    with p(2) have "s2 = s1" by (auto simp: close_phase_def split: option.splits)
    with None none keep f st' show ?thesis by simp
  next
    case (Some q)
    with p(2) f(2) assms(3) obtain t where t: "close_simulated e q (cdr_open candle) i EXIT_CLOSE_SIGNAL ''MARKET'' = Inr t"
      "s2 = s1\<lparr>bts_closed_trades := bts_closed_trades s1 @ [t], bts_open_pos := None, bts_pending_close_index := None\<rparr>"
      by (auto simp: close_phase_def bindE_Inr_iff)
    with none close_simulated_closes [OF t(1)] f(1) f(3) [OF Some] st' show ?thesis by (auto simp: closes_def)
  qed
qed

lemma run_candles_stale:
  assumes "run_candles e provider i candles st = Inr st'" "bts_pending_close_index st = Some k" "k \<le> i"
    and "bts_open_pos st = None"
  shows "stale_closed i st st'"
  using assms
proof (induction candles arbitrary: i st)
  case Nil
  then show ?case by (simp add: stale_closed_def)
next
  case (Cons candle candles)
  then obtain st1 where s: "candle_step e provider candle i st = Inr st1"
    and r: "run_candles e provider (Suc i) candles st1 = Inr st'" by (auto simp: bindE_Inr_iff)
  from stale_candle [OF s Cons.prems(2-4)] show ?case
  proof (elim disjE)
    assume "bts_open_pos st1 = None \<and> bts_closed_trades st1 = bts_closed_trades st \<and> bts_pending_close_index st1 = Some k"
    with Cons.IH [OF r] Cons.prems(3) have "stale_closed (Suc i) st1 st'" "bts_closed_trades st1 = bts_closed_trades st" by auto
    then show ?thesis unfolding stale_closed_def by (metis Suc_leD)
  next
    assume "\<exists>t. bts_closed_trades st1 = bts_closed_trades st @ [t] \<and> ctr_exit_reason t = EXIT_CLOSE_SIGNAL
         \<and> ctr_entry_candle_index t = i \<and> ctr_exit_candle_index t = i"
    with run_candles_adds [OF r] show ?thesis by (fastforce simp: stale_closed_def adds_def)
  qed
qed

text \<open>C27. A pending close outlives the position that it was meant for. In every run: if after some candles no position
  is open but a close is still pending that falls due, the close was asked for at an earlier candle during a position
  that has been closed since, and the first position that opens from there on, if one opens, is closed by it with
  \<^verbatim>\<open>CLOSE_SIGNAL\<close> at the very candle that opens it.\<close>

theorem backtest_stale_close:
  assumes "backtest_run math e (xs @ ys) provider = Inr r" "0 \<le> bte_latency e"
    and "run_candles e provider 0 xs backtest_start = Inr st"
    and "bts_open_pos st = None" "bts_pending_close_index st = Some k" "k \<le> length xs"
  shows "(\<exists>j < length xs. map_sum id tsg_action (bindE (provider j (take j (xs @ ys))) make_trade_signal) = Inr SIGNAL_CLOSE
        \<and> k = j + fill_candle_offset (bte_latency e)
        \<and> (\<exists>u \<in> set (bts_closed_trades st). ctr_entry_candle_index u \<le> j \<and> j < ctr_exit_candle_index u))
    \<and> (btr_trades r = bts_closed_trades st
       \<or> (\<exists>t rest. btr_trades r = bts_closed_trades st @ t # rest \<and> ctr_exit_reason t = EXIT_CLOSE_SIGNAL
            \<and> length xs \<le> ctr_entry_candle_index t \<and> ctr_exit_candle_index t = ctr_entry_candle_index t))"
proof
  have "close_asked e provider (xs @ ys) (0 + length xs) st"
    by (rule run_candles_asked [OF assms(3)])
      (simp_all add: close_asked_def backtest_inv_start assms(2), simp add: backtest_start_def)
  with assms(4,5) show "\<exists>j < length xs. map_sum id tsg_action (bindE (provider j (take j (xs @ ys))) make_trade_signal)
          = Inr SIGNAL_CLOSE \<and> k = j + fill_candle_offset (bte_latency e)
        \<and> (\<exists>u \<in> set (bts_closed_trades st). ctr_entry_candle_index u \<le> j \<and> j < ctr_exit_candle_index u)"
    by (auto simp: close_asked_def asked_for_def signal_at_def)
  have "xs \<noteq> []" using assms(3,5) by (auto simp: backtest_start_def)
  with assms(1) obtain st' where "run_candles e provider 0 (xs @ ys) backtest_start = Inr st'"
    and fin: "end_of_data e (xs @ ys) st' = Inr (btr_trades r)" by (cases rule: closed_trades_of_run) auto
  then have "run_candles e provider (length xs) ys st = Inr st'"
    using assms(3) by (simp add: run_candles_append bindE_def)
  then have stale: "stale_closed (length xs) st st'" using assms(4-6) by (intro run_candles_stale)
  from fin show "btr_trades r = bts_closed_trades st
       \<or> (\<exists>t rest. btr_trades r = bts_closed_trades st @ t # rest \<and> ctr_exit_reason t = EXIT_CLOSE_SIGNAL
            \<and> length xs \<le> ctr_entry_candle_index t \<and> ctr_exit_candle_index t = ctr_entry_candle_index t)"
    by (cases rule: end_of_data_cases) (use stale in \<open>auto simp: stale_closed_def\<close>)
qed

theorem backtest_stale_close_witness:
  "\<exists>r t. sample_backtest sample_backtest_candles = Inr r \<and> t \<in> set (btr_trades r)
     \<and> ctr_exit_reason t = EXIT_CLOSE_SIGNAL \<and> 4 \<le> ctr_entry_candle_index t"
proof -
  obtain r where r: "sample_backtest sample_backtest_candles = Inr r" "btr_trades r = sample_trades"
    using sample_backtest_result [of 8] by auto
  obtain st where st: "run_candles (sample_backtest_engine 1) sample_provider 0 (take 4 sample_backtest_candles)
      backtest_start = Inr st" "bts_open_pos st = None" "bts_pending_close_index st = Some 4"
    "length (bts_closed_trades st) = 1"
    using sample_stale by blast
  have s: "backtest_run sample_backtest_math (sample_backtest_engine 1)
      (take 4 sample_backtest_candles @ drop 4 sample_backtest_candles) sample_provider = Inr r"
    using r(1) by (simp add: sample_backtest_def)
  have "4 \<le> length (take 4 sample_backtest_candles)" "0 \<le> bte_latency (sample_backtest_engine 1)"
    by (simp_all add: sample_backtest_candles_def sample_backtest_engine_def)
  from backtest_stale_close [OF s this(2) st(1-3) this(1)] st(4) r(2)
  obtain t rest where "btr_trades r = bts_closed_trades st @ t # rest" "ctr_exit_reason t = EXIT_CLOSE_SIGNAL"
    "length (take 4 sample_backtest_candles) \<le> ctr_entry_candle_index t"
    by (metis One_nat_def sample_trades_simps(2) n_not_Suc_n numeral_2_eq_2)
  with r(1) show ?thesis by (auto simp: sample_backtest_candles_def)
qed

text \<open>Slippage is charged twice: on a market that stands still at 100, with no fees and no funding, one unit is
  bought at 101 and sold at 99. The gross result is the loss of 2 that this makes; the net result takes the
  slippage of entry and exit off again.\<close>

theorem backtest_slippage_charged_twice:
  "case sample_backtest sample_backtest_candles of
     Inr r \<Rightarrow> (let t = btr_trades r ! 1 in
        ctr_entry_price t = 101 \<and> ctr_exit_price t = 99 \<and> ctr_gross_pnl_usdt t = -2
        \<and> ctr_entry_fee_usdt t = 0 \<and> ctr_exit_fee_usdt t = 0 \<and> ctr_funding_cost_usdt t = 0
        \<and> ctr_net_pnl_usdt t = -4)
   | Inl _ \<Rightarrow> False"
proof -
  obtain r where "sample_backtest sample_backtest_candles = Inr r" "btr_trades r = sample_trades"
    using sample_backtest_result [of 8] by auto
  then show ?thesis by (simp add: sample_trades_def sample_trade_def)
qed

text \<open>The guard against data snooping accepts exactly the pairs of sets in which every training candle is
  strictly before every evaluation candle, although it compares only the greatest and the least.\<close>

theorem snooping_guard_exact:
  "assert_no_parameter_snooping train test = Inr ()
     \<longleftrightarrow> list_all (\<lambda>c. list_all (\<lambda>d. cdr_timestamp c < cdr_timestamp d) test) train"
  using snooping_guard_accepts snooping_guard_rejects unfolding list_all_iff by blast

text \<open>C20. Walk-forward validation leaks nothing: the windows are as many as asked for, their tests follow each
  other and make up everything after the least training set, none is empty, and the guard against data snooping
  accepts every window of candles in the order of time.\<close>

theorem walk_forward_no_leak:
  assumes "walk_forward_splits candles n_folds min_train = Inr windows"
    and "sorted_wrt (\<lambda>c d. cdr_timestamp c < cdr_timestamp d) candles"
  shows "length windows = nat n_folds \<and> concat (map wff_test windows) = drop (nat min_train) candles
    \<and> (\<forall>w \<in> set windows. wff_train w \<noteq> [] \<and> wff_test w \<noteq> []
         \<and> assert_no_parameter_snooping (wff_train w) (wff_test w) = Inr ())"
proof -
  define k m where "k = nat n_folds" and "m = nat min_train"
  define f where "f = (length candles - m) div k"
  have k: "0 < k" "0 < m" "m + k \<le> length candles" and w: "windows = map (make_fold candles m f k) [0..<k]"
    using assms(1) by (auto simp: walk_forward_splits_def Let_def k_def m_def f_def split: if_splits)
  have "k * 1 \<le> length candles - m" using k by simp
  with k(1) have f: "0 < f" unfolding f_def by (simp add: div_greater_zero_iff)
  have "k * f \<le> length candles - m" unfolding f_def by simp
  with k have n: "m + k * f \<le> length candles" by simp
  have "concat (map wff_test windows) = drop m candles"
    using folds_concat [OF k(1) n] by (simp add: w comp_def)
  moreover have "wff_train w \<noteq> [] \<and> wff_test w \<noteq> [] \<and> assert_no_parameter_snooping (wff_train w) (wff_test w) = Inr ()"
    if "w \<in> set windows" for w
    using that make_fold_ok [OF _ f k(2) n assms(2)] by (auto simp: w)
  ultimately show ?thesis by (simp add: w k_def m_def)
qed

theorem walk_forward_no_leak_witness:
  "\<exists>ws. walk_forward_splits sample_backtest_candles 2 3 = Inr ws
     \<and> concat (map wff_test ws) = drop 3 sample_backtest_candles"
proof -
  have "case walk_forward_splits sample_backtest_candles 2 3 of Inr _ \<Rightarrow> True | Inl _ \<Rightarrow> False" by code_simp
  then obtain ws where "walk_forward_splits sample_backtest_candles 2 3 = Inr ws"
    by (cases "walk_forward_splits sample_backtest_candles 2 3") simp_all
  moreover have "sorted_wrt (\<lambda>c d. cdr_timestamp c < cdr_timestamp d) sample_backtest_candles"
    by (simp add: sample_backtest_candles_def sample_candle_def)
  ultimately show ?thesis
    using walk_forward_no_leak [of sample_backtest_candles 2 3 ws] by simp
qed

end
