(* ===== verification/PyText.thy ===== *)
theory PyText
  imports ModelDecision
begin

text \<open>
  Text as Python's library treats it: the UTF-8 bytes of a string, the numerals that \<^verbatim>\<open>str\<close>, \<^verbatim>\<open>int\<close> and
  \<^verbatim>\<open>Decimal\<close> write and read, \<^verbatim>\<open>join\<close> and \<^verbatim>\<open>split\<close>. A character is one of the first 256.
\<close>

subsection \<open>Bytes\<close>

definition utf8 :: "char \<Rightarrow> nat list" where
  "utf8 c = (let n = of_char c in if n < 128 then [n] else [192 + n div 64, 128 + n mod 64])"

definition utf8_bytes :: "string \<Rightarrow> nat list" where
  "utf8_bytes s = concat (map utf8 s)"

lemma utf8_less: "n \<in> set (utf8 c) \<Longrightarrow> n < 256"
proof -
  have "of_char c < (256 :: nat)" by simp
  then have "of_char c div 64 < (4 :: nat)" by (simp add: less_mult_imp_div_less)
  moreover have "of_char c mod 64 < (64 :: nat)" by simp
  moreover assume "n \<in> set (utf8 c)"
  ultimately show "n < 256" unfolding utf8_def Let_def by (auto split: if_splits)
qed

lemma utf8_bytes_less: "n \<in> set (utf8_bytes s) \<Longrightarrow> n < 256"
  by (auto simp: utf8_bytes_def utf8_less)

lemma char_of_eq_iff: "n < 256 \<Longrightarrow> char_of n = c \<longleftrightarrow> n = (of_char c :: nat)"
  by (metis char_of_char of_char_of mod_less)

lemma of_char_of_less: "n < 256 \<Longrightarrow> of_char (char_of n) = (n :: nat)"
  by simp

subsection \<open>Numerals\<close>

fun nat_text :: "nat \<Rightarrow> string" where
  "nat_text n = (if n < 10 then [char_of (48 + n)] else nat_text (n div 10) @ [char_of (48 + n mod 10)])"

declare nat_text.simps [simp del]

definition int_text :: "int \<Rightarrow> string" where
  "int_text n = (if n < 0 then CHR ''-'' # nat_text (nat (- n)) else nat_text (nat n))"

definition is_digit :: "char \<Rightarrow> bool" where
  "is_digit c \<longleftrightarrow> 48 \<le> (of_char c :: nat) \<and> (of_char c :: nat) \<le> 57"

definition digits_value :: "string \<Rightarrow> int" where
  "digits_value s = foldl (\<lambda>n c. 10 * n + (of_char c - 48)) 0 s"

definition drop_sign_of :: "string \<Rightarrow> bool \<times> string" where
  "drop_sign_of s =
     (case s of c # t \<Rightarrow> (if c = CHR ''-'' then (True, t) else if c = CHR ''+'' then (False, t) else (False, s))
              | [] \<Rightarrow> (False, []))"

text \<open>\<^verbatim>\<open>int(s)\<close> for a string: blanks around it, a sign, digits with single underscores between them, and at most
  4300 digits.\<close>

fun digit_groups :: "string \<Rightarrow> bool" where
  "digit_groups [] = False"
| "digit_groups [c] = is_digit c"
| "digit_groups (c # d # s) = (is_digit c \<and> (if d = CHR ''_'' then digit_groups s else digit_groups (d # s)))"

definition parse_int :: "string \<Rightarrow> int option" where
  "parse_int s =
     (case drop_sign_of (strip_chars py_blank s) of (neg, t) \<Rightarrow>
        let ds = filter (\<lambda>c. c \<noteq> CHR ''_'') t
        in if digit_groups t \<and> length ds \<le> 4300
           then Some (if neg then - digits_value ds else digits_value ds) else None)"

text \<open>\<^verbatim>\<open>Decimal(s)\<close>; the names of the infinities and of \<^verbatim>\<open>NaN\<close>, which the readers refuse one line later, are refused
  here.\<close>

definition parse_decimal :: "string \<Rightarrow> rat result" where
  "parse_decimal s =
     (case drop_sign_of (filter (\<lambda>c. c \<noteq> CHR ''_'') (strip_chars py_blank s)) of (neg, t) \<Rightarrow>
        let whole = takeWhile is_digit t; rest = dropWhile is_digit t;
            (frac, rest) = (case rest of c # u \<Rightarrow> if c = CHR ''.'' then (takeWhile is_digit u, dropWhile is_digit u)
                                              else ([], rest) | [] \<Rightarrow> ([], []));
            expo = (case rest of [] \<Rightarrow> Some 0
                    | c # u \<Rightarrow> if c = CHR ''e'' \<or> c = CHR ''E''
                              then (case drop_sign_of u of (n, d) \<Rightarrow>
                                      if d \<noteq> [] \<and> list_all is_digit d
                                      then Some (if n then - digits_value d else digits_value d) else None)
                              else None);
            x = of_int (digits_value (whole @ frac))
        in case expo of
             Some k \<Rightarrow>
               if whole = [] \<and> frac = [] then Inl InvalidOperation
               else Inr ((if neg then - 1 else 1) * x * 10 powi (k - int (length frac)))
           | None \<Rightarrow> Inl InvalidOperation)"

subsection \<open>Joining and splitting\<close>

fun join :: "string \<Rightarrow> string list \<Rightarrow> string" where
  "join sep [] = []"
| "join sep [s] = s"
| "join sep (s # t # ss) = s @ sep @ join sep (t # ss)"

fun split_on :: "char \<Rightarrow> string \<Rightarrow> string list" where
  "split_on c [] = [[]]"
| "split_on c (x # xs) =
     (if x = c then [] # split_on c xs else case split_on c xs of y # ys \<Rightarrow> (x # y) # ys | [] \<Rightarrow> [[x]])"

lemma split_on_join:
  assumes "ps \<noteq> []" "\<forall>p \<in> set ps. c \<notin> set p"
  shows "split_on c (join [c] ps) = ps"
proof -
  have one: "c \<notin> set p \<Longrightarrow> split_on c p = [p]" for p by (induction p) auto
  have app: "c \<notin> set p \<Longrightarrow> split_on c (p @ c # s) = p # split_on c s" for p s by (induction p) auto
  from assms show ?thesis
    by (induction "[c]" ps rule: join.induct) (simp_all add: one app)
qed


subsection \<open>A numeral reads back\<close>

lemma nat_text_digits: "c \<in> set (nat_text n) \<Longrightarrow> is_digit c"
proof (induction n rule: nat_text.induct)
  case (1 n)
  then show ?case by (subst (asm) (2) nat_text.simps) (auto simp: is_digit_def split: if_splits)
qed

lemma nat_text_nonempty: "nat_text n \<noteq> []"
  by (subst nat_text.simps) simp

lemma digits_value_snoc: "digits_value (s @ [c]) = 10 * digits_value s + (of_char c - 48)"
  by (simp add: digits_value_def)

lemma digits_value_nat_text: "digits_value (nat_text n) = int n"
proof (induction n rule: nat_text.induct)
  case (1 n)
  have c: "of_char (char_of (48 + k) :: char) = (48 + int k)" if "k < 10" for k :: nat
    using that of_nat_of_char [where 'a = int, of "char_of (48 + k)"] by simp
  show ?case
  proof (cases "n < 10")
    case True
    then show ?thesis using c by (subst nat_text.simps) (simp add: digits_value_def)
  next
    case False
    then have "digits_value (nat_text n) = 10 * int (n div 10) + int (n mod 10)"
      using 1 c [of "n mod 10"] by (subst nat_text.simps) (simp add: digits_value_snoc)
    then show ?thesis by presburger
  qed
qed

lemma length_nat_text: "n < 10 ^ Suc k \<Longrightarrow> length (nat_text n) \<le> Suc k"
proof (induction k arbitrary: n)
  case 0
  then show ?case by (subst nat_text.simps) simp
next
  case (Suc k)
  then have "length (nat_text (n div 10)) \<le> Suc k" by (intro Suc.IH) (simp add: less_mult_imp_div_less)
  then show ?case by (subst nat_text.simps) auto
qed

lemma is_digit_plain: "is_digit c \<Longrightarrow> \<not> py_blank c \<and> c \<noteq> CHR ''_'' \<and> c \<noteq> CHR ''-'' \<and> c \<noteq> CHR ''+'' \<and> c \<noteq> CHR ''$''"
  by (auto simp: is_digit_def py_blank_def Let_def)

lemma strip_chars_id: "\<forall>c \<in> set s. \<not> P c \<Longrightarrow> strip_chars P s = s"
proof -
  assume s: "\<forall>c \<in> set s. \<not> P c"
  have id: "dropWhile P t = t" if "\<forall>c \<in> set t. \<not> P c" for t using that by (cases t) simp_all
  show ?thesis using s id [of s] id [of "rev s"] by (simp add: strip_chars_def)
qed

lemma digit_groups_all: "s \<noteq> [] \<Longrightarrow> \<forall>c \<in> set s. is_digit c \<Longrightarrow> digit_groups s"
  by (induction s rule: digit_groups.induct) (auto dest: is_digit_plain)

lemma parse_int_nat_text: "n < 10 ^ Suc k \<Longrightarrow> k < 4300 \<Longrightarrow> parse_int (nat_text n) = Some (int n)"
proof -
  let ?t = "nat_text n"
  assume n: "n < 10 ^ Suc k" "k < 4300"
  have d: "\<forall>c \<in> set ?t. is_digit c" using nat_text_digits by blast
  then have "strip_chars py_blank ?t = ?t" by (intro strip_chars_id) (auto dest: is_digit_plain)
  moreover have "drop_sign_of ?t = (False, ?t)"
  proof (cases ?t)
    case Nil
    then show ?thesis using nat_text_nonempty by blast
  next
    case (Cons c s)
    with d have "c \<noteq> CHR ''-'' \<and> c \<noteq> CHR ''+''" using is_digit_plain [of c] by simp
    with Cons show ?thesis by (simp add: drop_sign_of_def)
  qed
  moreover have "filter (\<lambda>c. c \<noteq> CHR ''_'') ?t = ?t" using d is_digit_plain by (intro filter_True) blast
  moreover have "digit_groups ?t" using d nat_text_nonempty by (intro digit_groups_all)
  moreover have "length ?t \<le> 4300" using length_nat_text [OF n(1)] n(2) by simp
  ultimately show ?thesis by (simp add: parse_int_def Let_def digits_value_nat_text)
qed

end
