(* ===== verification/BingxHttp.thy ===== *)
theory BingxHttp
  imports GptClient Costs PyText
begin

text \<open>
  The transport of \<^verbatim>\<open>backend/exchange_adapters/bingx_adapter.py\<close> with \<^verbatim>\<open>core/bingx_http.py\<close>: the signed request, what
  an answer is read as, and the conversions that Python applies to JSON values. The exchange is a parameter: its
  answer to a request is a function of everything that was sent before, and so are the clocks. HMAC-SHA256 and
  the text of a decimal (which depends on its trailing zeros) are parameters too.
\<close>

subsection \<open>Percent encoding\<close>

text \<open>\<^verbatim>\<open>urllib.parse.quote(v, safe='')\<close>: the bytes of UTF-8, the unreserved ones as they are.\<close>

definition unreserved :: "nat \<Rightarrow> bool" where
  "unreserved n \<longleftrightarrow> 48 \<le> n \<and> n \<le> 57 \<or> 65 \<le> n \<and> n \<le> 90 \<or> 97 \<le> n \<and> n \<le> 122 \<or> n \<in> {95, 46, 45, 126}"

definition hex_char :: "nat \<Rightarrow> char" where
  "hex_char n = char_of (if n < 10 then 48 + n else 55 + n)"

definition quote_byte :: "nat \<Rightarrow> string" where
  "quote_byte n = (if unreserved n then [char_of n] else [CHR ''%'', hex_char (n div 16), hex_char (n mod 16)])"

definition quote :: "string \<Rightarrow> string" where
  "quote s = concat (map quote_byte (concat (map utf8 s)))"

subsection \<open>Errors\<close>

text \<open>\<open>Raised\<close> embeds the exceptions that the other components know.\<close>

datatype bingx_error =
    BingXApiError
  | HTTPStatusError int
  | RequestError
  | TypeError
  | AttributeError
  | Failed_assertion
  | Raised py_error

definition is_retryable_bingx_error :: "bingx_error \<Rightarrow> bool" where
  "is_retryable_bingx_error e =
     (case e of HTTPStatusError status \<Rightarrow> 500 \<le> status | RequestError \<Rightarrow> True | _ \<Rightarrow> False)"

definition lift_result :: "'a result \<Rightarrow> bingx_error + 'a" where
  "lift_result r = map_sum Raised id r"

subsection \<open>Reading JSON as Python does\<close>

fun truthy :: "json \<Rightarrow> bool" where
  "truthy JNull = False"
| "truthy (JBool b) = b"
| "truthy (JInt n) = (n \<noteq> 0)"
| "truthy (JFloat x) = (x \<noteq> 0)"
| "truthy (JStr s) = (s \<noteq> [])"
| "truthy (JArr xs) = (xs \<noteq> [])"
| "truthy (JObj d) = (d \<noteq> [])"

text \<open>\<open>x or y\<close>, \<open>x[k]\<close> and \<open>x.get(k)\<close>.\<close>

definition py_or :: "json \<Rightarrow> json \<Rightarrow> json" where
  "py_or x y = (if truthy x then x else y)"

definition item :: "string \<Rightarrow> json \<Rightarrow> bingx_error + json" where
  "item k j =
     (case j of JObj d \<Rightarrow> (case dict_get d k of None \<Rightarrow> Inl (Raised KeyError) | Some v \<Rightarrow> Inr v) | _ \<Rightarrow> Inl TypeError)"

definition get_or :: "string \<Rightarrow> json \<Rightarrow> json \<Rightarrow> bingx_error + json" where
  "get_or k dflt j =
     (case j of JObj d \<Rightarrow> Inr (case dict_get d k of None \<Rightarrow> dflt | Some v \<Rightarrow> v) | _ \<Rightarrow> Inl AttributeError)"

text \<open>\<^verbatim>\<open>Decimal(str(v))\<close>: the text of anything but a number or a string is no numeral.\<close>

fun decimal_of_json :: "json \<Rightarrow> bingx_error + rat" where
  "decimal_of_json (JStr s) = lift_result (parse_decimal s)"
| "decimal_of_json (JInt n) = Inr (of_int n)"
| "decimal_of_json (JFloat x) = Inr (dec_of_float x)"
| "decimal_of_json j = Inl (Raised InvalidOperation)"

text \<open>\<^verbatim>\<open>Decimal(v)\<close>: a float is taken exactly; lists are refused.\<close>

fun new_decimal :: "json \<Rightarrow> bingx_error + rat" where
  "new_decimal (JStr s) = lift_result (parse_decimal s)"
| "new_decimal (JInt n) = Inr (of_int n)"
| "new_decimal (JFloat x) = Inr x"
| "new_decimal (JBool b) = Inr (if b then 1 else 0)"
| "new_decimal (JArr xs) = Inl (Raised ValueError)"
| "new_decimal j = Inl TypeError"

fun int_of_json :: "json \<Rightarrow> bingx_error + int" where
  "int_of_json (JInt n) = Inr n"
| "int_of_json (JBool b) = Inr (if b then 1 else 0)"
| "int_of_json (JFloat x) = Inr (if 0 \<le> x then \<lfloor>x\<rfloor> else \<lceil>x\<rceil>)"
| "int_of_json (JStr s) = (case parse_int s of None \<Rightarrow> Inl (Raised ValueError) | Some n \<Rightarrow> Inr n)"
| "int_of_json j = Inl TypeError"

fun hashable :: "json \<Rightarrow> bool" where
  "hashable (JArr xs) = False"
| "hashable (JObj d) = False"
| "hashable j = True"

text \<open>\<^verbatim>\<open>datetime.fromtimestamp(ts_ms / 1000.0, tz=UTC)\<close>, in microseconds; only the years 1 to 9999 exist.\<close>

definition from_timestamp_ms :: "int \<Rightarrow> bingx_error + int" where
  "from_timestamp_ms ts =
     (if -62135596800000 \<le> ts \<and> ts < 253402300800000 then Inr (ts * 1000) else Inl (Raised ValueError))"

subsection \<open>A signed request\<close>

record bingx_request =
  bq_method :: string
  bq_path :: string
  bq_params :: "(string \<times> string) list"

record wire =
  wi_method :: string
  wi_url :: string
  wi_api_key :: string

text \<open>What has happened so far: requests, and whatever passes between the calls of the adapter.\<close>

datatype event = Sent wire | Elapsed rat

datatype bingx_outcome = No_response | Http_response int "json option"

record bingx_net =
  bn_answer :: "event list \<Rightarrow> bingx_outcome"
  bn_now_ms :: "event list \<Rightarrow> int"
  bn_utcnow :: "event list \<Rightarrow> int"
  bn_monotonic :: "event list \<Rightarrow> rat"
  bn_jitter :: "event list \<Rightarrow> rat"
  bn_hmac :: "string \<Rightarrow> string \<Rightarrow> string"
  bn_decimal_text :: "rat \<Rightarrow> string"
  bn_json_text :: "json \<Rightarrow> string"

record bingx_adapter =
  bx_api_key :: string
  bx_api_secret :: string
  bx_environment :: environment
  bx_order_symbol_cache :: "(string, symbol) dict"
  bx_one_way_verified :: bool
  bx_isolated_verified_symbols :: "symbol list"
  bx_circuit_breaker :: breaker
  bx_fee_rates_cache :: "(fee_rates \<times> rat) option"

fun base_url :: "environment \<Rightarrow> string" where
  "base_url LIVE = ''https://open-api.bingx.com''"
| "base_url TESTNET = ''https://open-api-vst.bingx.com''"
| "base_url PAPER = ''https://open-api-vst.bingx.com''"

definition bingx_init :: "string \<Rightarrow> string \<Rightarrow> environment \<Rightarrow> bingx_adapter" where
  "bingx_init api_key api_secret env =
     \<lparr>bx_api_key = api_key, bx_api_secret = api_secret, bx_environment = env, bx_order_symbol_cache = [],
      bx_one_way_verified = False, bx_isolated_verified_symbols = [], bx_circuit_breaker = breaker_init None,
      bx_fee_rates_cache = None\<rparr>"

definition query_string :: "(string \<times> string) list \<Rightarrow> int \<Rightarrow> string" where
  "query_string params ts =
     join ''&'' (map (\<lambda>(k, v). k @ ''='' @ quote v) params @ [''timestamp='' @ int_text ts])"

definition wire_of :: "bingx_net \<Rightarrow> bingx_adapter \<Rightarrow> int \<Rightarrow> bingx_request \<Rightarrow> wire" where
  "wire_of net a ts q =
     (let query = query_string (bq_params q) ts;
          signature = bn_hmac net (bx_api_secret a) query
      in \<lparr>wi_method = bq_method q,
          wi_url = base_url (bx_environment a) @ bq_path q @ ''?'' @ query @ ''&signature='' @ signature,
          wi_api_key = bx_api_key a\<rparr>)"

text \<open>\<^verbatim>\<open>raise_for_status\<close>, \<^verbatim>\<open>response.json()\<close> and the code of the body; \<^verbatim>\<open>0 == 0.0 == False\<close>.\<close>

definition is_zero :: "json \<Rightarrow> bool" where
  "is_zero j \<longleftrightarrow> j = JInt 0 \<or> j = JFloat 0 \<or> j = JBool False"

definition read_answer :: "bingx_outcome \<Rightarrow> bingx_error + json" where
  "read_answer out =
     (case out of
        No_response \<Rightarrow> Inl RequestError
      | Http_response status body \<Rightarrow>
          if \<not> (200 \<le> status \<and> status \<le> 299) then Inl (HTTPStatusError status)
          else case body of
            None \<Rightarrow> Inl (Raised ValueError)
          | Some b \<Rightarrow> bindE (get_or ''code'' (JInt (-1)) b) (\<lambda>code.
              if \<not> is_zero code then Inl BingXApiError else item ''data'' b))"

definition do_request ::
    "bingx_net \<Rightarrow> bingx_adapter \<Rightarrow> bingx_request \<Rightarrow> event list \<Rightarrow> (bingx_error + json) \<times> event list" where
  "do_request net a q h =
     (let h' = h @ [Sent (wire_of net a (bn_now_ms net h) q)] in (read_answer (bn_answer net h'), h'))"

text \<open>The history after \<open>k\<close> attempts of one request, and the attempts as the retry loop sees them.\<close>

fun sends :: "bingx_net \<Rightarrow> bingx_adapter \<Rightarrow> bingx_request \<Rightarrow> event list \<Rightarrow> nat \<Rightarrow> event list" where
  "sends net a q h 0 = h"
| "sends net a q h (Suc k) = snd (do_request net a q (sends net a q h k))"

definition attempt_at ::
    "bingx_net \<Rightarrow> bingx_adapter \<Rightarrow> bingx_request \<Rightarrow> event list \<Rightarrow> nat \<Rightarrow> (bingx_error, json) attempt" where
  "attempt_at net a q h k =
     \<lparr>at_asked = bn_monotonic net (sends net a q h k), at_outcome = fst (do_request net a q (sends net a q h k)),
      at_told = bn_monotonic net (sends net a q h (Suc k)), at_jitter = bn_jitter net (sends net a q h (Suc k))\<rparr>"

definition BINGX_RETRY_CONFIG :: retry_config where
  "BINGX_RETRY_CONFIG = \<lparr>rt_max_attempts = 4, rt_base_delay_seconds = 1/2, rt_max_delay_seconds = 8,
     rt_jitter_ratio = fl (2/10)\<rparr>"

text \<open>An operation of the adapter threads the adapter and the history.\<close>

type_synonym 'a bingx_m = "bingx_adapter \<Rightarrow> event list \<Rightarrow> (bingx_error + 'a) \<times> bingx_adapter \<times> event list"

definition signed_request :: "bingx_net \<Rightarrow> string \<Rightarrow> string \<Rightarrow> (string \<times> string) list \<Rightarrow> json bingx_m" where
  "signed_request net meth path params a h =
     (let q = \<lparr>bq_method = meth, bq_path = path, bq_params = params\<rparr>;
          r = retry BINGX_RETRY_CONFIG is_retryable_bingx_error (\<lambda>_. None) (attempt_at net a q h)
                (Some (bx_circuit_breaker a))
      in (case rd_result r of
            Inr x \<Rightarrow> Inr x
          | Inl (Operation_error e) \<Rightarrow> Inl e
          | Inl (Breaker_error CircuitBreakerOpenError) \<Rightarrow> Inl BingXApiError
          | Inl (Breaker_error AssertionError) \<Rightarrow> Inl Failed_assertion,
          a\<lparr>bx_circuit_breaker := the (rd_breaker r)\<rparr>, sends net a q h (rd_calls r)))"

definition bindB :: "'a bingx_m \<Rightarrow> ('a \<Rightarrow> 'b bingx_m) \<Rightarrow> 'b bingx_m" where
  "bindB m f a h = (case m a h of (Inl e, a', h') \<Rightarrow> (Inl e, a', h') | (Inr x, a', h') \<Rightarrow> f x a' h')"

definition liftB :: "bingx_error + 'a \<Rightarrow> 'a bingx_m" where
  "liftB r a h = (r, a, h)"

definition modifyB :: "(bingx_adapter \<Rightarrow> bingx_adapter) \<Rightarrow> unit bingx_m" where
  "modifyB f a h = (Inr (), f a, h)"

text \<open>\<^verbatim>\<open>try\<close> \<open>m\<close> \<^verbatim>\<open>except\<close>: the handler answers the errors it catches.\<close>

definition catchB :: "'a bingx_m \<Rightarrow> (bingx_error \<Rightarrow> 'a bingx_m) \<Rightarrow> 'a bingx_m" where
  "catchB m f a h = (case m a h of (Inl e, a', h') \<Rightarrow> f e a' h' | (Inr x, a', h') \<Rightarrow> (Inr x, a', h'))"

end
