(* ===== verification/BingxAdapter.thy ===== *)
theory BingxAdapter
  imports BingxHttp
begin

text \<open>
  The operations of \<^verbatim>\<open>backend/exchange_adapters/bingx_adapter.py\<close>: reads, orders, account settings and fee rates.
  Every operation threads the adapter and the history of what was sent; an exception leaves what was done so far.
\<close>

subsection \<open>Symbols and orders\<close>

definition to_bingx_symbol :: "symbol \<Rightarrow> string" where
  "to_bingx_symbol s = take (length s - 4) s @ ''-USDT''"

definition extract_order :: "json \<Rightarrow> bingx_error + json" where
  "extract_order data =
     bindE (get_or ''order'' JNull data) (\<lambda>order. Inr (case order of JObj d \<Rightarrow> order | _ \<Rightarrow> data))"

definition bingx_status :: "string \<Rightarrow> order_status" where
  "bingx_status s =
     (case map_of [(''NEW'', PENDING), (''PENDING'', PENDING), (''PARTIALLY_FILLED'', PARTIALLY_FILLED),
        (''FILLED'', FILLED), (''CANCELED'', CANCELLED), (''CANCELLED'', CANCELLED), (''FAILED'', FAILED),
        (''EXPIRED'', CANCELLED)] s of
        None \<Rightarrow> FAILED | Some x \<Rightarrow> x)"

text \<open>A key that is no string is not found, one that cannot be hashed raises.\<close>

definition read_status :: "json \<Rightarrow> bingx_error + order_status" where
  "read_status j =
     (case j of JStr s \<Rightarrow> Inr (bingx_status s) | _ \<Rightarrow> if hashable j then Inr FAILED else Inl TypeError)"

definition read_order_type :: "json \<Rightarrow> bingx_error + order_type" where
  "read_order_type j =
     (case j of
        JStr s \<Rightarrow> Inr (case parse_order_type s of Inr t \<Rightarrow> t | Inl _ \<Rightarrow> MARKET)
      | _ \<Rightarrow> if hashable j then Inr MARKET else Inl TypeError)"

definition read_side :: "json \<Rightarrow> bingx_error + order_side" where
  "read_side j = (case j of JStr s \<Rightarrow> lift_result (parse_side s) | _ \<Rightarrow> Inl (Raised ValueError))"

definition json_text :: "bingx_net \<Rightarrow> json \<Rightarrow> string" where
  "json_text net j = (case j of JStr s \<Rightarrow> s | JInt n \<Rightarrow> int_text n | _ \<Rightarrow> bn_json_text net j)"

text \<open>The price that the order reports, if it is positive, and its time.\<close>

definition read_fill_price :: "json \<Rightarrow> bingx_error + rat option" where
  "read_fill_price raw =
     bindE (get_or ''avgPrice'' JNull raw) (\<lambda>avg. bindE (get_or ''price'' JNull raw) (\<lambda>price.
     bindE (new_decimal (py_or avg (py_or price (JStr ''0'')))) (\<lambda>p.
     Inr (if 0 < p then Some p else None))))"

definition read_time :: "bingx_net \<Rightarrow> event list \<Rightarrow> json \<Rightarrow> bingx_error + int" where
  "read_time net h raw =
     bindE (get_or ''time'' JNull raw) (\<lambda>t. bindE (get_or ''updateTime'' JNull raw) (\<lambda>u.
     bindE (int_of_json (py_or t (py_or u (JInt 0)))) (\<lambda>ts.
     if ts = 0 then Inr (bn_utcnow net h) else from_timestamp_ms ts)))"

definition read_client_order_id :: "bingx_net \<Rightarrow> json \<Rightarrow> bingx_error + string" where
  "read_client_order_id net raw =
     bindE (get_or ''clientOrderID'' JNull raw) (\<lambda>x. bindE (get_or ''clientOrderId'' JNull raw) (\<lambda>y.
     Inr (json_text net (py_or x (py_or y (JStr []))))))"

definition parse_order :: "bingx_net \<Rightarrow> event list \<Rightarrow> json \<Rightarrow> symbol \<Rightarrow> bingx_error + order_result" where
  "parse_order net h raw s =
     bindE (bindE (get_or ''status'' (JStr ''FAILED'') raw) read_status) (\<lambda>st.
     bindE (bindE (get_or ''type'' (JStr ''MARKET'') raw) read_order_type) (\<lambda>otype.
     bindE (read_fill_price raw) (\<lambda>fill_price.
     bindE (read_time net h raw) (\<lambda>ts.
     bindE (read_client_order_id net raw) (\<lambda>cid.
     bindE (get_or ''orderId'' (JStr []) raw) (\<lambda>oid.
     bindE (bindE (item ''side'' raw) read_side) (\<lambda>side.
     bindE (bindE (get_or ''origQty'' (JStr ''0'') raw) decimal_of_json) (\<lambda>requested.
     bindE (bindE (get_or ''executedQty'' (JStr ''0'') raw) decimal_of_json) (\<lambda>filled.
     bindE (bindE (get_or ''fee'' (JStr ''0'') raw) (\<lambda>f. decimal_of_json (py_or f (JStr ''0'')))) (\<lambda>fee.
     lift_result (make_order_result
       \<lparr>or_order_id = json_text net oid, or_client_order_id = cid, or_symbol = s, or_side = side,
        or_order_type = otype, or_status = st, or_quantity_requested = requested, or_quantity_filled = filled,
        or_fill_price = fill_price, or_fee_usdt = fee, or_slippage_usdt = None, or_is_simulated = False,
        or_timestamp_utc = ts\<rparr>)))))))))))"

definition parse_orderB :: "bingx_net \<Rightarrow> json \<Rightarrow> symbol \<Rightarrow> order_result bingx_m" where
  "parse_orderB net raw s a h = (parse_order net h raw s, a, h)"

definition signed_get :: "bingx_net \<Rightarrow> string \<Rightarrow> (string \<times> string) list \<Rightarrow> json bingx_m" where
  "signed_get net = signed_request net ''GET''"

definition remember :: "string \<Rightarrow> symbol \<Rightarrow> unit bingx_m" where
  "remember cid s = modifyB (\<lambda>a. a\<lparr>bx_order_symbol_cache := dict_set cid s (bx_order_symbol_cache a)\<rparr>)"

subsection \<open>Reads\<close>

definition BALANCE :: string where "BALANCE = ''/openApi/swap/v2/user/balance''"
definition POSITIONS :: string where "POSITIONS = ''/openApi/swap/v2/user/positions''"
definition OPEN_ORDERS :: string where "OPEN_ORDERS = ''/openApi/swap/v2/trade/openOrders''"
definition ORDER :: string where "ORDER = ''/openApi/swap/v2/trade/order''"
definition SET_LEVERAGE :: string where "SET_LEVERAGE = ''/openApi/swap/v2/trade/leverage''"
definition MARGIN_TYPE :: string where "MARGIN_TYPE = ''/openApi/swap/v2/trade/marginType''"
definition DUAL_SIDE :: string where "DUAL_SIDE = ''/openApi/swap/v1/positionSide/dual''"
definition COMMISSION :: string where "COMMISSION = ''/openApi/swap/v2/user/commissionRate''"

definition decimal_item :: "string \<Rightarrow> json \<Rightarrow> bingx_error + rat" where
  "decimal_item k j = bindE (item k j) decimal_of_json"

definition read_account :: "json \<Rightarrow> bingx_error + account_state" where
  "read_account data =
     bindE (item ''balance'' data) (\<lambda>bal.
     bindE (decimal_item ''balance'' bal) (\<lambda>balance.
     bindE (decimal_item ''equity'' bal) (\<lambda>equity.
     bindE (decimal_item ''availableMargin'' bal) (\<lambda>available.
     bindE (decimal_item ''usedMargin'' bal) (\<lambda>used.
     lift_result (make_account_state
       \<lparr>ac_balance_usdt = balance, ac_equity_usdt = equity, ac_available_margin_usdt = available,
        ac_used_margin_usdt = used, ac_is_simulated = False\<rparr>))))))"

definition bingx_get_account_state :: "bingx_net \<Rightarrow> account_state bingx_m" where
  "bingx_get_account_state net = bindB (signed_get net BALANCE []) (\<lambda>data. liftB (read_account data))"

text \<open>\<^verbatim>\<open>positions[0]\<close> of a value that is not empty.\<close>

definition first_item :: "json \<Rightarrow> bingx_error + json" where
  "first_item j =
     (case j of JArr (x # xs) \<Rightarrow> Inr x | JStr (c # cs) \<Rightarrow> Inr (JStr [c]) | JObj d \<Rightarrow> Inl (Raised KeyError)
      | _ \<Rightarrow> Inl TypeError)"

definition read_position :: "symbol \<Rightarrow> json \<Rightarrow> bingx_error + position_state option" where
  "read_position s positions =
     (if \<not> truthy positions then Inr None
      else
      bindE (first_item positions) (\<lambda>pos.
      bindE (decimal_item ''positionAmt'' pos) (\<lambda>amt.
      if amt = 0 then Inr None
      else
      bindE (decimal_item ''avgPrice'' pos) (\<lambda>avg.
      bindE (decimal_item ''markPrice'' pos) (\<lambda>mark.
      bindE (decimal_item ''unrealizedProfit'' pos) (\<lambda>pnl.
      bindE (decimal_item ''initialMargin'' pos) (\<lambda>margin.
      bindE (bindE (item ''leverage'' pos) int_of_json) (\<lambda>leverage.
      map_sum id Some (lift_result (make_position_state
        \<lparr>ps_symbol = s, ps_side = (if 0 < amt then BUY else SELL), ps_quantity = dec \<bar>amt\<bar>, ps_entry_price = avg,
         ps_mark_price = Some mark, ps_unrealized_pnl = pnl, ps_margin_usdt = margin, ps_leverage = leverage,
         ps_stop_loss = None, ps_take_profit = None, ps_is_simulated = False\<rparr>))))))))))"

definition bingx_get_position :: "bingx_net \<Rightarrow> symbol \<Rightarrow> position_state option bingx_m" where
  "bingx_get_position net s =
     bindB (signed_get net POSITIONS [(''symbol'', to_bingx_symbol s)]) (\<lambda>positions. liftB (read_position s positions))"

text \<open>What \<^verbatim>\<open>for raw in orders\<close> runs over.\<close>

definition elements :: "json \<Rightarrow> bingx_error + json list" where
  "elements j =
     (case j of
        JArr xs \<Rightarrow> Inr xs
      | JStr cs \<Rightarrow> Inr (map (\<lambda>c. JStr [c]) cs)
      | JObj d \<Rightarrow> Inr (map JStr (dict_keys d))
      | _ \<Rightarrow> Inl TypeError)"

definition note_open_order :: "json \<Rightarrow> symbol \<Rightarrow> unit bingx_m" where
  "note_open_order cid s =
     (if \<not> truthy cid then liftB (Inr ())
      else case cid of
        JStr k \<Rightarrow> remember k s
      | _ \<Rightarrow> liftB (if hashable cid then Inr () else Inl TypeError))"

fun read_open_orders :: "bingx_net \<Rightarrow> symbol \<Rightarrow> json list \<Rightarrow> order_result list bingx_m" where
  "read_open_orders net s [] = liftB (Inr [])"
| "read_open_orders net s (raw # raws) =
     bindB (liftB (get_or ''clientOrderId'' (JStr []) raw)) (\<lambda>cid.
     bindB (note_open_order cid s) (\<lambda>_.
     bindB (parse_orderB net raw s) (\<lambda>r.
     bindB (read_open_orders net s raws) (\<lambda>rs. liftB (Inr (r # rs))))))"

definition bingx_get_open_orders :: "bingx_net \<Rightarrow> symbol \<Rightarrow> order_result list bingx_m" where
  "bingx_get_open_orders net s =
     bindB (signed_get net OPEN_ORDERS [(''symbol'', to_bingx_symbol s)]) (\<lambda>data.
     bindB (liftB (bindE (get_or ''orders'' (JArr []) data) elements)) (read_open_orders net s))"

definition order_params :: "symbol \<Rightarrow> string \<Rightarrow> (string \<times> string) list" where
  "order_params s cid = [(''symbol'', to_bingx_symbol s), (''clientOrderID'', cid)]"

text \<open>The order of one answer: remembered and parsed, unless it is empty.\<close>

definition found_order :: "bingx_net \<Rightarrow> symbol \<Rightarrow> string \<Rightarrow> json \<Rightarrow> order_result option bingx_m" where
  "found_order net s cid data =
     bindB (liftB (extract_order data)) (\<lambda>order.
     if truthy order
     then bindB (remember cid s) (\<lambda>_. bindB (parse_orderB net order s) (\<lambda>r. liftB (Inr (Some r))))
     else liftB (Inr None))"

definition is_status_error :: "bingx_error \<Rightarrow> bool" where
  "is_status_error e = (case e of HTTPStatusError _ \<Rightarrow> True | _ \<Rightarrow> False)"

fun probe_symbols :: "bingx_net \<Rightarrow> string \<Rightarrow> symbol list \<Rightarrow> order_result option bingx_m" where
  "probe_symbols net cid [] = liftB (Inr None)"
| "probe_symbols net cid (s # ss) =
     bindB (catchB (bindB (signed_get net ORDER (order_params s cid)) (found_order net s cid))
              (\<lambda>e. if e = BingXApiError \<or> is_status_error e then liftB (Inr None) else liftB (Inl e)))
       (\<lambda>r. case r of Some x \<Rightarrow> liftB (Inr (Some x)) | None \<Rightarrow> probe_symbols net cid ss)"

text \<open>\<^verbatim>\<open>sorted(ALLOWED_SYMBOLS)\<close> after the symbol in the cache.\<close>

definition sorted_symbols :: "symbol list" where
  "sorted_symbols = [''BNBUSDT'', ''BTCUSDT'', ''ETHUSDT'', ''SOLUSDT'', ''XRPUSDT'']"

definition candidate_symbols :: "bingx_adapter \<Rightarrow> string \<Rightarrow> symbol list" where
  "candidate_symbols a cid =
     (let cached = (case dict_get (bx_order_symbol_cache a) cid of None \<Rightarrow> [] | Some s \<Rightarrow> if s = [] then [] else [s])
      in cached @ filter (\<lambda>s. \<not> List.member cached s) sorted_symbols)"

definition bingx_get_order_status :: "bingx_net \<Rightarrow> string \<Rightarrow> order_result option bingx_m" where
  "bingx_get_order_status net cid a h = probe_symbols net cid (candidate_symbols a cid) a h"

subsection \<open>Account settings\<close>

fun bingx_max_leverage :: "environment \<Rightarrow> int" where
  "bingx_max_leverage PAPER = 10"
| "bingx_max_leverage TESTNET = 5"
| "bingx_max_leverage LIVE = 5"

definition ignoreB :: "'a bingx_m \<Rightarrow> unit bingx_m" where
  "ignoreB m = bindB m (\<lambda>_. liftB (Inr ()))"

definition bingx_set_leverage :: "bingx_net \<Rightarrow> symbol \<Rightarrow> int \<Rightarrow> unit bingx_m" where
  "bingx_set_leverage net s leverage a h =
     (if leverage < 1 \<or> bingx_max_leverage (bx_environment a) < leverage then (Inl (Raised ValueError), a, h)
      else ignoreB (signed_request net ''POST'' SET_LEVERAGE
             [(''symbol'', to_bingx_symbol s), (''side'', ''BOTH''), (''leverage'', int_text leverage)]) a h)"

definition bingx_set_margin_type :: "bingx_net \<Rightarrow> symbol \<Rightarrow> margin_type \<Rightarrow> unit bingx_m" where
  "bingx_set_margin_type net s mt =
     (if mt = CROSS then liftB (Inl (Raised ValueError))
      else ignoreB (signed_request net ''POST'' MARGIN_TYPE
             [(''symbol'', to_bingx_symbol s), (''marginType'', ''ISOLATED'')]))"

definition ensure_one_way_mode :: "bingx_net \<Rightarrow> unit bingx_m" where
  "ensure_one_way_mode net a h =
     (if bx_one_way_verified a then (Inr (), a, h)
      else bindB (signed_request net ''POST'' DUAL_SIDE [(''dualSidePosition'', ''false'')])
             (\<lambda>_. modifyB (\<lambda>a. a\<lparr>bx_one_way_verified := True\<rparr>)) a h)"

definition ensure_isolated_margin :: "bingx_net \<Rightarrow> symbol \<Rightarrow> unit bingx_m" where
  "ensure_isolated_margin net s a h =
     (if List.member (bx_isolated_verified_symbols a) s then (Inr (), a, h)
      else bindB (bingx_set_margin_type net s ISOLATED)
             (\<lambda>_. modifyB (\<lambda>a. a\<lparr>bx_isolated_verified_symbols := s # bx_isolated_verified_symbols a\<rparr>)) a h)"

subsection \<open>Orders\<close>

definition query_order :: "bingx_net \<Rightarrow> symbol \<Rightarrow> string \<Rightarrow> order_result option bingx_m" where
  "query_order net s cid =
     bindB (catchB (bindB (signed_get net ORDER (order_params s cid)) (\<lambda>data. liftB (Inr (Some data))))
              (\<lambda>e. if e = BingXApiError then liftB (Inr None) else liftB (Inl e)))
       (\<lambda>data. case data of None \<Rightarrow> liftB (Inr None) | Some d \<Rightarrow> found_order net s cid d)"

definition place_params :: "bingx_net \<Rightarrow> order_request \<Rightarrow> (string \<times> string) list" where
  "place_params net r =
     [(''symbol'', to_bingx_symbol (rq_symbol r)), (''type'', order_type_value (rq_order_type r)),
      (''side'', side_value (rq_side r)), (''positionSide'', ''BOTH''),
      (''quantity'', bn_decimal_text net (rq_quantity r)), (''clientOrderID'', rq_client_order_id r),
      (''reduceOnly'', if rq_is_reduce_only r then ''true'' else ''false'')]
     @ (case rq_price r of None \<Rightarrow> [] | Some p \<Rightarrow> [(''price'', bn_decimal_text net p)])
     @ (case rq_stop_price r of None \<Rightarrow> [] | Some p \<Rightarrow> [(''stopPrice'', bn_decimal_text net p)])"

definition parse_placed :: "bingx_net \<Rightarrow> symbol \<Rightarrow> json \<Rightarrow> order_result bingx_m" where
  "parse_placed net s data =
     bindB (liftB (item ''order'' data)) (\<lambda>raw.
     bindB (parse_orderB net raw s) (\<lambda>r.
     bindB (remember (or_client_order_id r) s) (\<lambda>_. liftB (Inr r))))"

text \<open>The request, and the second query when the exchange refuses it; \<open>Inl\<close> of the value is an order found so.\<close>

definition post_order :: "bingx_net \<Rightarrow> order_request \<Rightarrow> (order_result + json) bingx_m" where
  "post_order net r =
     catchB (bindB (signed_request net ''POST'' ORDER (place_params net r)) (\<lambda>data. liftB (Inr (Inr data))))
       (\<lambda>e. if e \<noteq> BingXApiError then liftB (Inl e)
             else bindB (query_order net (rq_symbol r) (rq_client_order_id r)) (\<lambda>existing.
                  case existing of
                    None \<Rightarrow> liftB (Inl BingXApiError)
                  | Some x \<Rightarrow> bindB (remember (or_client_order_id x) (rq_symbol r)) (\<lambda>_. liftB (Inr (Inl x)))))"

definition bingx_place_order :: "bingx_net \<Rightarrow> order_request \<Rightarrow> order_result bingx_m" where
  "bingx_place_order net r =
     bindB (ensure_one_way_mode net) (\<lambda>_.
     bindB (ensure_isolated_margin net (rq_symbol r)) (\<lambda>_.
     bindB (query_order net (rq_symbol r) (rq_client_order_id r)) (\<lambda>existing.
     case existing of
       Some x \<Rightarrow> liftB (Inr x)
     | None \<Rightarrow> bindB (post_order net r) (\<lambda>res.
         case res of Inl x \<Rightarrow> liftB (Inr x) | Inr data \<Rightarrow> parse_placed net (rq_symbol r) data))))"

definition bingx_cancel_order :: "bingx_net \<Rightarrow> string \<Rightarrow> bool bingx_m" where
  "bingx_cancel_order net cid =
     bindB (bingx_get_order_status net cid) (\<lambda>existing.
     case existing of
       None \<Rightarrow> liftB (Inr False)
     | Some x \<Rightarrow>
         if or_status x \<noteq> PENDING \<and> or_status x \<noteq> PARTIALLY_FILLED then liftB (Inr False)
         else catchB
           (bindB (signed_request net ''DELETE'' ORDER (order_params (or_symbol x) cid)) (\<lambda>_. liftB (Inr True)))
           (\<lambda>e. if e \<noteq> BingXApiError then liftB (Inl e)
                else bindB (bingx_get_order_status net cid) (\<lambda>after.
                     liftB (Inr (case after of None \<Rightarrow> False | Some y \<Rightarrow> or_status y = CANCELLED)))))"

subsection \<open>Fee rates\<close>

definition FEE_RATES_TTL_SECONDS :: rat where
  "FEE_RATES_TTL_SECONDS = 3600"

definition read_fee_rates :: "json \<Rightarrow> bingx_error + fee_rates" where
  "read_fee_rates data =
     bindE (item ''commission'' data) (\<lambda>c.
     bindE (decimal_item ''makerCommissionRate'' c) (\<lambda>maker.
     bindE (decimal_item ''takerCommissionRate'' c) (\<lambda>taker.
     lift_result (make_fee_rates maker taker))))"

text \<open>The exceptions of the \<^verbatim>\<open>except\<close> clause.\<close>

definition fee_rates_failure :: "bingx_error \<Rightarrow> bool" where
  "fee_rates_failure e =
     (case e of
        BingXApiError \<Rightarrow> True
      | HTTPStatusError _ \<Rightarrow> True
      | RequestError \<Rightarrow> True
      | TypeError \<Rightarrow> True
      | Raised x \<Rightarrow> x \<in> {KeyError, ValueError, ValidationError, InvalidOperation, DivisionByZero, ZeroDivisionError}
      | _ \<Rightarrow> False)"

definition bingx_get_fee_rates :: "bingx_net \<Rightarrow> symbol \<Rightarrow> fee_rates bingx_m" where
  "bingx_get_fee_rates net s a h =
     (let now = bn_monotonic net h;
          fetch = bindB (catchB (bindB (signed_get net COMMISSION []) (\<lambda>data. liftB (read_fee_rates data)))
                    (\<lambda>e. liftB (Inl (if fee_rates_failure e then Raised FeeRatesUnavailableError else e))))
                  (\<lambda>rates. bindB (modifyB (\<lambda>a. a\<lparr>bx_fee_rates_cache := Some (rates, now)\<rparr>))
                             (\<lambda>_. liftB (Inr rates))) in
      case bx_fee_rates_cache a of
        None \<Rightarrow> fetch a h
      | Some (rates, fetched_at) \<Rightarrow>
          if now - fetched_at < FEE_RATES_TTL_SECONDS then (Inr rates, a, h) else fetch a h)"

end
