(* ===== verification/BingxFacts.thy ===== *)
theory BingxFacts
  imports BingxAdapter GptFacts
begin

text \<open>
  What the operations of the BingX adapter do on every path: the requests that one call makes, the answer it
  acts on, and what it sends at all.
\<close>

subsection \<open>A signed request\<close>

lemma wire_of_adapter [simp]:
  "wire_of net (a\<lparr>bx_circuit_breaker := b\<rparr>) = wire_of net a"
  "wire_of net (a\<lparr>bx_order_symbol_cache := c\<rparr>) = wire_of net a"
  "wire_of net (a\<lparr>bx_one_way_verified := v\<rparr>) = wire_of net a"
  "wire_of net (a\<lparr>bx_isolated_verified_symbols := xs\<rparr>) = wire_of net a"
  "wire_of net (a\<lparr>bx_fee_rates_cache := f\<rparr>) = wire_of net a"
  by (simp_all add: fun_eq_iff wire_of_def)

text \<open>The credentials and the environment of the adapter never change.\<close>

definition same_account :: "bingx_adapter \<Rightarrow> bingx_adapter \<Rightarrow> bool" where
  "same_account a b \<longleftrightarrow> bx_api_key b = bx_api_key a \<and> bx_api_secret b = bx_api_secret a
     \<and> bx_environment b = bx_environment a"

lemma same_account_refl [simp]: "same_account a a"
  by (simp add: same_account_def)

lemma same_account_trans: "same_account a b \<Longrightarrow> same_account b c \<Longrightarrow> same_account a c"
  by (simp add: same_account_def)

lemma wire_of_same: "same_account a b \<Longrightarrow> wire_of net b = wire_of net a"
  by (simp add: fun_eq_iff wire_of_def same_account_def)

lemma do_request_same: "same_account a b \<Longrightarrow> do_request net b q h = do_request net a q h"
  by (simp add: do_request_def wire_of_same)

lemma sends_same: "same_account a b \<Longrightarrow> sends net b q h k = sends net a q h k"
  by (induction k) (simp_all add: do_request_same)

abbreviation bx_ok :: "bingx_adapter \<Rightarrow> bool" where
  "bx_ok a \<equiv> breaker_ok (bx_circuit_breaker a)"

lemma map_sum_Some_iff: "map_sum id Some m = Inr y \<longleftrightarrow> (\<exists>x. m = Inr x \<and> y = Some x)"
  by (cases m) auto

lemma retry_from_breaker:
  "b \<noteq> None \<Longrightarrow> rd_breaker (retry_from c ret ra env n m b) \<noteq> None"
  by (induction m arbitrary: n b)
    (auto simp: Let_def map_sum_Some_iff split: sum.splits option.splits)

text \<open>
  A signed request sends its wire some times, at most four, and acts on the last answer, or the breaker refuses.
\<close>

lemma signed_request_cases:
  assumes "signed_request net meth path params a h = (res, a', h')" "bx_ok a"
  obtains k b where "h' = sends net a \<lparr>bq_method = meth, bq_path = path, bq_params = params\<rparr> h k" "k \<le> 4"
    "a' = a\<lparr>bx_circuit_breaker := b\<rparr>" "breaker_ok b"
    "(\<exists>j. k = Suc j \<and> res = fst (do_request net a \<lparr>bq_method = meth, bq_path = path, bq_params = params\<rparr>
        (sends net a \<lparr>bq_method = meth, bq_path = path, bq_params = params\<rparr> h j)))
     \<or> res = Inl BingXApiError"
proof -
  define q where "q = \<lparr>bq_method = meth, bq_path = path, bq_params = params\<rparr>"
  define r where "r = retry BINGX_RETRY_CONFIG is_retryable_bingx_error (\<lambda>_. None) (attempt_at net a q h)
                (Some (bx_circuit_breaker a))"
  have pos: "0 < nat (rt_max_attempts BINGX_RETRY_CONFIG)" and four: "nat (rt_max_attempts BINGX_RETRY_CONFIG) = 4"
    by (simp_all add: BINGX_RETRY_CONFIG_def)
  have ok: "\<forall>k. Some (bx_circuit_breaker a) = Some k \<longrightarrow> breaker_ok k" using assms(2) by simp
  obtain k where k: "decided_at is_retryable_bingx_error (attempt_at net a q h) 0 4 k r"
    using retry_from_decided(1) [OF pos ok] unfolding r_def retry_def four by blast
  have "rd_breaker r \<noteq> None"
    unfolding r_def retry_def by (rule retry_from_breaker) simp
  then obtain b where b: "rd_breaker r = Some b" by blast
  then have bok: "breaker_ok b"
    using retry_from_decided(2) [OF pos ok] unfolding r_def retry_def by blast
  have h': "h' = sends net a q h (rd_calls r)" "a' = a\<lparr>bx_circuit_breaker := b\<rparr>"
    and res: "res = (case rd_result r of
            Inr x \<Rightarrow> Inr x
          | Inl (Operation_error e) \<Rightarrow> Inl e
          | Inl (Breaker_error CircuitBreakerOpenError) \<Rightarrow> Inl BingXApiError
          | Inl (Breaker_error AssertionError) \<Rightarrow> Inl Failed_assertion)"
    using assms(1) by (auto simp: signed_request_def Let_def q_def [symmetric] r_def [symmetric] b)
  have "rd_calls r \<le> 4" using k by (auto simp: decided_at_def)
  moreover have "(\<exists>j. rd_calls r = Suc j \<and> res = fst (do_request net a q (sends net a q h j)))
      \<or> res = Inl BingXApiError"
    using k res by (auto simp: decided_at_def attempt_at_def split: sum.splits)
  ultimately show thesis using that h' bok unfolding q_def by blast
qed

lemma sends_snoc:
  "\<exists>ts. sends net a q h (Suc k) = sends net a q h k @ [Sent (wire_of net a ts q)]"
  by (auto simp: do_request_def Let_def)

lemma sends_extends:
  "\<exists>evs. sends net a q h k = h @ evs \<and> (\<forall>e \<in> set evs. \<exists>ts. e = Sent (wire_of net a ts q))"
proof (induction k)
  case (Suc k)
  then show ?case using sends_snoc [of net a q h k] by fastforce
qed simp

subsection \<open>Pre- and postconditions\<close>

text \<open>From \<open>P\<close>, a value leaves \<open>Q\<close> and an exception \<open>E\<close>.\<close>

definition valid ::
    "(bingx_adapter \<Rightarrow> event list \<Rightarrow> bool) \<Rightarrow> 'a bingx_m \<Rightarrow> ('a \<Rightarrow> bingx_adapter \<Rightarrow> event list \<Rightarrow> bool)
     \<Rightarrow> (bingx_error \<Rightarrow> bingx_adapter \<Rightarrow> event list \<Rightarrow> bool) \<Rightarrow> bool" where
  "valid P m Q E \<longleftrightarrow>
     (\<forall>a h. P a h \<longrightarrow> (case m a h of (Inr x, a', h') \<Rightarrow> Q x a' h' | (Inl e, a', h') \<Rightarrow> E e a' h'))"

lemma validI:
  assumes "\<And>a h r a' h'. P a h \<Longrightarrow> m a h = (r, a', h') \<Longrightarrow> (case r of Inr x \<Rightarrow> Q x a' h' | Inl e \<Rightarrow> E e a' h')"
  shows "valid P m Q E"
  unfolding valid_def
proof (intro allI impI)
  fix a h assume "P a h"
  then show "case m a h of (Inr x, a', h') \<Rightarrow> Q x a' h' | (Inl e, a', h') \<Rightarrow> E e a' h'"
    using assms [of a h "fst (m a h)" "fst (snd (m a h))" "snd (snd (m a h))"]
    by (cases "m a h") (auto split: sum.splits)
qed

lemma validD:
  assumes "valid P m Q E" "P a h"
  shows "m a h = (Inr x, a', h') \<Longrightarrow> Q x a' h'" "m a h = (Inl e, a', h') \<Longrightarrow> E e a' h'"
  using assms by (fastforce simp: valid_def)+

lemma valid_at:
  assumes "valid P m Q E" "P a h" "m a h = (r, a', h')"
  shows "case r of Inr x \<Rightarrow> Q x a' h' | Inl e \<Rightarrow> E e a' h'"
  using assms by (fastforce simp: valid_def split: sum.splits)

lemma valid_bind:
  assumes "valid P m R E" "\<And>x. valid (R x) (f x) Q E"
  shows "valid P (bindB m f) Q E"
proof (rule validI)
  fix a h r a' h'
  assume p: "P a h" and b: "bindB m f a h = (r, a', h')"
  obtain r1 a1 h1 where m: "m a h = (r1, a1, h1)" by (cases "m a h")
  show "case r of Inr x \<Rightarrow> Q x a' h' | Inl e \<Rightarrow> E e a' h'"
  proof (cases r1)
    case (Inl e)
    with b m validD(2) [OF assms(1) p] show ?thesis by (auto simp: bindB_def)
  next
    case (Inr x)
    with m validD(1) [OF assms(1) p] have "R x a1 h1" by simp
    with b m Inr validD [OF assms(2)] show ?thesis by (cases r) (auto simp: bindB_def)
  qed
qed

lemma valid_catch:
  assumes "valid P m Q R" "\<And>e. valid (R e) (f e) Q E"
  shows "valid P (catchB m f) Q E"
proof (rule validI)
  fix a h r a' h'
  assume p: "P a h" and b: "catchB m f a h = (r, a', h')"
  obtain r1 a1 h1 where m: "m a h = (r1, a1, h1)" by (cases "m a h")
  show "case r of Inr x \<Rightarrow> Q x a' h' | Inl e \<Rightarrow> E e a' h'"
  proof (cases r1)
    case (Inr x)
    with b m validD(1) [OF assms(1) p] show ?thesis by (auto simp: catchB_def)
  next
    case (Inl e)
    with m validD(2) [OF assms(1) p] have "R e a1 h1" by simp
    with b m Inl validD [OF assms(2)] show ?thesis by (cases r) (auto simp: catchB_def)
  qed
qed

lemma valid_lift:
  "(\<And>a h x. P a h \<Longrightarrow> r = Inr x \<Longrightarrow> Q x a h) \<Longrightarrow> (\<And>a h e. P a h \<Longrightarrow> r = Inl e \<Longrightarrow> E e a h) \<Longrightarrow> valid P (liftB r) Q E"
  by (rule validI) (auto simp: liftB_def split: sum.splits)

lemma valid_modify: "(\<And>a h. P a h \<Longrightarrow> Q () (f a) h) \<Longrightarrow> valid P (modifyB f) Q E"
  by (rule validI) (auto simp: modifyB_def)

lemma valid_weaken: "valid P m Q E \<Longrightarrow> (\<And>a h. P' a h \<Longrightarrow> P a h) \<Longrightarrow> valid P' m Q E"
  by (fastforce simp: valid_def)

lemma valid_post:
  "valid P m Q E \<Longrightarrow> (\<And>x a h. Q x a h \<Longrightarrow> Q' x a h) \<Longrightarrow> (\<And>e a h. E e a h \<Longrightarrow> E' e a h) \<Longrightarrow> valid P m Q' E'"
  by (fastforce simp: valid_def split: sum.splits)

lemma valid_case:
  "(\<And>x. o' = Some x \<Longrightarrow> valid P (f x) Q E) \<Longrightarrow> (o' = None \<Longrightarrow> valid P g Q E)
   \<Longrightarrow> valid P (case o' of None \<Rightarrow> g | Some x \<Rightarrow> f x) Q E"
  by (cases o') simp_all

lemma valid_if: "(b \<Longrightarrow> valid P m Q E) \<Longrightarrow> (\<not> b \<Longrightarrow> valid P m' Q E) \<Longrightarrow> valid P (if b then m else m') Q E"
  by simp

lemma valid_guard:
  assumes "\<And>a h. P a h \<Longrightarrow> b a \<Longrightarrow> Q x a h" "valid P m Q E"
  shows "valid P (\<lambda>a h. if b a then (Inr x, a, h) else m a h) Q E"
proof (rule validI)
  fix a h r a' h'
  assume p: "P a h" and m: "(if b a then (Inr x, a, h) else m a h) = (r, a', h')"
  show "case r of Inr x \<Rightarrow> Q x a' h' | Inl e \<Rightarrow> E e a' h'"
  proof (cases "b a")
    case True
    with m assms(1) [OF p] show ?thesis by auto
  next
    case False
    with m have "m a h = (r, a', h')" by simp
    with assms(2) p show ?thesis by (rule valid_at)
  qed
qed

text \<open>
  The assertions of one account: what survives a request that is not dangerous survives all its attempts, and its
  value is the last answer.
\<close>

definition stable ::
    "bingx_net \<Rightarrow> bingx_adapter \<Rightarrow> (bingx_adapter \<Rightarrow> event list \<Rightarrow> bool) \<Rightarrow> bingx_request \<Rightarrow> bool" where
  "stable net a0 P q \<longleftrightarrow>
     (\<forall>a h ts. P a h \<longrightarrow> P a (h @ [Sent (wire_of net a0 ts q)]))
     \<and> (\<forall>a h b. P a h \<longrightarrow> P (a\<lparr>bx_circuit_breaker := b\<rparr>) h)"

definition account_ok :: "bingx_adapter \<Rightarrow> bingx_adapter \<Rightarrow> bool" where
  "account_ok a0 a \<longleftrightarrow> bx_ok a \<and> same_account a0 a"

lemma account_ok_updates [simp]:
  "account_ok a0 (a\<lparr>bx_order_symbol_cache := c\<rparr>) \<longleftrightarrow> account_ok a0 a"
  "account_ok a0 (a\<lparr>bx_one_way_verified := v\<rparr>) \<longleftrightarrow> account_ok a0 a"
  "account_ok a0 (a\<lparr>bx_isolated_verified_symbols := xs\<rparr>) \<longleftrightarrow> account_ok a0 a"
  "account_ok a0 (a\<lparr>bx_fee_rates_cache := f\<rparr>) \<longleftrightarrow> account_ok a0 a"
  by (simp_all add: account_ok_def same_account_def)

lemma sends_stable: "stable net a0 P q \<Longrightarrow> same_account a0 a \<Longrightarrow> P a' h \<Longrightarrow> P a' (sends net a q h k)"
proof (induction k)
  case (Suc k)
  obtain ts where "sends net a q h (Suc k) = sends net a q h k @ [Sent (wire_of net a ts q)]"
    using sends_snoc by blast
  with Suc show ?case by (simp add: stable_def wire_of_same)
qed simp

lemma valid_signed:
  assumes "stable net a0 P \<lparr>bq_method = meth, bq_path = path, bq_params = params\<rparr>"
  shows "valid (\<lambda>a h. account_ok a0 a \<and> P a h) (signed_request net meth path params)
     (\<lambda>x a h. account_ok a0 a \<and> P a h
        \<and> (\<exists>h1. (Inr x, h) = do_request net a0 \<lparr>bq_method = meth, bq_path = path, bq_params = params\<rparr> h1))
     (\<lambda>e a h. account_ok a0 a \<and> P a h)"
proof (rule validI)
  fix a h r a' h'
  let ?q = "\<lparr>bq_method = meth, bq_path = path, bq_params = params\<rparr>"
  assume p: "account_ok a0 a \<and> P a h" and s: "signed_request net meth path params a h = (r, a', h')"
  from p have "bx_ok a" and same: "same_account a0 a" by (simp_all add: account_ok_def)
  from s \<open>bx_ok a\<close> obtain k b where k: "h' = sends net a ?q h k" "a' = a\<lparr>bx_circuit_breaker := b\<rparr>" "breaker_ok b"
    and r: "(\<exists>j. k = Suc j \<and> r = fst (do_request net a ?q (sends net a ?q h j))) \<or> r = Inl BingXApiError"
    by (rule signed_request_cases)
  have "P a h'" using sends_stable [OF assms same] p by (simp add: k(1))
  then have "P a' h'" using assms by (simp add: k(2) stable_def)
  moreover have "account_ok a0 a'" using p k(2,3) by (simp add: account_ok_def same_account_def)
  moreover have "\<exists>h1. (Inr x, h') = do_request net a0 ?q h1" if "r = Inr x" for x
  proof -
    from r that obtain j where "k = Suc j" "r = fst (do_request net a ?q (sends net a ?q h j))" by auto
    then have "(Inr x, h') = do_request net a ?q (sends net a ?q h j)" using that k(1) by (simp add: prod_eq_iff)
    then show ?thesis using do_request_same [OF same] by metis
  qed
  ultimately show "case r of Inr x \<Rightarrow> account_ok a0 a' \<and> P a' h' \<and> (\<exists>h1. (Inr x, h') = do_request net a0 ?q h1)
      | Inl e \<Rightarrow> account_ok a0 a' \<and> P a' h'"
    by (simp split: sum.split)
qed

subsection \<open>Short runs\<close>

text \<open>A closed breaker with \<open>n\<close> failures so far, and one or two attempts under it.\<close>

definition closed_after :: "int \<Rightarrow> bingx_adapter \<Rightarrow> bool" where
  "closed_after n a \<longleftrightarrow> cb_config (bx_circuit_breaker a) = breaker_config_default
     \<and> cb_state (bx_circuit_breaker a) = CIRCUIT_CLOSED \<and> cb_consecutive_failures (bx_circuit_breaker a) = n"

lemma before_call_closed: "cb_state b = CIRCUIT_CLOSED \<Longrightarrow> before_call t b = Inr b"
  by (simp add: before_call_def)

lemma signed_request_once:
  assumes "do_request net a \<lparr>bq_method = meth, bq_path = path, bq_params = params\<rparr> h = (r, h')"
    and "closed_after n a" "n < 4" "\<And>e. r = Inl e \<Longrightarrow> \<not> is_retryable_bingx_error e"
  shows "\<exists>b. signed_request net meth path params a h = (r, a\<lparr>bx_circuit_breaker := b\<rparr>, h')
     \<and> closed_after (if isl r then n + 1 else 0) (a\<lparr>bx_circuit_breaker := b\<rparr>)"
  using assms
  by (cases r) (auto simp: signed_request_def Let_def retry_def BINGX_RETRY_CONFIG_def eval_nat_numeral
      attempt_at_def closed_after_def before_call_closed on_success_def on_failure_def breaker_config_default_def)

lemma signed_request_twice:
  assumes "do_request net a \<lparr>bq_method = meth, bq_path = path, bq_params = params\<rparr> h = (Inl e, h1)"
    and "is_retryable_bingx_error e"
    and "do_request net a \<lparr>bq_method = meth, bq_path = path, bq_params = params\<rparr> h1 = (r, h2)"
    and "closed_after n a" "n < 3" "\<And>e. r = Inl e \<Longrightarrow> \<not> is_retryable_bingx_error e"
  shows "\<exists>b. signed_request net meth path params a h = (r, a\<lparr>bx_circuit_breaker := b\<rparr>, h2)
     \<and> closed_after (if isl r then n + 2 else 0) (a\<lparr>bx_circuit_breaker := b\<rparr>)"
  using assms
  by (cases r) (auto simp: signed_request_def Let_def retry_def BINGX_RETRY_CONFIG_def eval_nat_numeral
      attempt_at_def closed_after_def before_call_closed on_success_def on_failure_def breaker_config_default_def)

lemma closed_after_updates [simp]:
  "closed_after n (a\<lparr>bx_order_symbol_cache := c\<rparr>) \<longleftrightarrow> closed_after n a"
  "closed_after n (a\<lparr>bx_one_way_verified := v\<rparr>) \<longleftrightarrow> closed_after n a"
  "closed_after n (a\<lparr>bx_isolated_verified_symbols := xs\<rparr>) \<longleftrightarrow> closed_after n a"
  by (simp_all add: closed_after_def)

end
