(* ===== verification/BingxWire.thy ===== *)
theory BingxWire
  imports BingxHttp
begin

text \<open>
  Reading the query string of a signed request back: the specification of a parser, and what the percent encoding
  keeps out of it.
\<close>

definition hex_value :: "char \<Rightarrow> nat" where
  "hex_value c = (if (of_char c :: nat) < 58 then of_char c - 48 else of_char c - 55)"

fun unquote :: "string \<Rightarrow> nat list" where
  "unquote [] = []"
| "unquote (c # s) =
     (if c = CHR ''%'' then (case s of a # b # t \<Rightarrow> (16 * hex_value a + hex_value b) # unquote t | _ \<Rightarrow> [])
      else of_char c # unquote s)"

definition read_query :: "string \<Rightarrow> (string \<times> nat list) list" where
  "read_query s = map (\<lambda>p. (takeWhile (\<lambda>c. c \<noteq> CHR ''='') p, unquote (drop 1 (dropWhile (\<lambda>c. c \<noteq> CHR ''='') p))))
     (split_on CHR ''&'' s)"

lemma hex_value_digit: "n < 16 \<Longrightarrow> hex_value (hex_char n) = n"
  by (auto simp: hex_value_def hex_char_def)

lemma unreserved_less: "unreserved n \<Longrightarrow> n < 127 \<and> n \<noteq> 37 \<and> n \<noteq> 38 \<and> n \<noteq> 61"
  by (auto simp: unreserved_def)

lemma unquote_quote_byte: "n < 256 \<Longrightarrow> unquote (quote_byte n @ s) = n # unquote s"
  using unreserved_less [of n]
  by (auto simp: quote_byte_def hex_value_digit char_of_eq_iff)

lemma unquote_quote: "unquote (quote s) = utf8_bytes s"
proof -
  have "unquote (concat (map quote_byte ns)) = ns" if "\<forall>n \<in> set ns. n < 256" for ns
    using that by (induction ns) (simp_all add: unquote_quote_byte)
  from this [of "utf8_bytes s"] show ?thesis
    using utf8_bytes_less by (auto simp: quote_def utf8_bytes_def)
qed

lemma quote_byte_chars: "n < 256 \<Longrightarrow> c \<in> set (quote_byte n) \<Longrightarrow> c \<noteq> CHR ''&'' \<and> c \<noteq> CHR ''=''"
proof -
  assume n: "n < 256" and c: "c \<in> set (quote_byte n)"
  have hex: "hex_char k \<noteq> CHR ''&'' \<and> hex_char k \<noteq> CHR ''=''" if "k < 16" for k
    using that by (auto simp: hex_char_def char_of_eq_iff)
  have "n div 16 < 16" "n mod 16 < 16" using n by auto
  then have hex': "hex_char (n div 16) \<noteq> CHR ''&'' \<and> hex_char (n div 16) \<noteq> CHR ''=''"
      "hex_char (n mod 16) \<noteq> CHR ''&'' \<and> hex_char (n mod 16) \<noteq> CHR ''=''"
    using hex by blast+
  show ?thesis
  proof (cases "unreserved n")
    case True
    then have "of_char c = n" "n \<noteq> 38" "n \<noteq> 61" using c n unreserved_less [of n] by (simp_all add: quote_byte_def)
    then show ?thesis by auto
  next
    case False
    with c have "c = CHR ''%'' \<or> c = hex_char (n div 16) \<or> c = hex_char (n mod 16)"
      by (simp add: quote_byte_def)
    moreover have "CHR ''%'' \<noteq> CHR ''&''" "CHR ''%'' \<noteq> CHR ''=''" by simp_all
    ultimately show ?thesis using hex' by metis
  qed
qed

lemma quote_chars: "c \<in> set (quote s) \<Longrightarrow> c \<noteq> CHR ''&'' \<and> c \<noteq> CHR ''=''"
proof -
  assume "c \<in> set (quote s)"
  then obtain n where "n \<in> set (utf8_bytes s)" "c \<in> set (quote_byte n)"
    by (auto simp: quote_def utf8_bytes_def)
  then show ?thesis using quote_byte_chars [OF utf8_bytes_less] by blast
qed

lemma int_text_chars: "c \<in> set (int_text n) \<Longrightarrow> c \<noteq> CHR ''&'' \<and> c \<noteq> CHR ''%'' \<and> (of_char c :: nat) < 128"
proof -
  have "c \<in> set (nat_text k) \<Longrightarrow> c \<noteq> CHR ''&'' \<and> c \<noteq> CHR ''%'' \<and> (of_char c :: nat) < 128" for k
  proof (induction k rule: nat_text.induct)
    case (1 k)
    then show ?case by (subst (asm) nat_text.simps) (auto simp: char_of_eq_iff split: if_splits)
  qed
  then show "c \<in> set (int_text n) \<Longrightarrow> c \<noteq> CHR ''&'' \<and> c \<noteq> CHR ''%'' \<and> (of_char c :: nat) < 128"
    by (auto simp: int_text_def split: if_splits)
qed

end
