(* ===== verification/BingxProperties.thy ===== *)
theory BingxProperties
  imports BingxFacts BingxWire
begin

text \<open>
  The properties of the BingX adapter, with their witnesses: what it may send and when, what a returned order is,
  what no position means, and what the signature covers.
\<close>

subsection \<open>Which requests were accepted\<close>

definition accepted :: "bingx_net \<Rightarrow> bingx_adapter \<Rightarrow> bingx_request \<Rightarrow> event list \<Rightarrow> bool" where
  "accepted net a q h \<longleftrightarrow> (\<exists>h1 data h2 evs. do_request net a q h1 = (Inr data, h2) \<and> h = h2 @ evs)"

lemma accepted_do_request: "(Inr data, h) = do_request net a q h1 \<Longrightarrow> accepted net a q h"
  unfolding accepted_def by (metis append_Nil2)

lemma accepted_append: "accepted net a q h \<Longrightarrow> accepted net a q (h @ evs)"
  unfolding accepted_def by (metis append_assoc)

definition post_request :: "bingx_net \<Rightarrow> order_request \<Rightarrow> bingx_request" where
  "post_request net r = \<lparr>bq_method = ''POST'', bq_path = ORDER, bq_params = place_params net r\<rparr>"

definition query_request :: "order_request \<Rightarrow> bingx_request" where
  "query_request r =
     \<lparr>bq_method = ''GET'', bq_path = ORDER, bq_params = order_params (rq_symbol r) (rq_client_order_id r)\<rparr>"

definition one_way_request :: bingx_request where
  "one_way_request = \<lparr>bq_method = ''POST'', bq_path = DUAL_SIDE, bq_params = [(''dualSidePosition'', ''false'')]\<rparr>"

definition isolated_request :: "symbol \<Rightarrow> bingx_request" where
  "isolated_request s = \<lparr>bq_method = ''POST'', bq_path = MARGIN_TYPE,
     bq_params = [(''symbol'', to_bingx_symbol s), (''marginType'', ''ISOLATED'')]\<rparr>"

text \<open>A request that places an order, by its method and the path of its URL.\<close>

definition order_post :: "bingx_adapter \<Rightarrow> event \<Rightarrow> bool" where
  "order_post a e \<longleftrightarrow>
     (case e of
        Sent w \<Rightarrow> wi_method w = ''POST''
          \<and> (let url = base_url (bx_environment a) @ ORDER @ ''?'' in take (length url) (wi_url w) = url)
      | Elapsed _ \<Rightarrow> False)"

lemmas bingx_paths = ORDER_def DUAL_SIDE_def MARGIN_TYPE_def POSITIONS_def BALANCE_def OPEN_ORDERS_def
  SET_LEVERAGE_def COMMISSION_def

lemma order_post_other:
  "\<not> order_post a (Sent (wire_of net a ts one_way_request))"
  "\<not> order_post a (Sent (wire_of net a ts (isolated_request s)))"
  "\<not> order_post a (Sent (wire_of net a ts (query_request r)))"
  by (cases "bx_environment a";
      simp add: order_post_def wire_of_def Let_def one_way_request_def isolated_request_def query_request_def
        bingx_paths)+

subsection \<open>No order before the account is set up\<close>

text \<open>What the flags of the adapter stand for.\<close>

definition verified_ok :: "bingx_net \<Rightarrow> bingx_adapter \<Rightarrow> bingx_adapter \<Rightarrow> event list \<Rightarrow> bool" where
  "verified_ok net a0 a h \<longleftrightarrow> (bx_one_way_verified a \<longrightarrow> accepted net a0 one_way_request h)
     \<and> (\<forall>s \<in> set (bx_isolated_verified_symbols a). accepted net a0 (isolated_request s) h)"

definition orders_after_setup ::
    "bingx_net \<Rightarrow> bingx_adapter \<Rightarrow> event list \<Rightarrow> symbol \<Rightarrow> event list \<Rightarrow> bool" where
  "orders_after_setup net a0 h0 s h \<longleftrightarrow> (\<exists>evs. h = h0 @ evs
     \<and> (\<forall>i < length evs. order_post a0 (evs ! i) \<longrightarrow>
          accepted net a0 one_way_request (h0 @ take i evs) \<and> accepted net a0 (isolated_request s) (h0 @ take i evs)))"

definition setup_inv ::
    "bingx_net \<Rightarrow> bingx_adapter \<Rightarrow> event list \<Rightarrow> symbol \<Rightarrow> bingx_adapter \<Rightarrow> event list \<Rightarrow> bool" where
  "setup_inv net a0 h0 s a h \<longleftrightarrow> verified_ok net a0 a h \<and> orders_after_setup net a0 h0 s h"

lemma verified_ok_append: "verified_ok net a0 a h \<Longrightarrow> verified_ok net a0 a (h @ evs)"
  by (simp add: verified_ok_def accepted_append)

lemma orders_after_setup_send:
  assumes "orders_after_setup net a0 h0 s h"
    and "order_post a0 e \<Longrightarrow> accepted net a0 one_way_request h \<and> accepted net a0 (isolated_request s) h"
  shows "orders_after_setup net a0 h0 s (h @ [e])"
proof -
  obtain evs where h: "h = h0 @ evs" and evs: "\<forall>i < length evs. order_post a0 (evs ! i) \<longrightarrow>
      accepted net a0 one_way_request (h0 @ take i evs) \<and> accepted net a0 (isolated_request s) (h0 @ take i evs)"
    using assms(1) by (auto simp: orders_after_setup_def)
  have "accepted net a0 one_way_request (h0 @ take i (evs @ [e]))
      \<and> accepted net a0 (isolated_request s) (h0 @ take i (evs @ [e]))"
    if "i < length (evs @ [e])" "order_post a0 ((evs @ [e]) ! i)" for i
    using that evs assms(2) h by (cases "i = length evs") (auto simp: nth_append)
  with h show ?thesis unfolding orders_after_setup_def by (intro exI [of _ "evs @ [e]"]) simp
qed

lemma setup_inv_send:
  "setup_inv net a0 h0 s a h \<Longrightarrow> \<not> order_post a0 e \<Longrightarrow> setup_inv net a0 h0 s a (h @ [e])"
  unfolding setup_inv_def using orders_after_setup_send by (blast intro: verified_ok_append)

lemma setup_inv_updates [simp]:
  "setup_inv net a0 h0 s (a\<lparr>bx_circuit_breaker := b\<rparr>) h \<longleftrightarrow> setup_inv net a0 h0 s a h"
  "setup_inv net a0 h0 s (a\<lparr>bx_order_symbol_cache := c\<rparr>) h \<longleftrightarrow> setup_inv net a0 h0 s a h"
  by (simp_all add: setup_inv_def verified_ok_def)

text \<open>The three stages of the assertion: nothing known, one-way mode accepted, isolated margin accepted.\<close>

abbreviation setup1 where
  "setup1 net a0 h0 s a h \<equiv> setup_inv net a0 h0 s a h \<and> accepted net a0 one_way_request h"

abbreviation setup2 where
  "setup2 net a0 h0 s a h \<equiv> setup_inv net a0 h0 s a h \<and> accepted net a0 one_way_request h
     \<and> accepted net a0 (isolated_request s) h"

lemma setup_stable:
  "stable net a0 (setup_inv net a0 h0 s) one_way_request"
  "stable net a0 (setup1 net a0 h0 s) (isolated_request s)"
  "stable net a0 (setup2 net a0 h0 s) (query_request r)"
  by (simp_all add: stable_def setup_inv_send order_post_other accepted_append)

lemma setup_stable_post: "stable net a0 (setup2 net a0 h0 s) (post_request net r)"
  by (simp add: stable_def setup_inv_def accepted_append verified_ok_append orders_after_setup_send verified_ok_def)

definition at_account ::
    "bingx_adapter \<Rightarrow> (bingx_adapter \<Rightarrow> event list \<Rightarrow> bool) \<Rightarrow> bingx_adapter \<Rightarrow> event list \<Rightarrow> bool" where
  "at_account a0 P a h \<longleftrightarrow> account_ok a0 a \<and> P a h"

lemma valid_request:
  assumes "stable net a0 P \<lparr>bq_method = meth, bq_path = path, bq_params = params\<rparr>"
  shows "valid (at_account a0 P) (signed_request net meth path params)
     (\<lambda>x a h. at_account a0 P a h \<and> accepted net a0 \<lparr>bq_method = meth, bq_path = path, bq_params = params\<rparr> h
        \<and> (\<exists>h1. (Inr x, h) = do_request net a0 \<lparr>bq_method = meth, bq_path = path, bq_params = params\<rparr> h1))
     (\<lambda>_. at_account a0 P)"
  unfolding at_account_def
  by (rule valid_post [OF valid_signed [OF assms]]) (auto intro: accepted_do_request)

lemma ensure_one_way_valid:
  "valid (at_account a0 (setup_inv net a0 h0 s)) (ensure_one_way_mode net)
     (\<lambda>_. at_account a0 (setup1 net a0 h0 s)) (\<lambda>_. at_account a0 (setup_inv net a0 h0 s))"
proof -
  have "valid (at_account a0 (setup_inv net a0 h0 s))
      (bindB (signed_request net ''POST'' DUAL_SIDE [(''dualSidePosition'', ''false'')])
             (\<lambda>_. modifyB (\<lambda>a. a\<lparr>bx_one_way_verified := True\<rparr>)))
      (\<lambda>_. at_account a0 (setup1 net a0 h0 s)) (\<lambda>_. at_account a0 (setup_inv net a0 h0 s))"
    by (rule valid_bind [OF valid_request [OF setup_stable(1) [unfolded one_way_request_def]]], rule valid_modify)
      (auto simp: at_account_def setup_inv_def verified_ok_def one_way_request_def)
  then show ?thesis
    unfolding ensure_one_way_mode_def [abs_def]
    by (rule valid_guard [rotated]) (simp add: at_account_def setup_inv_def verified_ok_def)
qed

lemma ensure_isolated_valid:
  "valid (at_account a0 (setup1 net a0 h0 s)) (ensure_isolated_margin net s)
     (\<lambda>_. at_account a0 (setup2 net a0 h0 s)) (\<lambda>_. at_account a0 (setup1 net a0 h0 s))"
proof -
  have m: "valid (at_account a0 (setup1 net a0 h0 s)) (bingx_set_margin_type net s ISOLATED)
      (\<lambda>_. at_account a0 (setup2 net a0 h0 s)) (\<lambda>_. at_account a0 (setup1 net a0 h0 s))"
    unfolding bingx_set_margin_type_def ignoreB_def
    by (simp, rule valid_bind [OF valid_request [OF setup_stable(2) [unfolded isolated_request_def]]], rule valid_lift)
      (auto simp: at_account_def isolated_request_def)
  have "valid (at_account a0 (setup1 net a0 h0 s)) (bindB (bingx_set_margin_type net s ISOLATED)
        (\<lambda>_. modifyB (\<lambda>a. a\<lparr>bx_isolated_verified_symbols := s # bx_isolated_verified_symbols a\<rparr>)))
      (\<lambda>_. at_account a0 (setup2 net a0 h0 s)) (\<lambda>_. at_account a0 (setup1 net a0 h0 s))"
    by (rule valid_bind [OF m], rule valid_modify) (auto simp: at_account_def setup_inv_def verified_ok_def)
  then show ?thesis
    unfolding ensure_isolated_margin_def [abs_def]
    by (rule valid_guard [rotated]) (simp add: at_account_def setup_inv_def verified_ok_def List.member_iff)
qed

text \<open>Once the account is set up, every further step keeps it so.\<close>

abbreviation ready where
  "ready net a0 h0 s \<equiv> at_account a0 (setup2 net a0 h0 s)"

lemma ready_updates [simp]:
  "ready net a0 h0 s (a\<lparr>bx_order_symbol_cache := c\<rparr>) h \<longleftrightarrow> ready net a0 h0 s a h"
  by (simp add: at_account_def)

lemma remember_valid: "(\<And>a h c. P (a\<lparr>bx_order_symbol_cache := c\<rparr>) h \<longleftrightarrow> P a h) \<Longrightarrow>
    valid P (remember cid s) (\<lambda>_. P) E"
  unfolding remember_def by (rule valid_modify) simp

lemma parse_valid: "valid P (parse_orderB net raw s) (\<lambda>x a h. P a h \<and> parse_order net h raw s = Inr x) (\<lambda>_. P)"
  by (rule validI) (auto simp: parse_orderB_def split: sum.splits)

text \<open>The order of an answer: found by a query, or placed by the request itself.\<close>

definition found ::
    "bingx_net \<Rightarrow> bingx_adapter \<Rightarrow> order_request \<Rightarrow> order_result \<Rightarrow> event list \<Rightarrow> bool" where
  "found net a0 r x h \<longleftrightarrow> (\<exists>h1 data raw. (Inr data, h) = do_request net a0 (query_request r) h1
     \<and> extract_order data = Inr raw \<and> truthy raw \<and> parse_order net h raw (rq_symbol r) = Inr x)"

definition placed ::
    "bingx_net \<Rightarrow> bingx_adapter \<Rightarrow> order_request \<Rightarrow> order_result \<Rightarrow> event list \<Rightarrow> bool" where
  "placed net a0 r x h \<longleftrightarrow> (\<exists>h1 data raw. (Inr data, h) = do_request net a0 (post_request net r) h1
     \<and> item ''order'' data = Inr raw \<and> parse_order net h raw (rq_symbol r) = Inr x)"

lemma found_order_valid:
  assumes "\<And>a h c. P (a\<lparr>bx_order_symbol_cache := c\<rparr>) h \<longleftrightarrow> P a h"
  shows "valid P (found_order net s cid data)
     (\<lambda>x a h. P a h \<and> (\<forall>y. x = Some y \<longrightarrow> (\<exists>raw. extract_order data = Inr raw \<and> truthy raw
        \<and> parse_order net h raw s = Inr y))) (\<lambda>_. P)"
proof -
  have "valid (\<lambda>a h. P a h \<and> extract_order data = Inr raw)
     (if truthy raw
      then bindB (remember cid s) (\<lambda>_. bindB (parse_orderB net raw s) (\<lambda>r. liftB (Inr (Some r))))
      else liftB (Inr None))
     (\<lambda>x a h. P a h \<and> (\<forall>y. x = Some y \<longrightarrow> (\<exists>raw. extract_order data = Inr raw \<and> truthy raw
        \<and> parse_order net h raw s = Inr y))) (\<lambda>_. P)" for raw
    by (rule valid_if, rule valid_bind, rule remember_valid, use assms in simp, rule valid_bind,
        rule valid_post [OF parse_valid], assumption, simp, rule valid_lift) (auto intro: valid_lift)
  then show ?thesis unfolding found_order_def
    by (rule valid_bind [rotated]) (rule valid_lift; simp)
qed

lemma query_valid:
  assumes "stable net a0 P (query_request r)" "\<And>a h c. P (a\<lparr>bx_order_symbol_cache := c\<rparr>) h \<longleftrightarrow> P a h"
  shows "valid (at_account a0 P) (query_order net (rq_symbol r) (rq_client_order_id r))
     (\<lambda>x a h. at_account a0 P a h \<and> (\<forall>y. x = Some y \<longrightarrow> found net a0 r y h)) (\<lambda>_. at_account a0 P)"
proof -
  let ?s = "rq_symbol r" and ?cid = "rq_client_order_id r"
  let ?got = "\<lambda>x a h. at_account a0 P a h
     \<and> (\<forall>d. x = Some d \<longrightarrow> (\<exists>h1. (Inr d, h) = do_request net a0 (query_request r) h1))"
  have asked: "valid (at_account a0 P)
      (catchB (bindB (signed_get net ORDER (order_params ?s ?cid)) (\<lambda>data. liftB (Inr (Some data))))
              (\<lambda>e. if e = BingXApiError then liftB (Inr None) else liftB (Inl e))) ?got (\<lambda>_. at_account a0 P)"
    unfolding signed_get_def
    by (rule valid_catch, rule valid_bind [OF valid_request [OF assms(1) [unfolded query_request_def]]])
      (auto intro!: valid_lift valid_if simp: query_request_def)
  have cache: "at_account a0 P (a\<lparr>bx_order_symbol_cache := c\<rparr>) h \<longleftrightarrow> at_account a0 P a h" for a h c
    using assms(2) by (simp add: at_account_def)
  have "valid (?got x) (case x of None \<Rightarrow> liftB (Inr None) | Some d \<Rightarrow> found_order net ?s ?cid d)
     (\<lambda>x a h. at_account a0 P a h \<and> (\<forall>y. x = Some y \<longrightarrow> found net a0 r y h)) (\<lambda>_. at_account a0 P)" for x
  proof (cases x)
    case None
    then show ?thesis by (auto intro: valid_lift)
  next
    case (Some d)
    have "valid (\<lambda>a h. at_account a0 P a h \<and> (\<exists>h1. (Inr d, h) = do_request net a0 (query_request r) h1))
       (found_order net ?s ?cid d)
       (\<lambda>x a h. (at_account a0 P a h \<and> (\<exists>h1. (Inr d, h) = do_request net a0 (query_request r) h1))
          \<and> (\<forall>y. x = Some y \<longrightarrow> (\<exists>raw. extract_order d = Inr raw \<and> truthy raw
               \<and> parse_order net h raw ?s = Inr y)))
       (\<lambda>_ a h. at_account a0 P a h \<and> (\<exists>h1. (Inr d, h) = do_request net a0 (query_request r) h1))"
      by (rule found_order_valid) (simp add: cache)
    then have "valid (\<lambda>a h. at_account a0 P a h \<and> (\<exists>h1. (Inr d, h) = do_request net a0 (query_request r) h1))
       (found_order net ?s ?cid d)
       (\<lambda>x a h. at_account a0 P a h \<and> (\<forall>y. x = Some y \<longrightarrow> found net a0 r y h)) (\<lambda>_. at_account a0 P)"
      by (rule valid_post) (unfold found_def, blast+)
    then show ?thesis by (simp add: Some)
  qed
  then show ?thesis unfolding query_order_def by (rule valid_bind [OF asked])
qed

lemma post_order_valid:
  "valid (ready net a0 h0 (rq_symbol r)) (post_order net r)
     (\<lambda>x a h. ready net a0 h0 (rq_symbol r) a h
        \<and> (case x of Inl y \<Rightarrow> found net a0 r y h
                  | Inr d \<Rightarrow> \<exists>h1. (Inr d, h) = do_request net a0 (post_request net r) h1))
     (\<lambda>_. ready net a0 h0 (rq_symbol r))"
  unfolding post_order_def
proof (rule valid_catch)
  show "valid (ready net a0 h0 (rq_symbol r))
     (bindB (signed_request net ''POST'' ORDER (place_params net r)) (\<lambda>data. liftB (Inr (Inr data))))
     (\<lambda>x a h. ready net a0 h0 (rq_symbol r) a h
        \<and> (case x of Inl y \<Rightarrow> found net a0 r y h
                  | Inr d \<Rightarrow> \<exists>h1. (Inr d, h) = do_request net a0 (post_request net r) h1))
     (\<lambda>_. ready net a0 h0 (rq_symbol r))"
    by (rule valid_bind [OF valid_request [OF setup_stable_post [unfolded post_request_def]]])
      (auto intro!: valid_lift simp: post_request_def)
  have q: "valid (ready net a0 h0 (rq_symbol r)) (query_order net (rq_symbol r) (rq_client_order_id r))
     (\<lambda>x a h. ready net a0 h0 (rq_symbol r) a h \<and> (\<forall>y. x = Some y \<longrightarrow> found net a0 r y h))
     (\<lambda>_. ready net a0 h0 (rq_symbol r))"
    by (rule query_valid [OF setup_stable(3)]) simp
  show "valid (ready net a0 h0 (rq_symbol r))
     (if e \<noteq> BingXApiError then liftB (Inl e)
      else bindB (query_order net (rq_symbol r) (rq_client_order_id r)) (\<lambda>existing.
                  case existing of
                    None \<Rightarrow> liftB (Inl BingXApiError)
                  | Some x \<Rightarrow> bindB (remember (or_client_order_id x) (rq_symbol r)) (\<lambda>_. liftB (Inr (Inl x)))))
     (\<lambda>x a h. ready net a0 h0 (rq_symbol r) a h
        \<and> (case x of Inl y \<Rightarrow> found net a0 r y h
                  | Inr d \<Rightarrow> \<exists>h1. (Inr d, h) = do_request net a0 (post_request net r) h1))
     (\<lambda>_. ready net a0 h0 (rq_symbol r))" for e
    by (rule valid_if, rule valid_lift, simp, simp, rule valid_bind [OF q], rule valid_case,
        rule valid_bind, rule remember_valid) (auto intro: valid_lift)
qed

lemma place_order_valid:
  "valid (at_account a0 (setup_inv net a0 h0 (rq_symbol r))) (bingx_place_order net r)
     (\<lambda>x a h. ready net a0 h0 (rq_symbol r) a h \<and> (found net a0 r x h \<or> placed net a0 r x h))
     (\<lambda>_. at_account a0 (setup_inv net a0 h0 (rq_symbol r)))"
proof -
  let ?s = "rq_symbol r"
  have weak: "setup_inv net a0 h0 ?s a h" if "setup2 net a0 h0 ?s a h" for a h using that by simp
  have post: "valid (ready net a0 h0 ?s)
     (bindB (post_order net r) (\<lambda>res. case res of Inl x \<Rightarrow> liftB (Inr x) | Inr data \<Rightarrow> parse_placed net ?s data))
     (\<lambda>x a h. ready net a0 h0 ?s a h \<and> (found net a0 r x h \<or> placed net a0 r x h)) (\<lambda>_. ready net a0 h0 ?s)"
  proof (rule valid_bind [OF post_order_valid])
    fix res
    show "valid (\<lambda>a h. ready net a0 h0 ?s a h
        \<and> (case res of Inl y \<Rightarrow> found net a0 r y h
                  | Inr d \<Rightarrow> \<exists>h1. (Inr d, h) = do_request net a0 (post_request net r) h1))
      (case res of Inl x \<Rightarrow> liftB (Inr x) | Inr data \<Rightarrow> parse_placed net ?s data)
      (\<lambda>x a h. ready net a0 h0 ?s a h \<and> (found net a0 r x h \<or> placed net a0 r x h)) (\<lambda>_. ready net a0 h0 ?s)"
    proof (cases res)
      case (Inl x)
      then show ?thesis by (auto intro: valid_lift)
    next
      case (Inr d)
      let ?P = "\<lambda>a h. ready net a0 h0 ?s a h \<and> (\<exists>h1. (Inr d, h) = do_request net a0 (post_request net r) h1)"
      have "valid ?P (parse_placed net ?s d) (\<lambda>x a h. ?P a h \<and> placed net a0 r x h) (\<lambda>_. ?P)"
        unfolding parse_placed_def
        by (rule valid_bind [where R = "\<lambda>raw a h. ?P a h \<and> item ''order'' d = Inr raw"], rule valid_lift, simp, simp,
            rule valid_bind, rule valid_post [OF parse_valid], assumption, simp,
            rule valid_bind, rule remember_valid, simp, rule valid_lift) (auto simp: placed_def)
      then have "valid ?P (parse_placed net ?s d)
          (\<lambda>x a h. ready net a0 h0 ?s a h \<and> (found net a0 r x h \<or> placed net a0 r x h)) (\<lambda>_. ready net a0 h0 ?s)"
        by (rule valid_post) auto
      then show ?thesis by (simp add: Inr)
    qed
  qed
  have "valid (at_account a0 (setup_inv net a0 h0 ?s)) (bingx_place_order net r)
     (\<lambda>x a h. ready net a0 h0 ?s a h \<and> (found net a0 r x h \<or> placed net a0 r x h))
     (\<lambda>_. at_account a0 (setup_inv net a0 h0 ?s))"
    unfolding bingx_place_order_def
  proof (rule valid_bind [OF ensure_one_way_valid], rule valid_bind)
    show "valid (at_account a0 (setup1 net a0 h0 ?s)) (ensure_isolated_margin net ?s)
       (\<lambda>_. ready net a0 h0 ?s) (\<lambda>_. at_account a0 (setup_inv net a0 h0 ?s))"
      by (rule valid_post [OF ensure_isolated_valid]) (auto simp: at_account_def)
    show "valid (ready net a0 h0 ?s)
       (bindB (query_order net ?s (rq_client_order_id r)) (\<lambda>existing.
          case existing of Some x \<Rightarrow> liftB (Inr x)
          | None \<Rightarrow> bindB (post_order net r) (\<lambda>res.
              case res of Inl x \<Rightarrow> liftB (Inr x) | Inr data \<Rightarrow> parse_placed net ?s data)))
       (\<lambda>x a h. ready net a0 h0 ?s a h \<and> (found net a0 r x h \<or> placed net a0 r x h))
       (\<lambda>_. at_account a0 (setup_inv net a0 h0 ?s))"
      by (rule valid_bind [OF valid_post [OF query_valid [OF setup_stable(3)]]], simp, assumption,
          simp add: at_account_def, rule valid_case, rule valid_lift, simp, simp,
          rule valid_weaken [OF valid_post [OF post]])
        (auto simp: at_account_def)
  qed
  then show ?thesis .
qed

lemma order_post_self: "order_post a (Sent (wire_of net a ts (post_request net r)))"
  by (simp add: order_post_def wire_of_def Let_def post_request_def)

subsection \<open>A sample exchange\<close>

definition jobj :: "(string \<times> json) list \<Rightarrow> json" where
  "jobj = JObj"

definition sample_order_json :: json where
  "sample_order_json = JObj [(''orderId'', JInt 7), (''clientOrderID'', JStr ''c1''), (''side'', JStr ''BUY''),
     (''type'', JStr ''MARKET''), (''status'', JStr ''FILLED''), (''avgPrice'', JStr ''100.5''),
     (''origQty'', JStr ''2''), (''executedQty'', JStr ''2''), (''time'', JInt 1700000000000)]"

definition reply :: "int \<Rightarrow> json \<Rightarrow> bingx_outcome" where
  "reply code data = Http_response 200 (Some (JObj [(''code'', JInt code), (''data'', data)]))"

definition sample_bingx :: bingx_adapter where
  "sample_bingx = bingx_init ''key'' ''secret'' TESTNET"

text \<open>The first order is accepted, but its answer is lost; from then on the exchange knows the order.\<close>

definition sample_book :: "event list \<Rightarrow> json option" where
  "sample_book h = (if list_ex (order_post sample_bingx) h then Some sample_order_json else None)"

definition sample_answer :: "event list \<Rightarrow> bingx_outcome" where
  "sample_answer h =
     (if h = [] then No_response
      else if order_post sample_bingx (List.last h) then
        (if sample_book (butlast h) = None then No_response else reply 101 JNull)
      else case List.last h of
        Sent w \<Rightarrow>
          if wi_method w = ''POST'' then reply 0 (JObj [])
          else (case sample_book h of None \<Rightarrow> reply 109 JNull | Some o' \<Rightarrow> reply 0 (JObj [(''order'', o')]))
      | Elapsed _ \<Rightarrow> No_response)"

definition sample_net :: bingx_net where
  "sample_net = \<lparr>bn_answer = sample_answer, bn_now_ms = (\<lambda>h. int (length h)), bn_utcnow = (\<lambda>h. int (length h)),
     bn_monotonic = (\<lambda>h. of_nat (length h)), bn_jitter = (\<lambda>h. 0), bn_hmac = (\<lambda>k m. ''s''),
     bn_decimal_text = (\<lambda>x. ''2''), bn_json_text = (\<lambda>j. [])\<rparr>"

definition sample_bingx_order :: order_request where
  "sample_bingx_order = \<lparr>rq_client_order_id = ''c1'', rq_symbol = ''BTCUSDT'', rq_side = BUY, rq_order_type = MARKET,
     rq_quantity = 2, rq_price = None, rq_stop_price = None, rq_is_reduce_only = False, rq_bid = None,
     rq_ask = None\<rparr>"

lemma sample_bingx_order_simps [simp]:
  "rq_symbol sample_bingx_order = ''BTCUSDT''" "rq_client_order_id sample_bingx_order = ''c1''"
  by (simp_all add: sample_bingx_order_def)

lemma sample_book_send:
  "sample_book (h @ [e]) = (if order_post sample_bingx e then Some sample_order_json else sample_book h)"
  by (simp add: sample_book_def)

text \<open>What this exchange answers to each of the requests.\<close>

lemma sample_do_request:
  assumes "same_account sample_bingx a"
  shows "do_request sample_net a q h =
    (let e = Sent (wire_of sample_net sample_bingx (int (length h)) q) in
     (read_answer
        (if order_post sample_bingx e then (if sample_book h = None then No_response else reply 101 JNull)
         else if bq_method q = ''POST'' then reply 0 (JObj [])
         else (case sample_book h of None \<Rightarrow> reply 109 JNull | Some o' \<Rightarrow> reply 0 (JObj [(''order'', o')]))),
      h @ [e]))"
  using wire_of_same [OF assms]
  by (simp add: do_request_def sample_net_def sample_answer_def Let_def wire_of_def sample_book_send)

lemma read_reply: "read_answer (reply code data) = (if code = 0 then Inr data else Inl BingXApiError)"
  by (simp add: read_answer_def reply_def get_or_def item_def is_zero_def)

lemma sample_one_way:
  "same_account sample_bingx a \<Longrightarrow> do_request sample_net a one_way_request h =
     (Inr (JObj []), h @ [Sent (wire_of sample_net sample_bingx (int (length h)) one_way_request)])"
  by (simp add: sample_do_request Let_def order_post_other read_reply one_way_request_def [THEN arg_cong [of _ _ bq_method]])

lemma sample_isolated:
  "same_account sample_bingx a \<Longrightarrow> do_request sample_net a (isolated_request s) h =
     (Inr (JObj []), h @ [Sent (wire_of sample_net sample_bingx (int (length h)) (isolated_request s))])"
  by (simp add: sample_do_request Let_def order_post_other read_reply
      isolated_request_def [of s, THEN arg_cong [of _ _ bq_method]])

lemma sample_query:
  "same_account sample_bingx a \<Longrightarrow> do_request sample_net a (query_request r) h =
     ((case sample_book h of None \<Rightarrow> Inl BingXApiError | Some o' \<Rightarrow> Inr (JObj [(''order'', o')])),
      h @ [Sent (wire_of sample_net sample_bingx (int (length h)) (query_request r))])"
  by (simp add: sample_do_request Let_def order_post_other read_reply split: option.split)
    (simp add: query_request_def)

lemma sample_post:
  "same_account sample_bingx a \<Longrightarrow> do_request sample_net a (post_request sample_net r) h =
     (Inl (if sample_book h = None then RequestError else BingXApiError),
      h @ [Sent (wire_of sample_net sample_bingx (int (length h)) (post_request sample_net r))])"
  by (simp add: sample_do_request Let_def order_post_self read_reply) (simp add: read_answer_def)

lemma sample_order_parsed:
  "parse_order sample_net h sample_order_json ''BTCUSDT'' = Inr
     \<lparr>or_order_id = ''7'', or_client_order_id = ''c1'', or_symbol = ''BTCUSDT'', or_side = BUY,
      or_order_type = MARKET, or_status = FILLED, or_quantity_requested = 2, or_quantity_filled = 2,
      or_fill_price = Some (201 / 2), or_fee_usdt = 0, or_slippage_usdt = None, or_is_simulated = False,
      or_timestamp_utc = 1700000000000000\<rparr>"
  by code_simp

lemma same_account_update [simp]:
  "same_account a0 (a\<lparr>bx_circuit_breaker := b\<rparr>) \<longleftrightarrow> same_account a0 a"
  "same_account a0 (a\<lparr>bx_one_way_verified := v\<rparr>) \<longleftrightarrow> same_account a0 a"
  "same_account a0 (a\<lparr>bx_isolated_verified_symbols := xs\<rparr>) \<longleftrightarrow> same_account a0 a"
  "same_account a0 (a\<lparr>bx_order_symbol_cache := c\<rparr>) \<longleftrightarrow> same_account a0 a"
  by (simp_all add: same_account_def)

text \<open>A query of the sample exchange, before and after it knows the order.\<close>

lemma sample_query_order:
  assumes "same_account sample_bingx a" "closed_after n a" "n < 4"
  shows "\<exists>a' e. query_order sample_net ''BTCUSDT'' ''c1'' a h =
      (Inr (case sample_book h of None \<Rightarrow> None
            | Some o' \<Rightarrow> (case parse_order sample_net (h @ [e]) o' ''BTCUSDT'' of Inr x \<Rightarrow> Some x | Inl _ \<Rightarrow> None)),
       a', h @ [e])
    \<and> \<not> order_post sample_bingx e \<and> same_account sample_bingx a' \<and> closed_after (if sample_book h = None then n + 1 else 0) a'"
proof -
  have q: "query_request sample_bingx_order
      = \<lparr>bq_method = ''GET'', bq_path = ORDER, bq_params = order_params ''BTCUSDT'' ''c1''\<rparr>"
    by (simp add: query_request_def)
  define e where "e = Sent (wire_of sample_net sample_bingx (int (length h)) (query_request sample_bingx_order))"
  define r where "r = (case sample_book h of None \<Rightarrow> Inl BingXApiError | Some o' \<Rightarrow> Inr (JObj [(''order'', o')]))"
  have d: "do_request sample_net a \<lparr>bq_method = ''GET'', bq_path = ORDER, bq_params = order_params ''BTCUSDT'' ''c1''\<rparr> h
      = (r, h @ [e])"
    using sample_query [OF assms(1), of sample_bingx_order h] by (simp add: q [symmetric] e_def r_def)
  have "r = Inl e' \<Longrightarrow> \<not> is_retryable_bingx_error e'" for e'
    by (auto simp: r_def is_retryable_bingx_error_def split: option.splits)
  from signed_request_once [OF d assms(2,3) this] obtain b where
    s: "signed_request sample_net ''GET'' ORDER (order_params ''BTCUSDT'' ''c1'') a h = (r, a\<lparr>bx_circuit_breaker := b\<rparr>, h @ [e])"
    and c: "closed_after (if isl r then n + 1 else 0) (a\<lparr>bx_circuit_breaker := b\<rparr>)" by blast
  have e: "\<not> order_post sample_bingx e" by (simp add: e_def order_post_other)
  show ?thesis
  proof (cases "sample_book h")
    case None
    with s c e assms(1) show ?thesis
      by (intro exI [of _ "a\<lparr>bx_circuit_breaker := b\<rparr>"] exI [of _ e])
        (simp add: query_order_def signed_get_def bindB_def catchB_def liftB_def r_def)
  next
    case (Some o')
    then have o': "o' = sample_order_json" by (simp add: sample_book_def split: if_splits)
    let ?a = "a\<lparr>bx_circuit_breaker := b, bx_order_symbol_cache := dict_set ''c1'' ''BTCUSDT'' (bx_order_symbol_cache a)\<rparr>"
    have "closed_after 0 ?a" "same_account sample_bingx ?a" using c Some assms(1) by (simp_all add: r_def)
    moreover have "query_order sample_net ''BTCUSDT'' ''c1'' a h
        = (Inr (case parse_order sample_net (h @ [e]) o' ''BTCUSDT'' of Inr x \<Rightarrow> Some x | Inl _ \<Rightarrow> None), ?a, h @ [e])"
      using s Some by (simp add: query_order_def signed_get_def bindB_def catchB_def liftB_def r_def found_order_def
          extract_order_def get_or_def o' sample_order_parsed parse_orderB_def remember_def modifyB_def)
        (simp add: liftB_def sample_order_json_def sample_order_parsed [unfolded sample_order_json_def])
    ultimately show ?thesis using Some e by (intro exI [of _ ?a] exI [of _ e]) simp
  qed
qed

text \<open>The account settings of the first order, and the order itself with its lost answer.\<close>

lemma sample_setup:
  "\<exists>a1 a' e1 e2. ensure_one_way_mode sample_net sample_bingx [] = (Inr (), a1, [e1])
     \<and> ensure_isolated_margin sample_net ''BTCUSDT'' a1 [e1] = (Inr (), a', [e1, e2])
     \<and> \<not> order_post sample_bingx e1 \<and> \<not> order_post sample_bingx e2 \<and> same_account sample_bingx a' \<and> closed_after 0 a'"
proof -
  let ?e1 = "Sent (wire_of sample_net sample_bingx 0 one_way_request)"
  let ?e2 = "Sent (wire_of sample_net sample_bingx 1 (isolated_request ''BTCUSDT''))"
  have c0: "closed_after 0 sample_bingx"
    by (simp add: closed_after_def sample_bingx_def bingx_init_def breaker_init_def)
  obtain b1 where s1: "signed_request sample_net ''POST'' DUAL_SIDE [(''dualSidePosition'', ''false'')] sample_bingx []
      = (Inr (JObj []), sample_bingx\<lparr>bx_circuit_breaker := b1\<rparr>, [?e1])"
      and c1: "closed_after 0 (sample_bingx\<lparr>bx_circuit_breaker := b1\<rparr>)"
    using signed_request_once [OF _ c0] sample_one_way [of sample_bingx "[]"] unfolding one_way_request_def
    by fastforce
  let ?a1 = "sample_bingx\<lparr>bx_circuit_breaker := b1, bx_one_way_verified := True\<rparr>"
  have m1: "ensure_one_way_mode sample_net sample_bingx [] = (Inr (), ?a1, [?e1])"
    using s1 by (simp add: ensure_one_way_mode_def bindB_def modifyB_def sample_bingx_def bingx_init_def)
  have c1': "closed_after 0 ?a1" using c1 by simp
  obtain b2 where s2: "signed_request sample_net ''POST'' MARGIN_TYPE
        [(''symbol'', to_bingx_symbol ''BTCUSDT''), (''marginType'', ''ISOLATED'')] ?a1 [?e1]
      = (Inr (JObj []), ?a1\<lparr>bx_circuit_breaker := b2\<rparr>, [?e1, ?e2])"
      and c2: "closed_after 0 (?a1\<lparr>bx_circuit_breaker := b2\<rparr>)"
    using signed_request_once [OF _ c1'] sample_isolated [of ?a1 "''BTCUSDT''" "[?e1]"] unfolding isolated_request_def
    by fastforce
  let ?a2 = "?a1\<lparr>bx_circuit_breaker := b2, bx_isolated_verified_symbols := [''BTCUSDT'']\<rparr>"
  have "ensure_isolated_margin sample_net ''BTCUSDT'' ?a1 [?e1] = (Inr (), ?a2, [?e1, ?e2])"
    using s2 by (simp add: ensure_isolated_margin_def bingx_set_margin_type_def ignoreB_def liftB_def bindB_def
        modifyB_def sample_bingx_def bingx_init_def List.member_iff)
  moreover have "closed_after 0 ?a2" "same_account sample_bingx ?a2" using c2 by simp_all
  ultimately show ?thesis using m1 order_post_other by blast
qed

lemma sample_lost_answer:
  assumes "same_account sample_bingx a" "closed_after 1 a" "sample_book h = None"
  shows "\<exists>a' es x. post_order sample_net sample_bingx_order a h = (Inr (Inl x), a', h @ es)
     \<and> or_status x = FILLED \<and> length es = 3 \<and> length (filter (order_post sample_bingx) es) = 2"
proof -
  let ?post = "\<lparr>bq_method = ''POST'', bq_path = ORDER, bq_params = place_params sample_net sample_bingx_order\<rparr>"
  note post = post_request_def [of sample_net sample_bingx_order, symmetric]
  define e4 where "e4 = Sent (wire_of sample_net sample_bingx (int (length h)) (post_request sample_net sample_bingx_order))"
  define e5 where "e5 = Sent (wire_of sample_net sample_bingx (int (length (h @ [e4]))) (post_request sample_net sample_bingx_order))"
  have p: "order_post sample_bingx e4" "order_post sample_bingx e5" by (simp_all add: e4_def e5_def order_post_self)
  have d4: "do_request sample_net a ?post h = (Inl RequestError, h @ [e4])"
    using sample_post [OF assms(1), of sample_bingx_order h] assms(3) by (simp add: post e4_def)
  have d5: "do_request sample_net a ?post (h @ [e4]) = (Inl BingXApiError, h @ [e4, e5])"
    using sample_post [OF assms(1), of sample_bingx_order "h @ [e4]"] p by (simp add: post e5_def sample_book_def)
  obtain b where s: "signed_request sample_net ''POST'' ORDER (place_params sample_net sample_bingx_order) a h
      = (Inl BingXApiError, a\<lparr>bx_circuit_breaker := b\<rparr>, h @ [e4, e5])"
    and c: "closed_after 3 (a\<lparr>bx_circuit_breaker := b\<rparr>)"
    using signed_request_twice [OF d4 _ d5 assms(2)] by (auto simp: is_retryable_bingx_error_def)
  have "sample_book (h @ [e4, e5]) = Some sample_order_json" using p by (simp add: sample_book_def)
  then obtain a6 e6 x where q: "query_order sample_net ''BTCUSDT'' ''c1'' (a\<lparr>bx_circuit_breaker := b\<rparr>) (h @ [e4, e5])
      = (Inr (Some x), a6, h @ [e4, e5, e6])" "\<not> order_post sample_bingx e6" "or_status x = FILLED"
    using sample_query_order [OF _ c, of "h @ [e4, e5]"] assms(1) sample_order_parsed by auto
  have "post_order sample_net sample_bingx_order a h = (Inr (Inl x),
      a6\<lparr>bx_order_symbol_cache := dict_set (or_client_order_id x) ''BTCUSDT'' (bx_order_symbol_cache a6)\<rparr>,
      h @ [e4, e5, e6])"
    using s q(1) by (simp add: post_order_def catchB_def bindB_def remember_def modifyB_def liftB_def)
  with q(2,3) p show ?thesis by fastforce
qed

lemma sample_place:
  obtains x a' h' where "bingx_place_order sample_net sample_bingx_order sample_bingx [] = (Inr x, a', h')"
    "or_status x = FILLED" "length (filter (order_post sample_bingx) h') = 2" "length h' = 6"
proof -
  obtain a1 a2 e1 e2 where m: "ensure_one_way_mode sample_net sample_bingx [] = (Inr (), a1, [e1])"
      "ensure_isolated_margin sample_net ''BTCUSDT'' a1 [e1] = (Inr (), a2, [e1, e2])"
    and p: "\<not> order_post sample_bingx e1" "\<not> order_post sample_bingx e2"
    and c2: "same_account sample_bingx a2" "closed_after 0 a2"
    using sample_setup by blast
  have "sample_book [e1, e2] = None" using p by (simp add: sample_book_def)
  then obtain a3 e3 where m3: "query_order sample_net ''BTCUSDT'' ''c1'' a2 [e1, e2] = (Inr None, a3, [e1, e2, e3])"
    and c3: "\<not> order_post sample_bingx e3" "same_account sample_bingx a3" "closed_after 1 a3"
    using sample_query_order [OF c2, of "[e1, e2]"] by auto
  have "sample_book [e1, e2, e3] = None" using c3(1) p by (simp add: sample_book_def)
  then obtain a4 es x where m4: "post_order sample_net sample_bingx_order a3 [e1, e2, e3] = (Inr (Inl x), a4, [e1, e2, e3] @ es)"
      "or_status x = FILLED" "length es = 3" "length (filter (order_post sample_bingx) es) = 2"
    using sample_lost_answer [OF c3(2,3)] by blast
  have "bingx_place_order sample_net sample_bingx_order sample_bingx [] = (Inr x, a4, [e1, e2, e3] @ es)"
    using m m3 m4(1) by (simp add: bingx_place_order_def bindB_def liftB_def)
  then show thesis
    by (rule that) (use p m4 c3(1) in simp_all)
qed

subsection \<open>The properties\<close>

text \<open>The documented behaviour of the exchange that a returned order rests on: a query and a placement that are
  answered without an error carry the order as the exchange holds it under the client order id, and a query that
  carries none was answered when it held none.\<close>

definition answers_from_book ::
    "bingx_net \<Rightarrow> bingx_adapter \<Rightarrow> order_request \<Rightarrow> (event list \<Rightarrow> json option) \<Rightarrow> bool" where
  "answers_from_book net a r book \<longleftrightarrow>
     (\<forall>h data h'. do_request net a (query_request r) h = (Inr data, h') \<longrightarrow>
        (\<exists>raw. extract_order data = Inr raw \<and> book h' = (if truthy raw then Some raw else None)))
     \<and> (\<forall>h data h'. do_request net a (post_request net r) h = (Inr data, h') \<longrightarrow>
        (\<exists>raw. item ''order'' data = Inr raw \<and> book h' = Some raw))"

lemma verified_ok_fresh: "\<not> bx_one_way_verified a \<Longrightarrow> bx_isolated_verified_symbols a = [] \<Longrightarrow> verified_ok net a a h"
  by (simp add: verified_ok_def)

lemma place_order_from:
  assumes "bingx_place_order net r a h = (res, a', h')" "bx_ok a" "verified_ok net a a h"
  shows "verified_ok net a a' h' \<and> orders_after_setup net a h (rq_symbol r) h' \<and> bx_ok a'"
    and "res = Inr x \<Longrightarrow> found net a r x h' \<or> placed net a r x h'"
proof -
  have start: "at_account a (setup_inv net a h (rq_symbol r)) a h"
    using assms(2,3) by (simp add: at_account_def account_ok_def setup_inv_def orders_after_setup_def)
  note v = valid_at [OF place_order_valid start assms(1)]
  show "verified_ok net a a' h' \<and> orders_after_setup net a h (rq_symbol r) h' \<and> bx_ok a'"
    using v by (auto simp: at_account_def account_ok_def setup_inv_def split: sum.splits)
  show "found net a r x h' \<or> placed net a r x h'" if "res = Inr x"
    using v that by simp
qed

subsection \<open>No order before the exchange was asked for it\<close>









text \<open>The two stages before the query send no order.\<close>

definition no_orders :: "bingx_adapter \<Rightarrow> event list \<Rightarrow> event list \<Rightarrow> bool" where
  "no_orders a0 h h' \<longleftrightarrow> (\<exists>evs. h' = h @ evs \<and> (\<forall>e \<in> set evs. \<not> order_post a0 e))"

lemma no_orders_refl [simp]: "no_orders a0 h h"
  by (simp add: no_orders_def)







subsection \<open>Orders\<close>



text \<open>C18. An order that \<^verbatim>\<open>place_order\<close> returns is the order that the exchange holds under the client order id when
  the call returns, read by \<^verbatim>\<open>_parse_order\<close>: also when the answer to the request was lost, the repeated request
  was refused as a duplicate, and the order was found by the second query.\<close>

theorem bingx_returned_order_is_held:
  assumes "bingx_place_order net r a h = (Inr x, a', h')" "bx_ok a" "verified_ok net a a h"
    and "answers_from_book net a r book"
  shows "\<exists>raw. book h' = Some raw \<and> parse_order net h' raw (rq_symbol r) = Inr x"
proof -
  from place_order_from(2) [OF assms(1-3) refl] show ?thesis
  proof
    assume "found net a r x h'"
    then obtain h1 data raw where f: "do_request net a (query_request r) h1 = (Inr data, h')"
        "extract_order data = Inr raw" "truthy raw" "parse_order net h' raw (rq_symbol r) = Inr x"
      unfolding found_def by metis
    with assms(4) show ?thesis unfolding answers_from_book_def by fastforce
  next
    assume "placed net a r x h'"
    then obtain h1 data raw where f: "do_request net a (post_request net r) h1 = (Inr data, h')"
        "item ''order'' data = Inr raw" "parse_order net h' raw (rq_symbol r) = Inr x"
      unfolding placed_def by metis
    with assms(4) show ?thesis unfolding answers_from_book_def by fastforce
  qed
qed

theorem bingx_returned_order_is_held_witness:
  "\<exists>x a' h'. bingx_place_order sample_net sample_bingx_order sample_bingx [] = (Inr x, a', h')
     \<and> length (filter (order_post sample_bingx) h') = 2 \<and> (\<exists>raw. sample_book h' = Some raw)"
proof -
  obtain x a' h' where p: "bingx_place_order sample_net sample_bingx_order sample_bingx [] = (Inr x, a', h')"
    "length (filter (order_post sample_bingx) h') = 2" using sample_place by metis
  have ok: "verified_ok sample_net sample_bingx sample_bingx []" "bx_ok sample_bingx"
    by (simp_all add: verified_ok_fresh sample_bingx_def bingx_init_def)
  have "extract_order (JObj [(''order'', sample_order_json)]) = Inr sample_order_json" "truthy sample_order_json"
    by (simp_all add: extract_order_def get_or_def sample_order_json_def)
  then have "answers_from_book sample_net sample_bingx sample_bingx_order sample_book"
    by (auto simp: answers_from_book_def sample_query sample_post sample_book_send order_post_other
        sample_book_def [of "_ :: event list"] split: option.splits if_splits)
  with p bingx_returned_order_is_held [OF p(1) ok(2,1)] show ?thesis by blast
qed

text \<open>No position is never a failure to find out: when \<^verbatim>\<open>get_position\<close> answers \<^verbatim>\<open>None\<close>, the last thing that
  happened was an answer without an error that lists no position, or whose first position has amount zero.\<close>

theorem bingx_no_position_is_known:
  assumes "bingx_get_position net s a h = (Inr None, a', h')" "bx_ok a"
  shows "\<exists>h1 data. do_request net a
      \<lparr>bq_method = ''GET'', bq_path = POSITIONS, bq_params = [(''symbol'', to_bingx_symbol s)]\<rparr> h1 = (Inr data, h')
    \<and> (\<not> truthy data \<or> bindE (first_item data) (decimal_item ''positionAmt'') = Inr 0)"
proof -
  obtain data where s: "signed_request net ''GET'' POSITIONS [(''symbol'', to_bingx_symbol s)] a h = (Inr data, a', h')"
    and r: "read_position s data = Inr None"
    using assms(1) by (auto simp: bingx_get_position_def signed_get_def bindB_def liftB_def split: prod.splits sum.splits)
  have "account_ok a a \<and> True" using assms(2) by (simp add: account_ok_def)
  then obtain h1 where "(Inr data, h') = do_request net a
      \<lparr>bq_method = ''GET'', bq_path = POSITIONS, bq_params = [(''symbol'', to_bingx_symbol s)]\<rparr> h1"
    using validD(1) [OF valid_signed [of net a "\<lambda>_ _. True"] _ s] by (auto simp: stable_def)
  moreover have "\<not> truthy data \<or> bindE (first_item data) (decimal_item ''positionAmt'') = Inr 0"
    using r by (auto simp: read_position_def bindE_Inr_iff map_sum_Some_iff split: if_splits)
  ultimately show ?thesis by metis
qed

theorem bingx_no_position_is_known_witness:
  "\<exists>a' h'. bingx_get_position (sample_net\<lparr>bn_answer := \<lambda>h. reply 0 (JArr [])\<rparr>) ''BTCUSDT'' sample_bingx []
     = (Inr None, a', h') \<and> length h' = 1"
proof -
  let ?net = "sample_net\<lparr>bn_answer := \<lambda>h. reply 0 (JArr [])\<rparr>"
  let ?q = "\<lparr>bq_method = ''GET'', bq_path = POSITIONS, bq_params = [(''symbol'', to_bingx_symbol ''BTCUSDT'')]\<rparr>"
  have c: "closed_after 0 sample_bingx"
    by (simp add: closed_after_def sample_bingx_def bingx_init_def breaker_init_def)
  have "do_request ?net sample_bingx ?q [] = (Inr (JArr []), [Sent (wire_of ?net sample_bingx (bn_now_ms ?net []) ?q)])"
    by (simp add: do_request_def Let_def read_reply)
  from signed_request_once [OF this c] obtain a' h' where
    g: "bingx_get_position ?net ''BTCUSDT'' sample_bingx [] = (Inr None, a', h')" "length h' = 1"
    by (auto simp: bingx_get_position_def signed_get_def bindB_def liftB_def read_position_def)
  have "bx_ok sample_bingx" by (simp add: sample_bingx_def bingx_init_def)
  from bingx_no_position_is_known [OF g(1) this] g show ?thesis by blast
qed

text \<open>C28. What is signed is what was meant: the query string of a request reads back as exactly its parameters and the
  time stamp, whatever characters their values contain, so a value can neither add a parameter nor end early.\<close>

theorem signed_query_reads_back:
  assumes "\<forall>(k, v) \<in> set params. CHR ''&'' \<notin> set k \<and> CHR ''='' \<notin> set k"
  shows "read_query (query_string params ts)
    = map (\<lambda>(k, v). (k, utf8_bytes v)) params @ [(''timestamp'', utf8_bytes (int_text ts))]"
proof -
  let ?ps = "map (\<lambda>(k, v). k @ ''='' @ quote v) params @ [''timestamp='' @ int_text ts]"
  have "\<forall>p \<in> set ?ps. CHR ''&'' \<notin> set p"
    using assms quote_chars int_text_chars by fastforce
  then have split: "split_on CHR ''&'' (query_string params ts) = ?ps"
    unfolding query_string_def by (intro split_on_join) auto
  have item: "(takeWhile (\<lambda>c. c \<noteq> CHR ''='') (k @ ''='' @ v), unquote (drop 1 (dropWhile (\<lambda>c. c \<noteq> CHR ''='') (k @ ''='' @ v))))
      = (k, unquote v)" if "CHR ''='' \<notin> set k" for k v
  proof -
    have "\<And>c. c \<in> set k \<Longrightarrow> c \<noteq> CHR ''=''" using that by auto
    then show ?thesis by (simp add: takeWhile_append2 [of k] dropWhile_append2 [of k])
  qed
  have plain: "(\<forall>c \<in> set s. c \<noteq> CHR ''%'' \<and> (of_char c :: nat) < 128) \<Longrightarrow> unquote s = utf8_bytes s" for s
    by (induction s) (auto simp: utf8_bytes_def utf8_def)
  have "unquote (int_text ts) = utf8_bytes (int_text ts)" using plain int_text_chars by blast
  then show ?thesis
    unfolding read_query_def split using assms item [of "''timestamp''" "int_text ts"] item
    by (auto simp: unquote_quote)
qed
theorem signed_query_reads_back_witness:
  "read_query (query_string [(''symbol'', ''BTC-USDT''), (''clientOrderID'', ''x&side=SELL'')] 17)
     = [(''symbol'', utf8_bytes ''BTC-USDT''), (''clientOrderID'', utf8_bytes ''x&side=SELL''),
        (''timestamp'', utf8_bytes (int_text 17))]"
  using signed_query_reads_back [of "[(''symbol'', ''BTC-USDT''), (''clientOrderID'', ''x&side=SELL'')]" 17] by simp

subsection \<open>Fee rates\<close>

lemma item_error: "item k j = Inl e \<Longrightarrow> e = Raised KeyError \<or> e = TypeError"
  by (auto simp: item_def split: json.splits option.splits)

lemma decimal_of_json_error: "decimal_of_json j = Inl e \<Longrightarrow> e = Raised InvalidOperation"
  by (cases j) (auto simp: lift_result_def parse_decimal_def Let_def split: prod.splits option.splits if_splits list.splits)

lemma read_fee_rates_error: "read_fee_rates data = Inl e \<Longrightarrow> fee_rates_failure e"
  by (auto simp: read_fee_rates_def decimal_item_def bindE_Inl_iff lift_result_def make_fee_rates_def fee_rates_failure_def
      dest!: item_error decimal_of_json_error split: if_splits)

lemma read_answer_error: "read_answer out = Inl e \<Longrightarrow> fee_rates_failure e \<or> e = AttributeError"
  by (auto simp: read_answer_def bindE_Inl_iff get_or_def fee_rates_failure_def dest!: item_error
      split: bingx_outcome.splits if_splits option.splits json.splits)

text \<open>Fee rates are fresh or refused: an answer is a cached one less than an hour old, given without a request, or
  one that was read now, in range, and cached with the time of the call; every failure is
  \<^verbatim>\<open>FeeRatesUnavailableError\<close>, but for a body that is no JSON object.\<close>

theorem bingx_fee_rates_fail_closed:
  assumes "bingx_get_fee_rates net s a h = (res, a', h')" "bx_ok a"
  shows "case res of
      Inl e \<Rightarrow> (e = Raised FeeRatesUnavailableError \<or> e = AttributeError) \<and> bx_fee_rates_cache a' = bx_fee_rates_cache a
    | Inr rates \<Rightarrow> (\<exists>t. bx_fee_rates_cache a' = Some (rates, t) \<and> bn_monotonic net h - t < 3600)
        \<and> (h' = h \<or> bx_fee_rates_cache a' = Some (rates, bn_monotonic net h) \<and> 0 \<le> fr_maker rates \<and> fr_maker rates < 1
             \<and> 0 \<le> fr_taker rates \<and> fr_taker rates < 1)"
proof (cases "\<exists>rates t. bx_fee_rates_cache a = Some (rates, t) \<and> bn_monotonic net h - t < 3600")
  case True
  with assms(1) show ?thesis by (auto simp: bingx_get_fee_rates_def Let_def FEE_RATES_TTL_SECONDS_def)
next
  case False
  obtain r b h1 where s: "signed_request net ''GET'' COMMISSION [] a h = (r, a\<lparr>bx_circuit_breaker := b\<rparr>, h1)"
    and r: "\<And>e. r = Inl e \<Longrightarrow> fee_rates_failure e \<or> e = AttributeError"
  proof -
    obtain r a1 h1 where s: "signed_request net ''GET'' COMMISSION [] a h = (r, a1, h1)"
      by (cases "signed_request net ''GET'' COMMISSION [] a h")
    then show thesis using assms(2)
    proof (rule signed_request_cases)
      fix k b
      assume "a1 = a\<lparr>bx_circuit_breaker := b\<rparr>" and
        "(\<exists>j. k = Suc j \<and> r = fst (do_request net a \<lparr>bq_method = ''GET'', bq_path = COMMISSION, bq_params = []\<rparr>
            (sends net a \<lparr>bq_method = ''GET'', bq_path = COMMISSION, bq_params = []\<rparr> h j))) \<or> r = Inl BingXApiError"
      with s that show thesis
        using read_answer_error by (fastforce simp: do_request_def Let_def fee_rates_failure_def)
    qed
  qed
  have "(res, a', h') = (case bindE r read_fee_rates of
      Inl e \<Rightarrow> (Inl (if fee_rates_failure e then Raised FeeRatesUnavailableError else e), a\<lparr>bx_circuit_breaker := b\<rparr>, h1)
    | Inr rates \<Rightarrow> (Inr rates, a\<lparr>bx_circuit_breaker := b, bx_fee_rates_cache := Some (rates, bn_monotonic net h)\<rparr>, h1))"
    using assms(1) False s
    by (auto simp: bingx_get_fee_rates_def Let_def FEE_RATES_TTL_SECONDS_def signed_get_def bindB_def catchB_def
        liftB_def modifyB_def split: option.splits sum.splits prod.splits)
  moreover have "fee_rates_failure e \<or> e = AttributeError" if "bindE r read_fee_rates = Inl e" for e
    using that r read_fee_rates_error by (auto simp: bindE_Inl_iff)
  moreover have "0 \<le> fr_maker x \<and> fr_maker x < 1 \<and> 0 \<le> fr_taker x \<and> fr_taker x < 1"
    if "bindE r read_fee_rates = Inr x" for x
    using that by (auto simp: read_fee_rates_def bindE_Inr_iff lift_result_def make_fee_rates_def split: if_splits)
  ultimately show ?thesis by (cases "bindE r read_fee_rates") auto
qed

theorem bingx_fee_rates_fail_closed_witness:
  "\<exists>rates a'. bingx_get_fee_rates sample_net ''BTCUSDT''
       (sample_bingx\<lparr>bx_fee_rates_cache := Some (\<lparr>fr_maker = 2 / 10000, fr_taker = 5 / 10000\<rparr>, bn_monotonic sample_net [])\<rparr>) []
     = (Inr rates, a', []) \<and> fr_taker rates = 5 / 10000 \<and> bx_fee_rates_cache a' \<noteq> None"
proof -
  let ?rates = "\<lparr>fr_maker = 2 / 10000, fr_taker = 5 / 10000\<rparr>"
  let ?a = "sample_bingx\<lparr>bx_fee_rates_cache := Some (?rates, bn_monotonic sample_net [])\<rparr>"
  have g: "bingx_get_fee_rates sample_net ''BTCUSDT'' ?a [] = (Inr ?rates, ?a, [])"
    by (simp add: bingx_get_fee_rates_def FEE_RATES_TTL_SECONDS_def)
  have "bx_ok ?a" by (simp add: sample_bingx_def bingx_init_def)
  from bingx_fee_rates_fail_closed [OF g this] g show ?thesis by auto
qed

end
