(* ===== verification/Fetchers.thy ===== *)
theory Fetchers
  imports BingxHttp MarketData
begin

text \<open>
  The two implementations of the interface \<^verbatim>\<open>DataFetcher\<close>: \<^verbatim>\<open>backend/market_data/bingx_fetcher.py\<close>, which builds a
  snapshot from the answers of the exchange, and the \<^verbatim>\<open>MockDataFetcher\<close> of \<^verbatim>\<open>market_data/fetcher.py\<close>, which
  draws one. The answers of the seven concurrent requests, the clocks and the random draws are inputs.
\<close>

subsection \<open>A public request\<close>

text \<open>\<^verbatim>\<open>_get\<close>: errors of the exchange and an open breaker are \<^verbatim>\<open>RuntimeError\<close>.\<close>

definition read_public :: "bingx_outcome \<Rightarrow> bingx_error + json" where
  "read_public out =
     (case out of
        No_response \<Rightarrow> Inl RequestError
      | Http_response status body \<Rightarrow>
          if \<not> (200 \<le> status \<and> status \<le> 299) then Inl (HTTPStatusError status)
          else case body of
            None \<Rightarrow> Inl (Raised ValueError)
          | Some b \<Rightarrow> bindE (get_or ''code'' (JInt (-1)) b) (\<lambda>code.
              if \<not> is_zero code then Inl (Raised RuntimeError) else item ''data'' b))"

record public_call =
  pc_asked :: rat
  pc_outcome :: bingx_outcome
  pc_told :: rat
  pc_jitter :: rat

definition fetcher_get :: "(nat \<Rightarrow> public_call) \<Rightarrow> breaker \<Rightarrow> (bingx_error + json) \<times> breaker" where
  "fetcher_get calls b =
     (let r = retry BINGX_RETRY_CONFIG is_retryable_bingx_error (\<lambda>_. None)
                (\<lambda>k. \<lparr>at_asked = pc_asked (calls k), at_outcome = read_public (pc_outcome (calls k)),
                      at_told = pc_told (calls k), at_jitter = pc_jitter (calls k)\<rparr>) (Some b)
      in (case rd_result r of
            Inr x \<Rightarrow> Inr x
          | Inl (Operation_error e) \<Rightarrow> Inl e
          | Inl (Breaker_error CircuitBreakerOpenError) \<Rightarrow> Inl (Raised RuntimeError)
          | Inl (Breaker_error AssertionError) \<Rightarrow> Inl Failed_assertion,
          the (rd_breaker r)))"

subsection \<open>A snapshot of the exchange\<close>

text \<open>\<^verbatim>\<open>raw[k]\<close> of a list or of a string.\<close>

definition index_nth :: "nat \<Rightarrow> json \<Rightarrow> bingx_error + json" where
  "index_nth k j =
     (case j of
        JArr xs \<Rightarrow> if k < length xs then Inr (xs ! k) else Inl (Raised LookupError)
      | JStr cs \<Rightarrow> if k < length cs then Inr (JStr [cs ! k]) else Inl (Raised LookupError)
      | JObj d \<Rightarrow> Inl (Raised KeyError)
      | _ \<Rightarrow> Inl TypeError)"

definition decimal_at :: "nat \<Rightarrow> json \<Rightarrow> bingx_error + rat" where
  "decimal_at k j = bindE (index_nth k j) decimal_of_json"

definition parse_candle :: "json \<Rightarrow> int \<Rightarrow> bingx_error + candle_data" where
  "parse_candle raw n_candles =
     bindE (decimal_at 1 raw) (\<lambda>op. bindE (decimal_at 2 raw) (\<lambda>hi. bindE (decimal_at 3 raw) (\<lambda>lo.
     bindE (decimal_at 4 raw) (\<lambda>cl. bindE (decimal_at 5 raw) (\<lambda>vol.
     lift_result (make_candle \<lparr>cd_open = op, cd_high = hi, cd_low = lo, cd_close = cl, cd_volume = vol,
       cd_n_candles = n_candles\<rparr>))))))"

text \<open>\<^verbatim>\<open>float(v)\<close>\<close>

fun float_of_json :: "json \<Rightarrow> bingx_error + rat" where
  "float_of_json (JFloat x) = Inr x"
| "float_of_json (JInt n) = Inr (fl (of_int n))"
| "float_of_json (JBool b) = Inr (if b then 1 else 0)"
| "float_of_json (JStr s) = (case parse_decimal s of Inr x \<Rightarrow> Inr (fl x) | Inl _ \<Rightarrow> Inl (Raised ValueError))"
| "float_of_json j = Inl TypeError"

definition total_ms :: "int \<Rightarrow> rat" where
  "total_ms us = fmul (fl (of_int us / 1000000)) 1000"

definition truncate_float :: "rat \<Rightarrow> int" where
  "truncate_float x = (if 0 \<le> x then \<lfloor>x\<rfloor> else \<lceil>x\<rceil>)"

definition latency_of :: "int \<Rightarrow> int \<Rightarrow> int" where
  "latency_of local_before local_after = truncate_float (total_ms (local_after - local_before))"

definition server_time_of :: "json \<Rightarrow> int \<Rightarrow> bingx_error + int" where
  "server_time_of ticker local_after =
     bindE (bindE (get_or ''time'' (JInt 0) ticker) int_of_json) (\<lambda>ts.
     if ts = 0 then Inr local_after else from_timestamp_ms ts)"

definition clock_skew_of :: "int \<Rightarrow> int \<Rightarrow> int \<Rightarrow> int" where
  "clock_skew_of server_time local_before latency_ms =
     max (-4999) (min 4999
       (truncate_float (fsub (total_ms (server_time - local_before)) (of_int (latency_ms div 2)))))"

text \<open>\<^verbatim>\<open>k in d\<close>, then \<^verbatim>\<open>d[k]\<close>; on a list or a string \<^verbatim>\<open>in\<close> looks for the element.\<close>

definition optional_item :: "string \<Rightarrow> json \<Rightarrow> bingx_error + json option" where
  "optional_item k j =
     (case j of
        JObj d \<Rightarrow> Inr (dict_get d k)
      | JArr xs \<Rightarrow> if List.member xs (JStr k) then Inl TypeError else Inr None
      | JStr s \<Rightarrow> if contains k s then Inl TypeError else Inr None
      | _ \<Rightarrow> Inl TypeError)"

definition optional_value :: "(json \<Rightarrow> bingx_error + 'a) \<Rightarrow> string \<Rightarrow> json \<Rightarrow> bingx_error + 'a option" where
  "optional_value read k j =
     bindE (optional_item k j) (\<lambda>v. case v of None \<Rightarrow> Inr None | Some x \<Rightarrow> map_sum id Some (read x))"

text \<open>The answers in the order of \<^verbatim>\<open>gather\<close>: four klines, the ticker, the funding and the open interest.\<close>

record fetch_input =
  fi_snapshot_id :: string
  fi_local_before :: int
  fi_local_after :: int
  fi_answers :: "bingx_error + json list"

definition spread_percent_of :: "rat \<Rightarrow> rat \<Rightarrow> rat result" where
  "spread_percent_of spread_absolute bid =
     bindE (decimal_div spread_absolute bid) (\<lambda>x. quantize ROUND_HALF_EVEN (1 / 10 ^ 4) (dmul x 100))"

definition bingx_snapshot ::
    "fetch_input \<Rightarrow> environment \<Rightarrow> symbol \<Rightarrow> rat \<Rightarrow> int \<Rightarrow> int \<Rightarrow> json list \<Rightarrow> bingx_error + market_snapshot" where
  "bingx_snapshot i env s account_balance positions orders results =
     (let ticker = results ! 4; funding = results ! 5; oi = results ! 6;
          candle = (\<lambda>k n. bindE (index_nth 0 (results ! k)) (\<lambda>raw. parse_candle raw n));
          latency_ms = latency_of (fi_local_before i) (fi_local_after i) in
      bindE (candle 0 1) (\<lambda>c5. bindE (candle 1 3) (\<lambda>c15. bindE (candle 2 12) (\<lambda>c1h. bindE (candle 3 48) (\<lambda>c4h.
      bindE (bindE (item ''lastPrice'' ticker) decimal_of_json) (\<lambda>last_price.
      bindE (bindE (item ''bidPrice'' ticker) decimal_of_json) (\<lambda>bid.
      bindE (bindE (item ''askPrice'' ticker) decimal_of_json) (\<lambda>ask.
      let spread_absolute = dsub ask bid in
      bindE (lift_result (spread_percent_of spread_absolute bid)) (\<lambda>spread_percent.
      bindE (server_time_of ticker (fi_local_after i)) (\<lambda>server_time.
      bindE (optional_value float_of_json ''lastFundingRate'' funding) (\<lambda>funding_rate.
      bindE (optional_value decimal_of_json ''openInterest'' oi) (\<lambda>open_interest.
      bindE (bindE (get_or ''volume'' (JStr ''0'') ticker) decimal_of_json) (\<lambda>volume.
      lift_result (make_snapshot
        \<lparr>ms_snapshot_id = fi_snapshot_id i, ms_timestamp_utc = fi_local_before i, ms_exchange = BINGX,
         ms_environment = env,
         ms_symbol = s, ms_last_price = last_price, ms_bid = bid, ms_ask = ask,
         ms_spread_absolute = spread_absolute, ms_spread_percent = spread_percent,
         ms_candles = \<lparr>tf_5m = c5, tf_15m = c15, tf_1h = c1h, tf_4h = c4h, history_5m = [], history_15m = [],
           history_1h = [], history_4h = []\<rparr>,
         ms_volume = volume, ms_volatility = None, ms_funding_rate = funding_rate,
         ms_open_interest = open_interest, ms_account_balance_usdt = account_balance,
         ms_open_positions_count = positions, ms_active_orders_count = orders, ms_latency_ms = latency_ms,
         ms_exchange_server_time = server_time, ms_local_time = fi_local_after i,
         ms_clock_skew_ms = clock_skew_of server_time (fi_local_before i) latency_ms,
         ms_data_freshness_status = FRESH, ms_coherence_status = OK\<rparr>))))))))))))))"

definition bingx_fetch_snapshot ::
    "fetch_input \<Rightarrow> environment \<Rightarrow> symbol \<Rightarrow> rat \<Rightarrow> int \<Rightarrow> int \<Rightarrow> bingx_error + market_snapshot" where
  "bingx_fetch_snapshot i env s account_balance positions orders =
     bindE (fi_answers i) (bingx_snapshot i env s account_balance positions orders)"

text \<open>Any exception is a source that is not healthy.\<close>

definition bingx_is_healthy :: "bingx_outcome \<Rightarrow> bool" where
  "bingx_is_healthy out =
     (case out of
        Http_response status (Some body) \<Rightarrow>
          bindE (get_or ''code'' (JInt (-1)) body) int_of_json = Inr 0
      | _ \<Rightarrow> False)"

subsection \<open>The mock\<close>

record mock_fetcher =
  mf_spread_bps :: rat
  mf_volatility_pct :: rat
  mf_reported_latency_ms :: int

text \<open>The \<open>k\<close>-th draw of \<^verbatim>\<open>gauss(0, sigma)\<close> and of \<^verbatim>\<open>uniform(lo, hi)\<close>.\<close>

record mock_draws =
  dw_gauss :: "nat \<Rightarrow> rat \<Rightarrow> rat"
  dw_uniform :: "nat \<Rightarrow> rat \<Rightarrow> rat \<Rightarrow> rat"

definition BASE_PRICES :: "(symbol, rat) dict" where
  "BASE_PRICES = [(''BTCUSDT'', 65000), (''ETHUSDT'', 3200), (''BNBUSDT'', 580), (''SOLUSDT'', 160),
     (''XRPUSDT'', 55/100)]"

definition BASE_VOLUMES :: "(symbol, rat) dict" where
  "BASE_VOLUMES = [(''BTCUSDT'', 2500), (''ETHUSDT'', 18000), (''BNBUSDT'', 12000), (''SOLUSDT'', 85000),
     (''XRPUSDT'', 9000000)]"

definition BASE_OPEN_INTEREST :: "(symbol, rat) dict" where
  "BASE_OPEN_INTEREST = [(''BTCUSDT'', 45000), (''ETHUSDT'', 820000), (''BNBUSDT'', 180000), (''SOLUSDT'', 6000000),
     (''XRPUSDT'', 350000000)]"

definition TICK_SIZES :: "(symbol, rat) dict" where
  "TICK_SIZES = [(''BTCUSDT'', 1/10), (''ETHUSDT'', 1/100), (''BNBUSDT'', 1/100), (''SOLUSDT'', 1/1000),
     (''XRPUSDT'', 1/10000)]"

definition table_get :: "(symbol, rat) dict \<Rightarrow> symbol \<Rightarrow> rat" where
  "table_get t s = (case dict_get t s of Some x \<Rightarrow> x | None \<Rightarrow> 0)"

definition round_to_tick :: "rounding_mode \<Rightarrow> rat \<Rightarrow> rat \<Rightarrow> rat result" where
  "round_to_tick mode value tick =
     bindE (decimal_div value tick) (\<lambda>x. bindE (quantize mode 1 x) (\<lambda>n. Inr (dmul n tick)))"

definition noisy_price :: "mock_fetcher \<Rightarrow> mock_draws \<Rightarrow> nat \<Rightarrow> rat \<Rightarrow> rat \<Rightarrow> rat result" where
  "noisy_price m w k base tick =
     (let noise = dw_gauss w k (fdiv (fmul (fl base) (mf_volatility_pct m)) 100)
      in round_to_tick ROUND_DOWN (dec_of_float (fadd (fl base) noise)) tick)"

definition noisy_decimal :: "mock_draws \<Rightarrow> nat \<Rightarrow> rat \<Rightarrow> rat \<Rightarrow> rat \<Rightarrow> rat result" where
  "noisy_decimal w k base noise_pct tick =
     (let noise = dw_gauss w k (fdiv (fmul (fl base) noise_pct) 100)
      in round_to_tick ROUND_DOWN (dec_of_float (max (fadd (fl base) noise) (fl tick))) tick)"

definition mock_bid_ask :: "mock_fetcher \<Rightarrow> rat \<Rightarrow> rat \<Rightarrow> (rat \<times> rat) result" where
  "mock_bid_ask m last_price tick =
     (let half_spread = max (dmul last_price (dec_of_float (fdiv (fdiv (mf_spread_bps m) 2) 10000))) tick in
      bindE (round_to_tick ROUND_DOWN (dsub last_price half_spread) tick) (\<lambda>bid.
      bindE (round_to_tick ROUND_UP (dadd last_price half_spread) tick) (\<lambda>ask.
      Inr (if last_price \<le> bid then dsub last_price tick else bid,
           if ask \<le> last_price then dadd last_price tick else ask))))"

text \<open>A candle takes four draws, from the \<open>k\<close>-th on.\<close>

definition mock_candle :: "mock_fetcher \<Rightarrow> mock_draws \<Rightarrow> nat \<Rightarrow> rat \<Rightarrow> rat \<Rightarrow> rat \<Rightarrow> int \<Rightarrow> candle_data result" where
  "mock_candle m w k close tick base_vol multiplier =
     (let amplitude = fdiv (fmul (fmul (fl close) (mf_volatility_pct m)) (of_int multiplier)) 100 in
      bindE (round_to_tick ROUND_DOWN (dec_of_float (fadd (fl close) (dw_gauss w k (fmul amplitude (1/2))))) tick) (\<lambda>op.
      bindE (round_to_tick ROUND_DOWN
        (dec_of_float (fadd (max (fl close) (fl op)) \<bar>dw_gauss w (k + 1) amplitude\<bar>)) tick) (\<lambda>hi.
      bindE (round_to_tick ROUND_DOWN
        (dec_of_float (fsub (min (fl close) (fl op)) \<bar>dw_gauss w (k + 2) amplitude\<bar>)) tick) (\<lambda>lo.
      bindE (noisy_decimal w (k + 3) (dmul base_vol (of_int multiplier)) 15 1) (\<lambda>vol.
      make_candle \<lparr>cd_open = op, cd_high = hi, cd_low = max lo tick, cd_close = close, cd_volume = vol,
        cd_n_candles = multiplier\<rparr>)))))"

definition mock_candles :: "mock_fetcher \<Rightarrow> mock_draws \<Rightarrow> rat \<Rightarrow> rat \<Rightarrow> symbol \<Rightarrow> candles result" where
  "mock_candles m w last_price tick s =
     (let vol = table_get BASE_VOLUMES s in
      bindE (mock_candle m w 1 last_price tick vol 1) (\<lambda>c5.
      bindE (mock_candle m w 5 last_price tick vol 3) (\<lambda>c15.
      bindE (mock_candle m w 9 last_price tick vol 12) (\<lambda>c1h.
      bindE (mock_candle m w 13 last_price tick vol 48) (\<lambda>c4h.
      Inr \<lparr>tf_5m = c5, tf_15m = c15, tf_1h = c1h, tf_4h = c4h, history_5m = [], history_15m = [],
           history_1h = [], history_4h = []\<rparr>)))))"

text \<open>\<^verbatim>\<open>round(x, digits)\<close> of a float.\<close>

definition round_float :: "nat \<Rightarrow> rat \<Rightarrow> rat" where
  "round_float digits x = fl (of_int (rhe (x * 10 ^ digits)) / 10 ^ digits)"

definition mock_fetch_snapshot ::
    "mock_fetcher \<Rightarrow> mock_draws \<Rightarrow> string \<Rightarrow> int \<Rightarrow> symbol \<Rightarrow> rat \<Rightarrow> int \<Rightarrow> int \<Rightarrow> market_snapshot result" where
  "mock_fetch_snapshot m w snapshot_id now s account_balance positions orders =
     (case dict_get BASE_PRICES s of
        None \<Rightarrow> Inl ValueError
      | Some base \<Rightarrow>
          let tick = table_get TICK_SIZES s in
          bindE (noisy_price m w 0 base tick) (\<lambda>last_price.
          bindE (mock_bid_ask m last_price tick) (\<lambda>(bid, ask).
          let spread_absolute = dsub ask bid in
          bindE (bindE (decimal_div spread_absolute last_price) (\<lambda>x. quantize ROUND_DOWN (1 / 10 ^ 4) (dmul x 100)))
            (\<lambda>spread_percent.
          bindE (mock_candles m w last_price tick s) (\<lambda>cs.
          bindE (noisy_decimal w 17 (table_get BASE_OPEN_INTEREST s) 1 1) (\<lambda>open_interest.
          bindE (noisy_decimal w 18 (table_get BASE_VOLUMES s) 5 1) (\<lambda>volume.
          make_snapshot
            \<lparr>ms_snapshot_id = snapshot_id, ms_timestamp_utc = now, ms_exchange = EXCHANGE_PAPER,
             ms_environment = PAPER, ms_symbol = s,
             ms_last_price = last_price, ms_bid = bid, ms_ask = ask, ms_spread_absolute = spread_absolute,
             ms_spread_percent = spread_percent, ms_candles = cs, ms_volume = volume,
             ms_volatility = Some (round_float 4 (dw_uniform w 1 (fl (5/1000)) (fl (4/100)))),
             ms_funding_rate = Some (round_float 6 (dw_uniform w 0 (fl (- 2/10000)) (fl (2/10000)))),
             ms_open_interest = Some open_interest, ms_account_balance_usdt = account_balance,
             ms_open_positions_count = positions, ms_active_orders_count = orders,
             ms_latency_ms = mf_reported_latency_ms m, ms_exchange_server_time = now, ms_local_time = now,
             ms_clock_skew_ms = 0, ms_data_freshness_status = FRESH, ms_coherence_status = OK\<rparr>)))))))"

subsection \<open>Lemmas\<close>

text \<open>The skew that a snapshot reports is never at the bound of the schema: its check of the skew cannot fire.\<close>

lemma clock_skew_of_bounds: "\<bar>clock_skew_of server_time local_before latency_ms\<bar> \<le> 4999"
  by (auto simp: clock_skew_of_def)

lemma bingx_snapshot_Inr:
  assumes "bingx_snapshot i env s account_balance positions orders results = Inr snap"
  shows "make_snapshot snap = Inr snap" "ms_symbol snap = s" "ms_environment snap = env"
    "\<bar>ms_clock_skew_ms snap\<bar> \<le> 4999" "ms_timestamp_utc snap = fi_local_before i"
proof -
  have *: "make_snapshot snap = Inr snap \<and> ms_symbol snap = s \<and> ms_environment snap = env
      \<and> \<bar>ms_clock_skew_ms snap\<bar> \<le> 4999 \<and> ms_timestamp_utc snap = fi_local_before i"
    if "lift_result (make_snapshot t) = Inr snap" "ms_symbol t = s" "ms_environment t = env"
      "\<bar>ms_clock_skew_ms t\<bar> \<le> 4999" "ms_timestamp_utc t = fi_local_before i" for t
    using that make_snapshot_Inr(1) [of t snap] by (cases "make_snapshot t") (auto simp: lift_result_def)
  have "make_snapshot snap = Inr snap \<and> ms_symbol snap = s \<and> ms_environment snap = env
      \<and> \<bar>ms_clock_skew_ms snap\<bar> \<le> 4999 \<and> ms_timestamp_utc snap = fi_local_before i"
    using assms unfolding bingx_snapshot_def Let_def bindE_Inr_iff
    by (elim exE conjE) (rule *, assumption, simp_all add: clock_skew_of_bounds)
  then show "make_snapshot snap = Inr snap" "ms_symbol snap = s" "ms_environment snap = env"
    "\<bar>ms_clock_skew_ms snap\<bar> \<le> 4999" "ms_timestamp_utc snap = fi_local_before i"
    by simp_all
qed

end
