(* ===== verification/Replay.thy ===== *)
theory Replay
  imports CycleRunner PyText
begin

text \<open>
  \<^verbatim>\<open>backend/replay\<close>: the pipeline run again over the stored snapshots of a window
  (\<^verbatim>\<open>historical_replay_engine.py\<close>, \<^verbatim>\<open>snapshot_loader.py\<close>), its metrics (\<^verbatim>\<open>metrics.py\<close>), what it writes
  (\<^verbatim>\<open>persistence.py\<close>) and the comparison with the decisions on file (\<^verbatim>\<open>comparison.py\<close>). The source of the
  decisions is a function, as in the code; it also gives the field \<^verbatim>\<open>estimated_max_loss_usdt\<close>, which no other
  modelled code reads.
\<close>

subsection \<open>The window and its rows\<close>

record snapshot_window =
  sw_symbol :: symbol
  sw_period_start :: int
  sw_period_end :: int

definition make_window :: "snapshot_window \<Rightarrow> snapshot_window result" where
  "make_window w =
     (if List.member allowed_symbols (sw_symbol w) \<and> sw_period_start w < sw_period_end w
      then Inr w else Inl ValidationError)"

text \<open>
  The column \<^verbatim>\<open>extra\<close> is a JSON object: its decimals and instants are texts, its enumerations their values. The
  text of a decimal depends on its exponent and that of an instant on its calendar, which the model does not
  have: both are given by a \<open>text_lib\<close>, with the parser of instants; the texts of decimals are parsed by
  \<open>parse_decimal\<close>. Of the keys, the code itself only asks whether \<^verbatim>\<open>candles\<close> is there.
\<close>

record text_lib =
  tx_decimal :: "rat \<Rightarrow> string"
  tx_instant :: "int \<Rightarrow> string"
  tx_parse_instant :: "string \<Rightarrow> int result"

record candle_json =
  cj_open :: string
  cj_high :: string
  cj_low :: string
  cj_close :: string
  cj_volume :: string
  cj_n_candles :: int

record snapshot_extra =
  se_exchange :: string
  se_environment :: string
  se_spread_percent :: string
  se_volatility :: "rat option"
  se_account_balance_usdt :: string
  se_open_positions_count :: int
  se_active_orders_count :: int
  se_latency_ms :: int
  se_exchange_server_time :: string
  se_local_time :: string
  se_clock_skew_ms :: int
  se_data_freshness_status :: string
  se_coherence_status :: string
  se_candles :: "(candle_json \<times> candle_json \<times> candle_json \<times> candle_json) option"

record snapshot_row =
  sx_id :: string
  sx_bot_run_id :: string
  sx_symbol :: symbol
  sx_timestamp :: int
  sx_open :: rat
  sx_high :: rat
  sx_low :: rat
  sx_close :: rat
  sx_volume :: rat
  sx_funding_rate :: "rat option"
  sx_open_interest :: "rat option"
  sx_bid :: "rat option"
  sx_ask :: "rat option"
  sx_spread :: "rat option"
  sx_extra :: "snapshot_extra option"

fun environment_value :: "environment \<Rightarrow> string" where
  "environment_value PAPER = ''PAPER''"
| "environment_value TESTNET = ''TESTNET''"
| "environment_value LIVE = ''LIVE''"

text \<open>\<^verbatim>\<open>candle.model_dump(mode="json")\<close> and \<^verbatim>\<open>CandleData.model_validate\<close>.\<close>

definition dump_candle :: "text_lib \<Rightarrow> candle_data \<Rightarrow> candle_json" where
  "dump_candle tx c =
     \<lparr>cj_open = tx_decimal tx (cd_open c), cj_high = tx_decimal tx (cd_high c), cj_low = tx_decimal tx (cd_low c),
      cj_close = tx_decimal tx (cd_close c), cj_volume = tx_decimal tx (cd_volume c), cj_n_candles = cd_n_candles c\<rparr>"

definition decimal_field :: "string \<Rightarrow> rat result" where
  "decimal_field s = (case parse_decimal s of Inl _ \<Rightarrow> Inl ValidationError | Inr x \<Rightarrow> Inr x)"

definition candle_of_json :: "candle_json \<Rightarrow> candle_data result" where
  "candle_of_json j =
     bindE (decimal_field (cj_open j)) (\<lambda>op.
     bindE (decimal_field (cj_high j)) (\<lambda>hi.
     bindE (decimal_field (cj_low j)) (\<lambda>lo.
     bindE (decimal_field (cj_close j)) (\<lambda>cl.
     bindE (decimal_field (cj_volume j)) (\<lambda>vo.
       make_candle \<lparr>cd_open = op, cd_high = hi, cd_low = lo, cd_close = cl, cd_volume = vo,
         cd_n_candles = cj_n_candles j\<rparr>)))))"

text \<open>\<^verbatim>\<open>MarketSnapshot.to_db_kwargs\<close>: the histories of the candles have no column.\<close>

definition snapshot_to_row :: "text_lib \<Rightarrow> string \<Rightarrow> market_snapshot \<Rightarrow> snapshot_row" where
  "snapshot_to_row tx run s =
     (let c = ms_candles s; e = tf_5m c; dump = dump_candle tx
      in \<lparr>sx_id = ms_snapshot_id s, sx_bot_run_id = run, sx_symbol = ms_symbol s, sx_timestamp = ms_timestamp_utc s,
          sx_open = cd_open e, sx_high = cd_high e, sx_low = cd_low e, sx_close = ms_last_price s,
          sx_volume = ms_volume s, sx_funding_rate = ms_funding_rate s, sx_open_interest = ms_open_interest s,
          sx_bid = Some (ms_bid s), sx_ask = Some (ms_ask s), sx_spread = Some (ms_spread_absolute s),
          sx_extra = Some
            \<lparr>se_exchange = exchange_value (ms_exchange s), se_environment = environment_value (ms_environment s),
             se_spread_percent = tx_decimal tx (ms_spread_percent s), se_volatility = ms_volatility s,
             se_account_balance_usdt = tx_decimal tx (ms_account_balance_usdt s),
             se_open_positions_count = ms_open_positions_count s,
             se_active_orders_count = ms_active_orders_count s, se_latency_ms = ms_latency_ms s,
             se_exchange_server_time = tx_instant tx (ms_exchange_server_time s),
             se_local_time = tx_instant tx (ms_local_time s), se_clock_skew_ms = ms_clock_skew_ms s,
             se_data_freshness_status = freshness_value (ms_data_freshness_status s),
             se_coherence_status = coherence_value (ms_coherence_status s),
             se_candles = Some (dump (tf_5m c), dump (tf_15m c), dump (tf_1h c), dump (tf_4h c))\<rparr>\<rparr>)"

text \<open>
  What the table holds of a row: nine of its columns are \<^verbatim>\<open>Numeric(20, 8)\<close>. The database rounds a value to the
  scale of the column or refuses it, and it is not under \<^verbatim>\<open>src\<close>: \<open>numeric\<close> is what it does to a value.
\<close>

definition numeric_option :: "(rat \<Rightarrow> rat result) \<Rightarrow> rat option \<Rightarrow> rat option result" where
  "numeric_option numeric v = (case v of None \<Rightarrow> Inr None | Some x \<Rightarrow> map_sum id Some (numeric x))"

definition store_row :: "(rat \<Rightarrow> rat result) \<Rightarrow> snapshot_row \<Rightarrow> snapshot_row result" where
  "store_row numeric row =
     bindE (numeric (sx_open row)) (\<lambda>op.
     bindE (numeric (sx_high row)) (\<lambda>hi.
     bindE (numeric (sx_low row)) (\<lambda>lo.
     bindE (numeric (sx_close row)) (\<lambda>cl.
     bindE (numeric (sx_volume row)) (\<lambda>vo.
     bindE (numeric_option numeric (sx_open_interest row)) (\<lambda>oi.
     bindE (numeric_option numeric (sx_bid row)) (\<lambda>bid.
     bindE (numeric_option numeric (sx_ask row)) (\<lambda>ask.
     bindE (numeric_option numeric (sx_spread row)) (\<lambda>spread.
       Inr (row\<lparr>sx_open := op, sx_high := hi, sx_low := lo, sx_close := cl, sx_volume := vo,
                sx_open_interest := oi, sx_bid := bid, sx_ask := ask, sx_spread := spread\<rparr>))))))))))"

text \<open>
  \<^verbatim>\<open>row.extra or {}\<close> without \<^verbatim>\<open>candles\<close> is one error, a missing quote the next; then the arguments of the
  constructor in their order, and what pydantic refuses the last.
\<close>

definition snapshot_row_to_pydantic :: "text_lib \<Rightarrow> snapshot_row \<Rightarrow> market_snapshot result" where
  "snapshot_row_to_pydantic tx row =
     (case sx_extra row of
        None \<Rightarrow> Inl ValueError
      | Some extra \<Rightarrow>
     (case se_candles extra of
        None \<Rightarrow> Inl ValueError
      | Some (j5, j15, j1, j4) \<Rightarrow>
     (case (sx_bid row, sx_ask row, sx_spread row) of
        (Some bid, Some ask, Some spread) \<Rightarrow>
          bindE (parse_exchange (se_exchange extra)) (\<lambda>venue.
          bindE (parse_decimal (se_spread_percent extra)) (\<lambda>spread_percent.
          bindE (candle_of_json j5) (\<lambda>c5.
          bindE (candle_of_json j15) (\<lambda>c15.
          bindE (candle_of_json j1) (\<lambda>c1.
          bindE (candle_of_json j4) (\<lambda>c4.
          bindE (parse_decimal (se_account_balance_usdt extra)) (\<lambda>balance.
          bindE (tx_parse_instant tx (se_exchange_server_time extra)) (\<lambda>server_time.
          bindE (tx_parse_instant tx (se_local_time extra)) (\<lambda>local_time.
          bindE (parse_freshness (se_data_freshness_status extra)) (\<lambda>freshness.
          bindE (parse_coherence (se_coherence_status extra)) (\<lambda>coherence.
          bindE (case List.find (\<lambda>e. environment_value e = se_environment extra) [PAPER, TESTNET, LIVE] of
                   None \<Rightarrow> Inl ValidationError | Some e \<Rightarrow> Inr e) (\<lambda>env.
            make_snapshot
              \<lparr>ms_snapshot_id = sx_id row, ms_timestamp_utc = sx_timestamp row, ms_exchange = venue,
               ms_environment = env, ms_symbol = sx_symbol row, ms_last_price = sx_close row, ms_bid = bid,
               ms_ask = ask, ms_spread_absolute = spread, ms_spread_percent = spread_percent,
               ms_candles = \<lparr>tf_5m = c5, tf_15m = c15, tf_1h = c1, tf_4h = c4, history_5m = [], history_15m = [],
                             history_1h = [], history_4h = []\<rparr>,
               ms_volume = sx_volume row, ms_volatility = se_volatility extra, ms_funding_rate = sx_funding_rate row,
               ms_open_interest = sx_open_interest row, ms_account_balance_usdt = balance,
               ms_open_positions_count = se_open_positions_count extra,
               ms_active_orders_count = se_active_orders_count extra, ms_latency_ms = se_latency_ms extra,
               ms_exchange_server_time = server_time, ms_local_time = local_time,
               ms_clock_skew_ms = se_clock_skew_ms extra, ms_data_freshness_status = freshness,
               ms_coherence_status = coherence\<rparr>))))))))))))
      | _ \<Rightarrow> Inl ValueError)))"

text \<open>The four queries \<^verbatim>\<open>list_by_symbol_and_range\<close>: a half-open range of time, of one run or of all, oldest first.\<close>

definition in_window :: "snapshot_window \<Rightarrow> string option \<Rightarrow> string \<Rightarrow> string \<Rightarrow> int \<Rightarrow> bool" where
  "in_window w run row_symbol row_run ts \<longleftrightarrow>
     row_symbol = sw_symbol w \<and> sw_period_start w \<le> ts \<and> ts < sw_period_end w
     \<and> (case run of None \<Rightarrow> True | Some r \<Rightarrow> row_run = r)"

definition load_snapshots :: "snapshot_window \<Rightarrow> string option \<Rightarrow> snapshot_row list \<Rightarrow> snapshot_row list" where
  "load_snapshots w run rows =
     sort_key sx_timestamp (filter (\<lambda>r. in_window w run (sx_symbol r) (sx_bot_run_id r) (sx_timestamp r)) rows)"

subsection \<open>The engine\<close>

record replay_step =
  rp_snapshot :: market_snapshot
  rp_quant_signals :: quant_signals_package
  rp_regime :: regime_assessment
  rp_volatility :: volatility_assessment
  rp_decision :: model_decision
  rp_max_loss :: rat
  rp_aggregation :: aggregation_result
  rp_risk_result :: risk_result

text \<open>What a run is given: the libraries and identifiers, the decisions, the configuration and the rates.\<close>

record replay_engine =
  re_math :: math_lib
  re_text :: text_lib
  re_pow15 :: "rat \<Rightarrow> rat"
  re_ids :: "nat \<Rightarrow> string \<times> string"
  re_decide :: "market_snapshot \<Rightarrow> quant_signals_package \<Rightarrow> (model_decision \<times> rat) result"
  re_config :: app_config
  re_rates :: "fee_rates option"

definition replay_risk_inputs ::
    "market_snapshot \<Rightarrow> rat \<times> rat \<Rightarrow> fee_estimate option \<Rightarrow> slippage_estimate option \<Rightarrow> risk_inputs" where
  "replay_risk_inputs s losses fees slip =
     \<lparr>ri_daily_loss_usdt = fst losses, ri_total_loss_usdt = snd losses, ri_last_trade_pnl_usdt = None,
      ri_last_trade_margin_usdt = None, ri_open_position_unrealized_pnl_usdt = None,
      ri_funding_rate = ms_funding_rate s, ri_open_positions_count = Some (ms_open_positions_count s),
      ri_fee_estimate = fees, ri_slippage_estimate = slip, ri_last_account_trade_pnl_usdt = None,
      ri_last_account_trade_leverage = None\<rparr>"

definition replay_estimates ::
    "replay_engine \<Rightarrow> fee_rates \<Rightarrow> market_snapshot \<Rightarrow> model_decision
      \<Rightarrow> (slippage_estimate option \<times> fee_estimate option) result" where
  "replay_estimates e rates s d =
     (if is_estimable d
      then bindE (estimate_for_decision s d (dec_of_float (md_margin_usdt d)) (md_leverage d)
                    (impact_bps (cfg_slippage (re_config e)))) (\<lambda>slip.
           bindE (estimate_fees_for_decision d (dec_of_float (md_margin_usdt d)) (md_leverage d) rates) (\<lambda>fees.
             Inr (Some slip, Some fees)))
      else Inr (None, None))"

definition replay_row :: "replay_engine \<Rightarrow> fee_rates \<Rightarrow> nat \<Rightarrow> snapshot_row \<Rightarrow> rat \<times> rat \<Rightarrow> replay_step result" where
  "replay_row e rates i row losses =
     bindE (snapshot_row_to_pydantic (re_text e) row) (\<lambda>s.
     bindE (analyse (re_math e) s) (\<lambda>(quant, regime, vol).
     bindE (re_decide e s quant) (\<lambda>(d, max_loss).
     bindE (aggregate (re_pow15 e) (fst (re_ids e i)) d quant (ra_primary_regime regime) (vo_volatility_score vol)) (\<lambda>agg.
     bindE (replay_estimates e rates s d) (\<lambda>(slip, fees).
     bindE (risk_validate (snd (re_ids e i)) agg d (replay_risk_inputs s losses fees slip) (re_config e)) (\<lambda>risk.
       Inr \<lparr>rp_snapshot = s, rp_quant_signals = quant, rp_regime = regime, rp_volatility = vol, rp_decision = d,
            rp_max_loss = max_loss, rp_aggregation = agg, rp_risk_result = risk\<rparr>))))))"

text \<open>The losses that the next step is checked against: an approved trade is taken to lose all it may.\<close>

definition add_step_loss :: "replay_step \<Rightarrow> rat \<times> rat \<Rightarrow> rat \<times> rat" where
  "add_step_loss st losses =
     (if executable (rp_risk_result st)
      then (dadd (fst losses) (dec_of_float (rp_max_loss st)), dadd (snd losses) (dec_of_float (rp_max_loss st)))
      else losses)"

fun replay_rows :: "replay_engine \<Rightarrow> fee_rates \<Rightarrow> nat \<Rightarrow> snapshot_row list \<Rightarrow> rat \<times> rat \<Rightarrow> replay_step list result" where
  "replay_rows e rates i [] losses = Inr []"
| "replay_rows e rates i (row # rows) losses =
     bindE (replay_row e rates i row losses) (\<lambda>st.
     bindE (replay_rows e rates (Suc i) rows (add_step_loss st losses)) (\<lambda>rest. Inr (st # rest)))"

definition replay_run ::
    "replay_engine \<Rightarrow> snapshot_window \<Rightarrow> string option \<Rightarrow> rat \<times> rat \<Rightarrow> snapshot_row list \<Rightarrow> replay_step list result" where
  "replay_run e w run losses table =
     bindE (case re_rates e of Some r \<Rightarrow> Inr r | None \<Rightarrow> fee_model_rates fee_model_default) (\<lambda>rates.
       replay_rows e rates 0 (load_snapshots w run table) losses)"

subsection \<open>Metrics\<close>

definition SIGNAL_THRESHOLD :: rat where "SIGNAL_THRESHOLD = 1/2"

record replay_metrics =
  mt_total_steps :: nat
  mt_executed_steps :: nat
  mt_signals_activated :: nat
  mt_directional_wins :: nat
  mt_comparable_executed_steps :: nat
  mt_win_rate :: "rat option"
  mt_max_drawdown :: rat

definition step_executed :: "replay_step \<Rightarrow> bool" where
  "step_executed st \<longleftrightarrow>
     md_execute (rp_decision st) \<and> md_decision (rp_decision st) \<noteq> NO_OPERAR \<and> executable (rp_risk_result st)"

definition step_wins :: "replay_step \<Rightarrow> replay_step \<Rightarrow> bool" where
  "step_wins st following =
     (let next_price = ms_last_price (rp_snapshot following); entry = dec_of_float (md_entry_price (rp_decision st))
      in case md_decision (rp_decision st) of
           LONG \<Rightarrow> entry < next_price | SHORT \<Rightarrow> next_price < entry | NO_OPERAR \<Rightarrow> False)"

fun count_steps :: "replay_step list \<Rightarrow> replay_metrics \<Rightarrow> replay_metrics" where
  "count_steps [] m = m"
| "count_steps (st # rest) m =
     (let m = (if SIGNAL_THRESHOLD < cs_quant_score (ag_contributing_sources (rp_aggregation st))
               then m\<lparr>mt_signals_activated := Suc (mt_signals_activated m)\<rparr> else m);
          m = (if \<not> step_executed st then m
               else let m = m\<lparr>mt_executed_steps := Suc (mt_executed_steps m)\<rparr>
                    in case rest of
                         [] \<Rightarrow> m
                       | following # _ \<Rightarrow>
                           let m = m\<lparr>mt_comparable_executed_steps := Suc (mt_comparable_executed_steps m)\<rparr>
                           in if step_wins st following then m\<lparr>mt_directional_wins := Suc (mt_directional_wins m)\<rparr> else m)
      in count_steps rest m)"

fun drawdown_from :: "rat \<Rightarrow> rat \<Rightarrow> rat list \<Rightarrow> rat" where
  "drawdown_from peak max_dd [] = max_dd"
| "drawdown_from peak max_dd (score # scores) =
     (if peak < score then drawdown_from score max_dd scores
      else if 0 < peak then
        (let dd = fdiv (fsub peak score) peak in drawdown_from peak (if max_dd < dd then dd else max_dd) scores)
      else drawdown_from peak max_dd scores)"

definition compute_max_drawdown :: "rat list \<Rightarrow> rat" where
  "compute_max_drawdown scores =
     (case scores of [] \<Rightarrow> 0 | [s] \<Rightarrow> 0 | peak # rest \<Rightarrow> drawdown_from peak 0 rest)"

definition no_metrics :: replay_metrics where
  "no_metrics = \<lparr>mt_total_steps = 0, mt_executed_steps = 0, mt_signals_activated = 0, mt_directional_wins = 0,
     mt_comparable_executed_steps = 0, mt_win_rate = None, mt_max_drawdown = 0\<rparr>"

definition compute_replay_metrics :: "replay_step list \<Rightarrow> replay_metrics" where
  "compute_replay_metrics results =
     (if results = [] then no_metrics
      else let m = count_steps results no_metrics
           in m\<lparr>mt_total_steps := length results,
                mt_win_rate := (if 0 < mt_comparable_executed_steps m
                  then Some (fdiv (of_nat (mt_directional_wins m)) (of_nat (mt_comparable_executed_steps m))) else None),
                mt_max_drawdown := compute_max_drawdown (map (\<lambda>st. ag_aggregated_score (rp_aggregation st)) results)\<rparr>)"

end
