(* ===== verification/ReplayReport.thy ===== *)
theory ReplayReport
  imports Replay DecisionAudit
begin

text \<open>
  What a replay leaves behind: the rows of a persisted run (\<^verbatim>\<open>replay/persistence.py\<close> and \<^verbatim>\<open>run_and_persist\<close>) and the
  report that compares it with the decisions on file (\<^verbatim>\<open>replay/comparison.py\<close>). The JSON columns hold the values
  that were dumped into them. Rows of the audit tables are paired with their time stamps.
\<close>

subsection \<open>Persistence\<close>

record replay_run_row =
  rw_id :: string
  rw_bot_run_id :: string
  rw_symbol :: symbol
  rw_period_start :: int
  rw_period_end :: int
  rw_status :: string
  rw_ended_at :: "int option"
  rw_total_snapshots :: "nat option"

record replay_snapshot_row =
  rz_replay_run_id :: string
  rz_sequence_num :: nat
  rz_market_snapshot :: market_snapshot
  rz_decision :: model_decision
  rz_risk_validation :: risk_result

record performance_row =
  pw_bot_run_id :: string
  pw_symbol :: symbol
  pw_total_trades :: nat
  pw_winning_trades :: nat
  pw_losing_trades :: nat
  pw_win_rate :: "rat option"
  pw_max_drawdown :: rat
  pw_period_start :: int
  pw_period_end :: int

record replay_db =
  rd_runs :: "replay_run_row list"
  rd_snapshots :: "replay_snapshot_row list"
  rd_performance :: "performance_row list"

definition open_run :: "string \<Rightarrow> snapshot_window \<Rightarrow> string \<Rightarrow> replay_db \<Rightarrow> replay_db" where
  "open_run rid w bot_run w0 =
     w0\<lparr>rd_runs := rd_runs w0 @
       [\<lparr>rw_id = rid, rw_bot_run_id = bot_run, rw_symbol = sw_symbol w, rw_period_start = sw_period_start w,
         rw_period_end = sw_period_end w, rw_status = ''RUNNING'', rw_ended_at = None, rw_total_snapshots = None\<rparr>]\<rparr>"

definition update_run :: "string \<Rightarrow> (replay_run_row \<Rightarrow> replay_run_row) \<Rightarrow> replay_db \<Rightarrow> replay_db" where
  "update_run rid f w = w\<lparr>rd_runs := map (\<lambda>r. if rw_id r = rid then f r else r) (rd_runs w)\<rparr>"

definition save_step :: "string \<Rightarrow> nat \<Rightarrow> replay_step \<Rightarrow> replay_db \<Rightarrow> replay_db" where
  "save_step rid n st w =
     w\<lparr>rd_snapshots := rd_snapshots w @
       [\<lparr>rz_replay_run_id = rid, rz_sequence_num = n, rz_market_snapshot = rp_snapshot st, rz_decision = rp_decision st,
         rz_risk_validation = rp_risk_result st\<rparr>]\<rparr>"

definition performance_of :: "replay_metrics \<Rightarrow> string \<Rightarrow> snapshot_window \<Rightarrow> performance_row" where
  "performance_of m bot_run w =
     \<lparr>pw_bot_run_id = bot_run, pw_symbol = sw_symbol w, pw_total_trades = mt_executed_steps m,
      pw_winning_trades = mt_directional_wins m,
      pw_losing_trades = nat (max 0 (int (mt_comparable_executed_steps m) - int (mt_directional_wins m))),
      pw_win_rate = mt_win_rate m, pw_max_drawdown = mt_max_drawdown m, pw_period_start = sw_period_start w,
      pw_period_end = sw_period_end w\<rparr>"

definition close_replay_run :: "int \<Rightarrow> string \<Rightarrow> replay_metrics \<Rightarrow> string \<Rightarrow> snapshot_window \<Rightarrow> replay_db \<Rightarrow> replay_db" where
  "close_replay_run now rid m bot_run w db =
     (let db = update_run rid (\<lambda>r. r\<lparr>rw_status := ''COMPLETED'', rw_ended_at := Some now,
                                   rw_total_snapshots := Some (mt_total_steps m)\<rparr>) db
      in db\<lparr>rd_performance := rd_performance db @ [performance_of m bot_run w]\<rparr>)"

definition fail_replay_run :: "int \<Rightarrow> string \<Rightarrow> replay_db \<Rightarrow> replay_db" where
  "fail_replay_run now rid db = update_run rid (\<lambda>r. r\<lparr>rw_status := ''FAILED'', rw_ended_at := Some now\<rparr>) db"

text \<open>Which flushes of the session succeed: the opening of the run, its steps in their order, its closing and its failing.
  A failed flush rolls the transaction back and the session then refuses every further flush, so \<^verbatim>\<open>fail_run\<close> raises,
  which is swallowed, and the tables are as they were.\<close>

record replay_flushes =
  rq_open_ok :: bool
  rq_step_ok :: "nat \<Rightarrow> bool"
  rq_close_ok :: bool
  rq_fail_ok :: bool

fun save_steps :: "replay_flushes \<Rightarrow> string \<Rightarrow> nat \<Rightarrow> replay_step list \<Rightarrow> replay_db \<Rightarrow> replay_db option" where
  "save_steps fls rid n [] db = Some db"
| "save_steps fls rid n (st # rest) db =
     (if \<not> rq_step_ok fls n then None else save_steps fls rid (Suc n) rest (save_step rid n st db))"

definition replay_and_persist ::
    "replay_flushes \<Rightarrow> int \<Rightarrow> string \<Rightarrow> replay_engine \<Rightarrow> snapshot_window \<Rightarrow> string \<Rightarrow> rat \<times> rat \<Rightarrow> snapshot_row list
      \<Rightarrow> replay_db \<Rightarrow> (replay_step list \<times> replay_metrics) result \<times> replay_db" where
  "replay_and_persist fls now rid e w bot_run losses table before =
     (if \<not> rq_open_ok fls then (Inl SQLAlchemyError, before)
      else let db = open_run rid w bot_run before
      in case replay_run (e\<lparr>re_rates := None\<rparr>) w (Some bot_run) losses table of
           Inl err \<Rightarrow> (Inl err, if rq_fail_ok fls then fail_replay_run now rid db else before)
         | Inr results \<Rightarrow>
             (case save_steps fls rid 0 results db of
                None \<Rightarrow> (Inl SQLAlchemyError, before)
              | Some db \<Rightarrow>
                  let m = compute_replay_metrics results
                  in if rq_close_ok fls then (Inr (results, m), close_replay_run now rid m bot_run w db)
                     else (Inl SQLAlchemyError, before)))"

subsection \<open>Comparison with the past\<close>

definition MATCH_TOLERANCE :: int where "MATCH_TOLERANCE = 300 * 1000000"

text \<open>The first of the nearest records; the search starts one second above the tolerance.\<close>

definition find_nearest :: "(int \<times> 'r) list \<Rightarrow> int \<Rightarrow> 'r option" where
  "find_nearest records target =
     snd (foldl (\<lambda>(best_delta, best) (ts, r). if \<bar>ts - target\<bar> < best_delta then (\<bar>ts - target\<bar>, Some r) else (best_delta, best))
            (MATCH_TOLERANCE + 1000000, None) records)"

definition list_by_symbol_and_range ::
    "('r \<Rightarrow> string) \<Rightarrow> ('r \<Rightarrow> string) \<Rightarrow> snapshot_window \<Rightarrow> string option \<Rightarrow> (int \<times> 'r) list \<Rightarrow> (int \<times> 'r) list" where
  "list_by_symbol_and_range symbol_of run_of w run rows =
     sort_key fst (filter (\<lambda>(ts, r). in_window w run (symbol_of r) (run_of r) ts) rows)"

text \<open>A value of a report: a text, or a score, which \<^verbatim>\<open>_fmt\<close> writes with six decimals.\<close>

datatype report_value = Report_text string | Report_score rat

definition pad6 :: "nat \<Rightarrow> string" where
  "pad6 n = replicate (6 - length (nat_text n)) CHR ''0'' @ nat_text n"

definition fmt_score :: "rat \<Rightarrow> string" where
  "fmt_score x =
     (let n = nat \<bar>rhe (x * 10 ^ 6)\<bar>
      in (if x < 0 then ''-'' else []) @ nat_text (n div 10 ^ 6) @ ''.'' @ pad6 (n mod 10 ^ 6))"

definition fmt :: "report_value option \<Rightarrow> string option" where
  "fmt v = (case v of None \<Rightarrow> None | Some (Report_text s) \<Rightarrow> Some s | Some (Report_score x) \<Rightarrow> Some (fmt_score x))"

record field_delta =
  fd_field :: string
  fd_entonces :: "string option"
  fd_ahora :: "string option"
  fd_changed :: bool

definition field_changed :: "report_value option \<Rightarrow> report_value option \<Rightarrow> bool" where
  "field_changed entonces ahora =
     (case (entonces, ahora) of
        (Some (Report_score x), Some (Report_score y)) \<Rightarrow> fl (1 / 1000000) < \<bar>fsub x y\<bar>
      | _ \<Rightarrow> fmt entonces \<noteq> fmt ahora)"

definition field_delta_of :: "string \<times> report_value option \<times> report_value option \<Rightarrow> field_delta" where
  "field_delta_of p =
     (case p of (field, entonces, ahora) \<Rightarrow>
        \<lparr>fd_field = field, fd_entonces = fmt entonces, fd_ahora = fmt ahora, fd_changed = field_changed entonces ahora\<rparr>)"

record historical_values =
  hv_action :: "string option"
  hv_final_action :: "string option"
  hv_aggregated_score :: "rat option"
  hv_risk_result :: "string option"

definition build_deltas :: "historical_values \<Rightarrow> replay_step \<Rightarrow> field_delta list" where
  "build_deltas h st =
     map field_delta_of
       [(''action'', map_option Report_text (hv_action h), Some (Report_text (direction_value (md_decision (rp_decision st))))),
        (''final_action'', map_option Report_text (hv_final_action h),
           Some (Report_text (direction_value (ag_final_action (rp_aggregation st))))),
        (''aggregated_score'', map_option Report_score (hv_aggregated_score h),
           Some (Report_score (ag_aggregated_score (rp_aggregation st)))),
        (''risk_result'', map_option Report_text (hv_risk_result h),
           Some (Report_text (risk_decision_value (rv_decision (rp_risk_result st)))))]"

record comparison_step =
  cp_snapshot_id :: string
  cp_snapshot_timestamp :: int
  cp_historical :: historical_values
  cp_historical_missing :: bool
  cp_deltas :: "field_delta list"
  cp_any_changed :: bool

record comparison_report =
  ce_window :: snapshot_window
  ce_bot_run_id :: "string option"
  ce_total_steps :: nat
  ce_changed_steps :: nat
  ce_missing_steps :: nat
  ce_change_rate :: rat
  ce_steps :: "comparison_step list"

text \<open>The audit tables the comparator reads, with the time of each row.\<close>

record audit_tables =
  at_decisions :: "(int \<times> decision_row) list"
  at_aggregations :: "(int \<times> aggregation_row) list"
  at_validations :: "(int \<times> validation_row) list"

definition compare_step :: "audit_tables \<Rightarrow> replay_step \<Rightarrow> comparison_step" where
  "compare_step a st =
     (let ts = ms_timestamp_utc (rp_snapshot st);
          hist_decision = find_nearest (at_decisions a) ts;
          hist_aggregation = find_nearest (at_aggregations a) ts;
          hist_risk = find_nearest (at_validations a) ts;
          missing = (hist_decision = None \<and> hist_aggregation = None);
          h = \<lparr>hv_action = map_option dn_action hist_decision, hv_final_action = map_option gn_final_action hist_aggregation,
               hv_aggregated_score = Option.bind hist_aggregation gn_aggregated_score,
               hv_risk_result = map_option vn_result hist_risk\<rparr>;
          deltas = build_deltas h st
      in \<lparr>cp_snapshot_id = ms_snapshot_id (rp_snapshot st), cp_snapshot_timestamp = ts, cp_historical = h,
          cp_historical_missing = missing, cp_deltas = deltas,
          cp_any_changed = (\<not> missing \<and> list_ex fd_changed deltas)\<rparr>)"

definition report_of :: "snapshot_window \<Rightarrow> string option \<Rightarrow> comparison_step list \<Rightarrow> comparison_report" where
  "report_of w run steps =
     (let missing = length (filter cp_historical_missing steps);
          changed = length (filter (\<lambda>s. \<not> cp_historical_missing s \<and> cp_any_changed s) steps);
          comparable = length steps - missing
      in \<lparr>ce_window = w, ce_bot_run_id = run, ce_total_steps = length steps, ce_changed_steps = changed,
          ce_missing_steps = missing, ce_change_rate = (if 0 < comparable then fdiv (of_nat changed) (of_nat comparable) else 0),
          ce_steps = steps\<rparr>)"

definition historical_tables :: "snapshot_window \<Rightarrow> string option \<Rightarrow> audit_tables \<Rightarrow> audit_tables" where
  "historical_tables w run a =
     \<lparr>at_decisions = list_by_symbol_and_range dn_symbol dn_bot_run_id w run (at_decisions a),
      at_aggregations = list_by_symbol_and_range gn_symbol gn_bot_run_id w run (at_aggregations a),
      at_validations = list_by_symbol_and_range vn_symbol vn_bot_run_id w run (at_validations a)\<rparr>"

definition compare_window ::
    "replay_engine \<Rightarrow> snapshot_window \<Rightarrow> string option \<Rightarrow> rat \<times> rat \<Rightarrow> snapshot_row list \<Rightarrow> audit_tables
      \<Rightarrow> comparison_report result" where
  "compare_window e w run losses table a =
     bindE (replay_run (e\<lparr>re_rates := None\<rparr>) w run losses table) (\<lambda>steps.
       Inr (report_of w run (map (compare_step (historical_tables w run a)) steps)))"

end
