(* ===== verification/ReplayProperties.thy ===== *)
theory ReplayProperties
  imports ReplayReport Samples
begin

text \<open>What holds of the historical replay: snapshots read back, steps depend on the past only, and what its report counts.\<close>

subsection \<open>A stored snapshot reads back\<close>

definition without_history :: "candles \<Rightarrow> candles" where
  "without_history c = c\<lparr>history_5m := [], history_15m := [], history_1h := [], history_4h := []\<rparr>"

definition candles_ok :: "candles \<Rightarrow> bool" where
  "candles_ok c \<longleftrightarrow> list_all (\<lambda>x. make_candle x = Inr x) [tf_5m c, tf_15m c, tf_1h c, tf_4h c]"

lemma make_snapshot_candles:
  "make_snapshot s = Inr s \<Longrightarrow> make_snapshot (s\<lparr>ms_candles := c\<rparr>) = Inr (s\<lparr>ms_candles := c\<rparr>)"
  by (auto simp: make_snapshot_def snapshot_fields_def prices_coherent_def Let_def split: if_splits)

text \<open>
  What the write needs. A column \<^verbatim>\<open>Numeric(20, 8)\<close> keeps a value of at most twelve digits before the point and
  eight after it; the text of a decimal is parsed back to it, and that of an instant too.
\<close>

definition eight_decimals :: "rat \<Rightarrow> bool" where
  "eight_decimals x \<longleftrightarrow> \<bar>x\<bar> < 10 ^ 12 \<and> of_int \<lfloor>x * 10 ^ 8\<rfloor> = x * 10 ^ 8"

definition snapshot_columns :: "market_snapshot \<Rightarrow> rat list" where
  "snapshot_columns s =
     (let e = tf_5m (ms_candles s) in
      [cd_open e, cd_high e, cd_low e, ms_last_price s, ms_volume s, ms_bid s, ms_ask s, ms_spread_absolute s]
      @ (case ms_open_interest s of None \<Rightarrow> [] | Some x \<Rightarrow> [x]))"

definition candle_decimals :: "candle_data \<Rightarrow> rat list" where
  "candle_decimals c = [cd_open c, cd_high c, cd_low c, cd_close c, cd_volume c]"

definition snapshot_texts :: "market_snapshot \<Rightarrow> rat list" where
  "snapshot_texts s =
     (let c = ms_candles s in
      [ms_spread_percent s, ms_account_balance_usdt s]
      @ concat (map candle_decimals [tf_5m c, tf_15m c, tf_1h c, tf_4h c]))"

definition texts_read_back :: "text_lib \<Rightarrow> market_snapshot \<Rightarrow> bool" where
  "texts_read_back tx s \<longleftrightarrow>
     list_all (\<lambda>x. parse_decimal (tx_decimal tx x) = Inr x) (snapshot_texts s)
     \<and> list_all (\<lambda>t. tx_parse_instant tx (tx_instant tx t) = Inr t) [ms_exchange_server_time s, ms_local_time s]"

lemma candle_reads_back:
  assumes "list_all (\<lambda>x. parse_decimal (tx_decimal tx x) = Inr x) (candle_decimals c)"
  shows "candle_of_json (dump_candle tx c) = make_candle c"
  using assms by (cases c) (simp add: candle_of_json_def dump_candle_def decimal_field_def candle_decimals_def)

lemma environment_reads_back:
  "List.find (\<lambda>e. environment_value e = environment_value x) [PAPER, TESTNET, LIVE] = Some x"
  by (cases x) simp_all

text \<open>The table keeps a row whose columns have at most eight decimals.\<close>

lemma store_row_exact:
  assumes "\<And>x. eight_decimals x \<Longrightarrow> numeric x = Inr x" "list_all eight_decimals (snapshot_columns s)"
  shows "store_row numeric (snapshot_to_row tx run s) = Inr (snapshot_to_row tx run s)"
proof -
  have "numeric_option numeric (ms_open_interest s) = Inr (ms_open_interest s)"
    using assms by (auto simp: numeric_option_def snapshot_columns_def Let_def split: option.splits)
  then show ?thesis
    using assms by (simp add: store_row_def snapshot_to_row_def snapshot_columns_def numeric_option_def Let_def)
qed

text \<open>
  C26. A stored snapshot reads back. Given a table whose \<^verbatim>\<open>Numeric(20, 8)\<close> columns keep the values that fit them, a
  snapshot whose nine columns have at most eight decimals, and texts that are parsed to what was printed, the row
  that \<^verbatim>\<open>to_db_kwargs\<close> makes is stored and rebuilt to the snapshot with its exchange, its clocks and its statuses,
  but for the histories of its candles, which have no column: the replay sees none of the past candles.
\<close>

theorem stored_snapshot_reads_back:
  assumes "make_snapshot s = Inr s" "candles_ok (ms_candles s)"
    and "\<And>x. eight_decimals x \<Longrightarrow> numeric x = Inr x" "list_all eight_decimals (snapshot_columns s)"
    and "texts_read_back tx s"
  shows "bindE (store_row numeric (snapshot_to_row tx run s)) (snapshot_row_to_pydantic tx)
    = Inr (s\<lparr>ms_candles := without_history (ms_candles s)\<rparr>)"
proof -
  have c: "\<lparr>tf_5m = tf_5m c, tf_15m = tf_15m c, tf_1h = tf_1h c, tf_4h = tf_4h c, history_5m = [], history_15m = [],
      history_1h = [], history_4h = []\<rparr> = without_history c" for c :: candles
    by (simp add: without_history_def)
  have t: "candle_of_json (dump_candle tx x) = Inr x"
    if "x \<in> {tf_5m (ms_candles s), tf_15m (ms_candles s), tf_1h (ms_candles s), tf_4h (ms_candles s)}" for x
    using that assms(2,5) candle_reads_back [of tx x]
    by (auto simp: texts_read_back_def snapshot_texts_def Let_def candles_ok_def)
  have "snapshot_row_to_pydantic tx (snapshot_to_row tx run s)
      = make_snapshot (s\<lparr>ms_candles := without_history (ms_candles s)\<rparr>)"
    using assms(5) t
    by (cases s) (simp add: snapshot_row_to_pydantic_def snapshot_to_row_def Let_def texts_read_back_def
        snapshot_texts_def environment_reads_back c del: List.find.simps)
  then show ?thesis
    using make_snapshot_candles [OF assms(1)] store_row_exact [OF assms(3,4)] by simp
qed

subsection \<open>Runs\<close>

lemma replay_rows_append:
  "replay_rows e rates i (xs @ ys) losses = Inr rs \<Longrightarrow>
     \<exists>rs1 rs2. rs = rs1 @ rs2 \<and> replay_rows e rates i xs losses = Inr rs1 \<and> length rs1 = length xs
       \<and> replay_rows e rates (i + length xs) ys (foldl (\<lambda>l st. add_step_loss st l) losses rs1) = Inr rs2"
proof (induction xs arbitrary: i losses rs)
  case (Cons x xs)
  then obtain st rest where st: "replay_row e rates i x losses = Inr st"
    and rest: "replay_rows e rates (Suc i) (xs @ ys) (add_step_loss st losses) = Inr rest" "rs = st # rest"
    by (auto simp: bindE_Inr_iff)
  from Cons.IH [OF rest(1)] obtain rs1 rs2 where "rest = rs1 @ rs2"
    "replay_rows e rates (Suc i) xs (add_step_loss st losses) = Inr rs1" "length rs1 = length xs"
    "replay_rows e rates (Suc i + length xs) ys (foldl (\<lambda>l st. add_step_loss st l) (add_step_loss st losses) rs1) = Inr rs2"
    by blast
  with st rest(2) show ?case by (intro exI [of _ "st # rs1"] exI [of _ rs2]) (simp add: bindE_def)
qed simp

lemma replay_rows_length: "replay_rows e rates i rows losses = Inr rs \<Longrightarrow> length rs = length rows"
  using replay_rows_append [of e rates i rows "[]" losses rs] by auto

lemma risk_validate_losses:
  "risk_validate i agg d ri config = Inr r \<Longrightarrow> rv_daily_loss_at_check_usdt r = ri_daily_loss_usdt ri
     \<and> rv_total_loss_at_check_usdt r = ri_total_loss_usdt ri"
  by (auto simp: risk_validate_def Let_def bindE_Inr_iff risk_result_of_def dest!: make_risk_result_Inr split: if_splits)

lemma replay_row_risk:
  "replay_row e rates i row losses = Inr st \<Longrightarrow> snapshot_row_to_pydantic (re_text e) row = Inr (rp_snapshot st) \<and>
     (\<exists>ri. risk_validate (snd (re_ids e i)) (rp_aggregation st) (rp_decision st) ri (re_config e) = Inr (rp_risk_result st)
       \<and> ri_daily_loss_usdt ri = fst losses \<and> ri_total_loss_usdt ri = snd losses)"
  by (auto simp: replay_row_def bindE_Inr_iff replay_risk_inputs_def split: prod.splits)

lemma replay_rows_nth:
  assumes "replay_rows e rates 0 rows losses = Inr rs" "k < length rs"
  shows "replay_row e rates k (rows ! k) (foldl (\<lambda>l st. add_step_loss st l) losses (take k rs)) = Inr (rs ! k)"
proof -
  have k: "k < length rows" using assms replay_rows_length by metis
  then have "rows = take k rows @ rows ! k # drop (Suc k) rows" by (rule id_take_nth_drop)
  with assms(1) have "replay_rows e rates 0 (take k rows @ rows ! k # drop (Suc k) rows) losses = Inr rs" by simp
  from replay_rows_append [OF this] k obtain rs1 rs2 where r: "rs = rs1 @ rs2" "length rs1 = k"
    "replay_rows e rates k (rows ! k # drop (Suc k) rows) (foldl (\<lambda>l st. add_step_loss st l) losses rs1) = Inr rs2"
    by auto
  then obtain st rest where "rs2 = st # rest"
    "replay_row e rates k (rows ! k) (foldl (\<lambda>l st. add_step_loss st l) losses rs1) = Inr st"
    by (auto simp: bindE_Inr_iff)
  with r show ?thesis by (simp add: nth_append)
qed

lemma replay_run_rows:
  "replay_run e w run losses table = Inr rs \<Longrightarrow> \<exists>rates. replay_rows e rates 0 (load_snapshots w run table) losses = Inr rs"
  by (auto simp: replay_run_def bindE_Inr_iff)

lemma step_losses_of:
  assumes "replay_rows e rates 0 rows losses = Inr rs" "k < length rs"
  shows "rv_daily_loss_at_check_usdt (rp_risk_result (rs ! k))
      = fst (foldl (\<lambda>l st. add_step_loss st l) losses (take k rs))"
    "rv_total_loss_at_check_usdt (rp_risk_result (rs ! k))
      = snd (foldl (\<lambda>l st. add_step_loss st l) losses (take k rs))"
  using replay_row_risk [OF replay_rows_nth [OF assms]] risk_validate_losses by fastforce+

text \<open>C24. A replay is causal: there is one step for each stored snapshot of the window, in the order of time; a step is
  checked against the losses it started with plus what every approved trade before it could lose, on whatever day.\<close>

theorem replay_is_causal:
  assumes "replay_run e w run losses table = Inr steps" "k < length steps"
  shows "length steps = length (load_snapshots w run table) \<and> sorted (map sx_timestamp (load_snapshots w run table))
    \<and> snapshot_row_to_pydantic (re_text e) (load_snapshots w run table ! k) = Inr (rp_snapshot (steps ! k))
    \<and> rv_daily_loss_at_check_usdt (rp_risk_result (steps ! k))
      = foldl dadd (fst losses) (map (\<lambda>st. dec_of_float (rp_max_loss st)) (filter (executable \<circ> rp_risk_result) (take k steps)))
    \<and> rv_total_loss_at_check_usdt (rp_risk_result (steps ! k))
      = foldl dadd (snd losses) (map (\<lambda>st. dec_of_float (rp_max_loss st)) (filter (executable \<circ> rp_risk_result) (take k steps)))"
proof -
  obtain rates where rows: "replay_rows e rates 0 (load_snapshots w run table) losses = Inr steps"
    using replay_run_rows [OF assms(1)] by blast
  have fold: "foldl (\<lambda>l st. add_step_loss st l) l sts
      = (foldl dadd (fst l) (map (\<lambda>st. dec_of_float (rp_max_loss st)) (filter (executable \<circ> rp_risk_result) sts)),
         foldl dadd (snd l) (map (\<lambda>st. dec_of_float (rp_max_loss st)) (filter (executable \<circ> rp_risk_result) sts)))" for l sts
    by (induction sts arbitrary: l) (simp_all add: add_step_loss_def)
  note row = replay_rows_nth [OF rows assms(2)]
  have "sorted (map sx_timestamp (load_snapshots w run table))" by (simp add: load_snapshots_def)
  then show ?thesis
    using replay_row_risk [OF row] risk_validate_losses replay_rows_length [OF rows] unfolding fold by fastforce
qed


subsection \<open>A replay of two snapshots\<close>

definition replay_candle :: candle_data where
  "replay_candle = \<lparr>cd_open = 1024, cd_high = 1024, cd_low = 1024, cd_close = 1024, cd_volume = 8, cd_n_candles = 8\<rparr>"

definition snapshot_at :: "string \<Rightarrow> int \<Rightarrow> market_snapshot" where
  "snapshot_at sid now =
     \<lparr>ms_snapshot_id = sid, ms_timestamp_utc = now, ms_exchange = EXCHANGE_PAPER, ms_environment = PAPER,
      ms_symbol = ''BTCUSDT'', ms_last_price = 1024, ms_bid = 1024, ms_ask = 1025, ms_spread_absolute = 1,
      ms_spread_percent = 25 / 256,
      ms_candles = \<lparr>tf_5m = replay_candle, tf_15m = replay_candle, tf_1h = replay_candle, tf_4h = replay_candle,
        history_5m = [], history_15m = [], history_1h = [], history_4h = []\<rparr>,
      ms_volume = 8, ms_volatility = None, ms_funding_rate = Some 0, ms_open_interest = None,
      ms_account_balance_usdt = 16, ms_open_positions_count = 0, ms_active_orders_count = 0, ms_latency_ms = 1,
      ms_exchange_server_time = 0, ms_local_time = 0, ms_clock_skew_ms = 0,
      ms_data_freshness_status = FRESH, ms_coherence_status = OK\<rparr>"

definition other_id :: string where
  "other_id = ''87654321-4321-4321-4321-210987654321''"

definition replay_snapshot :: market_snapshot where
  "replay_snapshot = snapshot_at sample_id 1000000"

definition later_snapshot :: market_snapshot where
  "later_snapshot = snapshot_at other_id 1500000"

text \<open>Texts of the values that occur, and a table that rounds half away from zero to eight decimals.\<close>

definition sample_text :: text_lib where
  "sample_text = \<lparr>tx_decimal = (\<lambda>x. if x = 1024 then ''1024'' else if x = 16 then ''16'' else if x = 8 then ''8''
       else ''0.09765625''),
     tx_instant = (\<lambda>t. ''1970-01-01T00:00:00+00:00''), tx_parse_instant = (\<lambda>s. Inr 0)\<rparr>"

definition numeric_20_8 :: "rat \<Rightarrow> rat result" where
  "numeric_20_8 x =
     (let y = of_int (if 0 \<le> x then \<lfloor>x * 10 ^ 8 + 1 / 2\<rfloor> else \<lceil>x * 10 ^ 8 - 1 / 2\<rceil>) / 10 ^ 8
      in if 10 ^ 12 \<le> \<bar>y\<bar> then Inl ValueError else Inr y)"

lemma numeric_20_8_keeps: "eight_decimals x \<Longrightarrow> numeric_20_8 x = Inr x"
proof -
  assume x: "eight_decimals x"
  then obtain n where n: "x * 10 ^ 8 = of_int n" unfolding eight_decimals_def by metis
  have "\<lfloor>of_int n + 1 / 2 :: rat\<rfloor> = n" "\<lceil>of_int n - 1 / 2 :: rat\<rceil> = n" by linarith+
  then have "of_int (if 0 \<le> x then \<lfloor>x * 10 ^ 8 + 1 / 2\<rfloor> else \<lceil>x * 10 ^ 8 - 1 / 2\<rceil>) / 10 ^ 8 = x"
    unfolding n using n by (simp add: field_simps)
  then show ?thesis using x unfolding numeric_20_8_def Let_def by (simp add: eight_decimals_def)
qed

definition replay_math :: math_lib where
  "replay_math = \<lparr>m_tanh = (\<lambda>x. max (- 1) (min 1 x)), m_sqrt = (\<lambda>x. x), m_square = (\<lambda>x. x * x)\<rparr>"

definition low_confidence :: model_decision where
  "low_confidence = sample_decision\<lparr>md_confidence := 1 / 2\<rparr>"

definition replay_sample :: replay_engine where
  "replay_sample = \<lparr>re_math = replay_math, re_text = sample_text, re_pow15 = (\<lambda>x. x * x), re_ids = (\<lambda>_. (sample_id, sample_id)),
     re_decide = (\<lambda>_ _. Inr (low_confidence, 5 / 4)), re_config = sample_config, re_rates = None\<rparr>"

definition replay_rates :: fee_rates where
  "replay_rates = \<lparr>fr_maker = 2 / 10000, fr_taker = 5 / 10000\<rparr>"

definition replay_window :: snapshot_window where
  "replay_window = \<lparr>sw_symbol = ''BTCUSDT'', sw_period_start = 0, sw_period_end = 2000000\<rparr>"

definition flat_signals :: quant_signals_package where
  "flat_signals = \<lparr>qs_momentum_signal = Some 0, qs_mean_reversion_signal = Some 0, qs_breakout_signal = Some 0,
     qs_funding_signal = Some 0, qs_open_interest_signal = Some 0, qs_order_flow_imbalance_signal = Some 0,
     qs_liquidity_sweep_signal = Some 0, qs_signal_strength_score = None, qs_signal_conflict_score = None\<rparr>"

lemma replay_snapshot_ok: "make_snapshot replay_snapshot = Inr replay_snapshot" "candles_ok (ms_candles replay_snapshot)"
  by code_simp+

lemma replay_momentum: "calculate_momentum replay_math (snapshot_at sid now) = 0"
proof -
  have "roc (candle_of (ms_candles (snapshot_at sid now)) tf) = 0" for tf
    by (cases tf) (simp_all add: roc_def snapshot_at_def replay_candle_def dsub_def ddiv_def)
  then show ?thesis
    by (simp add: calculate_momentum_def replay_math_def weighted_signal_def fsum_def TIMEFRAMES_def clip_def float_ops)
qed

lemma replay_order_flow: "calculate_order_flow_imbalance (snapshot_at sid now) = 0"
proof -
  have "candle_ofi (candle_of (ms_candles (snapshot_at sid now)) tf) = 0" for tf
    by (cases tf) (simp_all add: candle_ofi_def snapshot_at_def replay_candle_def dsub_def)
  then show ?thesis
    by (simp add: calculate_order_flow_imbalance_def weighted_signal_def fsum_def TIMEFRAMES_def clip_def float_ops)
qed

lemma replay_sweeps: "calculate_liquidity_sweeps replay_math (snapshot_at sid now) = 0"
proof -
  have "blended_score replay_math (ms_candles (snapshot_at sid now)) tf = 0" for tf
    using fl_int [of 1024]
    by (cases tf) (simp_all add: blended_score_def proxy_score_def snapshot_at_def replay_candle_def replay_math_def
        wick_metrics_def MIN_HISTORY_LEN_def float_ops Let_def)
  then show ?thesis
    by (simp add: calculate_liquidity_sweeps_def weighted_signal_def fsum_def TIMEFRAMES_def clip_def float_ops)
qed

lemma replay_quant:
  assumes "uuid_valid sid"
  shows "compute_quant_signals replay_math (snapshot_at sid now) = Inr flat_signals"
proof -
  have "compute_mean_reversion_signal replay_math (snapshot_at sid now) = Inr 0" by code_simp
  moreover have "calculate_breakout replay_math (snapshot_at sid now) = Inr 0"
    using fl_int [of 1024] fl_int [of 2048]
    by (simp add: calculate_breakout_def raw_breakout_def snapshot_at_def replay_candle_def replay_math_def float_ops
        clip_def Let_def)
  moreover have "compute_open_interest_signal replay_math (snapshot_at sid now) = Inr 0" by code_simp
  moreover have "compute_funding_signal replay_math (snapshot_at sid now) = 0" by code_simp
  moreover have "make_quant_package (snapshot_at sid now) flat_signals = Inr flat_signals"
    using assms by (simp add: make_quant_package_def snapshot_at_def flat_signals_def signal_in_range_def score_in_range_def
        allowed_symbols_def)
  ultimately show ?thesis
    using replay_momentum replay_order_flow replay_sweeps by (simp add: compute_quant_signals_def flat_signals_def)
qed

lemma replay_analysis:
  assumes "uuid_valid sid" "\<not> isl (compute_volatility_assessment replay_math (snapshot_at sid now))"
  shows "\<exists>regime vol. analyse replay_math (snapshot_at sid now) = Inr (flat_signals, regime, vol)"
proof -
  have "\<exists>regime. assess (snapshot_at sid now) = Inr regime"
    unfolding assess_Inr_iff using assms(1) by (simp add: snapshot_at_def allowed_symbols_def)
  then show ?thesis
    using replay_quant [OF assms(1)] assms(2)
    by (cases "compute_volatility_assessment replay_math (snapshot_at sid now)") (auto simp: analyse_def)
qed

lemma low_confidence_vetoed:
  "\<exists>agg. aggregate (\<lambda>x. x * x) sample_id low_confidence flat_signals regime v = Inr agg
     \<and> ag_final_action agg = NO_OPERAR \<and> ag_aggregation_id agg = ag_aggregation_id sample_aggregation"
proof -
  have f: "unit_interval (md_confidence low_confidence)" "md_decision_id low_confidence = sample_id"
    "md_symbol low_confidence = ''BTCUSDT''" "md_decision low_confidence = LONG"
    by (simp_all add: low_confidence_def sample_decision_def unit_interval_def)
  have q: "compute_quant_score flat_signals = 0" by code_simp
  have u: "unit_interval 0" by (simp add: unit_interval_def)
  have vf: "unit_interval (compute_volatility_factor (\<lambda>x. x * x) v)" by (rule volatility_factor_unit) simp
  have "fl (85/100) \<le> 1" by (rule flt.rd_le [OF fl_1]) simp
  then have rf: "unit_interval (REGIME_FACTOR regime)" using REGIME_FACTOR_bounds [of regime] by (simp add: unit_interval_def)
  have "uuid_valid sample_id" by code_simp
  then obtain agg where agg: "aggregate (\<lambda>x. x * x) sample_id low_confidence flat_signals regime v = Inr agg"
    using f q u vf rf aggregated_score_of_unit [OF u f(1) vf, of regime]
    by (auto simp: aggregate_def Let_def make_contributing_sources_def make_aggregation_result_def allowed_symbols_def)
  have "md_confidence low_confidence < MIN_GPT_CONFIDENCE" by code_simp
  then have "detect_contradictions low_confidence flat_signals \<noteq> []" using no_contradictionD(1) by fastforce
  then have "ag_final_action agg = NO_OPERAR"
    using aggregate_InrD(5) [OF agg] by (simp add: determine_final_action_def)
  with agg aggregate_InrD(3) [OF agg] show ?thesis by (simp add: sample_aggregation_def)
qed

text \<open>The risk engine takes nothing from the aggregation but its identifier.\<close>

lemma risk_validate_aggregation:
  "ag_aggregation_id a = ag_aggregation_id b \<Longrightarrow> risk_validate i a d ri config = risk_validate i b d ri config"
  by (simp add: risk_validate_def)

lemma estimates_case:
  assumes "case e of Inr (slip, fees) \<Rightarrow> (case f slip fees of Inr r \<Rightarrow> P r | _ \<Rightarrow> False) | _ \<Rightarrow> False"
  shows "\<exists>slip fees r. e = Inr (slip, fees) \<and> f slip fees = Inr r \<and> P r"
proof (cases e)
  case (Inr p)
  with assms show ?thesis by (cases p; cases "f (fst p) (snd p)") auto
qed (use assms in simp)

text \<open>The vetoed decision passes the risk engine on either snapshot, with and without the loss of the first.\<close>

definition executable_after :: "rat \<times> rat \<Rightarrow> market_snapshot \<Rightarrow> bool" where
  "executable_after losses s =
     (case replay_estimates replay_sample replay_rates s low_confidence of
        Inr (slip, fees) \<Rightarrow>
          (case risk_validate sample_id sample_aggregation low_confidence (replay_risk_inputs s losses fees slip) sample_config of
             Inr r \<Rightarrow> executable r | _ \<Rightarrow> False)
      | _ \<Rightarrow> False)"

lemma sample_replay_row:
  assumes "snapshot_row_to_pydantic sample_text row = Inr (snapshot_at sid now)" "uuid_valid sid"
    and "\<not> isl (compute_volatility_assessment replay_math (snapshot_at sid now))"
    and "executable_after losses (snapshot_at sid now)"
  shows "\<exists>st. replay_row replay_sample replay_rates k row losses = Inr st
     \<and> rp_snapshot st = snapshot_at sid now \<and> rp_decision st = low_confidence \<and> rp_max_loss st = 5 / 4
     \<and> ag_final_action (rp_aggregation st) = NO_OPERAR \<and> executable (rp_risk_result st)"
proof -
  obtain regime vol where an: "analyse replay_math (snapshot_at sid now) = Inr (flat_signals, regime, vol)"
    using replay_analysis [OF assms(2,3)] by blast
  obtain agg where agg: "aggregate (\<lambda>x. x * x) sample_id low_confidence flat_signals (ra_primary_regime regime)
        (vo_volatility_score vol) = Inr agg"
      "ag_final_action agg = NO_OPERAR" "ag_aggregation_id agg = ag_aggregation_id sample_aggregation"
    using low_confidence_vetoed by blast
  from assms(4) have "\<exists>slip fees r. replay_estimates replay_sample replay_rates (snapshot_at sid now) low_confidence = Inr (slip, fees)
      \<and> risk_validate sample_id sample_aggregation low_confidence
          (replay_risk_inputs (snapshot_at sid now) losses fees slip) sample_config = Inr r \<and> executable r"
    unfolding executable_after_def by (rule estimates_case)
  then obtain slip fees r where e: "replay_estimates replay_sample replay_rates (snapshot_at sid now) low_confidence = Inr (slip, fees)"
    and r: "risk_validate sample_id agg low_confidence (replay_risk_inputs (snapshot_at sid now) losses fees slip)
        sample_config = Inr r" "executable r"
    unfolding risk_validate_aggregation [OF agg(3)] by blast
  show ?thesis
    using assms(1) an agg e r by (auto simp: replay_row_def replay_sample_def)
qed

definition replay_table :: "snapshot_row list" where
  "replay_table = map (snapshot_to_row sample_text ''run'') [later_snapshot, replay_snapshot]"

lemma replay_table_rows:
  "load_snapshots replay_window None replay_table
   = [snapshot_to_row sample_text ''run'' replay_snapshot, snapshot_to_row sample_text ''run'' later_snapshot]"
  by (simp add: replay_table_def load_snapshots_def in_window_def replay_window_def snapshot_to_row_def
      replay_snapshot_def later_snapshot_def snapshot_at_def Let_def)

lemma sample_replay:
  obtains st st' where "replay_run replay_sample replay_window None (0, 0) replay_table = Inr [st, st']"
    "rp_snapshot st = replay_snapshot" "rp_decision st = low_confidence" "rp_max_loss st = 5 / 4"
    "ag_final_action (rp_aggregation st) = NO_OPERAR" "executable (rp_risk_result st)"
proof -
  have s: "snapshot_row_to_pydantic sample_text (snapshot_to_row sample_text ''run'' replay_snapshot)
      = Inr (snapshot_at sample_id 1000000)"
    "snapshot_row_to_pydantic sample_text (snapshot_to_row sample_text ''run'' later_snapshot)
      = Inr (snapshot_at other_id 1500000)"
    by code_simp+
  have u: "uuid_valid sample_id" "uuid_valid other_id"
    "\<not> isl (compute_volatility_assessment replay_math (snapshot_at sample_id 1000000))"
    "\<not> isl (compute_volatility_assessment replay_math (snapshot_at other_id 1500000))"
    by code_simp+
  have x: "executable_after (0, 0) (snapshot_at sample_id 1000000)" by code_simp
  have y: "executable_after (5 / 4, 5 / 4) (snapshot_at other_id 1500000)" by code_simp
  obtain st where st: "replay_row replay_sample replay_rates 0 (snapshot_to_row sample_text ''run'' replay_snapshot) (0, 0) = Inr st"
    "rp_snapshot st = replay_snapshot" "rp_decision st = low_confidence" "rp_max_loss st = 5 / 4"
    "ag_final_action (rp_aggregation st) = NO_OPERAR" "executable (rp_risk_result st)"
    using sample_replay_row [OF s(1) u(1,3) x, of 0] by (auto simp: replay_snapshot_def)
  have "dadd 0 (dec_of_float (rp_max_loss st)) = 5 / 4" unfolding st(4) by code_simp
  then have l: "add_step_loss st (0, 0) = (5 / 4, 5 / 4)" using st(6) unfolding add_step_loss_def Let_def by simp
  obtain st' where st': "replay_row replay_sample replay_rates 1
      (snapshot_to_row sample_text ''run'' later_snapshot) (5 / 4, 5 / 4) = Inr st'"
    using sample_replay_row [OF s(2) u(2,4) y, of 1] by auto
  have "fee_model_rates fee_model_default = Inr replay_rates"
    by (simp add: fee_model_rates_def fee_model_default_def make_fee_rates_def replay_rates_def)
  then have "replay_run replay_sample replay_window None (0, 0) replay_table = Inr [st, st']"
    using st(1) st' l
    by (simp add: replay_run_def replay_table_rows bindE_def replay_sample_def [THEN arg_cong [of _ _ re_rates]])
  then show thesis using st(2-6) by (rule that)
qed

theorem stored_snapshot_reads_back_witness:
  "bindE (store_row numeric_20_8 (snapshot_to_row sample_text ''run'' replay_snapshot))
     (snapshot_row_to_pydantic sample_text)
   = Inr (replay_snapshot\<lparr>ms_candles := without_history (ms_candles replay_snapshot)\<rparr>)"
proof (rule stored_snapshot_reads_back [OF replay_snapshot_ok numeric_20_8_keeps])
  show "list_all eight_decimals (snapshot_columns replay_snapshot)" "texts_read_back sample_text replay_snapshot"
    by code_simp+
qed

theorem replay_is_causal_witness:
  "\<exists>st st'. replay_run replay_sample replay_window None (0, 0) replay_table = Inr [st, st']
     \<and> rv_daily_loss_at_check_usdt (rp_risk_result st') = 5 / 4"
proof -
  obtain st st' where st: "replay_run replay_sample replay_window None (0, 0) replay_table = Inr [st, st']"
    "rp_max_loss st = 5 / 4" "executable (rp_risk_result st)"
    by (rule sample_replay)
  have "dadd 0 (dec_of_float (5 / 4)) = 5 / 4" by code_simp
  with replay_is_causal [OF st(1), of 1] st show ?thesis by auto
qed

subsection \<open>What the veto of the aggregator changes\<close>

definition charged_losses :: "replay_step list \<Rightarrow> rat list" where
  "charged_losses sts = map (\<lambda>st. dec_of_float (rp_max_loss st)) (filter (executable \<circ> rp_risk_result) sts)"

lemma charged_losses_step:
  "executable (rp_risk_result st) \<Longrightarrow>
     charged_losses (xs @ st # ys) = charged_losses xs @ dec_of_float (rp_max_loss st) # charged_losses ys"
  by (simp add: charged_losses_def)

lemma step_losses:
  assumes "replay_rows e rates 0 rows losses = Inr rs" "k < length rs"
  shows "rv_daily_loss_at_check_usdt (rp_risk_result (rs ! k)) = foldl dadd (fst losses) (charged_losses (take k rs))"
proof -
  have "fst (foldl (\<lambda>l st. add_step_loss st l) l sts) = foldl dadd (fst l) (charged_losses sts)" for l sts
    by (induction sts arbitrary: l) (simp_all add: add_step_loss_def charged_losses_def)
  then show ?thesis using step_losses_of(1) [OF assms] by simp
qed

lemma count_steps_executed:
  "mt_executed_steps (count_steps sts m) = mt_executed_steps m + length (filter step_executed sts)"
  by (induction sts m rule: count_steps.induct) (auto simp: Let_def split: list.splits)

lemma executed_steps_count: "mt_executed_steps (compute_replay_metrics sts) = length (filter step_executed sts)"
  by (simp add: compute_replay_metrics_def Let_def count_steps_executed no_metrics_def)

text \<open>
  C23. A replay trades what the bot would not. Its risk engine gives the same verdict whatever the aggregator
  decided, while the cycle stops at a \<^verbatim>\<open>NO_OPERAR\<close>: in every replay, a directional decision that the aggregator
  vetoed and the risk engine lets through counts as executed, and its loss is among those that every later step is
  checked against.
\<close>

theorem replay_trades_what_was_vetoed:
  assumes "replay_run e w run losses table = Inr steps" "k < length steps"
    and "ag_final_action (rp_aggregation (steps ! k)) = NO_OPERAR" "md_decision (rp_decision (steps ! k)) \<noteq> NO_OPERAR"
    and "executable (rp_risk_result (steps ! k))"
  shows "(\<exists>ri. \<forall>agg. ag_aggregation_id agg = ag_aggregation_id (rp_aggregation (steps ! k)) \<longrightarrow>
        risk_validate (snd (re_ids e k)) agg (rp_decision (steps ! k)) ri (re_config e) = Inr (rp_risk_result (steps ! k)))
    \<and> step_executed (steps ! k)
    \<and> mt_executed_steps (compute_replay_metrics steps) = length (filter step_executed steps)
    \<and> (\<forall>j. k < j \<and> j < length steps \<longrightarrow>
        rv_daily_loss_at_check_usdt (rp_risk_result (steps ! j))
        = foldl dadd (fst losses) (charged_losses (take k steps) @ dec_of_float (rp_max_loss (steps ! k))
            # charged_losses (drop (Suc k) (take j steps))))"
proof -
  obtain rates where rows: "replay_rows e rates 0 (load_snapshots w run table) losses = Inr steps"
    using replay_run_rows [OF assms(1)] by blast
  obtain ri where ri: "risk_validate (snd (re_ids e k)) (rp_aggregation (steps ! k)) (rp_decision (steps ! k)) ri
      (re_config e) = Inr (rp_risk_result (steps ! k))"
    using replay_row_risk [OF replay_rows_nth [OF rows assms(2)]] by blast
  have "md_execute (rp_decision (steps ! k))" using ri assms(5) executable_adjusted by blast
  then have x: "step_executed (steps ! k)" using assms(4,5) by (simp add: step_executed_def)
  have v: "\<forall>agg. ag_aggregation_id agg = ag_aggregation_id (rp_aggregation (steps ! k)) \<longrightarrow>
      risk_validate (snd (re_ids e k)) agg (rp_decision (steps ! k)) ri (re_config e) = Inr (rp_risk_result (steps ! k))"
    using ri risk_validate_aggregation by metis
  have "rv_daily_loss_at_check_usdt (rp_risk_result (steps ! j))
      = foldl dadd (fst losses) (charged_losses (take k steps) @ dec_of_float (rp_max_loss (steps ! k))
          # charged_losses (drop (Suc k) (take j steps)))" if j: "k < j" "j < length steps" for j
  proof -
    have "take j steps = take k (take j steps) @ take j steps ! k # drop (Suc k) (take j steps)"
      by (rule id_take_nth_drop) (use j in simp)
    then have "charged_losses (take j steps) = charged_losses (take k steps) @ dec_of_float (rp_max_loss (steps ! k))
          # charged_losses (drop (Suc k) (take j steps))"
      using j assms(5) by (metis (no_types, lifting) charged_losses_step min.absorb3 nth_take take_take)
    then show ?thesis using step_losses [OF rows j(2)] by simp
  qed
  with x v executed_steps_count show ?thesis by blast
qed

theorem replay_trades_what_was_vetoed_witness:
  "\<exists>st st'. replay_run replay_sample replay_window None (0, 0) replay_table = Inr [st, st']
     \<and> ag_final_action (rp_aggregation st) = NO_OPERAR \<and> step_executed st
     \<and> rv_daily_loss_at_check_usdt (rp_risk_result st') = 5 / 4"
proof -
  obtain st st' where st: "replay_run replay_sample replay_window None (0, 0) replay_table = Inr [st, st']"
    "rp_decision st = low_confidence" "rp_max_loss st = 5 / 4" "ag_final_action (rp_aggregation st) = NO_OPERAR"
    "executable (rp_risk_result st)"
    by (rule sample_replay)
  have "md_decision low_confidence \<noteq> NO_OPERAR" by (simp add: low_confidence_def sample_decision_def)
  moreover have "dadd 0 (dec_of_float (5 / 4)) = 5 / 4" by code_simp
  ultimately show ?thesis
    using replay_trades_what_was_vetoed [OF st(1), of 0] st by (auto simp: charged_losses_def)
qed

text \<open>C25. The comparison calls every executed decision changed: the audit trail writes the action \<^verbatim>\<open>OPEN\<close> for a decision
  that executes, and the report compares that column with \<^verbatim>\<open>LONG\<close>, \<^verbatim>\<open>SHORT\<close> or \<^verbatim>\<open>NO_OPERAR\<close>, also when the pipeline
  decides now exactly what it decided then.\<close>

theorem comparison_flags_every_open:
  assumes "find_nearest (at_decisions a) (ms_timestamp_utc (rp_snapshot st)) = Some (new_decision_row run d)" "md_execute d"
  shows "cp_any_changed (compare_step a st)"
proof -
  have "''OPEN'' \<noteq> direction_value x" for x by (cases x) (simp_all add: direction_value_def)
  with assms show ?thesis
    by (simp add: compare_step_def Let_def build_deltas_def field_delta_of_def field_changed_def fmt_def new_decision_row_def)
qed

theorem comparison_flags_every_open_witness:
  "\<exists>st st'. replay_run replay_sample replay_window None (0, 0) replay_table = Inr [st, st']
     \<and> cp_any_changed (compare_step
         \<lparr>at_decisions = [(1000000, new_decision_row ''run'' low_confidence)], at_aggregations = [], at_validations = []\<rparr> st)"
proof -
  obtain st st' where st: "replay_run replay_sample replay_window None (0, 0) replay_table = Inr [st, st']"
    "rp_snapshot st = replay_snapshot"
    by (rule sample_replay)
  have "md_execute low_confidence" by (simp add: low_confidence_def sample_decision_def)
  then have "cp_any_changed (compare_step
      \<lparr>at_decisions = [(1000000, new_decision_row ''run'' low_confidence)], at_aggregations = [], at_validations = []\<rparr> st)"
    by (rule comparison_flags_every_open [rotated]) (simp add: st(2) find_nearest_def replay_snapshot_def snapshot_at_def MATCH_TOLERANCE_def)
  with st(1) show ?thesis by blast
qed

end
