(* ===== verification/Dashboard.thy ===== *)
theory Dashboard
  imports EmergencyStop TokenBudget DecisionAudit AuthTokens
begin

text \<open>
  The read side of the dashboard: the paginated listings of \<^verbatim>\<open>backend/api\<close> over the queries of
  \<^verbatim>\<open>storage/repositories\<close>, behind the session check of \<^verbatim>\<open>app/main.py\<close>. An answer is the status of the HTTP error or
  the body. A query that orders by a time stamp says nothing about rows with equal ones, so the order in which the
  database meets the rows is a parameter \<open>scan\<close> of each request, which permutes them. Rows of the audit tables are
  paired with their time stamps.
\<close>

subsection \<open>Pages and ranges\<close>

definition DEFAULT_LIMIT :: int where "DEFAULT_LIMIT = 50"
definition MAX_LIMIT :: int where "MAX_LIMIT = 200"

record page_params =
  pg_limit :: int
  pg_offset :: int

definition make_page_params :: "int option \<Rightarrow> int option \<Rightarrow> nat + page_params" where
  "make_page_params limit offset =
     (let l = (case limit of None \<Rightarrow> DEFAULT_LIMIT | Some n \<Rightarrow> n);
          q = (case offset of None \<Rightarrow> 0 | Some n \<Rightarrow> n)
      in if 1 \<le> l \<and> l \<le> MAX_LIMIT \<and> 0 \<le> q then Inr \<lparr>pg_limit = l, pg_offset = q\<rparr> else Inl 422)"

record 'r page =
  pe_items :: "'r list"
  pe_total :: nat
  pe_limit :: int
  pe_offset :: int

text \<open>An instant of a query string: without an offset, or with one (in microseconds).\<close>

datatype query_time = Naive int | Aware int int

fun as_utc :: "query_time \<Rightarrow> int" where
  "as_utc (Naive t) = t"
| "as_utc (Aware t off) = t - off"

record time_range =
  tr_from_ts :: "int option"
  tr_to_ts :: "int option"

definition make_time_range :: "query_time option \<Rightarrow> query_time option \<Rightarrow> nat + time_range" where
  "make_time_range from_ts to_ts =
     (case (map_option as_utc from_ts, map_option as_utc to_ts) of
        (Some a, Some b) \<Rightarrow> if b < a then Inl 422 else Inr \<lparr>tr_from_ts = Some a, tr_to_ts = Some b\<rparr>
      | (a, b) \<Rightarrow> Inr \<lparr>tr_from_ts = a, tr_to_ts = b\<rparr>)"

definition in_range :: "time_range \<Rightarrow> int \<Rightarrow> bool" where
  "in_range r ts \<longleftrightarrow>
     (case tr_from_ts r of None \<Rightarrow> True | Some a \<Rightarrow> a \<le> ts) \<and> (case tr_to_ts r of None \<Rightarrow> True | Some b \<Rightarrow> ts < b)"

text \<open>A filter that is only applied when its parameter is given.\<close>

definition matches :: "'v option \<Rightarrow> 'v \<Rightarrow> bool" where
  "matches wanted x \<longleftrightarrow> (case wanted of None \<Rightarrow> True | Some v \<Rightarrow> x = v)"

subsection \<open>Queries\<close>

text \<open>The rows that match, newest first, cut to the page; and how many match.\<close>

definition list_filtered ::
    "('r list \<Rightarrow> 'r list) \<Rightarrow> ('r \<Rightarrow> int) \<Rightarrow> ('r \<Rightarrow> bool) \<Rightarrow> int \<Rightarrow> int \<Rightarrow> 'r list \<Rightarrow> 'r list \<times> nat" where
  "list_filtered scan ts keep limit offset table =
     (let rows = filter keep table
      in (take (nat limit) (drop (nat offset) (sort_key (\<lambda>r. - ts r) (scan rows))), length rows))"

definition decision_filter ::
    "string \<Rightarrow> string option \<Rightarrow> string option \<Rightarrow> time_range \<Rightarrow> int \<times> decision_row \<Rightarrow> bool" where
  "decision_filter run symb action period r \<longleftrightarrow>
     dn_bot_run_id (snd r) = run \<and> matches symb (dn_symbol (snd r)) \<and> matches action (dn_action (snd r))
     \<and> in_range period (fst r)"

definition validation_filter ::
    "string \<Rightarrow> string option \<Rightarrow> string option \<Rightarrow> time_range \<Rightarrow> int \<times> validation_row \<Rightarrow> bool" where
  "validation_filter run symb verdict period r \<longleftrightarrow>
     vn_bot_run_id (snd r) = run \<and> matches symb (vn_symbol (snd r)) \<and> matches verdict (vn_result (snd r))
     \<and> in_range period (fst r)"

definition usage_filter :: "string \<Rightarrow> string option \<Rightarrow> token_usage_row \<Rightarrow> bool" where
  "usage_filter run model r \<longleftrightarrow> tu_bot_run_id r = run \<and> matches model (tu_model r)"

record account_state_row =
  ax_bot_run_id :: string
  ax_timestamp :: int
  ax_balance_usdt :: rat
  ax_equity_usdt :: rat
  ax_margin_used_usdt :: rat
  ax_unrealized_pnl :: rat
  ax_realized_pnl_session :: rat
  ax_drawdown_percent :: rat
  ax_exposure_percent :: rat

definition get_latest_account :: "string \<Rightarrow> account_state_row list \<Rightarrow> account_state_row option" where
  "get_latest_account run rows = latest_by ax_timestamp (filter (\<lambda>r. ax_bot_run_id r = run) rows)"

text \<open>The bounds of the history are bound as they come: a naive one is read in the time zone of the database session,
  which is \<open>zone\<close> ahead of UTC. Here both ends belong to the period, and the oldest comes first.\<close>

fun session_instant :: "int \<Rightarrow> query_time \<Rightarrow> int" where
  "session_instant zone (Naive t) = t - zone"
| "session_instant zone (Aware t off) = t - off"

definition history_filter :: "int \<Rightarrow> string \<Rightarrow> query_time option \<Rightarrow> query_time option \<Rightarrow> account_state_row \<Rightarrow> bool" where
  "history_filter zone run since until r \<longleftrightarrow>
     ax_bot_run_id r = run
     \<and> (case since of None \<Rightarrow> True | Some a \<Rightarrow> session_instant zone a \<le> ax_timestamp r)
     \<and> (case until of None \<Rightarrow> True | Some b \<Rightarrow> ax_timestamp r \<le> session_instant zone b)"

definition list_history ::
    "(account_state_row list \<Rightarrow> account_state_row list) \<Rightarrow> int \<Rightarrow> string \<Rightarrow> query_time option \<Rightarrow> query_time option \<Rightarrow> int \<Rightarrow> int
      \<Rightarrow> account_state_row list \<Rightarrow> account_state_row list \<times> nat" where
  "list_history scan zone run since until limit offset table =
     (let rows = filter (history_filter zone run since until) table
      in (take (nat limit) (drop (nat offset) (sort_key ax_timestamp (scan rows))), length rows))"

subsection \<open>Routes\<close>

text \<open>The routers of the dashboard are included with the session check as a dependency, which runs first.\<close>

definition protected ::
    "token_lib \<Rightarrow> bool \<Rightarrow> string \<Rightarrow> string option \<Rightarrow> string \<Rightarrow> int \<Rightarrow> (nat + 'a) \<Rightarrow> nat + 'a" where
  "protected lib enabled secret_key header jti now answer =
     bindE (require_auth lib enabled secret_key header jti now) (\<lambda>_. answer)"

definition page_of :: "page_params \<Rightarrow> 'r list \<times> nat \<Rightarrow> 'r page" where
  "page_of p q = \<lparr>pe_items = fst q, pe_total = snd q, pe_limit = pg_limit p, pe_offset = pg_offset p\<rparr>"

record listing_query =
  lq_bot_run_id :: "string option"
  lq_limit :: "int option"
  lq_offset :: "int option"
  lq_from_ts :: "query_time option"
  lq_to_ts :: "query_time option"
  lq_symbol :: "string option"

definition ALLOWED_ACTIONS :: "string list" where
  "ALLOWED_ACTIONS = [''OPEN'', ''CLOSE'', ''NO_OPERAR'']"

definition ALLOWED_RESULTS :: "string list" where
  "ALLOWED_RESULTS = map risk_decision_value [RISK_APPROVE, RISK_ADJUST_DOWN, RISK_BLOCK, RISK_NO_OPERAR]"

definition allowed_or_422 :: "string list \<Rightarrow> string option \<Rightarrow> nat + unit" where
  "allowed_or_422 allowed v =
     (case v of None \<Rightarrow> Inr () | Some x \<Rightarrow> if List.member allowed x then Inr () else Inl 422)"

definition list_decisions ::
    "((int \<times> decision_row) list \<Rightarrow> (int \<times> decision_row) list) \<Rightarrow> listing_query \<Rightarrow> string option \<Rightarrow> db
      \<Rightarrow> (int \<times> decision_row) list \<Rightarrow> nat + (int \<times> decision_row) page" where
  "list_decisions scan q action d table =
     bindE (get_current_bot_run (lq_bot_run_id q) d) (\<lambda>run.
     bindE (make_page_params (lq_limit q) (lq_offset q)) (\<lambda>p.
     bindE (make_time_range (lq_from_ts q) (lq_to_ts q)) (\<lambda>period.
     bindE (allowed_or_422 allowed_symbols (lq_symbol q)) (\<lambda>_.
     bindE (allowed_or_422 ALLOWED_ACTIONS action) (\<lambda>_.
       Inr (page_of p (list_filtered scan fst (decision_filter (br_id run) (lq_symbol q) action period)
                         (pg_limit p) (pg_offset p) table)))))))"

definition get_decision :: "string \<Rightarrow> (int \<times> decision_row) list \<Rightarrow> nat + (int \<times> decision_row)" where
  "get_decision decision_id table =
     (if \<not> uuid_valid decision_id then Inl 404
      else case find (\<lambda>r. dn_id (snd r) = decision_id) table of None \<Rightarrow> Inl 404 | Some r \<Rightarrow> Inr r)"

definition list_risk_validations ::
    "((int \<times> validation_row) list \<Rightarrow> (int \<times> validation_row) list) \<Rightarrow> listing_query \<Rightarrow> string option \<Rightarrow> db
      \<Rightarrow> (int \<times> validation_row) list \<Rightarrow> nat + (int \<times> validation_row) page" where
  "list_risk_validations scan q verdict d table =
     bindE (get_current_bot_run (lq_bot_run_id q) d) (\<lambda>run.
     bindE (make_page_params (lq_limit q) (lq_offset q)) (\<lambda>p.
     bindE (make_time_range (lq_from_ts q) (lq_to_ts q)) (\<lambda>period.
     bindE (allowed_or_422 allowed_symbols (lq_symbol q)) (\<lambda>_.
     bindE (allowed_or_422 ALLOWED_RESULTS verdict) (\<lambda>_.
       Inr (page_of p (list_filtered scan fst (validation_filter (br_id run) (lq_symbol q) verdict period)
                         (pg_limit p) (pg_offset p) table)))))))"

definition list_token_usage ::
    "(token_usage_row list \<Rightarrow> token_usage_row list) \<Rightarrow> string option \<Rightarrow> int option \<Rightarrow> int option \<Rightarrow> string option \<Rightarrow> db
      \<Rightarrow> nat + token_usage_row page" where
  "list_token_usage scan bot_run_id limit offset model d =
     bindE (get_current_bot_run bot_run_id d) (\<lambda>run.
     bindE (make_page_params limit offset) (\<lambda>p.
       Inr (page_of p (list_filtered scan tu_timestamp (usage_filter (br_id run) model) (pg_limit p) (pg_offset p)
                         (db_token_usage d)))))"

definition get_token_budget ::
    "token_budget_config \<Rightarrow> failure_policy_config \<Rightarrow> int \<Rightarrow> string option \<Rightarrow> db \<Rightarrow> nat + budget_check" where
  "get_token_budget config policy now bot_run_id d =
     bindE (get_current_bot_run bot_run_id d) (\<lambda>run.
       Inr (get_current_status \<lparr>bm_bot_run_id = br_id run, bm_config = config, bm_failure_policy = policy\<rparr> now d))"

record bot_status_out =
  bo_bot_run_id :: string
  bo_environment :: string
  bo_run_status :: string
  bo_started_at :: int
  bo_ended_at :: "int option"
  bo_state :: "string option"
  bo_previous_state :: "string option"
  bo_state_reason :: "string option"
  bo_state_updated_at :: "int option"
  bo_account :: "account_state_row option"

definition get_status :: "string option \<Rightarrow> db \<Rightarrow> account_state_row list \<Rightarrow> nat + bot_status_out" where
  "get_status bot_run_id d accounts =
     bindE (get_current_bot_run bot_run_id d) (\<lambda>run.
       let s = get_latest_bot_state (br_id run) d
       in Inr \<lparr>bo_bot_run_id = br_id run, bo_environment = br_environment run, bo_run_status = br_status run,
               bo_started_at = br_started_at run, bo_ended_at = br_ended_at run, bo_state = map_option bs_state s,
               bo_previous_state = Option.bind s bs_previous_state, bo_state_reason = Option.bind s bs_reason,
               bo_state_updated_at = map_option bs_created_at s, bo_account = get_latest_account (br_id run) accounts\<rparr>)"

definition get_status_history ::
    "(account_state_row list \<Rightarrow> account_state_row list) \<Rightarrow> int \<Rightarrow> string option \<Rightarrow> int option \<Rightarrow> int option
      \<Rightarrow> query_time option \<Rightarrow> query_time option \<Rightarrow> db \<Rightarrow> account_state_row list \<Rightarrow> nat + account_state_row page" where
  "get_status_history scan zone bot_run_id limit offset since until d accounts =
     bindE (get_current_bot_run bot_run_id d) (\<lambda>run.
     bindE (make_page_params limit offset) (\<lambda>p.
       Inr (page_of p (list_history scan zone (br_id run) since until (pg_limit p) (pg_offset p) accounts))))"

text \<open>\<^verbatim>\<open>/health\<close>: the status code and the fields of the body.\<close>

definition health :: "bool \<Rightarrow> string \<Rightarrow> string \<Rightarrow> nat \<times> (string \<times> string) list" where
  "health db_reachable version mode =
     (if db_reachable then (200, [(''status'', ''ok''), (''version'', version), (''mode'', mode)])
      else (503, [(''status'', ''degraded''), (''db'', ''unreachable''), (''version'', version), (''mode'', mode)]))"

end
