(* ===== verification/DashboardProperties.thy ===== *)
theory DashboardProperties
  imports Dashboard Samples "HOL-Library.Multiset"
begin

text \<open>What the listings of the dashboard show: every row once, as long as no two rows carry the same instant.\<close>

subsection \<open>Pages\<close>

lemma pages_concat: "concat (map (\<lambda>k. take l (drop (k * l) xs)) [0..<n]) = take (n * l) xs"
proof (induction n)
  case (Suc n)
  have "take (n * l + l) xs = take (n * l) xs @ take l (drop (n * l) xs)" by (rule take_add)
  with Suc show ?case by (simp add: add.commute)
qed simp

text \<open>Without ties the order in which the rows are met does not show.\<close>

lemma sort_key_scan:
  fixes f :: "'r \<Rightarrow> 'k :: linorder"
  assumes "mset xs = mset ys" "distinct (map f ys)"
  shows "sort_key f xs = sort_key f ys"
proof (rule sort_key_inj_key_eq)
  show "mset xs = mset (sort_key f ys)" using assms(1) by simp
  show "inj_on f (set xs)" using assms by (metis distinct_map set_mset_mset)
qed simp

lemma list_filtered_page:
  assumes "mset (scan (filter keep table)) = mset (filter keep table)" "distinct (map ts (filter keep table))"
  shows "list_filtered scan ts keep limit offset table
    = (take (nat limit) (drop (nat offset) (sort_key (\<lambda>r. - ts r) (filter keep table))), length (filter keep table))"
proof -
  have "distinct (map (\<lambda>r. - ts r) (filter keep table))" using assms(2) by (simp add: distinct_map inj_on_def)
  with assms(1) have "sort_key (\<lambda>r. - ts r) (scan (filter keep table)) = sort_key (\<lambda>r. - ts r) (filter keep table)"
    by (rule sort_key_scan)
  then show ?thesis by (simp add: list_filtered_def Let_def)
qed

text \<open>C32. A walk over the pages shows everything: when no two decisions of the run carry the same instant, consecutive
  pages of any size show every matching decision exactly once, newest first, in whatever order the database meets the
  rows of each request, and every page reports how many there are.\<close>

theorem decision_pages_cover:
  assumes "\<forall>k < n. list_decisions (scan k) (q\<lparr>lq_limit := Some l, lq_offset := Some (int k * l)\<rparr>) action d table = Inr (p k)"
    and "\<forall>k rows. mset (scan k rows) = mset rows"
    and "get_current_bot_run (lq_bot_run_id q) d = Inr run"
    and "distinct (map fst (filter (\<lambda>r. dn_bot_run_id (snd r) = br_id run) table))"
    and "0 < n" "length table \<le> n * nat l"
  shows "\<exists>period. make_time_range (lq_from_ts q) (lq_to_ts q) = Inr period
    \<and> concat (map (\<lambda>k. pe_items (p k)) [0..<n])
        = sort_key (\<lambda>r. - fst r) (filter (decision_filter (br_id run) (lq_symbol q) action period) table)
    \<and> (\<forall>k < n. pe_total (p k) = length (filter (decision_filter (br_id run) (lq_symbol q) action period) table))"
proof -
  have route: "list_decisions (scan 0) (q\<lparr>lq_limit := Some l, lq_offset := Some (int 0 * l)\<rparr>) action d table = Inr (p 0)"
    using assms(1,5) by blast
  then obtain period where period: "make_time_range (lq_from_ts q) (lq_to_ts q) = Inr period"
    by (auto simp: list_decisions_def bindE_Inr_iff)
  let ?keep = "decision_filter (br_id run) (lq_symbol q) action period"
  have keep: "filter ?keep table = filter ?keep (filter (\<lambda>r. dn_bot_run_id (snd r) = br_id run) table)"
    by (auto simp: decision_filter_def intro: filter_cong)
  have distinct: "distinct (map fst (filter ?keep table))"
    unfolding keep using assms(4) by (rule distinct_map_filter)
  have limit: "1 \<le> l" using route by (auto simp: list_decisions_def bindE_Inr_iff make_page_params_def split: if_splits)
  have page: "pe_items (p k) = take (nat l) (drop (k * nat l) (sort_key (\<lambda>r. - fst r) (filter ?keep table)))
      \<and> pe_total (p k) = length (filter ?keep table)" if "k < n" for k
  proof -
    have "p k = page_of \<lparr>pg_limit = l, pg_offset = int k * l\<rparr> (list_filtered (scan k) fst ?keep l (int k * l) table)"
      using spec [OF assms(1), of k] assms(3) period that
      by (auto simp: list_decisions_def bindE_Inr_iff make_page_params_def Let_def split: if_splits)
    then show ?thesis
      using assms(2) list_filtered_page [OF _ distinct, of "scan k" l "int k * l"] limit
      by (simp add: page_of_def nat_mult_distrib)
  qed
  have "concat (map (\<lambda>k. pe_items (p k)) [0..<n])
      = concat (map (\<lambda>k. take (nat l) (drop (k * nat l) (sort_key (\<lambda>r. - fst r) (filter ?keep table)))) [0..<n])"
    using page by (intro arg_cong [of _ _ concat] map_cong) auto
  also have "\<dots> = sort_key (\<lambda>r. - fst r) (filter ?keep table)"
    using order_trans [OF length_filter_le assms(6), of ?keep] by (simp add: pages_concat)
  finally show ?thesis using period page by blast
qed

subsection \<open>A listing with two decisions\<close>

definition listing_db :: db where
  "listing_db = db_empty\<lparr>db_bot_runs := [\<lparr>br_id = ''r1'', br_started_at = 0, br_ended_at = None, br_environment = ''PAPER'',
     br_status = ''RUNNING'', br_notes = None\<rparr>]\<rparr>"

definition listing_query :: "int \<Rightarrow> listing_query" where
  "listing_query offset = \<lparr>lq_bot_run_id = None, lq_limit = Some 1, lq_offset = Some offset, lq_from_ts = None,
     lq_to_ts = None, lq_symbol = None\<rparr>"

definition listed :: "string \<Rightarrow> decision_row" where
  "listed name = new_decision_row ''r1'' (sample_decision\<lparr>md_decision_id := name\<rparr>)"

lemma listed_run [simp]: "dn_bot_run_id (listed name) = ''r1''"
  by (simp add: listed_def new_decision_row_def)

lemma listing_run: "get_current_bot_run None listing_db = Inr (hd (db_bot_runs listing_db))" "br_id (hd (db_bot_runs listing_db)) = ''r1''"
  by (simp_all add: get_current_bot_run_def get_active_def latest_by_def listing_db_def)

lemma sample_pages:
  assumes "n \<in> {0, 1}"
  shows "list_decisions scan (listing_query n) None listing_db [(t, listed ''a''), (t', listed ''b'')]
    = Inr (page_of \<lparr>pg_limit = 1, pg_offset = n\<rparr>
        (take 1 (drop (nat n) (sort_key (\<lambda>r. - fst r) (scan [(t, listed ''a''), (t', listed ''b'')]))), 2))"
  using assms
  by (auto simp: list_decisions_def listing_query_def listing_run make_page_params_def make_time_range_def
      allowed_or_422_def list_filtered_def decision_filter_def matches_def in_range_def MAX_LIMIT_def bindE_def Let_def numeral_2_eq_2)

theorem decision_pages_cover_witness:
  "\<exists>p. (\<forall>k < 2. list_decisions rev (listing_query (int k)) None listing_db [(7, listed ''a''), (9, listed ''b'')] = Inr (p k))
     \<and> concat (map (\<lambda>k. pe_items (p k)) [0..<2]) = [(9, listed ''b''), (7, listed ''a'')]"
proof -
  let ?t = "[(7 :: int, listed ''a''), (9, listed ''b'')]"
  define p where "p k = page_of \<lparr>pg_limit = 1, pg_offset = int k\<rparr>
      (take 1 (drop k (sort_key (\<lambda>r. - fst r) (rev ?t))), 2)" for k
  have pages: "list_decisions rev (listing_query (int k)) None listing_db ?t = Inr (p k)" if "k < 2" for k
    using that sample_pages [of "int k" rev 7 9] by (auto simp: p_def less_2_cases_iff)
  have q: "(listing_query 0)\<lparr>lq_limit := Some 1, lq_offset := Some (int k * 1)\<rparr> = listing_query (int k)" for k
    by (simp add: listing_query_def)
  let ?keep = "\<lambda>period. filter (decision_filter (br_id (hd (db_bot_runs listing_db))) (lq_symbol (listing_query 0)) None period) ?t"
  have "\<exists>period. make_time_range (lq_from_ts (listing_query 0)) (lq_to_ts (listing_query 0)) = Inr period
      \<and> concat (map (\<lambda>k. pe_items (p k)) [0..<2]) = sort_key (\<lambda>r. - fst r) (?keep period)
      \<and> (\<forall>k < 2. pe_total (p k) = length (?keep period))"
    by (rule decision_pages_cover [where scan = "\<lambda>_. rev" and l = 1 and d = listing_db])
      (use pages in \<open>simp_all add: q listing_run, simp_all add: listing_query_def listing_run\<close>)
  then have "concat (map (\<lambda>k. pe_items (p k)) [0..<2]) = [(9, listed ''b''), (7, listed ''a'')]"
    by (auto simp: make_time_range_def decision_filter_def matches_def in_range_def listing_query_def listing_run)
  with pages show ?thesis by blast
qed

subsection \<open>Ties\<close>

definition swap_rows :: "'r \<Rightarrow> 'r \<Rightarrow> 'r \<Rightarrow> 'r" where
  "swap_rows a b x = (if x = a then b else if x = b then a else x)"

lemma swap_rows_simps [simp]: "swap_rows a b a = b" "swap_rows a b b = a"
  by (simp_all add: swap_rows_def)

lemma swap_rows_swap [simp]: "swap_rows a b (swap_rows a b x) = x"
  by (simp add: swap_rows_def)

lemma mset_swap_rows:
  assumes "distinct xs" "a \<in> set xs" "b \<in> set xs"
  shows "mset (map (swap_rows a b) xs) = mset xs"
proof -
  have "inj (swap_rows a b)" by (metis injI swap_rows_swap)
  then have "distinct (map (swap_rows a b) xs)" using assms(1) by (metis distinct_map inj_on_subset subset_UNIV)
  moreover have "swap_rows a b ` set xs = set xs"
    using assms(2,3) by (auto simp: swap_rows_def image_iff)
  ultimately show ?thesis using assms(1) by (metis set_eq_iff_mset_eq_distinct list.set_map)
qed

lemma sort_key_map_keeps: "(\<And>x. f (g x) = f x) \<Longrightarrow> sort_key f (map g xs) = map g (sort_key f xs)"
proof (induction xs)
  case (Cons x xs)
  have "insort_key f (g x) (map g ys) = map g (insort_key f x ys)" for ys
    by (induction ys) (simp_all add: Cons.prems)
  then show ?case using Cons by simp
qed simp

text \<open>A scan of the rows that puts another row than \<open>b\<close> on the page at offset \<open>k\<close>.\<close>

definition avoiding_scan :: "('r \<Rightarrow> int) \<Rightarrow> 'r \<Rightarrow> 'r \<Rightarrow> nat \<Rightarrow> 'r list \<Rightarrow> 'r list" where
  "avoiding_scan ts a b k rows =
     (if k < length rows \<and> distinct rows \<and> a \<in> set rows \<and> b \<in> set rows
         \<and> sort_key (\<lambda>r. - ts r) rows ! k = b
      then map (swap_rows a b) rows else rows)"

lemma avoiding_scan_mset: "mset (avoiding_scan ts a b k rows) = mset rows"
  by (simp add: avoiding_scan_def mset_swap_rows del: mset_map)

lemma avoiding_scan_page:
  assumes "a \<noteq> b" "ts a = ts b" "distinct rows" "a \<in> set rows" "b \<in> set rows"
  shows "b \<notin> set (take 1 (drop k (sort_key (\<lambda>r. - ts r) (avoiding_scan ts a b k rows))))"
proof (cases "k < length rows")
  case True
  have "- ts (swap_rows a b x) = - ts x" for x using assms(2) by (simp add: swap_rows_def)
  then have "sort_key (\<lambda>r. - ts r) (map (swap_rows a b) rows) = map (swap_rows a b) (sort_key (\<lambda>r. - ts r) rows)"
    by (rule sort_key_map_keeps)
  then have "sort_key (\<lambda>r. - ts r) (avoiding_scan ts a b k rows) ! k \<noteq> b"
    using True assms by (simp add: avoiding_scan_def)
  moreover have "take 1 (drop k ys) = [ys ! k]" if "k < length ys" for ys :: "'a list"
    using that by (simp add: take_Suc_conv_app_nth [of 0 "drop k ys", simplified])
  ultimately show ?thesis using True by (simp add: avoiding_scan_def)
qed (simp add: avoiding_scan_def)

text \<open>
  C33. Ties lose rows. Whenever two different decisions of one instant match a listing, the database can meet the rows
  of each request in an order of its own such that a walk over the pages of one row shows one of the two on no page,
  although every page is answered and reports the number of matching rows: the listing orders by the instant alone.
\<close>

theorem tied_decisions_lost:
  assumes "get_current_bot_run (lq_bot_run_id q) d = Inr run" "make_time_range (lq_from_ts q) (lq_to_ts q) = Inr period"
    and "allowed_or_422 allowed_symbols (lq_symbol q) = Inr ()" "allowed_or_422 ALLOWED_ACTIONS action = Inr ()"
    and "distinct table" "a \<in> set table" "b \<in> set table" "a \<noteq> b" "fst a = fst b"
    and "decision_filter (br_id run) (lq_symbol q) action period a" "decision_filter (br_id run) (lq_symbol q) action period b"
  shows "\<exists>scan. (\<forall>k rows. mset (scan k rows) = mset rows)
    \<and> (\<forall>k. \<exists>p. list_decisions (scan k) (q\<lparr>lq_limit := Some 1, lq_offset := Some (int k)\<rparr>) action d table = Inr p
          \<and> b \<notin> set (pe_items p)
          \<and> pe_total p = length (filter (decision_filter (br_id run) (lq_symbol q) action period) table))"
proof (rule exI [of _ "avoiding_scan fst a b"], intro conjI allI)
  let ?keep = "decision_filter (br_id run) (lq_symbol q) action period"
  show "mset (avoiding_scan fst a b k rows) = mset rows" for k and rows :: "(int \<times> decision_row) list"
    by (rule avoiding_scan_mset)
  fix k
  let ?p = "page_of \<lparr>pg_limit = 1, pg_offset = int k\<rparr> (list_filtered (avoiding_scan fst a b k) fst ?keep 1 (int k) table)"
  have "list_decisions (avoiding_scan fst a b k) (q\<lparr>lq_limit := Some 1, lq_offset := Some (int k)\<rparr>) action d table = Inr ?p"
    using assms(1-4) by (simp add: list_decisions_def make_page_params_def MAX_LIMIT_def bindE_def)
  moreover have "b \<notin> set (pe_items ?p)"
    using avoiding_scan_page [of a b fst "filter ?keep table" k] assms(5-11)
    by (simp add: page_of_def list_filtered_def Let_def)
  moreover have "pe_total ?p = length (filter ?keep table)" by (simp add: page_of_def list_filtered_def Let_def)
  ultimately show "\<exists>p. list_decisions (avoiding_scan fst a b k) (q\<lparr>lq_limit := Some 1, lq_offset := Some (int k)\<rparr>) action d
        table = Inr p \<and> b \<notin> set (pe_items p) \<and> pe_total p = length (filter ?keep table)" by blast
qed

theorem tied_decisions_lost_witness:
  "\<exists>scan. (\<forall>k rows. mset (scan k rows) = mset rows)
    \<and> (\<forall>k. \<exists>p. list_decisions (scan k) (listing_query (int k)) None listing_db [(7, listed ''a''), (7, listed ''b'')] = Inr p
          \<and> (7, listed ''b'') \<notin> set (pe_items p) \<and> pe_total p = 2)"
proof -
  let ?t = "[(7 :: int, listed ''a''), (7, listed ''b'')]" and ?q = "listing_query 0"
  obtain period where r: "get_current_bot_run (lq_bot_run_id ?q) listing_db = Inr (hd (db_bot_runs listing_db))"
      "make_time_range (lq_from_ts ?q) (lq_to_ts ?q) = Inr period"
      "allowed_or_422 allowed_symbols (lq_symbol ?q) = Inr ()" "allowed_or_422 ALLOWED_ACTIONS None = Inr ()"
    and f: "\<And>n. decision_filter (br_id (hd (db_bot_runs listing_db))) (lq_symbol ?q) None period (7, listed n)"
    by (auto simp: listing_query_def listing_run make_time_range_def allowed_or_422_def decision_filter_def matches_def
        in_range_def)
  have ne: "listed ''a'' \<noteq> listed ''b''" by (simp add: listed_def new_decision_row_def)
  have q: "?q\<lparr>lq_limit := Some 1, lq_offset := Some (int k)\<rparr> = listing_query (int k)" for k
    by (simp add: listing_query_def)
  show ?thesis
    using tied_decisions_lost [OF r, of ?t "(7, listed ''a'')" "(7, listed ''b'')"] ne f by (simp add: q numeral_2_eq_2)
qed

end
