(* ===== verification/AuditTrail.thy ===== *)
theory AuditTrail
  imports DecisionAudit GptClient
begin

text \<open>
  The general helpers of \<^verbatim>\<open>storage/audit.py\<close>: events are stored with a correlation id, which \<^verbatim>\<open>audit_context\<close> keeps
  for the time of a block in a context variable. A program that uses them is a list of calls, blocks and raises;
  fresh identifiers come from a stream, and whether a flush succeeds is part of the call.
\<close>

datatype audit_failure = Meta_type_error | Flush_error | Body_error

text \<open>\<^verbatim>\<open>correlation_id or _correlation_id.get() or str(uuid.uuid4())\<close>: the id, and how many fresh ones it took.\<close>

definition choose_id :: "string option \<Rightarrow> string option \<Rightarrow> string \<Rightarrow> string \<times> nat" where
  "choose_id explicit current fresh =
     (let given = (\<lambda>v. case v of None \<Rightarrow> False | Some s \<Rightarrow> s \<noteq> [])
      in if given explicit then (the explicit, 0) else if given current then (the current, 0) else (fresh, 1))"

text \<open>\<^verbatim>\<open>payload.setdefault("_meta", {})["correlation_id"] = cid\<close> on a copy: only a dict takes the key.\<close>

definition stamp_meta :: "string \<Rightarrow> (string, json) dict option \<Rightarrow> audit_failure + (string, json) dict" where
  "stamp_meta cid payload =
     (let d = (case payload of None \<Rightarrow> [] | Some d \<Rightarrow> d)
      in case dict_get d ''_meta'' of
           None \<Rightarrow> Inr (dict_set ''_meta'' (JObj [(''correlation_id'', JStr cid)]) d)
         | Some (JObj m) \<Rightarrow> Inr (dict_set ''_meta'' (JObj (dict_set ''correlation_id'' (JStr cid) m)) d)
         | Some _ \<Rightarrow> Inl Meta_type_error)"

record audited_decision =
  ud_row :: decision_row
  ud_timestamp :: int
  ud_reasoning :: "string option"
  ud_model_response_id :: "string option"
  ud_raw_decision :: "(string, json) dict"

record audited_snapshot =
  us_id :: string
  us_bot_run_id :: string
  us_symbol :: string
  us_timestamp :: int
  us_open :: rat
  us_high :: rat
  us_low :: rat
  us_close :: rat
  us_volume :: rat
  us_funding_rate :: "rat option"
  us_open_interest :: "rat option"
  us_bid :: "rat option"
  us_ask :: "rat option"
  us_spread :: "rat option"
  us_extra :: "(string, json) dict"

record error_row =
  er_id :: string
  er_bot_run_id :: string
  er_timestamp :: int
  er_module :: "string option"
  er_error_type :: "string option"
  er_message :: string
  er_traceback :: "string option"
  er_details :: "(string, json) dict"
  er_recovered :: bool

record audit_log =
  al_decisions :: "audited_decision list"
  al_snapshots :: "audited_snapshot list"
  al_errors :: "error_row list"
  al_correlation :: "string option"
  al_fresh :: nat

text \<open>The keyword arguments of a call. A decision takes the time of the call when it is given none; an exception is
  passed with the name of its type and its formatted traceback.\<close>

datatype audit_call =
    Call_decision "string option" decision_row "int option" "string option" "string option" "(string, json) dict option"
  | Call_snapshot "string option" audited_snapshot "(string, json) dict option"
  | Call_error "string option" string string "(string \<times> string) option" "string option" bool "(string, json) dict option"

definition audit_decision ::
    "(nat \<Rightarrow> string) \<Rightarrow> bool \<Rightarrow> int \<Rightarrow> string option \<Rightarrow> decision_row \<Rightarrow> int option \<Rightarrow> string option \<Rightarrow> string option
      \<Rightarrow> (string, json) dict option \<Rightarrow> audit_log \<Rightarrow> audit_failure option \<times> audit_log" where
  "audit_decision ids flush_ok now explicit row ts reasoning response raw w =
     (let (cid, used) = choose_id explicit (al_correlation w) (ids (al_fresh w));
          w = w\<lparr>al_fresh := al_fresh w + used\<rparr>
      in case stamp_meta cid raw of
           Inl e \<Rightarrow> (Some e, w)
         | Inr payload \<Rightarrow>
             if \<not> flush_ok then (Some Flush_error, w)
             else (None, w\<lparr>al_fresh := Suc (al_fresh w), al_decisions := al_decisions w @
               [\<lparr>ud_row = row\<lparr>dn_id := ids (al_fresh w)\<rparr>, ud_timestamp = (case ts of None \<Rightarrow> now | Some t \<Rightarrow> t),
                 ud_reasoning = reasoning, ud_model_response_id = response, ud_raw_decision = payload\<rparr>]\<rparr>))"

definition audit_snapshot ::
    "(nat \<Rightarrow> string) \<Rightarrow> bool \<Rightarrow> string option \<Rightarrow> audited_snapshot \<Rightarrow> (string, json) dict option \<Rightarrow> audit_log
      \<Rightarrow> audit_failure option \<times> audit_log" where
  "audit_snapshot ids flush_ok explicit row extra w =
     (let (cid, used) = choose_id explicit (al_correlation w) (ids (al_fresh w));
          w = w\<lparr>al_fresh := al_fresh w + used\<rparr>
      in case stamp_meta cid extra of
           Inl e \<Rightarrow> (Some e, w)
         | Inr payload \<Rightarrow>
             if \<not> flush_ok then (Some Flush_error, w)
             else (None, w\<lparr>al_fresh := Suc (al_fresh w),
                al_snapshots := al_snapshots w @ [row\<lparr>us_id := ids (al_fresh w), us_extra := payload\<rparr>]\<rparr>))"

definition audit_error ::
    "(nat \<Rightarrow> string) \<Rightarrow> bool \<Rightarrow> int \<Rightarrow> string option \<Rightarrow> string \<Rightarrow> string \<Rightarrow> (string \<times> string) option \<Rightarrow> string option \<Rightarrow> bool
      \<Rightarrow> (string, json) dict option \<Rightarrow> audit_log \<Rightarrow> audit_failure option \<times> audit_log" where
  "audit_error ids flush_ok now explicit run message exc modl recovered details w =
     (let (cid, used) = choose_id explicit (al_correlation w) (ids (al_fresh w));
          w = w\<lparr>al_fresh := al_fresh w + used\<rparr>
      in case stamp_meta cid details of
           Inl e \<Rightarrow> (Some e, w)
         | Inr payload \<Rightarrow>
             if \<not> flush_ok then (Some Flush_error, w)
             else (None, w\<lparr>al_fresh := Suc (al_fresh w), al_errors := al_errors w @
               [\<lparr>er_id = ids (al_fresh w), er_bot_run_id = run, er_timestamp = now, er_module = modl,
                 er_error_type = map_option fst exc, er_message = message, er_traceback = map_option snd exc,
                 er_details = payload, er_recovered = recovered\<rparr>]\<rparr>))"

definition do_call ::
    "(nat \<Rightarrow> string) \<Rightarrow> bool \<Rightarrow> int \<Rightarrow> audit_call \<Rightarrow> audit_log \<Rightarrow> audit_failure option \<times> audit_log" where
  "do_call ids flush_ok now c w =
     (case c of
        Call_decision explicit row ts reasoning response raw \<Rightarrow>
          audit_decision ids flush_ok now explicit row ts reasoning response raw w
      | Call_snapshot explicit row extra \<Rightarrow> audit_snapshot ids flush_ok explicit row extra w
      | Call_error explicit run message exc modl recovered details \<Rightarrow>
          audit_error ids flush_ok now explicit run message exc modl recovered details w)"

text \<open>A statement: a call, a block \<^verbatim>\<open>with audit_context(id)\<close>, or a raise. The block sets the variable, and resets it to
  what it was however the body ends.\<close>

datatype audit_stmt = Call bool int audit_call | Block "string option" "audit_stmt list" | Raise

fun run_stmt :: "(nat \<Rightarrow> string) \<Rightarrow> audit_stmt \<Rightarrow> audit_log \<Rightarrow> audit_failure option \<times> audit_log"
and run_stmts :: "(nat \<Rightarrow> string) \<Rightarrow> audit_stmt list \<Rightarrow> audit_log \<Rightarrow> audit_failure option \<times> audit_log" where
  "run_stmt ids (Call flush_ok now c) w = do_call ids flush_ok now c w"
| "run_stmt ids (Block explicit body) w =
     (let (cid, used) = choose_id explicit None (ids (al_fresh w));
          (res, w') = run_stmts ids body (w\<lparr>al_fresh := al_fresh w + used, al_correlation := Some cid\<rparr>)
      in (res, w'\<lparr>al_correlation := al_correlation w\<rparr>))"
| "run_stmt ids Raise w = (Some Body_error, w)"
| "run_stmts ids [] w = (None, w)"
| "run_stmts ids (s # ss) w =
     (case run_stmt ids s w of (Some e, w') \<Rightarrow> (Some e, w') | (None, w') \<Rightarrow> run_stmts ids ss w')"

subsection \<open>Lemmas\<close>

text \<open>The correlation ids of everything on file.\<close>

definition meta_id :: "(string, json) dict \<Rightarrow> string option" where
  "meta_id d =
     (case dict_get d ''_meta'' of
        Some (JObj m) \<Rightarrow> (case dict_get m ''correlation_id'' of Some (JStr s) \<Rightarrow> Some s | _ \<Rightarrow> None)
      | _ \<Rightarrow> None)"

definition logged_ids :: "audit_log \<Rightarrow> string option list" where
  "logged_ids w = map (meta_id \<circ> ud_raw_decision) (al_decisions w) @ map (meta_id \<circ> us_extra) (al_snapshots w)
     @ map (meta_id \<circ> er_details) (al_errors w)"

lemma stamp_meta_id: "stamp_meta cid payload = Inr d \<Longrightarrow> meta_id d = Some cid"
  by (auto simp: stamp_meta_def meta_id_def Let_def dict_get_set split: option.splits json.splits)

definition explicit_id :: "audit_call \<Rightarrow> string option" where
  "explicit_id c = (case c of Call_decision e _ _ _ _ _ \<Rightarrow> e | Call_snapshot e _ _ \<Rightarrow> e | Call_error e _ _ _ _ _ _ \<Rightarrow> e)"

text \<open>A call without an id of its own, in a context, is stored under the id of the context, and leaves it.\<close>

lemma do_call_logs:
  assumes "do_call ids flush_ok now c w = (res, w')"
  shows "al_correlation w' = al_correlation w"
    and "explicit_id c = None \<Longrightarrow> al_correlation w = Some cid \<Longrightarrow> cid \<noteq> []
      \<Longrightarrow> set (logged_ids w') \<subseteq> insert (Some cid) (set (logged_ids w))"
  using assms
  by (auto simp: do_call_def audit_decision_def audit_snapshot_def audit_error_def Let_def explicit_id_def choose_id_def
      logged_ids_def stamp_meta_id split: audit_call.splits sum.splits if_splits prod.splits)

text \<open>However a program ends, the context is what it was.\<close>

lemma context_restored:
  "run_stmt ids s w = (res, w') \<Longrightarrow> al_correlation w' = al_correlation w"
  "run_stmts ids ss w = (res, w') \<Longrightarrow> al_correlation w' = al_correlation w"
proof (induction ids s w and ids ss w arbitrary: res w' and res w' rule: run_stmt_run_stmts.induct)
  case (1 ids flush_ok now c w)
  then show ?case using do_call_logs(1) by simp
next
  case (2 ids explicit body w)
  then show ?case by (simp add: Let_def split: prod.splits) (metis audit_log.select_convs(4) audit_log.surjective audit_log.update_convs(4))
next
  case (5 ids s ss w)
  show ?case
  proof (cases "run_stmt ids s w")
    case (Pair r1 w1)
    note first = "5.IH"(1) [OF Pair]
    show ?thesis
    proof (cases r1)
      case None
      have "al_correlation w' = al_correlation w1" by (rule "5.IH"(2)) (use "5.prems" Pair None in simp_all)
      with first show ?thesis by simp
    next
      case (Some e)
      with "5.prems" Pair first show ?thesis by simp
    qed
  qed
qed simp_all

text \<open>A block whose calls pass no id of their own files all of them under its id.\<close>

lemma block_correlates:
  assumes "run_stmt ids (Block (Some cid) (map (\<lambda>(ok, now, c). Call ok now c) calls)) w = (res, w')" "cid \<noteq> []"
    and "\<forall>(ok, now, c) \<in> set calls. explicit_id c = None"
  shows "set (logged_ids w') \<subseteq> insert (Some cid) (set (logged_ids w))"
proof -
  have body: "set (logged_ids v') \<subseteq> insert (Some cid) (set (logged_ids v))"
    if "run_stmts ids (map (\<lambda>(ok, now, c). Call ok now c) cs) v = (r, v')" "al_correlation v = Some cid"
      "set cs \<subseteq> set calls" for cs v v' r
    using that
  proof (induction cs arbitrary: v)
    case (Cons x cs)
    obtain ok now c where x: "x = (ok, now, c)" by (cases x)
    obtain r1 v1 where v1: "do_call ids ok now c v = (r1, v1)" by (cases "do_call ids ok now c v")
    have "explicit_id c = None" using assms(3) Cons.prems(3) x by fastforce
    note first = do_call_logs(1) [OF v1] do_call_logs(2) [OF v1 this Cons.prems(2) assms(2)]
    show ?case
    proof (cases r1)
      case None
      with Cons.prems v1 x have "run_stmts ids (map (\<lambda>(ok, now, c). Call ok now c) cs) v1 = (r, v')" by simp
      from Cons.IH [OF this] first Cons.prems show ?thesis by auto
    next
      case (Some e)
      with Cons.prems v1 x have "v' = v1" by simp
      with first show ?thesis by simp
    qed
  qed auto
  obtain r v' where v: "run_stmts ids (map (\<lambda>(ok, now, c). Call ok now c) calls) (w\<lparr>al_correlation := Some cid\<rparr>) = (r, v')"
    by (cases "run_stmts ids (map (\<lambda>(ok, now, c). Call ok now c) calls) (w\<lparr>al_correlation := Some cid\<rparr>)")
  have "w' = v'\<lparr>al_correlation := al_correlation w\<rparr>"
    using assms(1,2) v by (simp add: choose_id_def Let_def)
  with body [OF v] show ?thesis by (simp add: logged_ids_def)
qed

end
