(* ===== verification/ConfigOverrides.thy ===== *)
theory ConfigOverrides
  imports PyText PyNumbers "HOL-Library.Sublist"
begin

text \<open>
  \<^verbatim>\<open>_apply_env_overrides\<close> of \<^verbatim>\<open>core/config.py\<close>: variables of the environment written over the tree that YAML gave.
  A float beyond the range of a double, or named so, is kept as its text; one below it is not rounded to zero.
\<close>

datatype cfg =
    Cfg_dict "(string, cfg) dict"
  | Cfg_list "cfg list"
  | Cfg_null
  | Cfg_bool bool
  | Cfg_int int
  | Cfg_float rat
  | Cfg_nonfinite string
  | Cfg_text string

subsection \<open>Reading a value\<close>

text \<open>\<^verbatim>\<open>str.lower\<close> on the first 256 characters.\<close>

definition lower_char :: "char \<Rightarrow> char" where
  "lower_char c =
     (let n = of_char c :: nat in if 65 \<le> n \<and> n \<le> 90 \<or> 192 \<le> n \<and> n \<le> 222 \<and> n \<noteq> 215 then char_of (n + 32) else c)"

definition lower :: "string \<Rightarrow> string" where
  "lower s = map lower_char s"

definition digit_or_underscore :: "char \<Rightarrow> bool" where
  "digit_or_underscore c \<longleftrightarrow> is_digit c \<or> c = CHR ''_''"

definition groups_value :: "string \<Rightarrow> int option" where
  "groups_value s =
     (if s = [] then Some 0
      else if digit_groups s then Some (digits_value (filter (\<lambda>c. c \<noteq> CHR ''_'') s)) else None)"

definition float_exponent :: "string \<Rightarrow> int option" where
  "float_exponent s =
     (case s of
        [] \<Rightarrow> Some 0
      | c # u \<Rightarrow>
          if c \<noteq> CHR ''e'' \<and> c \<noteq> CHR ''E'' then None
          else case drop_sign_of u of (neg, d) \<Rightarrow>
                 if d = [] then None else map_option (\<lambda>k. if neg then - k else k) (groups_value d))"

definition round_float :: "rat \<Rightarrow> cfg" where
  "round_float x =
     (if 2 ^ 1024 \<le> fl x then Cfg_nonfinite ''inf'' else if fl x \<le> - (2 ^ 1024) then Cfg_nonfinite ''-inf''
      else Cfg_float (fl x))"

text \<open>\<^verbatim>\<open>float(s)\<close>\<close>

definition parse_float :: "string \<Rightarrow> cfg option" where
  "parse_float s =
     (case drop_sign_of (strip_chars py_blank s) of (neg, t) \<Rightarrow>
        if lower t = ''inf'' \<or> lower t = ''infinity'' then Some (Cfg_nonfinite (if neg then ''-inf'' else ''inf''))
        else if lower t = ''nan'' then Some (Cfg_nonfinite ''nan'')
        else
        let whole = takeWhile digit_or_underscore t; rest = dropWhile digit_or_underscore t;
            (frac, rest) = (case rest of
                c # u \<Rightarrow> if c = CHR ''.'' then (takeWhile digit_or_underscore u, dropWhile digit_or_underscore u) else ([], rest)
              | [] \<Rightarrow> ([], []))
        in if whole = [] \<and> frac = [] then None
           else case (groups_value whole, groups_value frac, float_exponent rest) of
             (Some a, Some b, Some k) \<Rightarrow>
               let n = length (filter is_digit frac);
                   x = (of_int a + of_int b / 10 ^ n) * 10 powi k
               in Some (round_float (if neg then - x else x))
           | _ \<Rightarrow> None)"

definition env_value :: "string \<Rightarrow> cfg" where
  "env_value v =
     (if lower v = ''true'' then Cfg_bool True
      else if lower v = ''false'' then Cfg_bool False
      else case parse_int v of
        Some n \<Rightarrow> Cfg_int n
      | None \<Rightarrow> (case parse_float v of Some x \<Rightarrow> x | None \<Rightarrow> Cfg_text v))"

subsection \<open>Writing it\<close>

fun split_dunder :: "string \<Rightarrow> string list" where
  "split_dunder [] = [[]]"
| "split_dunder [c] = [[c]]"
| "split_dunder (c # d # s) =
     (if c = CHR ''_'' \<and> d = CHR ''_'' then [] # split_dunder s
      else case split_dunder (d # s) of p # ps \<Rightarrow> (c # p) # ps | [] \<Rightarrow> [[c]])"

text \<open>A part of the path that is missing, or no dict, becomes an empty dict on the way.\<close>

definition sub_dict :: "string \<Rightarrow> (string, cfg) dict \<Rightarrow> (string, cfg) dict" where
  "sub_dict k d = (case dict_get d k of Some (Cfg_dict e) \<Rightarrow> e | _ \<Rightarrow> [])"

fun set_path :: "string list \<Rightarrow> cfg \<Rightarrow> (string, cfg) dict \<Rightarrow> (string, cfg) dict" where
  "set_path [] v d = d"
| "set_path [leaf] v d = dict_set leaf v d"
| "set_path (k # ks) v d = dict_set k (Cfg_dict (set_path ks v (sub_dict k d))) d"

definition ENV_PREFIX :: string where "ENV_PREFIX = ''BOT__''"

definition apply_override :: "string \<times> string \<Rightarrow> (string, cfg) dict \<Rightarrow> (string, cfg) dict" where
  "apply_override kv d =
     (if take 5 (fst kv) \<noteq> ENV_PREFIX then d
      else set_path (split_dunder (lower (drop 5 (fst kv)))) (env_value (snd kv)) d)"

text \<open>The direct overrides: a variable that is set and not empty; the numeric ones have to be integers.\<close>

definition text_override :: "string \<Rightarrow> string \<Rightarrow> (string, string) dict \<Rightarrow> (string, cfg) dict \<Rightarrow> (string, cfg) dict" where
  "text_override var key environ d =
     (case dict_get environ var of None \<Rightarrow> d | Some v \<Rightarrow> if v = [] then d else dict_set key (Cfg_text v) d)"

definition int_override :: "string \<Rightarrow> string \<Rightarrow> (string, string) dict \<Rightarrow> (string, cfg) dict \<Rightarrow> (string, cfg) dict result" where
  "int_override var key environ d =
     (case dict_get environ var of
        None \<Rightarrow> Inr d
      | Some v \<Rightarrow>
          if v = [] then Inr d
          else case parse_int v of None \<Rightarrow> Inl ValueError | Some n \<Rightarrow> Inr (dict_set key (Cfg_int n) d))"

definition apply_env_overrides :: "(string, string) dict \<Rightarrow> (string, cfg) dict \<Rightarrow> (string, cfg) dict result" where
  "apply_env_overrides environ d =
     (let d = foldl (\<lambda>d kv. apply_override kv d) d environ;
          d = text_override ''APP_HOST'' ''app_host'' environ (text_override ''DATABASE_URL'' ''database_url'' environ d)
      in bindE (int_override ''APP_PORT'' ''app_port'' environ d) (\<lambda>d.
         bindE (int_override ''DB_POOL_SIZE'' ''db_pool_size'' environ d) (\<lambda>d.
         int_override ''DB_MAX_OVERFLOW'' ''db_max_overflow'' environ d)))"

subsection \<open>What an override changes\<close>

text \<open>What a reader of the tree finds under a path.\<close>

fun get_path :: "string list \<Rightarrow> (string, cfg) dict \<Rightarrow> cfg option" where
  "get_path [] d = Some (Cfg_dict d)"
| "get_path [leaf] d = dict_get d leaf"
| "get_path (k # ks) d = (case dict_get d k of Some (Cfg_dict e) \<Rightarrow> get_path ks e | _ \<Rightarrow> None)"

lemma get_path_sub: "ks \<noteq> [] \<Longrightarrow> get_path (k # ks) d = (case dict_get d k of Some (Cfg_dict e) \<Rightarrow> get_path ks e | _ \<Rightarrow> None)"
  by (cases ks) auto

lemma set_path_sub: "ks \<noteq> [] \<Longrightarrow> set_path (k # ks) v d = dict_set k (Cfg_dict (set_path ks v (sub_dict k d))) d"
  by (cases ks) auto

lemma set_path_get: "p \<noteq> [] \<Longrightarrow> get_path p (set_path p v d) = Some v"
proof (induction p arbitrary: d)
  case (Cons k ks)
  then show ?case by (cases "ks = []") (simp_all add: dict_get_set get_path_sub set_path_sub)
qed simp

text \<open>An override leaves every path alone that does not run through its own, or ends on it.\<close>

lemma set_path_other:
  assumes "\<not> prefix p q" "\<not> prefix q p" "p \<noteq> []"
  shows "get_path q (set_path p v d) = get_path q d"
  using assms
proof (induction p arbitrary: q d)
  case (Cons k ks)
  then obtain j js where q: "q = j # js" by (cases q) auto
  show ?case
  proof (cases "j = k")
    case False
    then have "dict_get (set_path (k # ks) v d) j = dict_get d j" by (cases ks) (simp_all add: dict_get_set)
    then show ?thesis by (cases js) (simp_all add: q)
  next
    case True
    with Cons.prems q have ks: "ks \<noteq> []" "js \<noteq> []" "\<not> prefix ks js" "\<not> prefix js ks" by auto
    have empty: "get_path js [] = None" using ks(2) by (cases js; cases "tl js") auto
    have "get_path js (set_path ks v (sub_dict k d)) = get_path js (sub_dict k d)" by (rule Cons.IH [OF ks(3,4,1)])
    then show ?thesis
      using empty by (simp add: q True set_path_sub [OF ks(1)] get_path_sub [OF ks(2)] dict_get_set sub_dict_def
          split: option.split cfg.split)
  qed
qed simp

end
