(* ===== verification/Repositories.thy ===== *)
theory Repositories
  imports Storage BacktestValidation SafeMode
begin

text \<open>
  \<^verbatim>\<open>storage/repositories\<close>: the operations that every repository inherits from \<^verbatim>\<open>base.py\<close>, and the queries that no
  modelled operation of the bot makes (the others stand with the component that makes them). A table is a list of
  rows in the order of their insertion; rows of one instant come in that order, which the database does not promise.
  The locale states what the inherited operations promise of a table with unique identifiers.
\<close>

subsection \<open>The base repository\<close>

text \<open>\<^verbatim>\<open>save\<close> of a new instance: the primary key is unique. \<^verbatim>\<open>save_all\<close> flushes once, so it is all or nothing.\<close>

definition repo_save :: "('r \<Rightarrow> string) \<Rightarrow> 'r \<Rightarrow> 'r list \<Rightarrow> 'r list result" where
  "repo_save id_of r table = (if id_of r \<in> set (map id_of table) then Inl IntegrityError else Inr (table @ [r]))"

fun repo_save_all :: "('r \<Rightarrow> string) \<Rightarrow> 'r list \<Rightarrow> 'r list \<Rightarrow> 'r list result" where
  "repo_save_all id_of [] table = Inr table"
| "repo_save_all id_of (r # rs) table = bindE (repo_save id_of r table) (repo_save_all id_of rs)"

definition repo_delete :: "('r \<Rightarrow> string) \<Rightarrow> string \<Rightarrow> 'r list \<Rightarrow> 'r list" where
  "repo_delete id_of k table = filter (\<lambda>r. id_of r \<noteq> k) table"

definition repo_get_by_id :: "('r \<Rightarrow> string) \<Rightarrow> string \<Rightarrow> 'r list \<Rightarrow> 'r option" where
  "repo_get_by_id id_of k table = find (\<lambda>r. id_of r = k) table"

definition repo_list_by_bot_run ::
    "('r \<Rightarrow> string) \<Rightarrow> ('r \<Rightarrow> string) \<Rightarrow> string \<Rightarrow> nat \<Rightarrow> nat \<Rightarrow> 'r list \<Rightarrow> 'r list" where
  "repo_list_by_bot_run id_of run_of run limit offset table =
     take limit (drop offset (sort_key id_of (filter (\<lambda>r. run_of r = run) table)))"

definition repo_where :: "('r \<Rightarrow> bool) list \<Rightarrow> 'r list \<Rightarrow> 'r list" where
  "repo_where filters table = filter (\<lambda>r. list_all (\<lambda>f. f r) filters) table"

text \<open>\<^verbatim>\<open>order_by(key.desc()).limit(n)\<close>\<close>

definition newest :: "('r \<Rightarrow> int) \<Rightarrow> ('r \<Rightarrow> bool) \<Rightarrow> nat \<Rightarrow> 'r list \<Rightarrow> 'r list" where
  "newest key keep limit table = take limit (sort_key (\<lambda>r. - key r) (filter keep table))"

subsection \<open>Queries on trades, orders and positions\<close>

definition list_open_trades :: "string \<Rightarrow> db \<Rightarrow> trade_row list" where
  "list_open_trades run d = filter (\<lambda>r. td_bot_run_id r = run \<and> td_status r = ''OPEN'') (db_trades d)"

definition trades_by_symbol :: "string \<Rightarrow> string \<Rightarrow> nat \<Rightarrow> db \<Rightarrow> trade_row list" where
  "trades_by_symbol run symb limit d =
     newest td_opened_at (\<lambda>r. td_bot_run_id r = run \<and> td_symbol r = symb) limit (db_trades d)"

definition trades_by_status :: "string \<Rightarrow> string \<Rightarrow> nat \<Rightarrow> db \<Rightarrow> trade_row list" where
  "trades_by_status run status limit d =
     newest td_opened_at (\<lambda>r. td_bot_run_id r = run \<and> td_status r = status) limit (db_trades d)"

definition get_by_exchange_id :: "string \<Rightarrow> db \<Rightarrow> order_row option" where
  "get_by_exchange_id k d = find (\<lambda>r. od_exchange_order_id r = Some k) (db_orders d)"

definition orders_by_trade :: "string \<Rightarrow> db \<Rightarrow> order_row list" where
  "orders_by_trade k d = sort_key od_created_at (filter (\<lambda>r. od_trade_id r = Some k) (db_orders d))"

definition get_open_by_symbol :: "string \<Rightarrow> string \<Rightarrow> db \<Rightarrow> position_row option" where
  "get_open_by_symbol run symb d =
     find (\<lambda>r. po_bot_run_id r = run \<and> po_symbol r = symb \<and> po_status r = ''OPEN'') (db_positions d)"

definition position_by_trade :: "string \<Rightarrow> db \<Rightarrow> position_row option" where
  "position_by_trade k d = find (\<lambda>r. po_trade_id r = Some k) (db_positions d)"

subsection \<open>Queries on decisions, requests and events\<close>

text \<open>Rows of the audit tables with their time stamps.\<close>

definition decisions_by_symbol :: "string \<Rightarrow> string \<Rightarrow> nat \<Rightarrow> (int \<times> decision_row) list \<Rightarrow> (int \<times> decision_row) list" where
  "decisions_by_symbol run symb limit table =
     newest fst (\<lambda>r. dn_bot_run_id (snd r) = run \<and> dn_symbol (snd r) = symb) limit table"

definition decisions_by_action :: "string \<Rightarrow> string \<Rightarrow> nat \<Rightarrow> (int \<times> decision_row) list \<Rightarrow> (int \<times> decision_row) list" where
  "decisions_by_action run action limit table =
     newest fst (\<lambda>r. dn_bot_run_id (snd r) = run \<and> dn_action (snd r) = action) limit table"

definition aggregation_by_decision :: "string \<Rightarrow> db \<Rightarrow> aggregation_row option" where
  "aggregation_by_decision k d = find (\<lambda>r. gn_decision_id r = Some k) (db_aggregations d)"

definition aggregations_by_symbol ::
    "string \<Rightarrow> string \<Rightarrow> nat \<Rightarrow> (int \<times> aggregation_row) list \<Rightarrow> (int \<times> aggregation_row) list" where
  "aggregations_by_symbol run symb limit table =
     newest fst (\<lambda>r. gn_bot_run_id (snd r) = run \<and> gn_symbol (snd r) = symb) limit table"

definition validation_by_aggregation :: "string \<Rightarrow> db \<Rightarrow> validation_row option" where
  "validation_by_aggregation k d = find (\<lambda>r. vn_decision_aggregation_id r = Some k) (db_validations d)"

definition validations_by_result ::
    "string \<Rightarrow> string \<Rightarrow> nat \<Rightarrow> (int \<times> validation_row) list \<Rightarrow> (int \<times> validation_row) list" where
  "validations_by_result run verdict limit table =
     newest fst (\<lambda>r. vn_bot_run_id (snd r) = run \<and> vn_result (snd r) = verdict) limit table"

definition request_by_hash :: "string \<Rightarrow> db \<Rightarrow> model_request_row option" where
  "request_by_hash h d = find (\<lambda>r. mq_request_hash r = h) (db_model_requests d)"

definition response_by_request :: "string \<Rightarrow> db \<Rightarrow> model_response_row option" where
  "response_by_request k d = find (\<lambda>r. mp_model_request_id r = k) (db_model_responses d)"

definition usage_by_model :: "string \<Rightarrow> string \<Rightarrow> nat \<Rightarrow> db \<Rightarrow> token_usage_row list" where
  "usage_by_model run model limit d =
     newest tu_timestamp (\<lambda>r. tu_bot_run_id r = run \<and> tu_model r = model) limit (db_token_usage d)"

definition system_events :: "db \<Rightarrow> system_event list" where
  "system_events d = concat (map (\<lambda>e. case e of SystemEvent s \<Rightarrow> [s] | KillSwitchEvent _ \<Rightarrow> []) (db_events d))"

definition kill_switch_events :: "db \<Rightarrow> kill_switch_event list" where
  "kill_switch_events d = concat (map (\<lambda>e. case e of KillSwitchEvent k \<Rightarrow> [k] | SystemEvent _ \<Rightarrow> []) (db_events d))"

definition events_by_severity :: "string \<Rightarrow> string \<Rightarrow> nat \<Rightarrow> db \<Rightarrow> system_event list" where
  "events_by_severity run severity limit d =
     newest sv_timestamp (\<lambda>r. sv_bot_run_id r = run \<and> sv_severity r = severity) limit (system_events d)"

definition events_by_type :: "string \<Rightarrow> string \<Rightarrow> nat \<Rightarrow> db \<Rightarrow> system_event list" where
  "events_by_type run event_type limit d =
     newest sv_timestamp (\<lambda>r. sv_bot_run_id r = run \<and> sv_event_type r = event_type) limit (system_events d)"

definition list_pending_review :: "string \<Rightarrow> db \<Rightarrow> kill_switch_event list" where
  "list_pending_review run d =
     sort_key (\<lambda>r. - ke_timestamp r)
       (filter (\<lambda>r. ke_bot_run_id r = run \<and> ke_requires_manual_review r) (kill_switch_events d))"

definition backtest_runs_by_status :: "string \<Rightarrow> run_status \<Rightarrow> backtest_run_row list \<Rightarrow> backtest_run_row list" where
  "backtest_runs_by_status run status rows = filter (\<lambda>r. bru_bot_run_id r = run \<and> bru_status r = status) rows"

definition results_by_backtest_run :: "string \<Rightarrow> backtest_result_row list \<Rightarrow> backtest_result_row list" where
  "results_by_backtest_run k rows = filter (\<lambda>r. brr_backtest_run_id r = k) rows"

subsection \<open>The contract of the base repository\<close>

text \<open>A table whose rows have unique identifiers, as the primary key keeps it.\<close>

locale repository =
  fixes save :: "'r \<Rightarrow> 'r list \<Rightarrow> 'r list result"
    and delete :: "string \<Rightarrow> 'r list \<Rightarrow> 'r list"
    and get :: "string \<Rightarrow> 'r list \<Rightarrow> 'r option"
    and id_of :: "'r \<Rightarrow> string"
    and unique :: "'r list \<Rightarrow> bool"
  assumes save_Inl: "save r t = Inl e \<Longrightarrow> get (id_of r) t \<noteq> None"
    and save_unique: "unique t \<Longrightarrow> save r t = Inr t' \<Longrightarrow> unique t'"
    and save_get: "save r t = Inr t' \<Longrightarrow> get k t' = (if k = id_of r then Some r else get k t)"
    and delete_unique: "unique t \<Longrightarrow> unique (delete k t)"
    and delete_get: "get j (delete k t) = (if j = k then None else get j t)"
    and get_id: "get k t = Some r \<Longrightarrow> id_of r = k"
begin

lemma save_after_delete:
  assumes "save r (delete (id_of r) t) = Inl e"
  shows False
  using save_Inl [OF assms] delete_get [of "id_of r" "id_of r" t] by simp

text \<open>Replacing a row: a delete and a save always succeed and change that row only.\<close>

lemma replace_row:
  obtains t' where "save r (delete (id_of r) t) = Inr t'" "get k t' = (if k = id_of r then Some r else get k t)"
proof (cases "save r (delete (id_of r) t)")
  case (Inl e)
  then show ?thesis using save_after_delete by blast
next
  case (Inr t')
  then show ?thesis using that save_get [OF Inr, of k] delete_get by simp
qed

end

definition unique_ids :: "('r \<Rightarrow> string) \<Rightarrow> 'r list \<Rightarrow> bool" where
  "unique_ids id_of t \<longleftrightarrow> distinct (map id_of t)"

lemma find_append: "find P (xs @ ys) = (case find P xs of None \<Rightarrow> find P ys | Some x \<Rightarrow> Some x)"
  by (induction xs) auto

lemma find_filter: "find P (filter Q xs) = find (\<lambda>x. Q x \<and> P x) xs"
  by (induction xs) auto

lemma base_repository:
  fixes id_of :: "'r \<Rightarrow> string"
  shows "repository (repo_save id_of) (repo_delete id_of) (repo_get_by_id id_of) id_of (unique_ids id_of)"
proof
  fix r t e assume "repo_save id_of r t = Inl e"
  then show "repo_get_by_id id_of (id_of r) t \<noteq> None"
    by (auto simp: repo_save_def repo_get_by_id_def find_None_iff split: if_splits)
next
  fix r t t' k assume "repo_save id_of r t = Inr t'"
  moreover have "id_of r \<notin> id_of ` set t \<Longrightarrow> find (\<lambda>x. id_of x = id_of r) t = None"
    unfolding find_None_iff by (metis imageI)
  ultimately show "repo_get_by_id id_of k t' = (if k = id_of r then Some r else repo_get_by_id id_of k t)"
    by (auto simp: repo_save_def repo_get_by_id_def find_append split: if_splits option.splits)
next
  fix j k and t :: "'r list"
  have "(\<lambda>x. id_of x \<noteq> k \<and> id_of x = j) = (if j = k then (\<lambda>_. False) else (\<lambda>x. id_of x = j))" by auto
  moreover have "find (\<lambda>_. False) t = None" by (simp add: find_None_iff)
  ultimately show "repo_get_by_id id_of j (repo_delete id_of k t) = (if j = k then None else repo_get_by_id id_of j t)"
    by (simp add: repo_get_by_id_def repo_delete_def find_filter)
qed (auto simp: repo_save_def repo_delete_def repo_get_by_id_def unique_ids_def find_Some_iff distinct_map_filter
      split: if_splits)

interpretation orders: repository "repo_save od_id" "repo_delete od_id" "repo_get_by_id od_id" od_id "unique_ids od_id"
  by (rule base_repository)

interpretation trades: repository "repo_save td_id" "repo_delete td_id" "repo_get_by_id td_id" td_id "unique_ids td_id"
  by (rule base_repository)

interpretation positions: repository "repo_save po_id" "repo_delete po_id" "repo_get_by_id po_id" po_id "unique_ids po_id"
  by (rule base_repository)

text \<open>The pages of \<^verbatim>\<open>list_by_bot_run\<close> follow the primary key, so they leave nothing out: consecutive pages make up the
  rows of the run.\<close>

lemma list_by_bot_run_pages:
  "repo_list_by_bot_run id_of run_of run m n t @ repo_list_by_bot_run id_of run_of run l (n + m) t
   = repo_list_by_bot_run id_of run_of run (m + l) n t"
  by (simp add: repo_list_by_bot_run_def take_add add.commute [of n])

lemma save_all_rows: "repo_save_all id_of rs t = Inr t' \<Longrightarrow> t' = t @ rs"
  by (induction rs arbitrary: t) (fastforce simp: bindE_Inr_iff repo_save_def split: if_splits)+

lemma save_all_unique: "unique_ids id_of t \<Longrightarrow> repo_save_all id_of rs t = Inr t' \<Longrightarrow> unique_ids id_of t'"
proof (induction rs arbitrary: t)
  case (Cons r rs)
  then obtain t1 where t1: "repo_save id_of r t = Inr t1" "repo_save_all id_of rs t1 = Inr t'" by (auto simp: bindE_Inr_iff)
  then have "unique_ids id_of t1" using Cons.prems(1) by (auto simp: repo_save_def unique_ids_def split: if_splits)
  then show ?case using t1(2) by (rule Cons.IH)
qed simp

end
