(* ===== verification/Features.thy ===== *)
theory Features
  imports MarketCycle SafeMode Storage
begin

text \<open>
  \<^verbatim>\<open>backend/feature_engineering\<close>: the versioned vector of features built from the analysis of one snapshot
  (\<^verbatim>\<open>builder.py\<close>), its normalisation (\<^verbatim>\<open>normalization.py\<close>), the package with its hash (\<^verbatim>\<open>schemas.py\<close>) and the table
  it is saved in (\<^verbatim>\<open>feature_store.py\<close>). SHA-256 of the JSON text, with its keys in order, is the parameter
  \<open>digest\<close>.
\<close>

subsection \<open>Normalisation\<close>

definition clamp :: "rat \<Rightarrow> rat \<Rightarrow> rat \<Rightarrow> rat result" where
  "clamp v minimum maximum = (if maximum < minimum then Inl ValueError else Inr (max minimum (min maximum v)))"

definition round_feature :: "rat \<Rightarrow> rat" where
  "round_feature v = fround 8 v"

definition optional_float :: "rat option \<Rightarrow> rat" where
  "optional_float v = (case v of None \<Rightarrow> round_feature 0 | Some x \<Rightarrow> round_feature (fl x))"

definition signal_feature :: "rat option \<Rightarrow> rat result" where
  "signal_feature v = map_sum id round_feature (clamp (optional_float v) (- 1) 1)"

definition score_feature :: "rat option \<Rightarrow> rat result" where
  "score_feature v = map_sum id round_feature (clamp (optional_float v) 0 1)"

definition percent_feature :: "rat option \<Rightarrow> rat \<Rightarrow> rat result" where
  "percent_feature v cap =
     (if cap \<le> 0 then Inl ValueError else map_sum id round_feature (clamp (fdiv (optional_float v) cap) 0 1))"

text \<open>
  Python values as \<^verbatim>\<open>canonicalize\<close> tells them apart: a decimal by the text that \<^verbatim>\<open>str\<close> gives, an enum by its value,
  dictionaries with string keys.
\<close>

datatype py_value =
    PyNone
  | PyBool bool
  | PyInt int
  | PyFloat rat
  | PyStr string
  | PyDecimal string
  | PyEnum string
  | PyList "py_value list"
  | PyTuple "py_value list"
  | PyDict "(string \<times> py_value) list"

primrec canonicalize :: "py_value \<Rightarrow> py_value" where
  "canonicalize PyNone = PyNone"
| "canonicalize (PyBool b) = PyBool b"
| "canonicalize (PyInt n) = PyInt n"
| "canonicalize (PyFloat x) = PyFloat (round_feature x)"
| "canonicalize (PyStr s) = PyStr s"
| "canonicalize (PyDecimal s) = PyStr s"
| "canonicalize (PyEnum s) = PyStr s"
| "canonicalize (PyList xs) = PyList (map canonicalize xs)"
| "canonicalize (PyTuple xs) = PyList (map canonicalize xs)"
| "canonicalize (PyDict d) = PyDict (sort_key fst (map (map_prod id canonicalize) d))"

definition enum_feature :: "('a \<Rightarrow> string) \<Rightarrow> 'a option \<Rightarrow> py_value" where
  "enum_feature text v = (case v of None \<Rightarrow> PyNone | Some x \<Rightarrow> PyStr (text x))"

subsection \<open>The values of the enumerations\<close>

fun primary_regime_value :: "primary_regime \<Rightarrow> string" where
  "primary_regime_value TRENDING = ''TRENDING''"
| "primary_regime_value RANGING = ''RANGING''"
| "primary_regime_value HIGH_VOLATILITY = ''HIGH_VOLATILITY''"
| "primary_regime_value LOW_VOLATILITY = ''LOW_VOLATILITY''"
| "primary_regime_value BREAKOUT = ''BREAKOUT''"
| "primary_regime_value UNCLEAR = ''UNCLEAR''"

fun volatility_state_value :: "volatility_state \<Rightarrow> string" where
  "volatility_state_value VOL_HIGH = ''HIGH''"
| "volatility_state_value VOL_NORMAL = ''NORMAL''"
| "volatility_state_value VOL_LOW = ''LOW''"

fun liquidity_state_value :: "liquidity_state \<Rightarrow> string" where
  "liquidity_state_value LIQ_HIGH = ''HIGH''"
| "liquidity_state_value LIQ_NORMAL = ''NORMAL''"
| "liquidity_state_value LIQ_LOW = ''LOW''"

fun funding_state_value :: "funding_state \<Rightarrow> string" where
  "funding_state_value FUND_POSITIVE = ''POSITIVE''"
| "funding_state_value FUND_NEUTRAL = ''NEUTRAL''"
| "funding_state_value FUND_NEGATIVE = ''NEGATIVE''"
| "funding_state_value FUND_EXTREME = ''EXTREME''"

fun open_interest_state_value :: "open_interest_state \<Rightarrow> string" where
  "open_interest_state_value OI_RISING = ''RISING''"
| "open_interest_state_value OI_STABLE = ''STABLE''"
| "open_interest_state_value OI_FALLING = ''FALLING''"
| "open_interest_state_value OI_UNKNOWN = ''UNKNOWN''"

fun trend_alignment_value :: "trend_alignment \<Rightarrow> string" where
  "trend_alignment_value BULLISH = ''BULLISH''"
| "trend_alignment_value BEARISH = ''BEARISH''"
| "trend_alignment_value MIXED = ''MIXED''"
| "trend_alignment_value NEUTRAL = ''NEUTRAL''"

fun volatility_regime_value :: "volatility_regime \<Rightarrow> string" where
  "volatility_regime_value EXPANSION = ''EXPANSION''"
| "volatility_regime_value CONTRACTION = ''CONTRACTION''"

subsection \<open>The package\<close>

definition FEATURE_PACKAGE_VERSION :: string where "FEATURE_PACKAGE_VERSION = ''1.0''"

definition compute_features_hash ::
    "(py_value \<Rightarrow> string) \<Rightarrow> (string, py_value) dict \<Rightarrow> string \<Rightarrow> (string, string) dict \<Rightarrow> string" where
  "compute_features_hash digest features version source_versions =
     digest (PyDict [(''features'', canonicalize (PyDict features)),
                     (''source_versions'', canonicalize (PyDict (map (map_prod id PyStr) source_versions))),
                     (''version'', PyStr version)])"

record feature_package =
  fp_package_id :: string
  fp_snapshot_id :: string
  fp_symbol :: symbol
  fp_timestamp_utc :: int
  fp_version :: string
  fp_features :: "(string, py_value) dict"
  fp_features_hash :: "string option"
  fp_source_versions :: "(string, string) dict"
  fp_details :: "(string, py_value) dict"

definition is_sha256 :: "string \<Rightarrow> bool" where
  "is_sha256 s \<longleftrightarrow> length s = 64 \<and> list_all (List.member ''0123456789abcdef'') s"

definition make_feature_package :: "(py_value \<Rightarrow> string) \<Rightarrow> feature_package \<Rightarrow> feature_package result" where
  "make_feature_package digest p =
     (let expected = compute_features_hash digest (fp_features p) (fp_version p) (fp_source_versions p)
      in if uuid_valid (fp_package_id p) \<and> uuid_valid (fp_snapshot_id p) \<and> List.member allowed_symbols (fp_symbol p)
            \<and> (case fp_features_hash p of None \<Rightarrow> True | Some h \<Rightarrow> is_sha256 h \<and> h = expected)
         then Inr (p\<lparr>fp_features_hash := Some expected\<rparr>) else Inl ValidationError)"

subsection \<open>Building it\<close>

text \<open>The identity of the quant signals, and what the regime and the volatility carry beside the modelled fields.\<close>

record signals_identity =
  si_signal_id :: string
  si_snapshot_id :: string
  si_symbol :: symbol
  si_timestamp_utc :: int
  si_timeframes_used :: "string list"
  si_signal_confidence :: "rat option"
  si_version :: string

record package_identity =
  pi_id :: string
  pi_version :: string

definition MAX_LEVERAGE_CAP :: rat where "MAX_LEVERAGE_CAP = 10"

text \<open>The features in the order of the code, each with the error its normaliser may raise.\<close>

definition feature_rows ::
    "signals_identity \<Rightarrow> quant_signals_package \<Rightarrow> regime_assessment \<Rightarrow> volatility_assessment
      \<Rightarrow> (string \<times> py_value result) list" where
  "feature_rows si q r v =
     [(''signal.momentum'', map_sum id PyFloat (signal_feature (qs_momentum_signal q))),
      (''signal.mean_reversion'', map_sum id PyFloat (signal_feature (qs_mean_reversion_signal q))),
      (''signal.breakout'', map_sum id PyFloat (signal_feature (qs_breakout_signal q))),
      (''signal.funding'', map_sum id PyFloat (signal_feature (qs_funding_signal q))),
      (''signal.open_interest'', map_sum id PyFloat (signal_feature (qs_open_interest_signal q))),
      (''signal.order_flow_imbalance'', map_sum id PyFloat (signal_feature (qs_order_flow_imbalance_signal q))),
      (''signal.liquidity_sweep'', map_sum id PyFloat (signal_feature (qs_liquidity_sweep_signal q))),
      (''signal.strength'', map_sum id PyFloat (score_feature (qs_signal_strength_score q))),
      (''signal.conflict'', map_sum id PyFloat (score_feature (qs_signal_conflict_score q))),
      (''signal.confidence'', map_sum id PyFloat (score_feature (si_signal_confidence si))),
      (''regime.primary'', Inr (enum_feature primary_regime_value (Some (ra_primary_regime r)))),
      (''regime.secondary'', Inr (enum_feature primary_regime_value (ra_secondary_regime r))),
      (''regime.confidence'', map_sum id PyFloat (score_feature (Some (ra_regime_confidence r)))),
      (''regime.volatility_state'', Inr (enum_feature volatility_state_value (Some (ra_volatility_state r)))),
      (''regime.liquidity_state'', Inr (enum_feature liquidity_state_value (Some (ra_liquidity_state r)))),
      (''regime.funding_state'', Inr (enum_feature funding_state_value (Some (ra_funding_state r)))),
      (''regime.open_interest_state'', Inr (enum_feature open_interest_state_value (Some (ra_open_interest_state r)))),
      (''regime.trend_alignment'', Inr (enum_feature trend_alignment_value (Some (ra_trend_alignment r)))),
      (''volatility.atr_percent_norm'', map_sum id PyFloat (percent_feature (Some (vo_atr_percent v)) 100)),
      (''volatility.realized_vol'', Inr (PyFloat (optional_float (Some (vo_realized_vol v))))),
      (''volatility.regime'', Inr (enum_feature volatility_regime_value (Some (vo_volatility_regime v)))),
      (''volatility.score'', map_sum id PyFloat (score_feature (Some (vo_volatility_score v)))),
      (''volatility.leverage_cap'',
         map_sum id PyFloat (score_feature (Some (fdiv (of_int (vo_leverage_cap v)) MAX_LEVERAGE_CAP)))),
      (''volatility.liquidation_risk_score'', map_sum id PyFloat (score_feature (Some (vo_liquidation_risk_score v))))]"

fun collect_features :: "(string \<times> py_value result) list \<Rightarrow> (string, py_value) dict result" where
  "collect_features [] = Inr []"
| "collect_features ((k, r) # rows) = bindE r (\<lambda>x. bindE (collect_features rows) (\<lambda>d. Inr ((k, x) # d)))"

definition build_feature_package ::
    "(py_value \<Rightarrow> string) \<Rightarrow> string \<Rightarrow> signals_identity \<Rightarrow> quant_signals_package
      \<Rightarrow> package_identity \<Rightarrow> regime_assessment \<Rightarrow> package_identity \<Rightarrow> volatility_assessment \<Rightarrow> feature_package result" where
  "build_feature_package digest package_id si q ri r vi v =
     (if ra_snapshot_id r \<noteq> si_snapshot_id si \<or> vo_snapshot_id v \<noteq> si_snapshot_id si then Inl ValueError
      else if ra_symbol r \<noteq> si_symbol si \<or> vo_symbol v \<noteq> si_symbol si then Inl ValueError
      else bindE (collect_features (feature_rows si q r v)) (\<lambda>features.
        make_feature_package digest
          \<lparr>fp_package_id = package_id, fp_snapshot_id = si_snapshot_id si, fp_symbol = si_symbol si,
           fp_timestamp_utc = si_timestamp_utc si, fp_version = FEATURE_PACKAGE_VERSION, fp_features = features,
           fp_features_hash = None,
           fp_source_versions = [(''feature_engineering'', FEATURE_PACKAGE_VERSION), (''quant_signals'', si_version si),
             (''market_regime'', pi_version ri), (''volatility'', pi_version vi)],
           fp_details =
             [(''input_ids'', PyDict [(''quant_signal_id'', PyStr (si_signal_id si)), (''market_regime_id'', PyStr (pi_id ri)),
                (''volatility_assessment_id'', PyStr (pi_id vi))]),
              (''timeframes_used'', PyList (map PyStr (si_timeframes_used si)))]\<rparr>))"

subsection \<open>The table\<close>

record feature_row =
  fr_id :: string
  fr_bot_run_id :: string
  fr_market_snapshot_id :: string
  fr_symbol :: symbol
  fr_timestamp :: int
  fr_version :: string
  fr_features :: py_value
  fr_hash :: string

definition to_db_kwargs :: "string \<Rightarrow> feature_package \<Rightarrow> feature_row" where
  "to_db_kwargs bot_run_id p =
     \<lparr>fr_id = fp_package_id p, fr_bot_run_id = bot_run_id, fr_market_snapshot_id = fp_snapshot_id p,
      fr_symbol = fp_symbol p, fr_timestamp = fp_timestamp_utc p, fr_version = fp_version p,
      fr_features = canonicalize (PyDict (fp_features p)), fr_hash = the (fp_features_hash p)\<rparr>"

text \<open>The primary key and the column \<^verbatim>\<open>hash\<close> are unique.\<close>

definition save_feature_package :: "string \<Rightarrow> feature_package \<Rightarrow> feature_row list \<Rightarrow> feature_row list result" where
  "save_feature_package bot_run_id p rows =
     (let row = to_db_kwargs bot_run_id p
      in if fr_id row \<in> set (map fr_id rows) \<or> fr_hash row \<in> set (map fr_hash rows) then Inl IntegrityError
         else Inr (rows @ [row]))"

definition get_feature_by_hash :: "string \<Rightarrow> feature_row list \<Rightarrow> feature_row option" where
  "get_feature_by_hash h rows = List.find (\<lambda>r. fr_hash r = h) rows"

definition latest_feature :: "string \<Rightarrow> string \<Rightarrow> feature_row list \<Rightarrow> feature_row option" where
  "latest_feature bot_run_id symb rows =
     latest_by fr_timestamp (filter (\<lambda>r. fr_bot_run_id r = bot_run_id \<and> fr_symbol r = symb) rows)"


subsection \<open>Rounding twice\<close>

text \<open>Multiples of a power of two are floats, so a float is within that power of any number it rounds.\<close>

lemma fl_grid: "\<bar>k\<bar> < 2 ^ 53 \<Longrightarrow> fl (of_int k / 2 ^ 30) = of_int k / 2 ^ 30"
  unfolding fl_def by (rule rnd_exact [where m = k and k = "- 30"]) (simp_all add: power_int_minus field_simps)

lemma fl_error:
  assumes "\<bar>x\<bar> \<le> 2 ^ 22"
  shows "\<bar>fl x - x\<bar> \<le> 1 / 2 ^ 30"
proof -
  define k where "k = \<lfloor>x * 2 ^ 30\<rfloor>"
  have k: "of_int k \<le> x * 2 ^ 30" "x * 2 ^ 30 < of_int (k + 1)" unfolding k_def by linarith+
  have "x * 2 ^ 30 \<le> 2 ^ 22 * 2 ^ 30" "- (2 ^ 22 * 2 ^ 30) \<le> x * 2 ^ 30" using assms by auto
  then have "(of_int k :: rat) \<le> of_int (2 ^ 52)" "(of_int (- (2 ^ 52) - 1) :: rat) < of_int k" using k by auto
  then have "k \<le> 2 ^ 52" "- (2 ^ 52) - 1 < k" by (simp_all only: of_int_le_iff of_int_less_iff)
  then have grid: "fl (of_int k / 2 ^ 30) = of_int k / 2 ^ 30" "fl (of_int (k + 1) / 2 ^ 30) = of_int (k + 1) / 2 ^ 30"
    by (intro fl_grid; simp)+
  have "of_int k / 2 ^ 30 \<le> x" "x \<le> of_int (k + 1) / 2 ^ 30" using k by (simp_all add: field_simps)
  with flt.rd_mono [of "of_int k / 2 ^ 30" x] flt.rd_mono [of x "of_int (k + 1) / 2 ^ 30"]
  have "of_int k / 2 ^ 30 \<le> fl x" "fl x \<le> of_int (k + 1) / 2 ^ 30" unfolding grid by simp_all
  moreover have "of_int (k + 1) / 2 ^ 30 = (of_int k / 2 ^ 30 + 1 / 2 ^ 30 :: rat)" by (simp add: field_simps)
  ultimately show ?thesis
    using \<open>of_int k / 2 ^ 30 \<le> x\<close> \<open>x \<le> of_int (k + 1) / 2 ^ 30\<close> by (simp only: abs_le_iff) linarith
qed

lemma rhe_near: "\<bar>z - of_int m\<bar> < 1 / 2 \<Longrightarrow> rhe z = m"
proof -
  assume "\<bar>z - of_int m\<bar> < 1 / 2"
  with rhe_bounds [of z] have "\<bar>(of_int (rhe z) - of_int m :: rat)\<bar> < 1" by linarith
  then have "\<bar>(of_int (rhe z - m) :: rat)\<bar> < of_int 1" by simp
  then have "\<bar>rhe z - m\<bar> < 1" by (simp only: of_int_abs [symmetric] of_int_less_iff)
  then show ?thesis by simp
qed

lemma round_feature_idem:
  assumes "\<bar>x\<bar> \<le> 2 ^ 21"
  shows "round_feature (round_feature x) = round_feature x"
proof -
  define m where "m = rhe (x * 10 ^ 8)"
  let ?q = "of_int m / 10 ^ 8 :: rat"
  have "\<bar>of_int m - x * 10 ^ 8\<bar> \<le> 1 / 2" unfolding m_def by (rule rhe_bounds)
  then have "of_int m - x * 10 ^ 8 \<le> 1 / 2" "x * 10 ^ 8 - of_int m \<le> 1 / 2" by linarith+
  then have "\<bar>?q - x\<bar> \<le> 1" by (simp add: abs_le_iff field_simps)
  moreover have "(2 :: rat) ^ 21 + 1 \<le> 2 ^ 22" by simp
  ultimately have "\<bar>?q\<bar> \<le> 2 ^ 22" using assms by linarith
  from fl_error [OF this] have "\<bar>fl ?q * 10 ^ 8 - of_int m\<bar> < 1 / 2" by (simp add: abs_less_iff abs_le_iff field_simps)
  then have "rhe (fl ?q * 10 ^ 8) = m" by (rule rhe_near)
  then show ?thesis by (simp add: round_feature_def fround_def m_def)
qed

text \<open>Every float of the value is small enough for that.\<close>

primrec floats_small :: "py_value \<Rightarrow> bool" where
  "floats_small PyNone = True"
| "floats_small (PyBool b) = True"
| "floats_small (PyInt n) = True"
| "floats_small (PyFloat x) = (\<bar>x\<bar> \<le> 2 ^ 21)"
| "floats_small (PyStr s) = True"
| "floats_small (PyDecimal s) = True"
| "floats_small (PyEnum s) = True"
| "floats_small (PyList xs) = list_all floats_small xs"
| "floats_small (PyTuple xs) = list_all floats_small xs"
| "floats_small (PyDict d) = list_all (pred_prod (\<lambda>_. True) floats_small) d"

lemma sort_key_map_sorted: "sort_key fst (map (map_prod id f) (sort_key fst xs)) = map (map_prod id f) (sort_key fst xs)"
  by (rule sort_key_id_if_sorted) (simp add: comp_def)

lemma canonicalize_idem: "floats_small v \<Longrightarrow> canonicalize (canonicalize v) = canonicalize v"
proof (induction v)
  case (PyFloat x)
  then show ?case by (simp add: round_feature_idem)
next
  case (PyDict d)
  have "map (map_prod id canonicalize) (sort_key fst (map (map_prod id canonicalize) d))
      = sort_key fst (map (map_prod id canonicalize) d)"
    using PyDict by (intro map_idI) (fastforce simp: list_all_iff)
  moreover have "sort_key fst (sort_key fst xs) = sort_key fst xs" for xs :: "(string \<times> py_value) list"
    by (rule sort_key_id_if_sorted) simp
  ultimately show ?case by simp
qed (simp_all add: list_all_iff)


subsection \<open>Properties\<close>

text \<open>What each feature may be: a signal in \<open>[-1, 1]\<close>, a text, or a score in \<open>[0, 1]\<close>; only the realised volatility
  has no bound, and only the secondary regime may be missing.\<close>

definition feature_in_range :: "string \<times> py_value \<Rightarrow> bool" where
  "feature_in_range kv =
     (case snd kv of
        PyFloat x \<Rightarrow>
          if fst kv = ''volatility.realized_vol'' then True
          else if List.member [''signal.momentum'', ''signal.mean_reversion'', ''signal.breakout'', ''signal.funding'',
                 ''signal.open_interest'', ''signal.order_flow_imbalance'', ''signal.liquidity_sweep''] (fst kv)
          then - 1 \<le> x \<and> x \<le> 1 else 0 \<le> x \<and> x \<le> 1
      | PyStr s \<Rightarrow> s \<noteq> []
      | PyNone \<Rightarrow> fst kv = ''regime.secondary''
      | _ \<Rightarrow> False)"

lemma round_feature_mono: "x \<le> y \<Longrightarrow> round_feature x \<le> round_feature y"
  by (simp add: round_feature_def fround_mono)

lemma round_feature_unit [simp]: "round_feature 0 = 0" "round_feature 1 = 1" "round_feature (- 1) = - 1"
proof -
  have "rhe (- (10 ^ 8)) = - (10 ^ 8)" using rhe_of_int [of "- (10 ^ 8)"] by simp
  moreover have "fl (- 1) = - 1" using fl_int [of "- 1"] by simp
  ultimately show "round_feature (- 1) = - 1" by (simp add: round_feature_def fround_def)
qed (simp_all add: round_feature_def)

lemma signal_feature_Inr: "signal_feature v = Inr x \<Longrightarrow> - 1 \<le> x \<and> x \<le> 1"
  using round_feature_mono [of "- 1"] round_feature_mono [of _ 1]
  by (fastforce simp: signal_feature_def clamp_def map_sum_Inr_iff)

lemma score_feature_Inr: "score_feature v = Inr x \<Longrightarrow> 0 \<le> x \<and> x \<le> 1"
  using round_feature_mono [of 0] round_feature_mono [of _ 1]
  by (fastforce simp: score_feature_def clamp_def map_sum_Inr_iff)

lemma percent_feature_Inr: "percent_feature v c = Inr x \<Longrightarrow> 0 \<le> x \<and> x \<le> 1"
  using round_feature_mono [of 0] round_feature_mono [of _ 1]
  by (fastforce simp: percent_feature_def clamp_def map_sum_Inr_iff split: if_splits)

lemma collect_features_Inr:
  "collect_features rows = Inr d \<Longrightarrow> list_all2 (\<lambda>(k, r) (k', x). k' = k \<and> r = Inr x) rows d"
  by (induction rows arbitrary: d rule: collect_features.induct) (auto simp: bindE_Inr_iff)

lemma value_texts [simp]:
  "primary_regime_value p \<noteq> []" "volatility_state_value vs \<noteq> []" "liquidity_state_value ls \<noteq> []"
  "funding_state_value fs \<noteq> []" "open_interest_state_value oi \<noteq> []" "trend_alignment_value ta \<noteq> []"
  "volatility_regime_value vr \<noteq> []"
proof -
  show "primary_regime_value p \<noteq> []" by (cases p) simp_all
  show "volatility_state_value vs \<noteq> []" by (cases vs) simp_all
  show "liquidity_state_value ls \<noteq> []" by (cases ls) simp_all
  show "funding_state_value fs \<noteq> []" by (cases fs) simp_all
  show "open_interest_state_value oi \<noteq> []" by (cases oi) simp_all
  show "trend_alignment_value ta \<noteq> []" by (cases ta) simp_all
  show "volatility_regime_value vr \<noteq> []" by (cases vr) simp_all
qed

lemma feature_rows_in_range:
  assumes "collect_features (feature_rows si q r v) = Inr d"
  shows "list_all feature_in_range d"
proof -
  have "list_all (\<lambda>(k, res). \<forall>x. res = Inr x \<longrightarrow> feature_in_range (k, x)) (feature_rows si q r v)"
    by (auto simp: feature_rows_def feature_in_range_def map_sum_Inr_iff enum_feature_def
        dest: signal_feature_Inr score_feature_Inr percent_feature_Inr split: option.splits)
  moreover have "list_all2 (\<lambda>(k, r) (k', x). k' = k \<and> r = Inr x) rows d \<Longrightarrow>
      list_all (\<lambda>(k, res). \<forall>x. res = Inr x \<longrightarrow> feature_in_range (k, x)) rows \<Longrightarrow> list_all feature_in_range d" for rows
    by (induction rule: list_all2_induct) auto
  ultimately show ?thesis using collect_features_Inr [OF assms] by blast
qed


lemma build_feature_package_Inr:
  assumes "build_feature_package digest pid si q ri r vi v = Inr p"
  shows "collect_features (feature_rows si q r v) = Inr (fp_features p)"
    "fp_snapshot_id p = si_snapshot_id si" "ra_snapshot_id r = si_snapshot_id si" "vo_snapshot_id v = si_snapshot_id si"
    "fp_symbol p = si_symbol si" "ra_symbol r = si_symbol si" "vo_symbol v = si_symbol si"
    "fp_features_hash p = Some (compute_features_hash digest (fp_features p) (fp_version p) (fp_source_versions p))"
  using assms by (auto simp: build_feature_package_def make_feature_package_def Let_def bindE_Inr_iff split: if_splits)

subsection \<open>A package\<close>

definition first_id :: string where "first_id = ''123e4567-e89b-42d3-a456-426614174000''"
definition second_id :: string where "second_id = ''123e4567-e89b-42d3-a456-426614174001''"

definition some_identity :: signals_identity where
  "some_identity = \<lparr>si_signal_id = first_id, si_snapshot_id = first_id, si_symbol = ''BTCUSDT'', si_timestamp_utc = 0,
     si_timeframes_used = [''5m''], si_signal_confidence = Some (1/2), si_version = ''1.0''\<rparr>"

definition some_signals :: quant_signals_package where
  "some_signals = \<lparr>qs_momentum_signal = Some (1/2), qs_mean_reversion_signal = None, qs_breakout_signal = Some (- 1),
     qs_funding_signal = None, qs_open_interest_signal = None, qs_order_flow_imbalance_signal = None,
     qs_liquidity_sweep_signal = None, qs_signal_strength_score = Some (1/2), qs_signal_conflict_score = Some 0\<rparr>"

definition some_regime :: regime_assessment where
  "some_regime = \<lparr>ra_snapshot_id = first_id, ra_symbol = ''BTCUSDT'', ra_timestamp_utc = 0, ra_primary_regime = TRENDING,
     ra_secondary_regime = None, ra_regime_confidence = 1/2, ra_volatility_state = VOL_NORMAL,
     ra_liquidity_state = LIQ_HIGH, ra_funding_state = FUND_NEUTRAL, ra_open_interest_state = OI_UNKNOWN,
     ra_trend_alignment = BULLISH\<rparr>"

definition some_volatility :: volatility_assessment where
  "some_volatility = \<lparr>vo_snapshot_id = first_id, vo_timestamp_utc = 0, vo_symbol = ''BTCUSDT'', vo_atr = (\<lambda>_. 1),
     vo_atr_percent = 1, vo_realized_vol = 1/2, vo_volatility_regime = EXPANSION, vo_volatility_score = 1/2,
     vo_liquidation_risk_score = 1/2, vo_leverage_cap = 10\<rparr>"

definition some_package_id :: package_identity where
  "some_package_id = \<lparr>pi_id = first_id, pi_version = ''1.0''\<rparr>"

lemma uuid_samples: "uuid_valid first_id" "uuid_valid second_id"
  by code_simp+

lemma features_total: "\<exists>d. collect_features (feature_rows si q r v) = Inr d"
  by (simp add: feature_rows_def signal_feature_def score_feature_def percent_feature_def clamp_def)

lemma some_package:
  assumes "uuid_valid pid"
  shows "\<exists>p. build_feature_package digest pid some_identity some_signals some_package_id some_regime some_package_id
    some_volatility = Inr p"
proof -
  obtain d where "collect_features (feature_rows some_identity some_signals some_regime some_volatility) = Inr d"
    using features_total by blast
  with assms uuid_samples show ?thesis
    by (simp add: build_feature_package_def make_feature_package_def some_identity_def some_regime_def some_volatility_def
        allowed_symbols_def Let_def)
qed

text \<open>A feature package is built from one snapshot of one symbol; every feature is in its range, and the hash is that of
  the features, their version and the versions of their sources.\<close>

theorem feature_package_sound:
  assumes "build_feature_package digest pid si q ri r vi v = Inr p"
  shows "list_all feature_in_range (fp_features p) \<and> length (fp_features p) = 24
    \<and> fp_snapshot_id p = ra_snapshot_id r \<and> fp_snapshot_id p = vo_snapshot_id v
    \<and> fp_symbol p = ra_symbol r \<and> fp_symbol p = vo_symbol v
    \<and> fp_features_hash p = Some (compute_features_hash digest (fp_features p) (fp_version p) (fp_source_versions p))"
proof -
  note b = build_feature_package_Inr [OF assms]
  have "length (fp_features p) = length (feature_rows si q r v)"
    using collect_features_Inr [OF b(1)] by (simp add: list_all2_lengthD)
  then show ?thesis using b feature_rows_in_range [OF b(1)] by (simp add: feature_rows_def)
qed

theorem feature_package_sound_witness:
  "\<exists>p. build_feature_package (\<lambda>_. replicate 64 CHR ''a'') second_id some_identity some_signals some_package_id some_regime
       some_package_id some_volatility = Inr p \<and> length (fp_features p) = 24"
proof -
  obtain p where p: "build_feature_package (\<lambda>_. replicate 64 CHR ''a'') second_id some_identity some_signals some_package_id
      some_regime some_package_id some_volatility = Inr p" using some_package [OF uuid_samples(2)] by blast
  with feature_package_sound [OF p] show ?thesis by blast
qed

lemma round_feature_bound: "0 \<le> x \<Longrightarrow> x \<le> 2 ^ 20 \<Longrightarrow> 0 \<le> round_feature x \<and> round_feature x \<le> 2 ^ 20"
proof -
  assume x: "0 \<le> x" "x \<le> 2 ^ 20"
  have "rhe (2 ^ 20 * 10 ^ 8) = 2 ^ 20 * 10 ^ 8" using rhe_of_int [of "2 ^ 20 * 10 ^ 8"] by simp
  moreover have "fl (2 ^ 20) = 2 ^ 20" using fl_int [of "2 ^ 20"] by simp
  ultimately have "round_feature (2 ^ 20) = 2 ^ 20" by (simp add: round_feature_def fround_def)
  then show ?thesis using x round_feature_mono [of 0 x] round_feature_mono [of x "2 ^ 20"] by simp
qed

lemma features_small:
  assumes "collect_features (feature_rows si q r v) = Inr d" "0 \<le> vo_realized_vol v" "vo_realized_vol v \<le> 2 ^ 20"
  shows "floats_small (PyDict d)"
proof -
  have "fl (2 ^ 20) = 2 ^ 20" using fl_int [of "2 ^ 20"] by simp
  with flt.rd_mono [of 0 "vo_realized_vol v"] flt.rd_mono [of "vo_realized_vol v" "2 ^ 20"] assms(2,3)
  have "0 \<le> fl (vo_realized_vol v)" "fl (vo_realized_vol v) \<le> 2 ^ 20" by simp_all
  then have vol: "\<bar>optional_float (Some (vo_realized_vol v))\<bar> \<le> 2 ^ 21"
    using round_feature_bound [of "fl (vo_realized_vol v)"] by (simp add: optional_float_def)
  have unit: "\<bar>x\<bar> \<le> 1 \<Longrightarrow> \<bar>x\<bar> \<le> 2 ^ 21" for x :: rat by simp
  have "list_all (\<lambda>(k, res). \<forall>x. res = Inr x \<longrightarrow> floats_small x) (feature_rows si q r v)"
    using vol unfolding feature_rows_def
    by (auto simp: map_sum_Inr_iff enum_feature_def intro!: unit
        dest!: signal_feature_Inr score_feature_Inr percent_feature_Inr split: option.splits)
  moreover have "list_all2 (\<lambda>(k, r) (k', x). k' = k \<and> r = Inr x) rows d \<Longrightarrow>
      list_all (\<lambda>(k, res). \<forall>x. res = Inr x \<longrightarrow> floats_small x) rows \<Longrightarrow> list_all (pred_prod (\<lambda>_. True) floats_small) d" for rows
    by (induction rule: list_all2_induct) (auto simp: pred_prod_inject)
  ultimately show ?thesis using collect_features_Inr [OF assms(1)] by simp
qed

text \<open>What is stored can be checked: the features of the row, already normalised and in the order of their keys, hash
  to the hash of the row with the package's versions.\<close>

theorem stored_features_rehash:
  assumes "build_feature_package digest pid si q ri r vi v = Inr p"
    and "0 \<le> vo_realized_vol v" "vo_realized_vol v \<le> 2 ^ 20"
  shows "case fr_features (to_db_kwargs run p) of
      PyDict d \<Rightarrow> sorted (dict_keys d) \<and> compute_features_hash digest d (fr_version (to_db_kwargs run p)) (fp_source_versions p)
        = fr_hash (to_db_kwargs run p)
    | _ \<Rightarrow> False"
proof -
  note b = build_feature_package_Inr [OF assms(1)]
  have "canonicalize (canonicalize (PyDict (fp_features p))) = canonicalize (PyDict (fp_features p))"
    by (rule canonicalize_idem [OF features_small [OF b(1) assms(2,3)]])
  then show ?thesis using b(8) by (simp add: to_db_kwargs_def compute_features_hash_def)
qed

theorem stored_features_rehash_witness:
  "\<exists>p d. build_feature_package (\<lambda>_. replicate 64 CHR ''a'') second_id some_identity some_signals some_package_id some_regime
       some_package_id some_volatility = Inr p \<and> fr_features (to_db_kwargs ''run'' p) = PyDict d \<and> sorted (dict_keys d)"
proof -
  obtain p where p: "build_feature_package (\<lambda>_. replicate 64 CHR ''a'') second_id some_identity some_signals some_package_id
      some_regime some_package_id some_volatility = Inr p" using some_package [OF uuid_samples(2)] by blast
  have "0 \<le> vo_realized_vol some_volatility" "vo_realized_vol some_volatility \<le> 2 ^ 20"
    by (simp_all add: some_volatility_def)
  from stored_features_rehash [OF p this, of "''run''"] p show ?thesis by (auto split: py_value.splits)
qed

lemma make_feature_package_hash:
  "make_feature_package digest p = Inr p' \<Longrightarrow>
     fp_features_hash p' = Some (compute_features_hash digest (fp_features p) (fp_version p) (fp_source_versions p))"
  by (auto simp: make_feature_package_def Let_def split: if_splits)

text \<open>C31. The hash says nothing of the snapshot, the symbol or the run, but its column is unique: once a package is saved,
  no other with the same features and versions can be, whatever it was built from.\<close>

theorem equal_features_collide:
  assumes "make_feature_package digest p = Inr p1" "make_feature_package digest p' = Inr p2"
    and "fp_features p' = fp_features p" "fp_version p' = fp_version p" "fp_source_versions p' = fp_source_versions p"
    and "save_feature_package run p1 rows = Inr rows'"
  shows "save_feature_package run' p2 rows' = Inl IntegrityError"
  using assms make_feature_package_hash [OF assms(1)] make_feature_package_hash [OF assms(2)]
  by (auto simp: save_feature_package_def to_db_kwargs_def Let_def split: if_splits)

theorem equal_features_collide_witness:
  "\<exists>p1 p2 rows. save_feature_package ''run'' p1 [] = Inr rows \<and> fp_package_id p1 \<noteq> fp_package_id p2
     \<and> fp_snapshot_id p1 \<noteq> fp_snapshot_id p2 \<and> fp_symbol p1 \<noteq> fp_symbol p2
     \<and> save_feature_package ''later run'' p2 rows = Inl IntegrityError"
proof -
  let ?digest = "\<lambda>_. replicate 64 CHR ''a''"
  define p :: feature_package where "p = \<lparr>fp_package_id = first_id, fp_snapshot_id = first_id, fp_symbol = ''BTCUSDT'',
    fp_timestamp_utc = 0, fp_version = ''1.0'', fp_features = [(''signal.momentum'', PyFloat (1/2))],
    fp_features_hash = None, fp_source_versions = [], fp_details = []\<rparr>"
  define p' where "p' = p\<lparr>fp_package_id := second_id, fp_snapshot_id := second_id, fp_symbol := ''ETHUSDT''\<rparr>"
  obtain p1 where p1: "make_feature_package ?digest p = Inr p1" "fp_package_id p1 = first_id" "fp_snapshot_id p1 = first_id"
      "fp_symbol p1 = ''BTCUSDT''"
    using uuid_samples by (simp add: p_def make_feature_package_def allowed_symbols_def Let_def)
  obtain p2 where p2: "make_feature_package ?digest p' = Inr p2" "fp_package_id p2 = second_id" "fp_snapshot_id p2 = second_id"
      "fp_symbol p2 = ''ETHUSDT''"
    using uuid_samples by (simp add: p'_def p_def make_feature_package_def allowed_symbols_def Let_def)
  obtain rows where r: "save_feature_package ''run'' p1 [] = Inr rows" by (simp add: save_feature_package_def)
  have "save_feature_package ''later run'' p2 rows = Inl IntegrityError"
    by (rule equal_features_collide [OF p1(1) p2(1) _ _ _ r]) (simp_all add: p'_def)
  moreover have "first_id \<noteq> second_id" by (simp add: first_id_def second_id_def)
  ultimately show ?thesis using p1(2-) p2(2-) r by (intro exI [of _ p1] exI [of _ p2] exI [of _ rows]) simp
qed

end
