(* ===== verification/MarketRows.thy ===== *)
theory MarketRows
  imports Replay Features
begin

text \<open>
  What a round of market data leaves in the database: the rows of the snapshot (\<^verbatim>\<open>market_data/engine.py\<close>) and of its
  analysis (\<^verbatim>\<open>analysis_service.py\<close> with the \<^verbatim>\<open>to_db_kwargs\<close> of the three packages). \<^theory_text>\<open>MarketCycle\<close> keeps only the
  volatility that the execution reads again; here are all the columns, and the lemmas that relate the two. Of the
  JSON columns the typed fields are kept; notes, versions and confidences that the code never fills are left out.
\<close>

record quant_signal_row =
  qr_id :: string
  qr_bot_run_id :: string
  qr_market_snapshot_id :: "string option"
  qr_symbol :: symbol
  qr_timestamp :: int
  qr_momentum_score :: "rat option"
  qr_mean_reversion_score :: "rat option"
  qr_breakout_score :: "rat option"
  qr_liquidity_sweep_score :: "rat option"
  qr_order_flow_score :: "rat option"
  qr_funding_signal :: "rat option"
  qr_open_interest_signal :: "rat option"
  qr_composite_score :: "rat option"
  qr_signal_conflict_score :: "rat option"

record market_regime_row =
  mr_id :: string
  mr_bot_run_id :: string
  mr_market_snapshot_id :: "string option"
  mr_symbol :: symbol
  mr_timestamp :: int
  mr_regime :: string
  mr_confidence :: rat
  mr_secondary_regime :: "string option"
  mr_volatility_state :: string
  mr_liquidity_state :: string
  mr_funding_state :: string
  mr_open_interest_state :: string
  mr_trend_alignment :: string

record volatility_details_row =
  vd_id :: string
  vd_market_snapshot_id :: "string option"
  vd_row :: volatility_row
  vd_atr_percent :: rat
  vd_volatility_score :: rat
  vd_leverage_cap :: int
  vd_liquidation_risk_score :: rat
  vd_atrs :: "rat list"
  vd_realized_vol :: rat
  vd_volatility_regime :: string

definition quant_to_db :: "string \<Rightarrow> string \<Rightarrow> market_snapshot \<Rightarrow> quant_signals_package \<Rightarrow> quant_signal_row" where
  "quant_to_db i run s q =
     \<lparr>qr_id = i, qr_bot_run_id = run, qr_market_snapshot_id = Some (ms_snapshot_id s), qr_symbol = ms_symbol s,
      qr_timestamp = ms_timestamp_utc s, qr_momentum_score = qs_momentum_signal q,
      qr_mean_reversion_score = qs_mean_reversion_signal q, qr_breakout_score = qs_breakout_signal q,
      qr_liquidity_sweep_score = qs_liquidity_sweep_signal q, qr_order_flow_score = qs_order_flow_imbalance_signal q,
      qr_funding_signal = qs_funding_signal q, qr_open_interest_signal = qs_open_interest_signal q,
      qr_composite_score = qs_signal_strength_score q, qr_signal_conflict_score = qs_signal_conflict_score q\<rparr>"

definition regime_to_db :: "string \<Rightarrow> string \<Rightarrow> regime_assessment \<Rightarrow> market_regime_row" where
  "regime_to_db i run r =
     \<lparr>mr_id = i, mr_bot_run_id = run, mr_market_snapshot_id = Some (ra_snapshot_id r), mr_symbol = ra_symbol r,
      mr_timestamp = ra_timestamp_utc r, mr_regime = primary_regime_value (ra_primary_regime r),
      mr_confidence = ra_regime_confidence r,
      mr_secondary_regime = map_option primary_regime_value (ra_secondary_regime r),
      mr_volatility_state = volatility_state_value (ra_volatility_state r),
      mr_liquidity_state = liquidity_state_value (ra_liquidity_state r),
      mr_funding_state = funding_state_value (ra_funding_state r),
      mr_open_interest_state = open_interest_state_value (ra_open_interest_state r),
      mr_trend_alignment = trend_alignment_value (ra_trend_alignment r)\<rparr>"

definition volatility_details :: "string \<Rightarrow> string \<Rightarrow> volatility_assessment \<Rightarrow> volatility_details_row" where
  "volatility_details i run v =
     \<lparr>vd_id = i, vd_market_snapshot_id = Some (vo_snapshot_id v), vd_row = volatility_to_db run v,
      vd_atr_percent = vo_atr_percent v, vd_volatility_score = vo_volatility_score v,
      vd_leverage_cap = vo_leverage_cap v, vd_liquidation_risk_score = vo_liquidation_risk_score v,
      vd_atrs = map (vo_atr v) TIMEFRAMES, vd_realized_vol = vo_realized_vol v,
      vd_volatility_regime = volatility_regime_value (vo_volatility_regime v)\<rparr>"

record market_tables =
  mw_snapshots :: "snapshot_row list"
  mw_quant_signals :: "quant_signal_row list"
  mw_regimes :: "market_regime_row list"
  mw_volatility :: "volatility_details_row list"

text \<open>\<^verbatim>\<open>process_snapshot\<close>: a snapshot that the guard accepts is saved under its own id.\<close>

definition save_snapshot ::
    "text_lib \<Rightarrow> (rat \<Rightarrow> rat result) \<Rightarrow> string \<Rightarrow> int \<Rightarrow> market_snapshot \<Rightarrow> market_tables \<Rightarrow> market_tables result" where
  "save_snapshot tx numeric run now s w =
     bindE (process_snapshot now s) (\<lambda>s.
       if ms_snapshot_id s \<in> set (map sx_id (mw_snapshots w)) then Inl IntegrityError
       else bindE (store_row numeric (snapshot_to_row tx run s)) (\<lambda>row.
              Inr (w\<lparr>mw_snapshots := mw_snapshots w @ [row]\<rparr>)))"

text \<open>The hook saves what it has computed before it computes the next; an error ends it, and what was saved stays.\<close>

definition analysis_rows ::
    "math_lib \<Rightarrow> string \<Rightarrow> string \<times> string \<times> string \<Rightarrow> market_snapshot \<Rightarrow> market_tables \<Rightarrow> market_tables" where
  "analysis_rows math run ids s w =
     (case compute_quant_signals math s of
        Inl _ \<Rightarrow> w
      | Inr q \<Rightarrow>
          let w = w\<lparr>mw_quant_signals := mw_quant_signals w @ [quant_to_db (fst ids) run s q]\<rparr> in
     (case assess s of
        Inl _ \<Rightarrow> w
      | Inr r \<Rightarrow>
          let w = w\<lparr>mw_regimes := mw_regimes w @ [regime_to_db (fst (snd ids)) run r]\<rparr> in
     (case compute_volatility_assessment math s of
        Inl _ \<Rightarrow> w
      | Inr v \<Rightarrow> w\<lparr>mw_volatility := mw_volatility w @ [volatility_details (snd (snd ids)) run v]\<rparr>)))"

text \<open>\<^verbatim>\<open>get_latest_by_symbol\<close> of the two other repositories.\<close>

definition latest_quant :: "string \<Rightarrow> string \<Rightarrow> market_tables \<Rightarrow> quant_signal_row option" where
  "latest_quant run symb w =
     latest_by qr_timestamp (filter (\<lambda>r. qr_bot_run_id r = run \<and> qr_symbol r = symb) (mw_quant_signals w))"

definition latest_regime :: "string \<Rightarrow> string \<Rightarrow> market_tables \<Rightarrow> market_regime_row option" where
  "latest_regime run symb w =
     latest_by mr_timestamp (filter (\<lambda>r. mr_bot_run_id r = run \<and> mr_symbol r = symb) (mw_regimes w))"

definition latest_snapshot :: "string \<Rightarrow> string \<Rightarrow> market_tables \<Rightarrow> snapshot_row option" where
  "latest_snapshot run symb w =
     latest_by sx_timestamp (filter (\<lambda>r. sx_bot_run_id r = run \<and> sx_symbol r = symb) (mw_snapshots w))"

subsection \<open>The tables and the model of the cycle\<close>

text \<open>The column that the execution reads again is the one that \<^theory_text>\<open>on_snapshot\<close> keeps.\<close>

lemma analysis_rows_volatility:
  assumes "db_volatility d = map vd_row (mw_volatility w)"
  shows "db_volatility (on_snapshot math run s d) = map vd_row (mw_volatility (analysis_rows math run ids s w))"
  using assms
  by (cases "compute_quant_signals math s"; cases "assess s"; cases "compute_volatility_assessment math s")
    (simp_all add: on_snapshot_def analyse_def analysis_rows_def volatility_details_def)

text \<open>Every row of the analysis points to a snapshot on file.\<close>

definition market_linked :: "market_tables \<Rightarrow> bool" where
  "market_linked w \<longleftrightarrow>
     qr_market_snapshot_id ` set (mw_quant_signals w) \<union> mr_market_snapshot_id ` set (mw_regimes w)
       \<union> vd_market_snapshot_id ` set (mw_volatility w) \<subseteq> Some ` sx_id ` set (mw_snapshots w)"

lemma assess_snapshot_id: "assess s = Inr r \<Longrightarrow> ra_snapshot_id r = ms_snapshot_id s"
  by (auto simp: assess_def make_regime_assessment_def Let_def split: if_splits prod.splits)

lemma volatility_snapshot_id: "compute_volatility_assessment math s = Inr v \<Longrightarrow> vo_snapshot_id v = ms_snapshot_id s"
proof -
  have make: "make_volatility_assessment x = Inr v \<Longrightarrow> v = x" for x
    unfolding make_volatility_assessment_def by (simp split: if_splits)
  assume "compute_volatility_assessment math s = Inr v"
  then show ?thesis
    unfolding compute_volatility_assessment_def Let_def by (auto dest!: make split: if_split_asm)
qed

lemma process_snapshot_same: "process_snapshot now s = Inr x \<Longrightarrow> x = s"
  by (auto simp: process_snapshot_def validate_snapshot_def Let_def split: if_splits prod.splits)

lemma save_snapshot_linked:
  assumes "market_linked w" "save_snapshot tx numeric run now s w = Inr w'"
  shows "market_linked w'" "ms_snapshot_id s \<in> sx_id ` set (mw_snapshots w')"
proof -
  obtain row where row: "store_row numeric (snapshot_to_row tx run s) = Inr row"
    and w': "w' = w\<lparr>mw_snapshots := mw_snapshots w @ [row]\<rparr>"
    using assms(2) by (auto simp: save_snapshot_def bindE_Inr_iff dest!: process_snapshot_same split: if_splits)
  have "sx_id row = ms_snapshot_id s"
    using row by (auto simp: store_row_def bindE_Inr_iff snapshot_to_row_def Let_def)
  with assms(1) show "market_linked w'" "ms_snapshot_id s \<in> sx_id ` set (mw_snapshots w')"
    by (auto simp: w' market_linked_def)
qed

lemma analysis_rows_linked:
  assumes "market_linked w" "ms_snapshot_id s \<in> sx_id ` set (mw_snapshots w)"
  shows "market_linked (analysis_rows math run ids s w)"
  using assms
  by (auto simp: analysis_rows_def Let_def market_linked_def quant_to_db_def regime_to_db_def volatility_details_def
      assess_snapshot_id volatility_snapshot_id split: sum.splits)

end
