(* ===== verification/PasswordHash.thy ===== *)
theory PasswordHash
  imports PyText
begin

text \<open>
  \<^verbatim>\<open>backend/auth/hashing.py\<close> and \<^verbatim>\<open>scripts/hash_password.py\<close>: the encoded password hash
  \<^verbatim>\<open>scrypt$n$r$p$salt$hash\<close>. Bytes are naturals below 256. \<^verbatim>\<open>hashlib.scrypt\<close> is the parameter \<open>scrypt\<close>, of the
  password, the salt, \<open>n\<close>, \<open>r\<close>, \<open>p\<close>, \<^verbatim>\<open>dklen\<close> and \<^verbatim>\<open>maxmem\<close>.
\<close>

subsection \<open>Base64 in the URL alphabet\<close>

definition b64_char :: "nat \<Rightarrow> char" where
  "b64_char n = char_of (if n < 26 then 65 + n else if n < 52 then 71 + n else if n < 62 then n - 4
                         else if n = 62 then 45 else 95)"

text \<open>\<^verbatim>\<open>urlsafe_b64decode\<close> first turns \<open>-_\<close> into \<open>+/\<close>, so both alphabets are read.\<close>

definition b64_value :: "char \<Rightarrow> nat option" where
  "b64_value c =
     (let n = of_char c
      in if 65 \<le> n \<and> n \<le> 90 then Some (n - 65) else if 97 \<le> n \<and> n \<le> 122 then Some (n - 71)
         else if 48 \<le> n \<and> n \<le> 57 then Some (n + 4) else if n = 45 \<or> n = 43 then Some 62
         else if n = 95 \<or> n = 47 then Some 63 else None)"

text \<open>\<^verbatim>\<open>_b64encode\<close>: three bytes are four characters; the padding of the last group is dropped.\<close>

fun b64encode :: "nat list \<Rightarrow> string" where
  "b64encode [] = []"
| "b64encode [a] = [b64_char (a div 4), b64_char (a mod 4 * 16)]"
| "b64encode [a, b] = [b64_char (a div 4), b64_char (a mod 4 * 16 + b div 16), b64_char (b mod 16 * 4)]"
| "b64encode (a # b # c # s) =
     b64_char (a div 4) # b64_char (a mod 4 * 16 + b div 16) # b64_char (b mod 16 * 4 + c div 64) # b64_char (c mod 64)
     # b64encode s"

text \<open>
  \<^verbatim>\<open>binascii.a2b_base64\<close> in its lenient mode: \<open>q\<close> characters of a group are read and \<open>left\<close> holds their bits not
  yet output; \<open>pads\<close> counts the \<open>=\<close> just before. Characters outside the alphabet are skipped, and nothing is read
  after the padding that completes a group. An incomplete group is \<^verbatim>\<open>binascii.Error\<close>.
\<close>

fun a2b_base64 :: "nat \<Rightarrow> nat \<Rightarrow> nat \<Rightarrow> string \<Rightarrow> nat list option" where
  "a2b_base64 q left pads [] = (if q = 0 then Some [] else None)"
| "a2b_base64 q left pads (c # s) =
     (if c = CHR ''='' then (if 2 \<le> q \<and> 4 \<le> q + (pads + 1) then Some [] else a2b_base64 q left (if 2 \<le> q then pads + 1 else pads) s)
      else case b64_value c of
        None \<Rightarrow> a2b_base64 q left pads s
      | Some v \<Rightarrow>
          if q = 0 then a2b_base64 1 v 0 s
          else if q = 1 then map_option ((#) (left * 4 + v div 16)) (a2b_base64 2 (v mod 16) 0 s)
          else if q = 2 then map_option ((#) (left * 16 + v div 4)) (a2b_base64 3 (v mod 4) 0 s)
          else map_option ((#) (left * 64 + v)) (a2b_base64 0 0 0 s))"

text \<open>\<^verbatim>\<open>_b64decode\<close>: \<open>None\<close> is \<^verbatim>\<open>ValueError\<close> (a character beyond ASCII) or \<^verbatim>\<open>binascii.Error\<close>.\<close>

definition b64decode :: "string \<Rightarrow> nat list option" where
  "b64decode s =
     (if list_all (\<lambda>c. (of_char c :: nat) < 128) s
      then a2b_base64 0 0 0 (s @ replicate (nat ((- int (length s)) mod 4)) CHR ''='') else None)"

subsection \<open>The encoded hash\<close>

record parsed_hash =
  ph_n :: int
  ph_r :: int
  ph_p :: int
  ph_salt :: "nat list"
  ph_digest :: "nat list"

text \<open>\<^verbatim>\<open>n & (n - 1)\<close> is zero.\<close>

definition power_of_two :: "int \<Rightarrow> bool" where
  "power_of_two n \<longleftrightarrow> and n (n - 1) = 0"

definition parse_hash :: "string \<Rightarrow> parsed_hash option" where
  "parse_hash encoded =
     (case split_on CHR ''$'' encoded of
        [alg, n_raw, r_raw, p_raw, salt_b64, hash_b64] \<Rightarrow>
          if alg \<noteq> ''scrypt'' then None
          else (case (parse_int n_raw, parse_int r_raw, parse_int p_raw, b64decode salt_b64, b64decode hash_b64) of
                  (Some n, Some r, Some p, Some salt, Some digest) \<Rightarrow>
                    if n \<le> 1 \<or> \<not> power_of_two n \<or> r < 1 \<or> p < 1 \<or> salt = [] \<or> digest = [] then None
                    else Some \<lparr>ph_n = n, ph_r = r, ph_p = p, ph_salt = salt, ph_digest = digest\<rparr>
                | _ \<Rightarrow> None)
      | _ \<Rightarrow> None)"

subsection \<open>Hashing and verifying\<close>

text \<open>What \<^verbatim>\<open>hashlib.scrypt\<close> raises: \<^verbatim>\<open>ValueError\<close> for parameters outside its range, \<^verbatim>\<open>MemoryError\<close>, and
  \<^verbatim>\<open>OverflowError\<close> or \<^verbatim>\<open>TypeError\<close> for integers that no C \<^verbatim>\<open>long\<close> holds.\<close>

datatype scrypt_error = Scrypt_value_error | Scrypt_memory_error | Scrypt_overflow_error | Scrypt_type_error

record scrypt_call =
  sc_password :: "nat list"
  sc_salt :: "nat list"
  sc_n :: int
  sc_r :: int
  sc_p :: int
  sc_dklen :: nat
  sc_maxmem :: int

type_synonym scrypt = "scrypt_call \<Rightarrow> scrypt_error + nat list"

definition DEFAULT_N :: int where "DEFAULT_N = 2 ^ 15"
definition DEFAULT_R :: int where "DEFAULT_R = 8"
definition DEFAULT_P :: int where "DEFAULT_P = 1"
definition KEY_BYTES :: nat where "KEY_BYTES = 32"

definition maxmem :: "int \<Rightarrow> int \<Rightarrow> int" where
  "maxmem n r = 128 * n * r * 2"

definition hash_password :: "scrypt \<Rightarrow> nat list \<Rightarrow> string \<Rightarrow> int \<Rightarrow> int \<Rightarrow> int \<Rightarrow> scrypt_error + string" where
  "hash_password scrypt salt password n r p =
     map_sum id
       (\<lambda>derived. join ''$'' [''scrypt'', int_text n, int_text r, int_text p, b64encode salt, b64encode derived])
       (scrypt \<lparr>sc_password = utf8_bytes password, sc_salt = salt, sc_n = n, sc_r = r, sc_p = p, sc_dklen = KEY_BYTES,
                sc_maxmem = maxmem n r\<rparr>)"

definition dummy_hash :: "scrypt \<Rightarrow> nat list \<Rightarrow> string \<Rightarrow> scrypt_error + string" where
  "dummy_hash scrypt salt token = hash_password scrypt salt token DEFAULT_N DEFAULT_R DEFAULT_P"

definition verify_password :: "scrypt \<Rightarrow> string \<Rightarrow> string \<Rightarrow> scrypt_error + bool" where
  "verify_password scrypt password encoded =
     (case parse_hash encoded of
        None \<Rightarrow> Inr False
      | Some h \<Rightarrow>
          (case scrypt \<lparr>sc_password = utf8_bytes password, sc_salt = ph_salt h, sc_n = ph_n h, sc_r = ph_r h,
                        sc_p = ph_p h, sc_dklen = length (ph_digest h), sc_maxmem = maxmem (ph_n h) (ph_r h)\<rparr> of
             Inr derived \<Rightarrow> Inr (derived = ph_digest h)
           | Inl e \<Rightarrow> if e = Scrypt_value_error \<or> e = Scrypt_memory_error then Inr False else Inl e))"

definition validate_password_hash :: "string \<Rightarrow> bool" where
  "validate_password_hash encoded \<longleftrightarrow> parse_hash encoded \<noteq> None"

subsection \<open>The script\<close>

definition MIN_PASSWORD_LENGTH :: nat where "MIN_PASSWORD_LENGTH = 12"

definition escape_dollar_for_dotenv :: "string \<Rightarrow> string" where
  "escape_dollar_for_dotenv s = concat (map (\<lambda>c. if c = CHR ''$'' then ''$$'' else [c]) s)"

text \<open>\<^verbatim>\<open>main\<close>: the two passwords typed, and the line for \<^verbatim>\<open>.env\<close>, or \<open>None\<close> where it exits with status 1.\<close>

definition hash_password_main :: "scrypt \<Rightarrow> nat list \<Rightarrow> string \<Rightarrow> string \<Rightarrow> scrypt_error + string option" where
  "hash_password_main scrypt salt password repeated =
     (if length password < MIN_PASSWORD_LENGTH \<or> password \<noteq> repeated then Inr None
      else map_sum id (\<lambda>h. Some (''DASHBOARD_PASSWORD_HASH='' @ escape_dollar_for_dotenv h))
             (hash_password scrypt salt password DEFAULT_N DEFAULT_R DEFAULT_P))"

subsection \<open>What is encoded reads back\<close>

lemma b64_char_facts [simp]:
  assumes "n < 64"
  shows "b64_value (b64_char n) = Some n" "b64_char n \<noteq> CHR ''=''" "b64_char n \<noteq> CHR ''$''"
    "(of_char (b64_char n) :: nat) < 128"
  using assms by (auto simp: b64_value_def b64_char_def Let_def char_of_eq_iff)

lemma byte_groups [simp]:
  fixes a b c :: nat
  assumes "a < 256"
  shows "a div 4 < 64" "a mod 4 * 16 < 64" "a div 16 < 16" "a mod 16 * 4 < 64" "a div 64 < 4" "a mod 64 < 64"
  using assms by (simp_all add: less_mult_imp_div_less)

lemma byte_sums [simp]:
  fixes a b :: nat
  assumes "b < 256"
  shows "a mod 4 * 16 + b div 16 < 64" "a mod 16 * 4 + b div 64 < 64"
proof -
  have "a mod 4 < 4" "a mod 16 < 16" by simp_all
  then show "a mod 4 * 16 + b div 16 < 64" "a mod 16 * 4 + b div 64 < 64"
    using byte_groups [OF assms] by linarith+
qed

lemma group_div_mod:
  fixes x y k :: nat
  assumes "y < k"
  shows "(x * k + y) div k = x" "(x * k + y) mod k = y"
  using assms by simp_all

lemma a2b_base64_group:
  assumes "u < 64" "v < 64"
  shows "w < 64 \<Longrightarrow> x < 64 \<Longrightarrow> a2b_base64 0 l 0 (b64_char u # b64_char v # b64_char w # b64_char x # s)
      = map_option (\<lambda>t. (u * 4 + v div 16) # (v mod 16 * 16 + w div 4) # (w mod 4 * 64 + x) # t) (a2b_base64 0 0 0 s)"
    "w < 64 \<Longrightarrow> a2b_base64 0 l 0 [b64_char u, b64_char v, b64_char w, CHR ''='']
      = Some [u * 4 + v div 16, v mod 16 * 16 + w div 4]"
    "a2b_base64 0 l 0 [b64_char u, b64_char v, CHR ''='', CHR ''=''] = Some [u * 4 + v div 16]"
  using assms by (simp_all add: option.map_comp comp_def)

lemma a2b_base64_encode:
  assumes "\<forall>b \<in> set bs. b < 256"
  shows "a2b_base64 0 0 0 (b64encode bs @ replicate (nat ((- int (length (b64encode bs))) mod 4)) CHR ''='') = Some bs"
  using assms
proof (induction bs rule: b64encode.induct)
  case (2 a)
  have "replicate 2 CHR ''='' = ''==''" by (simp add: numeral_2_eq_2)
  with 2 show ?case by (simp add: a2b_base64_group del: a2b_base64.simps)
next
  case (3 a b)
  then show ?case using group_div_mod [of "b div 16" 16 "a mod 4"]
    by (simp add: a2b_base64_group del: a2b_base64.simps)
next
  case (4 a b c s)
  have "(- int (length (b64encode (a # b # c # s)))) mod 4 = (- int (length (b64encode s))) mod 4" by simp presburger
  with 4 show ?case using group_div_mod [of "b div 16" 16 "a mod 4"] group_div_mod [of "c div 64" 4 "b mod 16"]
    by (simp add: a2b_base64_group del: a2b_base64.simps)
qed simp

lemma b64decode_encode: "\<forall>b \<in> set bs. b < 256 \<Longrightarrow> b64decode (b64encode bs) = Some bs"
proof -
  assume bs: "\<forall>b \<in> set bs. b < 256"
  then have "list_all (\<lambda>c. (of_char c :: nat) < 128) (b64encode bs)"
    by (induction bs rule: b64encode.induct) simp_all
  with a2b_base64_encode [OF bs] show ?thesis by (simp add: b64decode_def)
qed

lemma b64encode_no_dollar: "\<forall>b \<in> set bs. b < 256 \<Longrightarrow> CHR ''$'' \<notin> set (b64encode bs)"
  by (induction bs rule: b64encode.induct) (simp_all add: b64_char_facts(3) [THEN not_sym])

lemma b64encode_Nil_iff: "b64encode bs = [] \<longleftrightarrow> bs = []"
  by (cases bs rule: b64encode.cases) simp_all

lemma nat_text_no_dollar: "CHR ''$'' \<notin> set (nat_text n)"
  using nat_text_digits is_digit_plain by blast


text \<open>
  What the code relies on of \<^verbatim>\<open>hashlib.scrypt\<close>: a key has the length asked for and is made of bytes, and a call that
  returns had parameters in range.
\<close>

definition scrypt_ok :: "scrypt \<Rightarrow> bool" where
  "scrypt_ok scrypt \<longleftrightarrow>
     (\<forall>c key. scrypt c = Inr key \<longrightarrow>
        length key = sc_dklen c \<and> (\<forall>b \<in> set key. b < 256)
        \<and> 1 < sc_n c \<and> power_of_two (sc_n c) \<and> 1 \<le> sc_r c \<and> 1 \<le> sc_p c
        \<and> sc_n c < 2 ^ 64 \<and> sc_r c < 2 ^ 64 \<and> sc_p c < 2 ^ 64)"

lemma parse_int_int_text: "0 \<le> n \<Longrightarrow> n < 2 ^ 64 \<Longrightarrow> parse_int (int_text n) = Some n"
proof -
  assume n: "0 \<le> n" "n < 2 ^ 64"
  then have "nat n < 10 ^ Suc 19" by (simp add: nat_less_iff)
  from parse_int_nat_text [OF this] n show ?thesis by (simp add: int_text_def)
qed

lemma parse_hash_of_fields:
  assumes "1 < n" "power_of_two n" "1 \<le> r" "1 \<le> p" "n < 2 ^ 64" "r < 2 ^ 64" "p < 2 ^ 64"
    and "\<forall>b \<in> set salt. b < 256" "salt \<noteq> []" "\<forall>b \<in> set key. b < 256" "key \<noteq> []"
  shows "parse_hash (join ''$'' [''scrypt'', int_text n, int_text r, int_text p, b64encode salt, b64encode key])
    = Some \<lparr>ph_n = n, ph_r = r, ph_p = p, ph_salt = salt, ph_digest = key\<rparr>"
proof -
  have "CHR ''$'' \<notin> set (int_text k)" for k
    using nat_text_no_dollar by (simp add: int_text_def)
  then have "split_on CHR ''$'' (join ''$'' [''scrypt'', int_text n, int_text r, int_text p, b64encode salt, b64encode key])
      = [''scrypt'', int_text n, int_text r, int_text p, b64encode salt, b64encode key]"
    using assms by (intro split_on_join) (auto dest: b64encode_no_dollar)
  with assms show ?thesis by (simp add: parse_hash_def parse_int_int_text b64decode_encode)
qed

text \<open>C29. A hash of a password is accepted at boot, verifies that password, and another one exactly when hashing it with the
  same salt and cost gives the same text: the text carries everything that verification needs.\<close>

theorem password_hash_verifies:
  assumes "hash_password scrypt salt password n r p = Inr encoded" "scrypt_ok scrypt"
    and "\<forall>b \<in> set salt. b < 256" "salt \<noteq> []"
  shows "validate_password_hash encoded \<and> verify_password scrypt password encoded = Inr True
    \<and> (verify_password scrypt attempt encoded = Inr True \<longleftrightarrow> hash_password scrypt salt attempt n r p = Inr encoded)"
proof -
  let ?call = "\<lambda>pw. \<lparr>sc_password = utf8_bytes pw, sc_salt = salt, sc_n = n, sc_r = r, sc_p = p, sc_dklen = KEY_BYTES,
      sc_maxmem = maxmem n r\<rparr>"
  let ?text = "\<lambda>key. join ''$'' [''scrypt'', int_text n, int_text r, int_text p, b64encode salt, b64encode key]"
  obtain key where key: "scrypt (?call password) = Inr key" "encoded = ?text key"
    using assms(1) by (auto simp: hash_password_def map_sum_Inr_iff)
  have parses: "parse_hash (?text k) = Some \<lparr>ph_n = n, ph_r = r, ph_p = p, ph_salt = salt, ph_digest = k\<rparr> \<and> length k = KEY_BYTES"
    if "scrypt (?call pw) = Inr k" for pw k
  proof -
    have "length k = sc_dklen (?call pw) \<and> (\<forall>b \<in> set k. b < 256) \<and> 1 < n \<and> power_of_two n \<and> 1 \<le> r \<and> 1 \<le> p
        \<and> n < 2 ^ 64 \<and> r < 2 ^ 64 \<and> p < 2 ^ 64"
      using assms(2) that unfolding scrypt_ok_def by fastforce
    moreover from this have "k \<noteq> []" by (auto simp: KEY_BYTES_def)
    ultimately show ?thesis using assms(3,4) parse_hash_of_fields [of n r p salt k] by simp
  qed
  have "verify_password scrypt pw encoded = Inr True \<longleftrightarrow> scrypt (?call pw) = Inr key" for pw
    using parses [OF key(1)] key(2) by (auto simp: verify_password_def split: sum.splits if_splits)
  moreover have "hash_password scrypt salt attempt n r p = Inr encoded \<longleftrightarrow> scrypt (?call attempt) = Inr key"
  proof
    assume "hash_password scrypt salt attempt n r p = Inr encoded"
    then obtain k where k: "scrypt (?call attempt) = Inr k" "encoded = ?text k"
      by (auto simp: hash_password_def map_sum_Inr_iff)
    have "\<lparr>ph_n = n, ph_r = r, ph_p = p, ph_salt = salt, ph_digest = k\<rparr>
        = \<lparr>ph_n = n, ph_r = r, ph_p = p, ph_salt = salt, ph_digest = key\<rparr>"
      using parses [OF k(1)] parses [OF key(1)] key(2) k(2) by (metis option.inject)
    then show "scrypt (?call attempt) = Inr key" using k(1) by simp
  qed (simp add: hash_password_def key(2))
  ultimately show ?thesis using parses [OF key(1)] key by (simp add: validate_password_hash_def)
qed


definition sample_scrypt :: scrypt where
  "sample_scrypt c =
     (if 1 < sc_n c \<and> power_of_two (sc_n c) \<and> 1 \<le> sc_r c \<and> 1 \<le> sc_p c \<and> sc_n c < 2 ^ 64 \<and> sc_r c < 2 ^ 64
         \<and> sc_p c < 2 ^ 64
      then Inr (replicate (sc_dklen c) (sum_list (sc_password c) mod 256)) else Inl Scrypt_value_error)"

lemma sample_scrypt_ok: "scrypt_ok sample_scrypt"
  by (auto simp: scrypt_ok_def sample_scrypt_def)

lemma sample_hash:
  "hash_password sample_scrypt [1, 2, 3] password 16 8 1
   = Inr (join ''$'' [''scrypt'', ''16'', ''8'', ''1'', ''AQID'', b64encode (replicate 32 (sum_list (utf8_bytes password) mod 256))])"
proof -
  have "int_text 16 = ''16''" "int_text 8 = ''8''" "int_text 1 = ''1''"
    by (simp_all add: int_text_def nat_text.simps char_of_eq_iff)
  moreover have "b64encode [1, 2, 3] = ''AQID''" by (simp add: b64_char_def char_of_eq_iff)
  ultimately show ?thesis
    by (simp add: hash_password_def sample_scrypt_def power_of_two_def KEY_BYTES_def)
qed

theorem password_hash_verifies_witness:
  "\<exists>encoded. hash_password sample_scrypt [1, 2, 3] ''a long password'' 16 8 1 = Inr encoded
     \<and> verify_password sample_scrypt ''a long password'' encoded = Inr True
     \<and> verify_password sample_scrypt ''a wrong one'' encoded \<noteq> Inr True"
proof -
  obtain encoded where e: "hash_password sample_scrypt [1, 2, 3] ''a long password'' 16 8 1 = Inr encoded"
    using sample_hash by metis
  let ?key = "\<lambda>pw. replicate 32 (sum_list (utf8_bytes pw) mod 256)"
  have "?key ''a long password'' \<noteq> ?key ''a wrong one''" by (simp add: utf8_bytes_def utf8_def)
  moreover have "b64decode (b64encode (?key pw)) = Some (?key pw)" for pw by (rule b64decode_encode) simp
  ultimately have "b64encode (?key ''a long password'') \<noteq> b64encode (?key ''a wrong one'')" by (metis option.inject)
  then have "hash_password sample_scrypt [1, 2, 3] ''a wrong one'' 16 8 1 \<noteq> Inr encoded"
    using e unfolding sample_hash by auto
  with password_hash_verifies [OF e sample_scrypt_ok, of "''a wrong one''"] e show ?thesis by auto
qed

text \<open>An encoded hash whose cost no C \<^verbatim>\<open>long\<close> can bound.\<close>

definition huge_cost_hash :: string where
  "huge_cost_hash = ''scrypt$1152921504606846976$8$1$c2FsdA$aGFzaA''"

lemma parse_huge_cost_hash:
  "\<exists>salt key. parse_hash huge_cost_hash
     = Some \<lparr>ph_n = 1152921504606846976, ph_r = 8, ph_p = 1, ph_salt = salt, ph_digest = key\<rparr>"
proof -
  have "split_on CHR ''$'' huge_cost_hash = [''scrypt'', ''1152921504606846976'', ''8'', ''1'', ''c2FsdA'', ''aGFzaA'']"
    by (simp add: huge_cost_hash_def)
  moreover have "parse_int ''1152921504606846976'' = Some 1152921504606846976" "parse_int ''8'' = Some 8" "parse_int ''1'' = Some 1"
    by (simp_all add: parse_int_def strip_chars_def py_blank_def drop_sign_of_def is_digit_def digits_value_def)
  moreover have "power_of_two 1152921504606846976" by (simp add: power_of_two_def)
  moreover have "\<exists>x xs. b64decode ''c2FsdA'' = Some (x # xs)" "\<exists>x xs. b64decode ''aGFzaA'' = Some (x # xs)"
    by (simp_all add: b64decode_def b64_value_def numeral_2_eq_2)
  ultimately show ?thesis by (auto simp: parse_hash_def)
qed

text \<open>A hash of absurd cost passes the check at boot, and verifying against it does not answer \<^verbatim>\<open>False\<close> as the comment
  says: the \<^verbatim>\<open>OverflowError\<close> of a \<^verbatim>\<open>maxmem\<close> that no C \<^verbatim>\<open>long\<close> holds leaves \<^verbatim>\<open>verify_password\<close>.\<close>

theorem huge_cost_hash_raises:
  "validate_password_hash huge_cost_hash
   \<and> verify_password (\<lambda>c. if 2 ^ 63 \<le> sc_maxmem c then Inl Scrypt_overflow_error else scrypt c) password huge_cost_hash
     = Inl Scrypt_overflow_error"
  using parse_huge_cost_hash by (auto simp: validate_password_hash_def verify_password_def maxmem_def)

text \<open>Docker Compose reads the line of \<^verbatim>\<open>.env\<close> back as the hash.\<close>

fun read_dollars :: "string \<Rightarrow> string" where
  "read_dollars (c # d # s) = (if c = CHR ''$'' \<and> d = CHR ''$'' then CHR ''$'' # read_dollars s else c # read_dollars (d # s))"
| "read_dollars s = s"

lemma escape_dollar_simps [simp]:
  "escape_dollar_for_dotenv [] = []"
  "escape_dollar_for_dotenv (c # s) = (if c = CHR ''$'' then ''$$'' else [c]) @ escape_dollar_for_dotenv s"
  by (simp_all add: escape_dollar_for_dotenv_def)

lemma read_escape_dollar: "read_dollars (escape_dollar_for_dotenv s) = s"
proof (induction s)
  case (Cons c s)
  then show ?case by (cases "escape_dollar_for_dotenv s") (auto split: if_splits)
qed simp

end
