(* ===== verification/StrategyRegistry.thy ===== *)
theory StrategyRegistry
  imports SafeMode PyText
begin

text \<open>
  \<^verbatim>\<open>backend/strategy_registry\<close>: the registry of trading setups kept in memory (\<^verbatim>\<open>registry.py\<close>), its values
  (\<^verbatim>\<open>schemas.py\<close>) and its construction at boot from the section \<^verbatim>\<open>setup_registry\<close> of the configuration
  (\<^verbatim>\<open>loader.py\<close>). The clock is an argument of the operations that read it.
\<close>

subsection \<open>Values\<close>

datatype registry_error = SetupNotRegisteredError | DuplicateSetupError | Setup_ValueError

text \<open>
  The match of \<^verbatim>\<open>^(.+)_(v\d+)$\<close>: \<^verbatim>\<open>$\<close> also matches before a newline at the end, \<^verbatim>\<open>.\<close> matches no newline, and the
  digits are the longest run at the end, because \<^verbatim>\<open>v\<close> is none.
\<close>

definition drop_last_newline :: "string \<Rightarrow> string" where
  "drop_last_newline s = (if s \<noteq> [] \<and> last s = CHR 0x0A then butlast s else s)"

definition parse_setup_name :: "string \<Rightarrow> registry_error + (string \<times> string)" where
  "parse_setup_name name =
     (let s = rev (drop_last_newline name); digits = takeWhile is_digit s
      in case dropWhile is_digit s of
           v # u # slug \<Rightarrow>
             if digits \<noteq> [] \<and> v = CHR ''v'' \<and> u = CHR ''_'' \<and> slug \<noteq> [] \<and> CHR 0x0A \<notin> set slug
             then Inr (rev slug, CHR ''v'' # rev digits) else Inl Setup_ValueError
         | _ \<Rightarrow> Inl Setup_ValueError)"

record setup_parameters =
  sp_min_confidence_override :: "rat option"
  sp_preferred_regimes :: "string list"
  sp_signal_weights :: "(string, rat) dict"
  sp_tags :: "string list"

definition default_parameters :: setup_parameters where
  "default_parameters =
     \<lparr>sp_min_confidence_override = None, sp_preferred_regimes = [], sp_signal_weights = [], sp_tags = []\<rparr>"

definition make_setup_parameters :: "setup_parameters \<Rightarrow> setup_parameters result" where
  "make_setup_parameters p =
     (case sp_min_confidence_override p of
        Some c \<Rightarrow> if 0 \<le> c \<and> c \<le> 1 then Inr p else Inl ValidationError
      | None \<Rightarrow> Inr p)"

record setup_metadata =
  sm_description :: "string option"
  sm_author :: "string option"
  sm_notes :: "string option"
  sm_preferred_symbols :: "string list"

definition default_metadata :: setup_metadata where
  "default_metadata = \<lparr>sm_description = None, sm_author = None, sm_notes = None, sm_preferred_symbols = []\<rparr>"

record setup_definition =
  sd_name :: string
  sd_slug :: string
  sd_version :: string
  sd_parameters :: setup_parameters
  sd_metadata :: setup_metadata
  sd_is_active :: bool
  sd_registered_at :: int

definition make_setup_definition :: "setup_definition \<Rightarrow> registry_error + setup_definition" where
  "make_setup_definition d = bindE (parse_setup_name (sd_name d)) (\<lambda>_. Inr d)"

record registration_request =
  rq_name :: string
  rq_parameters :: setup_parameters
  rq_metadata :: setup_metadata

definition make_registration_request :: "registration_request \<Rightarrow> registry_error + registration_request" where
  "make_registration_request r = bindE (parse_setup_name (rq_name r)) (\<lambda>_. Inr r)"

record registry_snapshot =
  rs_total :: nat
  rs_active :: nat
  rs_setups :: "setup_definition list"
  rs_snapshot_at :: int

subsection \<open>The registry\<close>

record setup_registry =
  sr_setups :: "(string, setup_definition) dict"
  sr_allow_unregistered :: bool

definition new_registry :: "bool \<Rightarrow> setup_registry" where
  "new_registry allow = \<lparr>sr_setups = [], sr_allow_unregistered = allow\<rparr>"

definition register_setup ::
    "int \<Rightarrow> registration_request \<Rightarrow> setup_registry \<Rightarrow> (registry_error + setup_definition) \<times> setup_registry" where
  "register_setup now r reg =
     (if dict_get (sr_setups reg) (rq_name r) \<noteq> None then (Inl DuplicateSetupError, reg)
      else case parse_setup_name (rq_name r) of
             Inl e \<Rightarrow> (Inl e, reg)
           | Inr (slug, version) \<Rightarrow>
               (case make_setup_definition
                       \<lparr>sd_name = rq_name r, sd_slug = slug, sd_version = version, sd_parameters = rq_parameters r,
                        sd_metadata = rq_metadata r, sd_is_active = True, sd_registered_at = now\<rparr> of
                  Inl e \<Rightarrow> (Inl e, reg)
                | Inr d \<Rightarrow> (Inr d, reg\<lparr>sr_setups := dict_set (rq_name r) d (sr_setups reg)\<rparr>)))"

definition deactivate_setup :: "string \<Rightarrow> setup_registry \<Rightarrow> (registry_error + unit) \<times> setup_registry" where
  "deactivate_setup name reg =
     (case dict_get (sr_setups reg) name of
        None \<Rightarrow> (Inl SetupNotRegisteredError, reg)
      | Some current \<Rightarrow>
          (Inr (), reg\<lparr>sr_setups := dict_set name (current\<lparr>sd_is_active := False\<rparr>) (sr_setups reg)\<rparr>))"

definition get_setup :: "setup_registry \<Rightarrow> string \<Rightarrow> setup_definition option" where
  "get_setup reg name = dict_get (sr_setups reg) name"

definition validate_setup :: "int \<Rightarrow> setup_registry \<Rightarrow> string \<Rightarrow> registry_error + setup_definition" where
  "validate_setup now reg name =
     (case get_setup reg name of
        Some d \<Rightarrow> Inr d
      | None \<Rightarrow>
          if sr_allow_unregistered reg
          then bindE (parse_setup_name name) (\<lambda>(slug, version).
                 make_setup_definition
                   \<lparr>sd_name = name, sd_slug = slug, sd_version = version, sd_parameters = default_parameters,
                    sd_metadata = default_metadata, sd_is_active = True, sd_registered_at = now\<rparr>)
          else Inl SetupNotRegisteredError)"

definition list_active :: "setup_registry \<Rightarrow> setup_definition list" where
  "list_active reg = sort_key sd_name (filter sd_is_active (dict_values (sr_setups reg)))"

definition registry_snapshot_of :: "int \<Rightarrow> setup_registry \<Rightarrow> registry_snapshot" where
  "registry_snapshot_of now reg =
     (let all_setups = dict_values (sr_setups reg)
      in \<lparr>rs_total = length all_setups, rs_active = length (filter sd_is_active all_setups),
          rs_setups = sort_key sd_name all_setups, rs_snapshot_at = now\<rparr>)"

definition registry_len :: "setup_registry \<Rightarrow> nat" where
  "registry_len reg = length (sr_setups reg)"

definition registry_contains :: "setup_registry \<Rightarrow> string \<Rightarrow> bool" where
  "registry_contains reg name \<longleftrightarrow> dict_get (sr_setups reg) name \<noteq> None"

subsection \<open>Construction at boot\<close>

record setup_registry_config =
  sg_required :: bool
  sg_allow_unregistered_setups :: bool
  sg_initial_setups :: "string list"

definition default_request :: "string \<Rightarrow> registration_request" where
  "default_request name = \<lparr>rq_name = name, rq_parameters = default_parameters, rq_metadata = default_metadata\<rparr>"

fun register_all :: "int \<Rightarrow> string list \<Rightarrow> setup_registry \<Rightarrow> registry_error + setup_registry" where
  "register_all now [] reg = Inr reg"
| "register_all now (name # names) reg =
     (case make_registration_request (default_request name) of
        Inl e \<Rightarrow> Inl e
      | Inr r \<Rightarrow>
          (case register_setup now r reg of
             (Inl e, _) \<Rightarrow> Inl e
           | (Inr _, reg') \<Rightarrow> register_all now names reg'))"

definition build_registry_from_config :: "int \<Rightarrow> setup_registry_config \<Rightarrow> registry_error + setup_registry" where
  "build_registry_from_config now cfg =
     register_all now (sg_initial_setups cfg) (new_registry (sg_allow_unregistered_setups cfg))"

subsection \<open>Administration\<close>

datatype registry_op = Register registration_request int | Deactivate string

text \<open>One call of an administrator, whose exception leaves the registry as it was; a request must be constructed first.\<close>

fun apply_op :: "setup_registry \<Rightarrow> registry_op \<Rightarrow> setup_registry" where
  "apply_op reg (Register r now) =
     (case make_registration_request r of Inl e \<Rightarrow> reg | Inr r \<Rightarrow> snd (register_setup now r reg))"
| "apply_op reg (Deactivate name) = snd (deactivate_setup name reg)"

text \<open>What the history of one name says of it: \<open>None\<close> before it is registered, then whether it is active.\<close>

fun status_step :: "string \<Rightarrow> bool option \<Rightarrow> registry_op \<Rightarrow> bool option" where
  "status_step name st (Register r now) =
     (if rq_name r = name \<and> st = None \<and> \<not> isl (parse_setup_name name) then Some True else st)"
| "status_step name st (Deactivate n) = (if n = name \<and> st \<noteq> None then Some False else st)"

subsection \<open>Lemmas\<close>

lemma parse_setup_name_Inr:
  assumes "parse_setup_name name = Inr (slug, version)"
  shows "drop_last_newline name = slug @ ''_'' @ version \<and> slug \<noteq> []"
proof -
  let ?s = "rev (drop_last_newline name)"
  obtain rest where r: "dropWhile is_digit ?s = CHR ''v'' # CHR ''_'' # rest" "slug = rev rest" "rest \<noteq> []"
    "version = CHR ''v'' # rev (takeWhile is_digit ?s)"
    using assms by (auto simp: parse_setup_name_def Let_def split: list.splits if_splits)
  have "?s = takeWhile is_digit ?s @ CHR ''v'' # CHR ''_'' # rest"
    using takeWhile_dropWhile_id [of is_digit ?s] r(1) by simp
  then have "drop_last_newline name = rev (takeWhile is_digit ?s @ CHR ''v'' # CHR ''_'' # rest)"
    by (metis rev_rev_ident)
  with r show ?thesis by simp
qed

definition registry_ok :: "setup_registry \<Rightarrow> bool" where
  "registry_ok reg \<longleftrightarrow> distinct (dict_keys (sr_setups reg))
     \<and> list_all (\<lambda>(k, d). sd_name d = k \<and> parse_setup_name k = Inr (sd_slug d, sd_version d)) (sr_setups reg)"

lemma registry_ok_set:
  assumes "registry_ok reg" "sd_name d = k" "parse_setup_name k = Inr (sd_slug d, sd_version d)"
  shows "registry_ok (reg\<lparr>sr_setups := dict_set k d (sr_setups reg)\<rparr>)"
  using assms by (auto simp: registry_ok_def list_all_iff distinct_dict_set dest!: set_dict_setD)

lemma make_definition [simp]:
  "sd_name d = k \<Longrightarrow> parse_setup_name k = Inr p \<Longrightarrow> make_setup_definition d = Inr d"
  by (simp add: make_setup_definition_def)

lemma register_setup_cases:
  "register_setup now r reg =
     (if dict_get (sr_setups reg) (rq_name r) \<noteq> None then (Inl DuplicateSetupError, reg)
      else case parse_setup_name (rq_name r) of
             Inl e \<Rightarrow> (Inl e, reg)
           | Inr (slug, version) \<Rightarrow>
               (let d = \<lparr>sd_name = rq_name r, sd_slug = slug, sd_version = version, sd_parameters = rq_parameters r,
                         sd_metadata = rq_metadata r, sd_is_active = True, sd_registered_at = now\<rparr>
                in (Inr d, reg\<lparr>sr_setups := dict_set (rq_name r) d (sr_setups reg)\<rparr>)))"
  by (auto simp: register_setup_def make_setup_definition_def Let_def split: sum.splits)

lemma registry_ok_register: "registry_ok reg \<Longrightarrow> registry_ok (snd (register_setup now r reg))"
  by (auto simp: register_setup_cases Let_def registry_ok_set split: sum.splits)

lemma registry_ok_deactivate:
  assumes "registry_ok reg" shows "registry_ok (snd (deactivate_setup name reg))"
proof (cases "dict_get (sr_setups reg) name")
  case (Some d)
  then have "sd_name d = name \<and> parse_setup_name name = Inr (sd_slug d, sd_version d)"
    using assms map_of_SomeD [OF Some] by (auto simp: registry_ok_def list_all_iff)
  with assms Some show ?thesis by (simp add: deactivate_setup_def registry_ok_set)
qed (simp add: assms deactivate_setup_def)

lemma registry_ok_apply: "registry_ok reg \<Longrightarrow> registry_ok (apply_op reg a)"
  by (cases a) (auto simp: registry_ok_register registry_ok_deactivate split: sum.splits)

lemma registry_ok_new: "registry_ok (new_registry allow)"
  by (simp add: registry_ok_def new_registry_def)

lemma registry_ok_ops: "registry_ok reg \<Longrightarrow> registry_ok (foldl apply_op reg ops)"
  by (induction ops arbitrary: reg) (simp_all add: registry_ok_apply)

lemma allow_apply [simp]: "sr_allow_unregistered (apply_op reg a) = sr_allow_unregistered reg"
  by (cases a) (auto simp: register_setup_cases deactivate_setup_def Let_def split: sum.splits option.splits)

lemma status_apply:
  "map_option sd_is_active (get_setup (apply_op reg a) name)
   = status_step name (map_option sd_is_active (get_setup reg name)) a"
  by (cases a)
    (auto simp: get_setup_def register_setup_cases deactivate_setup_def make_registration_request_def bindE_def Let_def
      split: sum.splits option.splits)

lemma status_ops:
  "map_option sd_is_active (get_setup (foldl apply_op reg ops) name)
   = foldl (status_step name) (map_option sd_is_active (get_setup reg name)) ops"
  by (induction ops arbitrary: reg) (simp_all add: status_apply)

lemma allow_ops [simp]: "sr_allow_unregistered (foldl apply_op reg ops) = sr_allow_unregistered reg"
  by (induction ops arbitrary: reg) simp_all


lemma validate_setup_status:
  "map_sum id sd_is_active (validate_setup now reg name)
   = (case map_option sd_is_active (get_setup reg name) of
        Some active \<Rightarrow> Inr active
      | None \<Rightarrow> if \<not> sr_allow_unregistered reg then Inl SetupNotRegisteredError
                else map_sum id (\<lambda>_. True) (parse_setup_name name))"
  by (cases "parse_setup_name name") (auto simp: validate_setup_def split: option.splits)

text \<open>C30. After any calls of the administration the registry holds, of a name, exactly what its history says: a setup is
  found when it was registered under a name of the right form, and is listed as active until it is deactivated. The check
  before its use does not follow it in that: against its documentation, which promises a setup that exists and is active,
  \<^verbatim>\<open>validate\<close> only looks whether the name was ever registered and answers a deactivated setup like an active one, with
  its cleared flag for the caller to look at. A name that never was is refused, or, where the configuration allows it,
  answered with a fresh active definition.\<close>

theorem registry_lookup_history:
  "let reg = foldl apply_op (new_registry allow) ops
   in case foldl (status_step name) None ops of
        Some active \<Rightarrow> \<exists>d. get_setup reg name = Some d \<and> sd_name d = name \<and> sd_is_active d = active
          \<and> (d \<in> set (list_active reg)) = active \<and> validate_setup now reg name = Inr d
      | None \<Rightarrow> get_setup reg name = None \<and> map_sum id sd_is_active (validate_setup now reg name)
          = (if \<not> allow then Inl SetupNotRegisteredError else map_sum id (\<lambda>_. True) (parse_setup_name name))"
proof -
  define reg where "reg = foldl apply_op (new_registry allow) ops"
  have new: "map_option sd_is_active (get_setup (new_registry allow) name) = None" "sr_allow_unregistered (new_registry allow) = allow"
    by (simp_all add: get_setup_def new_registry_def)
  have st: "foldl (status_step name) None ops = map_option sd_is_active (get_setup reg name)"
    unfolding reg_def status_ops new(1) ..
  have allow: "sr_allow_unregistered reg = allow" by (simp add: reg_def new(2))
  show ?thesis
  proof (cases "get_setup reg name")
    case None
    with validate_setup_status [of now reg name] show ?thesis by (simp add: st reg_def [symmetric] allow)
  next
    case (Some d)
    have "(name, d) \<in> set (sr_setups reg)" using Some by (simp add: get_setup_def map_of_SomeD)
    moreover have "registry_ok reg" unfolding reg_def by (rule registry_ok_ops [OF registry_ok_new])
    ultimately have "sd_name d = name" "d \<in> set (dict_values (sr_setups reg))"
      by (force simp: registry_ok_def list_all_iff)+
    with Some show ?thesis
      by (simp add: st reg_def [symmetric] validate_setup_def list_active_def)
  qed
qed

lemma distinct_sort_filter: "distinct (map f xs) \<Longrightarrow> distinct (map f (sort_key f (filter P xs)))"
  by (auto simp: distinct_map inj_on_def)

text \<open>What the registry holds is coherent after any calls: a definition is stored under its own name, which reads as
  its slug and version; the active ones are listed in the order of their names, each once; the counts of a snapshot
  are those of its list.\<close>

theorem registry_coherent:
  "let reg = foldl apply_op (new_registry allow) ops; snap = registry_snapshot_of now reg
   in list_all (\<lambda>(k, d). sd_name d = k \<and> drop_last_newline k = sd_slug d @ ''_'' @ sd_version d) (sr_setups reg)
     \<and> sorted (map sd_name (list_active reg)) \<and> distinct (map sd_name (list_active reg))
     \<and> set (list_active reg) = {d \<in> set (rs_setups snap). sd_is_active d}
     \<and> rs_total snap = length (rs_setups snap) \<and> rs_active snap = length (list_active reg)"
proof -
  let ?reg = "foldl apply_op (new_registry allow) ops"
  have ok: "registry_ok ?reg" by (rule registry_ok_ops [OF registry_ok_new])
  then have names: "map sd_name (dict_values (sr_setups ?reg)) = dict_keys (sr_setups ?reg)"
    by (auto simp: registry_ok_def list_all_iff)
  then have "distinct (map sd_name (dict_values (sr_setups ?reg)))" unfolding names using ok by (simp only: registry_ok_def)
  then have "distinct (map sd_name (list_active ?reg))"
    unfolding list_active_def by (rule distinct_sort_filter)
  moreover have "list_all (\<lambda>(k, d). sd_name d = k \<and> drop_last_newline k = sd_slug d @ ''_'' @ sd_version d) (sr_setups ?reg)"
    using ok parse_setup_name_Inr by (fastforce simp: registry_ok_def list_all_iff)
  ultimately show ?thesis
    by (auto simp: Let_def list_active_def registry_snapshot_of_def)
qed

lemma register_setup_new:
  assumes "parse_setup_name n = Inr p" "dict_get (sr_setups reg) n = None"
  shows "\<exists>d. register_setup now (default_request n) reg = (Inr d, reg\<lparr>sr_setups := sr_setups reg @ [(n, d)]\<rparr>)
    \<and> sd_name d = n \<and> sd_is_active d"
proof -
  have "dict_set n d xs = xs @ [(n, d)]" if "dict_get xs n = None" for xs :: "(string, setup_definition) dict" and d
    using that by (induction xs) auto
  with assms show ?thesis
    by (cases p) (auto simp: register_setup_cases default_request_def Let_def)
qed

lemma register_all_Inr_iff:
  "(\<exists>reg'. register_all now names reg = Inr reg') \<longleftrightarrow>
     list_all (\<lambda>n. \<not> isl (parse_setup_name n)) names \<and> distinct names
     \<and> list_all (\<lambda>n. dict_get (sr_setups reg) n = None) names"
proof (induction names arbitrary: reg)
  case (Cons n names)
  show ?case
  proof (cases "\<not> isl (parse_setup_name n) \<and> dict_get (sr_setups reg) n = None")
    case True
    then obtain p where p: "parse_setup_name n = Inr p" by (cases "parse_setup_name n") auto
    with True obtain d where d: "register_setup now (default_request n) reg
        = (Inr d, reg\<lparr>sr_setups := sr_setups reg @ [(n, d)]\<rparr>)" using register_setup_new by blast
    have "(dict_get (sr_setups reg @ [(n, d)]) m = None) \<longleftrightarrow> dict_get (sr_setups reg) m = None \<and> m \<noteq> n" for m
      using True by (auto simp: map_add_def split: option.splits)
    with True p d Cons.IH [of "reg\<lparr>sr_setups := sr_setups reg @ [(n, d)]\<rparr>"] show ?thesis
      by (auto simp: make_registration_request_def default_request_def list_all_iff)
  next
    case False
    then show ?thesis
      by (auto simp: make_registration_request_def default_request_def register_setup_cases bindE_def split: sum.splits)
  qed
qed simp

lemma register_all_contents:
  "register_all now names reg = Inr reg' \<Longrightarrow> \<exists>ds. reg' = reg\<lparr>sr_setups := sr_setups reg @ zip names ds\<rparr>
     \<and> map sd_name ds = names \<and> list_all sd_is_active ds"
proof (induction names arbitrary: reg)
  case (Cons n names)
  then have "list_all (\<lambda>m. dict_get (sr_setups reg) m = None) (n # names)" and v: "\<not> isl (parse_setup_name n)"
    using register_all_Inr_iff [of now "n # names" reg] by auto
  moreover obtain p where p: "parse_setup_name n = Inr p" using v by (cases "parse_setup_name n") auto
  ultimately obtain d where d: "register_setup now (default_request n) reg
      = (Inr d, reg\<lparr>sr_setups := sr_setups reg @ [(n, d)]\<rparr>)" "sd_name d = n" "sd_is_active d"
    using register_setup_new [OF p, of reg now] by auto
  have "register_all now names (reg\<lparr>sr_setups := sr_setups reg @ [(n, d)]\<rparr>) = Inr reg'"
    using Cons.prems p d by (simp add: make_registration_request_def default_request_def)
  from Cons.IH [OF this] obtain ds where "reg' = reg\<lparr>sr_setups := sr_setups reg @ [(n, d)] @ zip names ds\<rparr>"
    "map sd_name ds = names" "list_all sd_is_active ds" by auto
  with d show ?case by (intro exI [of _ "d # ds"]) simp
qed (auto intro: exI [of _ "[]"])

text \<open>The registry is built at boot exactly when every configured name has the right form and none is repeated, and
  then holds one active setup for each, in the order of the configuration.\<close>

theorem registry_boot_exact:
  "case build_registry_from_config now cfg of
     Inl e \<Rightarrow> \<not> (distinct (sg_initial_setups cfg) \<and> filter (isl \<circ> parse_setup_name) (sg_initial_setups cfg) = [])
   | Inr reg \<Rightarrow> distinct (sg_initial_setups cfg) \<and> filter (isl \<circ> parse_setup_name) (sg_initial_setups cfg) = []
       \<and> dict_keys (sr_setups reg) = sg_initial_setups cfg
       \<and> map sd_name (dict_values (sr_setups reg)) = sg_initial_setups cfg
       \<and> list_all sd_is_active (dict_values (sr_setups reg))"
proof -
  let ?names = "sg_initial_setups cfg" and ?reg = "new_registry (sg_allow_unregistered_setups cfg)"
  have iff: "(\<exists>reg'. register_all now ?names ?reg = Inr reg') \<longleftrightarrow>
      filter (isl \<circ> parse_setup_name) ?names = [] \<and> distinct ?names"
    unfolding register_all_Inr_iff by (auto simp: new_registry_def list_all_iff filter_empty_conv)
  show ?thesis
  proof (cases "register_all now ?names ?reg")
    case (Inl e)
    then show ?thesis using iff by (auto simp: build_registry_from_config_def)
  next
    case (Inr reg)
    from register_all_contents [OF this] obtain ds where "sr_setups reg = zip ?names ds" "map sd_name ds = ?names"
      "list_all sd_is_active ds" by (auto simp: new_registry_def)
    moreover from this have "length ds = length ?names" by (metis length_map)
    ultimately show ?thesis using Inr iff by (auto simp: build_registry_from_config_def)
  qed
qed

end
