(* ===== verification/Spec2Isabelle.thy ===== *)
theory Spec2Isabelle
  imports DecisionProperties ManagerProperties WorkerProperties GptProperties AuthProperties BacktestProperties BingxProperties Fetchers ReplayProperties DashboardProperties AuditTrail ConfigOverrides Repositories MarketRows
    PasswordHash StrategyRegistry Features
begin

text \<open>
  A verification library of the trading bot in \<^verbatim>\<open>src/backend\<close>.

  \<^bold>\<open>The program.\<close> A worker (\<^verbatim>\<open>worker/run_worker.py\<close>) builds an orchestrator
  (\<^verbatim>\<open>trading_core/orchestrator.py\<close>), which starts a run in the database and drives the loop of
  \<^verbatim>\<open>trading_core/cycle_runner.py\<close>. One iteration reads the state of the bot from the database, fetches and
  analyses the market for each symbol, watches the health of the connection, ticks the open positions, compares
  database and exchange, and then runs for every symbol the decision pipeline: the language model proposes, the
  aggregator may veto, the costs are estimated, the risk engine validates, the execution engine places the order
  on the exchange and hands the position over to the position manager. The dashboard is a second process that
  shares the database: it can throw the kill switch, and it is protected by a login. Offline, the same pipeline is
  run over stored snapshots (\<^verbatim>\<open>replay\<close>), and strategies over stored candles (\<^verbatim>\<open>backtesting\<close>).

  \<^bold>\<open>Theories, bottom up.\<close>
  \<^item> \<^theory_text>\<open>Prelude\<close>: errors as sums, ordered dictionaries, the collection \<^theory_text>\<open>py_simps\<close>. \<^theory_text>\<open>PyNumbers\<close>: Python's
    \<^verbatim>\<open>Decimal\<close> (28 digits) and \<^verbatim>\<open>float\<close> (53 bits) as rationals under a rounding operator; the locale \<^theory_text>\<open>rounding\<close>
    holds what both share and is interpreted on \<^theory_text>\<open>fl\<close> and \<^theory_text>\<open>dec\<close>. Overflow, subnormals' underflow to infinity
    and NaN are outside.
  \<^item> \<^theory_text>\<open>AppConfig\<close>, \<^theory_text>\<open>ConfigOverrides\<close> (\<^verbatim>\<open>core/config.py\<close>), \<^theory_text>\<open>BotStateMachine\<close>, \<^theory_text>\<open>ModelDecision\<close>
    (\<^verbatim>\<open>decision_engine/schemas.py\<close>), \<^theory_text>\<open>MarketData\<close>, \<^theory_text>\<open>Exchange\<close> (\<^verbatim>\<open>exchange_adapters/schemas.py\<close> and, as the locale
    \<^theory_text>\<open>exchange_adapter\<close>, the contract of \<^verbatim>\<open>base.py\<close>), \<^theory_text>\<open>Costs\<close> (slippage, fees, funding).
  \<^item> \<^theory_text>\<open>QuantSignals\<close>, \<^theory_text>\<open>MarketRegime\<close>, \<^theory_text>\<open>Volatility\<close>: the analysis of a snapshot in float arithmetic;
    \<^theory_text>\<open>MarketCycle\<close>: the round over the symbols and the cache of prices; \<^theory_text>\<open>MarketRows\<close>: the rows that it stores.
  \<^item> \<^theory_text>\<open>Aggregator\<close>, \<^theory_text>\<open>RiskChecks\<close>, \<^theory_text>\<open>RiskEngine\<close>: from a decision to an approval.
  \<^item> \<^theory_text>\<open>PaperAdapter\<close>: the simulated exchange, on which \<^theory_text>\<open>exchange_adapter\<close> is interpreted. \<^theory_text>\<open>ExitLogic\<close>,
    \<^theory_text>\<open>PositionManager\<close> with its \<^theory_text>\<open>PositionManagerFacts\<close>, \<^theory_text>\<open>PositionTriggers\<close> (the locale \<^theory_text>\<open>monitored_exchange\<close>: what a
    tick keeps on any adapter), \<^theory_text>\<open>PositionTicks\<close> (its interpretation on the simulated exchange, the service of all
    symbols).
  \<^item> \<^theory_text>\<open>Storage\<close>: the rows and the session, as a pair of the committed tables and the working copy, with the
    queries that the program makes. \<^theory_text>\<open>Repositories\<close>: the inherited operations, with their contract as a locale, and
    the remaining queries. \<^theory_text>\<open>ExecutionEngine\<close> with \<^theory_text>\<open>ExecutionFacts\<close>, \<^theory_text>\<open>EmergencyStop\<close>, \<^theory_text>\<open>SafeMode\<close>
    (\<^verbatim>\<open>connection_health\<close>), \<^theory_text>\<open>Reconciliation\<close>, \<^theory_text>\<open>DecisionAudit\<close>, \<^theory_text>\<open>AuditTrail\<close>
    (\<^verbatim>\<open>storage/audit.py\<close>).
  \<^item> \<^theory_text>\<open>CycleRunner\<close> with \<^theory_text>\<open>CycleFacts\<close> and \<^theory_text>\<open>CycleTicks\<close>, \<^theory_text>\<open>Orchestrator\<close>: the loop, the start and the end of a run.
  \<^item> \<^theory_text>\<open>Retry\<close>, \<^theory_text>\<open>TokenBudget\<close>, \<^theory_text>\<open>GptClient\<close> with \<^theory_text>\<open>GptFacts\<close>: a request to the language model.
  \<^item> \<^theory_text>\<open>LoginThrottle\<close>, \<^theory_text>\<open>AuthTokens\<close>, \<^theory_text>\<open>PasswordHash\<close>: the login, the session tokens and the password hashes of the
    dashboard. \<^theory_text>\<open>PyText\<close>: the text functions of Python that the hashes, the wire format and the reports use.
  \<^item> \<^theory_text>\<open>BingxHttp\<close>, \<^theory_text>\<open>BingxAdapter\<close> with \<^theory_text>\<open>BingxFacts\<close>, \<^theory_text>\<open>BingxWire\<close>: the signed requests to the real exchange
    (\<^verbatim>\<open>exchange_adapters/bingx_adapter.py\<close>) over a network that is a function of the requests so far. \<^theory_text>\<open>Fetchers\<close>: the
    market data fetchers (\<^verbatim>\<open>market_data/fetcher.py\<close>, \<^verbatim>\<open>bingx_fetcher.py\<close>).
  \<^item> \<^theory_text>\<open>Features\<close> (\<^verbatim>\<open>feature_engineering\<close>), \<^theory_text>\<open>StrategyRegistry\<close> (\<^verbatim>\<open>strategy_registry\<close>).
  \<^item> \<^theory_text>\<open>BacktestMetrics\<close>, \<^theory_text>\<open>Backtest\<close> with \<^theory_text>\<open>BacktestFacts\<close>, \<^theory_text>\<open>BacktestValidation\<close>, \<^theory_text>\<open>BacktestSamples\<close>: the engine over
    candles, its cost models, its metrics, and the split and walk-forward validation (\<^verbatim>\<open>backtesting\<close>).
  \<^item> \<^theory_text>\<open>Replay\<close>, \<^theory_text>\<open>ReplayReport\<close>: the replay of stored snapshots, its metrics, rows and comparison (\<^verbatim>\<open>replay\<close>).
  \<^item> \<^theory_text>\<open>Dashboard\<close>: the read endpoints of \<^verbatim>\<open>api\<close>, their pages, ranges and queries, behind the session check.

  \<^bold>\<open>How state and effects are modelled.\<close> A class is a record of its attributes, a method a function from the
  record to the record, a raise the \<open>Inl\<close> of a sum. The session of the database is passed along; a commit copies
  the working tables. What other processes commit, the clock, fresh identifiers, the answers of the network, the
  outcome of a commit and the request to shut down are inputs of the step in which the code meets them, so a
  theorem over all inputs is one over all interleavings at those points. Fetchers, the model, the HTTP transport,
  JSON, hashing and the functions of the C library of floats are parameters; what is needed of them is a named
  hypothesis (\<^theory_text>\<open>honest_fetcher\<close>, \<^theory_text>\<open>codec_ok\<close>, \<^theory_text>\<open>pow_ok\<close>, \<^theory_text>\<open>texts_read_back\<close>).

  \<^bold>\<open>What the properties show.\<close> They are in the theories whose name ends in \<open>Properties\<close>, each after a
  text that names it.
  \<^item> \<^theory_text>\<open>WorkerProperties\<close>: no order without every gate, the exact rules of the risk engine among them; an iteration
    as steps of the state machine, of which those of the worker itself can only go from ACTIVE to SAFE_MODE; the limit
    of positions over whole runs; stops survive restarts; kill switch and reconciliation stop the entries; a
    requested shutdown closes the run.
  \<^item> \<^theory_text>\<open>RiskProperties\<close>, \<^theory_text>\<open>DecisionProperties\<close>: an approval is given exactly when every blocking rule lets the
    decision through, liquidation and exit plan included, and stays within the caps; missing data block; the
    aggregator only vetoes; a validated decision is coherent.
  \<^item> \<^theory_text>\<open>ExecutionProperties\<close>: idempotence by the id of the decision, completeness of a registered position, and the
    gap between a fill and an exit configuration that an ATR of zero makes impossible.
  \<^item> \<^theory_text>\<open>PaperProperties\<close>, \<^theory_text>\<open>ManagerProperties\<close>: well-formedness of the simulated exchange; a tick is local, and a
    crossed stop asks for the whole position at market, before anything else has a say.
  \<^item> \<^theory_text>\<open>GptProperties\<close>: retries are bounded, the breaker is a counter with a clock, no answer is trusted; a failure
    of the client raises for an entry and leaves an exit to its deterministic rules.
  \<^item> \<^theory_text>\<open>AuthProperties\<close>, \<^theory_text>\<open>PasswordHash\<close>: brute force is bounded as long as nobody logs in with the identity attacked
    (a success clears its counters), access needs a signed token, a hash verifies.
  \<^item> \<^theory_text>\<open>BingxProperties\<close>: no order before the account and the symbol are set up and the exchange was asked for that
    order, an order that is returned is held by the exchange, and the signed text reads back as the request.
  \<^item> \<^theory_text>\<open>BacktestProperties\<close>: entries follow earlier signals, no lookahead, no leak between the windows, a pending close
    that is applied to the next position, and a slippage that is charged twice.
  \<^item> \<^theory_text>\<open>ReplayProperties\<close>: a stored snapshot reads back when its numbers fit their columns and its texts their
    parsers, steps depend on the past, and where the replay and its report differ from what the bot would do.
  \<^item> \<^theory_text>\<open>DashboardProperties\<close>: a walk over the pages shows every row once, unless two rows carry the same instant; then
    it can miss either.
  \<^item> \<^theory_text>\<open>StrategyRegistry\<close>, \<^theory_text>\<open>Features\<close>: the registry holds what the history of a name says, and validates a
    deactivated one all the same; hashes of features and their collisions.

  \<^bold>\<open>Bounds and fuel.\<close> Loops over lists recurse on the list; the loop of the worker recurses on the list of the
  inputs of its iterations and answers \<open>RUNNING_ON\<close> when the list ends first, so that leaving the loop is a
  proved statement (\<^theory_text>\<open>run_is_closed\<close>). The retry loop counts its remaining attempts. There is no other fuel.

  \<^bold>\<open>Not modelled.\<close> The text of the prompts, which no modelled code reads back; the parsing of YAML and the
  conversion of its tree into the sections of the configuration; the fields of the model's answer that are only
  stored (its interpretations and notes); logging, the migrations, the tables that no code writes, the
  static files of the frontend and the scripts. Between the checks of an iteration the program is sequential, so threads appear only as the timeout of an
  order, which is an input. Base64, JSON and the checks of the claims of a session token are one parameter (\<open>tl_read\<close>), a
  password is verified or not (the exception of \<^theory_text>\<open>huge_cost_hash_raises\<close> does not reach the model of the login), the
  listings show whole rows where the code projects them, the foreign keys of the stored features are not checked, and
  the commits of the execution engine succeed.
\<close>

end
